(* ===== verification/Rust_Text.thy ===== *)
theory Rust_Text
  imports Prelude "HOL-Library.Sublist"
begin

text \<open>
  The \<open>str\<close> and \<open>String\<close> methods the sources call. A string is the list of its UTF-8 bytes,
  so \<open>length\<close> is \<open>str::len\<close>; the methods that work on characters (\<open>trim\<close>, \<open>chars\<close>) are
  written out on the encoding. \<open>to_lowercase\<close> needs the Unicode tables for non-ASCII text and
  takes that part as an argument.
\<close>

subsection \<open>ASCII\<close>

definition byte :: "char \<Rightarrow> nat" where
  "byte c = of_char c"

definition is_ascii :: "string \<Rightarrow> bool" where
  "is_ascii s = list_all (\<lambda>c. byte c < 128) s"

definition ascii_upper :: "char \<Rightarrow> bool" where
  "ascii_upper c \<longleftrightarrow> 65 \<le> byte c \<and> byte c \<le> 90"

definition ascii_lower :: "char \<Rightarrow> bool" where
  "ascii_lower c \<longleftrightarrow> 97 \<le> byte c \<and> byte c \<le> 122"

definition ascii_digit :: "char \<Rightarrow> bool" where
  "ascii_digit c \<longleftrightarrow> 48 \<le> byte c \<and> byte c \<le> 57"

definition ascii_alphanumeric :: "char \<Rightarrow> bool" where
  "ascii_alphanumeric c \<longleftrightarrow> ascii_upper c \<or> ascii_lower c \<or> ascii_digit c"

definition char_to_ascii_lowercase :: "char \<Rightarrow> char" where
  "char_to_ascii_lowercase c = (if ascii_upper c then char_of (byte c + 32) else c)"

definition to_ascii_lowercase :: "string \<Rightarrow> string" where
  "to_ascii_lowercase s = map char_to_ascii_lowercase s"

definition to_lowercase :: "(string \<Rightarrow> string) \<Rightarrow> string \<Rightarrow> string" where
  "to_lowercase unicode_lower s =
     (if is_ascii s then to_ascii_lowercase s else unicode_lower s)"

lemma byte_less [simp]: "byte c < 256"
  by (simp add: byte_def)

lemma byte_char_of [simp]: "byte (char_of n) = n mod 256"
  by (simp add: byte_def)

lemma char_to_ascii_lowercase_not_upper [simp]: "\<not> ascii_upper (char_to_ascii_lowercase c)"
  by (auto simp: char_to_ascii_lowercase_def ascii_upper_def)

lemma char_to_ascii_lowercase_id [simp]:
  "\<not> ascii_upper c \<Longrightarrow> char_to_ascii_lowercase c = c"
  by (simp add: char_to_ascii_lowercase_def)

lemma char_to_ascii_lowercase_cases:
  "char_to_ascii_lowercase c = c \<or> (ascii_upper c \<and> ascii_lower (char_to_ascii_lowercase c))"
  by (auto simp: char_to_ascii_lowercase_def ascii_upper_def ascii_lower_def)

lemma to_ascii_lowercase_idem [simp]:
  "to_ascii_lowercase (to_ascii_lowercase s) = to_ascii_lowercase s"
  by (simp add: to_ascii_lowercase_def)

lemma to_ascii_lowercase_Nil [simp]: "to_ascii_lowercase s = [] \<longleftrightarrow> s = []"
  by (simp add: to_ascii_lowercase_def)

lemma length_to_ascii_lowercase [simp]: "length (to_ascii_lowercase s) = length s"
  by (simp add: to_ascii_lowercase_def)

subsection \<open>Trimming\<close>

text \<open>
  \<open>str::trim\<close> removes characters with the Unicode property White_Space. These are the
  encodings of its twenty-five characters; in valid UTF-8 a byte sequence equal to one of them
  is that character.
\<close>

definition bytes :: "nat list \<Rightarrow> string" where
  "bytes ns = map char_of ns"

definition whitespace_encodings :: "string list" where
  "whitespace_encodings = map bytes
     ([[9], [10], [11], [12], [13], [32], [194, 133], [194, 160], [225, 154, 128]] @
      map (\<lambda>n. [226, 128, n]) [128, 129, 130, 131, 132, 133, 134, 135, 136, 137, 138, 168, 169, 175] @
      [[226, 129, 159], [227, 128, 128]])"

definition leading_whitespace :: "string \<Rightarrow> string option" where
  "leading_whitespace s = List.find (\<lambda>e. prefix e s) whitespace_encodings"

definition trailing_whitespace :: "string \<Rightarrow> string option" where
  "trailing_whitespace s = List.find (\<lambda>e. suffix e s) whitespace_encodings"

lemma whitespace_encodings_nonempty: "[] \<notin> set whitespace_encodings"
  by (simp add: whitespace_encodings_def bytes_def)

lemma whitespace_encodings_code [code]:
  "whitespace_encodings =
     [[CHR 0x09], [CHR 0x0A], [CHR 0x0B],
      [CHR 0x0C], [CHR 0x0D], [CHR 0x20],
      [CHR 0xC2, CHR 0x85], [CHR 0xC2, CHR 0xA0], [CHR 0xE1, CHR 0x9A, CHR 0x80],
      [CHR 0xE2, CHR 0x80, CHR 0x80], [CHR 0xE2, CHR 0x80, CHR 0x81], [CHR 0xE2, CHR 0x80, CHR 0x82],
      [CHR 0xE2, CHR 0x80, CHR 0x83], [CHR 0xE2, CHR 0x80, CHR 0x84], [CHR 0xE2, CHR 0x80, CHR 0x85],
      [CHR 0xE2, CHR 0x80, CHR 0x86], [CHR 0xE2, CHR 0x80, CHR 0x87], [CHR 0xE2, CHR 0x80, CHR 0x88],
      [CHR 0xE2, CHR 0x80, CHR 0x89], [CHR 0xE2, CHR 0x80, CHR 0x8A], [CHR 0xE2, CHR 0x80, CHR 0xA8],
      [CHR 0xE2, CHR 0x80, CHR 0xA9], [CHR 0xE2, CHR 0x80, CHR 0xAF], [CHR 0xE2, CHR 0x81, CHR 0x9F],
      [CHR 0xE3, CHR 0x80, CHR 0x80]]"
  by (simp add: whitespace_encodings_def bytes_def char_of_def bit_iff_odd)

text \<open>
  For evaluation: a string that starts (ends) with a printing ASCII character has no
  leading (trailing) white space.
\<close>

fun graphic_ascii :: "char \<Rightarrow> bool" where
  "graphic_ascii (Char b0 b1 b2 b3 b4 b5 b6 b7) \<longleftrightarrow>
     \<not> b7 \<and> (b6 \<or> (b5 \<and> (b0 \<or> b1 \<or> b2 \<or> b3 \<or> b4)))"

lemma whitespace_not_graphic:
  "list_all (\<lambda>e. \<not> graphic_ascii (hd e) \<and> \<not> graphic_ascii (last e)) whitespace_encodings"
  by (simp add: whitespace_encodings_code)

lemma leading_whitespace_length:
  "leading_whitespace s = Some e \<Longrightarrow> 0 < length e \<and> length e \<le> length s"
  using whitespace_encodings_nonempty
  by (auto simp: leading_whitespace_def dest!: find_Some_in intro: prefix_length_le)

lemma trailing_whitespace_length:
  "trailing_whitespace s = Some e \<Longrightarrow> 0 < length e \<and> length e \<le> length s"
  using whitespace_encodings_nonempty
  by (auto simp: trailing_whitespace_def dest!: find_Some_in intro: suffix_length_le)

lemma leading_whitespace_code [code]:
  "leading_whitespace s =
     (if s \<noteq> [] \<and> graphic_ascii (hd s) then None
      else List.find (\<lambda>e. prefix e s) whitespace_encodings)"
proof -
  have "graphic_ascii (hd s) \<Longrightarrow> s \<noteq> [] \<Longrightarrow> e \<in> set whitespace_encodings \<Longrightarrow> \<not> prefix e s" for e
    using whitespace_not_graphic whitespace_encodings_nonempty
    by (cases e) (auto simp: list_all_iff prefix_def)
  then show ?thesis by (auto simp: leading_whitespace_def find_None_iff_all)
qed

lemma trailing_whitespace_code [code]:
  "trailing_whitespace s =
     (if s \<noteq> [] \<and> graphic_ascii (last s) then None
      else List.find (\<lambda>e. suffix e s) whitespace_encodings)"
proof -
  have "graphic_ascii (last s) \<Longrightarrow> s \<noteq> [] \<Longrightarrow> e \<in> set whitespace_encodings \<Longrightarrow> \<not> suffix e s" for e
    using whitespace_not_graphic whitespace_encodings_nonempty
    by (cases e rule: rev_cases) (auto simp: list_all_iff suffix_def)
  then show ?thesis by (auto simp: trailing_whitespace_def find_None_iff_all)
qed

lemma diff_less_length: "length e \<le> length s \<Longrightarrow> e \<noteq> [] \<Longrightarrow> length s - length e < length s"
  by (cases e) auto

function trim_start :: "string \<Rightarrow> string" where
  "trim_start s =
     (case leading_whitespace s of None \<Rightarrow> s | Some e \<Rightarrow> trim_start (drop (length e) s))"
  by pat_completeness auto
termination
  by (relation "measure length") (auto dest!: leading_whitespace_length intro: diff_less_length)

function trim_end :: "string \<Rightarrow> string" where
  "trim_end s =
     (case trailing_whitespace s of
        None \<Rightarrow> s | Some e \<Rightarrow> trim_end (take (length s - length e) s))"
  by pat_completeness auto
termination
  by (relation "measure length") (auto dest!: trailing_whitespace_length intro: diff_less_length)

declare trim_start.simps [simp del] trim_end.simps [simp del]

definition trim :: "string \<Rightarrow> string" where
  "trim s = trim_end (trim_start s)"

lemma trim_start_no_leading: "leading_whitespace (trim_start s) = None"
proof (induction s rule: trim_start.induct)
  case (1 s)
  then show ?case
    by (cases "leading_whitespace s") (simp_all add: trim_start.simps [of s])
qed

lemma trim_end_no_trailing: "trailing_whitespace (trim_end s) = None"
proof (induction s rule: trim_end.induct)
  case (1 s)
  then show ?case
    by (cases "trailing_whitespace s") (simp_all add: trim_end.simps [of s])
qed

lemma trim_start_suffix: "suffix (trim_start s) s"
proof (induction s rule: trim_start.induct)
  case (1 s)
  show ?case
  proof (cases "leading_whitespace s")
    case (Some e)
    with 1 have "suffix (trim_start (drop (length e) s)) (drop (length e) s)" by simp
    then have "suffix (trim_start (drop (length e) s)) s"
      using suffix_drop suffix_order.trans by blast
    with Some show ?thesis by (simp add: trim_start.simps [of s])
  qed (simp add: trim_start.simps [of s])
qed

lemma trim_end_prefix: "prefix (trim_end s) s"
proof (induction s rule: trim_end.induct)
  case (1 s)
  show ?case
  proof (cases "trailing_whitespace s")
    case (Some e)
    with 1 have "prefix (trim_end (take (length s - length e) s)) (take (length s - length e) s)"
      by simp
    then have "prefix (trim_end (take (length s - length e) s)) s"
      using prefix_order.trans take_is_prefix by blast
    with Some show ?thesis by (simp add: trim_end.simps [of s])
  qed (simp add: trim_end.simps [of s])
qed

lemma leading_whitespace_prefix_None:
  "prefix t s \<Longrightarrow> leading_whitespace s = None \<Longrightarrow> leading_whitespace t = None"
  by (auto simp: leading_whitespace_def find_None_iff_all intro: prefix_order.trans)

lemma leading_whitespace_trim [simp]: "leading_whitespace (trim s) = None"
  unfolding trim_def
  using leading_whitespace_prefix_None trim_end_prefix trim_start_no_leading by blast

lemma trailing_whitespace_trim [simp]: "trailing_whitespace (trim s) = None"
  by (simp add: trim_def trim_end_no_trailing)

lemma trim_fixed:
  "leading_whitespace s = None \<Longrightarrow> trailing_whitespace s = None \<Longrightarrow> trim s = s"
  by (simp add: trim_def trim_start.simps trim_end.simps)

lemma trim_idem [simp]: "trim (trim s) = trim s"
  by (simp add: trim_fixed)

lemma set_trim: "set (trim s) \<subseteq> set s"
  unfolding trim_def
  using set_mono_prefix [OF trim_end_prefix, of "trim_start s"]
    set_mono_suffix [OF trim_start_suffix, of s] by blast

lemma whitespace_bytes_not_graphic:
  "e \<in> set whitespace_encodings \<Longrightarrow> c \<in> set e \<Longrightarrow> \<not> graphic_ascii c"
  by (auto simp: whitespace_encodings_code)

lemma trim_start_keeps_graphic: "c \<in> set s \<Longrightarrow> graphic_ascii c \<Longrightarrow> c \<in> set (trim_start s)"
proof (induction s rule: trim_start.induct)
  case (1 s)
  show ?case
  proof (cases "leading_whitespace s")
    case (Some e)
    then have e: "e \<in> set whitespace_encodings" "prefix e s"
      by (auto simp: leading_whitespace_def dest: find_Some_in)
    then have "s = e @ drop (length e) s" by (auto simp: prefix_def)
    with 1(2) have "c \<in> set e \<or> c \<in> set (drop (length e) s)" by (metis Un_iff set_append)
    with 1(3) e(1) have "c \<in> set (drop (length e) s)" using whitespace_bytes_not_graphic by blast
    with 1 Some show ?thesis by (simp add: trim_start.simps [of s])
  qed (use 1 in \<open>simp add: trim_start.simps [of s]\<close>)
qed

lemma trim_end_keeps_graphic: "c \<in> set s \<Longrightarrow> graphic_ascii c \<Longrightarrow> c \<in> set (trim_end s)"
proof (induction s rule: trim_end.induct)
  case (1 s)
  show ?case
  proof (cases "trailing_whitespace s")
    case (Some e)
    then have e: "e \<in> set whitespace_encodings" "suffix e s"
      by (auto simp: trailing_whitespace_def dest: find_Some_in)
    then have "s = take (length s - length e) s @ e" by (auto simp: suffix_def)
    with 1(2) have "c \<in> set e \<or> c \<in> set (take (length s - length e) s)"
      by (metis Un_iff set_append)
    with 1(3) e(1) have "c \<in> set (take (length s - length e) s)"
      using whitespace_bytes_not_graphic by blast
    with 1 Some show ?thesis by (simp add: trim_end.simps [of s])
  qed (use 1 in \<open>simp add: trim_end.simps [of s]\<close>)
qed

lemma trim_nonempty: "c \<in> set s \<Longrightarrow> graphic_ascii c \<Longrightarrow> trim s \<noteq> []"
  using trim_end_keeps_graphic [OF trim_start_keeps_graphic] by (fastforce simp: trim_def)

text \<open>Lower case does not create or remove white space.\<close>

lemma whitespace_not_lower:
  "list_all (list_all (\<lambda>c. \<not> ascii_lower c)) whitespace_encodings"
  by code_simp

lemma lowercase_whitespace_inv:
  "e \<in> set whitespace_encodings \<Longrightarrow> to_ascii_lowercase t = e \<Longrightarrow> t = e"
proof -
  assume e: "e \<in> set whitespace_encodings" and t: "to_ascii_lowercase t = e"
  have "char_to_ascii_lowercase c = c" if "c \<in> set t" for c
  proof (rule ccontr)
    assume "char_to_ascii_lowercase c \<noteq> c"
    then have "ascii_lower (char_to_ascii_lowercase c)" using char_to_ascii_lowercase_cases [of c] by simp
    moreover have "char_to_ascii_lowercase c \<in> set e" using t that by (auto simp: to_ascii_lowercase_def)
    ultimately show False using whitespace_not_lower e by (auto simp: list_all_iff)
  qed
  with t show "t = e" by (simp add: to_ascii_lowercase_def map_idI)
qed

lemma leading_whitespace_lowercase:
  "leading_whitespace s = None \<Longrightarrow> leading_whitespace (to_ascii_lowercase s) = None"
proof -
  assume s: "leading_whitespace s = None"
  have "\<not> prefix e (to_ascii_lowercase s)" if e: "e \<in> set whitespace_encodings" for e
  proof
    assume "prefix e (to_ascii_lowercase s)"
    then have "take (length e) (to_ascii_lowercase s) = e" by (auto simp: prefix_def)
    then have "to_ascii_lowercase (take (length e) s) = e"
      by (simp add: to_ascii_lowercase_def take_map)
    from lowercase_whitespace_inv [OF e this] have "prefix e s" by (metis take_is_prefix)
    with s e show False by (simp add: leading_whitespace_def find_None_iff_all)
  qed
  then show ?thesis by (simp add: leading_whitespace_def find_None_iff_all)
qed

lemma trailing_whitespace_lowercase:
  "trailing_whitespace s = None \<Longrightarrow> trailing_whitespace (to_ascii_lowercase s) = None"
proof -
  assume s: "trailing_whitespace s = None"
  have "\<not> suffix e (to_ascii_lowercase s)" if e: "e \<in> set whitespace_encodings" for e
  proof
    assume "suffix e (to_ascii_lowercase s)"
    then obtain p where p: "to_ascii_lowercase s = p @ e" by (auto simp: suffix_def)
    then have "length s = length p + length e" by (metis length_append length_to_ascii_lowercase)
    with p have "drop (length s - length e) (to_ascii_lowercase s) = e" by simp
    then have "to_ascii_lowercase (drop (length s - length e) s) = e"
      by (simp add: to_ascii_lowercase_def drop_map)
    from lowercase_whitespace_inv [OF e this] have "suffix e s" by (metis suffix_drop)
    with s e show False by (simp add: trailing_whitespace_def find_None_iff_all)
  qed
  then show ?thesis by (simp add: trailing_whitespace_def find_None_iff_all)
qed

lemma trim_lowercase_trim [simp]: "trim (to_ascii_lowercase (trim s)) = to_ascii_lowercase (trim s)"
  by (simp add: trim_fixed leading_whitespace_lowercase trailing_whitespace_lowercase)

text \<open>\<open>trim_end_matches\<close>, \<open>trim_start_matches\<close> and \<open>trim_matches\<close> with one ASCII character.\<close>

definition trim_start_matches :: "char \<Rightarrow> string \<Rightarrow> string" where
  "trim_start_matches c s = dropWhile (\<lambda>x. x = c) s"

definition trim_end_matches :: "char \<Rightarrow> string \<Rightarrow> string" where
  "trim_end_matches c s = rev (dropWhile (\<lambda>x. x = c) (rev s))"

definition trim_matches :: "char \<Rightarrow> string \<Rightarrow> string" where
  "trim_matches c s = trim_end_matches c (trim_start_matches c s)"

lemma trim_end_matches_last: "trim_end_matches c s \<noteq> [] \<Longrightarrow> last (trim_end_matches c s) \<noteq> c"
  using hd_dropWhile [of "\<lambda>x. x = c" "rev s"]
  by (auto simp: trim_end_matches_def last_rev)

lemma trim_end_matches_fixed: "s = [] \<or> last s \<noteq> c \<Longrightarrow> trim_end_matches c s = s"
  by (cases s rule: rev_cases) (auto simp: trim_end_matches_def)

lemma set_trim_end_matches: "set (trim_end_matches c s) \<subseteq> set s"
  by (auto simp: trim_end_matches_def dest: set_dropWhileD)

subsection \<open>Searching and splitting\<close>

definition starts_with :: "string \<Rightarrow> string \<Rightarrow> bool" where
  "starts_with p s = prefix p s"

definition ends_with :: "string \<Rightarrow> string \<Rightarrow> bool" where
  "ends_with p s = suffix p s"

fun str_contains :: "string \<Rightarrow> string \<Rightarrow> bool" where
  "str_contains p [] \<longleftrightarrow> p = []"
| "str_contains p (c # s) \<longleftrightarrow> prefix p (c # s) \<or> str_contains p s"

lemma str_contains_sublist: "str_contains p s \<longleftrightarrow> sublist p s"
  by (induction s) (auto simp: sublist_Cons_right)

definition strip_prefix :: "string \<Rightarrow> string \<Rightarrow> string option" where
  "strip_prefix p s = (if prefix p s then Some (drop (length p) s) else None)"

fun split_on :: "char \<Rightarrow> string \<Rightarrow> string list" where
  "split_on d [] = [[]]"
| "split_on d (c # s) =
     (if c = d then [] # split_on d s
      else (case split_on d s of [] \<Rightarrow> [[c]] | w # ws \<Rightarrow> (c # w) # ws))"

lemma split_on_nonempty [simp]: "split_on d s \<noteq> []"
  by (cases s) (auto split: list.splits)

lemma set_split_on: "w \<in> set (split_on d s) \<Longrightarrow> set w \<subseteq> set s - {d}"
proof (induction s arbitrary: w)
  case (Cons c s)
  then show ?case by (cases "split_on d s") (fastforce split: if_splits)+
qed simp

lemma in_set_split_on:
  "c \<in> set s \<Longrightarrow> c \<noteq> d \<Longrightarrow> \<exists>w \<in> set (split_on d s). c \<in> set w"
proof (induction s)
  case (Cons a s)
  then show ?case by (cases "split_on d s") auto
qed simp

text \<open>
  \<open>str::replace\<close> scans from the left and does not look into what it has written. The callers
  pass a non-empty pattern.
\<close>

function str_replace :: "string \<Rightarrow> string \<Rightarrow> string \<Rightarrow> string" where
  "str_replace p r [] = []"
| "str_replace p r (c # s) =
     (if p \<noteq> [] \<and> prefix p (c # s) then r @ str_replace p r (drop (length p) (c # s))
      else c # str_replace p r s)"
  by pat_completeness auto
termination
  by (relation "measure (\<lambda>(p, r, s). length s)") auto

lemma str_replace_absent: "\<not> str_contains p s \<Longrightarrow> str_replace p r s = s"
  by (induction p r s rule: str_replace.induct) auto

definition join :: "string \<Rightarrow> string list \<Rightarrow> string" where
  "join sep ws = (case ws of [] \<Rightarrow> [] | w # ws \<Rightarrow> w @ concat (map (\<lambda>v. sep @ v) ws))"

subsection \<open>Characters of a UTF-8 string\<close>

definition continuation_byte :: "char \<Rightarrow> bool" where
  "continuation_byte c \<longleftrightarrow> byte c div 64 = 2"

definition chars_count :: "string \<Rightarrow> nat" where
  "chars_count s = length (filter (\<lambda>c. \<not> continuation_byte c) s)"

text \<open>The first \<open>n\<close> characters: everything before the start byte of character \<open>n + 1\<close>.\<close>

fun chars_take :: "nat \<Rightarrow> string \<Rightarrow> string" where
  "chars_take n [] = []"
| "chars_take n (c # s) =
     (if continuation_byte c then c # chars_take n s
      else case n of 0 \<Rightarrow> [] | Suc m \<Rightarrow> c # chars_take m s)"

lemma chars_take_count: "chars_count (chars_take n s) = min n (chars_count s)"
  by (induction n s rule: chars_take.induct) (auto simp: chars_count_def split: nat.splits)

lemma chars_take_prefix: "prefix (chars_take n s) s"
  by (induction n s rule: chars_take.induct) (auto split: nat.splits)

subsection \<open>Decimal numbers\<close>

fun nat_to_string :: "nat \<Rightarrow> string" where
  "nat_to_string n =
     (if n < 10 then [char_of (48 + n)] else nat_to_string (n div 10) @ [char_of (48 + n mod 10)])"

declare nat_to_string.simps [simp del]

definition int_to_string :: "int \<Rightarrow> string" where
  "int_to_string i = (if i < 0 then ''-'' @ nat_to_string (nat (- i)) else nat_to_string (nat i))"

definition string_to_nat :: "string \<Rightarrow> nat" where
  "string_to_nat s = foldl (\<lambda>n c. 10 * n + (byte c - 48)) 0 s"

lemma string_to_nat_inverse [simp]: "string_to_nat (nat_to_string n) = n"
proof (induction n rule: nat_to_string.induct)
  case (1 n)
  then show ?case
    by (cases "n < 10") (auto simp: string_to_nat_def nat_to_string.simps [of n])
qed

lemma nat_to_string_inject [simp]: "nat_to_string m = nat_to_string n \<longleftrightarrow> m = n"
  by (metis string_to_nat_inverse)

lemma nat_to_string_digits: "list_all ascii_digit (nat_to_string n)"
proof (induction n rule: nat_to_string.induct)
  case (1 n)
  then show ?case
    by (cases "n < 10") (auto simp: ascii_digit_def nat_to_string.simps [of n])
qed

lemma nat_to_string_nonempty [simp]: "nat_to_string n \<noteq> []"
  by (subst nat_to_string.simps) simp

text \<open>The format \<open>{:03}\<close>.\<close>

definition pad3 :: "string \<Rightarrow> string" where
  "pad3 s = replicate (3 - length s) (CHR ''0'') @ s"

lemma byte_0 [simp]: "byte (CHR ''0'') = 48"
  by (simp add: byte_def)

lemma string_to_nat_zeros: "string_to_nat (replicate k (CHR ''0'') @ s) = string_to_nat s"
  by (induction k) (simp_all add: string_to_nat_def)

lemma string_to_nat_pad3 [simp]: "string_to_nat (pad3 s) = string_to_nat s"
  by (simp only: pad3_def string_to_nat_zeros)

lemma pad3_digits: "list_all ascii_digit s \<Longrightarrow> list_all ascii_digit (pad3 s)"
  by (auto simp: pad3_def list_all_iff ascii_digit_def in_set_replicate)

end
