(* ===== verification/Json_Value.thy ===== *)
theory Json_Value
  imports Rust_Text
begin

text \<open>
  \<open>serde_json::Value\<close> as data, with the accessors the sources call. The lock file builds
  \<open>serde_json\<close> without \<open>preserve_order\<close>, so an object's entries are listed in the order of
  their keys; \<open>jobj\<close> is the \<open>json!\<close> object literal. A number is an unsigned or a negative
  64-bit integer or a float, which the sources only print, so it is kept as its text.
\<close>

datatype jnumber = PosInt u64 | NegInt int | Float string

datatype json =
    JNull
  | JBool bool
  | JNumber jnumber
  | JString string
  | JArray "json list"
  | JObject "(string \<times> json) list"

definition jobj :: "(string \<times> json) list \<Rightarrow> json" where
  "jobj kvs = JObject (sort_key fst kvs)"

definition jnat :: "u64 \<Rightarrow> json" where
  "jnat n = JNumber (PosInt n)"

definition jint :: "int \<Rightarrow> json" where
  "jint i = JNumber (if 0 \<le> i then PosInt (of_int i) else NegInt i)"

definition jopt :: "('a \<Rightarrow> json) \<Rightarrow> 'a option \<Rightarrow> json" where
  "jopt f x = (case x of None \<Rightarrow> JNull | Some v \<Rightarrow> f v)"

fun json_get :: "json \<Rightarrow> string \<Rightarrow> json option" where
  "json_get (JObject kvs) k = map_of kvs k"
| "json_get _ k = None"

fun as_str :: "json \<Rightarrow> string option" where
  "as_str (JString s) = Some s"
| "as_str _ = None"

fun as_array :: "json \<Rightarrow> json list option" where
  "as_array (JArray vs) = Some vs"
| "as_array _ = None"

fun as_object :: "json \<Rightarrow> (string \<times> json) list option" where
  "as_object (JObject kvs) = Some kvs"
| "as_object _ = None"

fun as_bool :: "json \<Rightarrow> bool option" where
  "as_bool (JBool b) = Some b"
| "as_bool _ = None"

fun as_u64 :: "json \<Rightarrow> u64 option" where
  "as_u64 (JNumber (PosInt n)) = Some n"
| "as_u64 _ = None"

fun as_i64 :: "json \<Rightarrow> int option" where
  "as_i64 (JNumber (PosInt n)) = (if uint n < 9223372036854775808 then Some (uint n) else None)"
| "as_i64 (JNumber (NegInt i)) = Some i"
| "as_i64 _ = None"

fun jnumber_to_string :: "jnumber \<Rightarrow> string" where
  "jnumber_to_string (PosInt n) = nat_to_string (unat n)"
| "jnumber_to_string (NegInt i) = int_to_string i"
| "jnumber_to_string (Float t) = t"

text \<open>The conversions \<open>i32::try_from(i64)\<close> and \<open>u16::try_from(u64)\<close>.\<close>

definition i32_try_from :: "int \<Rightarrow> int option" where
  "i32_try_from i = (if - 2147483648 \<le> i \<and> i < 2147483648 then Some i else None)"

definition u16_try_from :: "u64 \<Rightarrow> u16 option" where
  "u16_try_from n = (if uint n < 65536 then Some (ucast n) else None)"

lemma i32_try_from_Some: "i32_try_from i = Some j \<longleftrightarrow> j = i \<and> - 2147483648 \<le> i \<and> i < 2147483648"
  by (auto simp: i32_try_from_def)

lemma as_array_Some: "as_array v = Some vs \<longleftrightarrow> v = JArray vs"
  by (cases v) auto

lemma as_str_Some: "as_str v = Some s \<longleftrightarrow> v = JString s"
  by (cases v) auto

lemma as_object_Some: "as_object v = Some kvs \<longleftrightarrow> v = JObject kvs"
  by (cases v) auto

lemma json_get_Some: "json_get v k = Some w \<longleftrightarrow> (\<exists>kvs. v = JObject kvs \<and> map_of kvs k = Some w)"
  by (cases v) auto

text \<open>Looking a key up in an object literal does not depend on the order of its entries.\<close>

lemma map_of_sort_key_fst:
  "distinct (map fst kvs) \<Longrightarrow> map_of (sort_key fst kvs) = map_of kvs"
  for kvs :: "('k::linorder \<times> 'v) list"
proof -
  assume d: "distinct (map fst kvs)"
  have "mset (map fst (sort_key fst kvs)) = mset (map fst kvs)" by simp
  with d have "distinct (map fst (sort_key fst kvs))"
    by (metis mset_eq_imp_distinct_iff)
  with d show ?thesis by (simp add: map_of_inject_set)
qed

lemma json_get_jobj [simp]:
  "distinct (map fst kvs) \<Longrightarrow> json_get (jobj kvs) k = map_of kvs k"
  by (simp add: jobj_def map_of_sort_key_fst)

end
