(* ===== verification/Domain.thy ===== *)
theory Domain
  imports Json_Value
begin

text \<open>
  The data model of \<open>crates/domain\<close> with its serialised names, and the two services of
  \<open>crates/application\<close>: the heartbeat policy and the release version.
\<close>

subsection \<open>Nodes\<close>

datatype node_status = Pending | Online | Suspect | Offline | Maintenance

record node_identity =
  ni_id :: uuid
  ni_node_code :: string
  ni_name :: string
  ni_region :: string
  ni_idc :: string
  ni_status :: node_status

record node_runtime_state =
  nr_active_config_version :: "string option"
  nr_last_seen_at :: "datetime option"
  nr_site_count :: u32
  nr_health_score :: u8

subsection \<open>Sites\<close>

datatype site_status = Draft | Published | Disabled

datatype protocol = Http | Https | Tcp

record upstream_endpoint =
  ue_address :: string
  ue_weight :: u16
  ue_active :: bool
  ue_backup :: bool

datatype upstream_balance_method = RoundRobin | WeightedRoundRobin | LeastConnections | IpHash

record upstream =
  up_name :: string
  up_balance_method :: upstream_balance_method
  up_endpoints :: "upstream_endpoint list"

datatype route_match_type = PathPrefix | PathExact

record site_route =
  sr_name :: string
  sr_enabled :: bool
  sr_match_type :: route_match_type
  sr_path :: string
  sr_upstream :: string
  sr_priority :: int
  sr_strip_prefix :: bool

record cache_rule =
  cr_name :: string
  cr_match_extensions :: "string list"
  cr_expires_seconds :: u64
  cr_cache_control :: string

record site_spec =
  ss_id :: uuid
  ss_site_code :: string
  ss_name :: string
  ss_domain :: string
  ss_listen_port :: u16
  ss_protocol :: protocol
  ss_tls_enabled :: bool
  ss_status :: site_status
  ss_upstreams :: "upstream list"
  ss_routes :: "site_route list"
  ss_cache_rules :: "cache_rule list"

subsection \<open>Certificates and releases\<close>

record certificate_ref =
  ce_certificate_id :: uuid
  ce_version :: int
  ce_common_name :: string
  ce_sans :: "string list"
  ce_expires_at :: "datetime option"
  ce_cert_pem :: string
  ce_key_pem_encrypted :: string
  ce_chain_pem :: "string option"

record release_target =
  rt_node_id :: uuid
  rt_site_ids :: "uuid list"
  rt_preheated :: bool

record release_manifest =
  rm_release_id :: uuid
  rm_release_version :: string
  rm_scope :: string
  rm_config_hash :: string
  rm_created_at :: datetime
  rm_sites :: "site_spec list"
  rm_certificates :: "certificate_ref list"
  rm_targets :: "release_target list"

subsection \<open>Names of the enumerations\<close>

fun node_status_name :: "node_status \<Rightarrow> string" where
  "node_status_name Pending = ''pending''"
| "node_status_name Online = ''online''"
| "node_status_name Suspect = ''suspect''"
| "node_status_name Offline = ''offline''"
| "node_status_name Maintenance = ''maintenance''"

fun site_status_name :: "site_status \<Rightarrow> string" where
  "site_status_name Draft = ''draft''"
| "site_status_name Published = ''published''"
| "site_status_name Disabled = ''disabled''"

fun protocol_name :: "protocol \<Rightarrow> string" where
  "protocol_name Http = ''http''"
| "protocol_name Https = ''https''"
| "protocol_name Tcp = ''tcp''"

definition decode_node_status :: "string \<Rightarrow> node_status" where
  "decode_node_status raw =
     (if raw = ''pending'' then Pending
      else if raw = ''online'' then Online
      else if raw = ''suspect'' then Suspect
      else if raw = ''offline'' then Offline
      else if raw = ''maintenance'' then Maintenance
      else Pending)"

definition decode_site_status :: "string \<Rightarrow> site_status" where
  "decode_site_status raw =
     (if raw = ''draft'' then Draft
      else if raw = ''published'' then Published
      else if raw = ''disabled'' then Disabled
      else Draft)"

definition decode_protocol :: "string \<Rightarrow> protocol" where
  "decode_protocol raw =
     (if raw = ''http'' then Http
      else if raw = ''https'' then Https
      else if raw = ''tcp'' then Tcp
      else Http)"

lemma node_status_name_inject [simp]: "node_status_name a = node_status_name b \<longleftrightarrow> a = b"
  by (cases a; cases b) simp_all

lemma decode_node_status_name [simp]: "decode_node_status (node_status_name x) = x"
  by (cases x) (simp_all add: decode_node_status_def)

lemma decode_site_status_name [simp]: "decode_site_status (site_status_name x) = x"
  by (cases x) (simp_all add: decode_site_status_def)

lemma decode_protocol_name [simp]: "decode_protocol (protocol_name x) = x"
  by (cases x) (simp_all add: decode_protocol_def)

subsection \<open>Heartbeat policy and release versions\<close>

record heartbeat_policy =
  suspect_after_missed :: u32
  offline_after_missed :: u32

definition default_heartbeat_policy :: heartbeat_policy where
  "default_heartbeat_policy = \<lparr>suspect_after_missed = 2, offline_after_missed = 4\<rparr>"

definition evaluate_status :: "u32 \<Rightarrow> heartbeat_policy \<Rightarrow> node_status" where
  "evaluate_status missed_heartbeats policy =
     (if offline_after_missed policy \<le> missed_heartbeats then Offline
      else if suspect_after_missed policy \<le> missed_heartbeats then Suspect
      else Online)"

text \<open>
  \<open>format_timestamp\<close> stands for chrono's \<open>format("%Y%m%d%H%M%S")\<close>.
\<close>

definition build_release_version :: "(datetime \<Rightarrow> string) \<Rightarrow> string \<Rightarrow> datetime \<Rightarrow> u64 \<Rightarrow> string" where
  "build_release_version format_timestamp scope issued_at serial =
     ''rel-'' @ scope @ ''-'' @ format_timestamp issued_at @ ''-'' @
     pad3 (nat_to_string (unat serial))"

definition summarize :: "release_manifest \<Rightarrow> string" where
  "summarize m =
     ''release='' @ rm_release_version m @ '' scope='' @ rm_scope m @
     '' targets='' @ nat_to_string (length (rm_targets m)) @
     '' sites='' @ nat_to_string (length (rm_sites m))"

text \<open>
  The serial number can be read back from a version: it is what follows the last dash. Two
  versions with different serial numbers are therefore different, whatever their scopes and
  times.
\<close>

definition version_serial :: "string \<Rightarrow> nat" where
  "version_serial v = string_to_nat (rev (takeWhile (\<lambda>c. c \<noteq> CHR ''-'') (rev v)))"

lemma digits_no_dash: "list_all ascii_digit s \<Longrightarrow> CHR ''-'' \<notin> set s"
  by (auto simp: list_all_iff ascii_digit_def byte_def)

lemma takeWhile_rev_last_part:
  "d \<notin> set w \<Longrightarrow> rev (takeWhile (\<lambda>c. c \<noteq> d) (rev (p @ d # w))) = w"
  by (induction w rule: rev_induct) auto

lemma version_serial_build [simp]:
  "version_serial (build_release_version fmt scope at serial) = unat serial"
proof -
  let ?w = "pad3 (nat_to_string (unat serial))"
  have "CHR ''-'' \<notin> set ?w"
    by (intro digits_no_dash pad3_digits nat_to_string_digits)
  then have "rev (takeWhile (\<lambda>c. c \<noteq> CHR ''-'') (rev ((''rel-'' @ scope @ ''-'' @ fmt at) @ CHR ''-'' # ?w))) = ?w"
    by (rule takeWhile_rev_last_part)
  then show ?thesis
    by (simp add: version_serial_def build_release_version_def)
qed

end
