(* ===== verification/Api_Error.thy ===== *)
theory Api_Error
  imports Prelude
begin

text \<open>
  The error values of the hub API (\<open>apps/hub-api/src/error.rs\<close>): an HTTP status, a code and a
  message, with one constructor function per status.
\<close>

named_theorems error_defs \<open>the constructor functions of the API's errors\<close>

record app_error =
  err_status :: nat
  err_code :: string
  err_message :: string

definition bad_request :: "string \<Rightarrow> app_error" where
  "bad_request m = \<lparr>err_status = 400, err_code = ''bad_request'', err_message = m\<rparr>"

definition not_found :: "string \<Rightarrow> app_error" where
  "not_found m = \<lparr>err_status = 404, err_code = ''not_found'', err_message = m\<rparr>"

definition conflict :: "string \<Rightarrow> app_error" where
  "conflict m = \<lparr>err_status = 409, err_code = ''conflict'', err_message = m\<rparr>"

definition unauthorized :: "string \<Rightarrow> app_error" where
  "unauthorized m = \<lparr>err_status = 401, err_code = ''unauthorized'', err_message = m\<rparr>"

definition internal :: "string \<Rightarrow> app_error" where
  "internal m = \<lparr>err_status = 500, err_code = ''internal_error'', err_message = m\<rparr>"

lemmas error_constructors [error_defs] =
  bad_request_def not_found_def conflict_def unauthorized_def internal_def

lemma error_statuses [simp]:
  "err_status (bad_request m) = 400" "err_status (not_found m) = 404"
  "err_status (conflict m) = 409" "err_status (unauthorized m) = 401"
  "err_status (internal m) = 500"
  by (simp_all add: error_defs)

lemma error_inject [simp]:
  "bad_request m = bad_request m' \<longleftrightarrow> m = m'" "not_found m = not_found m' \<longleftrightarrow> m = m'"
  "conflict m = conflict m' \<longleftrightarrow> m = m'" "unauthorized m = unauthorized m' \<longleftrightarrow> m = m'"
  "internal m = internal m' \<longleftrightarrow> m = m'"
  by (simp_all add: error_defs)

text \<open>
  A handler returns a result and the state it leaves, also when it fails: the sources change
  the store before some of their errors.
\<close>

type_synonym 'a api_result = "app_error + 'a"

end
