(* ===== verification/Site_Config.thy ===== *)
theory Site_Config
  imports Domain Api_Error
begin

text \<open>
  A site's configuration document: how \<open>store.rs\<close> reads upstreams, routes and cache rules out
  of it, and the validation \<open>service.rs\<close> runs before a document is stored or published. The
  lemmas connect the two: a validated document loses no route when it is read, and the routes
  that are read satisfy what the validation promised.
\<close>

subsection \<open>Reading upstreams\<close>

definition normalize_upstream_balance_method :: "string \<Rightarrow> upstream_balance_method" where
  "normalize_upstream_balance_method raw =
     (let r = to_ascii_lowercase (trim raw) in
      if r \<in> {''weighted_round_robin'', ''weighted'', ''weight'', ''wrr''} then WeightedRoundRobin
      else if r \<in> {''least_connections'', ''least_conn'', ''least-connections'', ''least-conn''}
      then LeastConnections
      else if r \<in> {''ip_hash'', ''ip-hash'', ''hash''} then IpHash
      else RoundRobin)"

definition parse_upstream_balance_method :: "json \<Rightarrow> upstream_balance_method" where
  "parse_upstream_balance_method u =
     unwrap_or RoundRobin
       (map_option normalize_upstream_balance_method
         (Option.bind
           (or_else (json_get u ''balance_method'')
             (or_else (json_get u ''distribution_method'') (json_get u ''method'')))
           as_str))"

definition parse_endpoint_object :: "(string \<times> json) list \<Rightarrow> upstream_endpoint option" where
  "parse_endpoint_object m =
     (case Option.bind (map_of m ''address'') as_str of
        None \<Rightarrow> None
      | Some address \<Rightarrow> Some
          \<lparr>ue_address = address,
           ue_weight = unwrap_or 100
             (Option.bind (Option.bind (map_of m ''weight'') as_u64) u16_try_from),
           ue_active = unwrap_or True (Option.bind (map_of m ''active'') as_bool),
           ue_backup = unwrap_or False (Option.bind (map_of m ''backup'') as_bool)\<rparr>)"

fun parse_endpoint :: "json \<Rightarrow> upstream_endpoint option" where
  "parse_endpoint (JString address) =
     Some \<lparr>ue_address = address, ue_weight = 100, ue_active = True, ue_backup = False\<rparr>"
| "parse_endpoint (JObject m) = parse_endpoint_object m"
| "parse_endpoint _ = None"

definition parse_upstream :: "json \<Rightarrow> upstream option" where
  "parse_upstream u =
     (case Option.bind (json_get u ''name'') as_str of
        None \<Rightarrow> None
      | Some name \<Rightarrow> Some
          \<lparr>up_name = name,
           up_balance_method = parse_upstream_balance_method u,
           up_endpoints = unwrap_or []
             (map_option (List.map_filter parse_endpoint)
               (Option.bind (json_get u ''endpoints'') as_array))\<rparr>)"

definition parse_upstreams :: "json \<Rightarrow> upstream list" where
  "parse_upstreams config =
     unwrap_or []
       (map_option (List.map_filter parse_upstream)
         (Option.bind (json_get config ''upstreams'') as_array))"

subsection \<open>Reading routes\<close>

definition parse_route_match_type :: "string \<Rightarrow> route_match_type" where
  "parse_route_match_type raw =
     (if to_ascii_lowercase (trim raw) \<in> {''path_exact'', ''exact'', ''=''} then PathExact
      else PathPrefix)"

definition route_string :: "(string \<times> json) list \<Rightarrow> string \<Rightarrow> string option" where
  "route_string m k = map_option trim (Option.bind (map_of m k) as_str)"

definition route_priority :: "(string \<times> json) list \<Rightarrow> int" where
  "route_priority m =
     unwrap_or 100 (Option.bind (Option.bind (map_of m ''priority'') as_i64) i32_try_from)"

definition route_enabled :: "(string \<times> json) list \<Rightarrow> bool" where
  "route_enabled m = unwrap_or True (Option.bind (map_of m ''enabled'') as_bool)"

definition parse_route_value :: "json \<Rightarrow> site_route option" where
  "parse_route_value route =
     (case as_object route of None \<Rightarrow> None | Some m \<Rightarrow>
      (case route_string m ''name'' of None \<Rightarrow> None | Some name \<Rightarrow>
      (case route_string m ''path'' of None \<Rightarrow> None | Some path \<Rightarrow>
      (case route_string m ''upstream'' of None \<Rightarrow> None | Some ups \<Rightarrow>
        if name = [] \<or> path = [] \<or> ups = [] then None
        else Some
          \<lparr>sr_name = name,
           sr_enabled = route_enabled m,
           sr_match_type = unwrap_or PathPrefix
             (map_option parse_route_match_type (Option.bind (map_of m ''match_type'') as_str)),
           sr_path = path,
           sr_upstream = ups,
           sr_priority = route_priority m,
           sr_strip_prefix =
             unwrap_or False (Option.bind (map_of m ''strip_prefix'') as_bool)\<rparr>))))"

fun route_match_rank :: "route_match_type \<Rightarrow> nat" where
  "route_match_rank PathExact = 0"
| "route_match_rank PathPrefix = 1"

text \<open>
  The comparison of \<open>sort_site_routes\<close> as a key: priority, then the longer path first, then
  exact before prefix matches, then the name. Both sorts are stable.
\<close>

definition route_sort_key :: "site_route \<Rightarrow> int \<times> int \<times> nat \<times> string" where
  "route_sort_key r =
     (sr_priority r, - int (length (sr_path r)), route_match_rank (sr_match_type r), sr_name r)"

definition sort_site_routes :: "site_route list \<Rightarrow> site_route list" where
  "sort_site_routes routes = sort_key route_sort_key routes"

definition default_site_routes :: "upstream list \<Rightarrow> site_route list" where
  "default_site_routes upstreams =
     (case upstreams of
        [] \<Rightarrow> []
      | u # _ \<Rightarrow>
          [\<lparr>sr_name = ''default'', sr_enabled = True, sr_match_type = PathPrefix, sr_path = ''/'',
            sr_upstream = up_name u, sr_priority = 1000, sr_strip_prefix = False\<rparr>])"

definition parse_routes :: "json \<Rightarrow> upstream list \<Rightarrow> site_route list" where
  "parse_routes config upstreams =
     (case json_get config ''routes'' of
        Some (JArray routes) \<Rightarrow> sort_site_routes (List.map_filter parse_route_value routes)
      | Some _ \<Rightarrow> []
      | None \<Rightarrow> default_site_routes upstreams)"

subsection \<open>Reading cache rules\<close>

definition parse_match_extensions :: "(string \<Rightarrow> string) \<Rightarrow> json \<Rightarrow> string list" where
  "parse_match_extensions lower rule =
     unwrap_or []
       (map_option
         (\<lambda>items. filter (\<lambda>e. e \<noteq> [])
            (map (\<lambda>i. to_lowercase lower (trim_start_matches (CHR ''.'') (trim i)))
              (List.map_filter as_str items)))
         (Option.bind (json_get rule ''match_extensions'') as_array))"

definition parse_cache_rule :: "(string \<Rightarrow> string) \<Rightarrow> json \<Rightarrow> cache_rule option" where
  "parse_cache_rule lower rule =
     (case map_option trim (Option.bind (json_get rule ''name'') as_str) of None \<Rightarrow> None | Some name \<Rightarrow>
      if name = [] then None else
      (case Option.bind (json_get rule ''expires_seconds'') as_u64 of None \<Rightarrow> None | Some expires \<Rightarrow>
       if expires = 0 then None else
       let match_extensions = parse_match_extensions lower rule in
       if match_extensions = [] then None
       else Some
         \<lparr>cr_name = name,
          cr_match_extensions = match_extensions,
          cr_expires_seconds = expires,
          cr_cache_control =
            unwrap_or (''public, max-age='' @ nat_to_string (unat expires))
              (opt_filter (\<lambda>v. v \<noteq> [])
                (map_option trim (Option.bind (json_get rule ''cache_control'') as_str)))\<rparr>))"

definition parse_cache_rules :: "(string \<Rightarrow> string) \<Rightarrow> json \<Rightarrow> cache_rule list" where
  "parse_cache_rules lower config =
     unwrap_or []
       (map_option (List.map_filter (parse_cache_rule lower))
         (Option.bind (json_get config ''cache_rules'') as_array))"

subsection \<open>Validation\<close>

definition required_route_string :: "(string \<times> json) list \<Rightarrow> string \<Rightarrow> string api_result" where
  "required_route_string route key =
     ok_or (bad_request (''route '' @ key @ '' is required''))
       (map_option trim (Option.bind (map_of route key) as_str))"

definition config_upstream_names :: "json \<Rightarrow> string list" where
  "config_upstream_names config =
     unwrap_or []
       (map_option
         (\<lambda>us. filter (\<lambda>n. n \<noteq> [])
            (map trim (List.map_filter (\<lambda>u. Option.bind (json_get u ''name'') as_str) us)))
         (Option.bind (json_get config ''upstreams'') as_array))"

type_synonym route_key = "string \<times> string \<times> int"

text \<open>
  The loop over the routes. \<open>active_keys\<close> and \<open>has_default\<close> are its two mutable variables;
  the result is the final value of \<open>has_default\<close>.
\<close>

definition validate_route ::
  "string list \<Rightarrow> json \<Rightarrow> route_key list \<times> bool \<Rightarrow> (route_key list \<times> bool) api_result" where
  "validate_route upstream_names route st =
     (case st of (active_keys, has_default) \<Rightarrow>
      result_bind (ok_or (bad_request ''route must be an object'') (as_object route)) (\<lambda>m.
      result_bind (required_route_string m ''name'') (\<lambda>name.
      result_bind (required_route_string m ''path'') (\<lambda>path.
      result_bind (required_route_string m ''upstream'') (\<lambda>ups.
      result_bind (required_route_string m ''match_type'') (\<lambda>match_type.
        if name = [] then Inl (bad_request ''route name is required'')
        else if \<not> starts_with ''/'' path then Inl (bad_request ''route path must start with /'')
        else if match_type \<notin> {''path_prefix'', ''path_exact''}
        then Inl (bad_request ''route match_type must be path_prefix or path_exact'')
        else if ups \<notin> set upstream_names
        then Inl (bad_request (''route upstream '' @ ups @ '' does not exist''))
        else if route_enabled m then
          (let key = (match_type, path, route_priority m) in
           if key \<in> set active_keys
           then Inl (bad_request ''duplicate active route match_type, path and priority'')
           else Inr (key # active_keys, has_default \<or> path = ''/''))
        else Inr (active_keys, has_default)))))))"

fun validate_routes ::
  "string list \<Rightarrow> json list \<Rightarrow> route_key list \<times> bool \<Rightarrow> (route_key list \<times> bool) api_result" where
  "validate_routes names [] st = Inr st"
| "validate_routes names (r # rs) st =
     result_bind (validate_route names r st) (\<lambda>st'. validate_routes names rs st')"

definition validate_site_config :: "json \<Rightarrow> unit api_result" where
  "validate_site_config config =
     (let upstream_names = config_upstream_names config in
      case json_get config ''routes'' of
        None \<Rightarrow> Inr ()
      | Some routes_value \<Rightarrow>
          result_bind (ok_or (bad_request ''routes must be an array'') (as_array routes_value)) (\<lambda>routes.
            if routes = [] \<and> upstream_names \<noteq> []
            then Inl (bad_request ''routes must include a default / route when upstreams are configured'')
            else
              result_bind (validate_routes upstream_names routes ([], False)) (\<lambda>(active_keys, has_default_route).
                if upstream_names \<noteq> [] \<and> \<not> has_default_route
                then Inl (bad_request ''routes must include an active default / route'')
                else Inr ())))"

subsection \<open>What a validated document guarantees\<close>

fun match_type_name :: "route_match_type \<Rightarrow> string" where
  "match_type_name PathPrefix = ''path_prefix''"
| "match_type_name PathExact = ''path_exact''"

definition route_key_of :: "site_route \<Rightarrow> route_key" where
  "route_key_of r = (match_type_name (sr_match_type r), sr_path r, sr_priority r)"

definition active_route_keys :: "site_route list \<Rightarrow> route_key list" where
  "active_route_keys rs = map route_key_of (filter sr_enabled rs)"

definition has_active_default :: "site_route list \<Rightarrow> bool" where
  "has_active_default rs \<longleftrightarrow> (\<exists>r \<in> set rs. sr_enabled r \<and> sr_path r = ''/'')"

lemma parse_route_match_type_names:
  "trim raw = ''path_prefix'' \<Longrightarrow> parse_route_match_type raw = PathPrefix"
  "trim raw = ''path_exact'' \<Longrightarrow> parse_route_match_type raw = PathExact"
proof -
  have "to_ascii_lowercase ''path_prefix'' = ''path_prefix''"
    and "to_ascii_lowercase ''path_exact'' = ''path_exact''"
    by code_simp+
  then show "trim raw = ''path_prefix'' \<Longrightarrow> parse_route_match_type raw = PathPrefix"
    and "trim raw = ''path_exact'' \<Longrightarrow> parse_route_match_type raw = PathExact"
    by (simp_all add: parse_route_match_type_def)
qed

lemma required_route_string_Inr:
  "required_route_string m k = Inr v \<longleftrightarrow> (\<exists>raw. map_of m k = Some (JString raw) \<and> v = trim raw)"
  by (auto simp: required_route_string_def ok_or_def as_str_Some split: option.splits bind_splits)

lemma route_string_JString: "map_of m k = Some (JString raw) \<Longrightarrow> route_string m k = Some (trim raw)"
  by (simp add: route_string_def)

lemma starts_with_nonempty: "starts_with ''/'' p \<Longrightarrow> p \<noteq> []"
  by (auto simp: starts_with_def)

text \<open>One iteration: the route is read back, and the loop variables record it.\<close>

lemma validate_route_Inr:
  assumes ok: "validate_route names r (ks, d) = Inr (ks', d')" and names: "[] \<notin> set names"
  shows "\<exists>sr. parse_route_value r = Some sr \<and> sr_upstream sr \<in> set names \<and>
    starts_with ''/'' (sr_path sr) \<and> sr_name sr \<noteq> [] \<and>
    (if sr_enabled sr
     then route_key_of sr \<notin> set ks \<and> ks' = route_key_of sr # ks \<and> d' = (d \<or> sr_path sr = ''/'')
     else ks' = ks \<and> d' = d)"
proof -
  from ok obtain m name path ups mt where r: "r = JObject m"
    and name: "map_of m ''name'' = Some (JString name)"
    and path: "map_of m ''path'' = Some (JString path)"
    and ups: "map_of m ''upstream'' = Some (JString ups)"
    and mt: "map_of m ''match_type'' = Some (JString mt)"
    and body: "(if trim name = [] then Inl (bad_request ''route name is required'')
        else if \<not> starts_with ''/'' (trim path) then Inl (bad_request ''route path must start with /'')
        else if trim mt \<notin> {''path_prefix'', ''path_exact''}
        then Inl (bad_request ''route match_type must be path_prefix or path_exact'')
        else if trim ups \<notin> set names
        then Inl (bad_request (''route upstream '' @ trim ups @ '' does not exist''))
        else if route_enabled m then
          (let key = (trim mt, trim path, route_priority m) in
           if key \<in> set ks
           then Inl (bad_request ''duplicate active route match_type, path and priority'')
           else Inr (key # ks, d \<or> trim path = ''/''))
        else Inr (ks, d)) = Inr (ks', d')"
    unfolding validate_route_def
    by (simp add: result_bind_eq_Inr required_route_string_Inr as_object_Some ok_or_def
        split: option.splits) blast
  from body have checks: "trim name \<noteq> []" "starts_with ''/'' (trim path)"
    "trim mt \<in> {''path_prefix'', ''path_exact''}" "trim ups \<in> set names"
    by (metis Inl_Inr_False)+
  from body checks have st: "if route_enabled m
       then (trim mt, trim path, route_priority m) \<notin> set ks \<and>
         ks' = (trim mt, trim path, route_priority m) # ks \<and> d' = (d \<or> trim path = ''/'')
       else ks' = ks \<and> d' = d"
    by (simp add: Let_def split: if_splits)
  have ups': "trim ups \<noteq> []" using checks(4) names by auto
  define sr where "sr = \<lparr>sr_name = trim name, sr_enabled = route_enabled m,
    sr_match_type = parse_route_match_type mt, sr_path = trim path, sr_upstream = trim ups,
    sr_priority = route_priority m,
    sr_strip_prefix = unwrap_or False (Option.bind (map_of m ''strip_prefix'') as_bool)\<rparr>"
  have "parse_route_value r = Some sr"
    using name path ups ups' mt checks(1) starts_with_nonempty [OF checks(2)]
    by (simp add: parse_route_value_def r sr_def route_string_JString)
  moreover have "route_key_of sr = (trim mt, trim path, route_priority m)"
    using checks(3) by (auto simp: route_key_of_def sr_def parse_route_match_type_names)
  ultimately show ?thesis
    using checks st by (auto simp: sr_def)
qed

lemma map_filter_Cons_Some: "f x = Some y \<Longrightarrow> List.map_filter f (x # xs) = y # List.map_filter f xs"
  by (simp add: List.map_filter_simps)

lemma validate_routes_Inr:
  assumes "validate_routes names rs (ks, d) = Inr (ks', d')" and "[] \<notin> set names"
  defines "srs \<equiv> List.map_filter parse_route_value rs"
  shows "length srs = length rs \<and>
    (\<forall>r \<in> set srs. sr_upstream r \<in> set names \<and> starts_with ''/'' (sr_path r) \<and> sr_name r \<noteq> []) \<and>
    distinct (active_route_keys srs) \<and> set (active_route_keys srs) \<inter> set ks = {} \<and>
    d' = (d \<or> has_active_default srs)"
  using assms(1) unfolding srs_def
proof (induction rs arbitrary: ks d)
  case Nil
  then show ?case
    by (simp add: List.map_filter_simps active_route_keys_def has_active_default_def)
next
  case (Cons r rs)
  from Cons.prems obtain ks1 d1 where
    step: "validate_route names r (ks, d) = Inr (ks1, d1)"
    and rest: "validate_routes names rs (ks1, d1) = Inr (ks', d')"
    by (auto simp: result_bind_eq_Inr)
  from validate_route_Inr [OF step assms(2)] obtain sr where
    sr: "parse_route_value r = Some sr" "sr_upstream sr \<in> set names"
      "starts_with ''/'' (sr_path sr)" "sr_name sr \<noteq> []"
    and st: "if sr_enabled sr
      then route_key_of sr \<notin> set ks \<and> ks1 = route_key_of sr # ks \<and> d1 = (d \<or> sr_path sr = ''/'')
      else ks1 = ks \<and> d1 = d"
    by blast
  from Cons.IH [OF rest] sr st show ?case
    by (cases "sr_enabled sr")
      (auto simp: map_filter_Cons_Some active_route_keys_def has_active_default_def)
qed

lemma config_upstream_names_nonempty: "[] \<notin> set (config_upstream_names config)"
  by (auto simp: config_upstream_names_def unwrap_or_def split: option.splits)

lemma config_upstream_names_parsed:
  "set (config_upstream_names config) = trim ` up_name ` set (parse_upstreams config) - {[]}"
proof -
  have "map trim (List.map_filter (\<lambda>u. Option.bind (json_get u ''name'') as_str) us) =
      map trim (map up_name (List.map_filter parse_upstream us))" for us
    by (induction us) (auto simp: List.map_filter_simps parse_upstream_def split: option.splits)
  then show ?thesis
    unfolding config_upstream_names_def parse_upstreams_def unwrap_or_def
    by (cases "Option.bind (json_get config ''upstreams'') as_array")
      (simp_all add: set_map [symmetric] del: set_map, auto)
qed

lemma set_sort_site_routes [simp]: "set (sort_site_routes rs) = set rs"
  by (simp add: sort_site_routes_def)

lemma length_sort_site_routes [simp]: "length (sort_site_routes rs) = length rs"
  by (simp add: sort_site_routes_def)

lemma mset_sort_site_routes [simp]: "mset (sort_site_routes rs) = mset rs"
  by (simp add: sort_site_routes_def)

lemma distinct_active_route_keys_sort:
  "distinct (active_route_keys rs) \<Longrightarrow> distinct (active_route_keys (sort_site_routes rs))"
proof -
  have "mset (active_route_keys (sort_site_routes rs)) = mset (active_route_keys rs)"
    by (simp add: active_route_keys_def)
  then show "distinct (active_route_keys rs) \<Longrightarrow> ?thesis"
    using mset_eq_imp_distinct_iff by blast
qed

lemma has_active_default_sort [simp]:
  "has_active_default (sort_site_routes rs) = has_active_default rs"
  by (simp add: has_active_default_def)

text \<open>
  C35: what the hub publishes for a validated document. If the document has a routes array,
  reading it back drops no route and yields the routes in match order; each of them has an
  absolute path, a name, and refers to the trimmed name of a configured upstream; no two enabled
  routes agree in match type, path and priority; and if an upstream is configured an enabled
  route for the root path exists.
\<close>

theorem validated_routes_complete:
  assumes "validate_site_config config = Inr ()"
    and "json_get config ''routes'' = Some (JArray rs)"
    and "routes = parse_routes config (parse_upstreams config)"
  shows "length routes = length rs \<and>
    sorted (map route_sort_key routes) \<and>
    (\<forall>r \<in> set routes. sr_upstream r \<in> trim ` up_name ` set (parse_upstreams config) \<and>
       starts_with ''/'' (sr_path r) \<and> sr_name r \<noteq> []) \<and>
    distinct (active_route_keys routes) \<and>
    ((\<exists>u \<in> set (parse_upstreams config). trim (up_name u) \<noteq> []) \<longrightarrow> has_active_default routes)"
proof -
  let ?names = "config_upstream_names config"
  let ?srs = "List.map_filter parse_route_value rs"
  from assms(1,2) obtain ks d where
    loop: "validate_routes ?names rs ([], False) = Inr (ks, d)" and default: "?names = [] \<or> d"
    by (auto simp: validate_site_config_def Let_def result_bind_eq_Inr split: if_splits)
  note props = validate_routes_Inr [OF loop config_upstream_names_nonempty]
  have routes: "routes = sort_site_routes ?srs"
    using assms(2,3) by (simp add: parse_routes_def)
  have "?names \<noteq> []" if "u \<in> set (parse_upstreams config)" "trim (up_name u) \<noteq> []" for u
  proof -
    have "trim (up_name u) \<in> set ?names"
      using that by (simp add: config_upstream_names_parsed)
    then show ?thesis by auto
  qed
  with default props have
    "(\<exists>u \<in> set (parse_upstreams config). trim (up_name u) \<noteq> []) \<longrightarrow> has_active_default routes"
    by (auto simp: routes)
  moreover have "sorted (map route_sort_key routes)"
    by (simp add: routes sort_site_routes_def)
  ultimately show ?thesis
    using props by (auto simp: routes distinct_active_route_keys_sort config_upstream_names_parsed)
qed

definition sample_config :: json where
  "sample_config = jobj
     [(''upstreams'', JArray [jobj [(''name'', JString ''web''), (''endpoints'', JArray [JString ''10.0.0.1:80''])],
                              jobj [(''name'', JString ''api'')]]),
      (''routes'', JArray
        [jobj [(''name'', JString ''root''), (''path'', JString ''/''), (''upstream'', JString ''web''),
               (''match_type'', JString ''path_prefix''), (''priority'', jint 1000)],
         jobj [(''name'', JString ''api''), (''path'', JString ''/api''), (''upstream'', JString ''api''),
               (''match_type'', JString ''path_exact''), (''priority'', jint 10)]])]"

theorem validated_routes_complete_witness:
  "map sr_name (parse_routes sample_config (parse_upstreams sample_config)) = [''api'', ''root''] \<and>
   length (parse_routes sample_config (parse_upstreams sample_config)) = 2 \<and>
   distinct (active_route_keys (parse_routes sample_config (parse_upstreams sample_config)))"
proof -
  have ok: "validate_site_config sample_config = Inr ()" by code_simp
  have order: "map sr_name (parse_routes sample_config (parse_upstreams sample_config)) = [''api'', ''root'']"
    by code_simp
  obtain rs where rs: "json_get sample_config ''routes'' = Some (JArray rs)"
    and len: "length rs = 2"
    by (simp add: sample_config_def)
  show ?thesis
    using validated_routes_complete [OF ok rs refl] len order by simp
qed

end
