(* ===== verification/Config_Compiler.thy ===== *)
theory Config_Compiler
  imports Domain
begin

text \<open>
  The configuration compiler (\<open>crates/config-compiler\<close>): the bundle a release carries, for a
  site and for the clean-up of a site on nodes it was detached from. Failures carry the text of
  the \<open>anyhow\<close> error. \<open>display_uuid\<close> stands for the \<open>Display\<close> of \<open>Uuid\<close>; the identifier
  and the time of the manifest are the call's \<open>Uuid::new_v4\<close> and \<open>Utc::now\<close>.
\<close>

subsection \<open>Serialised form of a site\<close>

text \<open>What the derived \<open>Serialize\<close> instances produce inside the rendered configuration.\<close>

fun balance_method_json :: "upstream_balance_method \<Rightarrow> json" where
  "balance_method_json RoundRobin = JString ''round_robin''"
| "balance_method_json WeightedRoundRobin = JString ''weighted_round_robin''"
| "balance_method_json LeastConnections = JString ''least_connections''"
| "balance_method_json IpHash = JString ''ip_hash''"

fun match_type_json :: "route_match_type \<Rightarrow> json" where
  "match_type_json PathPrefix = JString ''path_prefix''"
| "match_type_json PathExact = JString ''path_exact''"

definition endpoint_json :: "upstream_endpoint \<Rightarrow> json" where
  "endpoint_json e = jobj
     [(''address'', JString (ue_address e)), (''weight'', jnat (ucast (ue_weight e))),
      (''active'', JBool (ue_active e)), (''backup'', JBool (ue_backup e))]"

definition upstream_json :: "upstream \<Rightarrow> json" where
  "upstream_json u = jobj
     [(''name'', JString (up_name u)), (''balance_method'', balance_method_json (up_balance_method u)),
      (''endpoints'', JArray (map endpoint_json (up_endpoints u)))]"

definition route_json :: "site_route \<Rightarrow> json" where
  "route_json r = jobj
     [(''name'', JString (sr_name r)), (''enabled'', JBool (sr_enabled r)),
      (''match_type'', match_type_json (sr_match_type r)), (''path'', JString (sr_path r)),
      (''upstream'', JString (sr_upstream r)), (''priority'', jint (sr_priority r)),
      (''strip_prefix'', JBool (sr_strip_prefix r))]"

definition cache_rule_json :: "cache_rule \<Rightarrow> json" where
  "cache_rule_json c = jobj
     [(''name'', JString (cr_name c)), (''match_extensions'', JArray (map JString (cr_match_extensions c))),
      (''expires_seconds'', jnat (cr_expires_seconds c)), (''cache_control'', JString (cr_cache_control c))]"

text \<open>
  The manifest as JSON, as it is sent to the nodes. \<open>rfc3339\<close> stands for the form chrono gives
  a time when it is serialised.
\<close>

definition site_spec_json :: "(uuid \<Rightarrow> string) \<Rightarrow> site_spec \<Rightarrow> json" where
  "site_spec_json display_uuid s = jobj
     [(''id'', JString (display_uuid (ss_id s))), (''site_code'', JString (ss_site_code s)),
      (''name'', JString (ss_name s)), (''domain'', JString (ss_domain s)),
      (''listen_port'', jnat (ucast (ss_listen_port s))),
      (''protocol'', JString (protocol_name (ss_protocol s))),
      (''tls_enabled'', JBool (ss_tls_enabled s)),
      (''status'', JString (site_status_name (ss_status s))),
      (''upstreams'', JArray (map upstream_json (ss_upstreams s))),
      (''routes'', JArray (map route_json (ss_routes s))),
      (''cache_rules'', JArray (map cache_rule_json (ss_cache_rules s)))]"

definition certificate_json :: "(uuid \<Rightarrow> string) \<Rightarrow> (datetime \<Rightarrow> string) \<Rightarrow> certificate_ref \<Rightarrow> json" where
  "certificate_json display_uuid rfc3339 c = jobj
     [(''certificate_id'', JString (display_uuid (ce_certificate_id c))),
      (''version'', jint (ce_version c)), (''common_name'', JString (ce_common_name c)),
      (''sans'', JArray (map JString (ce_sans c))),
      (''expires_at'', jopt (\<lambda>t. JString (rfc3339 t)) (ce_expires_at c)),
      (''cert_pem'', JString (ce_cert_pem c)), (''key_pem_encrypted'', JString (ce_key_pem_encrypted c)),
      (''chain_pem'', jopt JString (ce_chain_pem c))]"

definition release_target_json :: "(uuid \<Rightarrow> string) \<Rightarrow> release_target \<Rightarrow> json" where
  "release_target_json display_uuid t = jobj
     [(''node_id'', JString (display_uuid (rt_node_id t))),
      (''site_ids'', JArray (map (\<lambda>i. JString (display_uuid i)) (rt_site_ids t))),
      (''preheated'', JBool (rt_preheated t))]"

definition release_manifest_json :: "(uuid \<Rightarrow> string) \<Rightarrow> (datetime \<Rightarrow> string) \<Rightarrow> release_manifest \<Rightarrow> json" where
  "release_manifest_json display_uuid rfc3339 m = jobj
     [(''release_id'', JString (display_uuid (rm_release_id m))),
      (''release_version'', JString (rm_release_version m)), (''scope'', JString (rm_scope m)),
      (''config_hash'', JString (rm_config_hash m)), (''created_at'', JString (rfc3339 (rm_created_at m))),
      (''sites'', JArray (map (site_spec_json display_uuid) (rm_sites m))),
      (''certificates'', JArray (map (certificate_json display_uuid rfc3339) (rm_certificates m))),
      (''targets'', JArray (map (release_target_json display_uuid) (rm_targets m)))]"

subsection \<open>Bundles\<close>

record compiled_config_bundle =
  cb_manifest :: release_manifest
  cb_rendered_config :: json
  cb_certificates :: "certificate_ref list"
  cb_signature :: string

definition signature_for_release :: "(uuid \<Rightarrow> string) \<Rightarrow> string \<Rightarrow> uuid \<Rightarrow> string" where
  "signature_for_release display_uuid release_version release_id =
     ''sig:'' @ release_version @ '':'' @ display_uuid release_id"

definition compile_site_bundle ::
  "(uuid \<Rightarrow> string) \<Rightarrow> uuid \<Rightarrow> datetime \<Rightarrow> site_spec \<Rightarrow> certificate_ref list \<Rightarrow>
   release_target list \<Rightarrow> string \<Rightarrow> string + compiled_config_bundle" where
  "compile_site_bundle display_uuid new_id now site certificates targets release_version =
     (if trim (ss_domain site) = [] then Inl ''site domain cannot be empty''
      else
        let rendered_config = jobj
              [(''site_code'', JString (ss_site_code site)),
               (''status'', JString (site_status_name (ss_status site))),
               (''domain'', JString (ss_domain site)),
               (''listen_port'', jnat (ucast (ss_listen_port site))),
               (''protocol'', JString (protocol_name (ss_protocol site))),
               (''tls_enabled'', JBool (ss_tls_enabled site)),
               (''upstreams'', JArray (map upstream_json (ss_upstreams site))),
               (''routes'', JArray (map route_json (ss_routes site))),
               (''cache_rules'', JArray (map cache_rule_json (ss_cache_rules site)))];
            manifest =
              \<lparr>rm_release_id = new_id,
               rm_release_version = release_version,
               rm_scope = ''site'',
               rm_config_hash = ''sha256:'' @ ss_name site @ '':'' @ release_version,
               rm_created_at = now,
               rm_sites = [site],
               rm_certificates = certificates,
               rm_targets = targets\<rparr>
        in Inr
          \<lparr>cb_manifest = manifest,
           cb_rendered_config = rendered_config,
           cb_certificates = certificates,
           cb_signature = signature_for_release display_uuid release_version new_id\<rparr>)"

definition compile_site_cleanup_bundle ::
  "(uuid \<Rightarrow> string) \<Rightarrow> uuid \<Rightarrow> datetime \<Rightarrow> site_spec \<Rightarrow> release_target list \<Rightarrow> string \<Rightarrow>
   string + compiled_config_bundle" where
  "compile_site_cleanup_bundle display_uuid new_id now site targets release_version =
     (if trim (ss_site_code site) = [] then Inl ''site code cannot be empty''
      else
        let rendered_config = jobj
              [(''sites'', JArray []),
               (''cleanup'', jobj
                  [(''site_ids'', JArray [JString (display_uuid (ss_id site))]),
                   (''site_codes'', JArray [JString (ss_site_code site)]),
                   (''domains'', JArray [JString (ss_domain site)])])];
            manifest =
              \<lparr>rm_release_id = new_id,
               rm_release_version = release_version,
               rm_scope = ''site_cleanup'',
               rm_config_hash = ''sha256:cleanup:'' @ ss_site_code site @ '':'' @ release_version,
               rm_created_at = now,
               rm_sites = [],
               rm_certificates = [],
               rm_targets = targets\<rparr>
        in Inr
          \<lparr>cb_manifest = manifest,
           cb_rendered_config = rendered_config,
           cb_certificates = [],
           cb_signature = signature_for_release display_uuid release_version new_id\<rparr>)"

lemma compile_site_bundle_Inr:
  "compile_site_bundle disp new_id now site certs targets ver = Inr b \<Longrightarrow>
   trim (ss_domain site) \<noteq> [] \<and> rm_release_id (cb_manifest b) = new_id \<and>
   rm_release_version (cb_manifest b) = ver \<and> rm_sites (cb_manifest b) = [site] \<and>
   rm_targets (cb_manifest b) = targets \<and> cb_certificates b = certs"
  by (auto simp: compile_site_bundle_def Let_def split: if_splits)

lemma compile_site_cleanup_bundle_Inr:
  "compile_site_cleanup_bundle disp new_id now site targets ver = Inr b \<Longrightarrow>
   trim (ss_site_code site) \<noteq> [] \<and> rm_release_id (cb_manifest b) = new_id \<and>
   rm_release_version (cb_manifest b) = ver \<and> rm_sites (cb_manifest b) = [] \<and>
   rm_targets (cb_manifest b) = targets \<and> cb_certificates b = []"
  by (auto simp: compile_site_cleanup_bundle_def Let_def split: if_splits)

end
