(* ===== verification/Hub_Store.thy ===== *)
theory Hub_Store
  imports Site_Config Config_Compiler
begin

text \<open>
  The repository of the hub (\<open>apps/hub-api/src/store.rs\<close>): the records it keeps, and the
  in-memory implementation of \<open>HubRepository\<close>, one definition per method. None of the
  in-memory methods fails, so they are functions on the state; the methods only read or write
  the state they take, under the lock of \<open>MemoryRepository\<close>, and are therefore atomic.
\<close>

subsection \<open>Records\<close>

record node_record =
  nd_identity :: node_identity
  nd_runtime :: node_runtime_state
  nd_labels :: json
  nd_hostname :: "string option"
  nd_public_ip :: "string option"
  nd_private_ip :: "string option"
  nd_bootstrap_token :: "string option"
  nd_pingora_version :: "string option"
  nd_agent_version :: "string option"

record heartbeat_record =
  hb_node_id :: uuid
  hb_pingora_version :: string
  hb_agent_version :: string
  hb_active_config_version :: "string option"
  hb_site_count :: u32
  hb_cpu_usage :: f32
  hb_mem_usage :: f32
  hb_disk_usage :: f32
  hb_health_score :: u8
  hb_reported_at :: datetime

record site_binding_record =
  sb_node_id :: uuid
  sb_binding_role :: string
  sb_priority :: int

record site_record =
  st_id :: uuid
  st_site_code :: string
  st_name :: string
  st_domain :: string
  st_listen_port :: u16
  st_protocol :: protocol
  st_tls_enabled :: bool
  st_status :: site_status
  st_version :: u32
  st_config :: json
  st_bindings :: "site_binding_record list"

definition to_spec :: "(string \<Rightarrow> string) \<Rightarrow> site_record \<Rightarrow> site_spec" where
  "to_spec lower site =
     (let upstreams = parse_upstreams (st_config site);
          routes = parse_routes (st_config site) upstreams
      in \<lparr>ss_id = st_id site, ss_site_code = st_site_code site, ss_name = st_name site,
          ss_domain = st_domain site, ss_listen_port = st_listen_port site,
          ss_protocol = st_protocol site, ss_tls_enabled = st_tls_enabled site,
          ss_status = st_status site, ss_upstreams = upstreams, ss_routes = routes,
          ss_cache_rules = parse_cache_rules lower (st_config site)\<rparr>)"

record node_ack_record =
  ak_apply_status :: string
  ak_current_version :: "string option"
  ak_message :: "string option"
  ak_acked_at :: "datetime option"

record release_record =
  rl_release_id :: uuid
  rl_scope_type :: string
  rl_scope_id :: "uuid option"
  rl_release_type :: string
  rl_release_version :: string
  rl_reason :: string
  rl_status :: string
  rl_bundle :: compiled_config_bundle
  rl_target_node_ids :: "uuid list"
  rl_ack_status :: "(uuid, node_ack_record) hashmap"
  rl_created_at :: datetime

record dns_provider_record =
  dp_provider_id :: uuid
  dp_name :: string
  dp_provider_type :: string
  dp_api_endpoint :: "string option"
  dp_credential_encrypted :: string
  dp_status :: string
  dp_created_at :: datetime

record dns_zone_record =
  dz_zone_id :: uuid
  dz_provider_id :: uuid
  dz_zone_name :: string
  dz_external_zone_id :: string
  dz_status :: string
  dz_created_at :: datetime

record certificate_record =
  ct_certificate_id :: uuid
  ct_cert_code :: string
  ct_common_name :: string
  ct_sans :: "string list"
  ct_fingerprint_sha256 :: string
  ct_status :: string
  ct_expires_at :: "datetime option"
  ct_created_at :: datetime

record certificate_order_record =
  co_order_id :: uuid
  co_site_id :: "uuid option"
  co_certificate_id :: "uuid option"
  co_zone_id :: uuid
  co_order_type :: string
  co_acme_provider :: string
  co_challenge_type :: string
  co_challenge_payload :: json
  co_order_status :: string
  co_error_message :: "string option"
  co_certificate_expires_at :: "datetime option"
  co_created_at :: datetime

record admin_user_record =
  au_user_id :: uuid
  au_username :: string
  au_display_name :: string
  au_password_hash :: string
  au_status :: string
  au_last_login_at :: "datetime option"
  au_created_at :: datetime

record admin_session_record =
  as_session_id :: uuid
  as_user_id :: uuid
  as_session_token_hash :: string
  as_expires_at :: datetime
  as_created_at :: datetime
  as_last_seen_at :: datetime

record admin_session_context =
  sc_user_id :: uuid
  sc_username :: string
  sc_display_name :: string
  sc_status :: string
  sc_expires_at :: datetime

record operation_template_record =
  tp_template_id :: uuid
  tp_name :: string
  tp_operation_type :: string
  tp_command_template :: string
  tp_allowed_params :: json
  tp_timeout_seconds :: u32
  tp_run_as_user :: string
  tp_approval_required :: bool
  tp_created_at :: datetime

record node_operation_record =
  op_operation_id :: uuid
  op_node_id :: uuid
  op_template_id :: uuid
  op_event_id :: "uuid option"
  op_input_params :: json
  op_exec_status :: string
  op_requested_by :: string
  op_approved_by :: "string option"
  op_exit_code :: "int option"
  op_stdout_log :: "string option"
  op_stderr_log :: "string option"
  op_started_at :: "datetime option"
  op_finished_at :: "datetime option"
  op_created_at :: datetime

record claimed_node_operation =
  cl_operation :: node_operation_record
  cl_template :: operation_template_record

record node_delete_guard =
  dg_bound_site_codes :: "string list"
  dg_failover_policy_count :: nat

record memory_state =
  nodes :: "(uuid, node_record) hashmap"
  node_ids_by_code :: "(string, uuid) hashmap"
  sites :: "(uuid, site_record) hashmap"
  site_ids_by_code :: "(string, uuid) hashmap"
  releases :: "(uuid, release_record) hashmap"
  release_ids_by_version :: "(string, uuid) hashmap"
  latest_release_by_node :: "(uuid, uuid) hashmap"
  dns_providers :: "(uuid, dns_provider_record) hashmap"
  dns_provider_ids_by_name :: "(string, uuid) hashmap"
  dns_zones :: "(uuid, dns_zone_record) hashmap"
  certificates :: "(uuid, certificate_record) hashmap"
  site_certificates :: "(uuid, certificate_ref list) hashmap"
  certificate_orders :: "(uuid, certificate_order_record) hashmap"
  admin_users :: "(uuid, admin_user_record) hashmap"
  admin_user_ids_by_username :: "(string, uuid) hashmap"
  admin_sessions :: "(string, admin_session_record) hashmap"
  operation_templates :: "(uuid, operation_template_record) hashmap"
  operation_template_ids_by_name :: "(string, uuid) hashmap"
  node_operations :: "(uuid, node_operation_record) hashmap"

definition empty_memory_state :: memory_state where
  "empty_memory_state =
     \<lparr>nodes = [], node_ids_by_code = [], sites = [], site_ids_by_code = [], releases = [],
      release_ids_by_version = [], latest_release_by_node = [], dns_providers = [],
      dns_provider_ids_by_name = [], dns_zones = [], certificates = [], site_certificates = [],
      certificate_orders = [], admin_users = [], admin_user_ids_by_username = [],
      admin_sessions = [], operation_templates = [], operation_template_ids_by_name = [],
      node_operations = []\<rparr>"

subsection \<open>Release status\<close>

text \<open>The loop over the acknowledgements, with its three flags.\<close>

record ack_flags =
  has_in_progress :: bool
  has_failed :: bool
  all_success :: bool

definition scan_ack :: "node_ack_record \<Rightarrow> ack_flags \<Rightarrow> ack_flags" where
  "scan_ack ack fl =
     (if ak_apply_status ack = ''success'' then fl
      else if ak_apply_status ack = ''failed'' then fl\<lparr>has_failed := True, all_success := False\<rparr>
      else if ak_apply_status ack \<in> {''downloading'', ''applying''}
      then fl\<lparr>has_in_progress := True, all_success := False\<rparr>
      else fl\<lparr>all_success := False\<rparr>)"

definition aggregate_release_status :: "(uuid, node_ack_record) hashmap \<Rightarrow> string" where
  "aggregate_release_status ack_status =
     (if ack_status = [] then ''pending''
      else
        let fl = fold scan_ack (hm_values ack_status)
              \<lparr>has_in_progress = False, has_failed = False, all_success = True\<rparr>
        in if has_failed fl then ''failed''
           else if all_success fl then ''success''
           else if has_in_progress fl then ''publishing''
           else ''pending'')"

subsection \<open>Nodes\<close>

definition repo_save_node :: "node_record \<Rightarrow> memory_state \<Rightarrow> memory_state" where
  "repo_save_node node s = s\<lparr>
     node_ids_by_code := hm_insert (ni_node_code (nd_identity node)) (ni_id (nd_identity node)) (node_ids_by_code s),
     nodes := hm_insert (ni_id (nd_identity node)) node (nodes s)\<rparr>"

definition repo_node :: "memory_state \<Rightarrow> uuid \<Rightarrow> node_record option" where
  "repo_node s node_id = hm_get (nodes s) node_id"

definition repo_node_id_by_code :: "memory_state \<Rightarrow> string \<Rightarrow> uuid option" where
  "repo_node_id_by_code s node_code = hm_get (node_ids_by_code s) node_code"

definition repo_list_nodes :: "memory_state \<Rightarrow> node_record list" where
  "repo_list_nodes s = hm_values (nodes s)"

definition repo_node_delete_guard :: "memory_state \<Rightarrow> uuid \<Rightarrow> node_delete_guard" where
  "repo_node_delete_guard s node_id =
     \<lparr>dg_bound_site_codes = sort_dedup
        (map st_site_code
          (filter (\<lambda>site. list_ex (\<lambda>b. sb_node_id b = node_id) (st_bindings site)) (hm_values (sites s)))),
      dg_failover_policy_count = 0\<rparr>"

definition detach_site :: "uuid \<Rightarrow> site_record \<Rightarrow> site_record" where
  "detach_site node_id site = site\<lparr>st_bindings := filter (\<lambda>b. sb_node_id b \<noteq> node_id) (st_bindings site)\<rparr>"

definition detach_release :: "uuid \<Rightarrow> release_record \<Rightarrow> release_record" where
  "detach_release node_id release =
     (let acks = hm_remove node_id (rl_ack_status release)
      in release\<lparr>rl_target_node_ids := filter (\<lambda>c. c \<noteq> node_id) (rl_target_node_ids release),
                 rl_ack_status := acks,
                 rl_status := aggregate_release_status acks\<rparr>)"

definition repo_delete_node :: "uuid \<Rightarrow> memory_state \<Rightarrow> memory_state" where
  "repo_delete_node node_id s =
     (case hm_get (nodes s) node_id of
        None \<Rightarrow> s
      | Some node \<Rightarrow> s\<lparr>
          nodes := hm_remove node_id (nodes s),
          node_ids_by_code := hm_remove (ni_node_code (nd_identity node)) (node_ids_by_code s),
          latest_release_by_node := hm_remove node_id (latest_release_by_node s),
          sites := hm_map_values (detach_site node_id) (sites s),
          releases := hm_map_values (detach_release node_id) (releases s)\<rparr>)"

definition apply_heartbeat :: "heartbeat_record \<Rightarrow> node_record \<Rightarrow> node_record" where
  "apply_heartbeat hb node = node\<lparr>
     nd_identity := (if ni_status (nd_identity node) \<noteq> Maintenance
       then (nd_identity node)\<lparr>ni_status := Online\<rparr> else nd_identity node),
     nd_pingora_version := Some (hb_pingora_version hb),
     nd_agent_version := Some (hb_agent_version hb),
     nd_runtime := \<lparr>nr_active_config_version = hb_active_config_version hb,
       nr_last_seen_at = Some (hb_reported_at hb),
       nr_site_count = hb_site_count hb, nr_health_score = hb_health_score hb\<rparr>\<rparr>"

definition repo_record_heartbeat :: "heartbeat_record \<Rightarrow> memory_state \<Rightarrow> memory_state" where
  "repo_record_heartbeat hb s = s\<lparr>nodes := hm_modify (hb_node_id hb) (apply_heartbeat hb) (nodes s)\<rparr>"

subsection \<open>Sites\<close>

definition repo_save_site :: "site_record \<Rightarrow> memory_state \<Rightarrow> memory_state" where
  "repo_save_site site s = s\<lparr>
     site_ids_by_code := hm_insert (st_site_code site) (st_id site) (site_ids_by_code s),
     sites := hm_insert (st_id site) site (sites s)\<rparr>"

definition repo_site :: "memory_state \<Rightarrow> uuid \<Rightarrow> site_record option" where
  "repo_site s site_id = hm_get (sites s) site_id"

definition repo_site_id_by_code :: "memory_state \<Rightarrow> string \<Rightarrow> uuid option" where
  "repo_site_id_by_code s site_code = hm_get (site_ids_by_code s) site_code"

definition repo_list_sites :: "memory_state \<Rightarrow> site_record list" where
  "repo_list_sites s = hm_values (sites s)"

definition repo_delete_site :: "uuid \<Rightarrow> memory_state \<Rightarrow> memory_state" where
  "repo_delete_site site_id s =
     (case hm_get (sites s) site_id of
        None \<Rightarrow> s
      | Some site \<Rightarrow> s\<lparr>
          sites := hm_remove site_id (sites s),
          site_ids_by_code := hm_remove (st_site_code site) (site_ids_by_code s),
          site_certificates := hm_remove site_id (site_certificates s),
          certificate_orders := hm_map_values
            (\<lambda>order. if co_site_id order = Some site_id then order\<lparr>co_site_id := None\<rparr> else order)
            (certificate_orders s)\<rparr>)"

text \<open>The in-memory store keeps no failover policies.\<close>

definition repo_update_active_failover_policy_targets ::
  "uuid \<Rightarrow> uuid \<Rightarrow> uuid \<Rightarrow> memory_state \<Rightarrow> u64 \<times> memory_state" where
  "repo_update_active_failover_policy_targets site_id primary_node_id standby_node_id s = (0, s)"

subsection \<open>Releases\<close>

definition repo_save_release :: "release_record \<Rightarrow> memory_state \<Rightarrow> memory_state" where
  "repo_save_release release s = s\<lparr>
     release_ids_by_version :=
       hm_insert (rl_release_version release) (rl_release_id release) (release_ids_by_version s),
     latest_release_by_node :=
       fold (\<lambda>node_id m. hm_insert node_id (rl_release_id release) m) (rl_target_node_ids release)
         (latest_release_by_node s),
     releases := hm_insert (rl_release_id release) release (releases s)\<rparr>"

definition repo_release :: "memory_state \<Rightarrow> uuid \<Rightarrow> release_record option" where
  "repo_release s release_id = hm_get (releases s) release_id"

definition repo_release_by_version :: "memory_state \<Rightarrow> string \<Rightarrow> release_record option" where
  "repo_release_by_version s version =
     (case hm_get (release_ids_by_version s) version of
        None \<Rightarrow> None
      | Some release_id \<Rightarrow> hm_get (releases s) release_id)"

definition repo_list_releases :: "memory_state \<Rightarrow> release_record list" where
  "repo_list_releases s = hm_values (releases s)"

definition repo_latest_release_id_for_node :: "memory_state \<Rightarrow> uuid \<Rightarrow> uuid option" where
  "repo_latest_release_id_for_node s node_id = hm_get (latest_release_by_node s) node_id"

definition record_ack :: "uuid \<Rightarrow> node_ack_record \<Rightarrow> release_record \<Rightarrow> release_record" where
  "record_ack node_id ack release =
     (let acks = hm_insert node_id ack (rl_ack_status release)
      in release\<lparr>rl_ack_status := acks, rl_status := aggregate_release_status acks\<rparr>)"

definition repo_update_release_ack ::
  "uuid \<Rightarrow> uuid \<Rightarrow> node_ack_record \<Rightarrow> memory_state \<Rightarrow> memory_state" where
  "repo_update_release_ack release_id node_id ack s =
     s\<lparr>releases := hm_modify release_id (record_ack node_id ack) (releases s)\<rparr>"

subsection \<open>DNS providers and zones\<close>

definition repo_save_dns_provider :: "dns_provider_record \<Rightarrow> memory_state \<Rightarrow> memory_state" where
  "repo_save_dns_provider provider s = s\<lparr>
     dns_provider_ids_by_name :=
       hm_insert (dp_name provider) (dp_provider_id provider) (dns_provider_ids_by_name s),
     dns_providers := hm_insert (dp_provider_id provider) provider (dns_providers s)\<rparr>"

definition repo_dns_provider :: "memory_state \<Rightarrow> uuid \<Rightarrow> dns_provider_record option" where
  "repo_dns_provider s provider_id = hm_get (dns_providers s) provider_id"

definition repo_dns_provider_by_name :: "memory_state \<Rightarrow> string \<Rightarrow> dns_provider_record option" where
  "repo_dns_provider_by_name s name =
     (case hm_get (dns_provider_ids_by_name s) name of
        None \<Rightarrow> None
      | Some provider_id \<Rightarrow> hm_get (dns_providers s) provider_id)"

definition repo_list_dns_providers :: "memory_state \<Rightarrow> dns_provider_record list" where
  "repo_list_dns_providers s = hm_values (dns_providers s)"

definition repo_delete_dns_provider :: "uuid \<Rightarrow> memory_state \<Rightarrow> memory_state" where
  "repo_delete_dns_provider provider_id s =
     (case hm_get (dns_providers s) provider_id of
        None \<Rightarrow> s
      | Some provider \<Rightarrow>
          (let zone_ids = map dz_zone_id (filter (\<lambda>zone. dz_provider_id zone = provider_id) (hm_values (dns_zones s)))
           in s\<lparr>
             dns_providers := hm_remove provider_id (dns_providers s),
             dns_provider_ids_by_name := hm_remove (dp_name provider) (dns_provider_ids_by_name s),
             dns_zones := fold hm_remove zone_ids (dns_zones s)\<rparr>))"

definition repo_save_dns_zone :: "dns_zone_record \<Rightarrow> memory_state \<Rightarrow> memory_state" where
  "repo_save_dns_zone zone s = s\<lparr>dns_zones := hm_insert (dz_zone_id zone) zone (dns_zones s)\<rparr>"

definition repo_dns_zone :: "memory_state \<Rightarrow> uuid \<Rightarrow> dns_zone_record option" where
  "repo_dns_zone s zone_id = hm_get (dns_zones s) zone_id"

definition repo_dns_zone_by_provider_name :: "memory_state \<Rightarrow> uuid \<Rightarrow> string \<Rightarrow> dns_zone_record option" where
  "repo_dns_zone_by_provider_name s provider_id zone_name =
     List.find (\<lambda>zone. dz_provider_id zone = provider_id \<and> dz_zone_name zone = zone_name) (hm_values (dns_zones s))"

definition repo_list_dns_zones :: "memory_state \<Rightarrow> dns_zone_record list" where
  "repo_list_dns_zones s = hm_values (dns_zones s)"

definition repo_delete_dns_zone :: "uuid \<Rightarrow> memory_state \<Rightarrow> memory_state" where
  "repo_delete_dns_zone zone_id s = s\<lparr>dns_zones := hm_remove zone_id (dns_zones s)\<rparr>"

subsection \<open>Certificates\<close>

definition repo_save_certificate :: "certificate_record \<Rightarrow> memory_state \<Rightarrow> memory_state" where
  "repo_save_certificate certificate s =
     s\<lparr>certificates := hm_insert (ct_certificate_id certificate) certificate (certificates s)\<rparr>"

definition repo_site_certificates :: "memory_state \<Rightarrow> uuid \<Rightarrow> certificate_ref list" where
  "repo_site_certificates s site_id = unwrap_or [] (hm_get (site_certificates s) site_id)"

definition repo_save_certificate_order :: "certificate_order_record \<Rightarrow> memory_state \<Rightarrow> memory_state" where
  "repo_save_certificate_order order s =
     s\<lparr>certificate_orders := hm_insert (co_order_id order) order (certificate_orders s)\<rparr>"

definition repo_certificate_order :: "memory_state \<Rightarrow> uuid \<Rightarrow> certificate_order_record option" where
  "repo_certificate_order s order_id = hm_get (certificate_orders s) order_id"

definition repo_list_certificate_orders :: "memory_state \<Rightarrow> certificate_order_record list" where
  "repo_list_certificate_orders s = hm_values (certificate_orders s)"

subsection \<open>Administrators\<close>

definition repo_save_admin_user :: "admin_user_record \<Rightarrow> memory_state \<Rightarrow> memory_state" where
  "repo_save_admin_user user s = s\<lparr>
     admin_user_ids_by_username :=
       hm_insert (au_username user) (au_user_id user) (admin_user_ids_by_username s),
     admin_users := hm_insert (au_user_id user) user (admin_users s)\<rparr>"

definition repo_admin_user_by_username :: "memory_state \<Rightarrow> string \<Rightarrow> admin_user_record option" where
  "repo_admin_user_by_username s username =
     (case hm_get (admin_user_ids_by_username s) username of
        None \<Rightarrow> None
      | Some user_id \<Rightarrow> hm_get (admin_users s) user_id)"

definition repo_touch_admin_user_login :: "uuid \<Rightarrow> datetime \<Rightarrow> memory_state \<Rightarrow> memory_state" where
  "repo_touch_admin_user_login user_id last_login_at s = s\<lparr>
     admin_users := hm_modify user_id (\<lambda>user. user\<lparr>au_last_login_at := Some last_login_at\<rparr>) (admin_users s)\<rparr>"

definition repo_save_admin_session :: "admin_session_record \<Rightarrow> memory_state \<Rightarrow> memory_state" where
  "repo_save_admin_session session s =
     s\<lparr>admin_sessions := hm_insert (as_session_token_hash session) session (admin_sessions s)\<rparr>"

definition repo_admin_session_by_token_hash :: "memory_state \<Rightarrow> string \<Rightarrow> admin_session_context option" where
  "repo_admin_session_by_token_hash s session_token_hash =
     (case hm_get (admin_sessions s) session_token_hash of
        None \<Rightarrow> None
      | Some session \<Rightarrow>
          (case hm_get (admin_users s) (as_user_id session) of
             None \<Rightarrow> None
           | Some user \<Rightarrow> Some
               \<lparr>sc_user_id = au_user_id user, sc_username = au_username user,
                sc_display_name = au_display_name user, sc_status = au_status user,
                sc_expires_at = as_expires_at session\<rparr>))"

definition repo_touch_admin_session :: "string \<Rightarrow> datetime \<Rightarrow> memory_state \<Rightarrow> memory_state" where
  "repo_touch_admin_session session_token_hash last_seen_at s = s\<lparr>
     admin_sessions := hm_modify session_token_hash (\<lambda>session. session\<lparr>as_last_seen_at := last_seen_at\<rparr>)
       (admin_sessions s)\<rparr>"

definition repo_delete_admin_session :: "string \<Rightarrow> memory_state \<Rightarrow> memory_state" where
  "repo_delete_admin_session session_token_hash s =
     s\<lparr>admin_sessions := hm_remove session_token_hash (admin_sessions s)\<rparr>"

definition repo_delete_admin_sessions_for_user :: "uuid \<Rightarrow> string option \<Rightarrow> memory_state \<Rightarrow> memory_state" where
  "repo_delete_admin_sessions_for_user user_id exclude_session_token_hash s = s\<lparr>
     admin_sessions := hm_retain
       (\<lambda>session_token_hash session.
          as_user_id session \<noteq> user_id \<or> Some session_token_hash = exclude_session_token_hash)
       (admin_sessions s)\<rparr>"

subsection \<open>Operation templates and node operations\<close>

definition repo_save_operation_template :: "operation_template_record \<Rightarrow> memory_state \<Rightarrow> memory_state" where
  "repo_save_operation_template template s = s\<lparr>
     operation_template_ids_by_name :=
       hm_insert (tp_name template) (tp_template_id template) (operation_template_ids_by_name s),
     operation_templates := hm_insert (tp_template_id template) template (operation_templates s)\<rparr>"

definition repo_operation_template :: "memory_state \<Rightarrow> uuid \<Rightarrow> operation_template_record option" where
  "repo_operation_template s template_id = hm_get (operation_templates s) template_id"

definition repo_operation_template_by_name :: "memory_state \<Rightarrow> string \<Rightarrow> operation_template_record option" where
  "repo_operation_template_by_name s name =
     (case hm_get (operation_template_ids_by_name s) name of
        None \<Rightarrow> None
      | Some template_id \<Rightarrow> hm_get (operation_templates s) template_id)"

definition repo_list_operation_templates :: "memory_state \<Rightarrow> operation_template_record list" where
  "repo_list_operation_templates s = hm_values (operation_templates s)"

definition repo_delete_operation_template :: "uuid \<Rightarrow> memory_state \<Rightarrow> memory_state" where
  "repo_delete_operation_template template_id s =
     (case hm_get (operation_templates s) template_id of
        None \<Rightarrow> s
      | Some template \<Rightarrow> s\<lparr>
          operation_templates := hm_remove template_id (operation_templates s),
          operation_template_ids_by_name := hm_remove (tp_name template) (operation_template_ids_by_name s),
          node_operations := hm_retain (\<lambda>_ operation. op_template_id operation \<noteq> template_id) (node_operations s)\<rparr>)"

definition repo_save_node_operation :: "node_operation_record \<Rightarrow> memory_state \<Rightarrow> memory_state" where
  "repo_save_node_operation operation s =
     s\<lparr>node_operations := hm_insert (op_operation_id operation) operation (node_operations s)\<rparr>"

definition repo_node_operation :: "memory_state \<Rightarrow> uuid \<Rightarrow> node_operation_record option" where
  "repo_node_operation s operation_id = hm_get (node_operations s) operation_id"

definition repo_list_node_operations :: "memory_state \<Rightarrow> uuid \<Rightarrow> node_operation_record list" where
  "repo_list_node_operations s node_id =
     sort_key (\<lambda>operation. - op_created_at operation)
       (filter (\<lambda>operation. op_node_id operation = node_id) (hm_values (node_operations s)))"

text \<open>
  \<open>claim_next_node_operation\<close> marks the operation as running before it looks its template up;
  if the template is gone the mark stays and nothing is returned.
\<close>

definition next_approved_operation :: "memory_state \<Rightarrow> uuid \<Rightarrow> uuid option" where
  "next_approved_operation s node_id =
     map_option op_operation_id
       (min_by_key op_created_at
         (filter (\<lambda>operation. op_node_id operation = node_id \<and> op_exec_status operation = ''approved'')
           (hm_values (node_operations s))))"

definition repo_claim_next_node_operation ::
  "datetime \<Rightarrow> uuid \<Rightarrow> memory_state \<Rightarrow> claimed_node_operation option \<times> memory_state" where
  "repo_claim_next_node_operation now node_id s =
     (case next_approved_operation s node_id of
        None \<Rightarrow> (None, s)
      | Some operation_id \<Rightarrow>
          (case hm_get (node_operations s) operation_id of
             None \<Rightarrow> (None, s)
           | Some operation \<Rightarrow>
               (let claimed = operation\<lparr>op_exec_status := ''running'', op_started_at := Some now\<rparr>;
                    s' = s\<lparr>node_operations := hm_insert operation_id claimed (node_operations s)\<rparr>
                in (case hm_get (operation_templates s') (op_template_id claimed) of
                      None \<Rightarrow> (None, s')
                    | Some template \<Rightarrow> (Some \<lparr>cl_operation = claimed, cl_template = template\<rparr>, s')))))"

definition repo_update_node_operation :: "node_operation_record \<Rightarrow> memory_state \<Rightarrow> memory_state" where
  "repo_update_node_operation operation s =
     s\<lparr>node_operations := hm_insert (op_operation_id operation) operation (node_operations s)\<rparr>"

end
