(* ===== verification/Store_Laws.thy ===== *)
theory Store_Laws
  imports Hub_Store
begin

text \<open>
  Laws of the repository. Six of its tables come with an index from a unique text (a node code,
  a site code, a release version, a provider, user or template name) to the identifier; the two
  locales state what their save and delete methods promise and derive once that the table and
  its index stay consistent. Then: the release status as a specification, and the effect of
  deleting a node, of saving a release and of claiming an operation.
\<close>

subsection \<open>Tables with an index\<close>

text \<open>
  Forward: every record is found under its own text. Backward: the index only leads to records
  that carry the text.
\<close>

definition index_fwd :: "(uuid, 'r) hashmap \<Rightarrow> (string, uuid) hashmap \<Rightarrow> ('r \<Rightarrow> string) \<Rightarrow> ('r \<Rightarrow> uuid) \<Rightarrow> bool" where
  "index_fwd tab idx key ident \<longleftrightarrow>
     (\<forall>i r. hm_get tab i = Some r \<longrightarrow> ident r = i \<and> hm_get idx (key r) = Some i)"

definition index_bwd :: "(uuid, 'r) hashmap \<Rightarrow> (string, uuid) hashmap \<Rightarrow> ('r \<Rightarrow> string) \<Rightarrow> bool" where
  "index_bwd tab idx key \<longleftrightarrow>
     (\<forall>k i. hm_get idx k = Some i \<longrightarrow> (\<exists>r. hm_get tab i = Some r \<and> key r = k))"

lemma index_fwdD:
  "index_fwd tab idx key ident \<Longrightarrow> hm_get tab i = Some r \<Longrightarrow> ident r = i \<and> hm_get idx (key r) = Some i"
  by (simp add: index_fwd_def)

lemma index_bwdD:
  "index_bwd tab idx key \<Longrightarrow> hm_get idx k = Some i \<Longrightarrow> hm_get tab i = Some r \<Longrightarrow> key r = k"
  by (force simp: index_bwd_def)

lemma index_bwd_ex:
  "index_bwd tab idx key \<Longrightarrow> hm_get idx k = Some i \<Longrightarrow> \<exists>r. hm_get tab i = Some r \<and> key r = k"
  by (simp add: index_bwd_def)

text \<open>Updates of stored records that keep their identifier and text keep the index right.\<close>

lemma index_fwd_map_values:
  "index_fwd tab idx key ident \<Longrightarrow> (\<And>r. key (f r) = key r) \<Longrightarrow> (\<And>r. ident (f r) = ident r) \<Longrightarrow>
   index_fwd (hm_map_values f tab) idx key ident"
  by (auto simp: index_fwd_def)

lemma index_bwd_map_values:
  "index_bwd tab idx key \<Longrightarrow> (\<And>r. key (f r) = key r) \<Longrightarrow> index_bwd (hm_map_values f tab) idx key"
  by (fastforce simp: index_bwd_def)

lemma index_fwd_modify:
  "index_fwd tab idx key ident \<Longrightarrow> (\<And>r. key (f r) = key r) \<Longrightarrow> (\<And>r. ident (f r) = ident r) \<Longrightarrow>
   index_fwd (hm_modify i f tab) idx key ident"
  by (auto simp: index_fwd_def)

lemma index_bwd_modify:
  "index_bwd tab idx key \<Longrightarrow> (\<And>r. key (f r) = key r) \<Longrightarrow> index_bwd (hm_modify i f tab) idx key"
  by (fastforce simp: index_bwd_def)

locale indexed_store =
  fixes tab :: "'s \<Rightarrow> (uuid, 'r) hashmap"
    and idx :: "'s \<Rightarrow> (string, uuid) hashmap"
    and key :: "'r \<Rightarrow> string"
    and ident :: "'r \<Rightarrow> uuid"
    and save :: "'r \<Rightarrow> 's \<Rightarrow> 's"
  assumes tab_save: "tab (save r s) = hm_insert (ident r) r (tab s)"
    and idx_save: "idx (save r s) = hm_insert (key r) (ident r) (idx s)"
begin

text \<open>
  Saving keeps the forward direction when no other record has the text, and the backward
  direction when in addition the record keeps its text if it is already stored.
\<close>

lemma save_fwd:
  assumes "index_fwd (tab s) (idx s) key ident"
    and "\<And>i r'. hm_get (tab s) i = Some r' \<Longrightarrow> key r' = key r \<Longrightarrow> i = ident r"
  shows "index_fwd (tab (save r s)) (idx (save r s)) key ident"
  using assms unfolding index_fwd_def by (auto simp: tab_save idx_save)

text \<open>The check the handlers make: the text is free, dangling, or already the record's own.\<close>

lemma save_fwd_checked:
  assumes "index_fwd (tab s) (idx s) key ident"
    and "\<And>i r'. hm_get (idx s) (key r) = Some i \<Longrightarrow> hm_get (tab s) i = Some r' \<Longrightarrow> i = ident r"
  shows "index_fwd (tab (save r s)) (idx (save r s)) key ident"
proof (rule save_fwd [OF assms(1)])
  fix i r' assume r': "hm_get (tab s) i = Some r'" "key r' = key r"
  have "hm_get (idx s) (key r') = Some i"
    using assms(1) r'(1) unfolding index_fwd_def by blast
  then have "hm_get (idx s) (key r) = Some i" by (simp only: r'(2))
  then show "i = ident r" using r'(1) by (rule assms(2))
qed

lemma save_bwd:
  assumes "index_bwd (tab s) (idx s) key"
    and "\<And>r'. hm_get (tab s) (ident r) = Some r' \<Longrightarrow> key r' = key r"
  shows "index_bwd (tab (save r s)) (idx (save r s)) key"
  unfolding index_bwd_def
proof (intro allI impI)
  fix k i assume k: "hm_get (idx (save r s)) k = Some i"
  show "\<exists>r'. hm_get (tab (save r s)) i = Some r' \<and> key r' = k"
  proof (cases "k = key r")
    case True
    with k show ?thesis by (simp add: tab_save idx_save)
  next
    case False
    with k have "hm_get (idx s) k = Some i" by (simp add: idx_save)
    with assms(1) obtain r' where r': "hm_get (tab s) i = Some r'" "key r' = k"
      unfolding index_bwd_def by blast
    with assms(2) [of r'] False have "i \<noteq> ident r" by auto
    with r' show ?thesis by (simp add: tab_save)
  qed
qed

lemma fwd_unique:
  "index_fwd (tab s) (idx s) key ident \<Longrightarrow> hm_get (tab s) i = Some r \<Longrightarrow> hm_get (tab s) j = Some r' \<Longrightarrow>
   key r = key r' \<Longrightarrow> i = j"
  unfolding index_fwd_def by (metis option.inject)

lemma save_wf: "hm_wf (tab s) \<Longrightarrow> hm_wf (tab (save r s))"
  by (simp add: tab_save)

end

locale indexed_store_delete = indexed_store +
  fixes del :: "uuid \<Rightarrow> 'a \<Rightarrow> 'a"
  assumes idx_del: "hm_get (idx (del i s)) k =
      (case hm_get (tab s) i of
         None \<Rightarrow> hm_get (idx s) k
       | Some r \<Rightarrow> if k = key r then None else hm_get (idx s) k)"
    and tab_del: "hm_get (tab (del i s)) j = (if j = i then None else hm_get (tab s) j)"
begin

lemma delete_fwd:
  assumes "index_fwd (tab s) (idx s) key ident"
  shows "index_fwd (tab (del i s)) (idx (del i s)) key ident"
  using assms unfolding index_fwd_def
  by (auto simp: tab_del idx_del split: option.splits) (metis option.inject)+

lemma delete_bwd:
  assumes "index_bwd (tab s) (idx s) key" "index_fwd (tab s) (idx s) key ident"
  shows "index_bwd (tab (del i s)) (idx (del i s)) key"
  unfolding index_bwd_def
proof (intro allI impI)
  fix k j assume k: "hm_get (idx (del i s)) k = Some j"
  then have "hm_get (idx s) k = Some j" by (auto simp: idx_del split: option.splits if_splits)
  with assms(1) obtain r where r: "hm_get (tab s) j = Some r" "key r = k"
    unfolding index_bwd_def by blast
  with k have "j \<noteq> i" by (auto simp: idx_del)
  with r show "\<exists>r. hm_get (tab (del i s)) j = Some r \<and> key r = k" by (simp add: tab_del)
qed

lemma deleted_gone: "hm_get (tab (del i s)) i = None"
  by (simp add: tab_del)

lemma deleted_text_free:
  "hm_get (tab s) i = Some r \<Longrightarrow> hm_get (idx (del i s)) (key r) = None"
  by (simp add: idx_del)

end

abbreviation node_key :: "node_record \<Rightarrow> string" where
  "node_key n \<equiv> ni_node_code (nd_identity n)"

abbreviation node_ident :: "node_record \<Rightarrow> uuid" where
  "node_ident n \<equiv> ni_id (nd_identity n)"

text \<open>
  Deleting a node also changes the sites and releases, deleting a site the certificate orders,
  deleting a template its operations; the node and site tables are therefore read through the
  methods' effect on them alone.
\<close>

interpretation site_tab: indexed_store_delete sites site_ids_by_code st_site_code st_id
  repo_save_site repo_delete_site
  by unfold_locales (auto simp: repo_save_site_def repo_delete_site_def split: option.splits)

interpretation node_tab: indexed_store_delete nodes node_ids_by_code node_key node_ident
  repo_save_node repo_delete_node
  by unfold_locales (auto simp: repo_save_node_def repo_delete_node_def split: option.splits)

interpretation provider_tab: indexed_store_delete dns_providers dns_provider_ids_by_name dp_name
  dp_provider_id repo_save_dns_provider repo_delete_dns_provider
  by unfold_locales
    (auto simp: repo_save_dns_provider_def repo_delete_dns_provider_def Let_def split: option.splits)

interpretation template_tab: indexed_store_delete operation_templates operation_template_ids_by_name
  tp_name tp_template_id repo_save_operation_template repo_delete_operation_template
  by unfold_locales
    (auto simp: repo_save_operation_template_def repo_delete_operation_template_def split: option.splits)

interpretation release_tab: indexed_store releases release_ids_by_version rl_release_version
  rl_release_id repo_save_release
  by unfold_locales (simp_all add: repo_save_release_def)

interpretation user_tab: indexed_store admin_users admin_user_ids_by_username au_username
  au_user_id repo_save_admin_user
  by unfold_locales (simp_all add: repo_save_admin_user_def)

subsection \<open>Release status\<close>

lemma fold_scan_ack:
  "has_failed (fold scan_ack acks fl) \<longleftrightarrow> has_failed fl \<or> list_ex (\<lambda>a. ak_apply_status a = ''failed'') acks"
  "has_in_progress (fold scan_ack acks fl) \<longleftrightarrow>
     has_in_progress fl \<or> list_ex (\<lambda>a. ak_apply_status a \<in> {''downloading'', ''applying''}) acks"
  "all_success (fold scan_ack acks fl) \<longleftrightarrow>
     all_success fl \<and> list_all (\<lambda>a. ak_apply_status a = ''success'') acks"
  by (induction acks arbitrary: fl) (auto simp: scan_ack_def)

text \<open>
  What the status of a release says about its nodes: failed when some node reported
  failure, success when there are nodes and all of them succeeded, publishing when none failed,
  not all succeeded and some node is downloading or applying, and pending otherwise.
\<close>

theorem aggregate_release_status_spec:
  "aggregate_release_status acks =
     (if list_ex (\<lambda>a. ak_apply_status a = ''failed'') (hm_values acks) then ''failed''
      else if acks \<noteq> [] \<and> list_all (\<lambda>a. ak_apply_status a = ''success'') (hm_values acks) then ''success''
      else if list_ex (\<lambda>a. ak_apply_status a \<in> {''downloading'', ''applying''}) (hm_values acks)
      then ''publishing''
      else ''pending'')"
proof (cases "acks = []")
  case True
  then show ?thesis by (simp add: aggregate_release_status_def hm_values_def)
next
  case False
  then show ?thesis by (simp only: aggregate_release_status_def Let_def fold_scan_ack) simp
qed

definition status_consistent :: "release_record \<Rightarrow> bool" where
  "status_consistent r \<longleftrightarrow> rl_status r = aggregate_release_status (rl_ack_status r) \<and>
     (\<forall>n. hm_get (rl_ack_status r) n \<noteq> None \<longleftrightarrow> n \<in> set (rl_target_node_ids r))"

lemma record_ack_consistent:
  "status_consistent r \<Longrightarrow> n \<in> set (rl_target_node_ids r) \<Longrightarrow> status_consistent (record_ack n ack r)"
  by (auto simp: status_consistent_def record_ack_def Let_def)

lemma detach_release_consistent:
  "status_consistent r \<Longrightarrow> status_consistent (detach_release n r)"
  by (auto simp: status_consistent_def detach_release_def Let_def)

subsection \<open>Saving a release\<close>

lemma fold_insert_get:
  "hm_get (fold (\<lambda>n m. hm_insert n v m) ns m) k = (if k \<in> set ns then Some v else hm_get m k)"
  by (induction ns arbitrary: m) auto

lemma fold_insert_wf: "hm_wf m \<Longrightarrow> hm_wf (fold (\<lambda>n m. hm_insert n v m) ns m)"
  by (induction ns arbitrary: m) auto

lemma fold_remove_get:
  "hm_get (fold hm_remove ks m) k = (if k \<in> set ks then None else hm_get m k)"
  by (induction ks arbitrary: m) auto

lemma fold_remove_wf: "hm_wf m \<Longrightarrow> hm_wf (fold hm_remove ks m)"
  by (induction ks arbitrary: m) auto

lemma repo_save_release_latest:
  "repo_latest_release_id_for_node (repo_save_release r s) n =
     (if n \<in> set (rl_target_node_ids r) then Some (rl_release_id r)
      else repo_latest_release_id_for_node s n)"
  by (simp add: repo_latest_release_id_for_node_def repo_save_release_def fold_insert_get)

subsection \<open>Claiming an operation\<close>

text \<open>
  An operation is claimed exactly when the node has an approved one; the claimed operation was
  approved, is the oldest of the node's approved operations, and is running afterwards. No other
  operation changes.
\<close>

definition ops_keyed :: "memory_state \<Rightarrow> bool" where
  "ops_keyed s \<longleftrightarrow> hm_wf (node_operations s) \<and>
     (\<forall>i op. hm_get (node_operations s) i = Some op \<longrightarrow> op_operation_id op = i)"

lemma next_approved_operation_Some:
  assumes "ops_keyed s" "next_approved_operation s n = Some i"
  obtains op where "hm_get (node_operations s) i = Some op" "op_node_id op = n"
    "op_exec_status op = ''approved''"
    "\<And>j op'. hm_get (node_operations s) j = Some op' \<Longrightarrow> op_node_id op' = n \<Longrightarrow>
       op_exec_status op' = ''approved'' \<Longrightarrow> op_created_at op \<le> op_created_at op'"
proof -
  let ?ops = "filter (\<lambda>operation. op_node_id operation = n \<and> op_exec_status operation = ''approved'')
    (hm_values (node_operations s))"
  from assms(2) obtain op where op: "min_by_key op_created_at ?ops = Some op" "op_operation_id op = i"
    by (auto simp: next_approved_operation_def)
  from min_by_key_in [OF op(1)] have "op \<in> set (hm_values (node_operations s))"
    "op_node_id op = n" "op_exec_status op = ''approved''" by auto
  with assms(1) op(2) have "hm_get (node_operations s) i = Some op"
    by (auto simp: ops_keyed_def hm_in_values)
  moreover have "op_created_at op \<le> op_created_at op'"
    if "hm_get (node_operations s) j = Some op'" "op_node_id op' = n" "op_exec_status op' = ''approved''"
    for j op'
    using that min_by_key_least [OF op(1), of op'] by (auto dest: hm_get_in_values)
  ultimately show thesis
    using that \<open>op_node_id op = n\<close> \<open>op_exec_status op = ''approved''\<close> by blast
qed

lemma next_approved_operation_None:
  assumes "ops_keyed s"
  shows "next_approved_operation s n = None \<longleftrightarrow>
    (\<forall>i op. hm_get (node_operations s) i = Some op \<longrightarrow> op_node_id op = n \<longrightarrow> op_exec_status op \<noteq> ''approved'')"
  using assms by (auto simp: next_approved_operation_def ops_keyed_def filter_empty_conv hm_in_values)

lemma claim_Some:
  assumes "ops_keyed s" "repo_claim_next_node_operation now n s = (Some c, s')"
  obtains op where "hm_get (node_operations s) (op_operation_id op) = Some op" "op_node_id op = n"
    "op_exec_status op = ''approved''"
    "cl_operation c = op\<lparr>op_exec_status := ''running'', op_started_at := Some now\<rparr>"
    "hm_get (operation_templates s) (op_template_id op) = Some (cl_template c)"
    "s' = s\<lparr>node_operations := hm_insert (op_operation_id op) (cl_operation c) (node_operations s)\<rparr>"
    "\<And>j op'. hm_get (node_operations s) j = Some op' \<Longrightarrow> op_node_id op' = n \<Longrightarrow>
       op_exec_status op' = ''approved'' \<Longrightarrow> op_created_at op \<le> op_created_at op'"
proof -
  from assms(2) obtain i where i: "next_approved_operation s n = Some i"
    by (auto simp: repo_claim_next_node_operation_def split: option.splits)
  from next_approved_operation_Some [OF assms(1) i] obtain op where
    op: "hm_get (node_operations s) i = Some op" "op_node_id op = n" "op_exec_status op = ''approved''"
    and least: "\<And>j op'. hm_get (node_operations s) j = Some op' \<Longrightarrow> op_node_id op' = n \<Longrightarrow>
       op_exec_status op' = ''approved'' \<Longrightarrow> op_created_at op \<le> op_created_at op'"
    by blast
  have "op_operation_id op = i" using assms(1) op(1) by (simp add: ops_keyed_def)
  with assms(2) i op that least show thesis
    by (auto simp: repo_claim_next_node_operation_def Let_def split: option.splits)
qed

end
