(* ===== verification/Token_Store.thy ===== *)
theory Token_Store
  imports Rust_Text
begin

text \<open>
  Node tokens (\<open>apps/hub-api/src/token_store.rs\<close>): the interface \<open>NodeTokenStore\<close> as a locale
  and its in-memory implementation. A store maps access and refresh tokens to leases and
  remembers the current token of each node, so that issuing new tokens revokes the old ones.
\<close>

record token_lease =
  tl_node_id :: uuid
  tl_expires_at :: datetime

record issued_tokens =
  it_access_token :: string
  it_refresh_token :: string
  it_expires_at :: datetime

subsection \<open>The interface\<close>

text \<open>
  What a client may rely on. Issuing tokens for a node makes the new tokens valid, and makes
  every other token of that node invalid; tokens of other nodes keep their leases. Revoking makes
  all tokens of the node invalid. New tokens are not in use when they are issued: they are made
  from fresh UUIDs.
\<close>

locale node_token_store =
  fixes inv :: "'s \<Rightarrow> bool"
    and access :: "'s \<Rightarrow> string \<Rightarrow> token_lease option"
    and refresh :: "'s \<Rightarrow> string \<Rightarrow> token_lease option"
    and issue :: "uuid \<Rightarrow> string \<Rightarrow> string \<Rightarrow> datetime \<Rightarrow> 's \<Rightarrow> 's"
    and revoke :: "uuid \<Rightarrow> 's \<Rightarrow> 's"
  assumes access_issue: "inv s \<Longrightarrow> access (issue n a r e s) t =
      (if t = a then Some \<lparr>tl_node_id = n, tl_expires_at = e\<rparr>
       else opt_filter (\<lambda>l. tl_node_id l \<noteq> n) (access s t))"
    and refresh_issue: "inv s \<Longrightarrow> refresh (issue n a r e s) t =
      (if t = r then Some \<lparr>tl_node_id = n, tl_expires_at = e\<rparr>
       else opt_filter (\<lambda>l. tl_node_id l \<noteq> n) (refresh s t))"
    and access_revoke: "inv s \<Longrightarrow> access (revoke n s) t =
      opt_filter (\<lambda>l. tl_node_id l \<noteq> n) (access s t)"
    and refresh_revoke: "inv s \<Longrightarrow> refresh (revoke n s) t =
      opt_filter (\<lambda>l. tl_node_id l \<noteq> n) (refresh s t)"
    and inv_issue: "inv s \<Longrightarrow> access s a = None \<Longrightarrow> refresh s r = None \<Longrightarrow> inv (issue n a r e s)"
    and inv_revoke: "inv s \<Longrightarrow> inv (revoke n s)"
begin

lemma old_access_dead:
  "inv s \<Longrightarrow> access s t = Some l \<Longrightarrow> tl_node_id l = n \<Longrightarrow> t \<noteq> a \<Longrightarrow> access (issue n a r e s) t = None"
  by (simp add: access_issue)

lemma old_refresh_dead:
  "inv s \<Longrightarrow> refresh s t = Some l \<Longrightarrow> tl_node_id l = n \<Longrightarrow> t \<noteq> r \<Longrightarrow> refresh (issue n a r e s) t = None"
  by (simp add: refresh_issue)

lemma issue_other_node:
  "inv s \<Longrightarrow> access s t = Some l \<Longrightarrow> tl_node_id l \<noteq> n \<Longrightarrow> t \<noteq> a \<Longrightarrow>
   access (issue n a r e s) t = Some l"
  by (simp add: access_issue)

lemma revoked_node_has_no_access:
  "inv s \<Longrightarrow> access (revoke n s) t = Some l \<Longrightarrow> tl_node_id l \<noteq> n"
  by (auto simp: access_revoke opt_filter_def split: option.splits if_splits)

lemma revoked_node_has_no_refresh:
  "inv s \<Longrightarrow> refresh (revoke n s) t = Some l \<Longrightarrow> tl_node_id l \<noteq> n"
  by (auto simp: refresh_revoke opt_filter_def split: option.splits if_splits)

lemma issued_access_unique:
  "inv s \<Longrightarrow> access (issue n a r e s) t = Some l \<Longrightarrow> tl_node_id l = n \<Longrightarrow> t = a"
  by (auto simp: access_issue opt_filter_def split: option.splits if_splits)

end

subsection \<open>The in-memory store\<close>

record memory_token_state =
  mt_access :: "(string, token_lease) hashmap"
  mt_refresh :: "(string, token_lease) hashmap"
  mt_current_access_by_node :: "(uuid, string) hashmap"
  mt_current_refresh_by_node :: "(uuid, string) hashmap"

definition empty_token_state :: memory_token_state where
  "empty_token_state =
     \<lparr>mt_access = [], mt_refresh = [], mt_current_access_by_node = [],
      mt_current_refresh_by_node = []\<rparr>"

definition revoke_tokens :: "uuid \<Rightarrow> memory_token_state \<Rightarrow> memory_token_state" where
  "revoke_tokens node_id st =
     (let st = (case hm_get (mt_current_access_by_node st) node_id of
                  None \<Rightarrow> st
                | Some access_token \<Rightarrow>
                    st\<lparr>mt_current_access_by_node := hm_remove node_id (mt_current_access_by_node st),
                       mt_access := hm_remove access_token (mt_access st)\<rparr>)
      in (case hm_get (mt_current_refresh_by_node st) node_id of
            None \<Rightarrow> st
          | Some refresh_token \<Rightarrow>
              st\<lparr>mt_current_refresh_by_node := hm_remove node_id (mt_current_refresh_by_node st),
                 mt_refresh := hm_remove refresh_token (mt_refresh st)\<rparr>))"

text \<open>
  \<open>issue_tokens\<close> starts with the same removals as \<open>revoke_tokens\<close> and then records the new
  pair. The tokens are built from two fresh UUIDs, here already formatted.
\<close>

definition store_tokens ::
  "uuid \<Rightarrow> string \<Rightarrow> string \<Rightarrow> datetime \<Rightarrow> memory_token_state \<Rightarrow> memory_token_state" where
  "store_tokens node_id access_token refresh_token expires_at st =
     (let st = revoke_tokens node_id st;
          lease = \<lparr>tl_node_id = node_id, tl_expires_at = expires_at\<rparr>
      in st\<lparr>mt_access := hm_insert access_token lease (mt_access st),
            mt_refresh := hm_insert refresh_token lease (mt_refresh st),
            mt_current_access_by_node := hm_insert node_id access_token (mt_current_access_by_node st),
            mt_current_refresh_by_node := hm_insert node_id refresh_token (mt_current_refresh_by_node st)\<rparr>)"

definition access_token_text :: "(uuid \<Rightarrow> string) \<Rightarrow> uuid \<Rightarrow> string" where
  "access_token_text display_uuid u = ''node-at-'' @ display_uuid u"

definition refresh_token_text :: "(uuid \<Rightarrow> string) \<Rightarrow> uuid \<Rightarrow> string" where
  "refresh_token_text display_uuid u = ''node-rt-'' @ display_uuid u"

definition issue_tokens ::
  "(uuid \<Rightarrow> string) \<Rightarrow> uuid \<Rightarrow> uuid \<Rightarrow> datetime \<Rightarrow> uuid \<Rightarrow> duration \<Rightarrow> memory_token_state \<Rightarrow>
   issued_tokens \<times> memory_token_state" where
  "issue_tokens display_uuid new1 new2 now node_id ttl st =
     (let access_token = access_token_text display_uuid new1;
          refresh_token = refresh_token_text display_uuid new2;
          expires_at = now + ttl
      in (\<lparr>it_access_token = access_token, it_refresh_token = refresh_token, it_expires_at = expires_at\<rparr>,
          store_tokens node_id access_token refresh_token expires_at st))"

definition access_lease :: "memory_token_state \<Rightarrow> string \<Rightarrow> token_lease option" where
  "access_lease st access_token = hm_get (mt_access st) access_token"

definition refresh_lease :: "memory_token_state \<Rightarrow> string \<Rightarrow> token_lease option" where
  "refresh_lease st refresh_token = hm_get (mt_refresh st) refresh_token"

text \<open>A token is the current one of a node exactly when it is leased to that node.\<close>

definition leases_current :: "(string, token_lease) hashmap \<Rightarrow> (uuid, string) hashmap \<Rightarrow> bool" where
  "leases_current leases current \<longleftrightarrow>
     (\<forall>n t. hm_get current n = Some t \<longleftrightarrow> (\<exists>l. hm_get leases t = Some l \<and> tl_node_id l = n))"

definition token_inv :: "memory_token_state \<Rightarrow> bool" where
  "token_inv st \<longleftrightarrow>
     leases_current (mt_access st) (mt_current_access_by_node st) \<and>
     leases_current (mt_refresh st) (mt_current_refresh_by_node st)"

lemma token_inv_empty [simp]: "token_inv empty_token_state"
  by (simp add: token_inv_def leases_current_def empty_token_state_def)

text \<open>The removal step on one of the two pairs of maps.\<close>

definition forget :: "uuid \<Rightarrow> (string, token_lease) hashmap \<Rightarrow> (uuid, string) hashmap \<Rightarrow>
    (string, token_lease) hashmap" where
  "forget n leases current =
     (case hm_get current n of None \<Rightarrow> leases | Some t \<Rightarrow> hm_remove t leases)"

definition forget_current :: "uuid \<Rightarrow> (uuid, string) hashmap \<Rightarrow> (uuid, string) hashmap" where
  "forget_current n current = (case hm_get current n of None \<Rightarrow> current | Some t \<Rightarrow> hm_remove n current)"

lemma revoke_tokens_fields:
  "mt_access (revoke_tokens n st) = forget n (mt_access st) (mt_current_access_by_node st)"
  "mt_refresh (revoke_tokens n st) = forget n (mt_refresh st) (mt_current_refresh_by_node st)"
  "mt_current_access_by_node (revoke_tokens n st) = forget_current n (mt_current_access_by_node st)"
  "mt_current_refresh_by_node (revoke_tokens n st) = forget_current n (mt_current_refresh_by_node st)"
  by (auto simp: revoke_tokens_def forget_def forget_current_def Let_def split: option.splits)

lemma forget_get:
  assumes "leases_current leases current"
  shows "hm_get (forget n leases current) t = opt_filter (\<lambda>l. tl_node_id l \<noteq> n) (hm_get leases t)"
proof (cases "hm_get leases t")
  case (Some l)
  with assms have "hm_get current n = Some t \<longleftrightarrow> tl_node_id l = n"
    by (simp add: leases_current_def)
  with Some show ?thesis by (auto simp: forget_def split: option.splits)
qed (simp add: forget_def split: option.splits)

lemma forget_leases_current:
  assumes "leases_current leases current"
  shows "leases_current (forget n leases current) (forget_current n current)"
proof -
  have "hm_get (forget_current n current) m = (if m = n then None else hm_get current m)" for m
    by (auto simp: forget_current_def split: option.splits)
  with assms show ?thesis
    by (auto simp: leases_current_def forget_get [OF assms] opt_filter_def split: option.splits)
qed

lemma insert_leases_current:
  assumes "leases_current leases current" "hm_get leases t = None" "hm_get current n = None"
  shows "leases_current (hm_insert t \<lparr>tl_node_id = n, tl_expires_at = e\<rparr> leases) (hm_insert n t current)"
proof -
  have "hm_get current m \<noteq> Some t" for m using assms(1,2) by (simp add: leases_current_def)
  moreover have "tl_node_id l \<noteq> n" if "hm_get leases t' = Some l" for t' l
    using assms(1,3) that by (metis leases_current_def option.distinct(1))
  ultimately show ?thesis using assms(1) by (auto simp: leases_current_def)
qed

lemma forget_current_None [simp]: "hm_get (forget_current n current) n = None"
  by (simp add: forget_current_def split: option.splits)

lemma forget_None: "hm_get leases t = None \<Longrightarrow> hm_get (forget n leases current) t = None"
  by (simp add: forget_def split: option.splits)

lemma store_tokens_fields:
  "mt_access (store_tokens n a r e st) =
     hm_insert a \<lparr>tl_node_id = n, tl_expires_at = e\<rparr> (forget n (mt_access st) (mt_current_access_by_node st))"
  "mt_refresh (store_tokens n a r e st) =
     hm_insert r \<lparr>tl_node_id = n, tl_expires_at = e\<rparr> (forget n (mt_refresh st) (mt_current_refresh_by_node st))"
  "mt_current_access_by_node (store_tokens n a r e st) =
     hm_insert n a (forget_current n (mt_current_access_by_node st))"
  "mt_current_refresh_by_node (store_tokens n a r e st) =
     hm_insert n r (forget_current n (mt_current_refresh_by_node st))"
  by (simp_all add: store_tokens_def Let_def revoke_tokens_fields)

interpretation mem: node_token_store token_inv access_lease refresh_lease store_tokens revoke_tokens
proof (unfold_locales, goal_cases)
  case (5 s a r n e)
  then show ?case
    by (auto simp: token_inv_def access_lease_def refresh_lease_def store_tokens_fields
        intro!: insert_leases_current forget_leases_current forget_None)
qed (auto simp: token_inv_def access_lease_def refresh_lease_def store_tokens_fields
       revoke_tokens_fields forget_get forget_leases_current)

lemma token_texts_inject:
  assumes "inj display_uuid"
  shows "access_token_text display_uuid u = access_token_text display_uuid v \<longleftrightarrow> u = v"
    and "refresh_token_text display_uuid u = refresh_token_text display_uuid v \<longleftrightarrow> u = v"
  using assms by (auto simp: access_token_text_def refresh_token_text_def dest: injD)

text \<open>
  Issuing a pair of tokens for a node. The returned access and refresh tokens are
  leased to the node until \<open>now + ttl\<close>; every other access or refresh token of that node is
  invalid from then on, and tokens of other nodes keep exactly their leases.
\<close>

theorem issue_tokens_rotates:
  assumes "token_inv st" and "issue_tokens disp u1 u2 now n ttl st = (issued, st')"
  shows "access_lease st' (it_access_token issued) = Some \<lparr>tl_node_id = n, tl_expires_at = now + ttl\<rparr> \<and>
    refresh_lease st' (it_refresh_token issued) = Some \<lparr>tl_node_id = n, tl_expires_at = now + ttl\<rparr> \<and>
    (\<forall>t. t \<noteq> it_access_token issued \<longrightarrow>
       access_lease st' t = opt_filter (\<lambda>l. tl_node_id l \<noteq> n) (access_lease st t)) \<and>
    (\<forall>t. t \<noteq> it_refresh_token issued \<longrightarrow>
       refresh_lease st' t = opt_filter (\<lambda>l. tl_node_id l \<noteq> n) (refresh_lease st t))"
  using assms by (auto simp: issue_tokens_def Let_def mem.access_issue mem.refresh_issue)

definition sample_disp :: "uuid \<Rightarrow> string" where
  "sample_disp u = nat_to_string (unat u)"

definition sample_tokens :: memory_token_state where
  "sample_tokens = snd (issue_tokens sample_disp 1 2 0 7 (hours 24) empty_token_state)"

lemma sample_tokens_inv: "token_inv sample_tokens"
  unfolding sample_tokens_def issue_tokens_def Let_def snd_conv
  by (rule mem.inv_issue) (simp_all, simp_all add: access_lease_def refresh_lease_def empty_token_state_def)

theorem issue_tokens_rotates_witness:
  "access_lease sample_tokens ''node-at-1'' = Some \<lparr>tl_node_id = 7, tl_expires_at = hours 24\<rparr> \<and>
   access_lease (snd (issue_tokens sample_disp 3 4 0 7 (hours 24) sample_tokens)) ''node-at-1'' = None"
proof -
  have old: "access_lease sample_tokens ''node-at-1'' = Some \<lparr>tl_node_id = 7, tl_expires_at = hours 24\<rparr>"
    by code_simp
  have new: "it_access_token (fst (issue_tokens sample_disp 3 4 0 7 (hours 24) sample_tokens)) = ''node-at-3''"
    by code_simp
  from issue_tokens_rotates [OF sample_tokens_inv prod.collapse [symmetric], of sample_disp 3 4 0 7 "hours 24"] old new
  show ?thesis by simp
qed

end
