(* ===== verification/Protocol.thy ===== *)
theory Protocol
  imports Json_Value
begin

text \<open>
  The requests and responses of the hub API (\<open>crates/protocol\<close>), field by field.
\<close>

subsection \<open>Administrators\<close>

record admin_login_request =
  alq_username :: string
  alq_password :: string

record admin_session_info =
  asi_user_id :: uuid
  asi_username :: string
  asi_display_name :: string
  asi_expires_at :: datetime

record admin_login_response = alr_session :: admin_session_info

record admin_me_response = amr_session :: admin_session_info

record change_admin_password_request =
  cpq_current_password :: string
  cpq_new_password :: string

record change_admin_password_response =
  cpr_user_id :: uuid
  cpr_username :: string
  cpr_changed :: bool

subsection \<open>Nodes\<close>

record create_node_request =
  cnq_node_code :: string
  cnq_name :: string
  cnq_region :: string
  cnq_idc :: string
  cnq_labels :: json

record create_node_response =
  cnr_node_id :: uuid
  cnr_bootstrap_token :: string

record delete_node_response =
  dnr_node_id :: uuid
  dnr_node_code :: string
  dnr_deleted :: bool

record node_overview =
  nov_node_id :: uuid
  nov_node_code :: string
  nov_name :: string
  nov_region :: string
  nov_idc :: string
  nov_labels :: json
  nov_status :: string
  nov_active_config_version :: "string option"
  nov_last_seen_at :: "datetime option"

record node_site_overview =
  nso_site_id :: uuid
  nso_site_code :: string
  nso_name :: string
  nso_domain :: string
  nso_status :: string
  nso_version :: u32
  nso_binding_role :: string
  nso_priority :: int

record node_detail =
  ndt_node_id :: uuid
  ndt_node_code :: string
  ndt_name :: string
  ndt_region :: string
  ndt_idc :: string
  ndt_labels :: json
  ndt_status :: string
  ndt_hostname :: "string option"
  ndt_public_ip :: "string option"
  ndt_private_ip :: "string option"
  ndt_pingora_version :: "string option"
  ndt_agent_version :: "string option"
  ndt_active_config_version :: "string option"
  ndt_last_seen_at :: "datetime option"
  ndt_runtime_site_count :: u32
  ndt_health_score :: u8
  ndt_sites :: "node_site_overview list"

record node_register_request =
  nrq_node_code :: string
  nrq_bootstrap_token :: string
  nrq_hostname :: string
  nrq_public_ip :: "string option"
  nrq_private_ip :: "string option"
  nrq_agent_version :: string

record node_register_response =
  nrr_node_id :: uuid
  nrr_access_token :: string
  nrr_refresh_token :: string
  nrr_expires_at :: datetime

record node_refresh_request =
  nfq_node_id :: uuid
  nfq_refresh_token :: string

record node_refresh_response =
  nfr_node_id :: uuid
  nfr_access_token :: string
  nfr_refresh_token :: string
  nfr_expires_at :: datetime

record node_heartbeat_request =
  nhq_node_id :: uuid
  nhq_pingora_version :: string
  nhq_agent_version :: string
  nhq_active_config_version :: "string option"
  nhq_site_count :: u32
  nhq_cpu_usage :: f32
  nhq_mem_usage :: f32
  nhq_disk_usage :: f32
  nhq_health_score :: u8

record node_heartbeat_response =
  nhr_server_time :: datetime
  nhr_next_heartbeat_after_seconds :: u64

subsection \<open>Sites\<close>

record create_site_request =
  csq_site_code :: "string option"
  csq_name :: string
  csq_domain :: string
  csq_listen_port :: u16
  csq_protocol :: string
  csq_tls_enabled :: bool
  csq_config :: json

record update_site_request =
  usq_name :: string
  usq_domain :: string
  usq_listen_port :: u16
  usq_protocol :: string
  usq_tls_enabled :: bool
  usq_config :: json

record create_site_response =
  csr_site_id :: uuid
  csr_site_code :: string
  csr_version :: u32
  csr_status :: string

record site_binding_item =
  sbi_node_id :: uuid
  sbi_binding_role :: string
  sbi_priority :: int
  sbi_node_code :: "string option"
  sbi_node_name :: "string option"
  sbi_node_status :: "string option"

record site_detail =
  sdt_site_id :: uuid
  sdt_site_code :: string
  sdt_name :: string
  sdt_domain :: string
  sdt_listen_port :: u16
  sdt_protocol :: string
  sdt_tls_enabled :: bool
  sdt_status :: string
  sdt_version :: u32
  sdt_config :: json
  sdt_bindings :: "site_binding_item list"

record site_overview =
  sov_site_id :: uuid
  sov_site_code :: string
  sov_name :: string
  sov_domain :: string
  sov_protocol :: string
  sov_status :: string
  sov_version :: u32
  sov_binding_count :: nat
  sov_primary_node_id :: "uuid option"
  sov_primary_node_code :: "string option"
  sov_primary_node_name :: "string option"
  sov_primary_node_status :: "string option"

record create_site_bindings_response =
  cbr_site_id :: uuid
  cbr_binding_count :: nat

record delete_site_response =
  dsr_site_id :: uuid
  dsr_site_code :: string
  dsr_deleted :: bool

record update_site_status_response =
  ssr_site_id :: uuid
  ssr_site_code :: string
  ssr_status :: string
  ssr_version :: u32

record renew_site_certificate_response =
  rsr_site_id :: uuid
  rsr_domain :: string
  rsr_zone_id :: uuid
  rsr_order_id :: uuid
  rsr_certificate_id :: "uuid option"
  rsr_order_status :: string

record switch_site_primary_request =
  spq_target_node_id :: "uuid option"
  spq_keep_previous_as_standby :: "bool option"
  spq_reason :: "string option"

record switch_site_primary_response =
  spr_site_id :: uuid
  spr_previous_primary_node_id :: "uuid option"
  spr_current_primary_node_id :: uuid
  spr_next_standby_node_id :: "uuid option"
  spr_binding_count :: nat
  spr_release_id :: uuid
  spr_release_version :: string

subsection \<open>Releases\<close>

record create_release_request =
  crq_scope_type :: string
  crq_scope_id :: uuid
  crq_release_type :: string
  crq_reason :: string

record create_release_response =
  crr_release_id :: uuid
  crr_release_version :: string
  crr_config_hash :: string
  crr_target_node_ids :: "uuid list"

record release_status_counts =
  rsc_pending :: nat
  rsc_in_progress :: nat
  rsc_success :: nat
  rsc_failed :: nat

record release_overview =
  rov_release_id :: uuid
  rov_scope_type :: string
  rov_scope_id :: "uuid option"
  rov_release_type :: string
  rov_release_version :: string
  rov_status :: string
  rov_reason :: string
  rov_counts :: release_status_counts
  rov_created_at :: datetime

record latest_release_response =
  lrr_release_id :: uuid
  lrr_release_version :: string
  lrr_config_hash :: string
  lrr_download_url :: string

record config_package_response =
  cfr_release_id :: uuid
  cfr_release_version :: string
  cfr_manifest :: json
  cfr_rendered_config :: json
  cfr_certificates :: json
  cfr_signature :: string

record release_ack_request =
  raq_node_id :: uuid
  raq_apply_status :: string
  raq_current_version :: string
  raq_message :: "string option"

record release_ack_response =
  rar_release_id :: uuid
  rar_node_id :: uuid
  rar_apply_status :: string

subsection \<open>DNS and certificates\<close>

record create_dns_provider_request =
  dpq_name :: string
  dpq_provider_type :: string
  dpq_api_endpoint :: "string option"
  dpq_credentials :: json

record create_dns_provider_response =
  dpr_provider_id :: uuid
  dpr_name :: string
  dpr_status :: string

record delete_dns_provider_response =
  ddp_provider_id :: uuid
  ddp_name :: string
  ddp_deleted :: bool

record dns_provider_overview =
  dpo_provider_id :: uuid
  dpo_name :: string
  dpo_provider_type :: string
  dpo_api_endpoint :: "string option"
  dpo_status :: string
  dpo_created_at :: datetime

record sync_dns_zones_request =
  szq_provider_id :: uuid
  szq_zone_names :: "string list"

record sync_dns_zones_response =
  szr_provider_id :: uuid
  szr_zone_ids :: "uuid list"

record dns_zone_overview =
  dzo_zone_id :: uuid
  dzo_provider_id :: uuid
  dzo_zone_name :: string
  dzo_status :: string
  dzo_created_at :: datetime

record update_dns_zone_status_response =
  uzr_zone_id :: uuid
  uzr_zone_name :: string
  uzr_status :: string

record delete_dns_zone_response =
  dzr_zone_id :: uuid
  dzr_zone_name :: string
  dzr_deleted :: bool

record create_certificate_order_request =
  coq_site_id :: "uuid option"
  coq_domain :: "string option"
  coq_sans :: "string list"
  coq_acme_provider :: string
  coq_challenge_type :: string
  coq_zone_id :: uuid

record create_certificate_order_response =
  cor_order_id :: uuid
  cor_certificate_id :: "uuid option"
  cor_order_status :: string
  cor_challenge_payload :: json

record certificate_order_overview =
  cov_order_id :: uuid
  cov_site_id :: "uuid option"
  cov_certificate_id :: "uuid option"
  cov_zone_id :: uuid
  cov_order_type :: string
  cov_acme_provider :: string
  cov_challenge_type :: string
  cov_order_status :: string
  cov_challenge_payload :: json
  cov_error_message :: "string option"
  cov_certificate_expires_at :: "datetime option"
  cov_next_renew_at :: "datetime option"
  cov_created_at :: datetime

subsection \<open>Operations\<close>

record create_node_operation_request =
  noq_template_id :: uuid
  noq_input_params :: json
  noq_approval_ticket :: "string option"

record create_operation_template_request =
  otq_name :: string
  otq_operation_type :: string
  otq_command_template :: string
  otq_allowed_params :: "string list"
  otq_timeout_seconds :: u32
  otq_run_as_user :: string
  otq_approval_required :: bool

record operation_template_overview =
  oto_template_id :: uuid
  oto_name :: string
  oto_operation_type :: string
  oto_command_template :: string
  oto_allowed_params :: "string list"
  oto_timeout_seconds :: u32
  oto_run_as_user :: string
  oto_approval_required :: bool
  oto_created_at :: datetime

record delete_operation_template_response =
  dot_template_id :: uuid
  dot_name :: string
  dot_deleted :: bool

record node_operation_overview =
  noo_operation_id :: uuid
  noo_node_id :: uuid
  noo_template_id :: uuid
  noo_template_name :: string
  noo_operation_type :: string
  noo_input_params :: json
  noo_exec_status :: string
  noo_requested_by :: string
  noo_approved_by :: "string option"
  noo_exit_code :: "int option"
  noo_stdout_log :: "string option"
  noo_stderr_log :: "string option"
  noo_started_at :: "datetime option"
  noo_finished_at :: "datetime option"
  noo_created_at :: datetime

record operation_result_request =
  orq_node_id :: uuid
  orq_exec_status :: string
  orq_exit_code :: int
  orq_stdout :: string
  orq_stderr :: string
  orq_finished_at :: datetime

record operation_result_response =
  orr_operation_id :: uuid
  orr_node_id :: uuid
  orr_exec_status :: string

record pending_operation_response =
  por_operation_id :: uuid
  por_node_id :: uuid
  por_template_id :: uuid
  por_template_name :: string
  por_operation_type :: string
  por_rendered_command :: string
  por_timeout_seconds :: u64
  por_run_as_user :: string
  por_created_at :: datetime

end
