(* ===== verification/Hub_State.thy ===== *)
theory Hub_State
  imports Store_Laws Token_Store Protocol Api_Error
begin

text \<open>
  The state of \<open>HubService\<close> (\<open>apps/hub-api/src/service.rs\<close>) with the in-memory backends, and
  what its operations take from their surroundings.

  Every operation is a function of the surroundings, its request and the state, and returns its
  result together with the state it leaves. The surroundings of one call are the clock readings
  and the identifiers it draws, in order (\<open>env_now e i\<close> is the \<open>i\<close>-th call of \<open>Utc::now\<close>,
  \<open>env_uuid e i\<close> the \<open>i\<close>-th call of \<open>Uuid::new_v4\<close>), and the functions of the packages the
  code calls: the formatting of UUIDs and times, SHA-256, Argon2, Unicode lower case, and JSON
  text.
\<close>

record runtime =
  env_now :: "nat \<Rightarrow> datetime"
  env_uuid :: "nat \<Rightarrow> uuid"
  env_salt :: string
  env_display_uuid :: "uuid \<Rightarrow> string"
  env_simple_uuid :: "uuid \<Rightarrow> string"
  env_sha256_hex :: "string \<Rightarrow> string"
  env_argon2_hash :: "string \<Rightarrow> string \<Rightarrow> string + string"
  env_argon2_parse :: "string \<Rightarrow> string + unit"
  env_argon2_verify :: "string \<Rightarrow> string \<Rightarrow> bool"
  env_unicode_lower :: "string \<Rightarrow> string"
  env_format_timestamp :: "datetime \<Rightarrow> string"
  env_rfc3339 :: "datetime \<Rightarrow> string"
  env_json_text :: "json \<Rightarrow> string"
  env_json_parse :: "string \<Rightarrow> string + json"

text \<open>The surroundings after \<open>k\<close> clock readings and \<open>n\<close> identifiers of the same call.\<close>

definition env_after :: "nat \<Rightarrow> nat \<Rightarrow> runtime \<Rightarrow> runtime" where
  "env_after k n e = e\<lparr>env_now := (\<lambda>i. env_now e (k + i)), env_uuid := (\<lambda>i. env_uuid e (n + i))\<rparr>"

lemma env_after_sel [simp]:
  "env_now (env_after k n e) i = env_now e (k + i)" "env_uuid (env_after k n e) i = env_uuid e (n + i)"
  "env_sha256_hex (env_after k n e) = env_sha256_hex e"
  "env_display_uuid (env_after k n e) = env_display_uuid e"
  "env_simple_uuid (env_after k n e) = env_simple_uuid e"
  "env_unicode_lower (env_after k n e) = env_unicode_lower e"
  "env_format_timestamp (env_after k n e) = env_format_timestamp e"
  "env_rfc3339 (env_after k n e) = env_rfc3339 e"
  by (simp_all add: env_after_def)

record hub =
  hub_repo :: memory_state
  hub_tokens :: memory_token_state
  hub_release_counter :: u64
  hub_cert_auto_renew_before_days :: int

definition normalize_cert_auto_renew_before_days :: "int \<Rightarrow> int" where
  "normalize_cert_auto_renew_before_days value = max value 1"

definition new_memory_with_cert_auto_renew_before_days :: "int \<Rightarrow> hub" where
  "new_memory_with_cert_auto_renew_before_days cert_auto_renew_before_days =
     \<lparr>hub_repo = empty_memory_state, hub_tokens = empty_token_state, hub_release_counter = 1,
      hub_cert_auto_renew_before_days =
        normalize_cert_auto_renew_before_days cert_auto_renew_before_days\<rparr>"

definition new_memory :: hub where
  "new_memory = new_memory_with_cert_auto_renew_before_days 30"

subsection \<open>Running an operation\<close>

type_synonym 'a hub_out = "'a api_result \<times> hub"

text \<open>The question mark on a result that was computed without changing the state.\<close>

definition try_ok :: "'a api_result \<Rightarrow> hub \<Rightarrow> ('a \<Rightarrow> 'b hub_out) \<Rightarrow> 'b hub_out" where
  "try_ok r h k = (case r of Inl err \<Rightarrow> (Inl err, h) | Inr x \<Rightarrow> k x)"

lemma try_ok_simps [simp]: "try_ok (Inl err) h k = (Inl err, h)" "try_ok (Inr x) h k = k x"
  by (simp_all add: try_ok_def)

lemma try_ok_code [code_unfold]: "try_ok r h k = (case r of Inl err \<Rightarrow> (Inl err, h) | Inr x \<Rightarrow> k x)"
  by (simp add: try_ok_def)

lemma try_ok_Inr_iff: "try_ok r h k = (Inr y, h') \<longleftrightarrow> (\<exists>x. r = Inr x \<and> k x = (Inr y, h'))"
  by (cases r) auto

lemma try_ok_Inl_iff:
  "try_ok r h k = (Inl err, h') \<longleftrightarrow> (r = Inl err \<and> h' = h) \<or> (\<exists>x. r = Inr x \<and> k x = (Inl err, h'))"
  by (cases r) auto

text \<open>The question mark on the result of an operation that may have changed the state.\<close>

definition and_then :: "'a hub_out \<Rightarrow> ('a \<Rightarrow> hub \<Rightarrow> 'b hub_out) \<Rightarrow> 'b hub_out" where
  "and_then r k = (case r of (Inl err, h) \<Rightarrow> (Inl err, h) | (Inr x, h) \<Rightarrow> k x h)"

lemma and_then_simps [simp]: "and_then (Inl err, h) k = (Inl err, h)" "and_then (Inr x, h) k = k x h"
  by (simp_all add: and_then_def)

lemma and_then_code [code_unfold]:
  "and_then r k = (case r of (a, h) \<Rightarrow> (case a of Inl err \<Rightarrow> (Inl err, h) | Inr x \<Rightarrow> k x h))"
  by (simp add: and_then_def)

lemma and_then_Inr_iff: "and_then r k = (Inr y, h') \<longleftrightarrow> (\<exists>x h. r = (Inr x, h) \<and> k x h = (Inr y, h'))"
  by (cases r; cases "fst r") (auto simp: and_then_def)

lemma and_then_Inl_iff:
  "and_then r k = (Inl err, h') \<longleftrightarrow> r = (Inl err, h') \<or> (\<exists>x h. r = (Inr x, h) \<and> k x h = (Inl err, h'))"
  by (cases r; cases "fst r") (auto simp: and_then_def)

lemma fst_eq_pair: "fst p = x \<Longrightarrow> p = (x, snd p)"
  by (cases p) simp

lemma ok_or_Inr_iff: "ok_or err x = Inr y \<longleftrightarrow> x = Some y"
  by (cases x) auto

lemma ok_or_Inl_iff: "ok_or err x = Inl y \<longleftrightarrow> x = None \<and> y = err"
  by (cases x) auto

lemmas outcome_iffs = try_ok_Inr_iff try_ok_Inl_iff ok_or_Inr_iff ok_or_Inl_iff
  and_then_Inr_iff and_then_Inl_iff

definition with_repo :: "(memory_state \<Rightarrow> memory_state) \<Rightarrow> hub \<Rightarrow> hub" where
  "with_repo f h = h\<lparr>hub_repo := f (hub_repo h)\<rparr>"

lemma with_repo_sel [simp]:
  "hub_repo (with_repo f h) = f (hub_repo h)" "hub_tokens (with_repo f h) = hub_tokens h"
  "hub_release_counter (with_repo f h) = hub_release_counter h"
  "hub_cert_auto_renew_before_days (with_repo f h) = hub_cert_auto_renew_before_days h"
  by (simp_all add: with_repo_def)

subsection \<open>Digests\<close>

definition hash_session_token :: "runtime \<Rightarrow> string \<Rightarrow> string" where
  "hash_session_token e raw_token = env_sha256_hex e raw_token"

definition hash_bootstrap_token :: "runtime \<Rightarrow> string \<Rightarrow> string" where
  "hash_bootstrap_token e raw_token = hash_session_token e raw_token"

text \<open>
  What the code relies on from Argon2: a hash it made parses, and verifies for the password it
  was made from.
\<close>

definition argon2_correct :: "runtime \<Rightarrow> bool" where
  "argon2_correct e \<longleftrightarrow>
     (\<forall>pw salt hash. env_argon2_hash e pw salt = Inr hash \<longrightarrow>
        env_argon2_parse e hash = Inr () \<and> env_argon2_verify e hash pw)"

text \<open>A concrete surrounding for examples; identifiers count up from \<open>base\<close>.\<close>

definition sample_env :: "nat \<Rightarrow> datetime \<Rightarrow> runtime" where
  "sample_env base start =
     \<lparr>env_now = (\<lambda>i. start + seconds (int i)), env_uuid = (\<lambda>i. of_nat (base + i)), env_salt = ''salt'',
      env_display_uuid = sample_disp, env_simple_uuid = sample_disp,
      env_sha256_hex = (\<lambda>s. ''#'' @ s),
      env_argon2_hash = (\<lambda>pw salt. Inr (''argon:'' @ pw)), env_argon2_parse = (\<lambda>_. Inr ()),
      env_argon2_verify = (\<lambda>hash pw. hash = ''argon:'' @ pw),
      env_unicode_lower = (\<lambda>s. s), env_format_timestamp = (\<lambda>_. ''20260101000000''),
      env_rfc3339 = (\<lambda>_. ''2026-01-01T00:00:00Z''), env_json_text = (\<lambda>_. ''{}''), env_json_parse = (\<lambda>_. Inr (JObject []))\<rparr>"

lemma argon2_correct_sample: "argon2_correct (sample_env base start)"
  by (simp add: argon2_correct_def sample_env_def)

end
