(* ===== verification/Hub_Admin.thy ===== *)
theory Hub_Admin
  imports Hub_State
begin

text \<open>
  Administrator accounts and sessions (\<open>HubService::ensure_admin_user\<close> to \<open>logout_admin\<close>): the
  operations, that a login opens a session that is accepted until it expires, and that a change
  of password ends every other session of the account.
\<close>

subsection \<open>Operations\<close>

definition normalize_admin_username :: "string \<Rightarrow> string api_result" where
  "normalize_admin_username raw =
     (let normalized = to_ascii_lowercase (trim raw)
      in if normalized = [] then Inl (bad_request ''username is required'') else Inr normalized)"

definition normalize_admin_display_name :: "string \<Rightarrow> string" where
  "normalize_admin_display_name raw =
     (let trimmed = trim raw in if trimmed = [] then ''Administrator'' else trimmed)"

text \<open>\<open>len\<close> counts the bytes of the password.\<close>

definition hash_password :: "runtime \<Rightarrow> string \<Rightarrow> string api_result" where
  "hash_password e raw_password =
     (if length raw_password < 6
      then Inl (bad_request ''password must contain at least 6 characters'')
      else
        (case env_argon2_hash e raw_password (env_salt e) of
           Inl error \<Rightarrow> Inl (internal error)
         | Inr hash \<Rightarrow> Inr hash))"

definition verify_password :: "runtime \<Rightarrow> string \<Rightarrow> string \<Rightarrow> unit api_result" where
  "verify_password e password_hash raw_password =
     (case env_argon2_parse e password_hash of
        Inl error \<Rightarrow> Inl (internal error)
      | Inr _ \<Rightarrow>
          if env_argon2_verify e password_hash raw_password then Inr ()
          else Inl (unauthorized ''invalid username or password''))"

definition generate_admin_session_token :: "runtime \<Rightarrow> string" where
  "generate_admin_session_token e =
     ''adm_'' @ env_simple_uuid e (env_uuid e 0) @ env_simple_uuid e (env_uuid e 1)"

definition validate_admin_session :: "runtime \<Rightarrow> admin_session_context \<Rightarrow> unit api_result" where
  "validate_admin_session e session =
     (if sc_status session \<noteq> ''active'' then Inl (unauthorized ''admin account is disabled'')
      else if sc_expires_at session < env_now e 0 then Inl (unauthorized ''admin session expired'')
      else Inr ())"

definition ensure_admin_user :: "runtime \<Rightarrow> string \<Rightarrow> string \<Rightarrow> string \<Rightarrow> hub \<Rightarrow> bool hub_out" where
  "ensure_admin_user e username display_name raw_password h =
     try_ok (normalize_admin_username username) h (\<lambda>normalized_username.
       if repo_admin_user_by_username (hub_repo h) normalized_username \<noteq> None then (Inr False, h)
       else
         try_ok (hash_password e raw_password) h (\<lambda>password_hash.
           let user = \<lparr>au_user_id = env_uuid e 0, au_username = normalized_username,
                 au_display_name = normalize_admin_display_name display_name,
                 au_password_hash = password_hash, au_status = ''active'',
                 au_last_login_at = None, au_created_at = env_now e 0\<rparr>
           in (Inr True, with_repo (repo_save_admin_user user) h)))"

definition login_admin ::
  "runtime \<Rightarrow> admin_login_request \<Rightarrow> hub \<Rightarrow> (admin_login_response \<times> string) hub_out" where
  "login_admin e request h =
     try_ok (normalize_admin_username (alq_username request)) h (\<lambda>username.
       if alq_password request = [] then (Inl (bad_request ''password is required''), h)
       else
         try_ok (ok_or (unauthorized ''invalid username or password'')
             (repo_admin_user_by_username (hub_repo h) username)) h (\<lambda>user.
           if au_status user \<noteq> ''active'' then (Inl (unauthorized ''admin account is disabled''), h)
           else
             try_ok (verify_password e (au_password_hash user) (alq_password request)) h (\<lambda>_.
               let raw_session_token = generate_admin_session_token e;
                   session = \<lparr>as_session_id = env_uuid e 2, as_user_id = au_user_id user,
                     as_session_token_hash = hash_session_token e raw_session_token,
                     as_expires_at = env_now e 0 + hours 8,
                     as_created_at = env_now e 1, as_last_seen_at = env_now e 2\<rparr>;
                   h = with_repo (repo_save_admin_session session) h;
                   h = with_repo (repo_touch_admin_user_login (au_user_id user) (env_now e 3)) h
               in (Inr (\<lparr>alr_session = \<lparr>asi_user_id = au_user_id user, asi_username = au_username user,
                           asi_display_name = au_display_name user,
                           asi_expires_at = as_expires_at session\<rparr>\<rparr>,
                        raw_session_token), h))))"

definition authorize_admin_session :: "runtime \<Rightarrow> string \<Rightarrow> hub \<Rightarrow> admin_session_info hub_out" where
  "authorize_admin_session e session_token h =
     (if trim session_token = [] then (Inl (unauthorized ''missing admin session''), h)
      else
        let session_hash = hash_session_token e session_token
        in try_ok (ok_or (unauthorized ''invalid admin session'')
               (repo_admin_session_by_token_hash (hub_repo h) session_hash)) h (\<lambda>session.
             try_ok (validate_admin_session e session) h (\<lambda>_.
               let h = with_repo (repo_touch_admin_session session_hash (env_now e 1)) h
               in (Inr \<lparr>asi_user_id = sc_user_id session, asi_username = sc_username session,
                        asi_display_name = sc_display_name session,
                        asi_expires_at = sc_expires_at session\<rparr>, h))))"

definition current_admin :: "runtime \<Rightarrow> string \<Rightarrow> hub \<Rightarrow> admin_me_response hub_out" where
  "current_admin e session_token h =
     and_then (authorize_admin_session e session_token h) (\<lambda>session h. (Inr \<lparr>amr_session = session\<rparr>, h))"

definition change_admin_password ::
  "runtime \<Rightarrow> string \<Rightarrow> change_admin_password_request \<Rightarrow> hub \<Rightarrow> change_admin_password_response hub_out" where
  "change_admin_password e session_token request h =
     and_then (authorize_admin_session e session_token h) (\<lambda>session h.
          if cpq_current_password request = []
          then (Inl (bad_request ''current_password is required''), h)
          else if cpq_new_password request = []
          then (Inl (bad_request ''new_password is required''), h)
          else if cpq_current_password request = cpq_new_password request
          then (Inl (bad_request ''new password must be different from current password''), h)
          else
            try_ok (ok_or (unauthorized ''admin account not found'')
                (repo_admin_user_by_username (hub_repo h) (asi_username session))) h (\<lambda>user.
              if au_status user \<noteq> ''active'' then (Inl (unauthorized ''admin account is disabled''), h)
              else
                try_ok (verify_password e (au_password_hash user) (cpq_current_password request)) h (\<lambda>_.
                try_ok (hash_password e (cpq_new_password request)) h (\<lambda>password_hash.
                  let h = with_repo (repo_save_admin_user (user\<lparr>au_password_hash := password_hash\<rparr>)) h;
                      h = with_repo (repo_delete_admin_sessions_for_user (au_user_id user)
                            (Some (hash_session_token e session_token))) h
                  in (Inr \<lparr>cpr_user_id = au_user_id user, cpr_username = au_username user,
                           cpr_changed = True\<rparr>, h)))))"

definition logout_admin :: "runtime \<Rightarrow> string \<Rightarrow> hub \<Rightarrow> unit hub_out" where
  "logout_admin e session_token h =
     (if trim session_token = [] then (Inr (), h)
      else (Inr (), with_repo (repo_delete_admin_session (hash_session_token e session_token)) h))"

subsection \<open>Sessions\<close>

text \<open>
  The accounts of the store: found under their identifier and their user name, which is in
  normal form.
\<close>

definition admin_inv :: "memory_state \<Rightarrow> bool" where
  "admin_inv s \<longleftrightarrow>
     hm_wf (admin_users s) \<and> hm_wf (admin_sessions s) \<and>
     index_fwd (admin_users s) (admin_user_ids_by_username s) au_username au_user_id \<and>
     index_bwd (admin_users s) (admin_user_ids_by_username s) au_username \<and>
     (\<forall>i user. hm_get (admin_users s) i = Some user \<longrightarrow>
        normalize_admin_username (au_username user) = Inr (au_username user))"

lemma user_by_username_Some:
  assumes "admin_inv s" "repo_admin_user_by_username s name = Some user"
  shows "hm_get (admin_users s) (au_user_id user) = Some user" "au_username user = name"
proof -
  from assms(2) obtain i where i: "hm_get (admin_user_ids_by_username s) name = Some i"
    "hm_get (admin_users s) i = Some user"
    by (auto simp: repo_admin_user_by_username_def split: option.splits)
  with assms(1) show "hm_get (admin_users s) (au_user_id user) = Some user"
    by (auto simp: admin_inv_def dest: index_fwdD)
  from i assms(1) show "au_username user = name"
    unfolding admin_inv_def using index_bwdD by fast
qed

lemma user_by_username_own:
  assumes "admin_inv s" "hm_get (admin_users s) i = Some user"
  shows "repo_admin_user_by_username s (au_username user) = Some user" "au_user_id user = i"
  using assms by (auto simp: admin_inv_def repo_admin_user_by_username_def dest: index_fwdD)

lemma admin_token_not_blank: "trim (generate_admin_session_token e) \<noteq> []"
  by (rule trim_nonempty [of "CHR ''a''"]) (simp_all add: generate_admin_session_token_def)

text \<open>A successful login and a successful authorization, by their effect.\<close>

lemma login_admin_Inr:
  assumes "login_admin e request h = (Inr (resp, token), h')"
  obtains username user session where
    "normalize_admin_username (alq_username request) = Inr username"
    "repo_admin_user_by_username (hub_repo h) username = Some user" "au_status user = ''active''"
    "verify_password e (au_password_hash user) (alq_password request) = Inr ()"
    "token = generate_admin_session_token e"
    "session = \<lparr>as_session_id = env_uuid e 2, as_user_id = au_user_id user,
       as_session_token_hash = hash_session_token e token, as_expires_at = env_now e 0 + hours 8,
       as_created_at = env_now e 1, as_last_seen_at = env_now e 2\<rparr>"
    "h' = with_repo (repo_touch_admin_user_login (au_user_id user) (env_now e 3))
            (with_repo (repo_save_admin_session session) h)"
    "alr_session resp = \<lparr>asi_user_id = au_user_id user, asi_username = au_username user,
       asi_display_name = au_display_name user, asi_expires_at = env_now e 0 + hours 8\<rparr>"
  using assms that
  by (force simp: login_admin_def outcome_iffs Let_def split: if_splits)

lemma authorize_admin_session_Inr:
  assumes "authorize_admin_session e token h = (Inr info, h')"
  obtains session user where
    "trim token \<noteq> []"
    "hm_get (admin_sessions (hub_repo h)) (hash_session_token e token) = Some session"
    "hm_get (admin_users (hub_repo h)) (as_user_id session) = Some user"
    "au_status user = ''active''" "env_now e 0 \<le> as_expires_at session"
    "info = \<lparr>asi_user_id = au_user_id user, asi_username = au_username user,
       asi_display_name = au_display_name user, asi_expires_at = as_expires_at session\<rparr>"
    "h' = with_repo (repo_touch_admin_session (hash_session_token e token) (env_now e 1)) h"
  using assms that
  by (force simp: authorize_admin_session_def validate_admin_session_def repo_admin_session_by_token_hash_def
      outcome_iffs Let_def split: if_splits option.splits)

lemma authorize_admin_session_ok:
  assumes "trim token \<noteq> []"
    and "hm_get (admin_sessions (hub_repo h)) (hash_session_token e token) = Some session"
    and "hm_get (admin_users (hub_repo h)) (as_user_id session) = Some user"
    and "au_status user = ''active''" "env_now e 0 \<le> as_expires_at session"
  shows "fst (authorize_admin_session e token h) =
    Inr \<lparr>asi_user_id = au_user_id user, asi_username = au_username user,
      asi_display_name = au_display_name user, asi_expires_at = as_expires_at session\<rparr>"
  using assms
  by (simp add: authorize_admin_session_def validate_admin_session_def repo_admin_session_by_token_hash_def Let_def)

subsection \<open>The invariant\<close>

lemma admin_inv_empty: "admin_inv empty_memory_state"
  by (simp add: admin_inv_def empty_memory_state_def index_fwd_def index_bwd_def)

lemma normalize_admin_username_idem:
  "normalize_admin_username raw = Inr name \<Longrightarrow> normalize_admin_username name = Inr name"
  by (auto simp: normalize_admin_username_def Let_def split: if_splits)

text \<open>A new account under a free name, or an account that keeps its name.\<close>

lemma admin_inv_save_user:
  assumes inv: "admin_inv s" and norm: "normalize_admin_username (au_username user) = Inr (au_username user)"
    and other: "\<And>u. repo_admin_user_by_username s (au_username user) = Some u \<Longrightarrow> au_user_id u = au_user_id user"
    and same: "\<And>u. hm_get (admin_users s) (au_user_id user) = Some u \<Longrightarrow> au_username u = au_username user"
  shows "admin_inv (repo_save_admin_user user s)"
proof -
  let ?s = "repo_save_admin_user user s"
  have fwd: "index_fwd (admin_users s) (admin_user_ids_by_username s) au_username au_user_id"
    and bwd: "index_bwd (admin_users s) (admin_user_ids_by_username s) au_username"
    using inv by (simp_all add: admin_inv_def)
  have "index_fwd (admin_users ?s) (admin_user_ids_by_username ?s) au_username au_user_id"
  proof (rule user_tab.save_fwd_checked [OF fwd])
    fix i u assume iu: "hm_get (admin_user_ids_by_username s) (au_username user) = Some i"
      "hm_get (admin_users s) i = Some u"
    then have "au_user_id u = au_user_id user" by (intro other) (simp add: repo_admin_user_by_username_def)
    with fwd iu(2) show "i = au_user_id user" by (auto dest: index_fwdD)
  qed
  moreover have "index_bwd (admin_users ?s) (admin_user_ids_by_username ?s) au_username"
    by (rule user_tab.save_bwd [OF bwd same])
  ultimately show ?thesis
    using inv norm by (auto simp: admin_inv_def repo_save_admin_user_def)
qed

lemma admin_inv_sessions:
  assumes "admin_inv s" "hm_wf m"
  shows "admin_inv (s\<lparr>admin_sessions := m\<rparr>)"
  using assms by (simp add: admin_inv_def)

lemma admin_inv_touch_login: "admin_inv s \<Longrightarrow> admin_inv (repo_touch_admin_user_login i t s)"
  by (auto simp: admin_inv_def repo_touch_admin_user_login_def intro: index_fwd_modify index_bwd_modify)

lemma ensure_admin_user_inv:
  assumes "admin_inv (hub_repo h)" "hm_get (admin_users (hub_repo h)) (env_uuid e 0) = None"
    and "ensure_admin_user e username display_name pw h = (r, h')"
  shows "admin_inv (hub_repo h')"
proof (cases "normalize_admin_username username")
  case (Inl err)
  with assms show ?thesis by (simp add: ensure_admin_user_def)
next
  case (Inr name)
  with assms normalize_admin_username_idem [OF Inr] show ?thesis
    by (cases "hash_password e pw")
      (auto simp: ensure_admin_user_def Let_def split: if_splits intro!: admin_inv_save_user)
qed

lemma login_admin_inv:
  assumes "admin_inv (hub_repo h)" "login_admin e request h = (r, h')"
  shows "admin_inv (hub_repo h')"
proof (cases r)
  case (Inl err)
  with assms show ?thesis by (auto simp: login_admin_def outcome_iffs Let_def split: if_splits)
next
  case (Inr x)
  obtain resp token where x: "x = (resp, token)" by (cases x)
  from assms(2) [unfolded Inr x] assms(1) show ?thesis
    by (elim login_admin_Inr)
      (simp add: admin_inv_touch_login repo_save_admin_session_def, intro admin_inv_touch_login,
       simp add: admin_inv_def)
qed

lemma authorize_admin_session_inv:
  "admin_inv (hub_repo h) \<Longrightarrow> admin_inv (hub_repo (snd (authorize_admin_session e token h)))"
  by (auto simp: authorize_admin_session_def Let_def try_ok_def repo_touch_admin_session_def
      admin_inv_sessions admin_inv_def split: sum.splits)

subsection \<open>Logging in, changing the password, logging out\<close>

text \<open>
  A login opens a session. The token it returns is accepted, with the account's data, by every
  later \<open>authorize_admin_session\<close> up to eight hours after the login, and refused afterwards.
\<close>

theorem login_admin_opens_session:
  assumes "admin_inv (hub_repo h)"
    and "login_admin e request h = (Inr (resp, token), h')"
    and "env_sha256_hex e' = env_sha256_hex e"
  shows "(env_now e' 0 \<le> env_now e 0 + hours 8 \<longrightarrow>
      fst (authorize_admin_session e' token h') = Inr (alr_session resp)) \<and>
    (env_now e' 0 > env_now e 0 + hours 8 \<longrightarrow>
      fst (authorize_admin_session e' token h') = Inl (unauthorized ''admin session expired''))"
proof -
  from assms(2) obtain username user session where l:
    "repo_admin_user_by_username (hub_repo h) username = Some user" "au_status user = ''active''"
    "token = generate_admin_session_token e"
    "session = \<lparr>as_session_id = env_uuid e 2, as_user_id = au_user_id user,
       as_session_token_hash = hash_session_token e token, as_expires_at = env_now e 0 + hours 8,
       as_created_at = env_now e 1, as_last_seen_at = env_now e 2\<rparr>"
    "h' = with_repo (repo_touch_admin_user_login (au_user_id user) (env_now e 3))
            (with_repo (repo_save_admin_session session) h)"
    "alr_session resp = \<lparr>asi_user_id = au_user_id user, asi_username = au_username user,
       asi_display_name = au_display_name user, asi_expires_at = env_now e 0 + hours 8\<rparr>"
    by (rule login_admin_Inr)
  let ?user = "user\<lparr>au_last_login_at := Some (env_now e 3)\<rparr>"
  have "hm_get (admin_users (hub_repo h)) (au_user_id user) = Some user"
    using user_by_username_Some(1) [OF assms(1) l(1)] .
  then have "hm_get (admin_users (hub_repo h')) (au_user_id user) = Some ?user"
    by (simp add: l(5) repo_touch_admin_user_login_def repo_save_admin_session_def)
  moreover have "hm_get (admin_sessions (hub_repo h')) (hash_session_token e' token) = Some session"
    using assms(3)
    by (simp add: l(5) l(4) repo_touch_admin_user_login_def repo_save_admin_session_def hash_session_token_def)
  moreover have "trim token \<noteq> []" by (simp add: l(3) admin_token_not_blank)
  ultimately show ?thesis
    using l(2,4,6)
    by (simp add: authorize_admin_session_def repo_admin_session_by_token_hash_def validate_admin_session_def Let_def)
qed

text \<open>An example: one account, logged in once.\<close>

definition sample_admin_hub :: hub where
  "sample_admin_hub = snd (ensure_admin_user (sample_env 1 0) ''Admin'' [] ''secret1'' new_memory)"

definition sample_login :: "(admin_login_response \<times> string) hub_out" where
  "sample_login = login_admin (sample_env 10 0) \<lparr>alq_username = ''admin'', alq_password = ''secret1''\<rparr> sample_admin_hub"

lemma sample_admin_inv: "admin_inv (hub_repo sample_admin_hub)"
  unfolding sample_admin_hub_def
  by (rule ensure_admin_user_inv [OF _ _ prod.collapse [symmetric]])
    (simp_all add: new_memory_def new_memory_with_cert_auto_renew_before_days_def admin_inv_empty,
     simp add: empty_memory_state_def)

lemma sample_login_inv: "admin_inv (hub_repo (snd sample_login))"
  unfolding sample_login_def by (rule login_admin_inv [OF sample_admin_inv prod.collapse [symmetric]])

lemma sample_login_eval:
  "fst sample_login = Inr (\<lparr>alr_session = \<lparr>asi_user_id = 1, asi_username = ''admin'',
     asi_display_name = ''Administrator'', asi_expires_at = hours 8\<rparr>\<rparr>, ''adm_1011'')"
  by code_simp

theorem login_admin_opens_session_witness:
  "fst (authorize_admin_session (sample_env 20 (hours 1)) ''adm_1011'' (snd sample_login)) =
     Inr \<lparr>asi_user_id = 1, asi_username = ''admin'', asi_display_name = ''Administrator'',
       asi_expires_at = hours 8\<rparr>"
proof -
  from login_admin_opens_session [OF sample_admin_inv
      fst_eq_pair [OF sample_login_eval, unfolded sample_login_def], of "sample_env 20 (hours 1)"]
  show ?thesis by (simp add: sample_login_def sample_env_def hours_def seconds_def)
qed

text \<open>What a successful change of password does to the store.\<close>

lemma change_admin_password_Inr:
  assumes "admin_inv (hub_repo h)" "change_admin_password e token request h = (Inr resp, h')"
  obtains session user hash where
    "hm_get (admin_sessions (hub_repo h)) (hash_session_token e token) = Some session"
    "hm_get (admin_users (hub_repo h)) (au_user_id user) = Some user" "as_user_id session = au_user_id user"
    "au_status user = ''active''"
    "verify_password e (au_password_hash user) (cpq_current_password request) = Inr ()"
    "hash_password e (cpq_new_password request) = Inr hash"
    "cpr_user_id resp = au_user_id user" "cpr_username resp = au_username user"
    "hub_repo h' = repo_delete_admin_sessions_for_user (au_user_id user) (Some (hash_session_token e token))
       (repo_save_admin_user (user\<lparr>au_password_hash := hash\<rparr>)
         (repo_touch_admin_session (hash_session_token e token) (env_now e 1) (hub_repo h)))"
    "cpq_new_password request \<noteq> []"
proof -
  from assms(2) obtain info h1 where a: "authorize_admin_session e token h = (Inr info, h1)"
    by (auto simp: change_admin_password_def and_then_Inr_iff)
  from a obtain session user where s:
    "hm_get (admin_sessions (hub_repo h)) (hash_session_token e token) = Some session"
    "hm_get (admin_users (hub_repo h)) (as_user_id session) = Some user"
    "asi_username info = au_username user" "au_status user = ''active''"
    "h1 = with_repo (repo_touch_admin_session (hash_session_token e token) (env_now e 1)) h"
    by (auto elim!: authorize_admin_session_Inr)
  have name: "repo_admin_user_by_username (hub_repo h) (au_username user) = Some user"
    "au_user_id user = as_user_id session"
    using user_by_username_own [OF assms(1) s(2)] by simp_all
  then have "repo_admin_user_by_username (hub_repo h1) (au_username user) = Some user"
    by (auto simp: s(5) repo_touch_admin_session_def repo_admin_user_by_username_def split: option.splits)
  with assms(2) a s(3,4) obtain hash where
    "verify_password e (au_password_hash user) (cpq_current_password request) = Inr ()"
    "hash_password e (cpq_new_password request) = Inr hash"
    "cpr_user_id resp = au_user_id user" "cpr_username resp = au_username user"
    "hub_repo h' = repo_delete_admin_sessions_for_user (au_user_id user) (Some (hash_session_token e token))
       (repo_save_admin_user (user\<lparr>au_password_hash := hash\<rparr>) (hub_repo h1))"
    "cpq_new_password request \<noteq> []"
    by (auto simp: change_admin_password_def try_ok_Inr_iff Let_def split: if_splits)
  with s name show thesis by (intro that [of session user hash]) simp_all
qed

text \<open>
  C34: after a change of password the only session left for the account is the one the change was
  made from, which stays valid; the sessions of other accounts are untouched; and the account
  can log in with the new password.
\<close>

theorem change_admin_password_revokes:
  assumes "admin_inv (hub_repo h)" "argon2_correct e"
    and "change_admin_password e token request h = (Inr resp, h')"
  shows "(\<forall>t session. hm_get (admin_sessions (hub_repo h')) t = Some session \<longrightarrow>
        as_user_id session = cpr_user_id resp \<longrightarrow> t = hash_session_token e token) \<and>
    (\<exists>session. hm_get (admin_sessions (hub_repo h')) (hash_session_token e token) = Some session \<and>
        as_user_id session = cpr_user_id resp) \<and>
    (\<forall>t session. as_user_id session \<noteq> cpr_user_id resp \<longrightarrow>
        (hm_get (admin_sessions (hub_repo h')) t = Some session \<longleftrightarrow>
         hm_get (admin_sessions (hub_repo h)) t = Some session)) \<and>
    (\<exists>login. fst (login_admin e \<lparr>alq_username = cpr_username resp,
        alq_password = cpq_new_password request\<rparr> h') = Inr login)"
proof -
  from change_admin_password_Inr [OF assms(1,3)] obtain session user hash where c:
    "hm_get (admin_sessions (hub_repo h)) (hash_session_token e token) = Some session"
    "hm_get (admin_users (hub_repo h)) (au_user_id user) = Some user" "as_user_id session = au_user_id user"
    "au_status user = ''active''" "hash_password e (cpq_new_password request) = Inr hash"
    "cpr_user_id resp = au_user_id user" "cpr_username resp = au_username user"
    "hub_repo h' = repo_delete_admin_sessions_for_user (au_user_id user) (Some (hash_session_token e token))
       (repo_save_admin_user (user\<lparr>au_password_hash := hash\<rparr>)
         (repo_touch_admin_session (hash_session_token e token) (env_now e 1) (hub_repo h)))"
    "cpq_new_password request \<noteq> []"
    by metis
  have wf: "hm_wf (admin_sessions (hub_repo h))" using assms(1) by (simp add: admin_inv_def)
  have sess: "hm_get (admin_sessions (hub_repo h')) t =
      (if t = hash_session_token e token then Some (session\<lparr>as_last_seen_at := env_now e 1\<rparr>)
       else opt_filter (\<lambda>s. as_user_id s \<noteq> au_user_id user) (hm_get (admin_sessions (hub_repo h)) t))" for t
    using wf c(1,3)
    by (simp add: c(8) repo_delete_admin_sessions_for_user_def repo_save_admin_user_def
        repo_touch_admin_session_def hm_get_retain opt_filter_def split: option.splits)
  have user': "repo_admin_user_by_username (hub_repo h') (au_username user) =
      Some (user\<lparr>au_password_hash := hash\<rparr>)"
    by (simp add: c(8) repo_admin_user_by_username_def repo_delete_admin_sessions_for_user_def
        repo_save_admin_user_def)
  have "verify_password e hash (cpq_new_password request) = Inr ()"
    using assms(2) c(5)
    by (auto simp: hash_password_def verify_password_def argon2_correct_def split: if_splits sum.splits)
  moreover have "normalize_admin_username (au_username user) = Inr (au_username user)"
    using assms(1) c(2) by (simp add: admin_inv_def)
  ultimately have "\<exists>login. fst (login_admin e \<lparr>alq_username = cpr_username resp,
      alq_password = cpq_new_password request\<rparr> h') = Inr login"
    using user' c(4,7,9) by (simp add: login_admin_def Let_def)
  moreover have "as_user_id s \<noteq> au_user_id user \<Longrightarrow>
      hm_get (admin_sessions (hub_repo h')) t = Some s \<longleftrightarrow> hm_get (admin_sessions (hub_repo h)) t = Some s" for t s
    using c(1,3) by (auto simp: sess opt_filter_def split: option.splits)
  ultimately show ?thesis
    using c(1,3,6) by (auto simp: sess opt_filter_def split: option.splits if_splits)
qed

definition sample_change :: change_admin_password_request where
  "sample_change = \<lparr>cpq_current_password = ''secret1'', cpq_new_password = ''secret2''\<rparr>"

theorem change_admin_password_revokes_witness:
  "\<exists>login. fst (login_admin (sample_env 30 (hours 1)) \<lparr>alq_username = ''admin'', alq_password = ''secret2''\<rparr>
     (snd (change_admin_password (sample_env 30 (hours 1)) ''adm_1011'' sample_change (snd sample_login)))) = Inr login"
proof -
  have "fst (change_admin_password (sample_env 30 (hours 1)) ''adm_1011'' sample_change (snd sample_login)) =
      Inr \<lparr>cpr_user_id = 1, cpr_username = ''admin'', cpr_changed = True\<rparr>"
    by code_simp
  from change_admin_password_revokes [OF sample_login_inv argon2_correct_sample
      fst_eq_pair [OF this]]
  show ?thesis by (simp add: sample_change_def)
qed

text \<open>
  A token that was logged out is refused, and no other token is affected.
\<close>

theorem logout_admin_ends_session:
  assumes "trim token \<noteq> []"
  shows "fst (authorize_admin_session e token (snd (logout_admin e token h))) =
      Inl (unauthorized ''invalid admin session'') \<and>
    (\<forall>t. hash_session_token e t \<noteq> hash_session_token e token \<longrightarrow>
      fst (authorize_admin_session e t (snd (logout_admin e token h))) = fst (authorize_admin_session e t h))"
  using assms
  by (auto simp: authorize_admin_session_def logout_admin_def Let_def repo_admin_session_by_token_hash_def
      repo_delete_admin_session_def try_ok_def ok_or_def split: option.splits sum.splits)

theorem logout_admin_ends_session_witness:
  "fst (authorize_admin_session (sample_env 20 (hours 1)) ''adm_1011''
     (snd (logout_admin (sample_env 20 (hours 1)) ''adm_1011'' (snd sample_login)))) =
   Inl (unauthorized ''invalid admin session'')"
proof -
  have "trim ''adm_1011'' \<noteq> []" by code_simp
  from logout_admin_ends_session [OF this] show ?thesis by blast
qed

end
