(* ===== verification/Dns_Provider.thy ===== *)
theory Dns_Provider
  imports Json_Value
begin

text \<open>
  The DNS providers (\<open>crates/dns-provider\<close>): the provider that does nothing and the client of
  the Cloudflare API. The API itself is a parameter: a record of its five calls over some state
  of the zones, each of which answers with a reply that may be a failure to connect, an HTTP
  status that is no success, or a body that cannot be decoded.
\<close>

record provider_metadata =
  pm_provider_type :: string
  pm_supports_dns01 :: bool

record provider_zone =
  pz_zone_id :: string
  pz_zone_name :: string
  pz_status :: string

record dns_record_change =
  dc_zone_id :: "string option"
  dc_zone_name :: string
  dc_record_type :: string
  dc_host :: string
  dc_value :: string
  dc_ttl :: u32

record acme_challenge =
  ac_zone_id :: "string option"
  ac_zone_name :: string
  ac_fqdn :: string
  ac_value :: string
  ac_ttl :: u32

record provider_config =
  pf_provider_type :: string
  pf_api_endpoint :: "string option"
  pf_credentials :: json

record cloudflare_config =
  cf_api_token :: string
  cf_api_base :: string

datatype dns_provider = CloudflareDnsProvider cloudflare_config | NoopDnsProvider

subsection \<open>Choosing a provider\<close>

definition from_provider_config :: "provider_config \<Rightarrow> string + cloudflare_config" where
  "from_provider_config config =
     (case opt_filter (\<lambda>value. trim value \<noteq> [])
             (Option.bind (json_get (pf_credentials config) ''api_token'') as_str) of
        None \<Rightarrow> Inl ''cloudflare api_token is required''
      | Some api_token \<Rightarrow> Inr
          \<lparr>cf_api_token = api_token,
           cf_api_base = unwrap_or ''https://api.cloudflare.com/client/v4'' (pf_api_endpoint config)\<rparr>)"

definition build_provider :: "provider_config \<Rightarrow> string + dns_provider" where
  "build_provider config =
     (if pf_provider_type config = ''cloudflare''
      then result_bind (from_provider_config config) (\<lambda>cf. Inr (CloudflareDnsProvider cf))
      else if pf_provider_type config \<in> {''noop'', ''custom''} then Inr NoopDnsProvider
      else Inl (''unsupported dns provider type: '' @ pf_provider_type config))"

fun metadata :: "dns_provider \<Rightarrow> provider_metadata" where
  "metadata (CloudflareDnsProvider _) = \<lparr>pm_provider_type = ''cloudflare'', pm_supports_dns01 = True\<rparr>"
| "metadata NoopDnsProvider = \<lparr>pm_provider_type = ''noop'', pm_supports_dns01 = True\<rparr>"

subsection \<open>The Cloudflare API\<close>

text \<open>
  A reply to an HTTP request: the request could not be sent, or a status code with its display
  text and the decoded body, if it can be decoded.
\<close>

datatype 'a http_reply = SendError | Reply nat string "'a option"

definition ensure_success :: "nat \<Rightarrow> string \<Rightarrow> string \<Rightarrow> string + unit" where
  "ensure_success status status_text action =
     (if 200 \<le> status \<and> status < 300 then Inr ()
      else Inl (action @ '' failed with status '' @ status_text))"

text \<open>Sending a request, checking its status and decoding its body, with the context of each error.\<close>

fun checked_reply :: "string \<Rightarrow> string \<Rightarrow> 'a http_reply \<Rightarrow> string + 'a option" where
  "checked_reply context action SendError = Inl context"
| "checked_reply context action (Reply status status_text body) =
     result_bind (ensure_success status status_text action) (\<lambda>_. Inr body)"

definition decoded_reply :: "string \<Rightarrow> string \<Rightarrow> string \<Rightarrow> 'a http_reply \<Rightarrow> string + 'a" where
  "decoded_reply context action decode_context reply =
     result_bind (checked_reply context action reply) (ok_or decode_context)"

record 's cloudflare_api =
  api_zones :: "cloudflare_config \<Rightarrow> string option \<Rightarrow> 's \<Rightarrow> provider_zone list http_reply"
  api_records :: "cloudflare_config \<Rightarrow> string \<Rightarrow> string \<Rightarrow> string \<Rightarrow> string option \<Rightarrow> 's \<Rightarrow> string list http_reply"
  api_create :: "cloudflare_config \<Rightarrow> string \<Rightarrow> json \<Rightarrow> 's \<Rightarrow> unit http_reply \<times> 's"
  api_update :: "cloudflare_config \<Rightarrow> string \<Rightarrow> string \<Rightarrow> json \<Rightarrow> 's \<Rightarrow> unit http_reply \<times> 's"
  api_delete :: "cloudflare_config \<Rightarrow> string \<Rightarrow> string \<Rightarrow> 's \<Rightarrow> unit http_reply \<times> 's"

text \<open>
  \<open>list_zones\<close> asks for every name in turn and fails at the first failure; without names it
  asks for all zones.
\<close>

fun cloudflare_zones_by_name ::
  "(string option \<Rightarrow> provider_zone list http_reply) \<Rightarrow> string list \<Rightarrow> provider_zone list \<Rightarrow>
   string + provider_zone list" where
  "cloudflare_zones_by_name get [] zones = Inr zones"
| "cloudflare_zones_by_name get (name # names) zones =
     result_bind (decoded_reply (''failed to call cloudflare list zone api for '' @ name)
         ''list cloudflare zone by name'' ''failed to decode cloudflare zone lookup response'' (get (Some name)))
       (\<lambda>found. cloudflare_zones_by_name get names (zones @ found))"

definition cloudflare_list_zones ::
  "(string option \<Rightarrow> provider_zone list http_reply) \<Rightarrow> string list \<Rightarrow> string + provider_zone list" where
  "cloudflare_list_zones get names =
     (if names = []
      then decoded_reply ''failed to call cloudflare list zones api'' ''list cloudflare zones''
             ''failed to decode cloudflare zones response'' (get None)
      else cloudflare_zones_by_name get names [])"

definition noop_list_zones :: "string list \<Rightarrow> string + provider_zone list" where
  "noop_list_zones names =
     Inr (map (\<lambda>name. \<lparr>pz_zone_id = ''noop-'' @ name, pz_zone_name = name, pz_status = ''active''\<rparr>) names)"

fun list_zones ::
  "dns_provider \<Rightarrow> (cloudflare_config \<Rightarrow> string option \<Rightarrow> provider_zone list http_reply) \<Rightarrow> string list \<Rightarrow>
   string + provider_zone list" where
  "list_zones (CloudflareDnsProvider cf) get names = cloudflare_list_zones (get cf) names"
| "list_zones NoopDnsProvider get names = noop_list_zones names"

subsection \<open>Records\<close>

definition normalize_record_name :: "string \<Rightarrow> string \<Rightarrow> string" where
  "normalize_record_name host zone_name =
     (if host = ''@'' then zone_name
      else if ends_with zone_name host then host
      else host @ ''.'' @ zone_name)"

definition get_zone_id_by_name ::
  "(string option \<Rightarrow> provider_zone list http_reply) \<Rightarrow> string \<Rightarrow> string + string" where
  "get_zone_id_by_name get zone_name =
     result_bind (cloudflare_list_zones get [zone_name]) (\<lambda>zones.
       ok_or (''cloudflare zone not found: '' @ zone_name)
         (map_option pz_zone_id (List.find (\<lambda>zone. pz_zone_name zone = zone_name) zones)))"

definition change_zone_id ::
  "(string option \<Rightarrow> provider_zone list http_reply) \<Rightarrow> dns_record_change \<Rightarrow> string + string" where
  "change_zone_id get change =
     (case dc_zone_id change of
        Some zone_id \<Rightarrow> Inr zone_id
      | None \<Rightarrow> get_zone_id_by_name get (dc_zone_name change))"

definition record_body :: "dns_record_change \<Rightarrow> json" where
  "record_body change = jobj
     [(''type'', JString (dc_record_type change)),
      (''name'', JString (normalize_record_name (dc_host change) (dc_zone_name change))),
      (''content'', JString (dc_value change)), (''ttl'', jnat (ucast (dc_ttl change)))]"

definition find_record_id ::
  "'s cloudflare_api \<Rightarrow> cloudflare_config \<Rightarrow> string \<Rightarrow> string \<Rightarrow> string \<Rightarrow> string \<Rightarrow> 's \<Rightarrow> string + string option" where
  "find_record_id api cf zone_id record_type name content s =
     result_bind (decoded_reply ''failed to call cloudflare list dns records api'' ''list cloudflare dns records''
         ''failed to decode cloudflare dns record response'' (api_records api cf zone_id record_type name (Some content) s))
       (\<lambda>ids. Inr (case ids of [] \<Rightarrow> None | i # _ \<Rightarrow> Some i))"

definition find_record_id_by_name ::
  "'s cloudflare_api \<Rightarrow> cloudflare_config \<Rightarrow> string \<Rightarrow> string \<Rightarrow> string \<Rightarrow> 's \<Rightarrow> string + string option" where
  "find_record_id_by_name api cf zone_id record_type name s =
     result_bind (decoded_reply ''failed to call cloudflare list dns records api'' ''list cloudflare dns records''
         ''failed to decode cloudflare dns record response'' (api_records api cf zone_id record_type name None s))
       (\<lambda>ids. Inr (case ids of [] \<Rightarrow> None | i # _ \<Rightarrow> Some i))"

definition done_reply :: "string \<Rightarrow> string \<Rightarrow> unit http_reply \<times> 's \<Rightarrow> (string + unit) \<times> 's" where
  "done_reply context action r =
     (case r of (reply, s) \<Rightarrow> (result_bind (checked_reply context action reply) (\<lambda>_. Inr ()), s))"

definition delete_record_internal ::
  "'s cloudflare_api \<Rightarrow> cloudflare_config \<Rightarrow> string \<Rightarrow> string \<Rightarrow> 's \<Rightarrow> (string + unit) \<times> 's" where
  "delete_record_internal api cf zone_id record_id s =
     done_reply ''failed to call cloudflare delete dns record api'' ''delete cloudflare dns record''
       (api_delete api cf zone_id record_id s)"

definition create_record ::
  "'s cloudflare_api \<Rightarrow> cloudflare_config \<Rightarrow> dns_record_change \<Rightarrow> 's \<Rightarrow> (string + unit) \<times> 's" where
  "create_record api cf change s =
     (case change_zone_id (\<lambda>name. api_zones api cf name s) change of
        Inl error \<Rightarrow> (Inl error, s)
      | Inr zone_id \<Rightarrow>
          done_reply ''failed to call cloudflare create dns record api'' ''create cloudflare dns record''
            (api_create api cf zone_id (record_body change) s))"

definition update_record ::
  "'s cloudflare_api \<Rightarrow> cloudflare_config \<Rightarrow> dns_record_change \<Rightarrow> 's \<Rightarrow> (string + unit) \<times> 's" where
  "update_record api cf change s =
     (case result_bind (change_zone_id (\<lambda>name. api_zones api cf name s) change) (\<lambda>zone_id.
             result_bind (find_record_id_by_name api cf zone_id (dc_record_type change)
                 (normalize_record_name (dc_host change) (dc_zone_name change)) s) (\<lambda>found.
             result_bind (ok_or ''cloudflare dns record not found for update'' found) (\<lambda>record_id.
               Inr (zone_id, record_id)))) of
        Inl error \<Rightarrow> (Inl error, s)
      | Inr (zone_id, record_id) \<Rightarrow>
          done_reply ''failed to call cloudflare update dns record api'' ''update cloudflare dns record''
            (api_update api cf zone_id record_id (record_body change) s))"

definition delete_record ::
  "'s cloudflare_api \<Rightarrow> cloudflare_config \<Rightarrow> dns_record_change \<Rightarrow> 's \<Rightarrow> (string + unit) \<times> 's" where
  "delete_record api cf change s =
     (case result_bind (change_zone_id (\<lambda>name. api_zones api cf name s) change) (\<lambda>zone_id.
             result_bind (find_record_id api cf zone_id (dc_record_type change)
                 (normalize_record_name (dc_host change) (dc_zone_name change)) (dc_value change) s) (\<lambda>found.
               Inr (zone_id, found))) of
        Inl error \<Rightarrow> (Inl error, s)
      | Inr (zone_id, None) \<Rightarrow> (Inr (), s)
      | Inr (zone_id, Some record_id) \<Rightarrow> delete_record_internal api cf zone_id record_id s)"

definition challenge_record :: "acme_challenge \<Rightarrow> dns_record_change" where
  "challenge_record challenge =
     \<lparr>dc_zone_id = ac_zone_id challenge, dc_zone_name = ac_zone_name challenge, dc_record_type = ''TXT'',
      dc_host = ac_fqdn challenge, dc_value = ac_value challenge, dc_ttl = ac_ttl challenge\<rparr>"

definition present_dns01_challenge ::
  "'s cloudflare_api \<Rightarrow> cloudflare_config \<Rightarrow> acme_challenge \<Rightarrow> 's \<Rightarrow> (string + unit) \<times> 's" where
  "present_dns01_challenge api cf challenge s = create_record api cf (challenge_record challenge) s"

definition cleanup_dns01_challenge ::
  "'s cloudflare_api \<Rightarrow> cloudflare_config \<Rightarrow> acme_challenge \<Rightarrow> 's \<Rightarrow> (string + unit) \<times> 's" where
  "cleanup_dns01_challenge api cf challenge s = delete_record api cf (challenge_record challenge) s"

subsection \<open>Names inside a zone\<close>

definition in_zone :: "string \<Rightarrow> string \<Rightarrow> bool" where
  "in_zone zone_name name \<longleftrightarrow> name = zone_name \<or> ends_with (''.'' @ zone_name) name"

lemma ends_with_dot: "ends_with (''.'' @ z) n \<Longrightarrow> ends_with z n"
  by (auto simp: ends_with_def suffix_def)

text \<open>
  When the name of a record lies outside its zone. It does exactly when the host, not being
  \<open>@\<close>, ends with the text of the zone in the middle of a label; such a host is passed on
  unchanged. In every other case, a host given in full or to be completed, the name is in the zone.
\<close>

theorem normalize_record_name_in_zone:
  "(\<not> in_zone zone (normalize_record_name host zone)) =
     (host \<noteq> ''@'' \<and> ends_with zone host \<and> \<not> in_zone zone host)"
proof -
  have "in_zone zone (host @ ''.'' @ zone)" by (simp add: in_zone_def ends_with_def suffix_def)
  moreover have "in_zone zone host \<Longrightarrow> ends_with zone host"
    using ends_with_dot [of zone host] by (auto simp: in_zone_def ends_with_def)
  ultimately show ?thesis by (auto simp: normalize_record_name_def in_zone_def)
qed

subsection \<open>A challenge is presented and removed\<close>

text \<open>
  What the code relies on from the API, for the records \<open>recs s\<close> of the zones in a state
  (type, name and content under the identifiers of the zone and of the record): a query finds the
  records that match, creating adds a record under a new identifier, deleting removes it.
\<close>

type_synonym 's record_view = "'s \<Rightarrow> string \<Rightarrow> string \<Rightarrow> (string \<times> string \<times> string) option"

definition finds_records :: "'s cloudflare_api \<Rightarrow> cloudflare_config \<Rightarrow> 's record_view \<Rightarrow> bool" where
  "finds_records api cf recs \<longleftrightarrow>
     (\<forall>s z ty nm c. \<exists>ids. api_records api cf z ty nm c s = Reply 200 ''200 OK'' (Some ids) \<and>
        set ids = {i. \<exists>c'. recs s z i = Some (ty, nm, c') \<and> (c = None \<or> c = Some c')})"

definition creates_records :: "'s cloudflare_api \<Rightarrow> cloudflare_config \<Rightarrow> 's record_view \<Rightarrow> bool" where
  "creates_records api cf recs \<longleftrightarrow>
     (\<forall>s z body ty nm c. json_get body ''type'' = Some (JString ty) \<longrightarrow> json_get body ''name'' = Some (JString nm) \<longrightarrow>
        json_get body ''content'' = Some (JString c) \<longrightarrow>
        (\<exists>i s'. api_create api cf z body s = (Reply 200 ''200 OK'' (Some ()), s') \<and> recs s z i = None \<and>
           recs s' = (recs s)(z := (recs s z)(i \<mapsto> (ty, nm, c)))))"

definition deletes_records :: "'s cloudflare_api \<Rightarrow> cloudflare_config \<Rightarrow> 's record_view \<Rightarrow> bool" where
  "deletes_records api cf recs \<longleftrightarrow>
     (\<forall>s z i. recs s z i \<noteq> None \<longrightarrow>
        (\<exists>s'. api_delete api cf z i s = (Reply 200 ''200 OK'' (Some ()), s') \<and>
           recs s' = (recs s)(z := (recs s z)(i := None))))"

definition records_api :: "'s cloudflare_api \<Rightarrow> cloudflare_config \<Rightarrow> 's record_view \<Rightarrow> bool" where
  "records_api api cf recs \<longleftrightarrow>
     finds_records api cf recs \<and> creates_records api cf recs \<and> deletes_records api cf recs"

lemma record_body_fields:
  "json_get (record_body change) ''type'' = Some (JString (dc_record_type change))"
  "json_get (record_body change) ''name'' = Some (JString (normalize_record_name (dc_host change) (dc_zone_name change)))"
  "json_get (record_body change) ''content'' = Some (JString (dc_value change))"
  by (simp_all add: record_body_def)

lemma create_record_ok:
  assumes "records_api api cf recs" "dc_zone_id change = Some z"
  obtains i s' where "create_record api cf change s = (Inr (), s')" "recs s z i = None"
    "recs s' = (recs s)(z := (recs s z)(i \<mapsto>
       (dc_record_type change, normalize_record_name (dc_host change) (dc_zone_name change), dc_value change)))"
proof -
  have "creates_records api cf recs" using assms(1) by (simp add: records_api_def)
  with record_body_fields [of change] obtain i s' where
    "api_create api cf z (record_body change) s = (Reply 200 ''200 OK'' (Some ()), s')" "recs s z i = None"
    "recs s' = (recs s)(z := (recs s z)(i \<mapsto>
       (dc_record_type change, normalize_record_name (dc_host change) (dc_zone_name change), dc_value change)))"
    unfolding creates_records_def by blast
  with assms(2) that show thesis
    by (auto simp: create_record_def change_zone_id_def done_reply_def ensure_success_def)
qed

lemma find_record_id_ok:
  assumes "records_api api cf recs"
  shows "\<exists>x. find_record_id api cf z ty nm c s = Inr x \<and>
    (case x of None \<Rightarrow> \<forall>i. recs s z i \<noteq> Some (ty, nm, c) | Some i \<Rightarrow> recs s z i = Some (ty, nm, c))"
proof -
  have "finds_records api cf recs" using assms by (simp add: records_api_def)
  from this [unfolded finds_records_def, rule_format, of z ty nm "Some c" s] obtain ids where ids: "api_records api cf z ty nm (Some c) s = Reply 200 ''200 OK'' (Some ids)"
    "set ids = {i. recs s z i = Some (ty, nm, c)}"
    by auto
  show ?thesis
  proof (cases ids)
    case Nil
    with ids show ?thesis
      by (auto simp: find_record_id_def decoded_reply_def ensure_success_def)
  next
    case (Cons i rest)
    with ids(2) have "recs s z i = Some (ty, nm, c)" by (metis list.set_intros(1) mem_Collect_eq)
    with Cons ids(1) show ?thesis
      by (auto simp: find_record_id_def decoded_reply_def ensure_success_def)
  qed
qed

text \<open>
  Presenting a DNS-01 challenge and cleaning it up. Presenting succeeds and adds one TXT
  record with the value under the challenge's name; if no such record was there before, cleaning
  up afterwards succeeds and leaves the zones exactly as they were.
\<close>

theorem dns01_challenge_roundtrip:
  assumes "records_api api cf recs" "ac_zone_id challenge = Some z"
    and "name = normalize_record_name (ac_fqdn challenge) (ac_zone_name challenge)"
    and "\<forall>i. recs s z i \<noteq> Some (''TXT'', name, ac_value challenge)"
  shows "\<exists>s' i s''. present_dns01_challenge api cf challenge s = (Inr (), s') \<and>
    recs s' = (recs s)(z := (recs s z)(i \<mapsto> (''TXT'', name, ac_value challenge))) \<and>
    cleanup_dns01_challenge api cf challenge s' = (Inr (), s'') \<and> recs s'' = recs s"
proof -
  let ?c = "challenge_record challenge"
  have c: "dc_zone_id ?c = Some z" "dc_record_type ?c = ''TXT''" "dc_value ?c = ac_value challenge"
    "normalize_record_name (dc_host ?c) (dc_zone_name ?c) = name"
    using assms(2,3) by (simp_all add: challenge_record_def)
  from create_record_ok [OF assms(1) c(1), of s] obtain i s' where s':
    "create_record api cf ?c s = (Inr (), s')" "recs s z i = None"
    "recs s' = (recs s)(z := (recs s z)(i \<mapsto> (''TXT'', name, ac_value challenge)))"
    unfolding c by blast
  have only: "recs s' z j = Some (''TXT'', name, ac_value challenge) \<longleftrightarrow> j = i" for j
    using assms(4) s'(3) by simp
  from find_record_id_ok [OF assms(1), of z "''TXT''" name "ac_value challenge" s'] only
  have found: "find_record_id api cf z ''TXT'' name (ac_value challenge) s' = Inr (Some i)"
    by (auto split: option.splits)
  have "deletes_records api cf recs" using assms(1) by (simp add: records_api_def)
  moreover have "recs s' z i \<noteq> None" using only [of i] by auto
  ultimately obtain s'' where s'': "api_delete api cf z i s' = (Reply 200 ''200 OK'' (Some ()), s'')"
    "recs s'' = (recs s')(z := (recs s' z)(i := None))"
    unfolding deletes_records_def by blast
  have "cleanup_dns01_challenge api cf challenge s' = (Inr (), s'')"
    using s''(1) found
    by (simp add: cleanup_dns01_challenge_def delete_record_def change_zone_id_def c delete_record_internal_def
        done_reply_def ensure_success_def)
  moreover have "recs s'' = recs s" using s''(2) s'(2,3) by (auto simp: fun_eq_iff)
  ultimately show ?thesis using s' by (auto simp: present_dns01_challenge_def)
qed

text \<open>A concrete API: an association list of records.\<close>

type_synonym record_table = "((string \<times> string) \<times> (string \<times> string \<times> string)) list"

definition table_records :: "record_table \<Rightarrow> string \<Rightarrow> string \<Rightarrow> (string \<times> string \<times> string) option" where
  "table_records s z i = map_of s (z, i)"

definition fresh_id :: "record_table \<Rightarrow> string" where
  "fresh_id s = replicate (Suc (sum_list (map (\<lambda>r. length (snd (fst r))) s))) (CHR ''x'')"

definition table_api :: "record_table cloudflare_api" where
  "table_api = \<lparr>
     api_zones = (\<lambda>cf name s. Reply 200 ''200 OK'' (Some [])),
     api_records = (\<lambda>cf z ty nm c s. Reply 200 ''200 OK'' (Some (map (\<lambda>r. snd (fst r)) (filter (\<lambda>r. fst (fst r) = z \<and>
       (case map_of s (fst r) of None \<Rightarrow> False
        | Some (ty', nm', c') \<Rightarrow> ty' = ty \<and> nm' = nm \<and> (c = None \<or> c = Some c'))) s)))),
     api_create = (\<lambda>cf z body s. (Reply 200 ''200 OK'' (Some ()),
       ((z, fresh_id s), (unwrap_or [] (Option.bind (json_get body ''type'') as_str),
          unwrap_or [] (Option.bind (json_get body ''name'') as_str),
          unwrap_or [] (Option.bind (json_get body ''content'') as_str))) # s)),
     api_update = (\<lambda>cf z i body s. (SendError, s)),
     api_delete = (\<lambda>cf z i s. (Reply 200 ''200 OK'' (Some ()), AList.delete (z, i) s))\<rparr>"

lemma fresh_id_fresh: "map_of s (z, fresh_id s) = None"
proof -
  have "length (snd (fst r)) < length (fresh_id s)" if "r \<in> set s" for r
    using that member_le_sum_list [of "length (snd (fst r))" "map (\<lambda>r. length (snd (fst r))) s"]
    by (simp add: fresh_id_def)
  then have "(z, fresh_id s) \<notin> fst ` set s" by (metis imageE less_irrefl snd_conv)
  then show ?thesis by (simp add: map_of_eq_None_iff)
qed

lemma table_query:
  assumes "\<not> P None"
  shows "set (map (\<lambda>r. snd (fst r)) (filter (\<lambda>r. fst (fst r) = z \<and> P (map_of s (fst r))) s)) = {i. P (map_of s (z, i))}"
proof (rule set_eqI, rule iffI)
  fix i assume "i \<in> {i. P (map_of s (z, i))}"
  with assms obtain x where "map_of s (z, i) = Some x" "P (Some x)" by (cases "map_of s (z, i)") auto
  then show "i \<in> set (map (\<lambda>r. snd (fst r)) (filter (\<lambda>r. fst (fst r) = z \<and> P (map_of s (fst r))) s))"
    by (force dest: map_of_SomeD)
qed auto

lemma table_api_records_api: "records_api table_api cf table_records"
proof -
  have "finds_records table_api cf table_records"
    unfolding finds_records_def
  proof (intro allI)
    fix s :: record_table and z ty nm c
    let ?P = "\<lambda>x :: (string \<times> string \<times> string) option. case x of None \<Rightarrow> False | Some (ty', nm', c') \<Rightarrow> ty' = ty \<and> nm' = nm \<and> (c = None \<or> c = Some c')"
    have "{i. ?P (map_of s (z, i))} = {i. \<exists>c'. map_of s (z, i) = Some (ty, nm, c') \<and> (c = None \<or> c = Some c')}"
      by (auto split: option.splits)
    with table_query [of ?P z s]
    show "\<exists>ids. api_records table_api cf z ty nm c s = Reply 200 ''200 OK'' (Some ids) \<and>
        set ids = {i. \<exists>c'. table_records s z i = Some (ty, nm, c') \<and> (c = None \<or> c = Some c')}"
      by (simp add: table_api_def table_records_def)
  qed
  moreover have "creates_records table_api cf table_records"
    unfolding creates_records_def
  proof (intro allI impI)
    fix s z body ty nm c
    assume "json_get body ''type'' = Some (JString ty)" "json_get body ''name'' = Some (JString nm)"
      "json_get body ''content'' = Some (JString c)"
    then show "\<exists>i s'. api_create table_api cf z body s = (Reply 200 ''200 OK'' (Some ()), s') \<and>
        table_records s z i = None \<and> table_records s' = (table_records s)(z := (table_records s z)(i \<mapsto> (ty, nm, c)))"
      by (intro exI [of _ "fresh_id s"]) (auto simp: table_api_def table_records_def fresh_id_fresh fun_eq_iff)
  qed
  moreover have "deletes_records table_api cf table_records"
    by (auto simp: deletes_records_def table_api_def table_records_def fun_eq_iff delete_conv')
  ultimately show ?thesis by (simp add: records_api_def)
qed

text \<open>
  What the worker of failovers relies on: a request to create a record either adds the record of its body under a
  new identifier, or changes nothing and is not answered with success (it may have been refused, or lost).
\<close>

definition create_adds_record :: "'s cloudflare_api \<Rightarrow> cloudflare_config \<Rightarrow> 's record_view \<Rightarrow> bool" where
  "create_adds_record api cf recs \<longleftrightarrow>
     (\<forall>s z body reply s'. api_create api cf z body s = (reply, s') \<longrightarrow>
        (\<exists>i ty nm c. json_get body ''type'' = Some (JString ty) \<and> json_get body ''name'' = Some (JString nm) \<and>
           json_get body ''content'' = Some (JString c) \<and> recs s z i = None \<and>
           recs s' = (recs s)(z := (recs s z)(i \<mapsto> (ty, nm, c)))) \<or>
        recs s' = recs s \<and> (\<forall>status text content. reply = Reply status text content \<longrightarrow> \<not> (200 \<le> status \<and> status < 300)))"

text \<open>An API with the records of a table that refuses a record it already has, and a body it cannot read.\<close>

definition strict_api :: "record_table cloudflare_api" where
  "strict_api = table_api\<lparr>api_create := \<lambda>cf z body s.
     (case (json_get body ''type'', json_get body ''name'', json_get body ''content'') of
        (Some (JString ty), Some (JString nm), Some (JString c)) \<Rightarrow>
          if list_ex (\<lambda>r. fst (fst r) = z \<and> snd r = (ty, nm, c)) s then (Reply 400 ''400 Bad Request'' None, s)
          else (Reply 200 ''200 OK'' (Some ()), ((z, fresh_id s), (ty, nm, c)) # s)
      | _ \<Rightarrow> (Reply 400 ''400 Bad Request'' None, s))\<rparr>"

lemma strict_api_adds: "create_adds_record strict_api cf table_records"
  unfolding create_adds_record_def strict_api_def
  by (auto simp: table_records_def fun_eq_iff fresh_id_fresh split: option.splits json.splits if_splits)

definition sample_cf :: cloudflare_config where
  "sample_cf = \<lparr>cf_api_token = ''t'', cf_api_base = ''https://api''\<rparr>"

definition sample_challenge :: acme_challenge where
  "sample_challenge = \<lparr>ac_zone_id = Some ''z1'', ac_zone_name = ''example.com'',
     ac_fqdn = ''_acme-challenge.example.com'', ac_value = ''v'', ac_ttl = 60\<rparr>"

theorem dns01_challenge_roundtrip_witness:
  "\<exists>s' s''. present_dns01_challenge table_api sample_cf sample_challenge [] = (Inr (), s') \<and>
     cleanup_dns01_challenge table_api sample_cf sample_challenge s' = (Inr (), s'') \<and>
     table_records s'' = table_records []"
proof -
  have "ac_zone_id sample_challenge = Some ''z1''" by (simp add: sample_challenge_def)
  from dns01_challenge_roundtrip [OF table_api_records_api this refl, of "[]" sample_cf] show ?thesis
    by (auto simp: table_records_def)
qed

end
