(* ===== verification/Hub_Dns.thy ===== *)
theory Hub_Dns
  imports Hub_State Dns_Provider
begin

text \<open>
  DNS providers and zones (\<open>HubService::create_dns_provider\<close> to \<open>delete_dns_zone\<close>). The
  answers of the Cloudflare API to the zone queries of one call are an argument of
  \<open>sync_dns_zones\<close>.
\<close>

subsection \<open>Operations\<close>

definition validate_dns_provider_type :: "string \<Rightarrow> unit api_result" where
  "validate_dns_provider_type provider_type =
     (if provider_type \<in> {''cloudflare'', ''alidns'', ''route53'', ''dnspod'', ''custom'', ''noop''} then Inr ()
      else Inl (bad_request ''unsupported dns provider type''))"

definition provider_config_from_record :: "runtime \<Rightarrow> dns_provider_record \<Rightarrow> provider_config api_result" where
  "provider_config_from_record e record =
     (case env_json_parse e (dp_credential_encrypted record) of
        Inl error \<Rightarrow> Inl (internal error)
      | Inr credentials \<Rightarrow> Inr
          \<lparr>pf_provider_type = dp_provider_type record, pf_api_endpoint = dp_api_endpoint record,
           pf_credentials = credentials\<rparr>)"

definition create_dns_provider ::
  "runtime \<Rightarrow> create_dns_provider_request \<Rightarrow> hub \<Rightarrow> create_dns_provider_response hub_out" where
  "create_dns_provider e request h =
     try_ok (validate_dns_provider_type (dpq_provider_type request)) h (\<lambda>_.
       if repo_dns_provider_by_name (hub_repo h) (dpq_name request) \<noteq> None
       then (Inl (conflict ''dns provider name already exists''), h)
       else
         let provider = \<lparr>dp_provider_id = env_uuid e 0, dp_name = dpq_name request,
               dp_provider_type = dpq_provider_type request, dp_api_endpoint = dpq_api_endpoint request,
               dp_credential_encrypted = env_json_text e (dpq_credentials request),
               dp_status = ''active'', dp_created_at = env_now e 0\<rparr>
         in (Inr \<lparr>dpr_provider_id = dp_provider_id provider, dpr_name = dp_name provider,
                  dpr_status = dp_status provider\<rparr>,
             with_repo (repo_save_dns_provider provider) h))"

definition update_dns_provider ::
  "runtime \<Rightarrow> uuid \<Rightarrow> create_dns_provider_request \<Rightarrow> hub \<Rightarrow> create_dns_provider_response hub_out" where
  "update_dns_provider e provider_id request h =
     try_ok (validate_dns_provider_type (dpq_provider_type request)) h (\<lambda>_.
     try_ok (ok_or (not_found ''dns provider not found'') (repo_dns_provider (hub_repo h) provider_id)) h (\<lambda>existing.
       let duplicated = repo_dns_provider_by_name (hub_repo h) (dpq_name request)
       in if unwrap_or False (map_option (\<lambda>provider. dp_provider_id provider \<noteq> provider_id) duplicated)
          then (Inl (conflict ''dns provider name already exists''), h)
          else
            let provider = \<lparr>dp_provider_id = provider_id, dp_name = dpq_name request,
                  dp_provider_type = dpq_provider_type request, dp_api_endpoint = dpq_api_endpoint request,
                  dp_credential_encrypted = env_json_text e (dpq_credentials request),
                  dp_status = dp_status existing, dp_created_at = dp_created_at existing\<rparr>
            in (Inr \<lparr>dpr_provider_id = provider_id, dpr_name = dp_name provider, dpr_status = dp_status provider\<rparr>,
                with_repo (repo_save_dns_provider provider) h)))"

definition delete_dns_provider :: "uuid \<Rightarrow> hub \<Rightarrow> delete_dns_provider_response hub_out" where
  "delete_dns_provider provider_id h =
     try_ok (ok_or (not_found ''dns provider not found'') (repo_dns_provider (hub_repo h) provider_id)) h (\<lambda>provider.
       if list_ex (\<lambda>zone. dz_provider_id zone = provider_id) (repo_list_dns_zones (hub_repo h))
       then (Inl (conflict ''dns provider still owns synced zones; delete or disable those zones first''), h)
       else (Inr \<lparr>ddp_provider_id = provider_id, ddp_name = dp_name provider, ddp_deleted = True\<rparr>,
             with_repo (repo_delete_dns_provider provider_id) h))"

definition dns_provider_overview_of :: "dns_provider_record \<Rightarrow> dns_provider_overview" where
  "dns_provider_overview_of provider =
     \<lparr>dpo_provider_id = dp_provider_id provider, dpo_name = dp_name provider,
      dpo_provider_type = dp_provider_type provider, dpo_api_endpoint = dp_api_endpoint provider,
      dpo_status = dp_status provider, dpo_created_at = dp_created_at provider\<rparr>"

definition list_dns_providers :: "hub \<Rightarrow> dns_provider_overview list api_result" where
  "list_dns_providers h =
     Inr (sort_key dpo_name (map dns_provider_overview_of (repo_list_dns_providers (hub_repo h))))"

text \<open>
  The loop of \<open>sync_dns_zones\<close>: a zone the provider already has under that name keeps its
  identifier, another one draws the next.
\<close>

definition synced_zone :: "runtime \<Rightarrow> uuid \<Rightarrow> nat \<Rightarrow> nat \<Rightarrow> provider_zone \<Rightarrow> hub \<Rightarrow> dns_zone_record" where
  "synced_zone e provider_id clock drawn_ids zone_info h =
     \<lparr>dz_zone_id = unwrap_or (env_uuid e drawn_ids) (map_option dz_zone_id
        (repo_dns_zone_by_provider_name (hub_repo h) provider_id (pz_zone_name zone_info))),
      dz_provider_id = provider_id, dz_zone_name = pz_zone_name zone_info,
      dz_external_zone_id = pz_zone_id zone_info, dz_status = pz_status zone_info,
      dz_created_at = env_now e clock\<rparr>"

fun save_synced_zones ::
  "runtime \<Rightarrow> uuid \<Rightarrow> nat \<Rightarrow> nat \<Rightarrow> provider_zone list \<Rightarrow> uuid list \<Rightarrow> hub \<Rightarrow> uuid list \<times> hub" where
  "save_synced_zones e provider_id clock drawn_ids [] zone_ids h = (zone_ids, h)"
| "save_synced_zones e provider_id clock drawn_ids (zone_info # zone_infos) zone_ids h =
     (let existing_zone = repo_dns_zone_by_provider_name (hub_repo h) provider_id (pz_zone_name zone_info);
          zone = synced_zone e provider_id clock drawn_ids zone_info h
      in save_synced_zones e provider_id (Suc clock)
           (if existing_zone = None then Suc drawn_ids else drawn_ids) zone_infos
           (zone_ids @ [dz_zone_id zone]) (with_repo (repo_save_dns_zone zone) h))"

definition sync_dns_zones ::
  "runtime \<Rightarrow> (cloudflare_config \<Rightarrow> string option \<Rightarrow> provider_zone list http_reply) \<Rightarrow>
   sync_dns_zones_request \<Rightarrow> hub \<Rightarrow> sync_dns_zones_response hub_out" where
  "sync_dns_zones e cloudflare_zones request h =
     (if szq_zone_names request = [] then (Inl (bad_request ''zone_names must not be empty''), h)
      else
        try_ok (ok_or (not_found ''dns provider not found'')
            (repo_dns_provider (hub_repo h) (szq_provider_id request))) h (\<lambda>provider.
        try_ok (provider_config_from_record e provider) h (\<lambda>provider_config.
        try_ok (case result_bind (build_provider provider_config)
                    (\<lambda>client. list_zones client cloudflare_zones (szq_zone_names request)) of
                  Inl error \<Rightarrow> Inl (bad_request error)
                | Inr zone_infos \<Rightarrow> Inr zone_infos) h (\<lambda>zone_infos.
          if zone_infos = [] then (Inl (not_found ''no dns zones found from provider''), h)
          else
            let (zone_ids, h) = save_synced_zones e (szq_provider_id request) 0 0 zone_infos [] h
            in (Inr \<lparr>szr_provider_id = szq_provider_id request, szr_zone_ids = zone_ids\<rparr>, h)))))"

definition dns_zone_overview_of :: "dns_zone_record \<Rightarrow> dns_zone_overview" where
  "dns_zone_overview_of zone =
     \<lparr>dzo_zone_id = dz_zone_id zone, dzo_provider_id = dz_provider_id zone,
      dzo_zone_name = dz_zone_name zone, dzo_status = dz_status zone, dzo_created_at = dz_created_at zone\<rparr>"

definition list_dns_zones :: "hub \<Rightarrow> dns_zone_overview list api_result" where
  "list_dns_zones h = Inr (sort_key dzo_zone_name (map dns_zone_overview_of (repo_list_dns_zones (hub_repo h))))"

definition update_dns_zone_status :: "uuid \<Rightarrow> bool \<Rightarrow> hub \<Rightarrow> update_dns_zone_status_response hub_out" where
  "update_dns_zone_status zone_id enabled h =
     try_ok (ok_or (not_found ''dns zone not found'') (repo_dns_zone (hub_repo h) zone_id)) h (\<lambda>zone.
       let zone = zone\<lparr>dz_status := if enabled then ''active'' else ''disabled''\<rparr>
       in (Inr \<lparr>uzr_zone_id = zone_id, uzr_zone_name = dz_zone_name zone, uzr_status = dz_status zone\<rparr>,
           with_repo (repo_save_dns_zone zone) h))"

definition delete_dns_zone :: "uuid \<Rightarrow> hub \<Rightarrow> delete_dns_zone_response hub_out" where
  "delete_dns_zone zone_id h =
     try_ok (ok_or (not_found ''dns zone not found'') (repo_dns_zone (hub_repo h) zone_id)) h (\<lambda>zone.
       if list_ex (\<lambda>order. co_zone_id order = zone_id) (repo_list_certificate_orders (hub_repo h))
       then (Inl (conflict ''dns zone is still referenced by certificate orders''), h)
       else (Inr \<lparr>dzr_zone_id = zone_id, dzr_zone_name = dz_zone_name zone, dzr_deleted = True\<rparr>,
             with_repo (repo_delete_dns_zone zone_id) h))"

subsection \<open>The invariant\<close>

text \<open>
  Providers are found under their name (the index may also hold names no provider has any more);
  a zone belongs to an existing provider, which has no other zone of the same name; the zone of
  a certificate order exists.
\<close>

definition provider_inv :: "memory_state \<Rightarrow> bool" where
  "provider_inv s \<longleftrightarrow> hm_wf (dns_providers s) \<and>
     index_fwd (dns_providers s) (dns_provider_ids_by_name s) dp_name dp_provider_id"

definition zone_inv :: "memory_state \<Rightarrow> bool" where
  "zone_inv s \<longleftrightarrow> hm_wf (dns_zones s) \<and>
     (\<forall>i z. hm_get (dns_zones s) i = Some z \<longrightarrow> dz_zone_id z = i \<and> hm_get (dns_providers s) (dz_provider_id z) \<noteq> None) \<and>
     (\<forall>i z j z'. hm_get (dns_zones s) i = Some z \<longrightarrow> hm_get (dns_zones s) j = Some z' \<longrightarrow>
        dz_provider_id z = dz_provider_id z' \<longrightarrow> dz_zone_name z = dz_zone_name z' \<longrightarrow> i = j)"

definition order_zone_inv :: "memory_state \<Rightarrow> bool" where
  "order_zone_inv s \<longleftrightarrow> hm_wf (certificate_orders s) \<and>
     (\<forall>i order. hm_get (certificate_orders s) i = Some order \<longrightarrow>
        co_order_id order = i \<and> hm_get (dns_zones s) (co_zone_id order) \<noteq> None)"

definition dns_inv :: "memory_state \<Rightarrow> bool" where
  "dns_inv s \<longleftrightarrow> provider_inv s \<and> zone_inv s \<and> order_zone_inv s"

lemmas dns_inv_defs = dns_inv_def provider_inv_def zone_inv_def order_zone_inv_def

lemma dns_inv_empty: "dns_inv empty_memory_state"
  by (simp add: dns_inv_defs empty_memory_state_def index_fwd_def)

lemma dns_inv_cong:
  "dns_providers s' = dns_providers s \<Longrightarrow> dns_provider_ids_by_name s' = dns_provider_ids_by_name s \<Longrightarrow>
   dns_zones s' = dns_zones s \<Longrightarrow> certificate_orders s' = certificate_orders s \<Longrightarrow> dns_inv s' = dns_inv s"
  by (simp add: dns_inv_defs)

lemma zone_inv_save:
  assumes "zone_inv s" "hm_get (dns_providers s) (dz_provider_id zone) \<noteq> None"
    and "\<And>j z. hm_get (dns_zones s) j = Some z \<Longrightarrow> dz_provider_id z = dz_provider_id zone \<Longrightarrow>
      dz_zone_name z = dz_zone_name zone \<Longrightarrow> j = dz_zone_id zone"
  shows "zone_inv (repo_save_dns_zone zone s)"
proof -
  let ?z = "hm_get (dns_zones (repo_save_dns_zone zone s))"
  have upd: "?z = (hm_get (dns_zones s))(dz_zone_id zone \<mapsto> zone)"
    by (simp add: repo_save_dns_zone_def fun_eq_iff)
  have old: "?z k = Some w \<Longrightarrow> k \<noteq> dz_zone_id zone \<Longrightarrow> hm_get (dns_zones s) k = Some w"
    and new: "?z (dz_zone_id zone) = Some w \<Longrightarrow> w = zone" for k w
    by (simp_all add: upd)
  have "i = j" if z: "?z i = Some z" "?z j = Some z'" "dz_provider_id z = dz_provider_id z'"
    "dz_zone_name z = dz_zone_name z'" for i z j z'
  proof -
    have one: "k = dz_zone_id zone" if "?z k = Some w" "dz_provider_id w = dz_provider_id zone"
      "dz_zone_name w = dz_zone_name zone" for k w
      using assms(3) old that by blast
    consider "i = dz_zone_id zone" | "j = dz_zone_id zone" | "i \<noteq> dz_zone_id zone" "j \<noteq> dz_zone_id zone" by blast
    then show ?thesis
    proof cases
      case 1
      with z new have "z = zone" by blast
      with 1 z one show ?thesis by metis
    next
      case 2
      with z new have "z' = zone" by blast
      with 2 z one show ?thesis by metis
    next
      case 3
      with z old assms(1) show ?thesis unfolding zone_inv_def by blast
    qed
  qed
  moreover have "dz_zone_id z = i \<and> hm_get (dns_providers s) (dz_provider_id z) \<noteq> None" if "?z i = Some z" for i z
    using that assms(1,2) unfolding upd zone_inv_def by (auto split: if_splits)
  moreover have "hm_wf (dns_zones (repo_save_dns_zone zone s))"
    using assms(1) by (simp add: zone_inv_def repo_save_dns_zone_def)
  moreover have "dns_providers (repo_save_dns_zone zone s) = dns_providers s"
    by (simp add: repo_save_dns_zone_def)
  ultimately show ?thesis unfolding zone_inv_def by metis
qed

lemma order_zone_inv_save_zone: "order_zone_inv s \<Longrightarrow> order_zone_inv (repo_save_dns_zone zone s)"
  by (simp add: order_zone_inv_def repo_save_dns_zone_def)

lemma provider_inv_save_zone: "provider_inv (repo_save_dns_zone zone s) = provider_inv s"
  by (simp add: provider_inv_def repo_save_dns_zone_def)

text \<open>Saving a provider after the check of its name.\<close>

lemma dns_inv_save_provider:
  assumes "dns_inv s"
    and "\<And>i r. hm_get (dns_provider_ids_by_name s) (dp_name provider) = Some i \<Longrightarrow>
      hm_get (dns_providers s) i = Some r \<Longrightarrow> i = dp_provider_id provider"
  shows "dns_inv (repo_save_dns_provider provider s)"
proof -
  have "provider_inv (repo_save_dns_provider provider s)"
    using assms unfolding dns_inv_def provider_inv_def
    by (auto intro!: provider_tab.save_fwd_checked provider_tab.save_wf)
  with assms(1) show ?thesis
    by (auto simp: dns_inv_def zone_inv_def order_zone_inv_def repo_save_dns_provider_def)
qed

lemma create_dns_provider_inv:
  assumes "dns_inv (hub_repo h)" "create_dns_provider e request h = (r, h')"
  shows "dns_inv (hub_repo h')"
  using assms
  by (auto simp: create_dns_provider_def Let_def try_ok_def repo_dns_provider_by_name_def
      split: sum.splits if_splits option.splits intro!: dns_inv_save_provider)

lemma update_dns_provider_inv:
  assumes "dns_inv (hub_repo h)" "update_dns_provider e i request h = (r, h')"
  shows "dns_inv (hub_repo h')"
proof (cases "h' = h")
  case False
  with assms(2) obtain existing where "repo_dns_provider (hub_repo h) i = Some existing"
    by (cases "repo_dns_provider (hub_repo h) i") (auto simp: update_dns_provider_def try_ok_def split: sum.splits)
  with False assms(2) have h': "hub_repo h' = repo_save_dns_provider
      \<lparr>dp_provider_id = i, dp_name = dpq_name request, dp_provider_type = dpq_provider_type request,
       dp_api_endpoint = dpq_api_endpoint request, dp_credential_encrypted = env_json_text e (dpq_credentials request),
       dp_status = dp_status existing, dp_created_at = dp_created_at existing\<rparr> (hub_repo h)"
    by (auto simp: update_dns_provider_def Let_def try_ok_def split: sum.splits if_splits)
  have dup: "\<And>p. repo_dns_provider_by_name (hub_repo h) (dpq_name request) = Some p \<Longrightarrow> dp_provider_id p = i"
    using assms(2) False by (auto simp: update_dns_provider_def Let_def try_ok_def split: sum.splits if_splits)
  have "j = i" if "hm_get (dns_provider_ids_by_name (hub_repo h)) (dpq_name request) = Some j"
    "hm_get (dns_providers (hub_repo h)) j = Some p" for j p
  proof -
    from that dup have "dp_provider_id p = i" by (simp add: repo_dns_provider_by_name_def)
    with assms(1) that(2) show ?thesis by (auto simp: dns_inv_def provider_inv_def dest: index_fwdD)
  qed
  then show ?thesis unfolding h' using assms(1) by (auto intro!: dns_inv_save_provider)
qed (use assms(1) in simp)

lemma delete_dns_provider_inv:
  assumes "dns_inv (hub_repo h)" "delete_dns_provider i h = (r, h')"
  shows "dns_inv (hub_repo h')"
proof (cases "h' = h")
  case False
  with assms(2) have h': "hub_repo h' = repo_delete_dns_provider i (hub_repo h)"
    and none: "\<And>z. z \<in> set (hm_values (dns_zones (hub_repo h))) \<Longrightarrow> dz_provider_id z \<noteq> i"
    by (auto simp: delete_dns_provider_def try_ok_def repo_list_dns_zones_def list_ex_iff
        split: sum.splits if_splits)
  then have empty: "filter (\<lambda>zone. dz_provider_id zone = i) (hm_values (dns_zones (hub_repo h))) = []"
    by (auto simp: filter_empty_conv)
  have "provider_inv (hub_repo h')"
    using assms(1) unfolding h' dns_inv_def provider_inv_def
    by (intro conjI provider_tab.delete_fwd) (auto simp: repo_delete_dns_provider_def split: option.splits)
  moreover have "dns_zones (hub_repo h') = dns_zones (hub_repo h)"
    "certificate_orders (hub_repo h') = certificate_orders (hub_repo h)"
    by (simp_all add: h' repo_delete_dns_provider_def empty split: option.splits)
  moreover have "hm_get (dns_providers (hub_repo h')) j = (if j = i then None else hm_get (dns_providers (hub_repo h)) j)" for j
    unfolding h' by (rule provider_tab.tab_del)
  ultimately show ?thesis
    using assms(1) none [OF hm_get_in_values] by (auto simp: dns_inv_def zone_inv_def order_zone_inv_def)
qed (use assms(1) in simp)

lemma update_dns_zone_status_inv:
  assumes "dns_inv (hub_repo h)" "update_dns_zone_status i enabled h = (r, h')"
  shows "dns_inv (hub_repo h')"
proof (cases "hm_get (dns_zones (hub_repo h)) i")
  case (Some zone)
  let ?z = "zone\<lparr>dz_status := if enabled then ''active'' else ''disabled''\<rparr>"
  from Some assms(2) have h': "hub_repo h' = repo_save_dns_zone ?z (hub_repo h)"
    by (auto simp: update_dns_zone_status_def repo_dns_zone_def Let_def)
  have "dz_zone_id zone = i" using assms(1) Some by (auto simp: dns_inv_def zone_inv_def)
  then have "zone_inv (hub_repo h')"
    unfolding h' using assms(1) Some by (intro zone_inv_save) (auto simp: dns_inv_def zone_inv_def)
  with assms(1) show ?thesis
    by (simp add: h' dns_inv_def order_zone_inv_save_zone provider_inv_save_zone)
qed (use assms in \<open>simp add: update_dns_zone_status_def repo_dns_zone_def\<close>)

lemma delete_dns_zone_inv:
  assumes "dns_inv (hub_repo h)" "delete_dns_zone i h = (r, h')"
  shows "dns_inv (hub_repo h')"
proof (cases "h' = h")
  case False
  with assms(2) have h': "hub_repo h' = repo_delete_dns_zone i (hub_repo h)"
    and none: "\<And>order. order \<in> set (hm_values (certificate_orders (hub_repo h))) \<Longrightarrow> co_zone_id order \<noteq> i"
    by (auto simp: delete_dns_zone_def try_ok_def repo_list_certificate_orders_def list_ex_iff
        split: sum.splits if_splits)
  from assms(1) none [OF hm_get_in_values] show ?thesis
    by (auto simp: h' dns_inv_defs repo_delete_dns_zone_def)
qed (use assms(1) in simp)

subsection \<open>A renamed provider\<close>

text \<open>
  After a provider has been renamed its old name cannot be given to a new provider, although
  no provider carries it: the in-memory index still leads from the old name to the renamed one.
\<close>

theorem renamed_provider_name_taken:
  assumes "dns_inv (hub_repo h)" "repo_dns_provider (hub_repo h) i = Some provider"
    and "update_dns_provider e i request h = (Inr resp, h')" "dpq_name request \<noteq> dp_name provider"
    and "dpq_name request' = dp_name provider" "validate_dns_provider_type (dpq_provider_type request') = Inr ()"
  shows "(\<forall>p \<in> set (repo_list_dns_providers (hub_repo h')). dp_name p \<noteq> dp_name provider) \<and>
    create_dns_provider e' request' h' = (Inl (conflict ''dns provider name already exists''), h')"
proof -
  from assms(1,2) have idx: "hm_get (dns_provider_ids_by_name (hub_repo h)) (dp_name provider) = Some i"
    and fwd: "\<And>j p. hm_get (dns_providers (hub_repo h)) j = Some p \<Longrightarrow>
      hm_get (dns_provider_ids_by_name (hub_repo h)) (dp_name p) = Some j"
    and wf: "hm_wf (dns_providers (hub_repo h))"
    by (auto simp: dns_inv_def provider_inv_def repo_dns_provider_def dest: index_fwdD)
  from assms(2,3) obtain p where p: "hub_repo h' = repo_save_dns_provider p (hub_repo h)"
    "dp_provider_id p = i" "dp_name p = dpq_name request"
    by (auto simp: update_dns_provider_def outcome_iffs Let_def split: if_splits)
  have "dp_name q \<noteq> dp_name provider" if "q \<in> set (repo_list_dns_providers (hub_repo h'))" for q
  proof -
    from that wf obtain j where "hm_get (dns_providers (hub_repo h')) j = Some q"
      by (auto simp: repo_list_dns_providers_def p(1) repo_save_dns_provider_def hm_in_values)
    with p assms(4) idx fwd [of j q] show ?thesis
      by (auto simp: repo_save_dns_provider_def split: if_splits)
  qed
  moreover have "repo_dns_provider_by_name (hub_repo h') (dp_name provider) = Some p"
    using p idx assms(4) by (simp add: repo_dns_provider_by_name_def repo_save_dns_provider_def)
  ultimately show ?thesis using assms(5,6) by (simp add: create_dns_provider_def)
qed

definition sample_provider_request :: "string \<Rightarrow> create_dns_provider_request" where
  "sample_provider_request name = \<lparr>dpq_name = name, dpq_provider_type = ''noop'', dpq_api_endpoint = None,
     dpq_credentials = JObject []\<rparr>"

definition sample_provider_hub :: hub where
  "sample_provider_hub = snd (create_dns_provider (sample_env 1 0) (sample_provider_request ''a'') new_memory)"

lemma sample_provider_eval:
  "map_option dp_name (repo_dns_provider (hub_repo sample_provider_hub) 1) = Some ''a''"
  "fst (update_dns_provider (sample_env 2 0) 1 (sample_provider_request ''b'') sample_provider_hub) =
     Inr \<lparr>dpr_provider_id = 1, dpr_name = ''b'', dpr_status = ''active''\<rparr>"
  by code_simp+

lemma sample_provider_inv: "dns_inv (hub_repo sample_provider_hub)"
proof -
  have "dns_inv (hub_repo new_memory)"
    by (simp add: new_memory_def new_memory_with_cert_auto_renew_before_days_def dns_inv_empty)
  then show ?thesis
    by (rule create_dns_provider_inv) (simp add: sample_provider_hub_def, rule surjective_pairing)
qed

theorem renamed_provider_name_taken_witness:
  "\<exists>h'. (\<forall>p \<in> set (repo_list_dns_providers (hub_repo h')). dp_name p \<noteq> ''a'') \<and>
     create_dns_provider (sample_env 3 0) (sample_provider_request ''a'') h' =
       (Inl (conflict ''dns provider name already exists''), h')"
proof -
  from sample_provider_eval(1) obtain p where p: "repo_dns_provider (hub_repo sample_provider_hub) 1 = Some p" "dp_name p = ''a''"
    by auto
  have "dpq_name (sample_provider_request ''b'') \<noteq> dp_name p" "dpq_name (sample_provider_request ''a'') = dp_name p"
    "validate_dns_provider_type (dpq_provider_type (sample_provider_request ''a'')) = Inr ()"
    by (simp_all add: sample_provider_request_def p(2) validate_dns_provider_type_def)
  from renamed_provider_name_taken [OF sample_provider_inv p(1) fst_eq_pair [OF sample_provider_eval(2)] this]
  show ?thesis unfolding p(2) by blast
qed

subsection \<open>Synchronising zones\<close>

text \<open>The first \<open>n\<close> identifiers after the first \<open>d\<close> differ and are no key of the table.\<close>

definition fresh_ids :: "runtime \<Rightarrow> nat \<Rightarrow> nat \<Rightarrow> (uuid, 'v) hashmap \<Rightarrow> bool" where
  "fresh_ids e d n tab \<longleftrightarrow> inj_on (env_uuid e) {d..<d + n} \<and> (\<forall>i \<in> {d..<d + n}. hm_get tab (env_uuid e i) = None)"

definition zone_id_of :: "hub \<Rightarrow> uuid \<Rightarrow> string \<Rightarrow> uuid option" where
  "zone_id_of h provider_id name = map_option dz_zone_id (repo_dns_zone_by_provider_name (hub_repo h) provider_id name)"

lemma zone_id_of_iff:
  assumes "zone_inv (hub_repo h)"
  shows "zone_id_of h p name = Some i \<longleftrightarrow>
    (\<exists>z. hm_get (dns_zones (hub_repo h)) i = Some z \<and> dz_provider_id z = p \<and> dz_zone_name z = name)"
proof
  assume "zone_id_of h p name = Some i"
  then obtain z where z: "z \<in> set (hm_values (dns_zones (hub_repo h)))" "dz_provider_id z = p" "dz_zone_name z = name"
    "dz_zone_id z = i"
    by (auto simp: zone_id_of_def repo_dns_zone_by_provider_name_def dest: find_Some_in)
  with assms show "\<exists>z. hm_get (dns_zones (hub_repo h)) i = Some z \<and> dz_provider_id z = p \<and> dz_zone_name z = name"
    by (auto simp: zone_inv_def hm_in_values)
next
  assume "\<exists>z. hm_get (dns_zones (hub_repo h)) i = Some z \<and> dz_provider_id z = p \<and> dz_zone_name z = name"
  then obtain z where z: "hm_get (dns_zones (hub_repo h)) i = Some z" "dz_provider_id z = p" "dz_zone_name z = name"
    by blast
  let ?f = "repo_dns_zone_by_provider_name (hub_repo h) p name"
  from z have "?f \<noteq> None"
    by (auto simp: repo_dns_zone_by_provider_name_def find_None_iff_all dest: hm_get_in_values)
  then obtain y where y: "?f = Some y" by blast
  then have "y \<in> set (hm_values (dns_zones (hub_repo h)))" "dz_provider_id y = p" "dz_zone_name y = name"
    by (auto simp: repo_dns_zone_by_provider_name_def dest: find_Some_in)
  moreover from this(1) assms have "hm_get (dns_zones (hub_repo h)) (dz_zone_id y) = Some y"
    by (auto simp: zone_inv_def hm_in_values)
  ultimately have "dz_zone_id y = i" using assms z unfolding zone_inv_def by blast
  with y show "zone_id_of h p name = Some i" by (simp add: zone_id_of_def)
qed

text \<open>One round of the loop.\<close>

lemma synced_zone_step:
  fixes e p c d zi h
  defines "zone \<equiv> synced_zone e p c d zi h"
  defines "h' \<equiv> with_repo (repo_save_dns_zone zone) h"
  assumes "zone_inv (hub_repo h)" "hm_get (dns_providers (hub_repo h)) p \<noteq> None"
    and "zone_id_of h p (pz_zone_name zi) = None \<Longrightarrow> hm_get (dns_zones (hub_repo h)) (env_uuid e d) = None"
  shows "zone_inv (hub_repo h')" "zone_id_of h' p (pz_zone_name zi) = Some (dz_zone_id zone)"
    "\<And>name i. zone_id_of h p name = Some i \<Longrightarrow> zone_id_of h' p name = Some i"
    "\<And>i z. hm_get (dns_zones (hub_repo h)) i = Some z \<Longrightarrow> i \<noteq> dz_zone_id zone \<Longrightarrow>
       hm_get (dns_zones (hub_repo h')) i = Some z"
proof -
  have fields: "dz_provider_id zone = p" "dz_zone_name zone = pz_zone_name zi"
    "dz_zone_id zone = unwrap_or (env_uuid e d) (zone_id_of h p (pz_zone_name zi))"
    by (simp_all add: zone_def synced_zone_def zone_id_of_def)
  have ident: "j = dz_zone_id zone" if "hm_get (dns_zones (hub_repo h)) j = Some z" "dz_provider_id z = p"
    "dz_zone_name z = pz_zone_name zi" for j z
  proof -
    from that have "zone_id_of h p (pz_zone_name zi) = Some j" unfolding zone_id_of_iff [OF assms(3)] by blast
    then show ?thesis by (simp add: fields)
  qed
  have own: "dz_provider_id z = p \<and> dz_zone_name z = pz_zone_name zi"
    if "hm_get (dns_zones (hub_repo h)) (dz_zone_id zone) = Some z" for z
  proof (cases "zone_id_of h p (pz_zone_name zi)")
    case None
    with that assms(5) show ?thesis by (simp add: fields)
  next
    case (Some i)
    with that show ?thesis using zone_id_of_iff [OF assms(3), of p "pz_zone_name zi" i] by (auto simp: fields)
  qed
  show inv: "zone_inv (hub_repo h')"
    unfolding h'_def with_repo_sel by (rule zone_inv_save) (use assms(3,4) ident in \<open>auto simp: fields\<close>)
  have get: "hm_get (dns_zones (hub_repo h')) = (hm_get (dns_zones (hub_repo h)))(dz_zone_id zone \<mapsto> zone)"
    by (simp add: h'_def repo_save_dns_zone_def fun_eq_iff)
  then show "zone_id_of h' p (pz_zone_name zi) = Some (dz_zone_id zone)"
    unfolding zone_id_of_iff [OF inv] by (simp add: fields)
  show "zone_id_of h' p name = Some i" if "zone_id_of h p name = Some i" for name i
  proof -
    from that obtain z where z: "hm_get (dns_zones (hub_repo h)) i = Some z" "dz_provider_id z = p" "dz_zone_name z = name"
      unfolding zone_id_of_iff [OF assms(3)] by blast
    show ?thesis unfolding zone_id_of_iff [OF inv] get
      using z own [of z] fields by (cases "i = dz_zone_id zone") auto
  qed
  show "hm_get (dns_zones (hub_repo h')) i = Some z" if "hm_get (dns_zones (hub_repo h)) i = Some z" "i \<noteq> dz_zone_id zone" for i z
    using that by (simp add: get)
qed

lemma fresh_ids_step:
  assumes "fresh_ids e d (Suc n) (dns_zones (hub_repo h))" "zone_inv (hub_repo h)"
  shows "fresh_ids e (if repo_dns_zone_by_provider_name (hub_repo h) p (pz_zone_name zi) = None then Suc d else d) n
    (dns_zones (hub_repo (with_repo (repo_save_dns_zone (synced_zone e p c d zi h)) h)))"
proof (cases "zone_id_of h p (pz_zone_name zi)")
  case None
  then have "repo_dns_zone_by_provider_name (hub_repo h) p (pz_zone_name zi) = None" by (simp add: zone_id_of_def)
  moreover have "env_uuid e i \<noteq> env_uuid e d" if "i \<in> {Suc d..<Suc d + n}" for i
    using assms(1) that unfolding fresh_ids_def inj_on_def by (metis Suc_leD add_Suc add_Suc_shift atLeastLessThan_iff less_add_Suc1 not_less_eq_eq)
  ultimately show ?thesis
    using assms(1) by (auto simp: fresh_ids_def repo_save_dns_zone_def synced_zone_def intro: inj_on_subset)
next
  case (Some j)
  then obtain z where z: "repo_dns_zone_by_provider_name (hub_repo h) p (pz_zone_name zi) = Some z" "dz_zone_id z = j"
    by (auto simp: zone_id_of_def)
  from Some have "hm_get (dns_zones (hub_repo h)) j \<noteq> None" using zone_id_of_iff [OF assms(2)] by fastforce
  with assms(1) have "env_uuid e i \<noteq> j" if "i \<in> {d..<d + n}" for i
    using that unfolding fresh_ids_def by (metis add_Suc_right atLeastLessThan_iff less_SucI)
  with assms(1) z show ?thesis
    by (auto simp: fresh_ids_def repo_save_dns_zone_def synced_zone_def intro: inj_on_subset)
qed

lemma save_synced_zones_spec:
  assumes "zone_inv (hub_repo h)" "hm_get (dns_providers (hub_repo h)) p \<noteq> None"
    and "fresh_ids e d (length infos) (dns_zones (hub_repo h))"
    and "save_synced_zones e p c d infos ids h = (ids', h')"
  shows "zone_inv (hub_repo h') \<and>
    ids' = ids @ map (\<lambda>zi. the (zone_id_of h' p (pz_zone_name zi))) infos \<and>
    (\<forall>zi \<in> set infos. zone_id_of h' p (pz_zone_name zi) \<noteq> None) \<and>
    (\<forall>name i. zone_id_of h p name = Some i \<longrightarrow> zone_id_of h' p name = Some i) \<and>
    (\<forall>i z. hm_get (dns_zones (hub_repo h)) i = Some z \<longrightarrow>
       hm_get (dns_zones (hub_repo h')) i = Some z \<or> i \<in> set ids') \<and>
    (\<forall>i. hm_get (dns_zones (hub_repo h')) i \<noteq> None \<longrightarrow> hm_get (dns_zones (hub_repo h)) i \<noteq> None \<or> i \<in> set ids') \<and>
    h' = h\<lparr>hub_repo := (hub_repo h)\<lparr>dns_zones := dns_zones (hub_repo h')\<rparr>\<rparr>"
  using assms
proof (induction infos arbitrary: c d ids h)
  case (Cons zi infos)
  let ?zone = "synced_zone e p c d zi h"
  let ?h = "with_repo (repo_save_dns_zone ?zone) h"
  let ?d = "if repo_dns_zone_by_provider_name (hub_repo h) p (pz_zone_name zi) = None then Suc d else d"
  have new: "hm_get (dns_zones (hub_repo h)) (env_uuid e d) = None"
    using Cons.prems(3) by (simp add: fresh_ids_def)
  note step = synced_zone_step [OF Cons.prems(1,2), where e = e and c = c and d = d and zi = zi, OF new]
  from Cons.prems(4) have run: "save_synced_zones e p (Suc c) ?d infos (ids @ [dz_zone_id ?zone]) ?h = (ids', h')"
    by (simp add: Let_def)
  have "hm_get (dns_providers (hub_repo ?h)) p \<noteq> None"
    using Cons.prems(2) by (simp add: repo_save_dns_zone_def)
  moreover have "fresh_ids e ?d (length infos) (dns_zones (hub_repo ?h))"
    by (rule fresh_ids_step) (use Cons.prems(1,3) in simp_all)
  ultimately have IH: "zone_inv (hub_repo h')"
    "ids' = (ids @ [dz_zone_id ?zone]) @ map (\<lambda>zi. the (zone_id_of h' p (pz_zone_name zi))) infos"
    "\<forall>zi \<in> set infos. zone_id_of h' p (pz_zone_name zi) \<noteq> None"
    "\<And>name i. zone_id_of ?h p name = Some i \<Longrightarrow> zone_id_of h' p name = Some i"
    "\<And>i z. hm_get (dns_zones (hub_repo ?h)) i = Some z \<Longrightarrow> hm_get (dns_zones (hub_repo h')) i = Some z \<or> i \<in> set ids'"
    "\<And>i. hm_get (dns_zones (hub_repo h')) i \<noteq> None \<Longrightarrow> hm_get (dns_zones (hub_repo ?h)) i \<noteq> None \<or> i \<in> set ids'"
    "h' = ?h\<lparr>hub_repo := (hub_repo ?h)\<lparr>dns_zones := dns_zones (hub_repo h')\<rparr>\<rparr>"
    using Cons.IH [OF step(1) _ _ run] by blast+
  have head: "zone_id_of h' p (pz_zone_name zi) = Some (dz_zone_id ?zone)"
    by (rule IH(4)) (rule step(2))
  have "h' = h\<lparr>hub_repo := (hub_repo h)\<lparr>dns_zones := dns_zones (hub_repo h')\<rparr>\<rparr>"
    using IH(7) by (simp add: with_repo_def repo_save_dns_zone_def)
  moreover have "hm_get (dns_zones (hub_repo h')) i = Some z \<or> i \<in> set ids'"
    if "hm_get (dns_zones (hub_repo h)) i = Some z" for i z
    using that step(4) IH(2,5) by (cases "i = dz_zone_id ?zone") auto
  moreover have "hm_get (dns_zones (hub_repo h)) i \<noteq> None \<or> i \<in> set ids'"
    if "hm_get (dns_zones (hub_repo h')) i \<noteq> None" for i
    using IH(6) [OF that] IH(2) by (cases "i = dz_zone_id ?zone") (auto simp: repo_save_dns_zone_def)
  ultimately show ?case using IH(1-4) step(3) head by auto
qed simp

text \<open>A successful call, by the zones the provider reported.\<close>

lemma sync_dns_zones_Inr:
  assumes "sync_dns_zones e cloudflare_zones request h = (Inr resp, h')"
  obtains provider config client infos where
    "szq_zone_names request \<noteq> []" "hm_get (dns_providers (hub_repo h)) (szq_provider_id request) = Some provider"
    "provider_config_from_record e provider = Inr config" "build_provider config = Inr client"
    "list_zones client cloudflare_zones (szq_zone_names request) = Inr infos" "infos \<noteq> []"
    "save_synced_zones e (szq_provider_id request) 0 0 infos [] h = (szr_zone_ids resp, h')"
    "szr_provider_id resp = szq_provider_id request"
  using assms
  by (auto simp: sync_dns_zones_def outcome_iffs repo_dns_provider_def result_bind_eq_Inr
      split: if_splits sum.splits prod.splits)

lemma save_synced_zones_length:
  "save_synced_zones e p c d infos ids h = (ids', h') \<Longrightarrow> length ids' = length ids + length infos"
  by (induction infos arbitrary: c d ids h) (auto simp: Let_def)

lemma sync_dns_zones_effect:
  assumes "dns_inv (hub_repo h)" "sync_dns_zones e get request h = (Inr resp, h')"
    "fresh_ids e 0 (length (szr_zone_ids resp)) (dns_zones (hub_repo h))"
  shows "dns_inv (hub_repo h')"
    "\<And>i. i \<in> set (szr_zone_ids resp) \<Longrightarrow> \<exists>z. hm_get (dns_zones (hub_repo h')) i = Some z \<and>
       dz_provider_id z = szq_provider_id request"
    "\<And>i z. hm_get (dns_zones (hub_repo h)) i = Some z \<Longrightarrow> i \<notin> set (szr_zone_ids resp) \<Longrightarrow>
       hm_get (dns_zones (hub_repo h')) i = Some z"
    "\<And>i. hm_get (dns_zones (hub_repo h')) i \<noteq> None \<Longrightarrow> hm_get (dns_zones (hub_repo h)) i = None \<Longrightarrow>
       i \<in> set (szr_zone_ids resp)"
proof -
  from assms(2) obtain infos provider where
    provider: "hm_get (dns_providers (hub_repo h)) (szq_provider_id request) = Some provider"
    and run: "save_synced_zones e (szq_provider_id request) 0 0 infos [] h = (szr_zone_ids resp, h')"
    by (rule sync_dns_zones_Inr)
  have len: "length (szr_zone_ids resp) = length infos" using save_synced_zones_length [OF run] by simp
  have spec: "zone_inv (hub_repo h')"
    "szr_zone_ids resp = map (\<lambda>zi. the (zone_id_of h' (szq_provider_id request) (pz_zone_name zi))) infos"
    "\<forall>zi \<in> set infos. zone_id_of h' (szq_provider_id request) (pz_zone_name zi) \<noteq> None"
    "\<And>i z. hm_get (dns_zones (hub_repo h)) i = Some z \<Longrightarrow>
       hm_get (dns_zones (hub_repo h')) i = Some z \<or> i \<in> set (szr_zone_ids resp)"
    "\<And>i. hm_get (dns_zones (hub_repo h')) i \<noteq> None \<Longrightarrow>
       hm_get (dns_zones (hub_repo h)) i \<noteq> None \<or> i \<in> set (szr_zone_ids resp)"
    "h' = h\<lparr>hub_repo := (hub_repo h)\<lparr>dns_zones := dns_zones (hub_repo h')\<rparr>\<rparr>"
    using save_synced_zones_spec [OF _ _ _ run, unfolded append_Nil] assms(1,3) provider
    unfolding dns_inv_def len by blast+
  show stored: "\<exists>z. hm_get (dns_zones (hub_repo h')) i = Some z \<and> dz_provider_id z = szq_provider_id request"
    if "i \<in> set (szr_zone_ids resp)" for i
    using that spec(2,3) zone_id_of_iff [OF spec(1)] by fastforce
  show "hm_get (dns_zones (hub_repo h')) i = Some z"
    if "hm_get (dns_zones (hub_repo h)) i = Some z" "i \<notin> set (szr_zone_ids resp)" for i z
    using that spec(4) by blast
  show "i \<in> set (szr_zone_ids resp)"
    if "hm_get (dns_zones (hub_repo h')) i \<noteq> None" "hm_get (dns_zones (hub_repo h)) i = None" for i
    using that spec(5) by blast
  have keep: "hm_get (dns_zones (hub_repo h')) i \<noteq> None" if "hm_get (dns_zones (hub_repo h)) i \<noteq> None" for i
    using that spec(4) stored by blast
  have same: "dns_providers (hub_repo h') = dns_providers (hub_repo h)"
    "dns_provider_ids_by_name (hub_repo h') = dns_provider_ids_by_name (hub_repo h)"
    "certificate_orders (hub_repo h') = certificate_orders (hub_repo h)"
    by (subst spec(6), simp)+
  show "dns_inv (hub_repo h')"
    using assms(1) spec(1) keep unfolding dns_inv_def provider_inv_def order_zone_inv_def same by metis
qed

text \<open>
  Synchronising zones. Every zone in the response is stored with the requested provider, no
  other zone is changed or added, the invariant is kept, and running the same request again
  (with the same answers of the provider) returns the same zones and adds none.
\<close>

theorem sync_dns_zones_idempotent:
  assumes "dns_inv (hub_repo h)" "sync_dns_zones e get request h = (Inr resp, h1)"
    and "fresh_ids e 0 (length (szr_zone_ids resp)) (dns_zones (hub_repo h))"
    and "env_json_parse e' = env_json_parse e"
    and "fresh_ids e' 0 (length (szr_zone_ids resp)) (dns_zones (hub_repo h1))"
  shows "dns_inv (hub_repo h1) \<and>
    (\<forall>i \<in> set (szr_zone_ids resp). \<exists>z. hm_get (dns_zones (hub_repo h1)) i = Some z \<and> dz_provider_id z = szq_provider_id request) \<and>
    (\<forall>i. i \<notin> set (szr_zone_ids resp) \<longrightarrow> hm_get (dns_zones (hub_repo h1)) i = hm_get (dns_zones (hub_repo h)) i) \<and>
    (\<exists>h2. sync_dns_zones e' get request h1 = (Inr resp, h2) \<and>
       (\<forall>i. hm_get (dns_zones (hub_repo h2)) i = None \<longleftrightarrow> hm_get (dns_zones (hub_repo h1)) i = None))"
proof -
  let ?p = "szq_provider_id request"
  note eff = sync_dns_zones_effect [OF assms(1-3)]
  from assms(2) obtain infos provider config client where
    s: "szq_zone_names request \<noteq> []" "hm_get (dns_providers (hub_repo h)) ?p = Some provider"
    "provider_config_from_record e provider = Inr config" "build_provider config = Inr client"
    "list_zones client get (szq_zone_names request) = Inr infos" "infos \<noteq> []"
    and run: "save_synced_zones e ?p 0 0 infos [] h = (szr_zone_ids resp, h1)"
    and resp: "szr_provider_id resp = ?p"
    by (rule sync_dns_zones_Inr)
  have len: "length (szr_zone_ids resp) = length infos" using save_synced_zones_length [OF run] by simp
  have first: "zone_inv (hub_repo h1)" "szr_zone_ids resp = map (\<lambda>zi. the (zone_id_of h1 ?p (pz_zone_name zi))) infos"
    "\<forall>zi \<in> set infos. zone_id_of h1 ?p (pz_zone_name zi) \<noteq> None"
    "h1 = h\<lparr>hub_repo := (hub_repo h)\<lparr>dns_zones := dns_zones (hub_repo h1)\<rparr>\<rparr>"
    using save_synced_zones_spec [OF _ _ _ run] assms(1,3) s(2) len unfolding dns_inv_def by simp_all
  have prov: "hm_get (dns_providers (hub_repo h1)) ?p = Some provider" by (subst first(4)) (simp add: s(2))
  obtain ids2 h2 where run2: "save_synced_zones e' ?p 0 0 infos [] h1 = (ids2, h2)" by (cases "save_synced_zones e' ?p 0 0 infos [] h1")
  from save_synced_zones_spec [OF first(1) _ _ run2] prov assms(5) len
  have second: "ids2 = map (\<lambda>zi. the (zone_id_of h2 ?p (pz_zone_name zi))) infos"
    "\<And>name i. zone_id_of h1 ?p name = Some i \<Longrightarrow> zone_id_of h2 ?p name = Some i"
    by simp_all
  have "zone_id_of h2 ?p (pz_zone_name zi) = zone_id_of h1 ?p (pz_zone_name zi)" if "zi \<in> set infos" for zi
    using first(3) second(2) that by fastforce
  then have ids: "ids2 = szr_zone_ids resp" unfolding second(1) first(2) by simp
  have "provider_config_from_record e' provider = Inr config"
    using s(3) assms(4) by (simp add: provider_config_from_record_def)
  with s prov run2 ids resp have again: "sync_dns_zones e' get request h1 = (Inr resp, h2)"
    by (simp add: sync_dns_zones_def repo_dns_provider_def)
  note eff2 = sync_dns_zones_effect [OF eff(1) again assms(5)]
  have "hm_get (dns_zones (hub_repo h2)) i = None \<longleftrightarrow> hm_get (dns_zones (hub_repo h1)) i = None" for i
    using eff(2) eff2(2-4) by (metis option.distinct(1) option.exhaust)
  moreover have "hm_get (dns_zones (hub_repo h1)) i = hm_get (dns_zones (hub_repo h)) i" if "i \<notin> set (szr_zone_ids resp)" for i
    using eff(3,4) that by (metis option.exhaust)
  ultimately show ?thesis using eff(1,2) again by blast
qed

definition sample_sync_request :: sync_dns_zones_request where
  "sample_sync_request = \<lparr>szq_provider_id = 1, szq_zone_names = [''example.com'', ''example.org'']\<rparr>"

definition sample_synced :: "sync_dns_zones_response hub_out" where
  "sample_synced = sync_dns_zones (sample_env 5 0) (\<lambda>_ _. SendError) sample_sync_request sample_provider_hub"

lemma fresh_ids_two:
  "fresh_ids e 0 (Suc (Suc 0)) tab \<longleftrightarrow>
     env_uuid e 0 \<noteq> env_uuid e 1 \<and> hm_get tab (env_uuid e 0) = None \<and> hm_get tab (env_uuid e 1) = None"
  by (auto simp: fresh_ids_def inj_on_def atLeast0_lessThan_Suc)

lemma sample_synced_eval:
  "fst sample_synced = Inr \<lparr>szr_provider_id = 1, szr_zone_ids = [5, 6]\<rparr>"
  "(\<lambda>e tab. env_uuid e 0 \<noteq> env_uuid e 1 \<and> hm_get tab (env_uuid e 0) = None \<and> hm_get tab (env_uuid e 1) = None)
     (sample_env 5 0) (dns_zones (hub_repo sample_provider_hub))"
  "(\<lambda>e tab. env_uuid e 0 \<noteq> env_uuid e 1 \<and> hm_get tab (env_uuid e 0) = None \<and> hm_get tab (env_uuid e 1) = None)
     (sample_env 20 0) (dns_zones (hub_repo (snd sample_synced)))"
  by code_simp+

theorem sync_dns_zones_idempotent_witness:
  "\<exists>h2. sync_dns_zones (sample_env 20 0) (\<lambda>_ _. SendError) sample_sync_request (snd sample_synced) =
     (Inr \<lparr>szr_provider_id = 1, szr_zone_ids = [5, 6]\<rparr>, h2)"
proof -
  let ?resp = "\<lparr>szr_provider_id = 1, szr_zone_ids = [5, 6]\<rparr> :: sync_dns_zones_response"
  have "fresh_ids (sample_env 5 0) 0 (length (szr_zone_ids ?resp)) (dns_zones (hub_repo sample_provider_hub))"
    "fresh_ids (sample_env 20 0) 0 (length (szr_zone_ids ?resp)) (dns_zones (hub_repo (snd sample_synced)))"
    using sample_synced_eval(2,3) by (simp_all add: fresh_ids_two)
  moreover have "env_json_parse (sample_env 20 0) = env_json_parse (sample_env 5 0)" by (simp add: sample_env_def)
  moreover have "sync_dns_zones (sample_env 5 0) (\<lambda>_ _. SendError) sample_sync_request sample_provider_hub =
      (Inr ?resp, snd sample_synced)"
    using fst_eq_pair [OF sample_synced_eval(1)] by (simp add: sample_synced_def)
  ultimately show ?thesis
    using sync_dns_zones_idempotent [OF sample_provider_inv] by blast
qed

end
