(* ===== verification/Hub_Releases.thy ===== *)
theory Hub_Releases
  imports Hub_State
begin

text \<open>
  Releases (\<open>HubService::create_release\<close> to \<open>ack_release\<close>): a release carries the compiled
  configuration of a site to the nodes the site is bound to, and a clean-up release to the nodes
  it was detached from; the nodes fetch the latest release addressed to them and acknowledge it.
\<close>

record saved_release =
  sv_release_id :: uuid
  sv_release_version :: string
  sv_config_hash :: string
  sv_target_node_ids :: "uuid list"

subsection \<open>Operations\<close>

definition pending_ack :: node_ack_record where
  "pending_ack = \<lparr>ak_apply_status = ''pending'', ak_current_version = None, ak_message = None, ak_acked_at = None\<rparr>"

definition build_release_ack_status :: "uuid list \<Rightarrow> (uuid, node_ack_record) hashmap" where
  "build_release_ack_status target_node_ids =
     fold (\<lambda>node_id ack_status. hm_insert node_id pending_ack ack_status) target_node_ids []"

definition save_compiled_release ::
  "runtime \<Rightarrow> string \<Rightarrow> uuid option \<Rightarrow> string \<Rightarrow> string \<Rightarrow> compiled_config_bundle \<Rightarrow> uuid list \<Rightarrow> hub \<Rightarrow>
   saved_release hub_out" where
  "save_compiled_release e scope_type scope_id release_type reason bundle target_node_ids h =
     (let release_id = rm_release_id (cb_manifest bundle);
          release_version = rm_release_version (cb_manifest bundle);
          config_hash = rm_config_hash (cb_manifest bundle);
          ack_status = build_release_ack_status target_node_ids;
          release = \<lparr>rl_release_id = release_id, rl_scope_type = scope_type, rl_scope_id = scope_id,
            rl_release_type = release_type, rl_release_version = release_version, rl_reason = reason,
            rl_status = aggregate_release_status ack_status, rl_bundle = bundle,
            rl_target_node_ids = target_node_ids, rl_ack_status = ack_status,
            rl_created_at = env_now e 0\<rparr>
      in (Inr \<lparr>sv_release_id = release_id, sv_release_version = release_version,
               sv_config_hash = config_hash, sv_target_node_ids = target_node_ids\<rparr>,
          with_repo (repo_save_release release) h))"

text \<open>\<open>fetch_add\<close> wraps around; the number is spent even if the release is not created.\<close>

definition next_serial :: "hub \<Rightarrow> u64 \<times> hub" where
  "next_serial h = (hub_release_counter h, h\<lparr>hub_release_counter := hub_release_counter h + 1\<rparr>)"

definition compiled :: "string + compiled_config_bundle \<Rightarrow> compiled_config_bundle api_result" where
  "compiled r = (case r of Inl error \<Rightarrow> Inl (internal error) | Inr bundle \<Rightarrow> Inr bundle)"

definition save_site_release :: "runtime \<Rightarrow> site_record \<Rightarrow> string \<Rightarrow> string \<Rightarrow> hub \<Rightarrow> saved_release hub_out" where
  "save_site_release e site release_type reason h =
     try_ok (validate_site_config (st_config site)) h (\<lambda>_.
       let (serial, h) = next_serial h;
           release_version = build_release_version (env_format_timestamp e) ''site'' (env_now e 0) serial;
           target_node_ids = map sb_node_id (st_bindings site);
           certificates = repo_site_certificates (hub_repo h) (st_id site);
           targets = map (\<lambda>binding. \<lparr>rt_node_id = sb_node_id binding, rt_site_ids = [st_id site],
               rt_preheated = (sb_binding_role binding = ''standby'')\<rparr>) (st_bindings site)
       in try_ok (compiled (compile_site_bundle (env_display_uuid e) (env_uuid e 0) (env_now e 1)
               (to_spec (env_unicode_lower e) site) certificates targets release_version)) h (\<lambda>bundle.
            save_compiled_release (env_after 2 1 e) ''site'' (Some (st_id site)) release_type reason bundle
              target_node_ids h))"

definition save_site_cleanup_release ::
  "runtime \<Rightarrow> site_record \<Rightarrow> uuid list \<Rightarrow> string \<Rightarrow> hub \<Rightarrow> saved_release hub_out" where
  "save_site_cleanup_release e site detached_node_ids reason h =
     (let (serial, h) = next_serial h;
          release_version = build_release_version (env_format_timestamp e) ''cleanup'' (env_now e 0) serial;
          targets = map (\<lambda>node_id. \<lparr>rt_node_id = node_id, rt_site_ids = [st_id site], rt_preheated = False\<rparr>)
            detached_node_ids
      in try_ok (compiled (compile_site_cleanup_bundle (env_display_uuid e) (env_uuid e 0) (env_now e 1)
              (to_spec (env_unicode_lower e) site) targets release_version)) h (\<lambda>bundle.
           save_compiled_release (env_after 2 1 e) ''site_cleanup'' (Some (st_id site)) ''cleanup''
             (''cleanup detached nodes for '' @ st_site_code site @ '': '' @ reason) bundle
             detached_node_ids h))"

definition previous_site_release :: "memory_state \<Rightarrow> uuid \<Rightarrow> release_record option" where
  "previous_site_release s site_id =
     max_by_key (\<lambda>release. (rl_created_at release, rl_release_version release))
       (filter (\<lambda>release. rl_scope_type release = ''site'' \<and> rl_scope_id release = Some site_id)
         (repo_list_releases s))"

definition detached_node_ids_for_site :: "memory_state \<Rightarrow> uuid \<Rightarrow> uuid list \<Rightarrow> uuid list" where
  "detached_node_ids_for_site s site_id current_target_node_ids =
     sort_dedup
       (case previous_site_release s site_id of
          None \<Rightarrow> []
        | Some release \<Rightarrow>
            filter (\<lambda>node_id. node_id \<notin> set current_target_node_ids) (rl_target_node_ids release))"

definition into_response :: "saved_release \<Rightarrow> create_release_response" where
  "into_response r = \<lparr>crr_release_id = sv_release_id r, crr_release_version = sv_release_version r,
     crr_config_hash = sv_config_hash r, crr_target_node_ids = sv_target_node_ids r\<rparr>"

text \<open>The two optional releases of \<open>create_release\<close>: nothing is saved for an empty list of nodes.\<close>

definition release_unless :: "bool \<Rightarrow> saved_release hub_out \<Rightarrow> hub \<Rightarrow> saved_release option hub_out" where
  "release_unless none saved h =
     (if none then (Inr None, h) else and_then saved (\<lambda>r h. (Inr (Some r), h)))"

definition finish_release ::
  "site_record \<Rightarrow> saved_release option \<Rightarrow> saved_release option \<Rightarrow> hub \<Rightarrow> create_release_response hub_out" where
  "finish_release site primary_release cleanup_release h =
     (let site = site\<lparr>st_status := if primary_release \<noteq> None then Published else Draft\<rparr>;
          h = with_repo (repo_save_site site) h
      in (case or_else primary_release cleanup_release of
            None \<Rightarrow> (Inl (internal ''release creation produced no artifacts''), h)
          | Some release \<Rightarrow> (Inr (into_response release), h)))"

definition create_release :: "runtime \<Rightarrow> create_release_request \<Rightarrow> hub \<Rightarrow> create_release_response hub_out" where
  "create_release e request h =
     (if crq_scope_type request \<noteq> ''site''
      then (Inl (bad_request ''only site scope is implemented in P0/P1''), h)
      else
        try_ok (ok_or (not_found ''site not found'') (repo_site (hub_repo h) (crq_scope_id request))) h (\<lambda>site.
          let target_node_ids = map sb_node_id (st_bindings site);
              detached_node_ids = detached_node_ids_for_site (hub_repo h) (st_id site) target_node_ids
          in if target_node_ids = [] \<and> detached_node_ids = []
             then (Inl (bad_request ''site has no node bindings''), h)
             else
               and_then (release_unless (target_node_ids = [])
                   (save_site_release e site (crq_release_type request) (crq_reason request) h) h)
                 (\<lambda>primary_release h.
               and_then (release_unless (detached_node_ids = [])
                   (save_site_cleanup_release
                     (if target_node_ids = [] then e else env_after 3 1 e)
                     site detached_node_ids (crq_reason request) h) h)
                 (\<lambda>cleanup_release h.
               finish_release site primary_release cleanup_release h))))"

definition count_ack :: "node_ack_record \<Rightarrow> release_status_counts \<Rightarrow> release_status_counts" where
  "count_ack ack counts =
     (if ak_apply_status ack = ''success'' then counts\<lparr>rsc_success := rsc_success counts + 1\<rparr>
      else if ak_apply_status ack = ''failed'' then counts\<lparr>rsc_failed := rsc_failed counts + 1\<rparr>
      else if ak_apply_status ack \<in> {''downloading'', ''applying''}
      then counts\<lparr>rsc_in_progress := rsc_in_progress counts + 1\<rparr>
      else counts\<lparr>rsc_pending := rsc_pending counts + 1\<rparr>)"

definition summarize_release_counts :: "(uuid, node_ack_record) hashmap \<Rightarrow> release_status_counts" where
  "summarize_release_counts ack_status =
     fold count_ack (hm_values ack_status)
       \<lparr>rsc_pending = 0, rsc_in_progress = 0, rsc_success = 0, rsc_failed = 0\<rparr>"

definition release_overview_of :: "release_record \<Rightarrow> release_overview" where
  "release_overview_of release =
     \<lparr>rov_release_id = rl_release_id release, rov_scope_type = rl_scope_type release,
      rov_scope_id = rl_scope_id release, rov_release_type = rl_release_type release,
      rov_release_version = rl_release_version release,
      rov_status = aggregate_release_status (rl_ack_status release), rov_reason = rl_reason release,
      rov_counts = summarize_release_counts (rl_ack_status release),
      rov_created_at = rl_created_at release\<rparr>"

definition list_releases :: "hub \<Rightarrow> release_overview list api_result" where
  "list_releases h =
     Inr (sort_key (\<lambda>r. - rov_created_at r) (map release_overview_of (repo_list_releases (hub_repo h))))"

definition latest_release_for_node :: "runtime \<Rightarrow> uuid \<Rightarrow> hub \<Rightarrow> latest_release_response api_result" where
  "latest_release_for_node e node_id h =
     result_bind (ok_or (not_found ''no release available for node'')
         (repo_latest_release_id_for_node (hub_repo h) node_id)) (\<lambda>release_id.
     result_bind (ok_or (not_found ''release not found'') (repo_release (hub_repo h) release_id)) (\<lambda>release.
       Inr \<lparr>lrr_release_id = release_id, lrr_release_version = rl_release_version release,
            lrr_config_hash = rm_config_hash (cb_manifest (rl_bundle release)),
            lrr_download_url = ''/api/node/config/package/'' @ rl_release_version release @ ''?node_id='' @
              env_display_uuid e node_id\<rparr>))"

definition config_package_for_node :: "runtime \<Rightarrow> uuid \<Rightarrow> string \<Rightarrow> hub \<Rightarrow> config_package_response api_result" where
  "config_package_for_node e node_id version h =
     result_bind (ok_or (not_found ''release version not found'')
         (repo_release_by_version (hub_repo h) version)) (\<lambda>release.
       if node_id \<notin> set (rl_target_node_ids release)
       then Inl (unauthorized ''node is not a target of this release'')
       else Inr \<lparr>cfr_release_id = rl_release_id release, cfr_release_version = rl_release_version release,
         cfr_manifest = release_manifest_json (env_display_uuid e) (env_rfc3339 e) (cb_manifest (rl_bundle release)),
         cfr_rendered_config = cb_rendered_config (rl_bundle release),
         cfr_certificates = JArray (map (certificate_json (env_display_uuid e) (env_rfc3339 e))
           (cb_certificates (rl_bundle release))),
         cfr_signature = cb_signature (rl_bundle release)\<rparr>)"

definition ack_release :: "runtime \<Rightarrow> uuid \<Rightarrow> release_ack_request \<Rightarrow> hub \<Rightarrow> release_ack_response hub_out" where
  "ack_release e release_id request h =
     try_ok (ok_or (not_found ''release not found'') (repo_release (hub_repo h) release_id)) h (\<lambda>release.
       if raq_node_id request \<notin> set (rl_target_node_ids release)
       then (Inl (unauthorized ''node is not a target of this release''), h)
       else
         let ack = \<lparr>ak_apply_status = raq_apply_status request,
               ak_current_version = Some (raq_current_version request),
               ak_message = raq_message request, ak_acked_at = Some (env_now e 0)\<rparr>;
             h = with_repo (repo_update_release_ack release_id (raq_node_id request) ack) h;
             h = (case repo_node (hub_repo h) (raq_node_id request) of
                    None \<Rightarrow> h
                  | Some node \<Rightarrow>
                      with_repo (repo_save_node (node\<lparr>nd_runtime :=
                        (nd_runtime node)\<lparr>nr_active_config_version := Some (raq_current_version request),
                          nr_last_seen_at := Some (env_now e 1)\<rparr>\<rparr>)) h)
         in (Inr \<lparr>rar_release_id = release_id, rar_node_id = raq_node_id request,
                  rar_apply_status = raq_apply_status request\<rparr>, h))"

subsection \<open>The invariant\<close>

text \<open>
  Releases are found under their identifier and version, their status is the aggregate of the
  acknowledgements of exactly their targets, their serial number has been drawn, and a node's
  latest release is one that is addressed to it.
\<close>

definition release_inv :: "hub \<Rightarrow> bool" where
  "release_inv h \<longleftrightarrow>
     hm_wf (releases (hub_repo h)) \<and>
     index_fwd (releases (hub_repo h)) (release_ids_by_version (hub_repo h)) rl_release_version rl_release_id \<and>
     index_bwd (releases (hub_repo h)) (release_ids_by_version (hub_repo h)) rl_release_version \<and>
     (\<forall>i r. repo_release (hub_repo h) i = Some r \<longrightarrow>
        status_consistent r \<and> version_serial (rl_release_version r) < unat (hub_release_counter h)) \<and>
     (\<forall>n i. repo_latest_release_id_for_node (hub_repo h) n = Some i \<longrightarrow>
        (\<exists>r. repo_release (hub_repo h) i = Some r \<and> n \<in> set (rl_target_node_ids r)))"

lemma release_inv_new: "release_inv (new_memory_with_cert_auto_renew_before_days d)"
  by (simp add: release_inv_def new_memory_with_cert_auto_renew_before_days_def empty_memory_state_def
      index_fwd_def index_bwd_def repo_release_def repo_latest_release_id_for_node_def)

lemma release_inv_cong:
  assumes "release_inv h" "releases (hub_repo h') = releases (hub_repo h)"
    "release_ids_by_version (hub_repo h') = release_ids_by_version (hub_repo h)"
    "latest_release_by_node (hub_repo h') = latest_release_by_node (hub_repo h)"
    "unat (hub_release_counter h) \<le> unat (hub_release_counter h')"
  shows "release_inv h'"
  using assms
  by (auto simp: release_inv_def repo_release_def repo_latest_release_id_for_node_def dest: less_le_trans)

lemma get_build_release_ack_status:
  "hm_get (build_release_ack_status ns) n = (if n \<in> set ns then Some pending_ack else None)"
  by (simp add: build_release_ack_status_def fold_insert_get)

text \<open>The record a saved release is stored as.\<close>

definition new_release :: "datetime \<Rightarrow> string \<Rightarrow> uuid \<Rightarrow> string \<Rightarrow> string \<Rightarrow> compiled_config_bundle \<Rightarrow> uuid list \<Rightarrow>
    release_record" where
  "new_release now scope site_id release_type reason bundle ns =
     \<lparr>rl_release_id = rm_release_id (cb_manifest bundle), rl_scope_type = scope, rl_scope_id = Some site_id,
      rl_release_type = release_type, rl_release_version = rm_release_version (cb_manifest bundle),
      rl_reason = reason, rl_status = aggregate_release_status (build_release_ack_status ns),
      rl_bundle = bundle, rl_target_node_ids = ns, rl_ack_status = build_release_ack_status ns,
      rl_created_at = now\<rparr>"

lemma new_release_sel [simp]:
  "rl_release_id (new_release now scope i ty reason b ns) = rm_release_id (cb_manifest b)"
  "rl_release_version (new_release now scope i ty reason b ns) = rm_release_version (cb_manifest b)"
  "rl_target_node_ids (new_release now scope i ty reason b ns) = ns"
  "rl_bundle (new_release now scope i ty reason b ns) = b"
  "rl_scope_type (new_release now scope i ty reason b ns) = scope"
  "rl_scope_id (new_release now scope i ty reason b ns) = Some i"
  "rl_created_at (new_release now scope i ty reason b ns) = now"
  by (simp_all add: new_release_def)

lemma new_release_consistent: "status_consistent (new_release now scope i ty reason b ns)"
  by (simp add: status_consistent_def new_release_def get_build_release_ack_status)

lemma new_release_pending: "rl_status (new_release now scope i ty reason b ns) = ''pending''"
proof -
  have "ak_apply_status a = ''pending''" if "a \<in> set (hm_values (build_release_ack_status ns))" for a
  proof -
    have "hm_wf (build_release_ack_status ns)"
      by (simp add: build_release_ack_status_def fold_insert_wf)
    with that obtain n where "hm_get (build_release_ack_status ns) n = Some a" by (auto simp: hm_in_values)
    then show ?thesis by (auto simp: get_build_release_ack_status pending_ack_def split: if_splits)
  qed
  then have all: "list_all (\<lambda>a. ak_apply_status a = ''pending'') (hm_values (build_release_ack_status ns))"
    by (simp add: list_all_iff)
  show ?thesis
  proof (cases "hm_values (build_release_ack_status ns)")
    case Nil
    then show ?thesis by (simp add: new_release_def aggregate_release_status_def hm_values_def)
  next
    case (Cons a as)
    with all show ?thesis
      by (auto simp: new_release_def aggregate_release_status_def Let_def fold_scan_ack scan_ack_def
          list_all_iff list_ex_iff)
  qed
qed

lemma save_compiled_release_eq:
  "save_compiled_release e scope (Some i) ty reason b ns h =
     (Inr \<lparr>sv_release_id = rm_release_id (cb_manifest b), sv_release_version = rm_release_version (cb_manifest b),
        sv_config_hash = rm_config_hash (cb_manifest b), sv_target_node_ids = ns\<rparr>,
      with_repo (repo_save_release (new_release (env_now e 0) scope i ty reason b ns)) h)"
  by (simp add: save_compiled_release_def Let_def new_release_def)

text \<open>
  Storing a release under a fresh identifier and with the serial number just drawn keeps the
  invariant: no stored release has its version.
\<close>

lemma release_inv_save:
  assumes inv: "release_inv h" and max: "hub_release_counter h \<noteq> - 1"
    and fresh: "repo_release (hub_repo h) (rl_release_id r) = None"
    and cons: "status_consistent r" and ser: "version_serial (rl_release_version r) = unat (hub_release_counter h)"
  shows "release_inv (with_repo (repo_save_release r) (h\<lparr>hub_release_counter := hub_release_counter h + 1\<rparr>))"
    (is "release_inv ?h")
proof -
  let ?s = "hub_repo h" and ?s' = "repo_save_release r (hub_repo h)"
  have idx: "index_fwd (releases ?s) (release_ids_by_version ?s) rl_release_version rl_release_id"
    "index_bwd (releases ?s) (release_ids_by_version ?s) rl_release_version"
    using inv by (simp_all add: release_inv_def)
  have older: "version_serial (rl_release_version r') < unat (hub_release_counter h)"
    if "hm_get (releases ?s) i = Some r'" for i r'
    using inv that by (auto simp: release_inv_def repo_release_def)
  have suc: "unat (hub_release_counter h + 1) = Suc (unat (hub_release_counter h))"
    using max by (metis add.commute add.inverse_inverse add_eq_0_iff unatSuc)
  have "index_fwd (releases ?s') (release_ids_by_version ?s') rl_release_version rl_release_id"
    by (rule release_tab.save_fwd [OF idx(1)]) (use older ser in force)
  moreover have "index_bwd (releases ?s') (release_ids_by_version ?s') rl_release_version"
    by (rule release_tab.save_bwd [OF idx(2)]) (use fresh in \<open>simp add: repo_release_def\<close>)
  moreover have "repo_release ?s' i = (if i = rl_release_id r then Some r else repo_release ?s i)" for i
    by (simp add: repo_release_def release_tab.tab_save)
  moreover have "hm_wf (releases ?s')" using inv by (simp add: release_inv_def release_tab.save_wf)
  moreover have "repo_latest_release_id_for_node ?s n \<noteq> Some (rl_release_id r)" for n
    using inv fresh unfolding release_inv_def by (metis option.distinct(1))
  ultimately show ?thesis
    using inv cons ser suc fresh
    by (auto simp: release_inv_def repo_save_release_latest less_Suc_eq split: if_splits)
qed

text \<open>A successful site or clean-up release, by its effect.\<close>

abbreviation drawn :: "hub \<Rightarrow> hub" where
  "drawn h \<equiv> h\<lparr>hub_release_counter := hub_release_counter h + 1\<rparr>"

lemma save_site_release_Inr:
  assumes "save_site_release e site ty reason h = (Inr r, h')"
  obtains b where
    "validate_site_config (st_config site) = Inr ()"
    "compile_site_bundle (env_display_uuid e) (env_uuid e 0) (env_now e 1) (to_spec (env_unicode_lower e) site)
       (repo_site_certificates (hub_repo h) (st_id site))
       (map (\<lambda>binding. \<lparr>rt_node_id = sb_node_id binding, rt_site_ids = [st_id site],
          rt_preheated = (sb_binding_role binding = ''standby'')\<rparr>) (st_bindings site))
       (build_release_version (env_format_timestamp e) ''site'' (env_now e 0) (hub_release_counter h)) = Inr b"
    "h' = with_repo (repo_save_release (new_release (env_now e 2) ''site'' (st_id site) ty reason b
       (map sb_node_id (st_bindings site)))) (drawn h)"
    "r = \<lparr>sv_release_id = rm_release_id (cb_manifest b), sv_release_version = rm_release_version (cb_manifest b),
       sv_config_hash = rm_config_hash (cb_manifest b), sv_target_node_ids = map sb_node_id (st_bindings site)\<rparr>"
  using assms that
  by (auto simp: save_site_release_def next_serial_def Let_def compiled_def try_ok_def save_compiled_release_eq
      numeral_2_eq_2 split: sum.splits)

lemma save_site_cleanup_release_Inr:
  assumes "save_site_cleanup_release e site ns reason h = (Inr r, h')"
  obtains b where
    "compile_site_cleanup_bundle (env_display_uuid e) (env_uuid e 0) (env_now e 1) (to_spec (env_unicode_lower e) site)
       (map (\<lambda>node_id. \<lparr>rt_node_id = node_id, rt_site_ids = [st_id site], rt_preheated = False\<rparr>) ns)
       (build_release_version (env_format_timestamp e) ''cleanup'' (env_now e 0) (hub_release_counter h)) = Inr b"
    "h' = with_repo (repo_save_release (new_release (env_now e 2) ''site_cleanup'' (st_id site) ''cleanup''
       (''cleanup detached nodes for '' @ st_site_code site @ '': '' @ reason) b ns)) (drawn h)"
    "r = \<lparr>sv_release_id = rm_release_id (cb_manifest b), sv_release_version = rm_release_version (cb_manifest b),
       sv_config_hash = rm_config_hash (cb_manifest b), sv_target_node_ids = ns\<rparr>"
  using assms that
  by (auto simp: save_site_cleanup_release_def next_serial_def Let_def compiled_def try_ok_def
      save_compiled_release_eq numeral_2_eq_2 split: sum.splits)

subsection \<open>What a node is served\<close>

definition served :: "hub \<Rightarrow> uuid \<Rightarrow> release_record \<Rightarrow> bool" where
  "served h n r \<longleftrightarrow>
     repo_latest_release_id_for_node (hub_repo h) n = Some (rl_release_id r) \<and>
     repo_release (hub_repo h) (rl_release_id r) = Some r \<and>
     hm_get (release_ids_by_version (hub_repo h)) (rl_release_version r) = Some (rl_release_id r) \<and>
     n \<in> set (rl_target_node_ids r)"

lemma served_save: "n \<in> set (rl_target_node_ids r) \<Longrightarrow> served (with_repo (repo_save_release r) h) n r"
  by (simp add: served_def repo_save_release_latest repo_release_def release_tab.tab_save release_tab.idx_save)

lemma served_save_other:
  assumes "served h n r" "n \<notin> set (rl_target_node_ids r')" "rl_release_id r' \<noteq> rl_release_id r"
    "rl_release_version r' \<noteq> rl_release_version r"
  shows "served (with_repo (repo_save_release r') h) n r"
  using assms
  by (auto simp: served_def repo_save_release_latest repo_release_def release_tab.tab_save release_tab.idx_save)

lemma repo_save_site_releases [simp]:
  "repo_latest_release_id_for_node (repo_save_site site s) = repo_latest_release_id_for_node s"
  "repo_release (repo_save_site site s) = repo_release s"
  "release_ids_by_version (repo_save_site site s) = release_ids_by_version s"
  "releases (repo_save_site site s) = releases s"
  "latest_release_by_node (repo_save_site site s) = latest_release_by_node s"
  by (auto simp: repo_save_site_def repo_latest_release_id_for_node_def repo_release_def fun_eq_iff)

lemma served_save_site [simp]: "served (with_repo (repo_save_site site) h) n r = served h n r"
  by (simp add: served_def)

lemma served_drawn [simp]: "served (h\<lparr>hub_release_counter := c\<rparr>) n r = served h n r"
  by (simp add: served_def)

lemma served_package:
  assumes "served h n r"
  obtains lat pkg where "latest_release_for_node e n h = Inr lat"
    "lrr_release_id lat = rl_release_id r" "lrr_release_version lat = rl_release_version r"
    "config_package_for_node e n (lrr_release_version lat) h = Inr pkg"
    "cfr_rendered_config pkg = cb_rendered_config (rl_bundle r)"
    "cfr_signature pkg = cb_signature (rl_bundle r)"
  using assms
  by (auto simp: served_def latest_release_for_node_def config_package_for_node_def
      repo_release_by_version_def repo_release_def)

text \<open>The nodes a site was detached from: targets of its previous release it is not bound to.\<close>

lemma set_detached_node_ids:
  "set (detached_node_ids_for_site s i ns) =
     (case previous_site_release s i of None \<Rightarrow> {} | Some r \<Rightarrow> set (rl_target_node_ids r) - set ns)"
  by (auto simp: detached_node_ids_for_site_def split: option.splits)

lemma detached_disjoint: "n \<in> set (detached_node_ids_for_site s i ns) \<Longrightarrow> n \<notin> set ns"
  by (auto simp: set_detached_node_ids split: option.splits)

text \<open>The contents of the two kinds of bundles.\<close>

definition configures_site :: "json \<Rightarrow> site_record \<Rightarrow> bool" where
  "configures_site config site \<longleftrightarrow>
     json_get config ''site_code'' = Some (JString (st_site_code site)) \<and>
     json_get config ''domain'' = Some (JString (st_domain site))"

definition cleans_up_site :: "json \<Rightarrow> site_record \<Rightarrow> bool" where
  "cleans_up_site config site \<longleftrightarrow>
     json_get config ''sites'' = Some (JArray []) \<and>
     (\<exists>c. json_get config ''cleanup'' = Some c \<and>
        json_get c ''site_codes'' = Some (JArray [JString (st_site_code site)]))"

lemma compile_site_bundle_config:
  assumes "compile_site_bundle disp new_id now (to_spec lower site) certs targets ver = Inr b"
  shows "configures_site (cb_rendered_config b) site"
proof -
  have "ss_site_code (to_spec lower site) = st_site_code site" "ss_domain (to_spec lower site) = st_domain site"
    by (simp_all add: to_spec_def Let_def)
  with assms show ?thesis
    by (auto simp: compile_site_bundle_def configures_site_def Let_def json_get_jobj split: if_splits)
qed

lemma compile_site_cleanup_bundle_config:
  assumes "compile_site_cleanup_bundle disp new_id now (to_spec lower site) targets ver = Inr b"
  shows "cleans_up_site (cb_rendered_config b) site"
proof -
  have "ss_site_code (to_spec lower site) = st_site_code site" by (simp add: to_spec_def Let_def)
  with assms show ?thesis
    by (auto simp: compile_site_cleanup_bundle_def cleans_up_site_def Let_def json_get_jobj split: if_splits)
qed

lemma next_serial_differs: "unat (c + 1) \<noteq> unat (c :: u64)"
  by (simp flip: word_unat_eq_iff)

lemma release_unless_Inr_iff:
  "release_unless none saved h = (Inr x, h') \<longleftrightarrow>
     (none \<and> x = None \<and> h' = h) \<or> (\<not> none \<and> (\<exists>r. saved = (Inr r, h') \<and> x = Some r))"
  by (auto simp: release_unless_def and_then_Inr_iff)

lemma create_release_Inr:
  assumes "create_release e request h = (Inr resp, h')"
  obtains site T D x1 h1 x2 h2 e2 rel where
    "repo_site (hub_repo h) (crq_scope_id request) = Some site"
    "T = map sb_node_id (st_bindings site)" "D = detached_node_ids_for_site (hub_repo h) (st_id site) T"
    "e2 = (if T = [] then e else env_after 3 1 e)"
    "release_unless (T = []) (save_site_release e site (crq_release_type request) (crq_reason request) h) h = (Inr x1, h1)"
    "release_unless (D = []) (save_site_cleanup_release e2 site D (crq_reason request) h1) h1 = (Inr x2, h2)"
    "h' = with_repo (repo_save_site (site\<lparr>st_status := if x1 \<noteq> None then Published else Draft\<rparr>)) h2"
    "or_else x1 x2 = Some rel" "resp = into_response rel"
proof -
  from assms obtain site where site: "repo_site (hub_repo h) (crq_scope_id request) = Some site"
    by (auto simp: create_release_def try_ok_Inr_iff ok_or_Inr_iff split: if_splits)
  let ?T = "map sb_node_id (st_bindings site)"
  let ?D = "detached_node_ids_for_site (hub_repo h) (st_id site) ?T"
  let ?A = "release_unless (?T = []) (save_site_release e site (crq_release_type request) (crq_reason request) h) h"
  let ?B = "\<lambda>h1. release_unless (?D = []) (save_site_cleanup_release (if ?T = [] then e else env_after 3 1 e) site ?D
       (crq_reason request) h1) h1"
  have guards: "crq_scope_type request = ''site''" "\<not> (?T = [] \<and> ?D = [])"
    using assms site by (auto simp: create_release_def split: if_splits)
  have "and_then ?A (\<lambda>x1 h1. and_then (?B h1) (\<lambda>x2 h2. finish_release site x1 x2 h2)) = (Inr resp, h')"
    using assms by (simp only: create_release_def Let_def site ok_or_simps try_ok_simps guards simp_thms if_False)
  then obtain x1 h1 x2 h2 where
    r: "?A = (Inr x1, h1)" "?B h1 = (Inr x2, h2)" "finish_release site x1 x2 h2 = (Inr resp, h')"
    by (auto simp only: and_then_Inr_iff)
  from r(3) obtain rel where
    "h' = with_repo (repo_save_site (site\<lparr>st_status := if x1 \<noteq> None then Published else Draft\<rparr>)) h2"
    "or_else x1 x2 = Some rel" "resp = into_response rel"
    by (cases "or_else x1 x2") (auto simp: finish_release_def Let_def)
  from that [OF site refl refl refl r(1,2) this] show thesis .
qed

text \<open>The releases that a successful \<open>create_release\<close> stored, and what serves them.\<close>

lemma site_release_served:
  assumes "release_unless (map sb_node_id (st_bindings site) = []) (save_site_release e site ty reason h) h = (Inr x, h1)"
    "n \<in> sb_node_id ` set (st_bindings site)"
  obtains r v where "x = Some v" "served h1 n r" "configures_site (cb_rendered_config (rl_bundle r)) site"
    "rl_release_version r = sv_release_version v" "rl_release_id r = env_uuid e 0"
    "version_serial (rl_release_version r) = unat (hub_release_counter h)"
    "hub_release_counter h1 = hub_release_counter h + 1"
proof -
  from assms obtain v where v: "save_site_release e site ty reason h = (Inr v, h1)" "x = Some v"
    by (auto simp: release_unless_Inr_iff)
  from v(1) show thesis
  proof (rule save_site_release_Inr)
    fix b assume b: "compile_site_bundle (env_display_uuid e) (env_uuid e 0) (env_now e 1) (to_spec (env_unicode_lower e) site)
       (repo_site_certificates (hub_repo h) (st_id site))
       (map (\<lambda>binding. \<lparr>rt_node_id = sb_node_id binding, rt_site_ids = [st_id site],
          rt_preheated = (sb_binding_role binding = ''standby'')\<rparr>) (st_bindings site))
       (build_release_version (env_format_timestamp e) ''site'' (env_now e 0) (hub_release_counter h)) = Inr b"
      and h1: "h1 = with_repo (repo_save_release (new_release (env_now e 2) ''site'' (st_id site) ty reason b
       (map sb_node_id (st_bindings site)))) (drawn h)"
      and r: "v = \<lparr>sv_release_id = rm_release_id (cb_manifest b), sv_release_version = rm_release_version (cb_manifest b),
       sv_config_hash = rm_config_hash (cb_manifest b), sv_target_node_ids = map sb_node_id (st_bindings site)\<rparr>"
    from compile_site_bundle_Inr [OF b] compile_site_bundle_config [OF b] assms(2) v(2) h1 r show thesis
      by (intro that [of v "new_release (env_now e 2) ''site'' (st_id site) ty reason b
            (map sb_node_id (st_bindings site))"]) (auto intro!: served_save)
  qed
qed

lemma cleanup_release_served:
  assumes "release_unless (D = []) (save_site_cleanup_release e site D reason h) h = (Inr x, h1)" "n \<in> set D"
  obtains r where "served h1 n r" "cleans_up_site (cb_rendered_config (rl_bundle r)) site"
proof -
  from assms obtain v where v: "save_site_cleanup_release e site D reason h = (Inr v, h1)" "x = Some v"
    by (auto simp: release_unless_Inr_iff)
  from v(1) show thesis
  proof (rule save_site_cleanup_release_Inr)
    fix b assume b: "compile_site_cleanup_bundle (env_display_uuid e) (env_uuid e 0) (env_now e 1)
       (to_spec (env_unicode_lower e) site)
       (map (\<lambda>node_id. \<lparr>rt_node_id = node_id, rt_site_ids = [st_id site], rt_preheated = False\<rparr>) D)
       (build_release_version (env_format_timestamp e) ''cleanup'' (env_now e 0) (hub_release_counter h)) = Inr b"
      and h1: "h1 = with_repo (repo_save_release (new_release (env_now e 2) ''site_cleanup'' (st_id site) ''cleanup''
       (''cleanup detached nodes for '' @ st_site_code site @ '': '' @ reason) b D)) (drawn h)"
    show thesis
      by (rule that, unfold h1, rule served_save)
        (use assms(2) compile_site_cleanup_bundle_config [OF b] in simp_all)
  qed
qed

lemma cleanup_release_keeps:
  assumes "release_unless (D = []) (save_site_cleanup_release e site D reason h) h = (Inr x, h1)" "n \<notin> set D"
  shows "repo_latest_release_id_for_node (hub_repo h1) n = repo_latest_release_id_for_node (hub_repo h) n"
    and "served h n r \<Longrightarrow> rl_release_id r \<noteq> env_uuid e 0 \<Longrightarrow>
      version_serial (rl_release_version r) \<noteq> unat (hub_release_counter h) \<Longrightarrow> served h1 n r"
proof -
  show "repo_latest_release_id_for_node (hub_repo h1) n = repo_latest_release_id_for_node (hub_repo h) n"
    using assms
    by (auto simp: release_unless_Inr_iff repo_save_release_latest elim!: save_site_cleanup_release_Inr)
  assume r: "served h n r" "rl_release_id r \<noteq> env_uuid e 0"
    "version_serial (rl_release_version r) \<noteq> unat (hub_release_counter h)"
  from assms(1) consider "h1 = h" | v where "save_site_cleanup_release e site D reason h = (Inr v, h1)"
    by (auto simp: release_unless_Inr_iff)
  then show "served h1 n r"
  proof cases
    case 2
    then show ?thesis
    proof (rule save_site_cleanup_release_Inr)
      fix b assume "compile_site_cleanup_bundle (env_display_uuid e) (env_uuid e 0) (env_now e 1)
         (to_spec (env_unicode_lower e) site)
         (map (\<lambda>node_id. \<lparr>rt_node_id = node_id, rt_site_ids = [st_id site], rt_preheated = False\<rparr>) D)
         (build_release_version (env_format_timestamp e) ''cleanup'' (env_now e 0) (hub_release_counter h)) = Inr b"
      then have "rm_release_id (cb_manifest b) \<noteq> rl_release_id r"
        "version_serial (rm_release_version (cb_manifest b)) = unat (hub_release_counter h)"
        using r(2) by (auto dest!: compile_site_cleanup_bundle_Inr)
      moreover assume "h1 = with_repo (repo_save_release (new_release (env_now e 2) ''site_cleanup'' (st_id site)
         ''cleanup'' (''cleanup detached nodes for '' @ st_site_code site @ '': '' @ reason) b D)) (drawn h)"
      ultimately show ?thesis
        using r(1,3) assms(2) by (metis new_release_sel(1,2,3) served_drawn served_save_other)
    qed
  qed (use r in simp)
qed

lemma site_release_keeps:
  assumes "release_unless (map sb_node_id (st_bindings site) = []) (save_site_release e site ty reason h) h = (Inr x, h1)"
    "n \<notin> sb_node_id ` set (st_bindings site)"
  shows "repo_latest_release_id_for_node (hub_repo h1) n = repo_latest_release_id_for_node (hub_repo h) n"
  using assms
  by (auto simp: release_unless_Inr_iff repo_save_release_latest elim!: save_site_release_Inr)

lemma create_release_served:
  assumes "create_release e request h = (Inr resp, h')" "env_uuid e 0 \<noteq> env_uuid e 1"
    and "repo_site (hub_repo h) (crq_scope_id request) = Some site"
    and "T = sb_node_id ` set (st_bindings site)"
    and "D = (case previous_site_release (hub_repo h) (st_id site) of
        None \<Rightarrow> {} | Some r \<Rightarrow> set (rl_target_node_ids r) - T)"
  shows "n \<in> T \<Longrightarrow> \<exists>r. served h' n r \<and> configures_site (cb_rendered_config (rl_bundle r)) site \<and>
      rl_release_version r = crr_release_version resp"
    and "n \<in> D \<Longrightarrow> \<exists>r. served h' n r \<and> cleans_up_site (cb_rendered_config (rl_bundle r)) site"
    and "n \<notin> T \<Longrightarrow> n \<notin> D \<Longrightarrow>
      repo_latest_release_id_for_node (hub_repo h') n = repo_latest_release_id_for_node (hub_repo h) n"
proof -
  from assms(1) obtain site' T' D' x1 h1 x2 h2 e2 rel where c:
    "repo_site (hub_repo h) (crq_scope_id request) = Some site'"
    "T' = map sb_node_id (st_bindings site')" "D' = detached_node_ids_for_site (hub_repo h) (st_id site') T'"
    "e2 = (if T' = [] then e else env_after 3 1 e)"
    "release_unless (T' = []) (save_site_release e site' (crq_release_type request) (crq_reason request) h) h = (Inr x1, h1)"
    "release_unless (D' = []) (save_site_cleanup_release e2 site' D' (crq_reason request) h1) h1 = (Inr x2, h2)"
    "h' = with_repo (repo_save_site (site'\<lparr>st_status := if x1 \<noteq> None then Published else Draft\<rparr>)) h2"
    "or_else x1 x2 = Some rel" "resp = into_response rel"
    by (rule create_release_Inr)
  have site: "site' = site" "set T' = T" "set D' = D"
    using c(1-3) assms(3-5) by (auto simp: set_detached_node_ids split: option.splits)
  note c = c [unfolded site(1)]
  show "\<exists>r. served h' n r \<and> configures_site (cb_rendered_config (rl_bundle r)) site \<and>
      rl_release_version r = crr_release_version resp" if n: "n \<in> T"
  proof -
    have T': "T' \<noteq> []" using n site(2) by force
    have nD: "n \<notin> set D'" using n site(2) detached_disjoint c(3) by blast
    from site_release_served [OF c(5) [unfolded c(2)]] n assms(4) obtain r v where r: "x1 = Some v" "served h1 n r"
      "configures_site (cb_rendered_config (rl_bundle r)) site" "rl_release_version r = sv_release_version v"
      "rl_release_id r = env_uuid e 0" "version_serial (rl_release_version r) = unat (hub_release_counter h)"
      "hub_release_counter h1 = hub_release_counter h + 1" by metis
    have "served h2 n r"
      using cleanup_release_keeps(2) [OF c(6) nD r(2)] r(5-7) T' assms(2)
        next_serial_differs [of "hub_release_counter h"] by (simp add: c(4))
    with r c(7-9) show ?thesis by (auto simp: into_response_def)
  qed
  show "\<exists>r. served h' n r \<and> cleans_up_site (cb_rendered_config (rl_bundle r)) site" if "n \<in> D"
    using cleanup_release_served [OF c(6)] that c(7) site(3) by (metis served_save_site)
  show "repo_latest_release_id_for_node (hub_repo h') n = repo_latest_release_id_for_node (hub_repo h) n"
    if "n \<notin> T" "n \<notin> D"
    using cleanup_release_keeps(1) [OF c(6)] site_release_keeps [OF c(5) [unfolded c(2)]] that assms(4) c(7) site(3)
    by simp
qed

lemma create_release_site:
  assumes "create_release e request h = (Inr resp, h')"
    and "repo_site (hub_repo h) (crq_scope_id request) = Some site" "st_id site = crq_scope_id request"
  shows "repo_site (hub_repo h') (crq_scope_id request) =
    Some (site\<lparr>st_status := if st_bindings site = [] then Draft else Published\<rparr>)"
  using assms(1)
proof (rule create_release_Inr)
  fix site' T x1 h1 h2
  assume c: "repo_site (hub_repo h) (crq_scope_id request) = Some site'" "T = map sb_node_id (st_bindings site')"
    "release_unless (T = []) (save_site_release e site' (crq_release_type request) (crq_reason request) h) h = (Inr x1, h1)"
    "h' = with_repo (repo_save_site (site'\<lparr>st_status := if x1 \<noteq> None then Published else Draft\<rparr>)) h2"
  have "x1 = None \<longleftrightarrow> st_bindings site = []" using c(1-3) assms(2) by (auto simp: release_unless_Inr_iff)
  with c(1,4) assms(2,3) show ?thesis by (simp add: repo_site_def repo_save_site_def)
qed

text \<open>
  C2: a release reaches its nodes. After \<open>create_release\<close> for a site, every node the site is
  bound to is offered the new release and may download the site's configuration; every node that
  the previous release of the site went to and that is no longer bound is offered a clean-up of
  the site; and what all other nodes are offered is unchanged.
\<close>

theorem create_release_reaches_nodes:
  assumes "create_release e request h = (Inr resp, h')" "env_uuid e 0 \<noteq> env_uuid e 1"
    and "repo_site (hub_repo h) (crq_scope_id request) = Some site"
    and "T = sb_node_id ` set (st_bindings site)"
    and "D = (case previous_site_release (hub_repo h) (st_id site) of
        None \<Rightarrow> {} | Some r \<Rightarrow> set (rl_target_node_ids r) - T)"
  shows "(\<forall>n \<in> T. \<exists>lat pkg. latest_release_for_node e' n h' = Inr lat \<and>
        lrr_release_version lat = crr_release_version resp \<and>
        config_package_for_node e' n (lrr_release_version lat) h' = Inr pkg \<and>
        configures_site (cfr_rendered_config pkg) site) \<and>
    (\<forall>n \<in> D. \<exists>lat pkg. latest_release_for_node e' n h' = Inr lat \<and>
        config_package_for_node e' n (lrr_release_version lat) h' = Inr pkg \<and>
        cleans_up_site (cfr_rendered_config pkg) site) \<and>
    (\<forall>n. n \<notin> T \<longrightarrow> n \<notin> D \<longrightarrow> repo_latest_release_id_for_node (hub_repo h') n =
        repo_latest_release_id_for_node (hub_repo h) n)"
proof (intro conjI ballI allI impI)
  fix n assume "n \<in> T"
  with create_release_served(1) [OF assms] obtain r where r: "served h' n r"
    "configures_site (cb_rendered_config (rl_bundle r)) site" "rl_release_version r = crr_release_version resp"
    by blast
  from r show "\<exists>lat pkg. latest_release_for_node e' n h' = Inr lat \<and>
      lrr_release_version lat = crr_release_version resp \<and>
      config_package_for_node e' n (lrr_release_version lat) h' = Inr pkg \<and>
      configures_site (cfr_rendered_config pkg) site"
    by - (rule served_package [OF r(1), of e'], auto)
next
  fix n assume "n \<in> D"
  with create_release_served(2) [OF assms] obtain r where r: "served h' n r"
    "cleans_up_site (cb_rendered_config (rl_bundle r)) site"
    by blast
  from r show "\<exists>lat pkg. latest_release_for_node e' n h' = Inr lat \<and>
      config_package_for_node e' n (lrr_release_version lat) h' = Inr pkg \<and>
      cleans_up_site (cfr_rendered_config pkg) site"
    by - (rule served_package [OF r(1), of e'], auto)
qed (rule create_release_served(3) [OF assms])

text \<open>An example: a site bound to two nodes is released, then bound to the first node only.\<close>

definition sample_site :: "site_binding_record list \<Rightarrow> site_record" where
  "sample_site bs = \<lparr>st_id = 50, st_site_code = ''shop'', st_name = ''Shop'', st_domain = ''shop.example.com'',
     st_listen_port = 80, st_protocol = Http, st_tls_enabled = False, st_status = Draft, st_version = 1,
     st_config = JObject [], st_bindings = bs\<rparr>"

definition sample_primary :: site_binding_record where
  "sample_primary = \<lparr>sb_node_id = 7, sb_binding_role = ''primary'', sb_priority = 100\<rparr>"

definition sample_standby :: site_binding_record where
  "sample_standby = \<lparr>sb_node_id = 8, sb_binding_role = ''standby'', sb_priority = 200\<rparr>"

definition sample_release_request :: create_release_request where
  "sample_release_request = \<lparr>crq_scope_type = ''site'', crq_scope_id = 50, crq_release_type = ''publish'',
     crq_reason = ''r''\<rparr>"

definition sample_released :: hub where
  "sample_released = snd (create_release (sample_env 60 0) sample_release_request
     (with_repo (repo_save_site (sample_site [sample_primary, sample_standby])) new_memory))"

definition sample_rebound :: hub where
  "sample_rebound = with_repo (repo_save_site (sample_site [sample_primary])) sample_released"

theorem create_release_reaches_nodes_witness:
  "\<exists>lat pkg. latest_release_for_node (sample_env 0 0) 8
       (snd (create_release (sample_env 70 (hours 1)) sample_release_request sample_rebound)) = Inr lat \<and>
     config_package_for_node (sample_env 0 0) 8 (lrr_release_version lat)
       (snd (create_release (sample_env 70 (hours 1)) sample_release_request sample_rebound)) = Inr pkg \<and>
     cleans_up_site (cfr_rendered_config pkg) (sample_site [sample_primary])"
proof -
  have ok: "case fst (create_release (sample_env 70 (hours 1)) sample_release_request sample_rebound) of
      Inl _ \<Rightarrow> False | Inr _ \<Rightarrow> True" by code_simp
  then obtain resp where "fst (create_release (sample_env 70 (hours 1)) sample_release_request sample_rebound) =
      Inr resp" by (auto split: sum.splits)
  note rel = fst_eq_pair [OF this]
  have ids: "env_uuid (sample_env 70 (hours 1)) 0 \<noteq> env_uuid (sample_env 70 (hours 1)) 1" by code_simp
  have site: "repo_site (hub_repo sample_rebound) (crq_scope_id sample_release_request) =
      Some (sample_site [sample_primary])"
    by (simp add: sample_rebound_def repo_site_def repo_save_site_def sample_site_def sample_release_request_def)
  have "(case previous_site_release (hub_repo sample_rebound) 50 of None \<Rightarrow> [] | Some r \<Rightarrow> rl_target_node_ids r) = [7, 8]"
    by code_simp
  then have "8 \<in> (case previous_site_release (hub_repo sample_rebound) (st_id (sample_site [sample_primary])) of
      None \<Rightarrow> {} | Some r \<Rightarrow> set (rl_target_node_ids r) - sb_node_id ` set (st_bindings (sample_site [sample_primary])))"
    by (auto simp: sample_site_def sample_primary_def split: option.splits)
  with create_release_reaches_nodes [OF rel ids site refl refl, of "sample_env 0 0"] show ?thesis by blast
qed

subsection \<open>Keeping the invariant\<close>

lemma record_ack_sel [simp]:
  "rl_release_version (record_ack n a r) = rl_release_version r" "rl_release_id (record_ack n a r) = rl_release_id r"
  "rl_target_node_ids (record_ack n a r) = rl_target_node_ids r"
  by (simp_all add: record_ack_def Let_def)

lemma detach_release_sel [simp]:
  "rl_release_version (detach_release n r) = rl_release_version r" "rl_release_id (detach_release n r) = rl_release_id r"
  "rl_target_node_ids (detach_release n r) = filter (\<lambda>m. m \<noteq> n) (rl_target_node_ids r)"
  by (simp_all add: detach_release_def Let_def)

lemma release_inv_update_ack:
  assumes "release_inv h" "repo_release (hub_repo h) i = Some r" "n \<in> set (rl_target_node_ids r)"
  shows "release_inv (with_repo (repo_update_release_ack i n ack) h)"
proof -
  let ?f = "record_ack n ack"
  have rel: "repo_release (repo_update_release_ack i n ack (hub_repo h)) j =
      (if j = i then Some (?f r) else repo_release (hub_repo h) j)" for j
    using assms(2) by (simp add: repo_release_def repo_update_release_ack_def)
  have rest: "release_ids_by_version (repo_update_release_ack i n ack (hub_repo h)) = release_ids_by_version (hub_repo h)"
    "releases (repo_update_release_ack i n ack (hub_repo h)) = hm_modify i ?f (releases (hub_repo h))"
    "repo_latest_release_id_for_node (repo_update_release_ack i n ack (hub_repo h)) =
       repo_latest_release_id_for_node (hub_repo h)"
    by (simp_all add: repo_update_release_ack_def repo_latest_release_id_for_node_def fun_eq_iff)
  have old: "status_consistent r" "version_serial (rl_release_version r) < unat (hub_release_counter h)"
    using assms(1,2) by (auto simp: release_inv_def)
  have "index_fwd (hm_modify i ?f (releases (hub_repo h))) (release_ids_by_version (hub_repo h)) rl_release_version rl_release_id"
    "index_bwd (hm_modify i ?f (releases (hub_repo h))) (release_ids_by_version (hub_repo h)) rl_release_version"
    using assms(1) by (auto simp: release_inv_def intro: index_fwd_modify index_bwd_modify)
  moreover have "hm_wf (hm_modify i ?f (releases (hub_repo h)))" using assms(1) by (simp add: release_inv_def)
  moreover have "\<exists>r'. repo_release (repo_update_release_ack i n ack (hub_repo h)) j = Some r' \<and> m \<in> set (rl_target_node_ids r')"
    if "repo_latest_release_id_for_node (hub_repo h) m = Some j" for m j
    using assms(1,2) that unfolding release_inv_def rel by fastforce
  ultimately show ?thesis
    using assms(1) record_ack_consistent [OF old(1) assms(3)] old(2)
    by (auto simp: release_inv_def rel rest split: if_splits)
qed

lemma release_inv_delete_node:
  assumes "release_inv h"
  shows "release_inv (with_repo (repo_delete_node n) h)"
proof (cases "hm_get (nodes (hub_repo h)) n")
  case None
  with assms show ?thesis by (simp add: with_repo_def repo_delete_node_def)
next
  case (Some node)
  let ?s = "hub_repo h" and ?s' = "repo_delete_node n (hub_repo h)"
  have rest: "release_ids_by_version ?s' = release_ids_by_version ?s"
    "releases ?s' = hm_map_values (detach_release n) (releases ?s)"
    and rel: "repo_release ?s' i = map_option (detach_release n) (repo_release ?s i)"
    and lat: "repo_latest_release_id_for_node ?s' m = (if m = n then None else repo_latest_release_id_for_node ?s m)" for i m
    using Some by (simp_all add: repo_delete_node_def repo_release_def repo_latest_release_id_for_node_def)
  have "index_fwd (releases ?s') (release_ids_by_version ?s') rl_release_version rl_release_id"
    "index_bwd (releases ?s') (release_ids_by_version ?s') rl_release_version"
    using assms by (auto simp: release_inv_def rest intro: index_fwd_map_values index_bwd_map_values)
  moreover have "\<exists>r. repo_release ?s' i = Some r \<and> m \<in> set (rl_target_node_ids r)"
    if "repo_latest_release_id_for_node ?s' m = Some i" for m i
    using assms that unfolding release_inv_def rel lat by (fastforce split: if_splits)
  ultimately show ?thesis
    using assms by (auto simp: release_inv_def rel detach_release_consistent rest(2))
qed

lemma save_site_release_inv:
  assumes "release_inv h" "hub_release_counter h \<noteq> - 1" "repo_release (hub_repo h) (env_uuid e 0) = None"
    and "save_site_release e site ty reason h = (Inr v, h')"
  shows "release_inv h'"
proof (rule save_site_release_Inr [OF assms(4)])
  fix b assume b: "compile_site_bundle (env_display_uuid e) (env_uuid e 0) (env_now e 1) (to_spec (env_unicode_lower e) site)
       (repo_site_certificates (hub_repo h) (st_id site))
       (map (\<lambda>binding. \<lparr>rt_node_id = sb_node_id binding, rt_site_ids = [st_id site],
          rt_preheated = (sb_binding_role binding = ''standby'')\<rparr>) (st_bindings site))
       (build_release_version (env_format_timestamp e) ''site'' (env_now e 0) (hub_release_counter h)) = Inr b"
    and h': "h' = with_repo (repo_save_release (new_release (env_now e 2) ''site'' (st_id site) ty reason b
       (map sb_node_id (st_bindings site)))) (drawn h)"
  show ?thesis unfolding h'
    by (rule release_inv_save [OF assms(1,2)])
      (use compile_site_bundle_Inr [OF b] assms(3) new_release_consistent in simp_all)
qed

lemma save_site_cleanup_release_inv:
  assumes "release_inv h" "hub_release_counter h \<noteq> - 1" "repo_release (hub_repo h) (env_uuid e 0) = None"
    and "save_site_cleanup_release e site ns reason h = (Inr v, h')"
  shows "release_inv h'"
proof (rule save_site_cleanup_release_Inr [OF assms(4)])
  fix b assume b: "compile_site_cleanup_bundle (env_display_uuid e) (env_uuid e 0) (env_now e 1)
       (to_spec (env_unicode_lower e) site)
       (map (\<lambda>node_id. \<lparr>rt_node_id = node_id, rt_site_ids = [st_id site], rt_preheated = False\<rparr>) ns)
       (build_release_version (env_format_timestamp e) ''cleanup'' (env_now e 0) (hub_release_counter h)) = Inr b"
    and h': "h' = with_repo (repo_save_release (new_release (env_now e 2) ''site_cleanup'' (st_id site) ''cleanup''
       (''cleanup detached nodes for '' @ st_site_code site @ '': '' @ reason) b ns)) (drawn h)"
  show ?thesis unfolding h'
    by (rule release_inv_save [OF assms(1,2)])
      (use compile_site_cleanup_bundle_Inr [OF b] assms(3) new_release_consistent in simp_all)
qed

lemma release_inv_drawn: "release_inv h \<Longrightarrow> hub_release_counter h \<noteq> - 1 \<Longrightarrow> release_inv (drawn h)"
  by (erule release_inv_cong) (simp_all add: unatSuc add.commute add_eq_0_iff)

lemma repo_save_node_releases [simp]:
  "releases (repo_save_node node s) = releases s"
  "release_ids_by_version (repo_save_node node s) = release_ids_by_version s"
  "latest_release_by_node (repo_save_node node s) = latest_release_by_node s"
  "repo_release (repo_save_node node s) = repo_release s"
  "repo_latest_release_id_for_node (repo_save_node node s) = repo_latest_release_id_for_node s"
  by (simp_all add: repo_save_node_def repo_release_def repo_latest_release_id_for_node_def fun_eq_iff)

lemma release_inv_save_node: "release_inv h \<Longrightarrow> release_inv (with_repo (repo_save_node node) h)"
  by (erule release_inv_cong) simp_all

text \<open>
  C32: acknowledging a release. It is refused, with no effect, unless the release exists and the
  node is one of its targets. Otherwise the status of that node and of no other is replaced, no
  other release changes, the targets stay, and the status of the release is again the aggregate
  of its acknowledgements.
\<close>

theorem ack_release_spec:
  assumes "release_inv h"
  shows "case ack_release e i request h of
      (Inl err, h') \<Rightarrow> h' = h \<and>
        (\<forall>r. repo_release (hub_repo h) i = Some r \<longrightarrow> raq_node_id request \<notin> set (rl_target_node_ids r))
    | (Inr resp, h') \<Rightarrow> release_inv h' \<and>
        (\<exists>r r'. repo_release (hub_repo h) i = Some r \<and> raq_node_id request \<in> set (rl_target_node_ids r) \<and>
           repo_release (hub_repo h') = (repo_release (hub_repo h))(i \<mapsto> r') \<and>
           rl_target_node_ids r' = rl_target_node_ids r \<and>
           (\<forall>n. map_option ak_apply_status (hm_get (rl_ack_status r') n) =
              (if n = raq_node_id request then Some (raq_apply_status request)
               else map_option ak_apply_status (hm_get (rl_ack_status r) n))) \<and>
           rl_status r' = aggregate_release_status (rl_ack_status r'))"
proof (cases "repo_release (hub_repo h) i")
  case (Some r)
  show ?thesis
  proof (cases "raq_node_id request \<in> set (rl_target_node_ids r)")
    case True
    let ?ack = "\<lparr>ak_apply_status = raq_apply_status request, ak_current_version = Some (raq_current_version request),
      ak_message = raq_message request, ak_acked_at = Some (env_now e 0)\<rparr>"
    let ?h = "with_repo (repo_update_release_ack i (raq_node_id request) ?ack) h"
    let ?r = "record_ack (raq_node_id request) ?ack r"
    obtain resp h' where h': "ack_release e i request h = (Inr resp, h')"
      and same: "release_inv ?h \<Longrightarrow> release_inv h'" "repo_release (hub_repo h') = repo_release (hub_repo ?h)"
      using Some True release_inv_save_node
      by (cases "repo_node (hub_repo ?h) (raq_node_id request)") (auto simp: ack_release_def Let_def)
    have "release_inv h'" by (rule same(1) [OF release_inv_update_ack [OF assms Some True]])
    moreover have "repo_release (hub_repo h') = (repo_release (hub_repo h))(i \<mapsto> ?r)"
      using Some by (auto simp: same(2) repo_release_def repo_update_release_ack_def fun_eq_iff)
    moreover have "\<forall>n. map_option ak_apply_status (hm_get (rl_ack_status ?r) n) =
        (if n = raq_node_id request then Some (raq_apply_status request)
         else map_option ak_apply_status (hm_get (rl_ack_status r) n))"
      and "rl_status ?r = aggregate_release_status (rl_ack_status ?r)"
      by (simp_all add: record_ack_def Let_def)
    ultimately show ?thesis
      using Some True by (simp add: h' split del: if_split) (intro exI [of _ ?r], simp split del: if_split)
  qed (use Some in \<open>simp add: ack_release_def\<close>)
qed (simp add: ack_release_def)

definition sample_ack :: release_ack_request where
  "sample_ack = \<lparr>raq_node_id = 7, raq_apply_status = ''failed'', raq_current_version = ''v'', raq_message = None\<rparr>"

lemma sample_released_inv: "release_inv sample_released"
proof -
  let ?h = "with_repo (repo_save_site (sample_site [sample_primary, sample_standby])) new_memory"
  have inv: "release_inv ?h"
    by (rule release_inv_cong [OF release_inv_new [of 30, folded new_memory_def]]) simp_all
  have "case fst (create_release (sample_env 60 0) sample_release_request ?h) of
      Inl _ \<Rightarrow> False | Inr _ \<Rightarrow> True" by code_simp
  then obtain resp where "fst (create_release (sample_env 60 0) sample_release_request ?h) = Inr resp"
    by (auto split: sum.splits)
  from fst_eq_pair [OF this] show ?thesis
  proof (rule create_release_Inr)
    fix site T D x1 h1 x2 h2 e2
    assume c: "repo_site (hub_repo ?h) (crq_scope_id sample_release_request) = Some site"
      "T = map sb_node_id (st_bindings site)" "D = detached_node_ids_for_site (hub_repo ?h) (st_id site) T"
      "release_unless (T = []) (save_site_release (sample_env 60 0) site (crq_release_type sample_release_request)
         (crq_reason sample_release_request) ?h) ?h = (Inr x1, h1)"
      "release_unless (D = []) (save_site_cleanup_release e2 site D (crq_reason sample_release_request) h1) h1 = (Inr x2, h2)"
      "snd (create_release (sample_env 60 0) sample_release_request ?h) =
         with_repo (repo_save_site (site\<lparr>st_status := if x1 \<noteq> None then Published else Draft\<rparr>)) h2"
    have "releases (hub_repo ?h) = []" "hub_release_counter ?h = 1" by code_simp+
    then have "D = []"
      by (simp add: c(3) detached_node_ids_for_site_def previous_site_release_def repo_list_releases_def hm_values_def
          sort_dedup_def)
    with c(5) have "h2 = h1" by (simp add: release_unless_def)
    moreover have "release_inv h1"
      using c(4) inv \<open>releases (hub_repo ?h) = []\<close> \<open>hub_release_counter ?h = 1\<close>
      by (auto simp: release_unless_Inr_iff repo_release_def intro: save_site_release_inv)
    ultimately have "release_inv h2" by simp
    then show ?thesis unfolding sample_released_def c(6) by (rule release_inv_cong) simp_all
  qed
qed

theorem ack_release_spec_witness:
  "\<exists>r. repo_release (hub_repo (snd (ack_release (sample_env 0 0) 60 sample_ack sample_released))) 60 = Some r \<and>
     map_option ak_apply_status (hm_get (rl_ack_status r) 7) = Some ''failed'' \<and>
     rl_status r = aggregate_release_status (rl_ack_status r)"
proof -
  have "case fst (ack_release (sample_env 0 0) 60 sample_ack sample_released) of Inl _ \<Rightarrow> False | Inr _ \<Rightarrow> True"
    by code_simp
  then obtain resp h' where h': "ack_release (sample_env 0 0) 60 sample_ack sample_released = (Inr resp, h')"
    by (metis prod.collapse sum.case_eq_if sum.collapse(2))
  have sel: "raq_node_id sample_ack = 7" "raq_apply_status sample_ack = ''failed''"
    by (simp_all add: sample_ack_def)
  from ack_release_spec [OF sample_released_inv, where e = "sample_env 0 0" and i = 60 and request = sample_ack]
  have "\<exists>r'. repo_release (hub_repo h') 60 = Some r' \<and>
      map_option ak_apply_status (hm_get (rl_ack_status r') 7) = Some ''failed'' \<and>
      rl_status r' = aggregate_release_status (rl_ack_status r')"
    unfolding h' prod.case sum.case sel by (metis (mono_tags, lifting) fun_upd_same)
  then show ?thesis by (simp add: h')
qed

end
