(* ===== verification/Hub_Sites.thy ===== *)
theory Hub_Sites
  imports Hub_Releases
begin

text \<open>
  Sites (\<open>HubService::create_site\<close> to \<open>bind_site_nodes\<close>, and \<open>switch_site_primary\<close>): codes that
  are unique among the sites, bindings to nodes with exactly one primary, and the switch of the
  primary.

  A version is a \<open>u32\<close> and wraps around, as in a release build.
\<close>

subsection \<open>Site codes\<close>

definition slug_char :: "char \<Rightarrow> char option" where
  "slug_char ch =
     (if ascii_lower ch \<or> ascii_digit ch then Some ch
      else if ascii_upper ch then Some (char_to_ascii_lowercase ch)
      else if ch \<in> {CHR ''-'', CHR ''_'', CHR ''.'', CHR '' ''} then Some (CHR ''-'')
      else None)"

definition slug_step :: "char \<Rightarrow> string \<times> bool \<Rightarrow> string \<times> bool" where
  "slug_step ch acc =
     (case acc of (value, previous_dash) \<Rightarrow>
        (case slug_char ch of
           None \<Rightarrow> (value, previous_dash)
         | Some ch \<Rightarrow>
             if ch = CHR ''-'' then
               (if previous_dash \<or> value = [] then (value, previous_dash) else (value @ [ch], True))
             else (value @ [ch], False)))"

definition slugify_site_code :: "string \<Rightarrow> string" where
  "slugify_site_code raw = trim_matches (CHR ''-'') (fst (fold slug_step raw ([], False)))"

text \<open>The base of a new code and the number of identifiers drawn for it.\<close>

definition site_code_base :: "runtime \<Rightarrow> string option \<Rightarrow> string \<Rightarrow> string \<Rightarrow> string \<times> nat" where
  "site_code_base e preferred name domain =
     (let nonempty = opt_filter (\<lambda>value. value \<noteq> []) in
      case or_else
          (nonempty (map_option slugify_site_code (nonempty (map_option trim preferred))))
          (or_else
            (nonempty (Some (slugify_site_code (hd (split_on (CHR ''.'') domain)))))
            (nonempty (Some (slugify_site_code name)))) of
        Some base \<Rightarrow> (base, 0)
      | None \<Rightarrow> (''site-'' @ env_simple_uuid e (env_uuid e 0), 1))"

definition suffixed :: "string \<Rightarrow> u32 \<Rightarrow> string" where
  "suffixed base suffix_no = base @ ''-'' @ nat_to_string (unat suffix_no)"

text \<open>
  The loop that looks for a free code; it yields None if it never finds one. The suffix is a
  \<open>u32\<close> that wraps around, as in a release build.
\<close>

partial_function (option) free_site_code ::
  "memory_state \<Rightarrow> string \<Rightarrow> string \<Rightarrow> u32 \<Rightarrow> string option" where
  "free_site_code s base candidate suffix_no =
     (if repo_site_id_by_code s candidate \<noteq> None
      then free_site_code s base (suffixed base (suffix_no + 1)) (suffix_no + 1)
      else Some candidate)"

declare free_site_code.simps [code]

definition generate_unique_site_code ::
  "runtime \<Rightarrow> memory_state \<Rightarrow> string option \<Rightarrow> string \<Rightarrow> string \<Rightarrow> (string \<times> nat) option" where
  "generate_unique_site_code e s preferred name domain =
     (let (base, used) = site_code_base e preferred name domain
      in map_option (\<lambda>code. (code, used)) (free_site_code s base base 1))"

subsection \<open>Operations\<close>

definition parse_protocol :: "string \<Rightarrow> protocol api_result" where
  "parse_protocol raw =
     (let p = to_ascii_lowercase raw
      in if p = ''http'' then Inr Http
         else if p = ''https'' then Inr Https
         else if p = ''tcp'' then Inr Tcp
         else Inl (bad_request ''unsupported protocol''))"

text \<open>None: the search for a free code does not end.\<close>

definition create_site :: "runtime \<Rightarrow> create_site_request \<Rightarrow> hub \<Rightarrow> create_site_response hub_out option" where
  "create_site e request h =
     (if trim (csq_domain request) = [] then Some (Inl (bad_request ''domain is required''), h)
      else
        (case result_bind (validate_site_config (csq_config request))
                (\<lambda>_. parse_protocol (csq_protocol request)) of
           Inl err \<Rightarrow> Some (Inl err, h)
         | Inr protocol \<Rightarrow>
             (case generate_unique_site_code e (hub_repo h) (csq_site_code request) (csq_name request)
                     (csq_domain request) of
                None \<Rightarrow> None
              | Some (site_code, used) \<Rightarrow>
                  (let site_id = env_uuid e used;
                       site = \<lparr>st_id = site_id, st_site_code = site_code, st_name = csq_name request,
                         st_domain = csq_domain request, st_listen_port = csq_listen_port request,
                         st_protocol = protocol, st_tls_enabled = csq_tls_enabled request,
                         st_status = Draft, st_version = 1, st_config = csq_config request,
                         st_bindings = []\<rparr>
                   in Some (Inr \<lparr>csr_site_id = site_id, csr_site_code = site_code,
                              csr_version = st_version site, csr_status = site_status_name (st_status site)\<rparr>,
                            with_repo (repo_save_site site) h)))))"

definition update_site :: "uuid \<Rightarrow> update_site_request \<Rightarrow> hub \<Rightarrow> create_site_response hub_out" where
  "update_site site_id request h =
     try_ok (parse_protocol (usq_protocol request)) h (\<lambda>protocol.
     try_ok (validate_site_config (usq_config request)) h (\<lambda>_.
     try_ok (ok_or (not_found ''site not found'') (repo_site (hub_repo h) site_id)) h (\<lambda>site.
       let site = site\<lparr>st_name := usq_name request, st_domain := usq_domain request,
             st_listen_port := usq_listen_port request, st_protocol := protocol,
             st_tls_enabled := usq_tls_enabled request, st_config := usq_config request,
             st_version := st_version site + 1, st_status := Draft\<rparr>
       in (Inr \<lparr>csr_site_id = site_id, csr_site_code = st_site_code site, csr_version = st_version site,
                csr_status = site_status_name (st_status site)\<rparr>,
           with_repo (repo_save_site site) h))))"

definition update_site_status :: "runtime \<Rightarrow> uuid \<Rightarrow> bool \<Rightarrow> hub \<Rightarrow> update_site_status_response hub_out" where
  "update_site_status e site_id enabled h =
     try_ok (ok_or (not_found ''site not found'') (repo_site (hub_repo h) site_id)) h (\<lambda>site.
       let site = site\<lparr>st_status := (if enabled
                 then (if st_bindings site = [] then Draft else Published) else Disabled),
             st_version := st_version site + 1\<rparr>;
           h = with_repo (repo_save_site site) h;
           response = \<lparr>ssr_site_id = site_id, ssr_site_code = st_site_code site,
             ssr_status = site_status_name (st_status site), ssr_version = st_version site\<rparr>
       in if st_bindings site \<noteq> []
          then and_then (save_site_release e site (if enabled then ''enable'' else ''disable'')
                   ((if enabled then ''enable site '' else ''disable site '') @ st_site_code site) h)
                 (\<lambda>_ h. (Inr response, h))
          else (Inr response, h))"

definition delete_site :: "runtime \<Rightarrow> uuid \<Rightarrow> hub \<Rightarrow> delete_site_response hub_out" where
  "delete_site e site_id h =
     try_ok (ok_or (not_found ''site not found'') (repo_site (hub_repo h) site_id)) h (\<lambda>site.
       and_then (if st_bindings site \<noteq> []
           then and_then (save_site_cleanup_release e site (map sb_node_id (st_bindings site)) ''delete site'' h)
                  (\<lambda>_ h. (Inr (), h))
           else (Inr (), h)) (\<lambda>_ h.
         (Inr \<lparr>dsr_site_id = site_id, dsr_site_code = st_site_code site, dsr_deleted = True\<rparr>,
          with_repo (repo_delete_site site_id) h)))"

definition primary_site_binding :: "site_record \<Rightarrow> site_binding_record option" where
  "primary_site_binding site =
     or_else (List.find (\<lambda>binding. sb_binding_role binding = ''primary'') (st_bindings site))
       (case st_bindings site of [] \<Rightarrow> None | binding # _ \<Rightarrow> Some binding)"

definition node_lookup :: "hub \<Rightarrow> (uuid, node_record) hashmap" where
  "node_lookup h =
     fold (\<lambda>node m. hm_insert (ni_id (nd_identity node)) node m) (repo_list_nodes (hub_repo h)) []"

definition site_overview_of :: "(uuid, node_record) hashmap \<Rightarrow> site_record \<Rightarrow> site_overview" where
  "site_overview_of lookup site =
     (let primary_node = (case primary_site_binding site of
            None \<Rightarrow> None | Some binding \<Rightarrow> hm_get lookup (sb_node_id binding))
      in \<lparr>sov_site_id = st_id site, sov_site_code = st_site_code site, sov_name = st_name site,
          sov_domain = st_domain site, sov_protocol = protocol_name (st_protocol site),
          sov_status = site_status_name (st_status site), sov_version = st_version site,
          sov_binding_count = length (st_bindings site),
          sov_primary_node_id = map_option (\<lambda>node. ni_id (nd_identity node)) primary_node,
          sov_primary_node_code = map_option (\<lambda>node. ni_node_code (nd_identity node)) primary_node,
          sov_primary_node_name = map_option (\<lambda>node. ni_name (nd_identity node)) primary_node,
          sov_primary_node_status =
            map_option (\<lambda>node. node_status_name (ni_status (nd_identity node))) primary_node\<rparr>)"

definition list_sites :: "hub \<Rightarrow> site_overview list api_result" where
  "list_sites h =
     Inr (sort_key sov_site_code (map (site_overview_of (node_lookup h)) (repo_list_sites (hub_repo h))))"

definition site_binding_item :: "(uuid, node_record) hashmap \<Rightarrow> site_binding_record \<Rightarrow> site_binding_item" where
  "site_binding_item lookup binding =
     (let node = hm_get lookup (sb_node_id binding)
      in \<lparr>sbi_node_id = sb_node_id binding, sbi_binding_role = sb_binding_role binding,
          sbi_priority = sb_priority binding,
          sbi_node_code = map_option (\<lambda>node. ni_node_code (nd_identity node)) node,
          sbi_node_name = map_option (\<lambda>node. ni_name (nd_identity node)) node,
          sbi_node_status = map_option (\<lambda>node. node_status_name (ni_status (nd_identity node))) node\<rparr>)"

definition site_detail :: "uuid \<Rightarrow> hub \<Rightarrow> site_detail api_result" where
  "site_detail site_id h =
     result_bind (ok_or (not_found ''site not found'') (repo_site (hub_repo h) site_id)) (\<lambda>site.
       Inr \<lparr>sdt_site_id = st_id site, sdt_site_code = st_site_code site, sdt_name = st_name site,
            sdt_domain = st_domain site, sdt_listen_port = st_listen_port site,
            sdt_protocol = protocol_name (st_protocol site), sdt_tls_enabled = st_tls_enabled site,
            sdt_status = site_status_name (st_status site), sdt_version = st_version site,
            sdt_config = st_config site,
            sdt_bindings = map (site_binding_item (node_lookup h)) (st_bindings site)\<rparr>)"

definition normalize_binding_role :: "string \<Rightarrow> string api_result" where
  "normalize_binding_role raw =
     (let role = to_ascii_lowercase (trim raw)
      in if role = ''primary'' then Inr ''primary''
         else if role = ''standby'' then Inr ''standby''
         else Inl (bad_request ''binding_role must be one of primary, standby''))"

text \<open>The loop of \<open>normalize_site_bindings\<close>: the nodes seen, the number of primaries, the result.\<close>

fun collect_bindings ::
  "(uuid \<Rightarrow> string) \<Rightarrow> uuid set \<Rightarrow> nat \<Rightarrow> site_binding_record list \<Rightarrow> site_binding_item list \<Rightarrow>
   (nat \<times> site_binding_record list) api_result" where
  "collect_bindings display seen primary_count bindings [] = Inr (primary_count, bindings)"
| "collect_bindings display seen primary_count bindings (binding # raw) =
     (if sbi_node_id binding \<in> seen
      then Inl (bad_request (''duplicate binding for node '' @ display (sbi_node_id binding)))
      else
        result_bind (normalize_binding_role (sbi_binding_role binding)) (\<lambda>binding_role.
          collect_bindings display (insert (sbi_node_id binding) seen)
            (if binding_role = ''primary'' then primary_count + 1 else primary_count)
            (bindings @ [\<lparr>sb_node_id = sbi_node_id binding, sb_binding_role = binding_role,
               sb_priority = sbi_priority binding\<rparr>]) raw))"

definition normalize_site_bindings ::
  "(uuid \<Rightarrow> string) \<Rightarrow> site_binding_item list \<Rightarrow> site_binding_record list api_result" where
  "normalize_site_bindings display raw =
     (if raw = [] then Inl (bad_request ''at least one binding is required'')
      else
        result_bind (collect_bindings display {} 0 [] raw) (\<lambda>(primary_count, bindings).
          if primary_count \<noteq> 1 then Inl (bad_request ''exactly one primary binding is required'')
          else Inr (sort_key sb_priority bindings)))"

definition bind_site_nodes ::
  "runtime \<Rightarrow> uuid \<Rightarrow> site_binding_item list \<Rightarrow> hub \<Rightarrow> create_site_bindings_response hub_out" where
  "bind_site_nodes e site_id request_bindings h =
     try_ok (normalize_site_bindings (env_display_uuid e) request_bindings) h (\<lambda>bindings.
       case List.find (\<lambda>binding. repo_node (hub_repo h) (sb_node_id binding) = None) bindings of
         Some binding \<Rightarrow>
           (Inl (not_found (''node '' @ env_display_uuid e (sb_node_id binding) @ '' not found'')), h)
       | None \<Rightarrow>
           try_ok (ok_or (not_found ''site not found'') (repo_site (hub_repo h) site_id)) h (\<lambda>site.
             (Inr \<lparr>cbr_site_id = site_id, cbr_binding_count = length bindings\<rparr>,
              with_repo (repo_save_site (site\<lparr>st_bindings := bindings\<rparr>)) h)))"

subsection \<open>Switching the primary\<close>

definition switch_target_node :: "memory_state \<Rightarrow> site_record \<Rightarrow> uuid option \<Rightarrow> uuid option \<Rightarrow> uuid api_result" where
  "switch_target_node s site current_primary_node_id requested =
     (case requested of
        Some target_node_id \<Rightarrow>
          if repo_node s target_node_id = None then Inl (not_found ''target node not found'')
          else Inr target_node_id
      | None \<Rightarrow>
          ok_or (conflict ''site has no standby node to switch to'')
            (map_option sb_node_id
              (or_else
                (List.find (\<lambda>binding. sb_binding_role binding = ''standby'')
                  (filter (\<lambda>binding. Some (sb_node_id binding) \<noteq> current_primary_node_id) (st_bindings site)))
                (List.find (\<lambda>binding. Some (sb_node_id binding) \<noteq> current_primary_node_id) (st_bindings site)))))"

text \<open>The loop over the remaining bindings, which renumbers their priorities.\<close>

fun renumber_bindings ::
  "uuid \<Rightarrow> uuid option \<Rightarrow> int \<Rightarrow> site_binding_record list \<Rightarrow> site_binding_record list" where
  "renumber_bindings target_node_id previous next_priority [] = []"
| "renumber_bindings target_node_id previous next_priority (binding # remaining) =
     (if sb_node_id binding = target_node_id \<or> Some (sb_node_id binding) = previous
      then renumber_bindings target_node_id previous next_priority remaining
      else
        \<lparr>sb_node_id = sb_node_id binding,
         sb_binding_role = (if sb_binding_role binding = ''primary'' then ''standby'' else sb_binding_role binding),
         sb_priority = next_priority\<rparr>
        # renumber_bindings target_node_id previous (next_priority + 100) remaining)"

definition switched_bindings ::
  "uuid \<Rightarrow> uuid option \<Rightarrow> bool \<Rightarrow> site_binding_record list \<Rightarrow> site_binding_record list" where
  "switched_bindings target_node_id previous keep_previous_as_standby bindings =
     (let new_bindings = [\<lparr>sb_node_id = target_node_id, sb_binding_role = ''primary'', sb_priority = 100\<rparr>];
          (new_bindings, next_priority) =
            (case previous of
               Some previous_primary_node_id \<Rightarrow>
                 if keep_previous_as_standby \<and> previous_primary_node_id \<noteq> target_node_id
                 then (new_bindings @ [\<lparr>sb_node_id = previous_primary_node_id,
                         sb_binding_role = ''standby'', sb_priority = 200\<rparr>], 300)
                 else (new_bindings, 200)
             | None \<Rightarrow> (new_bindings, 200))
      in new_bindings @ renumber_bindings target_node_id previous next_priority (sort_key sb_priority bindings))"

definition select_next_failover_policy_standby :: "site_binding_record list \<Rightarrow> uuid \<Rightarrow> uuid option" where
  "select_next_failover_policy_standby bindings primary_node_id =
     map_option sb_node_id
       (min_by_key sb_priority
         (filter (\<lambda>binding. sb_node_id binding \<noteq> primary_node_id \<and> sb_binding_role binding = ''standby'') bindings))"

definition switch_site_primary ::
  "runtime \<Rightarrow> uuid \<Rightarrow> switch_site_primary_request \<Rightarrow> hub \<Rightarrow> switch_site_primary_response hub_out" where
  "switch_site_primary e site_id request h =
     try_ok (ok_or (not_found ''site not found'') (repo_site (hub_repo h) site_id)) h (\<lambda>site.
       if st_bindings site = [] then (Inl (bad_request ''site has no node bindings''), h)
       else
         let current_primary_node_id = map_option sb_node_id (primary_site_binding site)
         in try_ok (switch_target_node (hub_repo h) site current_primary_node_id (spq_target_node_id request)) h
              (\<lambda>target_node_id.
              if current_primary_node_id = Some target_node_id
              then (Inl (conflict ''target node is already the primary node''), h)
              else
                let keep_previous_as_standby = unwrap_or True (spq_keep_previous_as_standby request);
                    bindings = switched_bindings target_node_id current_primary_node_id
                      keep_previous_as_standby (st_bindings site);
                    next_standby_node_id = select_next_failover_policy_standby bindings target_node_id;
                    site = site\<lparr>st_bindings := bindings, st_status := Draft, st_version := st_version site + 1\<rparr>;
                    h = with_repo (repo_save_site site) h;
                    h = (case next_standby_node_id of
                           None \<Rightarrow> h
                         | Some next_standby_node_id \<Rightarrow>
                             with_repo (\<lambda>s. snd (repo_update_active_failover_policy_targets site_id target_node_id
                               next_standby_node_id s)) h)
                in and_then (create_release e
                       \<lparr>crq_scope_type = ''site'', crq_scope_id = site_id, crq_release_type = ''switch'',
                        crq_reason = unwrap_or (''switch primary node for '' @ st_site_code site @ '' to '' @
                          env_display_uuid e target_node_id) (spq_reason request)\<rparr> h)
                     (\<lambda>release h.
                       (Inr \<lparr>spr_site_id = site_id, spr_previous_primary_node_id = current_primary_node_id,
                             spr_current_primary_node_id = target_node_id,
                             spr_next_standby_node_id = next_standby_node_id,
                             spr_binding_count = length (st_bindings site),
                             spr_release_id = crr_release_id release,
                             spr_release_version = crr_release_version release\<rparr>, h))))"

subsection \<open>Unique codes\<close>

text \<open>The candidates the search goes through: the base, then the base with suffix 2, 3, and so on.\<close>

definition code_candidate :: "string \<Rightarrow> nat \<Rightarrow> string" where
  "code_candidate base k = (if k = 0 then base else suffixed base (of_nat (Suc k)))"

lemma code_candidate_inject:
  assumes "i < 2 ^ 32 - 1" "j < 2 ^ 32 - 1" "code_candidate base i = code_candidate base j"
  shows "i = j"
proof -
  have "unat (of_nat (Suc k) :: u32) = Suc k" if "k < 2 ^ 32 - 1" for k
    unfolding unat_of_nat using that by simp
  with assms show ?thesis
    by (auto simp: code_candidate_def suffixed_def split: if_splits)
qed

text \<open>The search returns the first candidate that is free.\<close>

lemma free_site_code_first:
  assumes "\<And>j. j < k \<Longrightarrow> repo_site_id_by_code s (code_candidate base (i + j)) \<noteq> None"
    and "repo_site_id_by_code s (code_candidate base (i + k)) = None"
  shows "free_site_code s base (code_candidate base i) (of_nat (Suc i)) = Some (code_candidate base (i + k))"
  using assms
proof (induction k arbitrary: i)
  case 0
  then show ?case by (subst free_site_code.simps) simp
next
  case (Suc k)
  have "repo_site_id_by_code s (code_candidate base i) \<noteq> None" using Suc.prems(1) [of 0] by simp
  then have "free_site_code s base (code_candidate base i) (of_nat (Suc i)) =
      free_site_code s base (suffixed base (of_nat (Suc i) + 1)) (of_nat (Suc i) + 1)"
    by (subst free_site_code.simps) simp
  also have "(of_nat (Suc i) + 1 :: u32) = of_nat (Suc (Suc i))" by simp
  also have "suffixed base (of_nat (Suc (Suc i))) = code_candidate base (Suc i)"
    by (simp add: code_candidate_def)
  also have "free_site_code s base (code_candidate base (Suc i)) (of_nat (Suc (Suc i))) =
      Some (code_candidate base (Suc i + k))"
    by (rule Suc.IH) (use Suc.prems in \<open>force, simp\<close>)
  finally show ?case by simp
qed

lemma free_candidate_exists:
  assumes "length (site_ids_by_code s) < 2 ^ 32 - 1"
  shows "\<exists>k \<le> length (site_ids_by_code s). repo_site_id_by_code s (code_candidate base k) = None"
proof (rule ccontr)
  let ?m = "site_ids_by_code s" and ?n = "length (site_ids_by_code s)"
  assume "\<not> ?thesis"
  then have "code_candidate base ` {..?n} \<subseteq> fst ` set ?m"
    by (auto simp: repo_site_id_by_code_def hm_get_def map_of_eq_None_iff)
  then have "card (code_candidate base ` {..?n}) \<le> card (fst ` set ?m)"
    by (intro card_mono) auto
  also have "\<dots> \<le> ?n" by (metis card_length length_map list.set_map)
  also have "inj_on (code_candidate base) {..?n}"
    by (rule inj_onI) (use assms code_candidate_inject in force)
  then have "card (code_candidate base ` {..?n}) = Suc ?n" by (simp add: card_image)
  ultimately show False by simp
qed

text \<open>
  The search for a site code ends. As long as fewer than \<open>2 ^ 32 - 1\<close> codes are in use,
  \<open>generate_unique_site_code\<close> returns; the code it returns is the base, or the base with a number
  appended, and no site has it.
\<close>

theorem generate_unique_site_code_free:
  assumes "length (site_ids_by_code s) < 2 ^ 32 - 1"
  shows "\<exists>code k. generate_unique_site_code e s preferred name domain =
      Some (code, snd (site_code_base e preferred name domain)) \<and>
    repo_site_id_by_code s code = None \<and> k \<le> length (site_ids_by_code s) \<and>
    code = code_candidate (fst (site_code_base e preferred name domain)) k"
proof -
  let ?base = "fst (site_code_base e preferred name domain)"
  define k where "k = (LEAST k. repo_site_id_by_code s (code_candidate ?base k) = None)"
  from free_candidate_exists [OF assms, of ?base] obtain k' where
    k': "k' \<le> length (site_ids_by_code s)" "repo_site_id_by_code s (code_candidate ?base k') = None" by blast
  have k: "repo_site_id_by_code s (code_candidate ?base k) = None" "k \<le> k'"
    unfolding k_def using k'(2) by (auto intro: LeastI Least_le)
  have "free_site_code s ?base (code_candidate ?base 0) (of_nat (Suc 0)) = Some (code_candidate ?base (0 + k))"
  proof (rule free_site_code_first)
    show "repo_site_id_by_code s (code_candidate ?base (0 + j)) \<noteq> None" if "j < k" for j
      using not_less_Least [OF that [unfolded k_def]] by simp
  qed (simp add: k)
  then have "generate_unique_site_code e s preferred name domain =
      Some (code_candidate ?base k, snd (site_code_base e preferred name domain))"
    by (simp add: generate_unique_site_code_def code_candidate_def case_prod_beta)
  with k k' show ?thesis by (intro exI [of _ "code_candidate ?base k"] exI [of _ k]) simp
qed

definition sample_site_codes :: memory_state where
  "sample_site_codes = empty_memory_state\<lparr>site_ids_by_code := [(''shop'', 1), (''shop-2'', 2)]\<rparr>"

theorem generate_unique_site_code_free_witness:
  "\<exists>code. generate_unique_site_code (sample_env 0 0) sample_site_codes None ''Shop'' ''shop.example.com'' = Some (code, 0) \<and>
     repo_site_id_by_code sample_site_codes code = None"
proof -
  have "length (site_ids_by_code sample_site_codes) < 2 ^ 32 - 1"
    by (simp add: sample_site_codes_def)
  moreover have "snd (site_code_base (sample_env 0 0) None ''Shop'' ''shop.example.com'') = 0" by code_simp
  ultimately show ?thesis
    using generate_unique_site_code_free [of sample_site_codes "sample_env 0 0" None "''Shop''" "''shop.example.com''"]
    by auto
qed

text \<open>The shape of a code: letters and digits, separated by single dashes.\<close>

definition slug_letter :: "char \<Rightarrow> bool" where
  "slug_letter c \<longleftrightarrow> ascii_lower c \<or> ascii_digit c"

definition slug_open :: "string \<Rightarrow> bool" where
  "slug_open v \<longleftrightarrow> (\<forall>c \<in> set v. slug_letter c \<or> c = CHR ''-'') \<and> (v \<noteq> [] \<longrightarrow> hd v \<noteq> CHR ''-'') \<and>
     successively (\<lambda>a b. a \<noteq> CHR ''-'' \<or> b \<noteq> CHR ''-'') v"

definition slug :: "string \<Rightarrow> bool" where
  "slug v \<longleftrightarrow> slug_open v \<and> (v \<noteq> [] \<longrightarrow> last v \<noteq> CHR ''-'')"

definition ends_in_dash :: "string \<Rightarrow> bool" where
  "ends_in_dash v \<longleftrightarrow> v \<noteq> [] \<and> last v = CHR ''-''"

lemma dash_no_letter [simp]: "\<not> slug_letter (CHR ''-'')"
  by code_simp

lemma ascii_lower_upper: "ascii_upper c \<Longrightarrow> ascii_lower (char_to_ascii_lowercase c)"
  by (auto simp: char_to_ascii_lowercase_def ascii_upper_def ascii_lower_def)

lemma slug_char_cases:
  "slug_char c = Some d \<Longrightarrow> slug_letter d \<or> d = CHR ''-''"
  by (auto simp: slug_char_def slug_letter_def ascii_lower_upper split: if_splits)

lemma slug_char_fixed: "slug_letter c \<or> c = CHR ''-'' \<Longrightarrow> slug_char c = Some c"
  by (auto simp: slug_char_def slug_letter_def ascii_upper_def ascii_lower_def ascii_digit_def byte_def)

lemma slug_open_snoc:
  "slug_open (v @ [c]) \<longleftrightarrow> slug_open v \<and> (slug_letter c \<or> (c = CHR ''-'' \<and> v \<noteq> [] \<and> \<not> ends_in_dash v))"
  by (cases "v = []") (auto simp: slug_open_def ends_in_dash_def successively_append_iff)

lemma slug_step_open:
  "slug_open v \<Longrightarrow> slug_step c (v, ends_in_dash v) = (v', p) \<Longrightarrow> slug_open v' \<and> p = ends_in_dash v'"
  using slug_char_cases [of c]
  by (auto simp: slug_step_def slug_open_snoc split: option.splits if_splits) (auto simp: ends_in_dash_def)

lemma fold_slug_step_open:
  "slug_open v \<Longrightarrow> fold slug_step raw (v, ends_in_dash v) = (v', p) \<Longrightarrow> slug_open v' \<and> p = ends_in_dash v'"
proof (induction raw arbitrary: v)
  case (Cons c raw)
  obtain w q where w: "slug_step c (v, ends_in_dash v) = (w, q)" by force
  from slug_step_open [OF Cons.prems(1) this] Cons.prems(2) show ?case
    by (intro Cons.IH [of w]) (simp_all add: w)
qed simp

lemma slug_open_prefix: "slug_open v \<Longrightarrow> prefix w v \<Longrightarrow> slug_open w"
  by (auto simp: slug_open_def prefix_def successively_append_iff)

lemma trim_matches_slug: "slug_open v \<Longrightarrow> slug (trim_matches (CHR ''-'') v)"
proof -
  assume v: "slug_open v"
  have pre: "prefix (trim_end_matches (CHR ''-'') v) v"
    unfolding trim_end_matches_def by (metis rev_rev_ident suffix_dropWhile suffix_to_prefix)
  have start: "trim_start_matches (CHR ''-'') v = v"
    using v by (cases v) (auto simp: trim_start_matches_def slug_open_def)
  have "slug_open (trim_end_matches (CHR ''-'') v)" by (rule slug_open_prefix [OF v pre])
  then show ?thesis
    using trim_end_matches_last [of "CHR ''-''" v] by (simp add: slug_def trim_matches_def start)
qed

lemma fold_slug_step_id: "slug_open v \<Longrightarrow> fold slug_step v ([], False) = (v, ends_in_dash v)"
proof (induction v rule: rev_induct)
  case (snoc c v)
  then have "fold slug_step v ([], False) = (v, ends_in_dash v)" by (simp add: slug_open_snoc)
  moreover have "slug_step c (v, ends_in_dash v) = (v @ [c], ends_in_dash (v @ [c]))"
    using snoc.prems slug_char_fixed [of c] by (auto simp: slug_open_snoc slug_step_def ends_in_dash_def)
  ultimately show ?case by simp
qed (simp add: ends_in_dash_def)

lemma trim_matches_slug_id: "slug v \<Longrightarrow> trim_matches (CHR ''-'') v = v"
  by (cases v) (auto simp: slug_def slug_open_def trim_matches_def trim_start_matches_def trim_end_matches_fixed)

text \<open>
  A slug consists of lower-case letters, digits and single dashes, and neither starts nor
  ends with a dash; making a slug of a slug changes nothing.
\<close>

theorem slugify_site_code_shape:
  "slug (slugify_site_code raw) \<and> slugify_site_code (slugify_site_code raw) = slugify_site_code raw"
proof -
  have id: "slugify_site_code v = v" if "slug v" for v
    using that by (simp add: slugify_site_code_def fold_slug_step_id trim_matches_slug_id slug_def)
  obtain v p where v: "fold slug_step raw ([], False) = (v, p)" by force
  have "slug_open v" using fold_slug_step_open [of "[]" raw v p] v by (simp add: slug_open_def ends_in_dash_def)
  then have "slug (slugify_site_code raw)" by (simp add: slugify_site_code_def v trim_matches_slug)
  with id show ?thesis by blast
qed

subsection \<open>Bindings\<close>

abbreviation primaries :: "site_binding_record list \<Rightarrow> site_binding_record list" where
  "primaries bs \<equiv> filter (\<lambda>b. sb_binding_role b = ''primary'') bs"

text \<open>What the bindings of a bound site look like: one per node, and exactly one primary.\<close>

definition bindings_ok :: "site_binding_record list \<Rightarrow> bool" where
  "bindings_ok bs \<longleftrightarrow> distinct (map sb_node_id bs) \<and> length (primaries bs) = 1 \<and>
     (\<forall>b \<in> set bs. sb_binding_role b \<in> {''primary'', ''standby''})"

definition binding_of :: "site_binding_item \<Rightarrow> site_binding_record" where
  "binding_of b = \<lparr>sb_node_id = sbi_node_id b, sb_binding_role = to_ascii_lowercase (trim (sbi_binding_role b)),
     sb_priority = sbi_priority b\<rparr>"

lemma normalize_binding_role_Inr:
  "normalize_binding_role raw = Inr role \<longleftrightarrow>
     role = to_ascii_lowercase (trim raw) \<and> role \<in> {''primary'', ''standby''}"
  by (auto simp: normalize_binding_role_def Let_def)

lemma collect_bindings_Inr:
  "collect_bindings display seen k acc raw = Inr (m, bs) \<longleftrightarrow>
     distinct (map sbi_node_id raw) \<and> set (map sbi_node_id raw) \<inter> seen = {} \<and>
     (\<forall>b \<in> set raw. sb_binding_role (binding_of b) \<in> {''primary'', ''standby''}) \<and>
     bs = acc @ map binding_of raw \<and> m = k + length (primaries (map binding_of raw))"
proof (induction raw arbitrary: seen k acc)
  case (Cons b raw)
  show ?case
  proof (cases "normalize_binding_role (sbi_binding_role b)")
    case (Inl err)
    then have "sb_binding_role (binding_of b) \<notin> {''primary'', ''standby''}"
      by (auto simp: normalize_binding_role_def binding_of_def Let_def split: if_splits)
    with Inl show ?thesis by auto
  next
    case (Inr role)
    then have "role = sb_binding_role (binding_of b)" "role \<in> {''primary'', ''standby''}"
      "\<lparr>sb_node_id = sbi_node_id b, sb_binding_role = role, sb_priority = sbi_priority b\<rparr> = binding_of b"
      by (auto simp: normalize_binding_role_Inr binding_of_def)
    with Inr show ?thesis by (auto simp: Cons.IH)
  qed
qed auto

lemma node_id_binding_of [simp]: "sb_node_id (binding_of b) = sbi_node_id b"
  by (simp add: binding_of_def)

lemma normalize_site_bindings_Inr:
  "normalize_site_bindings display raw = Inr bs \<longleftrightarrow>
     bindings_ok (map binding_of raw) \<and> bs = sort_key sb_priority (map binding_of raw)"
proof -
  have "normalize_site_bindings display raw = Inr bs \<longleftrightarrow> raw \<noteq> [] \<and>
      (\<exists>m bs'. collect_bindings display {} 0 [] raw = Inr (m, bs') \<and> m = 1 \<and> bs = sort_key sb_priority bs')"
    by (auto simp: normalize_site_bindings_def result_bind_eq_Inr split: if_splits prod.splits)
  also have "\<dots> \<longleftrightarrow> bindings_ok (map binding_of raw) \<and> bs = sort_key sb_priority (map binding_of raw)"
    unfolding collect_bindings_Inr by (auto simp: bindings_ok_def comp_def)
  finally show ?thesis .
qed

lemma filter_sort_key_length: "length (filter P (sort_key f xs)) = length (filter P xs)"
  by (metis mset_filter mset_sort size_mset)

lemma bindings_ok_sort: "bindings_ok (sort_key f bs) \<longleftrightarrow> bindings_ok bs"
proof -
  have "distinct (map sb_node_id (sort_key f bs)) \<longleftrightarrow> distinct (map sb_node_id bs)"
    by (rule mset_eq_imp_distinct_iff) simp
  then show ?thesis by (simp add: bindings_ok_def filter_sort_key_length)
qed

text \<open>
  C36: the bindings a request is turned into. They are accepted exactly when every node occurs
  once, every role is primary or standby (up to case and surrounding space) and exactly one is
  primary; the result has the same nodes with their roles in normal form and their priorities,
  in ascending order of priority.
\<close>

theorem normalize_site_bindings_spec:
  "(\<exists>bs. normalize_site_bindings display raw = Inr bs) = bindings_ok (map binding_of raw) \<and>
   (\<forall>bs. normalize_site_bindings display raw = Inr bs \<longrightarrow>
      bindings_ok bs \<and> mset bs = mset (map binding_of raw) \<and> sorted (map sb_priority bs))"
  by (auto simp: normalize_site_bindings_Inr bindings_ok_sort)

definition sample_items :: "site_binding_item list" where
  "sample_items =
     [\<lparr>sbi_node_id = 8, sbi_binding_role = '' Standby'', sbi_priority = 200, sbi_node_code = None,
       sbi_node_name = None, sbi_node_status = None\<rparr>,
      \<lparr>sbi_node_id = 7, sbi_binding_role = ''PRIMARY'', sbi_priority = 100, sbi_node_code = None,
       sbi_node_name = None, sbi_node_status = None\<rparr>]"

theorem normalize_site_bindings_spec_witness:
  "normalize_site_bindings sample_disp sample_items = Inr [sample_primary, sample_standby] \<and>
   sorted (map sb_priority [sample_primary, sample_standby])"
proof -
  have "normalize_site_bindings sample_disp sample_items = Inr [sample_primary, sample_standby]" by code_simp
  with normalize_site_bindings_spec [of sample_disp sample_items] show ?thesis by metis
qed

text \<open>The bindings after a switch.\<close>

lemma renumber_bindings_nodes:
  "map sb_node_id (renumber_bindings t p k bs) = filter (\<lambda>n. n \<noteq> t \<and> Some n \<noteq> p) (map sb_node_id bs)"
  by (induction t p k bs rule: renumber_bindings.induct) auto

lemma renumber_bindings_roles:
  "b \<in> set (renumber_bindings t p k bs) \<Longrightarrow> (\<forall>c \<in> set bs. sb_binding_role c \<in> {''primary'', ''standby''}) \<Longrightarrow>
   sb_binding_role b = ''standby''"
  by (induction t p k bs rule: renumber_bindings.induct) (auto split: if_splits)

lemma renumber_bindings_priorities:
  "sorted (map sb_priority (renumber_bindings t p k bs)) \<and>
   (\<forall>b \<in> set (renumber_bindings t p k bs). k \<le> sb_priority b)"
  by (induction t p k bs rule: renumber_bindings.induct) (simp, force)

lemma switched_bindings_eq:
  "switched_bindings t p keep bs =
     \<lparr>sb_node_id = t, sb_binding_role = ''primary'', sb_priority = 100\<rparr> #
     (case p of
        Some q \<Rightarrow> if keep \<and> q \<noteq> t
          then \<lparr>sb_node_id = q, sb_binding_role = ''standby'', sb_priority = 200\<rparr> #
            renumber_bindings t p 300 (sort_key sb_priority bs)
          else renumber_bindings t p 200 (sort_key sb_priority bs)
      | None \<Rightarrow> renumber_bindings t p 200 (sort_key sb_priority bs))"
  by (simp add: switched_bindings_def Let_def split: option.splits)

lemma switched_bindings_ok:
  assumes "bindings_ok bs"
  shows "bindings_ok (switched_bindings t p keep bs)" "sorted (map sb_priority (switched_bindings t p keep bs))"
    and "hd (switched_bindings t p keep bs) = \<lparr>sb_node_id = t, sb_binding_role = ''primary'', sb_priority = 100\<rparr>"
proof -
  have roles: "\<forall>c \<in> set (sort_key sb_priority bs). sb_binding_role c \<in> {''primary'', ''standby''}"
    using assms by (simp add: bindings_ok_def)
  have nodes: "distinct (map sb_node_id (sort_key sb_priority bs))"
    using assms bindings_ok_sort [of sb_priority bs] by (simp add: bindings_ok_def)
  have d: "distinct (map sb_node_id (renumber_bindings t p k (sort_key sb_priority bs)))" for k
    unfolding renumber_bindings_nodes using nodes by simp
  have n: "sb_node_id b \<noteq> t \<and> Some (sb_node_id b) \<noteq> p"
    if "b \<in> set (renumber_bindings t p k (sort_key sb_priority bs))" for b k
  proof -
    from that have "sb_node_id b \<in> set (map sb_node_id (renumber_bindings t p k (sort_key sb_priority bs)))" by simp
    then show ?thesis unfolding renumber_bindings_nodes by simp
  qed
  have r: "filter (\<lambda>b. sb_binding_role b = ''primary'') (renumber_bindings t p k (sort_key sb_priority bs)) = []" for k
    using renumber_bindings_roles [OF _ roles] by (fastforce simp: filter_empty_conv)
  show "bindings_ok (switched_bindings t p keep bs)"
    using d n r renumber_bindings_roles [OF _ roles]
    by (auto simp: bindings_ok_def switched_bindings_eq split: option.splits)
  show "sorted (map sb_priority (switched_bindings t p keep bs))"
    using renumber_bindings_priorities [of t p _ "sort_key sb_priority bs"]
    by (fastforce simp: switched_bindings_eq split: option.splits)
  show "hd (switched_bindings t p keep bs) = \<lparr>sb_node_id = t, sb_binding_role = ''primary'', sb_priority = 100\<rparr>"
    by (simp add: switched_bindings_eq)
qed

lemma renumber_bindings_numbers:
  "map sb_priority (renumber_bindings t p k bs) = map (\<lambda>i. k + 100 * int i) [0..<length (renumber_bindings t p k bs)]"
proof (induction t p k bs rule: renumber_bindings.induct)
  case (2 t p k b bs)
  then show ?case
    by (cases "sb_node_id b = t \<or> Some (sb_node_id b) = p") (simp_all add: upt_conv_Cons map_Suc_upt [symmetric] del: upt_Suc)
qed simp

lemma switched_bindings_order:
  assumes "t \<noteq> q"
  shows "map sb_node_id (switched_bindings t (Some q) keep bs) = t # (if keep then [q] else []) @
      filter (\<lambda>n. n \<noteq> t \<and> n \<noteq> q) (map sb_node_id (sort_key sb_priority bs))"
    and "map sb_priority (switched_bindings t (Some q) keep bs) =
      map (\<lambda>i. 100 * (int i + 1)) [0..<length (switched_bindings t (Some q) keep bs)]"
  using assms
  by (simp_all add: switched_bindings_eq renumber_bindings_nodes renumber_bindings_numbers upt_conv_Cons
      map_Suc_upt [symmetric] del: upt_Suc)

lemma switched_bindings_nodes:
  "sb_node_id ` set (switched_bindings t p keep bs) =
     insert t (sb_node_id ` set bs - (case p of None \<Rightarrow> {} | Some q \<Rightarrow> {q}) \<union>
       (case p of None \<Rightarrow> {} | Some q \<Rightarrow> if keep then {q} else {}))"
proof -
  have "sb_node_id ` set (renumber_bindings t p k (sort_key sb_priority bs)) =
      {n \<in> sb_node_id ` set bs. n \<noteq> t \<and> Some n \<noteq> p}" for k
    using arg_cong [OF renumber_bindings_nodes [of t p k "sort_key sb_priority bs"], of set] by auto
  then show ?thesis by (cases p) (simp_all add: switched_bindings_eq, blast+)
qed

subsection \<open>The invariant of the sites\<close>

text \<open>
  Sites are found under their identifier and code; a site that is bound has one binding per node
  and exactly one primary, and all its nodes exist.
\<close>

definition site_inv :: "memory_state \<Rightarrow> bool" where
  "site_inv s \<longleftrightarrow> hm_wf (sites s) \<and>
     index_fwd (sites s) (site_ids_by_code s) st_site_code st_id \<and>
     index_bwd (sites s) (site_ids_by_code s) st_site_code \<and>
     (\<forall>i site. repo_site s i = Some site \<longrightarrow> (st_bindings site = [] \<or> bindings_ok (st_bindings site)) \<and>
        (\<forall>b \<in> set (st_bindings site). repo_node s (sb_node_id b) \<noteq> None))"

lemma site_inv_id: "site_inv s \<Longrightarrow> repo_site s i = Some site \<Longrightarrow> st_id site = i"
  by (auto simp: site_inv_def repo_site_def dest: index_fwdD)

lemma site_inv_bindings: "site_inv s \<Longrightarrow> repo_site s i = Some site \<Longrightarrow> st_bindings site \<noteq> [] \<Longrightarrow> bindings_ok (st_bindings site)"
  by (auto simp: site_inv_def)

lemma primary_site_binding_Some:
  "st_bindings site \<noteq> [] \<Longrightarrow> \<exists>b. primary_site_binding site = Some b \<and> b \<in> set (st_bindings site)"
  by (cases "List.find (\<lambda>b. sb_binding_role b = ''primary'') (st_bindings site)")
    (auto simp: primary_site_binding_def dest: find_Some_in split: list.splits)

lemma find_first: "List.find P xs = Some x \<Longrightarrow> \<exists>us vs. xs = us @ x # vs \<and> P x \<and> (\<forall>u \<in> set us. \<not> P u)"
proof (induction xs)
  case (Cons y xs)
  show ?case
  proof (cases "P y")
    case True
    with Cons.prems show ?thesis by (intro exI [of _ "[]"] exI [of _ xs]) simp
  next
    case False
    with Cons obtain us vs where "xs = us @ x # vs" "P x" "\<forall>u \<in> set us. \<not> P u" by auto
    with False show ?thesis by (intro exI [of _ "y # us"] exI [of _ vs]) simp
  qed
qed simp

lemma primary_site_binding_role:
  assumes "bindings_ok (st_bindings site)" "primary_site_binding site = Some b"
  shows "b \<in> set (st_bindings site) \<and> (\<forall>c \<in> set (st_bindings site). sb_binding_role c = ''primary'' \<longleftrightarrow> sb_node_id c = sb_node_id b)"
proof -
  from assms(1) obtain p where p: "filter (\<lambda>c. sb_binding_role c = ''primary'') (st_bindings site) = [p]"
    by (auto simp: bindings_ok_def length_Suc_conv)
  then have set_p: "{c \<in> set (st_bindings site). sb_binding_role c = ''primary''} = {p}"
    by (metis (no_types) list.set(1) list.set(2) set_filter)
  have in_p: "sb_binding_role c = ''primary'' \<longleftrightarrow> c = p" if "c \<in> set (st_bindings site)" for c
    using that set_p by blast
  have p_in: "p \<in> set (st_bindings site)" "sb_binding_role p = ''primary''"
    using set_p by blast+
  then have "List.find (\<lambda>c. sb_binding_role c = ''primary'') (st_bindings site) \<noteq> None"
    by (auto simp: find_None_iff)
  then obtain c where c: "List.find (\<lambda>c. sb_binding_role c = ''primary'') (st_bindings site) = Some c" by blast
  with assms(2) have "b = c" by (simp add: primary_site_binding_def)
  moreover have "c = p" using find_first [OF c] in_p [of c] by auto
  ultimately have "b = p" by simp
  moreover have "c = d" if "c \<in> set (st_bindings site)" "d \<in> set (st_bindings site)" "sb_node_id c = sb_node_id d" for c d
    using assms(1) that by (auto simp: bindings_ok_def distinct_map inj_on_def)
  ultimately show ?thesis using in_p p_in by blast
qed

text \<open>The target of a switch is the node the request names, or the first standby.\<close>

lemma find_filter: "List.find P (filter Q xs) = List.find (\<lambda>x. Q x \<and> P x) xs"
  by (induction xs) auto

lemma switch_target_node_chosen:
  assumes "bindings_ok (st_bindings site)"
    and primary: "\<forall>b \<in> set (st_bindings site). sb_binding_role b = ''primary'' \<longleftrightarrow> sb_node_id b = prev"
    and target: "switch_target_node s site (Some prev) requested = Inr t"
  shows "case requested of
      Some n \<Rightarrow> t = n \<and> repo_node s n \<noteq> None
    | None \<Rightarrow> \<exists>us b vs. st_bindings site = us @ b # vs \<and> sb_node_id b = t \<and> sb_binding_role b = ''standby'' \<and>
        (\<forall>u \<in> set us. sb_binding_role u \<noteq> ''standby'')"
proof (cases requested)
  case None
  have standby: "sb_binding_role b = ''standby'' \<longleftrightarrow> sb_node_id b \<noteq> prev" if "b \<in> set (st_bindings site)" for b
    using that assms(1) primary by (auto simp: bindings_ok_def)
  have find_eq: "List.find (\<lambda>b. sb_node_id b \<noteq> prev) (st_bindings site) =
      List.find (\<lambda>b. sb_binding_role b = ''standby'') (st_bindings site)"
    "List.find (\<lambda>b. sb_node_id b \<noteq> prev \<and> sb_binding_role b = ''standby'') (st_bindings site) =
      List.find (\<lambda>b. sb_binding_role b = ''standby'') (st_bindings site)"
    using standby by (auto intro!: find_cong)
  from target None obtain b where "List.find (\<lambda>b. sb_binding_role b = ''standby'') (st_bindings site) = Some b"
    "sb_node_id b = t"
    by (auto simp: switch_target_node_def find_filter find_eq or_else_def ok_or_Inr_iff split: option.splits)
  with find_first [OF this(1)] None show ?thesis by auto
next
  case (Some n)
  with target show ?thesis by (auto simp: switch_target_node_def split: if_splits)
qed

lemma switch_site_primary_Inr:
  assumes "switch_site_primary e site_id request h = (Inr resp, h')"
  obtains site prev moved release hs where
    "repo_site (hub_repo h) site_id = Some site" "st_bindings site \<noteq> []"
    "spr_previous_primary_node_id resp = Some prev" "map_option sb_node_id (primary_site_binding site) = Some prev"
    "switch_target_node (hub_repo h) site (Some prev) (spq_target_node_id request) = Inr (spr_current_primary_node_id resp)"
    "spr_current_primary_node_id resp \<noteq> prev"
    "moved = site\<lparr>st_bindings := switched_bindings (spr_current_primary_node_id resp) (Some prev)
        (unwrap_or True (spq_keep_previous_as_standby request)) (st_bindings site),
      st_status := Draft, st_version := st_version site + 1\<rparr>"
    "hub_repo hs = repo_save_site moved (hub_repo h)"
    "\<exists>reason. create_release e \<lparr>crq_scope_type = ''site'', crq_scope_id = site_id, crq_release_type = ''switch'',
       crq_reason = reason\<rparr> hs = (Inr release, h')"
    "spr_release_version resp = crr_release_version release"
proof -
  from assms obtain site where site: "repo_site (hub_repo h) site_id = Some site" "st_bindings site \<noteq> []"
    by (auto simp: switch_site_primary_def try_ok_Inr_iff ok_or_Inr_iff split: if_splits)
  from primary_site_binding_Some [OF site(2)] obtain b where b: "primary_site_binding site = Some b"
    "b \<in> set (st_bindings site)" by blast
  from assms site b obtain t where t: "switch_target_node (hub_repo h) site (Some (sb_node_id b))
      (spq_target_node_id request) = Inr t" "t \<noteq> sb_node_id b"
    by (auto simp: switch_site_primary_def Let_def try_ok_Inr_iff split: if_splits)
  let ?site = "site\<lparr>st_bindings := switched_bindings t (Some (sb_node_id b))
        (unwrap_or True (spq_keep_previous_as_standby request)) (st_bindings site),
      st_status := Draft, st_version := st_version site + 1\<rparr>"
  have h1: "(case select_next_failover_policy_standby bs t of None \<Rightarrow> with_repo (repo_save_site ?site) h
      | Some n \<Rightarrow> with_repo (\<lambda>s. snd (repo_update_active_failover_policy_targets site_id t n s))
          (with_repo (repo_save_site ?site) h)) = with_repo (repo_save_site ?site) h" for bs
    by (auto simp: repo_update_active_failover_policy_targets_def with_repo_def split: option.splits)
  from assms site b t obtain reason release where r:
    "create_release e \<lparr>crq_scope_type = ''site'', crq_scope_id = site_id, crq_release_type = ''switch'',
       crq_reason = reason\<rparr> (with_repo (repo_save_site ?site) h) = (Inr release, h')"
    "spr_previous_primary_node_id resp = Some (sb_node_id b)" "spr_current_primary_node_id resp = t"
    "spr_release_version resp = crr_release_version release"
    by (auto simp: switch_site_primary_def Let_def h1 and_then_Inr_iff)
  show thesis
    by (rule that [where site = site and prev = "sb_node_id b" and hs = "with_repo (repo_save_site ?site) h"])
      (use site b t r in auto)
qed

lemma only_primary_first:
  assumes "bindings_ok bs" "bs \<noteq> []" "sb_binding_role (hd bs) = ''primary''" "b \<in> set (tl bs)"
  shows "sb_binding_role b = ''standby''"
proof -
  obtain c cs where bs: "bs = c # cs" using assms(2) by (cases bs) auto
  with assms have "filter (\<lambda>b. sb_binding_role b = ''primary'') cs = []" "b \<in> set cs" by (auto simp: bindings_ok_def)
  with assms(1) bs show ?thesis by (auto simp: bindings_ok_def filter_empty_conv)
qed

lemma create_release_offered:
  assumes "\<exists>reason. create_release e \<lparr>crq_scope_type = ''site'', crq_scope_id = site_id, crq_release_type = ty,
      crq_reason = reason\<rparr> h = (Inr release, h')"
    and "env_uuid e 0 \<noteq> env_uuid e 1" "repo_site (hub_repo h) site_id = Some site" "st_id site = site_id" "st_bindings site \<noteq> []"
  shows "repo_site (hub_repo h') site_id = Some (site\<lparr>st_status := Published\<rparr>)"
    and "\<forall>n \<in> sb_node_id ` set (st_bindings site). \<exists>lat. latest_release_for_node e' n h' = Inr lat \<and>
      lrr_release_version lat = crr_release_version release"
proof -
  from assms(1) obtain reason where rel: "create_release e \<lparr>crq_scope_type = ''site'', crq_scope_id = site_id,
      crq_release_type = ty, crq_reason = reason\<rparr> h = (Inr release, h')" (is "create_release e ?req h = _") by blast
  have site: "repo_site (hub_repo h) (crq_scope_id ?req) = Some site" "st_id site = crq_scope_id ?req" using assms(3,4) by simp_all
  from create_release_site [OF rel site] assms(5)
  show "repo_site (hub_repo h') site_id = Some (site\<lparr>st_status := Published\<rparr>)" by simp
  show "\<forall>n \<in> sb_node_id ` set (st_bindings site). \<exists>lat. latest_release_for_node e' n h' = Inr lat \<and>
      lrr_release_version lat = crr_release_version release"
  proof
    fix n
    assume n: "n \<in> sb_node_id ` set (st_bindings site)"
    from create_release_served(1) [OF rel assms(2) site(1) refl refl n] obtain r where
      r: "served h' n r" "rl_release_version r = crr_release_version release" by auto
    show "\<exists>lat. latest_release_for_node e' n h' = Inr lat \<and> lrr_release_version lat = crr_release_version release"
      by (rule served_package [OF r(1), of e']) (use r(2) in auto)
  qed
qed

text \<open>
  C18: What a switch of the primary leaves behind. The previous primary is the node whose binding has the
  role primary; the new one is the node the request names, which the hub must know, or the first standby. The
  site is bound to the new primary, then to the previous one if it is kept as a standby, then to all other nodes
  it was bound to in the order of their priorities, with the priorities 100, 200 and so on; the first binding is
  the only primary, and the others are standbys. Of the site nothing else changes but its version, which is one higher, and
  its status, published; and every bound node is offered the release the switch created.
\<close>

theorem switch_site_primary_spec:
  assumes "site_inv (hub_repo h)" "env_uuid e 0 \<noteq> env_uuid e 1"
    and "switch_site_primary e site_id request h = (Inr resp, h')"
  shows "\<exists>site site' prev new. repo_site (hub_repo h) site_id = Some site \<and> repo_site (hub_repo h') site_id = Some site' \<and>
    spr_previous_primary_node_id resp = Some prev \<and> spr_current_primary_node_id resp = new \<and> new \<noteq> prev \<and>
    prev \<in> sb_node_id ` set (st_bindings site) \<and>
    (\<forall>b \<in> set (st_bindings site). sb_binding_role b = ''primary'' \<longleftrightarrow> sb_node_id b = prev) \<and>
    (case spq_target_node_id request of
       Some n \<Rightarrow> new = n \<and> repo_node (hub_repo h) n \<noteq> None
     | None \<Rightarrow> \<exists>us b vs. st_bindings site = us @ b # vs \<and> sb_node_id b = new \<and> sb_binding_role b = ''standby'' \<and>
         (\<forall>u \<in> set us. sb_binding_role u \<noteq> ''standby'')) \<and>
    map sb_node_id (st_bindings site') = new # (if unwrap_or True (spq_keep_previous_as_standby request) then [prev] else []) @
      filter (\<lambda>n. n \<noteq> new \<and> n \<noteq> prev) (map sb_node_id (sort_key sb_priority (st_bindings site))) \<and>
    map sb_priority (st_bindings site') = map (\<lambda>i. 100 * (int i + 1)) [0..<length (st_bindings site')] \<and>
    sb_binding_role (hd (st_bindings site')) = ''primary'' \<and>
    (\<forall>b \<in> set (tl (st_bindings site')). sb_binding_role b = ''standby'') \<and> distinct (map sb_node_id (st_bindings site')) \<and>
    site' = site\<lparr>st_bindings := st_bindings site', st_status := Published, st_version := st_version site + 1\<rparr> \<and>
    (\<forall>n \<in> sb_node_id ` set (st_bindings site'). \<exists>lat. latest_release_for_node e' n h' = Inr lat \<and>
       lrr_release_version lat = spr_release_version resp)"
proof -
  from assms(3) obtain site prev site1 release h1 where s:
    "repo_site (hub_repo h) site_id = Some site" "st_bindings site \<noteq> []"
    "spr_previous_primary_node_id resp = Some prev" "map_option sb_node_id (primary_site_binding site) = Some prev"
    "switch_target_node (hub_repo h) site (Some prev) (spq_target_node_id request) = Inr (spr_current_primary_node_id resp)"
    "spr_current_primary_node_id resp \<noteq> prev"
    "site1 = site\<lparr>st_bindings := switched_bindings (spr_current_primary_node_id resp) (Some prev)
        (unwrap_or True (spq_keep_previous_as_standby request)) (st_bindings site),
      st_status := Draft, st_version := st_version site + 1\<rparr>"
    "hub_repo h1 = repo_save_site site1 (hub_repo h)"
    "\<exists>reason. create_release e \<lparr>crq_scope_type = ''site'', crq_scope_id = site_id, crq_release_type = ''switch'',
       crq_reason = reason\<rparr> h1 = (Inr release, h')"
    "spr_release_version resp = crr_release_version release"
    by (rule switch_site_primary_Inr)
  note ok = site_inv_bindings [OF assms(1) s(1,2)]
  have prev: "prev \<in> sb_node_id ` set (st_bindings site)"
    "\<forall>b \<in> set (st_bindings site). sb_binding_role b = ''primary'' \<longleftrightarrow> sb_node_id b = prev"
    using s(4) primary_site_binding_role [OF ok] by auto
  note switched = switched_bindings_ok [OF ok, of "spr_current_primary_node_id resp" "Some prev"
      "unwrap_or True (spq_keep_previous_as_standby request)"]
    switched_bindings_order [OF s(6), of "unwrap_or True (spq_keep_previous_as_standby request)" "st_bindings site"]
  have "st_id site = site_id" using site_inv_id [OF assms(1) s(1)] .
  then have site1: "repo_site (hub_repo h1) site_id = Some site1" "st_id site1 = site_id"
    by (simp_all add: s(7,8) repo_site_def repo_save_site_def)
  have ne: "st_bindings site1 \<noteq> []" by (simp add: s(7) switched_bindings_eq)
  note release = create_release_offered [OF s(9) assms(2) site1 ne, folded s(10)]
  have standby: "sb_binding_role b = ''standby''" if "b \<in> set (tl (st_bindings site1))" for b
    using switched(1,3) that ne only_primary_first [of "st_bindings site1"] by (simp add: s(7))
  show ?thesis
    using s(1,3,6) prev switch_target_node_chosen [OF ok prev(2) s(5)] switched standby release
    by (intro exI [of _ site] exI [of _ "site1\<lparr>st_status := Published\<rparr>"] exI [of _ prev] exI conjI)
      (simp_all add: s(7) bindings_ok_def)
qed

lemma site_inv_empty: "site_inv empty_memory_state"
  by (simp add: site_inv_def empty_memory_state_def index_fwd_def index_bwd_def repo_site_def)

text \<open>Saving a new site, or an existing one under its code.\<close>

lemma site_inv_save:
  assumes "site_inv s"
    and new: "(hm_get (sites s) (st_id site) = None \<and> hm_get (site_ids_by_code s) (st_site_code site) = None) \<or>
      (\<exists>old. hm_get (sites s) (st_id site) = Some old \<and> st_site_code old = st_site_code site)"
    and b: "st_bindings site = [] \<or> bindings_ok (st_bindings site)"
    and n: "\<And>b. b \<in> set (st_bindings site) \<Longrightarrow> repo_node s (sb_node_id b) \<noteq> None"
  shows "site_inv (repo_save_site site s)"
proof -
  let ?s = "repo_save_site site s"
  have idx: "index_fwd (sites s) (site_ids_by_code s) st_site_code st_id"
    "index_bwd (sites s) (site_ids_by_code s) st_site_code"
    using assms(1) by (simp_all add: site_inv_def)
  have "i = st_id site" if "hm_get (site_ids_by_code s) (st_site_code site) = Some i" for i
    using new that idx(1) by (auto dest!: index_fwdD)
  then have "index_fwd (sites ?s) (site_ids_by_code ?s) st_site_code st_id"
    by (intro site_tab.save_fwd_checked [OF idx(1)])
  moreover have "index_bwd (sites ?s) (site_ids_by_code ?s) st_site_code"
    by (rule site_tab.save_bwd [OF idx(2)]) (use new in auto)
  moreover have "hm_wf (sites ?s)" using assms(1) by (simp add: site_inv_def site_tab.save_wf)
  moreover have "repo_site ?s i = (if i = st_id site then Some site else repo_site s i)"
    "repo_node ?s m = repo_node s m" for i m
    by (simp_all add: repo_site_def repo_node_def repo_save_site_def)
  ultimately show ?thesis using assms(1) b n by (simp add: site_inv_def)
qed

lemma site_inv_mono:
  assumes "site_inv s" "sites s' = sites s" "site_ids_by_code s' = site_ids_by_code s"
    "\<And>n. repo_node s n \<noteq> None \<Longrightarrow> repo_node s' n \<noteq> None"
  shows "site_inv s'"
  using assms by (simp add: site_inv_def repo_site_def)

lemma sample_released_site_inv:
  "site_inv (hub_repo (with_repo (repo_save_node n8) (with_repo (repo_save_node n7) sample_released)))"
  if "node_ident n7 = 7" "node_ident n8 = 8" for n7 n8
proof -
  let ?s = "repo_save_node n8 (repo_save_node n7 (hub_repo sample_released))"
  have "sites (hub_repo sample_released) = [(50, (sample_site [sample_primary, sample_standby])\<lparr>st_status := Published\<rparr>)]"
    by code_simp
  moreover have "site_ids_by_code (hub_repo sample_released) = [(''shop'', 50)]" by code_simp
  ultimately have sites: "sites ?s = [(50, (sample_site [sample_primary, sample_standby])\<lparr>st_status := Published\<rparr>)]"
    "site_ids_by_code ?s = [(''shop'', 50)]"
    by (simp_all add: repo_save_node_def)
  have nodes: "repo_node ?s 7 \<noteq> None" "repo_node ?s 8 \<noteq> None"
    using that by (simp_all add: repo_node_def repo_save_node_def)
  let ?site = "(sample_site [sample_primary, sample_standby])\<lparr>st_status := Published\<rparr>"
  have ok: "bindings_ok [sample_primary, sample_standby]"
    by (simp add: bindings_ok_def sample_primary_def sample_standby_def)
  have "site_inv (repo_save_site ?site (?s\<lparr>sites := [], site_ids_by_code := []\<rparr>))"
  proof (rule site_inv_save)
    show "site_inv (?s\<lparr>sites := [], site_ids_by_code := []\<rparr>)"
      by (simp add: site_inv_def index_fwd_def index_bwd_def repo_site_def)
    show "repo_node (?s\<lparr>sites := [], site_ids_by_code := []\<rparr>) (sb_node_id b) \<noteq> None"
      if "b \<in> set (st_bindings ?site)" for b
      using that nodes by (auto simp: sample_site_def sample_primary_def sample_standby_def repo_node_def)
  qed (use ok in \<open>simp_all add: sample_site_def\<close>)
  then show ?thesis
    by (rule site_inv_mono) (simp_all add: sites repo_save_site_def sample_site_def hm_insert_def repo_node_def)
qed

definition sample_node :: "uuid \<Rightarrow> node_record" where
  "sample_node i = \<lparr>nd_identity = \<lparr>ni_id = i, ni_node_code = ''n'' @ sample_disp i, ni_name = ''n'', ni_region = [],
       ni_idc = [], ni_status = Online\<rparr>,
     nd_runtime = \<lparr>nr_active_config_version = None, nr_last_seen_at = None, nr_site_count = 0, nr_health_score = 100\<rparr>,
     nd_labels = JNull, nd_hostname = None, nd_public_ip = None, nd_private_ip = None, nd_bootstrap_token = None,
     nd_pingora_version = None, nd_agent_version = None\<rparr>"

definition sample_bound :: hub where
  "sample_bound = with_repo (repo_save_node (sample_node 8)) (with_repo (repo_save_node (sample_node 7)) sample_released)"

definition sample_switch :: switch_site_primary_request where
  "sample_switch = \<lparr>spq_target_node_id = Some 8, spq_keep_previous_as_standby = None, spq_reason = None\<rparr>"

theorem switch_site_primary_spec_witness:
  "\<exists>site'. repo_site (hub_repo (snd (switch_site_primary (sample_env 70 (hours 1)) 50 sample_switch sample_bound))) 50 =
     Some site' \<and> map sb_node_id (st_bindings site') = [8, 7] \<and> map sb_priority (st_bindings site') = [100, 200]"
proof -
  have inv: "site_inv (hub_repo sample_bound)"
    unfolding sample_bound_def by (rule sample_released_site_inv) (simp_all add: sample_node_def)
  have ids: "env_uuid (sample_env 70 (hours 1)) 0 \<noteq> env_uuid (sample_env 70 (hours 1)) 1" by code_simp
  have "map_option (\<lambda>site. map sb_node_id (st_bindings site))
      (repo_site (hub_repo (snd (switch_site_primary (sample_env 70 (hours 1)) 50 sample_switch sample_bound))) 50) = Some [8, 7]"
    by code_simp
  moreover have "case fst (switch_site_primary (sample_env 70 (hours 1)) 50 sample_switch sample_bound) of
      Inl _ \<Rightarrow> False | Inr _ \<Rightarrow> True" by code_simp
  then obtain resp where "fst (switch_site_primary (sample_env 70 (hours 1)) 50 sample_switch sample_bound) = Inr resp"
    by (auto split: sum.splits)
  from switch_site_primary_spec [OF inv ids fst_eq_pair [OF this], of "sample_env 0 0"] obtain site' where
    "repo_site (hub_repo (snd (switch_site_primary (sample_env 70 (hours 1)) 50 sample_switch sample_bound))) 50 = Some site'"
    "map sb_priority (st_bindings site') = map (\<lambda>i. 100 * (int i + 1)) [0..<length (st_bindings site')]" by blast
  moreover have "length xs = 2" if "map f xs = [a, b]" for f xs and a b :: uuid using that by auto
  ultimately show ?thesis by (auto simp: upt_rec)
qed

end
