(* ===== verification/Hub_Certs.thy ===== *)
theory Hub_Certs
  imports Hub_Dns Hub_Sites
begin

text \<open>
  Certificate orders (\<open>HubService::create_certificate_order\<close> to \<open>issue_certificate_order\<close> and
  \<open>renew_site_certificate\<close>): the identifiers an order may have, the zone it is placed in, and the
  states an order goes through on the side of the hub.
\<close>

subsection \<open>Identifiers\<close>

definition certificate_dns_domain :: "string \<Rightarrow> string" where
  "certificate_dns_domain identifier = unwrap_or identifier (strip_prefix ''*.'' identifier)"

definition valid_label :: "string \<Rightarrow> bool" where
  "valid_label label \<longleftrightarrow> label \<noteq> [] \<and> \<not> starts_with ''-'' label \<and> \<not> ends_with ''-'' label \<and>
     list_all (\<lambda>ch. ascii_alphanumeric ch \<or> ch = CHR ''-'') label"

definition normalize_certificate_identifier :: "string \<Rightarrow> string api_result" where
  "normalize_certificate_identifier raw =
     (let value = to_ascii_lowercase (trim_end_matches (CHR ''.'') (trim raw))
      in if value = [] then Inl (bad_request ''certificate domain is required'')
         else if str_contains ''://'' value \<or> CHR ''/'' \<in> set value \<or> CHR '':'' \<in> set value
         then Inl (bad_request ''certificate domain must be a dns name'')
         else if CHR ''*'' \<in> set value \<and> \<not> starts_with ''*.'' value
         then Inl (bad_request ''wildcard certificate must use the left-most *. label'')
         else
           let base = certificate_dns_domain value
           in if CHR ''.'' \<notin> set base then Inl (bad_request ''certificate domain must include a zone'')
              else if list_all valid_label (split_on (CHR ''.'') base) then Inr value
              else Inl (bad_request ''certificate domain contains an invalid label''))"

fun collect_sans :: "string list \<Rightarrow> string list \<Rightarrow> string list api_result" where
  "collect_sans sans [] = Inr sans"
| "collect_sans sans (value # values) =
     result_bind (normalize_certificate_identifier value) (\<lambda>identifier.
       collect_sans (if identifier \<in> set sans then sans else sans @ [identifier]) values)"

definition normalize_certificate_sans :: "string \<Rightarrow> string list \<Rightarrow> string list api_result" where
  "normalize_certificate_sans common_name raw_sans = collect_sans [] (common_name # raw_sans)"

definition dns01_record_name :: "string \<Rightarrow> string" where
  "dns01_record_name identifier = ''_acme-challenge.'' @ certificate_dns_domain identifier"

definition domain_matches_zone :: "string \<Rightarrow> string \<Rightarrow> bool" where
  "domain_matches_zone domain zone_name =
     (let domain = to_ascii_lowercase (trim_end_matches (CHR ''.'') (certificate_dns_domain domain));
          zone_name = to_ascii_lowercase (trim_end_matches (CHR ''.'') (trim zone_name))
      in domain = zone_name \<or> ends_with (''.'' @ zone_name) domain)"

subsection \<open>Operations\<close>

definition is_failed_certificate_order_status :: "string \<Rightarrow> bool" where
  "is_failed_certificate_order_status status \<longleftrightarrow> status \<in> {''dns_challenge_failed'', ''issue_failed''}"

definition next_certificate_renew_at :: "datetime option \<Rightarrow> int \<Rightarrow> datetime option" where
  "next_certificate_renew_at expires_at cert_auto_renew_before_days =
     map_option (\<lambda>value. value - days (normalize_cert_auto_renew_before_days cert_auto_renew_before_days)) expires_at"

definition certificate_order_overview_of :: "certificate_order_record \<Rightarrow> int \<Rightarrow> certificate_order_overview" where
  "certificate_order_overview_of order cert_auto_renew_before_days =
     \<lparr>cov_order_id = co_order_id order, cov_site_id = co_site_id order,
      cov_certificate_id = co_certificate_id order, cov_zone_id = co_zone_id order,
      cov_order_type = co_order_type order, cov_acme_provider = co_acme_provider order,
      cov_challenge_type = co_challenge_type order, cov_order_status = co_order_status order,
      cov_challenge_payload = co_challenge_payload order, cov_error_message = co_error_message order,
      cov_certificate_expires_at = co_certificate_expires_at order,
      cov_next_renew_at = next_certificate_renew_at (co_certificate_expires_at order) cert_auto_renew_before_days,
      cov_created_at = co_created_at order\<rparr>"

definition requeue_certificate_order ::
  "certificate_order_record \<Rightarrow> string \<Rightarrow> hub \<Rightarrow> certificate_order_overview hub_out" where
  "requeue_certificate_order order action h =
     (if co_order_status order = ''issued''
      then (Inl (conflict (''cannot '' @ action @ '' an issued certificate order'')), h)
      else
        let order = order\<lparr>co_order_status := ''pending_dns_challenge'', co_challenge_payload := jobj [],
              co_error_message := None\<rparr>;
            h = with_repo (repo_save_certificate_order order) h
        in (Inr (certificate_order_overview_of order (hub_cert_auto_renew_before_days h)), h))"

text \<open>
  Without a certificate to renew, a staging certificate is created first; it draws three
  identifiers and reads the clock.
\<close>

definition staging_certificate :: "runtime \<Rightarrow> string \<Rightarrow> string list \<Rightarrow> certificate_record" where
  "staging_certificate e common_name sans =
     \<lparr>ct_certificate_id = env_uuid e 0, ct_cert_code = ''cert-'' @ env_display_uuid e (env_uuid e 1),
      ct_common_name = common_name, ct_sans = sans,
      ct_fingerprint_sha256 = ''stub-'' @ env_display_uuid e (env_uuid e 2), ct_status = ''staging'',
      ct_expires_at = None, ct_created_at = env_now e 0\<rparr>"

definition order_challenge_payload :: "runtime \<Rightarrow> string \<Rightarrow> string list \<Rightarrow> string \<Rightarrow> json" where
  "order_challenge_payload e common_name sans zone_name = jobj
     [(''zone_name'', JString zone_name), (''identifier'', JString common_name),
      (''sans'', JArray (map JString sans)), (''record_name'', JString (dns01_record_name common_name)),
      (''record_type'', JString ''TXT''),
      (''record_value'', JString (''token-'' @ env_display_uuid e (env_uuid e 0))), (''ttl'', jnat 60)]"

definition issue_certificate_order ::
  "runtime \<Rightarrow> uuid option \<Rightarrow> uuid option \<Rightarrow> string \<Rightarrow> string list \<Rightarrow> uuid \<Rightarrow> string \<Rightarrow> string \<Rightarrow> string \<Rightarrow>
   hub \<Rightarrow> create_certificate_order_response hub_out" where
  "issue_certificate_order e site_id certificate_id common_name sans zone_id zone_name acme_provider order_type h =
     (let (certificate_id, e, h) =
        (case certificate_id of
           Some certificate_id \<Rightarrow> (certificate_id, e, h)
         | None \<Rightarrow>
             (let certificate = staging_certificate e common_name sans
              in (ct_certificate_id certificate, env_after 1 3 e, with_repo (repo_save_certificate certificate) h)));
          challenge_payload = order_challenge_payload e common_name sans zone_name;
          order = \<lparr>co_order_id = env_uuid e 1, co_site_id = site_id, co_certificate_id = Some certificate_id,
                   co_zone_id = zone_id, co_order_type = order_type, co_acme_provider = acme_provider,
                   co_challenge_type = ''dns-01'', co_challenge_payload = challenge_payload,
                   co_order_status = ''pending_dns_challenge'', co_error_message = None,
                   co_certificate_expires_at = None, co_created_at = env_now e 0\<rparr>
      in (Inr \<lparr>cor_order_id = co_order_id order, cor_certificate_id = co_certificate_id order,
               cor_order_status = co_order_status order, cor_challenge_payload = challenge_payload\<rparr>,
          with_repo (repo_save_certificate_order order) h))"

definition order_site :: "create_certificate_order_request \<Rightarrow> hub \<Rightarrow> site_record option api_result" where
  "order_site request h =
     (case coq_site_id request of
        None \<Rightarrow> Inr None
      | Some site_id \<Rightarrow>
          result_bind (ok_or (not_found ''site not found'') (repo_site (hub_repo h) site_id)) (\<lambda>site. Inr (Some site)))"

definition create_certificate_order ::
  "runtime \<Rightarrow> create_certificate_order_request \<Rightarrow> hub \<Rightarrow> create_certificate_order_response hub_out" where
  "create_certificate_order e request h =
     (if coq_challenge_type request \<noteq> ''dns-01''
      then (Inl (bad_request ''only dns-01 challenge is implemented''), h)
      else
        try_ok (order_site request h) h (\<lambda>site.
        try_ok (ok_or (bad_request ''domain is required for standalone certificate orders'')
            (or_else (opt_filter (\<lambda>value. value \<noteq> []) (map_option trim (coq_domain request)))
              (map_option st_domain site))) h (\<lambda>requested_domain.
        try_ok (normalize_certificate_identifier requested_domain) h (\<lambda>common_name.
        try_ok (normalize_certificate_sans common_name (coq_sans request)) h (\<lambda>sans.
          if length sans > 1
          then (Inl (bad_request ''real acme certificate orders currently support a single dns identifier''), h)
          else
            try_ok (ok_or (not_found ''dns zone not found'') (repo_dns_zone (hub_repo h) (coq_zone_id request))) h (\<lambda>zone.
              if dz_status zone \<noteq> ''active'' then (Inl (bad_request ''dns zone must be active''), h)
              else if \<not> domain_matches_zone common_name (dz_zone_name zone)
              then (Inl (bad_request ''certificate domain is not covered by selected dns zone''), h)
              else issue_certificate_order e (map_option st_id site) None common_name sans (coq_zone_id request)
                     (dz_zone_name zone) (coq_acme_provider request) ''issue'' h))))))"

definition list_certificate_orders :: "hub \<Rightarrow> certificate_order_overview list api_result" where
  "list_certificate_orders h =
     Inr (sort_key (\<lambda>order. - cov_created_at order)
       (map (\<lambda>order. certificate_order_overview_of order (hub_cert_auto_renew_before_days h))
         (repo_list_certificate_orders (hub_repo h))))"

definition retry_certificate_order :: "uuid \<Rightarrow> hub \<Rightarrow> certificate_order_overview hub_out" where
  "retry_certificate_order order_id h =
     try_ok (ok_or (not_found ''certificate order not found'') (repo_certificate_order (hub_repo h) order_id)) h (\<lambda>order.
       if \<not> is_failed_certificate_order_status (co_order_status order)
       then (Inl (conflict ''only failed certificate orders can be retried''), h)
       else requeue_certificate_order order ''retry'' h)"

definition reset_certificate_order :: "uuid \<Rightarrow> hub \<Rightarrow> certificate_order_overview hub_out" where
  "reset_certificate_order order_id h =
     try_ok (ok_or (not_found ''certificate order not found'') (repo_certificate_order (hub_repo h) order_id)) h (\<lambda>order.
       if co_order_status order = ''issued''
       then (Inl (conflict ''issued certificate orders cannot be reset''), h)
       else requeue_certificate_order order ''reset'' h)"

definition active_order_of :: "uuid \<Rightarrow> uuid option \<Rightarrow> certificate_order_record \<Rightarrow> bool" where
  "active_order_of site_id certificate_id order \<longleftrightarrow>
     (co_site_id order = Some site_id \<or> (certificate_id \<noteq> None \<and> co_certificate_id order = certificate_id)) \<and>
     co_order_status order \<notin> {''issued'', ''dns_challenge_failed'', ''issue_failed''}"

definition matching_zone :: "string \<Rightarrow> hub \<Rightarrow> dns_zone_record option" where
  "matching_zone common_name h =
     max_by_key (\<lambda>zone. length (dz_zone_name zone))
       (filter (\<lambda>zone. dz_status zone = ''active'' \<and> domain_matches_zone common_name (dz_zone_name zone))
         (repo_list_dns_zones (hub_repo h)))"

definition renew_site_certificate :: "runtime \<Rightarrow> uuid \<Rightarrow> hub \<Rightarrow> renew_site_certificate_response hub_out" where
  "renew_site_certificate e site_id h =
     try_ok (ok_or (not_found ''site not found'') (repo_site (hub_repo h) site_id)) h (\<lambda>site.
       if \<not> st_tls_enabled site \<or> st_protocol site \<noteq> Https
       then (Inl (bad_request ''only https/tls-enabled sites can renew certificates''), h)
       else
         let certificate_id = (case repo_site_certificates (hub_repo h) site_id of
               [] \<Rightarrow> None | certificate # _ \<Rightarrow> Some (ce_certificate_id certificate))
         in (case List.find (active_order_of site_id certificate_id) (repo_list_certificate_orders (hub_repo h)) of
               Some order \<Rightarrow>
                 (Inl (conflict (''site already has an active certificate order '' @
                    env_display_uuid e (co_order_id order) @ '' in status '' @ co_order_status order)), h)
             | None \<Rightarrow>
                 try_ok (normalize_certificate_identifier (st_domain site)) h (\<lambda>common_name.
                 try_ok (ok_or (not_found ''no matching dns zone found for site domain'')
                     (matching_zone common_name h)) h (\<lambda>zone.
                 and_then (issue_certificate_order e (Some (st_id site)) certificate_id common_name [common_name]
                     (dz_zone_id zone) (dz_zone_name zone) ''letsencrypt-production'' ''renew'' h) (\<lambda>response h.
                   (Inr \<lparr>rsr_site_id = site_id, rsr_domain = st_domain site, rsr_zone_id = dz_zone_id zone,
                         rsr_order_id = cor_order_id response, rsr_certificate_id = cor_certificate_id response,
                         rsr_order_status = cor_order_status response\<rparr>, h))))))"

subsection \<open>Identifiers are canonical\<close>

lemma label_char_graphic: "ascii_alphanumeric c \<or> c \<in> {CHR ''-'', CHR ''.'', CHR ''*''} \<Longrightarrow> graphic_ascii c"
  by (cases c) (auto simp: ascii_alphanumeric_def ascii_upper_def ascii_lower_def ascii_digit_def byte_def
      of_char_def horner_sum_simps of_bool_def split: if_splits)

lemma trim_graphic: "list_all graphic_ascii s \<Longrightarrow> trim s = s"
  by (cases "s = []") (auto intro!: trim_fixed simp: leading_whitespace_code trailing_whitespace_code
      whitespace_encodings_nonempty list_all_iff find_None_iff_all prefix_Nil suffix_Nil)

lemma to_ascii_lowercase_dot: "char_to_ascii_lowercase c = CHR ''.'' \<longleftrightarrow> c = CHR ''.''"
proof -
  have "\<not> ascii_lower (CHR ''.'')" "\<not> ascii_upper (CHR ''.'')"
    by (simp_all add: ascii_lower_def ascii_upper_def byte_def)
  then show ?thesis using char_to_ascii_lowercase_cases [of c] by auto
qed

lemma lower_trim_end_fixed:
  "trim_end_matches (CHR ''.'') (to_ascii_lowercase (trim_end_matches (CHR ''.'') s)) =
   to_ascii_lowercase (trim_end_matches (CHR ''.'') s)"
proof (rule trim_end_matches_fixed)
  let ?t = "trim_end_matches (CHR ''.'') s"
  show "to_ascii_lowercase ?t = [] \<or> last (to_ascii_lowercase ?t) \<noteq> CHR ''.''"
    using trim_end_matches_last [of "CHR ''.''" s]
    by (cases "?t = []") (simp_all add: to_ascii_lowercase_def last_map to_ascii_lowercase_dot)
qed

lemma certificate_dns_domain_cases:
  "identifier = certificate_dns_domain identifier \<or> identifier = ''*.'' @ certificate_dns_domain identifier"
  by (auto simp: certificate_dns_domain_def strip_prefix_def prefix_def)

lemma identifier_chars:
  assumes "list_all valid_label (split_on (CHR ''.'') (certificate_dns_domain v))"
  shows "list_all (\<lambda>c. ascii_alphanumeric c \<or> c \<in> {CHR ''-'', CHR ''.'', CHR ''*''}) v"
proof -
  let ?P = "\<lambda>c. ascii_alphanumeric c \<or> c \<in> {CHR ''-'', CHR ''.'', CHR ''*''}"
  have dom: "list_all ?P (certificate_dns_domain v)"
    unfolding list_all_iff
  proof
    fix c assume "c \<in> set (certificate_dns_domain v)"
    with assms in_set_split_on [of c "certificate_dns_domain v" "CHR ''.''"] show "?P c"
      by (auto simp: list_all_iff valid_label_def)
  qed
  then have "list_all ?P (''*.'' @ certificate_dns_domain v)" by simp
  with dom show ?thesis using certificate_dns_domain_cases [of v] by metis
qed

lemma normalize_certificate_identifier_Inr:
  assumes "normalize_certificate_identifier raw = Inr v"
  shows "v = to_ascii_lowercase (trim_end_matches (CHR ''.'') (trim raw))" "v \<noteq> []"
    "CHR ''.'' \<in> set (certificate_dns_domain v)" "list_all valid_label (split_on (CHR ''.'') (certificate_dns_domain v))"
    "to_ascii_lowercase v = v" "trim_end_matches (CHR ''.'') v = v" "trim v = v"
proof -
  from assms show v: "v = to_ascii_lowercase (trim_end_matches (CHR ''.'') (trim raw))" and "v \<noteq> []"
    "CHR ''.'' \<in> set (certificate_dns_domain v)"
    and labels: "list_all valid_label (split_on (CHR ''.'') (certificate_dns_domain v))"
    by (auto simp: normalize_certificate_identifier_def Let_def split: if_splits)
  show "to_ascii_lowercase v = v" by (subst v) (simp add: v)
  show "trim_end_matches (CHR ''.'') v = v" unfolding v by (rule lower_trim_end_fixed)
  show "trim v = v"
    by (rule trim_graphic) (use identifier_chars [OF labels] label_char_graphic in \<open>auto simp: list_all_iff\<close>)
qed

text \<open>
  C40: what a certificate identifier looks like. An accepted identifier is in lower case, a name
  with a dot whose labels are non-empty, consist of letters, digits and inner dashes, with at
  most a leading wildcard label; normalising it again gives it back.
\<close>

theorem normalize_certificate_identifier_canonical:
  assumes "normalize_certificate_identifier raw = Inr v"
  shows "normalize_certificate_identifier v = Inr v \<and>
    (\<exists>base. (v = base \<or> v = ''*.'' @ base) \<and> CHR ''.'' \<in> set base \<and>
       (\<forall>label \<in> set (split_on (CHR ''.'') base). valid_label label \<and> list_all (\<lambda>c. \<not> ascii_upper c) label))"
proof -
  note v = normalize_certificate_identifier_Inr [OF assms]
  from assms have "\<not> (str_contains ''://'' v \<or> CHR ''/'' \<in> set v \<or> CHR '':'' \<in> set v)"
    "\<not> (CHR ''*'' \<in> set v \<and> \<not> starts_with ''*.'' v)"
    unfolding normalize_certificate_identifier_def Let_def v(1) [symmetric] by (auto split: if_splits)
  with v(2-7) have "normalize_certificate_identifier v = Inr v"
    by (simp add: normalize_certificate_identifier_def)
  moreover have "\<not> ascii_upper c" if "c \<in> set v" for c
    using that v(5) unfolding to_ascii_lowercase_def
    by (metis char_to_ascii_lowercase_not_upper in_set_conv_nth length_map nth_map)
  then have "\<not> ascii_upper c" if "c \<in> set (certificate_dns_domain v)" for c
    using that certificate_dns_domain_cases [of v] by (metis Un_iff set_append)
  then have "list_all (\<lambda>c. \<not> ascii_upper c) label" if "label \<in> set (split_on (CHR ''.'') (certificate_dns_domain v))" for label
    using set_split_on [OF that] by (auto simp: list_all_iff)
  ultimately show ?thesis
    using certificate_dns_domain_cases [of v] v(3,4) by (auto simp: list_all_iff)
qed

theorem normalize_certificate_identifier_canonical_witness:
  "normalize_certificate_identifier ''*.Example.COM.'' = Inr ''*.example.com'' \<and>
   normalize_certificate_identifier ''*.example.com'' = Inr ''*.example.com''"
proof -
  have "normalize_certificate_identifier ''*.Example.COM.'' = Inr ''*.example.com''" by code_simp
  with normalize_certificate_identifier_canonical [OF this] show ?thesis by blast
qed

subsection \<open>Placing an order\<close>

text \<open>Saving an order, or a certificate, keeps the invariant when the order's zone exists.\<close>

lemma dns_inv_save_order:
  "dns_inv s \<Longrightarrow> hm_get (dns_zones s) (co_zone_id order) \<noteq> None \<Longrightarrow> dns_inv (repo_save_certificate_order order s)"
proof -
  assume s: "dns_inv s" and zone: "hm_get (dns_zones s) (co_zone_id order) \<noteq> None"
  let ?s = "repo_save_certificate_order order s"
  have same: "dns_zones ?s = dns_zones s" "dns_providers ?s = dns_providers s"
    "dns_provider_ids_by_name ?s = dns_provider_ids_by_name s"
    by (simp_all add: repo_save_certificate_order_def)
  have "provider_inv ?s = provider_inv s" "zone_inv ?s = zone_inv s"
    by (simp_all only: provider_inv_def zone_inv_def same)
  moreover have "order_zone_inv ?s"
    using s zone by (auto simp: dns_inv_def order_zone_inv_def repo_save_certificate_order_def)
  ultimately show "dns_inv ?s" using s by (simp add: dns_inv_def)
qed

lemma dns_inv_save_certificate [simp]: "dns_inv (repo_save_certificate certificate s) = dns_inv s"
  by (rule dns_inv_cong) (simp_all add: repo_save_certificate_def)

lemma repo_save_certificate_sel [simp]:
  "certificate_orders (repo_save_certificate certificate s) = certificate_orders s"
  "dns_zones (repo_save_certificate certificate s) = dns_zones s"
  "sites (repo_save_certificate certificate s) = sites s"
  "site_certificates (repo_save_certificate certificate s) = site_certificates s"
  by (simp_all add: repo_save_certificate_def)

text \<open>The effect of placing an order.\<close>

lemma issue_certificate_order_effect:
  assumes "issue_certificate_order e site_id certificate_id cn sans zone_id zone_name acme type h = (r, h')"
  obtains order resp where "r = Inr resp" "cor_order_id resp = co_order_id order"
    "cor_certificate_id resp = co_certificate_id order" "cor_order_status resp = ''pending_dns_challenge''"
    "cor_challenge_payload resp = co_challenge_payload order"
    "co_site_id order = site_id" "co_zone_id order = zone_id" "co_order_type order = type"
    "co_order_status order = ''pending_dns_challenge''"
    "certificate_id \<noteq> None \<Longrightarrow> co_certificate_id order = certificate_id"
    "json_get (co_challenge_payload order) ''record_name'' = Some (JString (dns01_record_name cn))"
    "certificate_orders (hub_repo h') = hm_insert (co_order_id order) order (certificate_orders (hub_repo h))"
    "sites (hub_repo h') = sites (hub_repo h)" "dns_zones (hub_repo h') = dns_zones (hub_repo h)"
    "site_certificates (hub_repo h') = site_certificates (hub_repo h)"
    "dns_inv (hub_repo h) \<Longrightarrow> hm_get (dns_zones (hub_repo h)) zone_id \<noteq> None \<Longrightarrow> dns_inv (hub_repo h')"
proof -
  define e' where "e' = (if certificate_id = None then env_after 1 3 e else e)"
  define certificate where "certificate = staging_certificate e cn sans"
  define order where "order = \<lparr>co_order_id = env_uuid e' 1, co_site_id = site_id,
    co_certificate_id = Some (unwrap_or (ct_certificate_id certificate) certificate_id), co_zone_id = zone_id,
    co_order_type = type, co_acme_provider = acme, co_challenge_type = ''dns-01'',
    co_challenge_payload = order_challenge_payload e' cn sans zone_name,
    co_order_status = ''pending_dns_challenge'', co_error_message = None,
    co_certificate_expires_at = None, co_created_at = env_now e' 0\<rparr>"
  have res: "r = Inr \<lparr>cor_order_id = co_order_id order, cor_certificate_id = co_certificate_id order,
      cor_order_status = co_order_status order, cor_challenge_payload = co_challenge_payload order\<rparr>"
    "hub_repo h' = repo_save_certificate_order order
       (if certificate_id = None then repo_save_certificate certificate (hub_repo h) else hub_repo h)"
    using assms by (cases certificate_id;
        auto simp: issue_certificate_order_def Let_def order_def e'_def certificate_def)+
  show thesis
  proof (rule that [of _ order])
    show "r = Inr \<lparr>cor_order_id = co_order_id order, cor_certificate_id = co_certificate_id order,
      cor_order_status = co_order_status order, cor_challenge_payload = co_challenge_payload order\<rparr>"
      by (rule res(1))
    show "json_get (co_challenge_payload order) ''record_name'' = Some (JString (dns01_record_name cn))"
      by (simp add: order_def order_challenge_payload_def)
    show "dns_inv (hub_repo h')" if "dns_inv (hub_repo h)" "hm_get (dns_zones (hub_repo h)) zone_id \<noteq> None"
      unfolding res(2) by (rule dns_inv_save_order) (use that in \<open>simp_all add: order_def\<close>)
  qed (auto simp: res(2) order_def repo_save_certificate_order_def)
qed

lemma certificate_dns_domain_fixed:
  assumes "normalize_certificate_identifier raw = Inr cn"
  shows "to_ascii_lowercase (trim_end_matches (CHR ''.'') (certificate_dns_domain cn)) = certificate_dns_domain cn"
proof -
  note cn = normalize_certificate_identifier_Inr [OF assms]
  let ?d = "certificate_dns_domain cn"
  have ne: "?d \<noteq> []" using cn(3) by auto
  then have "last cn = last ?d" using certificate_dns_domain_cases [of cn] by (metis last_appendR)
  moreover have "last cn \<noteq> CHR ''.''" using trim_end_matches_last [of "CHR ''.''" cn] cn(2,6) by simp
  ultimately have "trim_end_matches (CHR ''.'') ?d = ?d" by (intro trim_end_matches_fixed) simp
  moreover have "\<forall>c \<in> set cn. char_to_ascii_lowercase c = c"
    using cn(5) map_eq_conv [of char_to_ascii_lowercase cn id] by (simp add: to_ascii_lowercase_def)
  then have "\<forall>c \<in> set ?d. char_to_ascii_lowercase c = c"
    using certificate_dns_domain_cases [of cn] by (metis Un_iff set_append)
  then have "to_ascii_lowercase ?d = ?d" by (simp add: to_ascii_lowercase_def map_idI)
  ultimately show ?thesis by simp
qed

text \<open>The text of a zone as it is compared with identifiers.\<close>

definition zone_text :: "string \<Rightarrow> string" where
  "zone_text zone_name = to_ascii_lowercase (trim_end_matches (CHR ''.'') (trim zone_name))"

lemma challenge_in_zone:
  assumes "normalize_certificate_identifier raw = Inr cn" "domain_matches_zone cn zone_name"
  shows "in_zone (zone_text zone_name) (dns01_record_name cn)"
proof -
  from assms(2) have "certificate_dns_domain cn = zone_text zone_name \<or>
      ends_with (''.'' @ zone_text zone_name) (certificate_dns_domain cn)"
    unfolding domain_matches_zone_def Let_def certificate_dns_domain_fixed [OF assms(1)] zone_text_def .
  then have "suffix (''.'' @ zone_text zone_name) (''.'' @ certificate_dns_domain cn)"
    by (auto simp: ends_with_def suffix_def)
  moreover have "dns01_record_name cn = ''_acme-challenge'' @ ''.'' @ certificate_dns_domain cn"
    by (simp add: dns01_record_name_def)
  ultimately show ?thesis unfolding in_zone_def ends_with_def by (auto simp: suffix_def)
qed

lemma in_zone_normalize: "in_zone zone name \<Longrightarrow> name \<noteq> ''@'' \<Longrightarrow> normalize_record_name name zone = name"
  using ends_with_dot [of zone name] by (auto simp: normalize_record_name_def in_zone_def ends_with_def)

lemma create_certificate_order_Inr:
  assumes "create_certificate_order e request h = (Inr resp, h')"
  obtains site :: "site_record option" and cn raw sans zone where
    "normalize_certificate_identifier raw = Inr cn"
    "hm_get (dns_zones (hub_repo h)) (coq_zone_id request) = Some zone" "dz_status zone = ''active''"
    "domain_matches_zone cn (dz_zone_name zone)"
    "issue_certificate_order e (map_option st_id site) None cn sans (coq_zone_id request)
       (dz_zone_name zone) (coq_acme_provider request) ''issue'' h = (Inr resp, h')"
proof -
  from assms show thesis
    by (auto simp: create_certificate_order_def outcome_iffs repo_dns_zone_def split: if_splits intro: that)
qed

text \<open>
  Placing a certificate order. A successful order is stored as pending for an active zone,
  the name of its challenge record lies in that zone (and is what the provider client uses when
  the zone is stored in its normal form), every other order is unchanged and the invariant is
  kept.
\<close>

theorem create_certificate_order_spec:
  assumes "dns_inv (hub_repo h)" "create_certificate_order e request h = (Inr resp, h')"
  shows "dns_inv (hub_repo h') \<and>
    (\<exists>order zone name. repo_certificate_order (hub_repo h') (cor_order_id resp) = Some order \<and>
       co_order_status order = ''pending_dns_challenge'' \<and> co_zone_id order = coq_zone_id request \<and>
       repo_dns_zone (hub_repo h') (coq_zone_id request) = Some zone \<and> dz_status zone = ''active'' \<and>
       json_get (co_challenge_payload order) ''record_name'' = Some (JString name) \<and>
       in_zone (zone_text (dz_zone_name zone)) name \<and>
       (dz_zone_name zone = zone_text (dz_zone_name zone) \<longrightarrow> normalize_record_name name (dz_zone_name zone) = name)) \<and>
    (\<forall>i. i \<noteq> cor_order_id resp \<longrightarrow> repo_certificate_order (hub_repo h') i = repo_certificate_order (hub_repo h) i)"
proof -
  from assms(2) obtain site :: "site_record option" and cn raw sans zone where
    cn: "normalize_certificate_identifier raw = Inr cn" "domain_matches_zone cn (dz_zone_name zone)"
    and zone: "hm_get (dns_zones (hub_repo h)) (coq_zone_id request) = Some zone" "dz_status zone = ''active''"
    and issue: "issue_certificate_order e (map_option st_id site) None cn sans (coq_zone_id request)
       (dz_zone_name zone) (coq_acme_provider request) ''issue'' h = (Inr resp, h')"
    by (rule create_certificate_order_Inr) blast
  from issue obtain order where order: "cor_order_id resp = co_order_id order"
    "co_zone_id order = coq_zone_id request" "co_order_status order = ''pending_dns_challenge''"
    "json_get (co_challenge_payload order) ''record_name'' = Some (JString (dns01_record_name cn))"
    and tabs: "certificate_orders (hub_repo h') = hm_insert (co_order_id order) order (certificate_orders (hub_repo h))"
    "dns_zones (hub_repo h') = dns_zones (hub_repo h)"
    and inv: "dns_inv (hub_repo h) \<Longrightarrow> hm_get (dns_zones (hub_repo h)) (coq_zone_id request) \<noteq> None \<Longrightarrow> dns_inv (hub_repo h')"
    by (rule issue_certificate_order_effect) simp
  have "in_zone (zone_text (dz_zone_name zone)) (dns01_record_name cn)" by (rule challenge_in_zone [OF cn])
  moreover have "dns01_record_name cn \<noteq> ''@''" by (simp add: dns01_record_name_def)
  ultimately show ?thesis
    using inv assms(1) zone order tabs in_zone_normalize [of _ "dns01_record_name cn"]
    by (auto simp: repo_certificate_order_def repo_dns_zone_def)
qed

definition sample_zone_hub :: hub where
  "sample_zone_hub = snd sample_synced"

definition sample_order_request :: create_certificate_order_request where
  "sample_order_request = \<lparr>coq_site_id = None, coq_domain = Some ''Shop.Example.com'', coq_sans = [],
     coq_acme_provider = ''le'', coq_challenge_type = ''dns-01'', coq_zone_id = 5\<rparr>"

lemma sample_order_eval:
  "map_option dz_zone_name (repo_dns_zone (hub_repo sample_zone_hub) 5) = Some ''example.com''"
  "(case fst (create_certificate_order (sample_env 30 0) sample_order_request sample_zone_hub) of
      Inl _ \<Rightarrow> False | Inr resp \<Rightarrow> cor_order_id resp = 34)"
  by code_simp+

lemma sample_zone_hub_inv: "dns_inv (hub_repo sample_zone_hub)"
proof -
  have "fresh_ids (sample_env 5 0) 0 (Suc (Suc 0)) (dns_zones (hub_repo sample_provider_hub))"
    using sample_synced_eval(2) by (simp add: fresh_ids_two)
  with sync_dns_zones_effect(1) [OF sample_provider_inv fst_eq_pair [OF sample_synced_eval(1) [unfolded sample_synced_def]]]
  show ?thesis by (simp add: sample_zone_hub_def sample_synced_def)
qed

theorem create_certificate_order_spec_witness:
  "\<exists>order. repo_certificate_order
      (hub_repo (snd (create_certificate_order (sample_env 30 0) sample_order_request sample_zone_hub))) 34 = Some order \<and>
     co_order_status order = ''pending_dns_challenge'' \<and> co_zone_id order = 5"
proof -
  from sample_order_eval(2) obtain resp where
    resp: "fst (create_certificate_order (sample_env 30 0) sample_order_request sample_zone_hub) = Inr resp"
    "cor_order_id resp = 34"
    by (auto split: sum.splits)
  from create_certificate_order_spec [OF sample_zone_hub_inv fst_eq_pair [OF resp(1)]] show ?thesis
    unfolding resp(2) by (auto simp: sample_order_request_def)
qed

subsection \<open>Renewing\<close>

lemma renew_site_certificate_Inr:
  assumes "renew_site_certificate e i h = (Inr resp, h')"
  obtains site certificate_id cn zone response where "repo_site (hub_repo h) i = Some site"
    "st_tls_enabled site" "st_protocol site = Https"
    "certificate_id = (case repo_site_certificates (hub_repo h) i of [] \<Rightarrow> None | c # _ \<Rightarrow> Some (ce_certificate_id c))"
    "\<forall>order \<in> set (repo_list_certificate_orders (hub_repo h)). \<not> active_order_of i certificate_id order"
    "normalize_certificate_identifier (st_domain site) = Inr cn" "matching_zone cn h = Some zone"
    "issue_certificate_order e (Some (st_id site)) certificate_id cn [cn] (dz_zone_id zone) (dz_zone_name zone)
       ''letsencrypt-production'' ''renew'' h = (Inr response, h')"
    "rsr_zone_id resp = dz_zone_id zone" "rsr_order_id resp = cor_order_id response"
    "rsr_order_status resp = cor_order_status response"
proof -
  let ?c = "case repo_site_certificates (hub_repo h) i of [] \<Rightarrow> None | c # _ \<Rightarrow> Some (ce_certificate_id c)"
  from assms have "List.find (active_order_of i ?c) (repo_list_certificate_orders (hub_repo h)) = None"
    by (auto simp: renew_site_certificate_def outcome_iffs Let_def split: if_splits option.splits)
  moreover from this assms obtain site cn zone response where
    "repo_site (hub_repo h) i = Some site" "st_tls_enabled site" "st_protocol site = Https"
    "normalize_certificate_identifier (st_domain site) = Inr cn" "matching_zone cn h = Some zone"
    "issue_certificate_order e (Some (st_id site)) ?c cn [cn] (dz_zone_id zone) (dz_zone_name zone)
       ''letsencrypt-production'' ''renew'' h = (Inr response, h')"
    "rsr_zone_id resp = dz_zone_id zone" "rsr_order_id resp = cor_order_id response"
    "rsr_order_status resp = cor_order_status response"
    by (auto simp: renew_site_certificate_def outcome_iffs Let_def split: if_splits)
  ultimately show thesis using that [of site ?c cn zone response] by (simp add: find_None_iff_all)
qed

text \<open>
  Renewing the certificate of a site. A successful renewal places a pending order for the
  site in the active zone that covers its domain and has the longest name, keeps the invariant,
  and until that order is settled every further renewal of the site is refused, naming it.
\<close>

theorem renew_site_certificate_once:
  assumes "dns_inv (hub_repo h)" "site_inv (hub_repo h)" "renew_site_certificate e i h = (Inr resp, h')"
  shows "dns_inv (hub_repo h') \<and>
    (\<exists>order. repo_certificate_order (hub_repo h') (rsr_order_id resp) = Some order \<and> co_site_id order = Some i \<and>
       co_zone_id order = rsr_zone_id resp \<and> co_order_status order = ''pending_dns_challenge'') \<and>
    (\<exists>site cn zone. repo_site (hub_repo h) i = Some site \<and> normalize_certificate_identifier (st_domain site) = Inr cn \<and>
       repo_dns_zone (hub_repo h) (rsr_zone_id resp) = Some zone \<and> dz_status zone = ''active'' \<and>
       domain_matches_zone cn (dz_zone_name zone) \<and>
       (\<forall>j zone'. repo_dns_zone (hub_repo h) j = Some zone' \<longrightarrow> dz_status zone' = ''active'' \<longrightarrow>
          domain_matches_zone cn (dz_zone_name zone') \<longrightarrow> length (dz_zone_name zone') \<le> length (dz_zone_name zone))) \<and>
    (\<forall>e'. renew_site_certificate e' i h' =
       (Inl (conflict (''site already has an active certificate order '' @ env_display_uuid e' (rsr_order_id resp) @
          '' in status pending_dns_challenge'')), h'))"
proof -
  from assms(3) obtain site certificate_id cn zone response where
    site: "repo_site (hub_repo h) i = Some site" "st_tls_enabled site" "st_protocol site = Https"
    and cert: "certificate_id = (case repo_site_certificates (hub_repo h) i of [] \<Rightarrow> None | c # _ \<Rightarrow> Some (ce_certificate_id c))"
    and none: "\<forall>order \<in> set (repo_list_certificate_orders (hub_repo h)). \<not> active_order_of i certificate_id order"
    and cn: "normalize_certificate_identifier (st_domain site) = Inr cn" and zone: "matching_zone cn h = Some zone"
    and issue: "issue_certificate_order e (Some (st_id site)) certificate_id cn [cn] (dz_zone_id zone) (dz_zone_name zone)
       ''letsencrypt-production'' ''renew'' h = (Inr response, h')"
    and resp: "rsr_zone_id resp = dz_zone_id zone" "rsr_order_id resp = cor_order_id response"
    by (rule renew_site_certificate_Inr)
  have id: "st_id site = i" using assms(2) site(1) by (auto simp: site_inv_def repo_site_def dest: index_fwdD)
  from max_by_key_in [OF zone [unfolded matching_zone_def]] max_by_key_greatest [OF zone [unfolded matching_zone_def]]
  have z: "zone \<in> set (repo_list_dns_zones (hub_repo h))" "dz_status zone = ''active''" "domain_matches_zone cn (dz_zone_name zone)"
    and longest: "\<And>zone'. zone' \<in> set (repo_list_dns_zones (hub_repo h)) \<Longrightarrow> dz_status zone' = ''active'' \<Longrightarrow>
      domain_matches_zone cn (dz_zone_name zone') \<Longrightarrow> length (dz_zone_name zone') \<le> length (dz_zone_name zone)"
    by auto
  from z(1) assms(1) have stored: "hm_get (dns_zones (hub_repo h)) (dz_zone_id zone) = Some zone"
    by (auto simp: repo_list_dns_zones_def dns_inv_def zone_inv_def hm_in_values)
  from issue obtain order where order: "cor_order_id response = co_order_id order" "co_site_id order = Some (st_id site)"
    "co_zone_id order = dz_zone_id zone" "co_order_status order = ''pending_dns_challenge''"
    and tabs: "certificate_orders (hub_repo h') = hm_insert (co_order_id order) order (certificate_orders (hub_repo h))"
    "sites (hub_repo h') = sites (hub_repo h)" "site_certificates (hub_repo h') = site_certificates (hub_repo h)"
    and inv: "dns_inv (hub_repo h) \<Longrightarrow> hm_get (dns_zones (hub_repo h)) (dz_zone_id zone) \<noteq> None \<Longrightarrow> dns_inv (hub_repo h')"
    by (rule issue_certificate_order_effect) simp
  have "active_order_of i certificate_id order" using order id by (simp add: active_order_of_def)
  then have "List.find (active_order_of i certificate_id) (repo_list_certificate_orders (hub_repo h')) = Some order"
    using none by (intro find_unique)
      (auto simp: repo_list_certificate_orders_def tabs hm_values_insert(2) dest!: subsetD [OF hm_values_insert(1)])
  then have "renew_site_certificate e' i h' =
      (Inl (conflict (''site already has an active certificate order '' @ env_display_uuid e' (rsr_order_id resp) @
         '' in status pending_dns_challenge'')), h')" for e'
    using site cert order resp tabs
    by (simp add: renew_site_certificate_def repo_site_def repo_site_certificates_def Let_def)
  moreover have "repo_certificate_order (hub_repo h') (rsr_order_id resp) = Some order"
    by (simp add: repo_certificate_order_def tabs resp order)
  moreover have "length (dz_zone_name zone') \<le> length (dz_zone_name zone)"
    if "repo_dns_zone (hub_repo h) j = Some zone'" "dz_status zone' = ''active''" "domain_matches_zone cn (dz_zone_name zone')" for j zone'
    using that by (intro longest) (auto simp: repo_dns_zone_def repo_list_dns_zones_def dest: hm_get_in_values)
  ultimately show ?thesis
    using inv [OF assms(1)] stored z(2,3) site(1) cn order id resp by (auto simp: repo_dns_zone_def)
qed

definition sample_https_site :: site_record where
  "sample_https_site = (sample_site [])\<lparr>st_protocol := Https, st_tls_enabled := True\<rparr>"

definition sample_renewable :: hub where
  "sample_renewable = with_repo (repo_save_site sample_https_site) sample_zone_hub"

lemma sample_renew_eval:
  "(case fst (renew_site_certificate (sample_env 40 0) 50 sample_renewable) of
      Inl _ \<Rightarrow> False | Inr resp \<Rightarrow> rsr_order_id resp = 44 \<and> rsr_zone_id resp = 5)"
  "sites (hub_repo sample_zone_hub) = []" "site_ids_by_code (hub_repo sample_zone_hub) = []"
  by code_simp+

theorem renew_site_certificate_once_witness:
  "fst (renew_site_certificate (sample_env 90 0) 50 (snd (renew_site_certificate (sample_env 40 0) 50 sample_renewable))) =
     Inl (conflict ''site already has an active certificate order 44 in status pending_dns_challenge'')"
proof -
  have "dns_inv (hub_repo sample_renewable) = dns_inv (hub_repo sample_zone_hub)"
    by (rule dns_inv_cong) (simp_all add: sample_renewable_def repo_save_site_def)
  then have d: "dns_inv (hub_repo sample_renewable)" using sample_zone_hub_inv by simp
  have "site_inv (hub_repo sample_zone_hub)"
    by (simp add: site_inv_def sample_renew_eval(2,3) index_fwd_def index_bwd_def repo_site_def)
  then have s: "site_inv (hub_repo sample_renewable)"
    unfolding sample_renewable_def with_repo_sel
    by (rule site_inv_save) (simp_all add: sample_renew_eval(2,3) sample_https_site_def sample_site_def)
  from sample_renew_eval(1) obtain resp where
    resp: "fst (renew_site_certificate (sample_env 40 0) 50 sample_renewable) = Inr resp" "rsr_order_id resp = 44"
    by (auto split: sum.splits)
  have "env_display_uuid (sample_env 90 0) 44 = ''44''" by code_simp
  with renew_site_certificate_once [OF d s fst_eq_pair [OF resp(1)]] resp(2) show ?thesis
    by simp
qed

subsection \<open>Retrying and resetting\<close>

lemma requeue_certificate_order_inv:
  assumes "dns_inv (hub_repo h)" "repo_certificate_order (hub_repo h) i = Some order"
    and "requeue_certificate_order order action h = (r, h')"
  shows "dns_inv (hub_repo h')"
proof (cases "h' = h")
  case False
  with assms(3) have h': "hub_repo h' = repo_save_certificate_order
      (order\<lparr>co_order_status := ''pending_dns_challenge'', co_challenge_payload := jobj [], co_error_message := None\<rparr>) (hub_repo h)"
    by (auto simp: requeue_certificate_order_def Let_def split: if_splits)
  show ?thesis unfolding h'
    by (rule dns_inv_save_order) (use assms(1,2) in \<open>auto simp: dns_inv_def order_zone_inv_def repo_certificate_order_def\<close>)
qed (use assms(1) in simp)

lemma retry_certificate_order_inv:
  "dns_inv (hub_repo h) \<Longrightarrow> retry_certificate_order i h = (r, h') \<Longrightarrow> dns_inv (hub_repo h')"
  by (cases "repo_certificate_order (hub_repo h) i")
    (auto simp: retry_certificate_order_def split: if_splits dest: requeue_certificate_order_inv)

lemma reset_certificate_order_inv:
  "dns_inv (hub_repo h) \<Longrightarrow> reset_certificate_order i h = (r, h') \<Longrightarrow> dns_inv (hub_repo h')"
  by (cases "repo_certificate_order (hub_repo h) i")
    (auto simp: reset_certificate_order_def split: if_splits dest: requeue_certificate_order_inv)

lemma create_certificate_order_inv:
  assumes "dns_inv (hub_repo h)" "create_certificate_order e request h = (r, h')"
  shows "dns_inv (hub_repo h')"
proof (cases r)
  case (Inr resp)
  with assms(2) have ok: "create_certificate_order e request h = (Inr resp, h')" by simp
  then obtain site :: "site_record option" and cn raw sans zone where
    zone: "hm_get (dns_zones (hub_repo h)) (coq_zone_id request) = Some zone"
    and issue: "issue_certificate_order e (map_option st_id site) None cn sans (coq_zone_id request)
       (dz_zone_name zone) (coq_acme_provider request) ''issue'' h = (Inr resp, h')"
    by (rule create_certificate_order_Inr) blast
  from issue show ?thesis by (rule issue_certificate_order_effect) (use assms(1) zone in simp)
next
  case (Inl err)
  have "\<exists>resp. fst (issue_certificate_order e' a b c d f g k l h) = Inr resp" for e' a b c d f g k l
    by (simp add: issue_certificate_order_def split_beta Let_def)
  with assms Inl show ?thesis
    by (auto simp: create_certificate_order_def outcome_iffs split: if_splits) (metis fst_conv sum.distinct(1))+
qed

end
