(* ===== verification/Hub_Nodes.thy ===== *)
theory Hub_Nodes
  imports Hub_State
begin

text \<open>
  Nodes (\<open>HubService::create_node\<close> to \<open>delete_node\<close>, \<open>register_node\<close> to \<open>authorize_node\<close> and
  \<open>node_heartbeat\<close>): enrolment with a one-time bootstrap token, rotation of the tokens a node
  authenticates with, and the removal of a node.
\<close>

subsection \<open>Operations\<close>

definition create_node :: "runtime \<Rightarrow> create_node_request \<Rightarrow> hub \<Rightarrow> create_node_response hub_out" where
  "create_node e request h =
     (if trim (cnq_node_code request) = [] \<or> trim (cnq_name request) = []
      then (Inl (bad_request ''node_code and name are required''), h)
      else if repo_node_id_by_code (hub_repo h) (cnq_node_code request) \<noteq> None
      then (Inl (conflict ''node_code already exists''), h)
      else
        let node_id = env_uuid e 0;
            bootstrap_token = ''boot-'' @ env_display_uuid e (env_uuid e 1);
            bootstrap_token_hash = hash_bootstrap_token e bootstrap_token;
            node = \<lparr>nd_identity = \<lparr>ni_id = node_id, ni_node_code = cnq_node_code request,
                      ni_name = cnq_name request, ni_region = cnq_region request,
                      ni_idc = cnq_idc request, ni_status = Pending\<rparr>,
                    nd_runtime = \<lparr>nr_active_config_version = None, nr_last_seen_at = None,
                      nr_site_count = 0, nr_health_score = 100\<rparr>,
                    nd_labels = cnq_labels request, nd_hostname = None, nd_public_ip = None,
                    nd_private_ip = None, nd_bootstrap_token = Some bootstrap_token_hash,
                    nd_pingora_version = None, nd_agent_version = None\<rparr>
        in (Inr \<lparr>cnr_node_id = node_id, cnr_bootstrap_token = bootstrap_token\<rparr>,
            with_repo (repo_save_node node) h))"

definition node_overview_of :: "node_record \<Rightarrow> node_overview" where
  "node_overview_of node =
     \<lparr>nov_node_id = ni_id (nd_identity node), nov_node_code = ni_node_code (nd_identity node),
      nov_name = ni_name (nd_identity node), nov_region = ni_region (nd_identity node),
      nov_idc = ni_idc (nd_identity node), nov_labels = nd_labels node,
      nov_status = node_status_name (ni_status (nd_identity node)),
      nov_active_config_version = nr_active_config_version (nd_runtime node),
      nov_last_seen_at = nr_last_seen_at (nd_runtime node)\<rparr>"

definition list_nodes :: "hub \<Rightarrow> node_overview list api_result" where
  "list_nodes h = Inr (sort_key nov_node_code (map node_overview_of (repo_list_nodes (hub_repo h))))"

definition node_site_overview_of :: "uuid \<Rightarrow> site_record \<Rightarrow> node_site_overview option" where
  "node_site_overview_of node_id site =
     map_option (\<lambda>binding.
         \<lparr>nso_site_id = st_id site, nso_site_code = st_site_code site, nso_name = st_name site,
          nso_domain = st_domain site, nso_status = site_status_name (st_status site),
          nso_version = st_version site, nso_binding_role = sb_binding_role binding,
          nso_priority = sb_priority binding\<rparr>)
       (List.find (\<lambda>binding. sb_node_id binding = node_id) (st_bindings site))"

definition node_detail :: "uuid \<Rightarrow> hub \<Rightarrow> node_detail api_result" where
  "node_detail node_id h =
     result_bind (ok_or (not_found ''node not found'') (repo_node (hub_repo h) node_id)) (\<lambda>node.
       Inr \<lparr>ndt_node_id = ni_id (nd_identity node), ndt_node_code = ni_node_code (nd_identity node),
            ndt_name = ni_name (nd_identity node), ndt_region = ni_region (nd_identity node),
            ndt_idc = ni_idc (nd_identity node), ndt_labels = nd_labels node,
            ndt_status = node_status_name (ni_status (nd_identity node)),
            ndt_hostname = nd_hostname node, ndt_public_ip = nd_public_ip node,
            ndt_private_ip = nd_private_ip node, ndt_pingora_version = nd_pingora_version node,
            ndt_agent_version = nd_agent_version node,
            ndt_active_config_version = nr_active_config_version (nd_runtime node),
            ndt_last_seen_at = nr_last_seen_at (nd_runtime node),
            ndt_runtime_site_count = nr_site_count (nd_runtime node),
            ndt_health_score = nr_health_score (nd_runtime node),
            ndt_sites = sort_key (\<lambda>site. (nso_priority site, nso_site_code site))
              (List.map_filter (node_site_overview_of node_id) (repo_list_sites (hub_repo h)))\<rparr>)"

definition delete_node :: "uuid \<Rightarrow> hub \<Rightarrow> delete_node_response hub_out" where
  "delete_node node_id h =
     try_ok (ok_or (not_found ''node not found'') (repo_node (hub_repo h) node_id)) h (\<lambda>node.
       let guard = repo_node_delete_guard (hub_repo h) node_id
       in if dg_bound_site_codes guard \<noteq> []
          then (Inl (conflict (''node is still bound to site(s): '' @ join '', '' (dg_bound_site_codes guard))), h)
          else if dg_failover_policy_count guard > 0
          then (Inl (conflict (''node is still referenced by '' @
                  nat_to_string (dg_failover_policy_count guard) @ '' failover policy entries'')), h)
          else
            let h = h\<lparr>hub_tokens := revoke_tokens node_id (hub_tokens h)\<rparr>;
                h = with_repo (repo_delete_node node_id) h
            in (Inr \<lparr>dnr_node_id = node_id, dnr_node_code = ni_node_code (nd_identity node),
                     dnr_deleted = True\<rparr>, h))"

definition issue_node_tokens :: "runtime \<Rightarrow> uuid \<Rightarrow> hub \<Rightarrow> issued_tokens \<times> hub" where
  "issue_node_tokens e node_id h =
     (let (issued, tokens) =
        issue_tokens (env_display_uuid e) (env_uuid e 0) (env_uuid e 1) (env_now e 0) node_id (hours 24)
          (hub_tokens h)
      in (issued, h\<lparr>hub_tokens := tokens\<rparr>))"

definition register_node :: "runtime \<Rightarrow> node_register_request \<Rightarrow> hub \<Rightarrow> node_register_response hub_out" where
  "register_node e request h =
     try_ok (ok_or (not_found ''node_code not found'')
         (repo_node_id_by_code (hub_repo h) (nrq_node_code request))) h (\<lambda>node_id.
     try_ok (ok_or (not_found ''node not found'') (repo_node (hub_repo h) node_id)) h (\<lambda>node.
     try_ok (ok_or (unauthorized ''bootstrap token already used or unavailable'')
         (nd_bootstrap_token node)) h (\<lambda>expected.
       if expected \<noteq> hash_bootstrap_token e (nrq_bootstrap_token request)
       then (Inl (unauthorized ''invalid bootstrap token''), h)
       else
         let (issued, h) = issue_node_tokens e node_id h;
             node = node\<lparr>nd_identity := (nd_identity node)\<lparr>ni_status := Online\<rparr>,
                         nd_hostname := Some (nrq_hostname request),
                         nd_public_ip := nrq_public_ip request,
                         nd_private_ip := nrq_private_ip request,
                         nd_agent_version := Some (nrq_agent_version request),
                         nd_bootstrap_token := None,
                         nd_runtime := (nd_runtime node)\<lparr>nr_last_seen_at := Some (env_now e 1)\<rparr>\<rparr>
         in (Inr \<lparr>nrr_node_id = node_id, nrr_access_token = it_access_token issued,
                  nrr_refresh_token = it_refresh_token issued, nrr_expires_at = it_expires_at issued\<rparr>,
             with_repo (repo_save_node node) h))))"

definition refresh_node_token :: "runtime \<Rightarrow> node_refresh_request \<Rightarrow> hub \<Rightarrow> node_refresh_response hub_out" where
  "refresh_node_token e request h =
     try_ok (ok_or (unauthorized ''invalid refresh token'')
         (refresh_lease (hub_tokens h) (nfq_refresh_token request))) h (\<lambda>lease.
       if tl_node_id lease \<noteq> nfq_node_id request
       then (Inl (unauthorized ''refresh token does not match node''), h)
       else
         let (issued, h) = issue_node_tokens e (nfq_node_id request) h
         in (Inr \<lparr>nfr_node_id = nfq_node_id request, nfr_access_token = it_access_token issued,
                  nfr_refresh_token = it_refresh_token issued, nfr_expires_at = it_expires_at issued\<rparr>, h))"

definition authorize_node :: "runtime \<Rightarrow> uuid \<Rightarrow> string \<Rightarrow> hub \<Rightarrow> unit api_result" where
  "authorize_node e node_id access_token h =
     result_bind (ok_or (unauthorized ''invalid access token'')
         (access_lease (hub_tokens h) access_token)) (\<lambda>lease.
       if tl_node_id lease \<noteq> node_id then Inl (unauthorized ''access token does not match node'')
       else if tl_expires_at lease < env_now e 0 then Inl (unauthorized ''access token expired'')
       else if repo_node (hub_repo h) node_id = None then Inl (not_found ''node not found'')
       else Inr ())"

definition node_heartbeat :: "runtime \<Rightarrow> node_heartbeat_request \<Rightarrow> hub \<Rightarrow> node_heartbeat_response hub_out" where
  "node_heartbeat e request h =
     (if repo_node (hub_repo h) (nhq_node_id request) = None then (Inl (not_found ''node not found''), h)
      else
        (Inr \<lparr>nhr_server_time = env_now e 1, nhr_next_heartbeat_after_seconds = 15\<rparr>,
         with_repo (repo_record_heartbeat
           \<lparr>hb_node_id = nhq_node_id request, hb_pingora_version = nhq_pingora_version request,
            hb_agent_version = nhq_agent_version request,
            hb_active_config_version = nhq_active_config_version request,
            hb_site_count = nhq_site_count request, hb_cpu_usage = nhq_cpu_usage request,
            hb_mem_usage = nhq_mem_usage request, hb_disk_usage = nhq_disk_usage request,
            hb_health_score = nhq_health_score request, hb_reported_at = env_now e 0\<rparr>) h))"

subsection \<open>The invariant\<close>

definition node_inv :: "memory_state \<Rightarrow> bool" where
  "node_inv s \<longleftrightarrow> hm_wf (nodes s) \<and>
     index_fwd (nodes s) (node_ids_by_code s) node_key node_ident \<and>
     index_bwd (nodes s) (node_ids_by_code s) node_key"

lemma node_inv_empty: "node_inv empty_memory_state"
  by (simp add: node_inv_def empty_memory_state_def index_fwd_def index_bwd_def)

lemma node_inv_save_new:
  assumes "node_inv s" "hm_get (node_ids_by_code s) (node_key node) = None"
    "hm_get (nodes s) (node_ident node) = None"
  shows "node_inv (repo_save_node node s)"
  using assms unfolding node_inv_def
  by (auto intro!: node_tab.save_fwd_checked node_tab.save_bwd node_tab.save_wf)

lemma node_inv_save_same:
  assumes "node_inv s" "hm_get (nodes s) (node_ident node) = Some old" "node_key old = node_key node"
  shows "node_inv (repo_save_node node s)"
proof -
  have "hm_get (node_ids_by_code s) (node_key node) = Some (node_ident node)"
    using assms by (auto simp: node_inv_def dest!: index_fwdD)
  with assms show ?thesis unfolding node_inv_def
    by (auto intro!: node_tab.save_fwd_checked node_tab.save_bwd node_tab.save_wf)
qed

lemma node_inv_delete: "node_inv s \<Longrightarrow> node_inv (repo_delete_node i s)"
  unfolding node_inv_def
  by (intro conjI node_tab.delete_fwd node_tab.delete_bwd)
    (auto simp: repo_delete_node_def split: option.splits)

lemma apply_heartbeat_ident [simp]:
  "node_key (apply_heartbeat hb node) = node_key node"
  "node_ident (apply_heartbeat hb node) = node_ident node"
  by (simp_all add: apply_heartbeat_def)

lemma node_inv_heartbeat: "node_inv s \<Longrightarrow> node_inv (repo_record_heartbeat hb s)"
  by (auto simp: node_inv_def repo_record_heartbeat_def intro: index_fwd_modify index_bwd_modify)

lemma node_by_code:
  assumes "node_inv s" "repo_node_id_by_code s code = Some i"
  obtains node where "repo_node s i = Some node" "node_key node = code" "node_ident node = i"
proof -
  from assms obtain node where n: "hm_get (nodes s) i = Some node" "node_key node = code"
    by (auto simp: node_inv_def repo_node_id_by_code_def dest!: index_bwd_ex)
  moreover have "node_ident node = i"
    using assms(1) n(1) by (auto simp: node_inv_def dest!: index_fwdD)
  ultimately show thesis using that by (simp add: repo_node_def)
qed

lemma create_node_inv:
  assumes "node_inv (hub_repo h)" "repo_node (hub_repo h) (env_uuid e 0) = None"
    "create_node e request h = (r, h')"
  shows "node_inv (hub_repo h')"
  using assms
  by (auto simp: create_node_def Let_def repo_node_id_by_code_def repo_node_def split: if_splits
      intro!: node_inv_save_new)

subsection \<open>Tokens\<close>

lemma issue_node_tokens_eq:
  "issue_node_tokens e n h =
     (\<lparr>it_access_token = access_token_text (env_display_uuid e) (env_uuid e 0),
       it_refresh_token = refresh_token_text (env_display_uuid e) (env_uuid e 1),
       it_expires_at = env_now e 0 + hours 24\<rparr>,
      h\<lparr>hub_tokens := store_tokens n (access_token_text (env_display_uuid e) (env_uuid e 0))
         (refresh_token_text (env_display_uuid e) (env_uuid e 1)) (env_now e 0 + hours 24) (hub_tokens h)\<rparr>)"
  by (simp add: issue_node_tokens_def issue_tokens_def Let_def)

text \<open>The two token texts a call would issue are not in use.\<close>

definition tokens_fresh :: "runtime \<Rightarrow> memory_token_state \<Rightarrow> bool" where
  "tokens_fresh e st \<longleftrightarrow>
     access_lease st (access_token_text (env_display_uuid e) (env_uuid e 0)) = None \<and>
     refresh_lease st (refresh_token_text (env_display_uuid e) (env_uuid e 1)) = None"

text \<open>A successful registration, by its effect.\<close>

lemma register_node_Inr:
  assumes "register_node e request h = (Inr resp, h')"
  obtains node node' where
    "repo_node_id_by_code (hub_repo h) (nrq_node_code request) = Some (nrr_node_id resp)"
    "repo_node (hub_repo h) (nrr_node_id resp) = Some node"
    "nd_bootstrap_token node = Some (hash_bootstrap_token e (nrq_bootstrap_token request))"
    "nrr_access_token resp = access_token_text (env_display_uuid e) (env_uuid e 0)"
    "nrr_refresh_token resp = refresh_token_text (env_display_uuid e) (env_uuid e 1)"
    "nrr_expires_at resp = env_now e 0 + hours 24"
    "hub_tokens h' = store_tokens (nrr_node_id resp) (nrr_access_token resp) (nrr_refresh_token resp)
       (env_now e 0 + hours 24) (hub_tokens h)"
    "hub_repo h' = repo_save_node node' (hub_repo h)"
    "node_key node' = node_key node" "node_ident node' = node_ident node"
    "nd_bootstrap_token node' = None" "ni_status (nd_identity node') = Online"
proof -
  from assms obtain node_id node where
    "repo_node_id_by_code (hub_repo h) (nrq_node_code request) = Some node_id"
    "repo_node (hub_repo h) node_id = Some node"
    "nd_bootstrap_token node = Some (hash_bootstrap_token e (nrq_bootstrap_token request))"
    by (auto simp: register_node_def outcome_iffs issue_node_tokens_eq split: if_splits)
  with assms show thesis
    by (intro that [of node "node\<lparr>nd_identity := (nd_identity node)\<lparr>ni_status := Online\<rparr>,
           nd_hostname := Some (nrq_hostname request), nd_public_ip := nrq_public_ip request,
           nd_private_ip := nrq_private_ip request, nd_agent_version := Some (nrq_agent_version request),
           nd_bootstrap_token := None,
           nd_runtime := (nd_runtime node)\<lparr>nr_last_seen_at := Some (env_now e 1)\<rparr>\<rparr>"])
      (auto simp: register_node_def issue_node_tokens_eq)
qed

text \<open>
  C13: a bootstrap token enrols its node once. A registration only succeeds with the token whose
  digest is stored; afterwards the node is online, its access token is accepted for twenty-four
  hours, and every further registration under the node's code is refused.
\<close>

theorem register_node_once:
  assumes "node_inv (hub_repo h)" "token_inv (hub_tokens h)"
    and "register_node e request h = (Inr resp, h')"
  shows "(\<exists>node. repo_node (hub_repo h) (nrr_node_id resp) = Some node \<and> node_key node = nrq_node_code request \<and>
        nd_bootstrap_token node = Some (hash_bootstrap_token e (nrq_bootstrap_token request))) \<and>
    (\<exists>node. repo_node (hub_repo h') (nrr_node_id resp) = Some node \<and> ni_status (nd_identity node) = Online) \<and>
    (\<forall>e'. env_now e' 0 \<le> env_now e 0 + hours 24 \<longrightarrow>
        authorize_node e' (nrr_node_id resp) (nrr_access_token resp) h' = Inr ()) \<and>
    (\<forall>e' request'. nrq_node_code request' = nrq_node_code request \<longrightarrow>
        register_node e' request' h' =
          (Inl (unauthorized ''bootstrap token already used or unavailable''), h'))"
proof -
  from assms(3) obtain node node' where r:
    "repo_node_id_by_code (hub_repo h) (nrq_node_code request) = Some (nrr_node_id resp)"
    "repo_node (hub_repo h) (nrr_node_id resp) = Some node"
    "nd_bootstrap_token node = Some (hash_bootstrap_token e (nrq_bootstrap_token request))"
    "hub_tokens h' = store_tokens (nrr_node_id resp) (nrr_access_token resp) (nrr_refresh_token resp)
       (env_now e 0 + hours 24) (hub_tokens h)"
    "hub_repo h' = repo_save_node node' (hub_repo h)"
    "node_key node' = node_key node" "node_ident node' = node_ident node"
    "nd_bootstrap_token node' = None" "ni_status (nd_identity node') = Online"
    by (rule register_node_Inr)
  from node_by_code [OF assms(1) r(1)] r(2) have key: "node_key node = nrq_node_code request"
    "node_ident node = nrr_node_id resp" by auto
  have node': "repo_node (hub_repo h') (nrr_node_id resp) = Some node'"
    "repo_node_id_by_code (hub_repo h') (nrq_node_code request) = Some (nrr_node_id resp)"
    using r(5,6,7) key by (simp_all add: repo_node_def repo_node_id_by_code_def repo_save_node_def)
  have "access_lease (hub_tokens h') (nrr_access_token resp) =
      Some \<lparr>tl_node_id = nrr_node_id resp, tl_expires_at = env_now e 0 + hours 24\<rparr>"
    by (simp add: r(4) mem.access_issue [OF assms(2)])
  with node' have "\<forall>e'. env_now e' 0 \<le> env_now e 0 + hours 24 \<longrightarrow>
      authorize_node e' (nrr_node_id resp) (nrr_access_token resp) h' = Inr ()"
    by (simp add: authorize_node_def)
  moreover have "\<forall>e' request'. nrq_node_code request' = nrq_node_code request \<longrightarrow>
      register_node e' request' h' = (Inl (unauthorized ''bootstrap token already used or unavailable''), h')"
    using node' r(8) by (simp add: register_node_def)
  ultimately show ?thesis using r(2,3,9) key(1) node'(1) by blast
qed

text \<open>
  The token \<open>create_node\<close> returns enrols the node it created.
\<close>

theorem create_then_register:
  assumes "create_node e request h = (Inr resp, h1)"
    and "env_sha256_hex e' = env_sha256_hex e"
    and "nrq_node_code reg = cnq_node_code request" "nrq_bootstrap_token reg = cnr_bootstrap_token resp"
  shows "\<exists>r. fst (register_node e' reg h1) = Inr r \<and> nrr_node_id r = cnr_node_id resp"
  using assms
  by (auto simp: create_node_def register_node_def Let_def repo_node_id_by_code_def repo_node_def
      repo_save_node_def hash_bootstrap_token_def hash_session_token_def issue_node_tokens_eq split: if_splits)

text \<open>An example: one node, created and enrolled.\<close>

definition sample_node_request :: create_node_request where
  "sample_node_request = \<lparr>cnq_node_code = ''edge-1'', cnq_name = ''Edge 1'', cnq_region = ''eu'',
     cnq_idc = ''ams'', cnq_labels = JObject []\<rparr>"

definition sample_created :: "create_node_response hub_out" where
  "sample_created = create_node (sample_env 1 0) sample_node_request new_memory"

definition sample_register_request :: node_register_request where
  "sample_register_request = \<lparr>nrq_node_code = ''edge-1'', nrq_bootstrap_token = ''boot-2'',
     nrq_hostname = ''h'', nrq_public_ip = None, nrq_private_ip = None, nrq_agent_version = ''0.1''\<rparr>"

definition sample_registered :: "node_register_response hub_out" where
  "sample_registered = register_node (sample_env 10 0) sample_register_request (snd sample_created)"

lemma new_memory_parts [simp]:
  "hub_repo new_memory = empty_memory_state" "hub_tokens new_memory = empty_token_state"
  by (simp_all add: new_memory_def new_memory_with_cert_auto_renew_before_days_def)

lemma sample_created_inv:
  "node_inv (hub_repo (snd sample_created))" "hub_tokens (snd sample_created) = empty_token_state"
proof -
  show "node_inv (hub_repo (snd sample_created))"
    unfolding sample_created_def
    by (rule create_node_inv [OF _ _ prod.collapse [symmetric]])
      (simp_all add: node_inv_empty repo_node_def, simp add: empty_memory_state_def)
  show "hub_tokens (snd sample_created) = empty_token_state"
    by (simp add: sample_created_def create_node_def Let_def)
qed

lemma sample_created_eval:
  "fst sample_created = Inr \<lparr>cnr_node_id = 1, cnr_bootstrap_token = ''boot-2''\<rparr>"
  by code_simp

lemma sample_registered_eval:
  "fst sample_registered = Inr \<lparr>nrr_node_id = 1, nrr_access_token = ''node-at-10'',
     nrr_refresh_token = ''node-rt-11'', nrr_expires_at = hours 24\<rparr>"
  by code_simp

theorem register_node_once_witness:
  "authorize_node (sample_env 20 (hours 5)) 1 ''node-at-10'' (snd sample_registered) = Inr () \<and>
   fst (register_node (sample_env 20 (hours 5)) sample_register_request (snd sample_registered)) =
     Inl (unauthorized ''bootstrap token already used or unavailable'')"
proof -
  have inv: "token_inv (hub_tokens (snd sample_created))" by (simp add: sample_created_inv)
  have now: "env_now (sample_env 20 (hours 5)) 0 \<le> env_now (sample_env 10 0) 0 + hours 24"
    by (simp add: sample_env_def hours_def seconds_def)
  from register_node_once [OF sample_created_inv(1) inv
      fst_eq_pair [OF sample_registered_eval, unfolded sample_registered_def]] now
  show ?thesis by (simp add: sample_registered_def)
qed

theorem create_then_register_witness:
  "\<exists>r. fst (register_node (sample_env 10 0) sample_register_request (snd sample_created)) = Inr r \<and>
     nrr_node_id r = 1"
proof -
  have same: "env_sha256_hex (sample_env 10 0) = env_sha256_hex (sample_env 1 0)"
    by (simp add: sample_env_def)
  from create_then_register [OF fst_eq_pair [OF sample_created_eval, unfolded sample_created_def] same,
      of sample_register_request]
  show ?thesis by (simp add: sample_created_def sample_register_request_def sample_node_request_def)
qed

lemma register_node_inv:
  assumes "node_inv (hub_repo h)" "token_inv (hub_tokens h)" "tokens_fresh e (hub_tokens h)"
    and "register_node e request h = (r, h')"
  shows "node_inv (hub_repo h') \<and> token_inv (hub_tokens h')"
proof (cases r)
  case (Inl err)
  with assms show ?thesis
    by (auto simp: register_node_def outcome_iffs issue_node_tokens_eq split: if_splits)
next
  case (Inr resp)
  from assms(4) [unfolded Inr] obtain node node' where
    id: "repo_node_id_by_code (hub_repo h) (nrq_node_code request) = Some (nrr_node_id resp)"
    "repo_node (hub_repo h) (nrr_node_id resp) = Some node"
    and r: "nrr_access_token resp = access_token_text (env_display_uuid e) (env_uuid e 0)"
    "nrr_refresh_token resp = refresh_token_text (env_display_uuid e) (env_uuid e 1)"
    "hub_tokens h' = store_tokens (nrr_node_id resp) (nrr_access_token resp) (nrr_refresh_token resp)
       (env_now e 0 + hours 24) (hub_tokens h)"
    "hub_repo h' = repo_save_node node' (hub_repo h)"
    "node_key node' = node_key node" "node_ident node' = node_ident node"
    by (rule register_node_Inr)
  have "node_ident node = nrr_node_id resp" using node_by_code [OF assms(1) id(1)] id(2) by auto
  with assms(1) id(2) r have "node_inv (hub_repo h')"
    by (simp add: repo_node_def node_inv_save_same)
  moreover have "token_inv (hub_tokens h')"
    using assms(2,3) r unfolding tokens_fresh_def by (simp add: mem.inv_issue)
  ultimately show ?thesis by simp
qed

text \<open>
  C14: refreshing rotates the tokens of a node. It succeeds exactly for a refresh token leased to
  the node; the new access token is accepted for twenty-four hours, and every other access and
  refresh token of the node is refused from then on.
\<close>

theorem refresh_node_token_rotates:
  assumes "token_inv (hub_tokens h)" "repo_node (hub_repo h) n \<noteq> None"
    and "refresh_lease (hub_tokens h) t = Some lease" "tl_node_id lease = n"
  shows "\<exists>resp h'. refresh_node_token e \<lparr>nfq_node_id = n, nfq_refresh_token = t\<rparr> h = (Inr resp, h') \<and>
    (\<forall>e'. env_now e' 0 \<le> env_now e 0 + hours 24 \<longrightarrow>
        authorize_node e' n (nfr_access_token resp) h' = Inr ()) \<and>
    (\<forall>e' a. a \<noteq> nfr_access_token resp \<longrightarrow> (\<exists>err. authorize_node e' n a h' = Inl (unauthorized err))) \<and>
    (\<forall>e' t'. t' \<noteq> nfr_refresh_token resp \<longrightarrow>
        (\<exists>err. refresh_node_token e' \<lparr>nfq_node_id = n, nfq_refresh_token = t'\<rparr> h' = (Inl (unauthorized err), h')))"
proof -
  let ?a = "access_token_text (env_display_uuid e) (env_uuid e 0)"
  let ?r = "refresh_token_text (env_display_uuid e) (env_uuid e 1)"
  let ?x = "env_now e 0 + hours 24"
  let ?h' = "h\<lparr>hub_tokens := store_tokens n ?a ?r ?x (hub_tokens h)\<rparr>"
  let ?resp = "\<lparr>nfr_node_id = n, nfr_access_token = ?a, nfr_refresh_token = ?r, nfr_expires_at = ?x\<rparr>"
  have "refresh_node_token e \<lparr>nfq_node_id = n, nfq_refresh_token = t\<rparr> h = (Inr ?resp, ?h')"
    using assms(3,4) by (simp add: refresh_node_token_def issue_node_tokens_eq)
  moreover have "authorize_node e' n ?a ?h' = Inr ()" if "env_now e' 0 \<le> ?x" for e'
    using that assms(2) by (auto simp: authorize_node_def mem.access_issue [OF assms(1)])
  moreover have "\<exists>err. authorize_node e' n a ?h' = Inl (unauthorized err)" if "a \<noteq> ?a" for e' a
    using that by (cases "access_lease (hub_tokens h) a") (auto simp: authorize_node_def mem.access_issue [OF assms(1)])
  moreover have "\<exists>err. refresh_node_token e' \<lparr>nfq_node_id = n, nfq_refresh_token = t'\<rparr> ?h' =
      (Inl (unauthorized err), ?h')" if "t' \<noteq> ?r" for e' t'
    using that by (cases "refresh_lease (hub_tokens h) t'")
      (auto simp: refresh_node_token_def mem.refresh_issue [OF assms(1)])
  ultimately show ?thesis by (intro exI [of _ ?resp] exI [of _ ?h']) simp
qed

theorem refresh_node_token_rotates_witness:
  "\<exists>resp h'. refresh_node_token (sample_env 20 (hours 5)) \<lparr>nfq_node_id = 1, nfq_refresh_token = ''node-rt-11''\<rparr>
     (snd sample_registered) = (Inr resp, h') \<and> nfr_access_token resp = ''node-at-20'' \<and>
     (\<exists>err. authorize_node (sample_env 30 (hours 5)) 1 ''node-at-10'' h' = Inl (unauthorized err))"
proof -
  have fresh: "tokens_fresh (sample_env 10 0) (hub_tokens (snd sample_created))"
    by (simp add: sample_created_inv tokens_fresh_def empty_token_state_def access_lease_def refresh_lease_def)
  have inv: "token_inv (hub_tokens (snd sample_registered))"
    unfolding sample_registered_def
    using register_node_inv [OF sample_created_inv(1) _ fresh prod.collapse [symmetric]]
    by (simp add: sample_created_inv)
  have node: "repo_node (hub_repo (snd sample_registered)) 1 \<noteq> None" by code_simp
  have lease: "refresh_lease (hub_tokens (snd sample_registered)) ''node-rt-11'' =
      Some \<lparr>tl_node_id = 1, tl_expires_at = hours 24\<rparr>" by code_simp
  have new: "fst (refresh_node_token (sample_env 20 (hours 5))
      \<lparr>nfq_node_id = 1, nfq_refresh_token = ''node-rt-11''\<rparr> (snd sample_registered)) =
      Inr \<lparr>nfr_node_id = 1, nfr_access_token = ''node-at-20'', nfr_refresh_token = ''node-rt-21'',
        nfr_expires_at = hours 29\<rparr>" by code_simp
  from refresh_node_token_rotates [OF inv node lease, of "sample_env 20 (hours 5)"] obtain resp h' where
    r: "refresh_node_token (sample_env 20 (hours 5)) \<lparr>nfq_node_id = 1, nfq_refresh_token = ''node-rt-11''\<rparr>
       (snd sample_registered) = (Inr resp, h')"
    and dead: "\<forall>e' a. a \<noteq> nfr_access_token resp \<longrightarrow> (\<exists>err. authorize_node e' 1 a h' = Inl (unauthorized err))"
    by auto
  from r new have "nfr_access_token resp = ''node-at-20''" by simp
  with r dead show ?thesis by (intro exI [of _ resp] exI [of _ h']) simp
qed

subsection \<open>Removing a node\<close>

lemma node_delete_guard_empty:
  assumes "hm_wf (sites s)"
  shows "dg_bound_site_codes (repo_node_delete_guard s n) = [] \<longleftrightarrow>
    (\<forall>i site. hm_get (sites s) i = Some site \<longrightarrow> n \<notin> sb_node_id ` set (st_bindings site))"
proof -
  have "dg_bound_site_codes (repo_node_delete_guard s n) = [] \<longleftrightarrow>
      (\<forall>site \<in> set (hm_values (sites s)). n \<notin> sb_node_id ` set (st_bindings site))"
    by (auto simp: repo_node_delete_guard_def sort_dedup_Nil filter_empty_conv list_ex_iff)
  then show ?thesis using hm_in_values [OF assms] by blast
qed

text \<open>What a deletion leaves: the tokens of other nodes, and all of a site no binding of which names the node.\<close>

lemma revoke_keeps_other_nodes:
  assumes "token_inv (hub_tokens h)" "m \<noteq> n" "repo_node (hub_repo h') m = repo_node (hub_repo h) m"
    and "hub_tokens h' = revoke_tokens n (hub_tokens h)"
  shows "authorize_node e m t h' = Inr () \<longleftrightarrow> authorize_node e m t h = Inr ()"
  using assms by (cases "access_lease (hub_tokens h) t") (auto simp: authorize_node_def mem.access_revoke)

lemma delete_keeps_unbound_site:
  assumes "\<forall>i site. repo_site s i = Some site \<longrightarrow> n \<notin> sb_node_id ` set (st_bindings site)"
  shows "repo_site (repo_delete_node n s) i = repo_site s i"
proof (cases "repo_site s i")
  case (Some site)
  with assms have "filter (\<lambda>b. sb_node_id b \<noteq> n) (st_bindings site) = st_bindings site" by (auto simp: filter_id_conv)
  with Some show ?thesis by (simp add: repo_site_def repo_delete_node_def detach_site_def split: option.splits)
qed (simp add: repo_site_def repo_delete_node_def split: option.splits)

text \<open>
  C12: A node is deleted exactly when it exists and no site is bound to it; otherwise nothing
  changes. Deleting it removes it, frees its code and revokes its tokens (no access token is accepted for it, no refresh
  token can be used), and removes it from the targets and acknowledgements of every release, whose
  status is computed again. The other nodes stay with their tokens and the releases they are offered, as do
  the sites and all other fields of the releases.
\<close>

theorem delete_node_spec:
  assumes "node_inv (hub_repo h)" "hm_wf (sites (hub_repo h))" "token_inv (hub_tokens h)"
  shows "(case delete_node n h of
      (Inl err, h') \<Rightarrow> h' = h \<and>
        (repo_node (hub_repo h) n = None \<or>
         (\<exists>i site. repo_site (hub_repo h) i = Some site \<and> n \<in> sb_node_id ` set (st_bindings site)))
    | (Inr resp, h') \<Rightarrow>
        (\<exists>node. repo_node (hub_repo h) n = Some node \<and> dnr_node_code resp = ni_node_code (nd_identity node)) \<and>
        (\<forall>i site. repo_site (hub_repo h) i = Some site \<longrightarrow> n \<notin> sb_node_id ` set (st_bindings site)) \<and>
        (\<forall>m. repo_node (hub_repo h') m = (if m = n then None else repo_node (hub_repo h) m)) \<and>
        repo_node_id_by_code (hub_repo h') (dnr_node_code resp) = None \<and>
        (\<forall>e t. authorize_node e n t h' \<noteq> Inr ()) \<and>
        (\<forall>m e t. m \<noteq> n \<longrightarrow> (authorize_node e m t h' = Inr () \<longleftrightarrow> authorize_node e m t h = Inr ())) \<and>
        (\<forall>t. refresh_lease (hub_tokens h') t = opt_filter (\<lambda>lease. tl_node_id lease \<noteq> n) (refresh_lease (hub_tokens h) t)) \<and>
        (\<forall>m. repo_latest_release_id_for_node (hub_repo h') m =
           (if m = n then None else repo_latest_release_id_for_node (hub_repo h) m)) \<and>
        (\<forall>i. repo_site (hub_repo h') i = repo_site (hub_repo h) i) \<and>
        (\<forall>i. case repo_release (hub_repo h) i of
           None \<Rightarrow> repo_release (hub_repo h') i = None
         | Some r \<Rightarrow> (\<exists>acks. repo_release (hub_repo h') i =
               Some (r\<lparr>rl_target_node_ids := filter (\<lambda>m. m \<noteq> n) (rl_target_node_ids r), rl_ack_status := acks,
                 rl_status := aggregate_release_status acks\<rparr>) \<and>
             (\<forall>m. hm_get acks m = (if m = n then None else hm_get (rl_ack_status r) m)))))"
proof (cases "repo_node (hub_repo h) n")
  case None
  then show ?thesis by (simp add: delete_node_def)
next
  case (Some node)
  show ?thesis
  proof (cases "dg_bound_site_codes (repo_node_delete_guard (hub_repo h) n) = []")
    case False
    with Some assms(2) show ?thesis
      by (auto simp: delete_node_def Let_def node_delete_guard_empty repo_site_def)
  next
    case True
    let ?h = "with_repo (repo_delete_node n) (h\<lparr>hub_tokens := revoke_tokens n (hub_tokens h)\<rparr>)"
    have del: "delete_node n h = (Inr \<lparr>dnr_node_id = n, dnr_node_code = node_key node, dnr_deleted = True\<rparr>, ?h)"
      using True Some by (simp add: delete_node_def Let_def repo_node_delete_guard_def)
    have unbound: "\<forall>i site. repo_site (hub_repo h) i = Some site \<longrightarrow> n \<notin> sb_node_id ` set (st_bindings site)"
      using True assms(2) by (simp add: node_delete_guard_empty repo_site_def)
    have nodes: "repo_node (hub_repo ?h) m = (if m = n then None else repo_node (hub_repo h) m)" for m
      by (simp add: repo_node_def node_tab.tab_del)
    have code: "repo_node_id_by_code (hub_repo ?h) (node_key node) = None"
      using Some by (simp add: repo_node_id_by_code_def repo_node_def node_tab.deleted_text_free)
    have closed: "authorize_node e n t ?h \<noteq> Inr ()" for e t
      using nodes [of n] by (auto simp: authorize_node_def result_bind_eq_Inr split: if_splits)
    have others: "authorize_node e m t ?h = Inr () \<longleftrightarrow> authorize_node e m t h = Inr ()" if "m \<noteq> n" for m e t
      using that nodes [of m] by (intro revoke_keeps_other_nodes [OF assms(3)]) simp_all
    have leases: "refresh_lease (hub_tokens ?h) t = opt_filter (\<lambda>lease. tl_node_id lease \<noteq> n) (refresh_lease (hub_tokens h) t)" for t
      using mem.refresh_revoke [OF assms(3)] by simp
    have offers: "repo_latest_release_id_for_node (hub_repo ?h) m =
        (if m = n then None else repo_latest_release_id_for_node (hub_repo h) m)" for m
      using Some by (simp add: repo_latest_release_id_for_node_def repo_node_def repo_delete_node_def)
    have kept: "repo_site (hub_repo ?h) i = repo_site (hub_repo h) i" for i
      using delete_keeps_unbound_site [OF unbound] by simp
    have releases: "case repo_release (hub_repo h) i of
        None \<Rightarrow> repo_release (hub_repo ?h) i = None
      | Some r \<Rightarrow> (\<exists>acks. repo_release (hub_repo ?h) i =
            Some (r\<lparr>rl_target_node_ids := filter (\<lambda>m. m \<noteq> n) (rl_target_node_ids r), rl_ack_status := acks,
              rl_status := aggregate_release_status acks\<rparr>) \<and>
          (\<forall>m. hm_get acks m = (if m = n then None else hm_get (rl_ack_status r) m)))" for i
      using Some by (auto simp: repo_release_def repo_node_def repo_delete_node_def detach_release_def Let_def split: option.splits
          intro!: exI [of _ "hm_remove n (rl_ack_status r)" for r])
    show ?thesis
      unfolding del using Some unbound nodes code closed others leases offers kept releases by simp
  qed
qed

theorem delete_node_spec_witness:
  "fst (delete_node 1 (snd sample_registered)) =
     Inr \<lparr>dnr_node_id = 1, dnr_node_code = ''edge-1'', dnr_deleted = True\<rparr> \<and>
   authorize_node (sample_env 20 (hours 5)) 1 ''node-at-10'' (snd (delete_node 1 (snd sample_registered))) \<noteq> Inr ()"
proof -
  have fresh: "tokens_fresh (sample_env 10 0) (hub_tokens (snd sample_created))"
    by (simp add: sample_created_inv tokens_fresh_def empty_token_state_def access_lease_def refresh_lease_def)
  have inv: "node_inv (hub_repo (snd sample_registered))" "token_inv (hub_tokens (snd sample_registered))"
    unfolding sample_registered_def
    using register_node_inv [OF sample_created_inv(1) _ fresh prod.collapse [symmetric]]
    by (simp_all add: sample_created_inv)
  have wf: "hm_wf (sites (hub_repo (snd sample_registered)))" by code_simp
  have del: "fst (delete_node 1 (snd sample_registered)) =
      Inr \<lparr>dnr_node_id = 1, dnr_node_code = ''edge-1'', dnr_deleted = True\<rparr>" by code_simp
  from fst_eq_pair [OF del] obtain h' where h': "delete_node 1 (snd sample_registered) =
      (Inr \<lparr>dnr_node_id = 1, dnr_node_code = ''edge-1'', dnr_deleted = True\<rparr>, h')" by blast
  from delete_node_spec [OF inv(1) wf inv(2), of 1] show ?thesis by (simp add: h')
qed

lemma delete_node_inv:
  assumes "node_inv (hub_repo h)" "token_inv (hub_tokens h)" "delete_node n h = (r, h')"
  shows "node_inv (hub_repo h') \<and> token_inv (hub_tokens h')"
  using assms
  by (auto simp: delete_node_def Let_def try_ok_def node_inv_delete mem.inv_revoke
      split: sum.splits if_splits)

subsection \<open>Heartbeats\<close>

text \<open>
  A heartbeat is refused exactly for an unknown node. Otherwise it records what the node
  reported and brings the node online, unless it is in maintenance, which only an operator ends;
  no other node changes.
\<close>

theorem node_heartbeat_spec:
  "(case repo_node (hub_repo h) (nhq_node_id request) of
      None \<Rightarrow> node_heartbeat e request h = (Inl (not_found ''node not found''), h)
    | Some node \<Rightarrow>
        (\<exists>resp h' node'. node_heartbeat e request h = (Inr resp, h') \<and>
           nhr_next_heartbeat_after_seconds resp = 15 \<and>
           repo_node (hub_repo h') = (repo_node (hub_repo h))(nhq_node_id request \<mapsto> node') \<and>
           nd_runtime node' = \<lparr>nr_active_config_version = nhq_active_config_version request,
             nr_last_seen_at = Some (env_now e 0), nr_site_count = nhq_site_count request,
             nr_health_score = nhq_health_score request\<rparr> \<and>
           nd_identity node' = (nd_identity node)\<lparr>ni_status :=
             if ni_status (nd_identity node) = Maintenance then Maintenance else Online\<rparr> \<and>
           nd_bootstrap_token node' = nd_bootstrap_token node))"
proof (cases "repo_node (hub_repo h) (nhq_node_id request)")
  case (Some node)
  let ?hb = "\<lparr>hb_node_id = nhq_node_id request, hb_pingora_version = nhq_pingora_version request,
    hb_agent_version = nhq_agent_version request, hb_active_config_version = nhq_active_config_version request,
    hb_site_count = nhq_site_count request, hb_cpu_usage = nhq_cpu_usage request,
    hb_mem_usage = nhq_mem_usage request, hb_disk_usage = nhq_disk_usage request,
    hb_health_score = nhq_health_score request, hb_reported_at = env_now e 0\<rparr>"
  have upd: "repo_node (repo_record_heartbeat ?hb (hub_repo h)) =
      (repo_node (hub_repo h))(nhq_node_id request \<mapsto> apply_heartbeat ?hb node)"
    using Some by (auto simp: repo_node_def repo_record_heartbeat_def fun_eq_iff)
  have "nd_identity (apply_heartbeat ?hb node) = (nd_identity node)\<lparr>ni_status :=
      if ni_status (nd_identity node) = Maintenance then Maintenance else Online\<rparr>"
    by (simp add: apply_heartbeat_def)
  moreover have "nd_runtime (apply_heartbeat ?hb node) =
      \<lparr>nr_active_config_version = nhq_active_config_version request,
       nr_last_seen_at = Some (env_now e 0), nr_site_count = nhq_site_count request,
       nr_health_score = nhq_health_score request\<rparr>"
    and "nd_bootstrap_token (apply_heartbeat ?hb node) = nd_bootstrap_token node"
    by (simp_all add: apply_heartbeat_def)
  ultimately show ?thesis
    by (simp add: Some node_heartbeat_def upd split del: if_split)
      (intro exI [of _ "apply_heartbeat ?hb node"], simp split del: if_split)
qed (simp add: node_heartbeat_def)

end
