(* ===== verification/Ops_Template.thy ===== *)
theory Ops_Template
  imports Json_Value
begin

text \<open>
  Operation templates (\<open>crates/ops-orchestrator\<close>): a command with \<open>{{key}}\<close> placeholders, a
  list of allowed parameters, and \<open>render_command\<close>, which checks the parameters against the
  list and substitutes them one key at a time. The specification is substitution in a template
  given as literal text and holes (\<open>fill\<close>); \<open>render_command\<close> agrees with it when neither the
  literal text nor the values contain an opening brace.
\<close>

datatype operation_kind = VipBind | VipUnbind | RouteSwitch | ServiceReload | CustomTemplate

record operation_template =
  ot_name :: string
  ot_kind :: operation_kind
  ot_command_template :: string
  ot_allowed_params :: "string list"
  ot_timeout_seconds :: u64

datatype operation_validation_error =
    UnknownParam string
  | InvalidValue string
  | MissingValue string

fun validation_error_to_string :: "operation_validation_error \<Rightarrow> string" where
  "validation_error_to_string (UnknownParam k) = ''unknown parameter: '' @ k"
| "validation_error_to_string (InvalidValue k) = ''invalid parameter value for: '' @ k"
| "validation_error_to_string (MissingValue k) = ''missing placeholder value for: '' @ k"

definition placeholder :: "string \<Rightarrow> string" where
  "placeholder key = ''{{'' @ key @ ''}}''"

fun replacement_text :: "json \<Rightarrow> string option" where
  "replacement_text (JString v) = Some v"
| "replacement_text (JNumber v) = Some (jnumber_to_string v)"
| "replacement_text (JBool b) = Some (if b then ''true'' else ''false'')"
| "replacement_text _ = None"

fun render_params ::
  "string list \<Rightarrow> (string \<times> json) list \<Rightarrow> string \<Rightarrow> operation_validation_error + string" where
  "render_params [] params rendered = Inr rendered"
| "render_params (key # keys) params rendered =
     (if str_contains (placeholder key) rendered then
        (case map_of params key of
           None \<Rightarrow> Inl (MissingValue key)
         | Some value \<Rightarrow>
             (case replacement_text value of
                None \<Rightarrow> Inl (InvalidValue key)
              | Some text \<Rightarrow>
                  render_params keys params (str_replace (placeholder key) text rendered)))
      else render_params keys params rendered)"

definition render_command ::
  "operation_template \<Rightarrow> (string \<times> json) list \<Rightarrow> operation_validation_error + string" where
  "render_command t params =
     (case List.find (\<lambda>key. key \<notin> set (ot_allowed_params t)) (map fst params) of
        Some key \<Rightarrow> Inl (UnknownParam key)
      | None \<Rightarrow> render_params (ot_allowed_params t) params (ot_command_template t))"

subsection \<open>Parameter checking\<close>

lemma render_command_params_allowed:
  "render_command t params = Inr c \<Longrightarrow> fst ` set params \<subseteq> set (ot_allowed_params t)"
  by (auto simp: render_command_def find_None_iff_all split: option.splits)

lemma render_params_errors:
  "render_params keys params s = Inl e \<Longrightarrow>
   (\<exists>k \<in> set keys. (e = MissingValue k \<and> map_of params k = None) \<or>
      (e = InvalidValue k \<and> (\<exists>v. map_of params k = Some v \<and> replacement_text v = None)))"
  by (induction keys params s rule: render_params.induct) (auto split: if_splits option.splits)

text \<open>
  The three ways a command is refused. Rendering fails with \<open>UnknownParam\<close> exactly when
  some parameter is not on the template's list, naming such a parameter; a \<open>MissingValue\<close> or
  \<open>InvalidValue\<close> error names an allowed parameter that is absent or is not a string, number or
  boolean. So a command is only ever produced from allowed parameters.
\<close>

theorem render_command_errors:
  assumes "render_command t params = Inl e"
  shows "(case e of
      UnknownParam k \<Rightarrow> k \<in> fst ` set params \<and> k \<notin> set (ot_allowed_params t)
    | MissingValue k \<Rightarrow> k \<in> set (ot_allowed_params t) \<and> map_of params k = None \<and>
        fst ` set params \<subseteq> set (ot_allowed_params t)
    | InvalidValue k \<Rightarrow> k \<in> set (ot_allowed_params t) \<and>
        (\<exists>v. map_of params k = Some v \<and> replacement_text v = None) \<and>
        fst ` set params \<subseteq> set (ot_allowed_params t))"
proof (cases "List.find (\<lambda>key. key \<notin> set (ot_allowed_params t)) (map fst params)")
  case None
  with assms have "render_params (ot_allowed_params t) params (ot_command_template t) = Inl e"
    by (simp add: render_command_def)
  from render_params_errors [OF this] None show ?thesis
    by (auto simp: find_None_iff_all)
next
  case (Some k)
  with assms have "e = UnknownParam k" by (simp add: render_command_def)
  with find_Some_in [OF Some] show ?thesis by simp
qed

definition sample_template :: operation_template where
  "sample_template = \<lparr>ot_name = ''reload'', ot_kind = ServiceReload,
     ot_command_template = ''systemctl reload {{unit}}'', ot_allowed_params = [''unit''],
     ot_timeout_seconds = 30\<rparr>"

theorem render_command_errors_witness:
  "render_command sample_template [(''host'', JNull)] = Inl (UnknownParam ''host'') \<and>
   ''host'' \<notin> set (ot_allowed_params sample_template)"
proof -
  have "render_command sample_template [(''host'', JNull)] = Inl (UnknownParam ''host'')"
    by code_simp
  from this render_command_errors [OF this] show ?thesis by simp
qed

subsection \<open>Substitution\<close>

text \<open>A template as literal text and holes, and the text it stands for.\<close>

datatype segment = Lit string | Hole string

fun segment_text :: "segment \<Rightarrow> string" where
  "segment_text (Lit t) = t"
| "segment_text (Hole k) = placeholder k"

definition template_text :: "segment list \<Rightarrow> string" where
  "template_text segs = concat (map segment_text segs)"

fun brace_free :: "segment \<Rightarrow> bool" where
  "brace_free (Lit t) \<longleftrightarrow> CHR ''{'' \<notin> set t"
| "brace_free (Hole k) \<longleftrightarrow> CHR ''{'' \<notin> set k \<and> CHR ''}'' \<notin> set k"

text \<open>The specification: fill the holes that have a value.\<close>

definition fill_segment :: "(string \<Rightarrow> string option) \<Rightarrow> segment \<Rightarrow> segment" where
  "fill_segment f g = (case g of Lit t \<Rightarrow> Lit t
     | Hole k \<Rightarrow> (case f k of None \<Rightarrow> Hole k | Some v \<Rightarrow> Lit v))"

definition fill :: "(string \<Rightarrow> string option) \<Rightarrow> segment list \<Rightarrow> segment list" where
  "fill f segs = map (fill_segment f) segs"

definition only :: "string \<Rightarrow> string \<Rightarrow> string \<Rightarrow> string option" where
  "only k v = (\<lambda>j. if j = k then Some v else None)"

lemma fill_segment_only [simp]: "fill_segment (only k v) (Hole k) = Lit v"
  by (simp add: fill_segment_def only_def)

lemma fill_segment_only_other [simp]: "g \<noteq> Hole k \<Longrightarrow> fill_segment (only k v) g = g"
  by (auto simp: fill_segment_def only_def split: segment.splits)

lemma fill_simps [simp]: "fill f [] = []" "fill f (g # segs) = fill_segment f g # fill f segs"
  by (simp_all add: fill_def)

lemma template_text_simps [simp]:
  "template_text [] = []" "template_text (g # segs) = segment_text g @ template_text segs"
  by (simp_all add: template_text_def)

text \<open>Skipping text in which no occurrence of the pattern starts.\<close>

lemma str_replace_skip:
  "(\<And>i. i < length xs \<Longrightarrow> \<not> prefix p (drop i xs @ s)) \<Longrightarrow> str_replace p r (xs @ s) = xs @ str_replace p r s"
proof (induction xs)
  case (Cons c xs)
  have "\<not> prefix p (c # xs @ s)" using Cons.prems [of 0] by simp
  moreover have "str_replace p r (xs @ s) = xs @ str_replace p r s"
    using Cons.prems [of "Suc i" for i] by (intro Cons.IH) auto
  ultimately show ?case by simp
qed simp

lemma str_contains_skip:
  "(\<And>i. i < length xs \<Longrightarrow> \<not> prefix p (drop i xs @ s)) \<Longrightarrow> str_contains p (xs @ s) = str_contains p s"
proof (induction xs)
  case (Cons c xs)
  have "\<not> prefix p (c # xs @ s)" using Cons.prems [of 0] by simp
  moreover have "str_contains p (xs @ s) = str_contains p s"
    using Cons.prems [of "Suc i" for i] by (intro Cons.IH) auto
  ultimately show ?case by simp
qed simp

lemma no_match_literal:
  "CHR ''{'' \<notin> set xs \<Longrightarrow> i < length xs \<Longrightarrow> \<not> prefix (placeholder k) (drop i xs @ s)"
  by (metis (no_types, lifting) Cons_nth_drop_Suc Cons_prefix_Cons append_Cons nth_mem placeholder_def)

lemma brace_split_unique:
  "k @ CHR ''}'' # s = k' @ CHR ''}'' # s' \<Longrightarrow> CHR ''}'' \<notin> set k \<Longrightarrow> CHR ''}'' \<notin> set k' \<Longrightarrow> k = k'"
proof (induction k arbitrary: k')
  case Nil
  then show ?case by (cases k') auto
next
  case (Cons c k)
  then show ?case by (cases k') auto
qed

lemma prefix_placeholder:
  assumes "brace_free (Hole k)" "brace_free (Hole j)"
  shows "prefix (placeholder k) (placeholder j @ s) \<longleftrightarrow> k = j"
proof
  assume "prefix (placeholder k) (placeholder j @ s)"
  then obtain z where "placeholder j @ s = placeholder k @ z" by (auto elim: prefixE)
  then have "j @ CHR ''}'' # CHR ''}'' # s = k @ CHR ''}'' # CHR ''}'' # z"
    by (simp add: placeholder_def)
  from brace_split_unique [OF this] assms show "k = j" by simp
qed simp

lemma no_match_other_hole:
  assumes "brace_free (Hole k)" "brace_free (Hole j)" "k \<noteq> j" "i < length (placeholder j)"
  shows "\<not> prefix (placeholder k) (drop i (placeholder j) @ s)"
proof (cases i)
  case 0
  then show ?thesis using assms prefix_placeholder by simp
next
  case (Suc i')
  show ?thesis
  proof (cases i')
    case 0
    then show ?thesis using Suc assms(2) by (cases j) (auto simp: placeholder_def)
  next
    case (Suc i'')
    have "CHR ''{'' \<notin> set (j @ ''}}'')" using assms(2) by simp
    moreover have "i'' < length (j @ ''}}'')"
      using assms(4) \<open>i = Suc i'\<close> Suc by (simp add: placeholder_def)
    ultimately have "\<not> prefix (placeholder k) (drop i'' (j @ ''}}'') @ s)"
      by (rule no_match_literal)
    then show ?thesis using \<open>i = Suc i'\<close> Suc by (simp add: placeholder_def)
  qed
qed

text \<open>One key: replacing its placeholder in the text fills its holes.\<close>

lemma str_replace_hole:
  assumes "brace_free (Hole k)" "list_all brace_free segs"
  shows "str_replace (placeholder k) v (template_text segs) = template_text (fill (only k v) segs)"
  using assms(2)
proof (induction segs)
  case (Cons g segs)
  then have IH: "str_replace (placeholder k) v (template_text segs) = template_text (fill (only k v) segs)"
    by simp
  show ?case
  proof (cases "g = Hole k")
    case True
    with IH show ?thesis by (simp add: placeholder_def)
  next
    case False
    have "\<not> prefix (placeholder k) (drop i (segment_text g) @ template_text segs)"
      if "i < length (segment_text g)" for i
      using that Cons.prems False assms(1) no_match_literal no_match_other_hole by (cases g) auto
    from str_replace_skip [OF this] IH False show ?thesis by simp
  qed
qed simp

lemma str_contains_hole:
  assumes "brace_free (Hole k)" "list_all brace_free segs"
  shows "str_contains (placeholder k) (template_text segs) \<longleftrightarrow> Hole k \<in> set segs"
  using assms(2)
proof (induction segs)
  case Nil
  then show ?case by (simp add: placeholder_def)
next
  case (Cons g segs)
  show ?case
  proof (cases "g = Hole k")
    case True
    then show ?thesis by (simp add: str_contains_sublist)
  next
    case False
    have "\<not> prefix (placeholder k) (drop i (segment_text g) @ template_text segs)"
      if "i < length (segment_text g)" for i
      using that Cons.prems False assms(1) no_match_literal no_match_other_hole by (cases g) auto
    from str_contains_skip [OF this] Cons False show ?thesis by simp
  qed
qed

lemma fill_brace_free:
  "list_all brace_free segs \<Longrightarrow> CHR ''{'' \<notin> set v \<Longrightarrow> list_all brace_free (fill (only k v) segs)"
proof (induction segs)
  case (Cons g segs)
  then show ?case by (cases "g = Hole k") simp_all
qed simp

lemma fill_absent: "Hole k \<notin> set segs \<Longrightarrow> fill (only k v) segs = segs"
  by (induction segs) auto

lemma fill_fill: "fill f (fill (only k v) segs) = fill (f(k \<mapsto> v)) segs"
proof (induction segs)
  case (Cons g segs)
  have "fill_segment f (fill_segment (only k v) g) = fill_segment (f(k \<mapsto> v)) g"
    by (cases g) (simp_all add: fill_segment_def only_def)
  with Cons.IH show ?case by (simp only: fill_simps)
qed simp

definition param_text :: "(string \<times> json) list \<Rightarrow> string \<Rightarrow> string option" where
  "param_text params k = Option.bind (map_of params k) replacement_text"

lemma render_params_fill:
  assumes "list_all (\<lambda>k. brace_free (Hole k)) keys" "list_all brace_free segs"
    and "\<And>k v. param_text params k = Some v \<Longrightarrow> CHR ''{'' \<notin> set v"
    and "\<And>k. k \<in> set keys \<Longrightarrow> param_text params k \<noteq> None"
  shows "render_params keys params (template_text segs) =
    Inr (template_text (fill (param_text params |` set keys) segs))"
  using assms(1,2,4)
proof (induction keys arbitrary: segs)
  case Nil
  have "fill Map.empty segs = segs"
    by (induction segs) (auto simp: fill_def fill_segment_def split: segment.splits)
  then show ?case by simp
next
  case (Cons k keys)
  from Cons.prems(3) obtain v where v: "param_text params k = Some v" by fastforce
  let ?segs = "fill (only k v) segs"
  have "render_params (k # keys) params (template_text segs) = render_params keys params (template_text ?segs)"
  proof (cases "Hole k \<in> set segs")
    case True
    with v Cons.prems show ?thesis
      by (auto simp: str_contains_hole str_replace_hole param_text_def bind_eq_Some_conv)
  next
    case False
    with Cons.prems show ?thesis by (simp add: str_contains_hole fill_absent)
  qed
  also have "\<dots> = Inr (template_text (fill (param_text params |` set keys) ?segs))"
    using Cons.prems assms(3) [OF v] by (intro Cons.IH) (auto simp: fill_brace_free)
  also have "fill (param_text params |` set keys) ?segs = fill (param_text params |` set (k # keys)) segs"
    using v by (simp add: fill_fill restrict_map_insert fun_upd_idem_iff)
  finally show ?case .
qed

text \<open>
  Rendering is substitution. For a template written as literal text and holes, with no
  opening brace in the text or in a parameter's value, and parameters that are exactly allowed
  and scalar, the rendered command is the template with every hole of an allowed key replaced by
  the text of its parameter.
\<close>

theorem render_command_fill:
  assumes "ot_command_template t = template_text segs" "list_all brace_free segs"
    and "list_all (\<lambda>k. brace_free (Hole k)) (ot_allowed_params t)"
    and "fst ` set params = set (ot_allowed_params t)"
    and "\<And>k. k \<in> set (ot_allowed_params t) \<Longrightarrow>
      \<exists>v. param_text params k = Some v \<and> CHR ''{'' \<notin> set v"
  shows "render_command t params = Inr (template_text (fill (param_text params) segs))"
proof -
  have dom: "param_text params k = None" if "k \<notin> set (ot_allowed_params t)" for k
    using that assms(4) by (metis bind.bind_lzero map_of_eq_None_iff param_text_def)
  then have restrict: "param_text params |` set (ot_allowed_params t) = param_text params"
    by (auto simp: restrict_map_def)
  have vals: "(param_text params k = Some v \<longrightarrow> CHR ''{'' \<notin> set v) \<and>
      (k \<in> set (ot_allowed_params t) \<longrightarrow> param_text params k \<noteq> None)" for k v
    using assms(5) [of k] dom [of k] by (cases "k \<in> set (ot_allowed_params t)") auto
  have "List.find (\<lambda>key. key \<notin> set (ot_allowed_params t)) (map fst params) = None"
    using assms(4) by (auto simp: find_None_iff_all)
  then have "render_command t params =
      render_params (ot_allowed_params t) params (template_text segs)"
    by (simp add: render_command_def assms(1))
  also have "\<dots> = Inr (template_text (fill (param_text params |` set (ot_allowed_params t)) segs))"
    using vals by (intro render_params_fill [OF assms(3,2)]) blast+
  finally show ?thesis by (simp add: restrict)
qed

theorem render_command_fill_witness:
  "render_command sample_template [(''unit'', JString ''pingora'')] = Inr ''systemctl reload pingora''"
proof -
  let ?segs = "[Lit ''systemctl reload '', Hole ''unit'']"
  have "ot_command_template sample_template = template_text ?segs"
    by (simp add: sample_template_def placeholder_def)
  from render_command_fill [OF this, of "[(''unit'', JString ''pingora'')]"] show ?thesis
    by (simp add: sample_template_def param_text_def fill_segment_def)
qed

end
