(* ===== verification/Hub_Ops.thy ===== *)
theory Hub_Ops
  imports Hub_Nodes Ops_Template
begin

text \<open>
  Operation templates and node operations (\<open>HubService::create_operation_template\<close> to
  \<open>list_node_operations\<close>, \<open>claim_next_node_operation\<close>, \<open>report_node_operation_result\<close>): a
  template is rendered when an operation is requested, to check its parameters, and again when a
  node claims the operation.
\<close>

subsection \<open>Normalisation\<close>

definition normalize_operation_template_name :: "runtime \<Rightarrow> string \<Rightarrow> string api_result" where
  "normalize_operation_template_name e raw =
     (let normalized = to_lowercase (env_unicode_lower e) (trim raw)
      in if normalized = [] then Inl (bad_request ''operation template name is required'') else Inr normalized)"

definition operation_types :: "string list" where
  "operation_types = [''vip_bind'', ''vip_unbind'', ''route_switch'', ''service_reload'', ''custom_template'']"

definition normalize_operation_type :: "runtime \<Rightarrow> string \<Rightarrow> string api_result" where
  "normalize_operation_type e raw =
     (let normalized = to_lowercase (env_unicode_lower e) (trim raw)
      in if normalized \<in> set operation_types then Inr normalized
         else Inl (bad_request
           ''operation_type must be one of vip_bind, vip_unbind, route_switch, service_reload, custom_template''))"

definition normalize_allowed_params :: "string list \<Rightarrow> string list api_result" where
  "normalize_allowed_params raw =
     (let params = sort_dedup (filter (\<lambda>item. item \<noteq> []) (map trim raw))
      in if length params > 32 then Inl (bad_request ''allowed_params is too large'') else Inr params)"

definition normalize_operation_run_as_user :: "string \<Rightarrow> string" where
  "normalize_operation_run_as_user raw = (let normalized = trim raw in if normalized = [] then ''root'' else normalized)"

fun normalize_operation_input_params :: "json \<Rightarrow> (string \<times> json) list api_result" where
  "normalize_operation_input_params (JObject m) = Inr m"
| "normalize_operation_input_params _ = Inl (bad_request ''input_params must be a JSON object'')"

definition normalize_operation_input_array :: "json \<Rightarrow> string list" where
  "normalize_operation_input_array raw = unwrap_or [] (map_option (List.map_filter as_str) (as_array raw))"

definition build_operation_template :: "operation_template_record \<Rightarrow> operation_template api_result" where
  "build_operation_template record =
     (case map_of [(''vip_bind'', VipBind), (''vip_unbind'', VipUnbind), (''route_switch'', RouteSwitch),
             (''service_reload'', ServiceReload), (''custom_template'', CustomTemplate)] (tp_operation_type record) of
        None \<Rightarrow> Inl (internal (''unsupported operation type '' @ tp_operation_type record))
      | Some kind \<Rightarrow> Inr
          \<lparr>ot_name = tp_name record, ot_kind = kind, ot_command_template = tp_command_template record,
           ot_allowed_params = unwrap_or [] (map_option (List.map_filter as_str) (as_array (tp_allowed_params record))),
           ot_timeout_seconds = ucast (max (tp_timeout_seconds record) 1)\<rparr>)"

definition normalize_operation_exec_status :: "runtime \<Rightarrow> string \<Rightarrow> string api_result" where
  "normalize_operation_exec_status e raw =
     (let normalized = to_lowercase (env_unicode_lower e) (trim raw)
      in if normalized \<in> {''success'', ''failed'', ''timeout'', ''cancelled''} then Inr normalized
         else Inl (bad_request ''exec_status must be one of success, failed, timeout, cancelled''))"

definition truncate_log_output :: "string \<Rightarrow> string" where
  "truncate_log_output raw =
     (if chars_count raw \<le> 4000 then raw else chars_take 4000 raw @ ''...'')"

definition rendered_command :: "operation_template \<Rightarrow> (string \<times> json) list \<Rightarrow> string api_result" where
  "rendered_command template params =
     (case render_command template params of
        Inl error \<Rightarrow> Inl (bad_request (validation_error_to_string error))
      | Inr command \<Rightarrow> Inr command)"

subsection \<open>Templates\<close>

definition operation_template_overview_of :: "operation_template_record \<Rightarrow> operation_template_overview" where
  "operation_template_overview_of template =
     \<lparr>oto_template_id = tp_template_id template, oto_name = tp_name template,
      oto_operation_type = tp_operation_type template, oto_command_template = tp_command_template template,
      oto_allowed_params = normalize_operation_input_array (tp_allowed_params template),
      oto_timeout_seconds = tp_timeout_seconds template, oto_run_as_user = tp_run_as_user template,
      oto_approval_required = tp_approval_required template, oto_created_at = tp_created_at template\<rparr>"

definition create_operation_template ::
  "runtime \<Rightarrow> create_operation_template_request \<Rightarrow> hub \<Rightarrow> operation_template_overview hub_out" where
  "create_operation_template e request h =
     try_ok (normalize_operation_template_name e (otq_name request)) h (\<lambda>name.
     try_ok (normalize_operation_type e (otq_operation_type request)) h (\<lambda>operation_type.
       let command_template = trim (otq_command_template request)
       in if command_template = [] then (Inl (bad_request ''command_template is required''), h)
          else
            try_ok (normalize_allowed_params (otq_allowed_params request)) h (\<lambda>allowed_params.
              let existing = repo_operation_template_by_name (hub_repo h) name;
                  template = \<lparr>tp_template_id = unwrap_or (env_uuid e 0) (map_option tp_template_id existing),
                    tp_name = name, tp_operation_type = operation_type, tp_command_template = command_template,
                    tp_allowed_params = JArray (map JString allowed_params),
                    tp_timeout_seconds = max (otq_timeout_seconds request) 1,
                    tp_run_as_user = normalize_operation_run_as_user (otq_run_as_user request),
                    tp_approval_required = otq_approval_required request,
                    tp_created_at = unwrap_or (env_now e 0) (map_option tp_created_at existing)\<rparr>
              in (Inr (operation_template_overview_of template),
                  with_repo (repo_save_operation_template template) h))))"

definition update_operation_template ::
  "runtime \<Rightarrow> uuid \<Rightarrow> create_operation_template_request \<Rightarrow> hub \<Rightarrow> operation_template_overview hub_out" where
  "update_operation_template e template_id request h =
     try_ok (ok_or (not_found ''operation template not found'') (repo_operation_template (hub_repo h) template_id)) h (\<lambda>existing.
     try_ok (normalize_operation_template_name e (otq_name request)) h (\<lambda>name.
     try_ok (normalize_operation_type e (otq_operation_type request)) h (\<lambda>operation_type.
       let command_template = trim (otq_command_template request)
       in if command_template = [] then (Inl (bad_request ''command_template is required''), h)
          else if unwrap_or False (map_option (\<lambda>template. tp_template_id template \<noteq> template_id)
                    (repo_operation_template_by_name (hub_repo h) name))
          then (Inl (conflict ''operation template name already exists''), h)
          else
            try_ok (normalize_allowed_params (otq_allowed_params request)) h (\<lambda>allowed_params.
              let template = \<lparr>tp_template_id = template_id, tp_name = name, tp_operation_type = operation_type,
                    tp_command_template = command_template, tp_allowed_params = JArray (map JString allowed_params),
                    tp_timeout_seconds = max (otq_timeout_seconds request) 1,
                    tp_run_as_user = normalize_operation_run_as_user (otq_run_as_user request),
                    tp_approval_required = otq_approval_required request, tp_created_at = tp_created_at existing\<rparr>
              in (Inr (operation_template_overview_of template),
                  with_repo (repo_save_operation_template template) h)))))"

definition delete_operation_template :: "uuid \<Rightarrow> hub \<Rightarrow> delete_operation_template_response hub_out" where
  "delete_operation_template template_id h =
     try_ok (ok_or (not_found ''operation template not found'') (repo_operation_template (hub_repo h) template_id)) h (\<lambda>template.
       (Inr \<lparr>dot_template_id = template_id, dot_name = tp_name template, dot_deleted = True\<rparr>,
        with_repo (repo_delete_operation_template template_id) h))"

definition list_operation_templates :: "hub \<Rightarrow> operation_template_overview list api_result" where
  "list_operation_templates h =
     Inr (sort_key oto_name (map operation_template_overview_of (repo_list_operation_templates (hub_repo h))))"

subsection \<open>Operations of a node\<close>

definition node_operation_overview_of ::
  "node_operation_record \<Rightarrow> operation_template_record \<Rightarrow> node_operation_overview" where
  "node_operation_overview_of operation template =
     \<lparr>noo_operation_id = op_operation_id operation, noo_node_id = op_node_id operation,
      noo_template_id = tp_template_id template, noo_template_name = tp_name template,
      noo_operation_type = tp_operation_type template, noo_input_params = op_input_params operation,
      noo_exec_status = op_exec_status operation, noo_requested_by = op_requested_by operation,
      noo_approved_by = op_approved_by operation, noo_exit_code = op_exit_code operation,
      noo_stdout_log = op_stdout_log operation, noo_stderr_log = op_stderr_log operation,
      noo_started_at = op_started_at operation, noo_finished_at = op_finished_at operation,
      noo_created_at = op_created_at operation\<rparr>"

definition new_node_operation ::
  "runtime \<Rightarrow> uuid \<Rightarrow> operation_template_record \<Rightarrow> (string \<times> json) list \<Rightarrow> string option \<Rightarrow> string \<Rightarrow>
   node_operation_record" where
  "new_node_operation e node_id template input_params requested_ticket requested_by =
     (let approval_ticket = opt_filter (\<lambda>value. value \<noteq> []) (map_option trim requested_ticket);
          exec_status = (if tp_approval_required template \<and> approval_ticket = None then ''pending'' else ''approved'');
          approved_by = (if exec_status = ''approved'' then Some (unwrap_or requested_by approval_ticket) else None)
      in \<lparr>op_operation_id = env_uuid e 0, op_node_id = node_id,
          op_template_id = tp_template_id template, op_event_id = None, op_input_params = JObject input_params,
          op_exec_status = exec_status, op_requested_by = requested_by, op_approved_by = approved_by,
          op_exit_code = None, op_stdout_log = None, op_stderr_log = None, op_started_at = None,
          op_finished_at = None, op_created_at = env_now e 0\<rparr>)"

definition create_node_operation ::
  "runtime \<Rightarrow> uuid \<Rightarrow> create_node_operation_request \<Rightarrow> string \<Rightarrow> hub \<Rightarrow> node_operation_overview hub_out" where
  "create_node_operation e node_id request requested_by h =
     try_ok (ok_or (not_found ''node not found'') (repo_node (hub_repo h) node_id)) h (\<lambda>_.
     try_ok (ok_or (not_found ''operation template not found'')
         (repo_operation_template (hub_repo h) (noq_template_id request))) h (\<lambda>template.
     try_ok (normalize_operation_input_params (noq_input_params request)) h (\<lambda>input_params.
     try_ok (result_bind (build_operation_template template) (\<lambda>t. rendered_command t input_params)) h (\<lambda>_.
       let operation = new_node_operation e node_id template input_params (noq_approval_ticket request) requested_by
       in (Inr (node_operation_overview_of operation template),
           with_repo (repo_save_node_operation operation) h)))))"

fun operation_overviews :: "memory_state \<Rightarrow> node_operation_record list \<Rightarrow> node_operation_overview list api_result" where
  "operation_overviews s [] = Inr []"
| "operation_overviews s (operation # operations) =
     result_bind (ok_or (internal ''operation template missing'')
         (repo_operation_template s (op_template_id operation))) (\<lambda>template.
     result_bind (operation_overviews s operations) (\<lambda>overviews.
       Inr (node_operation_overview_of operation template # overviews)))"

definition list_node_operations :: "uuid \<Rightarrow> hub \<Rightarrow> node_operation_overview list api_result" where
  "list_node_operations node_id h =
     result_bind (ok_or (not_found ''node not found'') (repo_node (hub_repo h) node_id)) (\<lambda>_.
       operation_overviews (hub_repo h) (repo_list_node_operations (hub_repo h) node_id))"

definition claimed_node_operation_dispatch :: "claimed_node_operation \<Rightarrow> pending_operation_response api_result" where
  "claimed_node_operation_dispatch claimed =
     result_bind (build_operation_template (cl_template claimed)) (\<lambda>template.
     result_bind (normalize_operation_input_params (op_input_params (cl_operation claimed))) (\<lambda>params.
     result_bind (rendered_command template params) (\<lambda>command.
       Inr \<lparr>por_operation_id = op_operation_id (cl_operation claimed), por_node_id = op_node_id (cl_operation claimed),
            por_template_id = tp_template_id (cl_template claimed), por_template_name = tp_name (cl_template claimed),
            por_operation_type = tp_operation_type (cl_template claimed), por_rendered_command = command,
            por_timeout_seconds = ot_timeout_seconds template, por_run_as_user = tp_run_as_user (cl_template claimed),
            por_created_at = op_created_at (cl_operation claimed)\<rparr>)))"

definition claim_next_node_operation :: "runtime \<Rightarrow> uuid \<Rightarrow> hub \<Rightarrow> pending_operation_response option hub_out" where
  "claim_next_node_operation e node_id h =
     (let (claimed, repo) = repo_claim_next_node_operation (env_now e 0) node_id (hub_repo h);
          h = h\<lparr>hub_repo := repo\<rparr>
      in (case claimed of
            None \<Rightarrow> (Inr None, h)
          | Some claimed \<Rightarrow>
              (result_bind (claimed_node_operation_dispatch claimed) (\<lambda>response. Inr (Some response)), h)))"

definition report_node_operation_result ::
  "runtime \<Rightarrow> uuid \<Rightarrow> operation_result_request \<Rightarrow> hub \<Rightarrow> operation_result_response hub_out" where
  "report_node_operation_result e operation_id request h =
     try_ok (ok_or (not_found ''node operation not found'') (repo_node_operation (hub_repo h) operation_id)) h (\<lambda>operation.
       if op_node_id operation \<noteq> orq_node_id request
       then (Inl (unauthorized ''operation does not belong to node''), h)
       else
         try_ok (normalize_operation_exec_status e (orq_exec_status request)) h (\<lambda>exec_status.
           let operation = operation\<lparr>op_exec_status := exec_status, op_exit_code := Some (orq_exit_code request),
                 op_stdout_log := Some (truncate_log_output (orq_stdout request)),
                 op_stderr_log := Some (truncate_log_output (orq_stderr request)),
                 op_finished_at := Some (orq_finished_at request),
                 op_started_at := (if op_started_at operation = None then Some (env_now e 0) else op_started_at operation)\<rparr>
           in (Inr \<lparr>orr_operation_id = operation_id, orr_node_id = orq_node_id request, orr_exec_status = exec_status\<rparr>,
               with_repo (repo_update_node_operation operation) h)))"

subsection \<open>The invariant\<close>

definition exec_statuses :: "string list" where
  "exec_statuses = [''pending'', ''approved'', ''running'', ''success'', ''failed'', ''timeout'', ''cancelled'']"

text \<open>
  Templates are found under their name and have an operation type; every operation belongs to a
  stored template, has one of the seven statuses and parameters that are an object, and one that
  may be claimed names who approved it.
\<close>

definition template_ok :: "operation_template_record \<Rightarrow> bool" where
  "template_ok t \<longleftrightarrow> tp_operation_type t \<in> set operation_types \<and> 1 \<le> tp_timeout_seconds t"

definition template_inv :: "memory_state \<Rightarrow> bool" where
  "template_inv s \<longleftrightarrow> hm_wf (operation_templates s) \<and>
     index_fwd (operation_templates s) (operation_template_ids_by_name s) tp_name tp_template_id \<and>
     (\<forall>i t. hm_get (operation_templates s) i = Some t \<longrightarrow> template_ok t)"

definition operation_ok :: "memory_state \<Rightarrow> node_operation_record \<Rightarrow> bool" where
  "operation_ok s op \<longleftrightarrow> hm_get (operation_templates s) (op_template_id op) \<noteq> None \<and>
     op_exec_status op \<in> set exec_statuses \<and> (\<exists>m. op_input_params op = JObject m) \<and>
     (op_exec_status op \<in> {''approved'', ''running''} \<longrightarrow> op_approved_by op \<noteq> None)"

definition ops_inv :: "memory_state \<Rightarrow> bool" where
  "ops_inv s \<longleftrightarrow> template_inv s \<and> ops_keyed s \<and>
     (\<forall>i op. hm_get (node_operations s) i = Some op \<longrightarrow> operation_ok s op)"

lemma ops_inv_empty: "ops_inv empty_memory_state"
  by (simp add: ops_inv_def template_inv_def ops_keyed_def empty_memory_state_def index_fwd_def)

lemma ops_inv_cong:
  "operation_templates s' = operation_templates s \<Longrightarrow>
   operation_template_ids_by_name s' = operation_template_ids_by_name s \<Longrightarrow>
   node_operations s' = node_operations s \<Longrightarrow> ops_inv s' = ops_inv s"
  by (simp add: ops_inv_def template_inv_def ops_keyed_def operation_ok_def)

lemma ops_inv_save_template:
  assumes "ops_inv s" "template_ok t"
    and "\<And>i r. hm_get (operation_template_ids_by_name s) (tp_name t) = Some i \<Longrightarrow>
      hm_get (operation_templates s) i = Some r \<Longrightarrow> i = tp_template_id t"
  shows "ops_inv (repo_save_operation_template t s)"
proof -
  let ?s = "repo_save_operation_template t s"
  have "index_fwd (operation_templates ?s) (operation_template_ids_by_name ?s) tp_name tp_template_id"
    using assms by (intro template_tab.save_fwd_checked) (auto simp: ops_inv_def template_inv_def)
  moreover have "hm_wf (operation_templates ?s)" "\<forall>i t. hm_get (operation_templates ?s) i = Some t \<longrightarrow> template_ok t"
    "ops_keyed ?s" "\<forall>i op. hm_get (node_operations ?s) i = Some op \<longrightarrow> operation_ok ?s op"
    using assms(1,2)
    by (auto simp: ops_inv_def template_inv_def ops_keyed_def operation_ok_def repo_save_operation_template_def)
  ultimately show ?thesis by (simp add: ops_inv_def template_inv_def)
qed

lemma ops_inv_save_operation:
  "ops_inv s \<Longrightarrow> operation_ok s op \<Longrightarrow> ops_inv (repo_save_node_operation op s)"
  by (auto simp: ops_inv_def template_inv_def ops_keyed_def operation_ok_def repo_save_node_operation_def)

lemma update_node_operation_eq: "repo_update_node_operation = repo_save_node_operation"
  by (simp add: fun_eq_iff repo_update_node_operation_def repo_save_node_operation_def)

lemma normalize_operation_type_Inr: "normalize_operation_type e raw = Inr t \<Longrightarrow> t \<in> set operation_types"
  by (auto simp: normalize_operation_type_def Let_def split: if_splits)

lemma max_one_u32: "1 \<le> max (n :: u32) 1"
  by (rule max.cobounded2)

lemma template_by_name_ident:
  assumes "template_inv s" "repo_operation_template_by_name s name = Some t"
    "hm_get (operation_template_ids_by_name s) name = Some i"
  shows "tp_template_id t = i"
  using assms by (auto simp: template_inv_def repo_operation_template_by_name_def dest: index_fwdD)

lemma create_operation_template_inv:
  assumes "ops_inv (hub_repo h)" "create_operation_template e request h = (r, h')"
  shows "ops_inv (hub_repo h')"
proof (cases "h' = h")
  case False
  let ?existing = "\<lambda>name. repo_operation_template_by_name (hub_repo h) name"
  from False assms(2) obtain name type params where
    h': "hub_repo h' = repo_save_operation_template
      \<lparr>tp_template_id = unwrap_or (env_uuid e 0) (map_option tp_template_id (?existing name)),
       tp_name = name, tp_operation_type = type, tp_command_template = trim (otq_command_template request),
       tp_allowed_params = JArray (map JString params), tp_timeout_seconds = max (otq_timeout_seconds request) 1,
       tp_run_as_user = normalize_operation_run_as_user (otq_run_as_user request),
       tp_approval_required = otq_approval_required request,
       tp_created_at = unwrap_or (env_now e 0) (map_option tp_created_at (?existing name))\<rparr> (hub_repo h)"
    and type: "type \<in> set operation_types"
    by (auto simp: create_operation_template_def try_ok_def Let_def split: sum.splits if_splits
        dest: normalize_operation_type_Inr)
  show ?thesis unfolding h'
  proof (rule ops_inv_save_template [OF assms(1)], goal_cases)
    case (2 i t)
    then have "?existing name = Some t" by (simp add: repo_operation_template_by_name_def)
    with 2 template_by_name_ident [of "hub_repo h" name t i] assms(1) show ?case by (simp add: ops_inv_def)
  qed (simp add: template_ok_def type max_one_u32)
qed (use assms(1) in simp)

lemma update_operation_template_inv:
  assumes "ops_inv (hub_repo h)" "update_operation_template e j request h = (r, h')"
  shows "ops_inv (hub_repo h')"
proof (cases "h' = h")
  case False
  let ?dup = "\<lambda>name. unwrap_or False (map_option (\<lambda>template. tp_template_id template \<noteq> j)
      (repo_operation_template_by_name (hub_repo h) name))"
  from False assms(2) obtain name type params existing where
    h': "hub_repo h' = repo_save_operation_template
      \<lparr>tp_template_id = j, tp_name = name, tp_operation_type = type,
       tp_command_template = trim (otq_command_template request),
       tp_allowed_params = JArray (map JString params), tp_timeout_seconds = max (otq_timeout_seconds request) 1,
       tp_run_as_user = normalize_operation_run_as_user (otq_run_as_user request),
       tp_approval_required = otq_approval_required request,
       tp_created_at = tp_created_at (existing :: operation_template_record)\<rparr> (hub_repo h)"
    and type: "type \<in> set operation_types" and dup: "\<not> ?dup name"
    by (auto simp: update_operation_template_def try_ok_def Let_def split: sum.splits if_splits
        dest: normalize_operation_type_Inr)
  show ?thesis unfolding h'
  proof (rule ops_inv_save_template [OF assms(1)], goal_cases)
    case (2 i t)
    then have t: "repo_operation_template_by_name (hub_repo h) name = Some t"
      by (simp add: repo_operation_template_by_name_def)
    with dup have "tp_template_id t = j" by simp
    with 2 t template_by_name_ident [of "hub_repo h" name t i] assms(1) show ?case by (simp add: ops_inv_def)
  qed (simp add: template_ok_def type max_one_u32)
qed (use assms(1) in simp)

lemma delete_operation_template_inv:
  assumes "ops_inv (hub_repo h)" "delete_operation_template i h = (r, h')"
  shows "ops_inv (hub_repo h')"
proof (cases "h' = h")
  case False
  then have h': "hub_repo h' = repo_delete_operation_template i (hub_repo h)"
    using assms(2) by (auto simp: delete_operation_template_def try_ok_def split: sum.splits)
  let ?s = "hub_repo h"
  have wf: "hm_wf (node_operations ?s)" using assms(1) by (simp add: ops_inv_def ops_keyed_def)
  have "index_fwd (operation_templates (hub_repo h')) (operation_template_ids_by_name (hub_repo h')) tp_name tp_template_id"
    unfolding h' using assms(1) by (intro template_tab.delete_fwd) (simp add: ops_inv_def template_inv_def)
  moreover have "hm_wf (operation_templates (hub_repo h'))"
    "\<forall>i t. hm_get (operation_templates (hub_repo h')) i = Some t \<longrightarrow> template_ok t"
    using assms(1) unfolding h'
    by (auto simp: ops_inv_def template_inv_def repo_delete_operation_template_def split: option.splits if_splits)
  moreover have "ops_keyed (hub_repo h')"
    "\<forall>j op. hm_get (node_operations (hub_repo h')) j = Some op \<longrightarrow> operation_ok (hub_repo h') op"
    using assms(1) wf unfolding h'
    by (auto simp: ops_inv_def ops_keyed_def operation_ok_def repo_delete_operation_template_def hm_get_retain opt_filter_eq_Some
        split: option.splits if_splits)
  ultimately show ?thesis by (simp add: ops_inv_def template_inv_def)
qed (use assms(1) in simp)

lemma rendered_command_Inr: "rendered_command t params = Inr c \<longleftrightarrow> render_command t params = Inr c"
  by (auto simp: rendered_command_def split: sum.splits)

lemma input_params_Inr: "normalize_operation_input_params v = Inr m \<longleftrightarrow> v = JObject m"
  by (cases v) auto

lemma new_node_operation_sel [simp]:
  "op_operation_id (new_node_operation e n t m ticket by) = env_uuid e 0"
  "op_node_id (new_node_operation e n t m ticket by) = n"
  "op_template_id (new_node_operation e n t m ticket by) = tp_template_id t"
  "op_input_params (new_node_operation e n t m ticket by) = JObject m"
  "op_created_at (new_node_operation e n t m ticket by) = env_now e 0"
  by (simp_all add: new_node_operation_def Let_def)

lemma create_node_operation_Inr:
  assumes "create_node_operation e n request by h = (Inr resp, h')"
  obtains template params built command where
    "hm_get (operation_templates (hub_repo h)) (noq_template_id request) = Some template"
    "noq_input_params request = JObject params"
    "build_operation_template template = Inr built" "render_command built params = Inr command"
    "resp = node_operation_overview_of
       (new_node_operation e n template params (noq_approval_ticket request) by) template"
    "h' = with_repo (repo_save_node_operation
       (new_node_operation e n template params (noq_approval_ticket request) by)) h"
proof -
  from assms show thesis
    by (auto simp: create_node_operation_def outcome_iffs repo_operation_template_def result_bind_eq_Inr
        rendered_command_Inr input_params_Inr Let_def intro: that)
qed

lemma create_node_operation_inv:
  assumes "ops_inv (hub_repo h)" "create_node_operation e n request by h = (r, h')"
  shows "ops_inv (hub_repo h')"
proof (cases r)
  case (Inr resp)
  with assms(2) obtain template params where
    t: "hm_get (operation_templates (hub_repo h)) (noq_template_id request) = Some template"
    and h': "h' = with_repo (repo_save_node_operation
       (new_node_operation e n template params (noq_approval_ticket request) by)) h"
    using create_node_operation_Inr [of e n request "by" h resp h'] by metis
  from t assms(1) have "tp_template_id template = noq_template_id request"
    by (auto simp: ops_inv_def template_inv_def dest: index_fwdD)
  with t have "operation_ok (hub_repo h) (new_node_operation e n template params (noq_approval_ticket request) by)"
    by (simp add: operation_ok_def exec_statuses_def) (simp add: new_node_operation_def Let_def)
  with assms(1) show ?thesis by (simp add: h' ops_inv_save_operation)
next
  case (Inl err)
  with assms show ?thesis by (auto simp: create_node_operation_def outcome_iffs Let_def)
qed

lemma report_node_operation_result_inv:
  assumes "ops_inv (hub_repo h)" "report_node_operation_result e i request h = (r, h')"
  shows "ops_inv (hub_repo h')"
proof (cases "h' = h")
  case False
  with assms(2) obtain op where op: "hm_get (node_operations (hub_repo h)) i = Some op"
    by (cases "hm_get (node_operations (hub_repo h)) i")
      (auto simp: report_node_operation_result_def repo_node_operation_def)
  with False assms(2) obtain status where
    h': "hub_repo h' = repo_save_node_operation (op\<lparr>op_exec_status := status, op_exit_code := Some (orq_exit_code request),
         op_stdout_log := Some (truncate_log_output (orq_stdout request)),
         op_stderr_log := Some (truncate_log_output (orq_stderr request)),
         op_finished_at := Some (orq_finished_at request),
         op_started_at := (if op_started_at op = None then Some (env_now e 0) else op_started_at op)\<rparr>) (hub_repo h)"
    and status: "status \<in> {''success'', ''failed'', ''timeout'', ''cancelled''}"
    by (auto simp: report_node_operation_result_def repo_node_operation_def try_ok_def Let_def update_node_operation_eq
        normalize_operation_exec_status_def split: sum.splits if_splits)
  have "operation_ok (hub_repo h) op" using assms(1) op by (simp add: ops_inv_def)
  with status show ?thesis unfolding h'
    by (intro ops_inv_save_operation [OF assms(1)]) (auto simp: operation_ok_def exec_statuses_def)
qed (use assms(1) in simp)

text \<open>Claiming: nothing to claim, or the oldest approved operation becomes running.\<close>

lemma claim_cases:
  assumes "ops_inv (hub_repo h)" "claim_next_node_operation e n h = (r, h')"
  obtains (idle) "r = Inr None" "h' = h"
      "\<And>i op. hm_get (node_operations (hub_repo h)) i = Some op \<Longrightarrow> op_node_id op = n \<Longrightarrow> op_exec_status op \<noteq> ''approved''"
    | (claimed) op template where
      "hm_get (node_operations (hub_repo h)) (op_operation_id op) = Some op" "op_node_id op = n"
      "op_exec_status op = ''approved''" "hm_get (operation_templates (hub_repo h)) (op_template_id op) = Some template"
      "\<And>j op'. hm_get (node_operations (hub_repo h)) j = Some op' \<Longrightarrow> op_node_id op' = n \<Longrightarrow>
         op_exec_status op' = ''approved'' \<Longrightarrow> op_created_at op \<le> op_created_at op'"
      "h' = with_repo (repo_save_node_operation (op\<lparr>op_exec_status := ''running'', op_started_at := Some (env_now e 0)\<rparr>)) h"
      "r = result_bind (claimed_node_operation_dispatch \<lparr>cl_operation = op\<lparr>op_exec_status := ''running'',
             op_started_at := Some (env_now e 0)\<rparr>, cl_template = template\<rparr>) (\<lambda>response. Inr (Some response))"
proof -
  have keyed: "ops_keyed (hub_repo h)" using assms(1) by (simp add: ops_inv_def)
  obtain c s' where claim: "repo_claim_next_node_operation (env_now e 0) n (hub_repo h) = (c, s')"
    by (cases "repo_claim_next_node_operation (env_now e 0) n (hub_repo h)")
  show thesis
  proof (cases c)
    case (Some claimed)
    from claim_Some [OF keyed claim [unfolded Some]] obtain op where
      op: "hm_get (node_operations (hub_repo h)) (op_operation_id op) = Some op" "op_node_id op = n"
        "op_exec_status op = ''approved''"
        "cl_operation claimed = op\<lparr>op_exec_status := ''running'', op_started_at := Some (env_now e 0)\<rparr>"
        "hm_get (operation_templates (hub_repo h)) (op_template_id op) = Some (cl_template claimed)"
        "s' = (hub_repo h)\<lparr>node_operations := hm_insert (op_operation_id op) (cl_operation claimed) (node_operations (hub_repo h))\<rparr>"
      and least: "\<And>j op'. hm_get (node_operations (hub_repo h)) j = Some op' \<Longrightarrow> op_node_id op' = n \<Longrightarrow>
         op_exec_status op' = ''approved'' \<Longrightarrow> op_created_at op \<le> op_created_at op'"
      by blast
    obtain template where c: "claimed = \<lparr>cl_operation = op\<lparr>op_exec_status := ''running'', op_started_at := Some (env_now e 0)\<rparr>,
        cl_template = template\<rparr>" using op(4) by (cases claimed) auto
    with assms(2) claim Some op least show thesis
      by (intro claimed [of op template])
        (auto simp: claim_next_node_operation_def with_repo_def repo_save_node_operation_def)
  next
    case None
    have "next_approved_operation (hub_repo h) n = None"
    proof (rule ccontr)
      assume "next_approved_operation (hub_repo h) n \<noteq> None"
      then obtain i where i: "next_approved_operation (hub_repo h) n = Some i" by blast
      obtain op where op: "hm_get (node_operations (hub_repo h)) i = Some op"
        by (rule next_approved_operation_Some [OF keyed i])
      with assms(1) have "hm_get (operation_templates (hub_repo h)) (op_template_id op) \<noteq> None"
        by (simp add: ops_inv_def operation_ok_def)
      with claim None i op show False
        by (auto simp: repo_claim_next_node_operation_def Let_def)
    qed
    with claim None assms(2) next_approved_operation_None [OF keyed, of n] show thesis
      by (intro idle) (auto simp: claim_next_node_operation_def repo_claim_next_node_operation_def)
  qed
qed

lemma claim_next_node_operation_inv:
  assumes "ops_inv (hub_repo h)" "claim_next_node_operation e n h = (r, h')"
  shows "ops_inv (hub_repo h')"
  using assms
proof (cases rule: claim_cases)
  case (claimed op template)
  then have "operation_ok (hub_repo h) op" using assms(1) by (simp add: ops_inv_def)
  with claimed(3) show ?thesis unfolding claimed(6) with_repo_sel
    by (intro ops_inv_save_operation [OF assms(1)]) (auto simp: operation_ok_def exec_statuses_def)
qed (use assms(1) in simp)

subsection \<open>Dispatch\<close>

text \<open>
  C29: what a node is sent. A claim returns an operation only if it is the oldest approved one of
  that node (so one that still waits for approval is never dispatched); it is running afterwards,
  the command is the template filled with the stored parameters, and no other operation changes.
\<close>

theorem claim_next_node_operation_spec:
  assumes "ops_inv (hub_repo h)" "claim_next_node_operation e n h = (Inr (Some resp), h')"
  shows "\<exists>op template built params.
    repo_node_operation (hub_repo h) (por_operation_id resp) = Some op \<and> op_node_id op = n \<and> op_exec_status op = ''approved'' \<and>
    op_approved_by op \<noteq> None \<and>
    (\<forall>j op'. repo_node_operation (hub_repo h) j = Some op' \<longrightarrow> op_node_id op' = n \<longrightarrow> op_exec_status op' = ''approved'' \<longrightarrow>
       op_created_at op \<le> op_created_at op') \<and>
    repo_operation_template (hub_repo h) (op_template_id op) = Some template \<and> build_operation_template template = Inr built \<and>
    op_input_params op = JObject params \<and> render_command built params = Inr (por_rendered_command resp) \<and>
    repo_node_operation (hub_repo h') (por_operation_id resp) =
      Some (op\<lparr>op_exec_status := ''running'', op_started_at := Some (env_now e 0)\<rparr>) \<and>
    (\<forall>j. j \<noteq> por_operation_id resp \<longrightarrow> repo_node_operation (hub_repo h') j = repo_node_operation (hub_repo h) j)"
  using assms
proof (cases rule: claim_cases)
  case (claimed op template)
  from claimed(7) obtain built params where dispatch: "build_operation_template template = Inr built"
    "op_input_params op = JObject params" "render_command built params = Inr (por_rendered_command resp)"
    "por_operation_id resp = op_operation_id op"
    by (auto simp: claimed_node_operation_dispatch_def result_bind_eq_Inr rendered_command_Inr input_params_Inr
        dest!: sym [of "Inr (Some resp)"])
  have "op_approved_by op \<noteq> None"
    using assms(1) claimed(1,3) by (simp add: ops_inv_def operation_ok_def)
  with claimed dispatch show ?thesis
    by (intro exI [of _ op] exI [of _ template] exI [of _ built] exI [of _ params])
      (auto simp: repo_node_operation_def repo_operation_template_def repo_save_node_operation_def)
qed simp

text \<open>An example: a template with one parameter, requested and claimed.\<close>

definition sample_template_request :: "string \<Rightarrow> string list \<Rightarrow> create_operation_template_request" where
  "sample_template_request name params = \<lparr>otq_name = name, otq_operation_type = ''service_reload'',
     otq_command_template = ''reload {{unit}}'', otq_allowed_params = params, otq_timeout_seconds = 30,
     otq_run_as_user = [], otq_approval_required = False\<rparr>"

definition sample_templates :: hub where
  "sample_templates = snd (create_operation_template (sample_env 20 0) (sample_template_request ''Reload'' [''unit'']) (snd sample_created))"

definition sample_operation_request :: create_node_operation_request where
  "sample_operation_request = \<lparr>noq_template_id = 20, noq_input_params = JObject [(''unit'', JString ''nginx'')],
     noq_approval_ticket = None\<rparr>"

definition sample_requested :: "node_operation_overview hub_out" where
  "sample_requested = create_node_operation (sample_env 30 0) 1 sample_operation_request ''admin'' sample_templates"

lemma ops_inv_new_memory: "ops_inv (hub_repo new_memory)"
  by (simp add: new_memory_def new_memory_with_cert_auto_renew_before_days_def ops_inv_empty)

lemma sample_templates_inv: "ops_inv (hub_repo sample_templates)"
proof -
  have "ops_inv (hub_repo (snd sample_created)) = ops_inv (hub_repo new_memory)"
    by (rule ops_inv_cong)
      (simp_all add: sample_created_def create_node_def Let_def repo_save_node_def)
  then show ?thesis
    unfolding sample_templates_def using ops_inv_new_memory
    by (metis create_operation_template_inv surjective_pairing)
qed

lemma sample_requested_inv: "ops_inv (hub_repo (snd sample_requested))"
  unfolding sample_requested_def by (metis create_node_operation_inv sample_templates_inv surjective_pairing)

lemma sample_requested_eval:
  "(case fst sample_requested of Inl _ \<Rightarrow> False
    | Inr resp \<Rightarrow> noo_operation_id resp = 30 \<and> noo_exec_status resp = ''approved'')"
  "node_operations (hub_repo sample_templates) = []"
  by code_simp+

lemma sample_claim_eval:
  "(case fst (claim_next_node_operation (sample_env 0 9) 1 (snd sample_requested)) of
      Inr (Some resp) \<Rightarrow> por_operation_id resp = 30 \<and> por_rendered_command resp = ''reload nginx'' | _ \<Rightarrow> False)"
  by code_simp

theorem claim_next_node_operation_spec_witness:
  "\<exists>op. repo_node_operation (hub_repo (snd (claim_next_node_operation (sample_env 0 9) 1 (snd sample_requested)))) 30 = Some op \<and>
     op_exec_status op = ''running''"
proof -
  from sample_claim_eval obtain resp where
    r: "fst (claim_next_node_operation (sample_env 0 9) 1 (snd sample_requested)) = Inr (Some resp)" "por_operation_id resp = 30"
    by (auto split: sum.splits option.splits)
  from claim_next_node_operation_spec [OF sample_requested_inv fst_eq_pair [OF r(1)]] r(2) show ?thesis by auto
qed

text \<open>
  An approved operation is dispatched. When a requested operation is approved and the node
  has no other approved one, its next claim returns this operation.
\<close>

theorem approved_operation_dispatched:
  assumes "ops_inv (hub_repo h)" "create_node_operation e n request by h = (Inr resp, h1)"
    and "noo_exec_status resp = ''approved''"
    and "\<forall>j op. repo_node_operation (hub_repo h) j = Some op \<longrightarrow> op_node_id op = n \<longrightarrow> op_exec_status op \<noteq> ''approved''"
  shows "\<exists>d h2. claim_next_node_operation e' n h1 = (Inr (Some d), h2) \<and> por_operation_id d = noo_operation_id resp \<and>
    por_node_id d = n"
proof -
  have inv: "ops_inv (hub_repo h1)" by (rule create_node_operation_inv [OF assms(1,2)])
  from assms(2) obtain template params built command where
    t: "hm_get (operation_templates (hub_repo h)) (noq_template_id request) = Some template"
    and render: "build_operation_template template = Inr built" "render_command built params = Inr command"
    and resp: "resp = node_operation_overview_of (new_node_operation e n template params (noq_approval_ticket request) by) template"
    and h1: "h1 = with_repo (repo_save_node_operation (new_node_operation e n template params (noq_approval_ticket request) by)) h"
    by (rule create_node_operation_Inr)
  let ?op = "new_node_operation e n template params (noq_approval_ticket request) by"
  have new: "hm_get (node_operations (hub_repo h1)) (env_uuid e 0) = Some ?op"
    and old: "\<And>j. j \<noteq> env_uuid e 0 \<Longrightarrow> hm_get (node_operations (hub_repo h1)) j = hm_get (node_operations (hub_repo h)) j"
    and tab: "operation_templates (hub_repo h1) = operation_templates (hub_repo h)"
    by (simp_all add: h1 repo_save_node_operation_def)
  have approved: "op_exec_status ?op = ''approved''" using assms(3) by (simp add: resp node_operation_overview_of_def)
  have tid: "tp_template_id template = noq_template_id request"
    using t assms(1) by (auto simp: ops_inv_def template_inv_def dest: index_fwdD)
  obtain r h2 where claim: "claim_next_node_operation e' n h1 = (r, h2)"
    by (cases "claim_next_node_operation e' n h1")
  from inv claim show ?thesis
  proof (cases rule: claim_cases)
    case idle
    from idle(3) [OF new] approved show ?thesis by simp
  next
    case (claimed op template')
    have "op_operation_id op = env_uuid e 0"
      using claimed(1-3) old assms(4) by (cases "op_operation_id op = env_uuid e 0") (auto simp: repo_node_operation_def)
    with claimed(1) new have op: "op = ?op" by simp
    have "template' = template" using claimed(4) t tid by (simp add: op tab)
    with claimed(7) render have "r = Inr (Some \<lparr>por_operation_id = env_uuid e 0, por_node_id = n,
        por_template_id = tp_template_id template, por_template_name = tp_name template,
        por_operation_type = tp_operation_type template, por_rendered_command = command,
        por_timeout_seconds = ot_timeout_seconds built, por_run_as_user = tp_run_as_user template,
        por_created_at = env_now e 0\<rparr>)"
      by (simp add: op claimed_node_operation_dispatch_def rendered_command_def)
    then show ?thesis using claim by (simp add: resp node_operation_overview_of_def)
  qed
qed

theorem approved_operation_dispatched_witness:
  "\<exists>d h2. claim_next_node_operation (sample_env 0 9) 1 (snd sample_requested) = (Inr (Some d), h2) \<and> por_operation_id d = 30"
proof -
  from sample_requested_eval(1) obtain resp where
    r: "fst sample_requested = Inr resp" "noo_operation_id resp = 30" "noo_exec_status resp = ''approved''"
    by (auto split: sum.splits)
  have "\<forall>j op. repo_node_operation (hub_repo sample_templates) j = Some op \<longrightarrow> op_node_id op = 1 \<longrightarrow> op_exec_status op \<noteq> ''approved''"
    by (simp add: repo_node_operation_def sample_requested_eval(2))
  from approved_operation_dispatched [OF sample_templates_inv fst_eq_pair [OF r(1) [unfolded sample_requested_def]] r(3) this, of "sample_env 0 9"]
  show ?thesis unfolding r(2) by (auto simp: sample_requested_def)
qed

text \<open>
  C37: a claim that fails strands its operation. When the parameters of an approved operation no
  longer fit its template, the claim answers with an error, but the operation is already marked
  as running, and no later claim returns it.
\<close>

theorem failed_claim_strands_operation:
  assumes "ops_inv (hub_repo h)" "claim_next_node_operation e n h = (Inl err, h1)"
  shows "\<exists>i op. repo_node_operation (hub_repo h) i = Some op \<and> op_exec_status op = ''approved'' \<and>
    repo_node_operation (hub_repo h1) i = Some (op\<lparr>op_exec_status := ''running'', op_started_at := Some (env_now e 0)\<rparr>) \<and>
    (\<forall>e' resp h2. claim_next_node_operation e' n h1 = (Inr (Some resp), h2) \<longrightarrow> por_operation_id resp \<noteq> i)"
proof -
  have inv: "ops_inv (hub_repo h1)" by (rule claim_next_node_operation_inv [OF assms])
  from assms show ?thesis
  proof (cases rule: claim_cases)
    case (claimed op template)
    let ?op = "op\<lparr>op_exec_status := ''running'', op_started_at := Some (env_now e 0)\<rparr>"
    have running: "hm_get (node_operations (hub_repo h1)) (op_operation_id op) = Some ?op"
      by (simp add: claimed(6) repo_save_node_operation_def)
    have "por_operation_id resp \<noteq> op_operation_id op"
      if claim: "claim_next_node_operation e' n h1 = (Inr (Some resp), h2)" for e' resp h2
      using inv claim
    proof (cases rule: claim_cases)
      case next_op: (claimed op' template')
      from next_op(7) have "por_operation_id resp = op_operation_id op'"
        by (auto simp: claimed_node_operation_dispatch_def result_bind_eq_Inr dest!: sym [of "Inr (Some resp)"])
      with running next_op(1,3) show ?thesis by auto
    qed simp
    then show ?thesis using claimed(1,3) running unfolding repo_node_operation_def by blast
  qed simp
qed

definition sample_narrowed :: hub where
  "sample_narrowed = snd (update_operation_template (sample_env 0 0) 20 (sample_template_request ''Reload'' []) (snd sample_requested))"

lemma sample_narrowed_eval:
  "fst (claim_next_node_operation (sample_env 0 9) 1 sample_narrowed) = Inl (bad_request ''unknown parameter: unit'')"
  by code_simp

theorem failed_claim_strands_operation_witness:
  "\<exists>i op. repo_node_operation (hub_repo sample_narrowed) i = Some op \<and> op_exec_status op = ''approved'' \<and>
     repo_node_operation (hub_repo (snd (claim_next_node_operation (sample_env 0 9) 1 sample_narrowed))) i =
       Some (op\<lparr>op_exec_status := ''running'', op_started_at := Some 9\<rparr>)"
proof -
  have "ops_inv (hub_repo sample_narrowed)"
    unfolding sample_narrowed_def by (metis update_operation_template_inv sample_requested_inv surjective_pairing)
  moreover have "env_now (sample_env 0 9) 0 = 9" by (simp add: sample_env_def seconds_def)
  ultimately show ?thesis
    using failed_claim_strands_operation [OF _ fst_eq_pair [OF sample_narrowed_eval]] by auto
qed

text \<open>
  A template created under the old name of a renamed template replaces the renamed one: it
  gets its identifier, and no template carries the new name any more.
\<close>

theorem renamed_template_overwritten:
  assumes "ops_inv (hub_repo h)" "repo_operation_template (hub_repo h) i = Some t"
    and "update_operation_template e i request h = (Inr renamed, h1)" "oto_name renamed \<noteq> tp_name t"
    and "normalize_operation_template_name e' (otq_name request') = Inr (tp_name t)"
    and "create_operation_template e' request' h1 = (Inr created, h2)"
  shows "oto_template_id created = i \<and>
    (\<exists>t'. repo_operation_template (hub_repo h2) i = Some t' \<and> tp_name t' = tp_name t) \<and>
    (\<forall>t' \<in> set (repo_list_operation_templates (hub_repo h2)). tp_name t' \<noteq> oto_name renamed)"
proof -
  from assms(1,2) have idx: "hm_get (operation_template_ids_by_name (hub_repo h)) (tp_name t) = Some i"
    by (auto simp: ops_inv_def template_inv_def repo_operation_template_def dest: index_fwdD)
  from assms(3) obtain u where u: "hub_repo h1 = repo_save_operation_template u (hub_repo h)"
    "tp_template_id u = i" "tp_name u = oto_name renamed"
    by (auto simp: update_operation_template_def outcome_iffs Let_def operation_template_overview_of_def split: if_splits)
  have "repo_operation_template_by_name (hub_repo h1) (tp_name t) = Some u"
    using u idx assms(4) by (simp add: repo_operation_template_by_name_def repo_save_operation_template_def)
  with assms(5,6) u obtain v where v: "hub_repo h2 = repo_save_operation_template v (hub_repo h1)"
    "tp_template_id v = i" "tp_name v = tp_name t" "oto_template_id created = i"
    by (auto simp: create_operation_template_def outcome_iffs Let_def operation_template_overview_of_def split: if_splits)
  have inv: "ops_inv (hub_repo h1)" "ops_inv (hub_repo h2)"
    using update_operation_template_inv [OF assms(1,3)] create_operation_template_inv [OF _ assms(6)] by auto
  have "tp_name t' \<noteq> oto_name renamed" if "t' \<in> set (repo_list_operation_templates (hub_repo h2))" for t'
  proof
    assume name: "tp_name t' = oto_name renamed"
    from that inv(2) obtain j where j: "hm_get (operation_templates (hub_repo h2)) j = Some t'"
      by (auto simp: repo_list_operation_templates_def ops_inv_def template_inv_def hm_in_values)
    with v name assms(4) have "j \<noteq> i" by (auto simp: repo_save_operation_template_def)
    with j v have "hm_get (operation_templates (hub_repo h1)) j = Some t'" by (simp add: repo_save_operation_template_def)
    with inv(1) have "hm_get (operation_template_ids_by_name (hub_repo h1)) (oto_name renamed) = Some j"
      using name by (auto simp: ops_inv_def template_inv_def dest!: index_fwdD)
    with u \<open>j \<noteq> i\<close> show False by (simp add: repo_save_operation_template_def)
  qed
  with v show ?thesis by (auto simp: repo_operation_template_def repo_save_operation_template_def)
qed

definition sample_renamed :: "operation_template_overview hub_out" where
  "sample_renamed = update_operation_template (sample_env 0 0) 20 (sample_template_request ''restart'' [''unit'']) sample_templates"

lemma sample_renamed_eval:
  "(case repo_operation_template (hub_repo sample_templates) 20 of None \<Rightarrow> False | Some t \<Rightarrow> tp_name t = ''reload'')"
  "(case fst sample_renamed of Inl _ \<Rightarrow> False | Inr r \<Rightarrow> oto_name r = ''restart'')"
  "(case fst (create_operation_template (sample_env 80 0) (sample_template_request ''reload'' []) (snd sample_renamed)) of
      Inl _ \<Rightarrow> False | Inr r \<Rightarrow> True)"
  "normalize_operation_template_name (sample_env 80 0) ''reload'' = Inr ''reload''"
  by code_simp+

theorem renamed_template_overwritten_witness:
  "\<forall>t \<in> set (repo_list_operation_templates (hub_repo (snd
      (create_operation_template (sample_env 80 0) (sample_template_request ''reload'' []) (snd sample_renamed))))).
     tp_name t \<noteq> ''restart''"
proof -
  from sample_renamed_eval(1) obtain t where t: "repo_operation_template (hub_repo sample_templates) 20 = Some t" "tp_name t = ''reload''"
    by (auto split: option.splits)
  from sample_renamed_eval(2) obtain r where r: "fst sample_renamed = Inr r" "oto_name r = ''restart''"
    by (auto split: sum.splits)
  from sample_renamed_eval(3) obtain c where
    c: "fst (create_operation_template (sample_env 80 0) (sample_template_request ''reload'' []) (snd sample_renamed)) = Inr c"
    by (auto split: sum.splits)
  have neq: "oto_name r \<noteq> tp_name t" by (simp add: r(2) t(2))
  have norm: "normalize_operation_template_name (sample_env 80 0) (otq_name (sample_template_request ''reload'' [])) = Inr (tp_name t)"
    by (simp add: sample_template_request_def sample_renamed_eval(4) t(2))
  have upd: "update_operation_template (sample_env 0 0) 20 (sample_template_request ''restart'' [''unit'']) sample_templates =
      (Inr r, snd sample_renamed)"
    using fst_eq_pair [OF r(1)] by (simp add: sample_renamed_def)
  from renamed_template_overwritten [OF sample_templates_inv t(1) upd neq norm fst_eq_pair [OF c]]
  show ?thesis unfolding r(2) by blast
qed

subsection \<open>Listing and reporting\<close>

text \<open>
  Listing the operations of an existing node always succeeds, with one entry per operation
  of the node, newest first; the internal error for a missing template cannot occur.
\<close>

theorem list_node_operations_complete:
  assumes "ops_inv (hub_repo h)" "repo_node (hub_repo h) n \<noteq> None"
  shows "\<exists>ovs. list_node_operations n h = Inr ovs \<and>
    map noo_operation_id ovs = map op_operation_id (repo_list_node_operations (hub_repo h) n) \<and>
    sorted_wrt (\<lambda>a b. noo_created_at b \<le> noo_created_at a) ovs \<and>
    (\<forall>i. i \<in> noo_operation_id ` set ovs \<longleftrightarrow>
       (\<exists>op. repo_node_operation (hub_repo h) i = Some op \<and> op_node_id op = n))"
proof -
  let ?ops = "repo_list_node_operations (hub_repo h) n"
  have in_ops: "op \<in> set ?ops \<longleftrightarrow> (\<exists>i. hm_get (node_operations (hub_repo h)) i = Some op \<and> op_node_id op = n)" for op
    using assms(1) by (auto simp: repo_list_node_operations_def ops_inv_def ops_keyed_def hm_in_values)
  have "\<exists>ovs. operation_overviews (hub_repo h) ops = Inr ovs \<and> map noo_operation_id ovs = map op_operation_id ops \<and>
      map noo_created_at ovs = map op_created_at ops" if "set ops \<subseteq> set ?ops" for ops
    using that
  proof (induction ops)
    case (Cons op ops)
    then obtain i where "hm_get (node_operations (hub_repo h)) i = Some op" using in_ops by auto
    with assms(1) obtain t where "repo_operation_template (hub_repo h) (op_template_id op) = Some t"
      by (auto simp: ops_inv_def operation_ok_def repo_operation_template_def)
    with Cons show ?case by (auto simp: node_operation_overview_of_def)
  qed simp
  from this [OF subset_refl] obtain ovs where
    ovs: "operation_overviews (hub_repo h) ?ops = Inr ovs" "map noo_operation_id ovs = map op_operation_id ?ops"
      "map noo_created_at ovs = map op_created_at ?ops" by blast
  have "sorted (map (\<lambda>op. - op_created_at op) ?ops)" by (simp add: repo_list_node_operations_def)
  then have "sorted (map uminus (map noo_created_at ovs))" unfolding ovs(3) by (simp add: comp_def)
  then have "sorted_wrt (\<lambda>a b. noo_created_at b \<le> noo_created_at a) ovs"
    by (simp add: sorted_map comp_def)
  moreover have "i \<in> noo_operation_id ` set ovs \<longleftrightarrow> (\<exists>op. repo_node_operation (hub_repo h) i = Some op \<and> op_node_id op = n)" for i
  proof -
    have "noo_operation_id ` set ovs = op_operation_id ` set ?ops" using ovs(2) by (metis list.set_map)
    then show ?thesis
      using assms(1) in_ops by (force simp: repo_node_operation_def ops_inv_def ops_keyed_def image_iff)
  qed
  ultimately show ?thesis using ovs assms(2) by (auto simp: list_node_operations_def)
qed

theorem list_node_operations_complete_witness:
  "\<exists>ovs. list_node_operations 1 (snd sample_requested) = Inr ovs \<and> 30 \<in> noo_operation_id ` set ovs"
proof -
  have "repo_node (hub_repo (snd sample_requested)) 1 \<noteq> None" by code_simp
  moreover have "(\<lambda>x. case x of None \<Rightarrow> False | Some op \<Rightarrow> op_node_id op = 1) (repo_node_operation (hub_repo (snd sample_requested)) 30)"
    by code_simp
  then have "\<exists>op. repo_node_operation (hub_repo (snd sample_requested)) 30 = Some op \<and> op_node_id op = 1"
    by (auto split: option.splits)
  ultimately show ?thesis using list_node_operations_complete [OF sample_requested_inv] by blast
qed

text \<open>
  The logs that are stored are bounded: at most 4003 characters, the text itself when it has
  at most 4000 characters, and otherwise its first 4000 characters and an ellipsis.
\<close>

theorem truncate_log_output_bounded:
  "chars_count (truncate_log_output raw) \<le> 4003 \<and>
   (chars_count raw \<le> 4000 \<longrightarrow> truncate_log_output raw = raw) \<and>
   (4000 < chars_count raw \<longrightarrow>
      (\<exists>kept. truncate_log_output raw = kept @ ''...'' \<and> prefix kept raw \<and> chars_count kept = 4000))"
proof -
  have "chars_count (s @ ''...'') = chars_count s + 3" for s
    by (simp add: chars_count_def continuation_byte_def byte_def)
  then show ?thesis
    using chars_take_count [of 4000 raw] chars_take_prefix [of 4000 raw] by (auto simp: truncate_log_output_def)
qed

theorem truncate_log_output_bounded_witness:
  "chars_count ''abc'' \<le> 4000 \<and> truncate_log_output ''abc'' = ''abc''"
proof -
  have "chars_count ''abc'' \<le> 4000" by (simp add: chars_count_def continuation_byte_def byte_def)
  with truncate_log_output_bounded [of "''abc''"] show ?thesis by blast
qed

end
