(* ===== verification/Hub_System.thy ===== *)
theory Hub_System
  imports Hub_Admin Hub_Certs Hub_Ops
begin

text \<open>
  The hub as a whole: every operation that changes its state as a step, the states that can be
  reached from an empty hub, and the invariant that holds in all of them. Each operation changes
  few parts of the store; \<open>changes_only\<close> says which, and the invariant of every other part is
  carried over without looking at the operation again.
\<close>

subsection \<open>Parts of the state\<close>

datatype part = NodeP | SiteP | ReleaseP | DnsP | AdminP | OpsP | TokenP

definition node_part :: "hub \<Rightarrow> (uuid, node_record) hashmap \<times> (string, uuid) hashmap" where
  "node_part h = (nodes (hub_repo h), node_ids_by_code (hub_repo h))"

definition site_part :: "hub \<Rightarrow> (uuid, site_record) hashmap \<times> (string, uuid) hashmap" where
  "site_part h = (sites (hub_repo h), site_ids_by_code (hub_repo h))"

definition release_part :: "hub \<Rightarrow>
    (uuid, release_record) hashmap \<times> (string, uuid) hashmap \<times> (uuid, uuid) hashmap \<times> u64" where
  "release_part h = (releases (hub_repo h), release_ids_by_version (hub_repo h),
     latest_release_by_node (hub_repo h), hub_release_counter h)"

definition dns_part :: "hub \<Rightarrow> (uuid, dns_provider_record) hashmap \<times> (string, uuid) hashmap \<times>
    (uuid, dns_zone_record) hashmap \<times> (uuid, certificate_order_record) hashmap" where
  "dns_part h = (dns_providers (hub_repo h), dns_provider_ids_by_name (hub_repo h), dns_zones (hub_repo h),
     certificate_orders (hub_repo h))"

definition admin_part :: "hub \<Rightarrow> (uuid, admin_user_record) hashmap \<times> (string, uuid) hashmap \<times>
    (string, admin_session_record) hashmap" where
  "admin_part h = (admin_users (hub_repo h), admin_user_ids_by_username (hub_repo h), admin_sessions (hub_repo h))"

definition ops_part :: "hub \<Rightarrow> (uuid, operation_template_record) hashmap \<times> (string, uuid) hashmap \<times>
    (uuid, node_operation_record) hashmap" where
  "ops_part h = (operation_templates (hub_repo h), operation_template_ids_by_name (hub_repo h), node_operations (hub_repo h))"

lemmas part_defs = node_part_def site_part_def release_part_def dns_part_def admin_part_def ops_part_def

definition changes_only :: "part set \<Rightarrow> hub \<Rightarrow> hub \<Rightarrow> bool" where
  "changes_only P h h' \<longleftrightarrow>
     (NodeP \<in> P \<or> node_part h' = node_part h) \<and> (SiteP \<in> P \<or> site_part h' = site_part h) \<and>
     (ReleaseP \<in> P \<or> release_part h' = release_part h) \<and> (DnsP \<in> P \<or> dns_part h' = dns_part h) \<and>
     (AdminP \<in> P \<or> admin_part h' = admin_part h) \<and> (OpsP \<in> P \<or> ops_part h' = ops_part h) \<and>
     (TokenP \<in> P \<or> hub_tokens h' = hub_tokens h)"

lemma changes_only_refl [simp]: "changes_only P h h"
  by (simp add: changes_only_def)

lemma changes_only_trans: "changes_only P h h1 \<Longrightarrow> changes_only P h1 h2 \<Longrightarrow> changes_only P h h2"
  unfolding changes_only_def by (elim conjE, intro conjI; metis)

lemma changes_only_mono: "changes_only P h h' \<Longrightarrow> P \<subseteq> Q \<Longrightarrow> changes_only Q h h'"
  unfolding changes_only_def by blast

text \<open>The methods of the repository, by the part they change.\<close>

named_theorems repo_changes \<open>which parts a method of the repository changes\<close>

lemma repo_node_changes [repo_changes]:
  "changes_only {NodeP} h (with_repo (repo_save_node node) h)"
  "changes_only {NodeP} h (with_repo (repo_record_heartbeat hb) h)"
  by (simp_all add: changes_only_def part_defs repo_save_node_def repo_record_heartbeat_def)

lemma repo_delete_node_changes [repo_changes]:
  "changes_only {NodeP, SiteP, ReleaseP} h (with_repo (repo_delete_node i) h)"
  by (auto simp: changes_only_def part_defs repo_delete_node_def split: option.splits)

lemma repo_site_changes [repo_changes]:
  "changes_only {SiteP} h (with_repo (repo_save_site site) h)"
  by (simp add: changes_only_def part_defs repo_save_site_def)

lemma repo_delete_site_changes [repo_changes]:
  "changes_only {SiteP, DnsP} h (with_repo (repo_delete_site i) h)"
  by (auto simp: changes_only_def part_defs repo_delete_site_def split: option.splits)

lemma repo_release_changes [repo_changes]:
  "changes_only {ReleaseP} h (with_repo (repo_save_release r) h)"
  "changes_only {ReleaseP} h (with_repo (repo_update_release_ack i n ack) h)"
  "changes_only {ReleaseP} h (h\<lparr>hub_release_counter := c\<rparr>)"
  by (simp_all add: changes_only_def part_defs repo_save_release_def repo_update_release_ack_def)

lemma repo_dns_changes [repo_changes]:
  "changes_only {DnsP} h (with_repo (repo_save_dns_provider provider) h)"
  "changes_only {DnsP} h (with_repo (repo_save_dns_zone zone) h)"
  "changes_only {DnsP} h (with_repo (repo_delete_dns_zone i) h)"
  "changes_only {DnsP} h (with_repo (repo_save_certificate_order order) h)"
  "changes_only {DnsP} h (with_repo (repo_save_certificate certificate) h)"
  by (simp_all add: changes_only_def part_defs repo_save_dns_provider_def repo_save_dns_zone_def
      repo_delete_dns_zone_def repo_save_certificate_order_def repo_save_certificate_def)

lemma repo_delete_dns_provider_changes [repo_changes]:
  "changes_only {DnsP} h (with_repo (repo_delete_dns_provider i) h)"
  by (auto simp: changes_only_def part_defs repo_delete_dns_provider_def Let_def split: option.splits)

lemma repo_admin_changes [repo_changes]:
  "changes_only {AdminP} h (with_repo (repo_save_admin_user user) h)"
  "changes_only {AdminP} h (with_repo (repo_save_admin_session session) h)"
  "changes_only {AdminP} h (with_repo (repo_touch_admin_user_login i t) h)"
  "changes_only {AdminP} h (with_repo (repo_touch_admin_session token t) h)"
  "changes_only {AdminP} h (with_repo (repo_delete_admin_session token) h)"
  "changes_only {AdminP} h (with_repo (repo_delete_admin_sessions_for_user i keep) h)"
  by (simp_all add: changes_only_def part_defs repo_save_admin_user_def repo_save_admin_session_def
      repo_touch_admin_user_login_def repo_touch_admin_session_def repo_delete_admin_session_def
      repo_delete_admin_sessions_for_user_def)

lemma repo_ops_changes [repo_changes]:
  "changes_only {OpsP} h (with_repo (repo_save_operation_template t) h)"
  "changes_only {OpsP} h (with_repo (repo_save_node_operation op) h)"
  "changes_only {OpsP} h (with_repo (repo_update_node_operation op) h)"
  by (simp_all add: changes_only_def part_defs repo_save_operation_template_def repo_save_node_operation_def
      repo_update_node_operation_def)

lemma repo_delete_operation_template_changes [repo_changes]:
  "changes_only {OpsP} h (with_repo (repo_delete_operation_template i) h)"
  by (auto simp: changes_only_def part_defs repo_delete_operation_template_def split: option.splits)

lemma token_changes [repo_changes]: "changes_only {TokenP} h (h\<lparr>hub_tokens := st\<rparr>)"
  by (simp add: changes_only_def part_defs)

text \<open>The same for a sequence of changes.\<close>

lemma changes_then:
  "changes_only P h h1 \<Longrightarrow> changes_only Q h1 h2 \<Longrightarrow> Q \<subseteq> P \<Longrightarrow> changes_only P h h2"
  by (blast intro: changes_only_trans changes_only_mono)

lemma changes_two:
  "changes_only P1 h h1 \<Longrightarrow> changes_only P2 h1 h2 \<Longrightarrow> P1 \<subseteq> P \<Longrightarrow> P2 \<subseteq> P \<Longrightarrow> changes_only P h h2"
  by (blast intro: changes_only_trans changes_only_mono)

lemma changes_try_ok:
  "(\<And>x. r = Inr x \<Longrightarrow> changes_only P h (snd (k x))) \<Longrightarrow> changes_only P h (snd (try_ok r h k))"
  by (cases r) auto

lemma changes_and_then:
  "changes_only P h (snd r) \<Longrightarrow> (\<And>x h1. r = (Inr x, h1) \<Longrightarrow> changes_only P h1 (snd (k x h1))) \<Longrightarrow>
   changes_only P h (snd (and_then r k))"
  by (cases r; cases "fst r") (auto intro: changes_only_trans)

subsection \<open>The operations\<close>

named_theorems op_changes \<open>which parts an operation of the hub changes\<close>

lemma node_ops_changes [op_changes]:
  "changes_only {NodeP} h (snd (create_node e nq h))"
  "changes_only {NodeP, TokenP} h (snd (register_node e rq h))"
  "changes_only {TokenP} h (snd (refresh_node_token e fq h))"
  "changes_only {NodeP, SiteP, ReleaseP, TokenP} h (snd (delete_node i h))"
  "changes_only {NodeP} h (snd (node_heartbeat e hq h))"
  by (auto simp: create_node_def register_node_def refresh_node_token_def delete_node_def node_heartbeat_def
      Let_def try_ok_def issue_node_tokens_eq
      split: sum.splits
      intro!: repo_changes changes_two [OF token_changes repo_node_changes(1)] changes_two [OF token_changes repo_delete_node_changes])

lemma site_ops_changes [op_changes]:
  "changes_only {SiteP} h (snd (update_site i uq h))"
  "changes_only {SiteP} h (snd (bind_site_nodes e i items h))"
  by (auto simp: update_site_def bind_site_nodes_def Let_def try_ok_def split: sum.splits option.splits intro!: repo_changes)

lemma create_site_changes: "create_site e request h = Some (r, h') \<Longrightarrow> changes_only {SiteP} h h'"
  by (auto simp: create_site_def Let_def split: if_splits sum.splits option.splits prod.splits intro!: repo_changes)

lemma save_compiled_release_changes:
  "changes_only {ReleaseP} h (snd (save_compiled_release e scope i ty reason b ns h))"
  by (simp add: save_compiled_release_def Let_def repo_changes)

lemma save_release_changes:
  "changes_only {ReleaseP} h (snd (save_site_release e site ty reason h))"
  "changes_only {ReleaseP} h (snd (save_site_cleanup_release e site ns reason h))"
  by (auto simp: save_site_release_def save_site_cleanup_release_def next_serial_def Let_def
      try_ok_def split: sum.splits
      intro!: changes_only_trans [OF repo_release_changes(3) save_compiled_release_changes] repo_changes)

lemma release_unless_changes:
  "changes_only P h (snd saved) \<Longrightarrow> changes_only P h (snd (release_unless none saved h))"
  by (auto simp: release_unless_def intro!: changes_and_then)

lemma finish_release_changes: "changes_only {SiteP} h (snd (finish_release site x y h))"
  by (auto simp: finish_release_def Let_def split: option.splits intro!: repo_changes)

lemma create_release_changes [op_changes]:
  "changes_only {SiteP, ReleaseP} h (snd (create_release e request h))"
  by (auto simp: create_release_def Let_def intro!: changes_try_ok changes_and_then release_unless_changes
      intro: changes_only_mono [OF save_release_changes(1)] changes_only_mono [OF save_release_changes(2)]
        changes_only_mono [OF finish_release_changes])

lemma release_ops_changes [op_changes]:
  "changes_only {NodeP, ReleaseP} h (snd (ack_release e i aq h))"
  "changes_only {SiteP, ReleaseP} h (snd (update_site_status e i enabled h))"
  "changes_only {SiteP, ReleaseP, DnsP} h (snd (delete_site e i h))"
  by (auto simp: ack_release_def update_site_status_def delete_site_def Let_def split: option.splits
      intro!: changes_try_ok changes_and_then
      intro: changes_two [OF repo_release_changes(2) repo_node_changes(1)]
        changes_two [OF repo_site_changes save_release_changes(1)] changes_only_mono [OF repo_release_changes(2)]
        changes_only_mono [OF repo_site_changes] changes_only_mono [OF save_release_changes(1)]
        changes_only_mono [OF save_release_changes(2)] changes_only_mono [OF repo_delete_site_changes])

lemma dns_ops_changes [op_changes]:
  "changes_only {DnsP} h (snd (create_dns_provider e pq h))"
  "changes_only {DnsP} h (snd (update_dns_provider e i pq h))"
  "changes_only {DnsP} h (snd (delete_dns_provider i h))"
  "changes_only {DnsP} h (snd (update_dns_zone_status i enabled h))"
  "changes_only {DnsP} h (snd (delete_dns_zone i h))"
  by (auto simp: create_dns_provider_def update_dns_provider_def delete_dns_provider_def
      update_dns_zone_status_def delete_dns_zone_def Let_def intro!: changes_try_ok repo_changes)

lemma save_synced_zones_changes: "changes_only {DnsP} h (snd (save_synced_zones e p c d infos ids h))"
proof (induction infos arbitrary: c d ids h)
  case (Cons zi infos)
  show ?case unfolding save_synced_zones.simps Let_def
    by (rule changes_only_trans [OF repo_dns_changes(2) Cons.IH])
qed simp

lemma sync_dns_zones_changes [op_changes]: "changes_only {DnsP} h (snd (sync_dns_zones e get request h))"
  using save_synced_zones_changes
  by (auto simp: sync_dns_zones_def intro!: changes_try_ok split: prod.splits) (metis snd_conv)

lemma issue_certificate_order_changes:
  "changes_only {DnsP} h (snd (issue_certificate_order e i c cn sans z zn acme ty h))"
  by (auto simp: issue_certificate_order_def Let_def split: option.splits
      intro!: changes_only_trans [OF repo_dns_changes(5) repo_dns_changes(4)] repo_changes)

lemma requeue_changes: "changes_only {DnsP} h (snd (requeue_certificate_order order action h))"
  by (auto simp: requeue_certificate_order_def Let_def intro!: repo_changes)

lemma cert_ops_changes [op_changes]:
  "changes_only {DnsP} h (snd (create_certificate_order e oq h))"
  "changes_only {DnsP} h (snd (retry_certificate_order i h))"
  "changes_only {DnsP} h (snd (reset_certificate_order i h))"
  "changes_only {DnsP} h (snd (renew_site_certificate e i h))"
  by (auto simp: create_certificate_order_def retry_certificate_order_def reset_certificate_order_def
      renew_site_certificate_def Let_def split: option.splits
      intro!: changes_try_ok changes_and_then issue_certificate_order_changes requeue_changes)

lemma authorize_changes [op_changes]: "changes_only {AdminP} h (snd (authorize_admin_session e token h))"
  by (auto simp: authorize_admin_session_def Let_def intro!: changes_try_ok repo_changes)

lemma admin_ops_changes [op_changes]:
  "changes_only {AdminP} h (snd (ensure_admin_user e name disp pw h))"
  "changes_only {AdminP} h (snd (login_admin e lq h))"
  "changes_only {AdminP} h (snd (current_admin e token h))"
  "changes_only {AdminP} h (snd (change_admin_password e token cq h))"
  "changes_only {AdminP} h (snd (logout_admin e token h))"
  by (auto simp: ensure_admin_user_def login_admin_def current_admin_def change_admin_password_def logout_admin_def
      Let_def intro!: changes_try_ok changes_and_then authorize_changes
        repo_changes changes_only_trans [OF repo_admin_changes(2) repo_admin_changes(3)]
        changes_only_trans [OF repo_admin_changes(1) repo_admin_changes(6)])

lemma ops_ops_changes [op_changes]:
  "changes_only {OpsP} h (snd (create_operation_template e tq h))"
  "changes_only {OpsP} h (snd (update_operation_template e i tq h))"
  "changes_only {OpsP} h (snd (delete_operation_template i h))"
  "changes_only {OpsP} h (snd (create_node_operation e n nq by h))"
  "changes_only {OpsP} h (snd (report_node_operation_result e i req h))"
  by (auto simp: create_operation_template_def update_operation_template_def delete_operation_template_def
      create_node_operation_def report_node_operation_result_def Let_def intro!: changes_try_ok repo_changes)

lemma claim_changes [op_changes]: "changes_only {OpsP} h (snd (claim_next_node_operation e n h))"
  by (auto simp: claim_next_node_operation_def repo_claim_next_node_operation_def Let_def changes_only_def part_defs
      split: option.splits)

subsection \<open>The invariant of the hub\<close>

definition hub_inv :: "hub \<Rightarrow> bool" where
  "hub_inv h \<longleftrightarrow> node_inv (hub_repo h) \<and> site_inv (hub_repo h) \<and> release_inv h \<and> dns_inv (hub_repo h) \<and>
     admin_inv (hub_repo h) \<and> ops_inv (hub_repo h) \<and> token_inv (hub_tokens h)"

lemma hub_inv_new: "hub_inv (new_memory_with_cert_auto_renew_before_days d)"
  unfolding hub_inv_def
  by (intro conjI release_inv_new)
    (simp_all add: new_memory_with_cert_auto_renew_before_days_def node_inv_empty site_inv_empty dns_inv_empty
      admin_inv_empty ops_inv_empty)

text \<open>The invariant of a part that is not changed.\<close>

lemma changes_part:
  assumes "changes_only P h h'"
  shows "NodeP \<notin> P \<Longrightarrow> nodes (hub_repo h') = nodes (hub_repo h) \<and> node_ids_by_code (hub_repo h') = node_ids_by_code (hub_repo h)"
    "SiteP \<notin> P \<Longrightarrow> sites (hub_repo h') = sites (hub_repo h) \<and> site_ids_by_code (hub_repo h') = site_ids_by_code (hub_repo h)"
    "ReleaseP \<notin> P \<Longrightarrow> release_part h' = release_part h" "DnsP \<notin> P \<Longrightarrow> dns_part h' = dns_part h"
    "AdminP \<notin> P \<Longrightarrow> admin_part h' = admin_part h" "OpsP \<notin> P \<Longrightarrow> ops_part h' = ops_part h"
    "TokenP \<notin> P \<Longrightarrow> hub_tokens h' = hub_tokens h"
  using assms unfolding changes_only_def node_part_def site_part_def by blast+

lemma site_inv_kept:
  assumes "site_inv (hub_repo h)" "changes_only P h h'" "SiteP \<notin> P"
    and "\<And>n. repo_node (hub_repo h) n \<noteq> None \<Longrightarrow> repo_node (hub_repo h') n \<noteq> None"
  shows "site_inv (hub_repo h')"
  using changes_part(2) [OF assms(2,3)] by (intro site_inv_mono [OF assms(1) _ _ assms(4)]) auto

lemma repo_node_kept:
  "changes_only P h h' \<Longrightarrow> NodeP \<notin> P \<Longrightarrow> repo_node (hub_repo h') = repo_node (hub_repo h)"
  by (drule (1) changes_part(1)) (simp add: repo_node_def fun_eq_iff)

lemma release_inv_kept: "release_inv h \<Longrightarrow> changes_only P h h' \<Longrightarrow> ReleaseP \<notin> P \<Longrightarrow> release_inv h'"
  by (drule (1) changes_part(3), erule release_inv_cong) (simp_all add: release_part_def)

lemma hub_inv_change:
  assumes "hub_inv h" "changes_only P h h'"
    and "NodeP \<in> P \<Longrightarrow> node_inv (hub_repo h')"
    and "SiteP \<in> P \<Longrightarrow> site_inv (hub_repo h')"
    and "NodeP \<in> P \<Longrightarrow> SiteP \<notin> P \<Longrightarrow> \<forall>n. repo_node (hub_repo h) n \<noteq> None \<longrightarrow> repo_node (hub_repo h') n \<noteq> None"
    and "ReleaseP \<in> P \<Longrightarrow> release_inv h'" "DnsP \<in> P \<Longrightarrow> dns_inv (hub_repo h')"
    and "AdminP \<in> P \<Longrightarrow> admin_inv (hub_repo h')" "OpsP \<in> P \<Longrightarrow> ops_inv (hub_repo h')"
    and "TokenP \<in> P \<Longrightarrow> token_inv (hub_tokens h')"
  shows "hub_inv h'"
proof -
  note old = assms(1) [unfolded hub_inv_def] and part = changes_part [OF assms(2)]
  have "node_inv (hub_repo h')" using assms(3) part(1) old by (cases "NodeP \<in> P") (auto simp: node_inv_def)
  moreover have "site_inv (hub_repo h')"
  proof (cases "SiteP \<in> P")
    case False
    then show ?thesis
      using old assms(5) repo_node_kept [OF assms(2)] by (cases "NodeP \<in> P") (auto intro: site_inv_kept [OF _ assms(2)])
  qed (rule assms(4))
  moreover have "release_inv h'" using assms(6) old release_inv_kept [OF _ assms(2)] by blast
  moreover have "dns_inv (hub_repo h')"
    using assms(7) old part(4) dns_inv_cong [of "hub_repo h'" "hub_repo h"] by (cases "DnsP \<in> P") (auto simp: dns_part_def)
  moreover have "admin_inv (hub_repo h')"
    using assms(8) old part(5) by (cases "AdminP \<in> P") (auto simp: admin_part_def admin_inv_def)
  moreover have "ops_inv (hub_repo h')"
    using assms(9) old part(6) ops_inv_cong [of "hub_repo h'" "hub_repo h"] by (cases "OpsP \<in> P") (auto simp: ops_part_def)
  moreover have "token_inv (hub_tokens h')"
    using assms(10) old part(7) by (cases "TokenP \<in> P") auto
  ultimately show ?thesis by (simp add: hub_inv_def)
qed

subsection \<open>Sites\<close>

lemma free_site_code_free: "free_site_code s base c k = Some code \<Longrightarrow> repo_site_id_by_code s code = None"
  by (rule free_site_code.raw_induct [where P = "\<lambda>s base c k code. repo_site_id_by_code s code = None"])
    (auto split: if_splits)

lemma site_code_base_used: "snd (site_code_base e preferred name domain) \<le> 1"
  by (auto simp: site_code_base_def Let_def split: option.splits)

lemma create_site_inv:
  assumes "site_inv (hub_repo h)" "create_site e request h = Some (r, h')"
    and "\<And>i. i \<le> 1 \<Longrightarrow> repo_site (hub_repo h) (env_uuid e i) = None"
  shows "site_inv (hub_repo h')"
proof (cases "h' = h")
  case False
  with assms(2) obtain code used protocol where
    gen: "generate_unique_site_code e (hub_repo h) (csq_site_code request) (csq_name request) (csq_domain request) = Some (code, used)"
    and h': "hub_repo h' = repo_save_site \<lparr>st_id = env_uuid e used, st_site_code = code, st_name = csq_name request,
       st_domain = csq_domain request, st_listen_port = csq_listen_port request, st_protocol = protocol,
       st_tls_enabled = csq_tls_enabled request, st_status = Draft, st_version = 1, st_config = csq_config request,
       st_bindings = []\<rparr> (hub_repo h)"
    by (auto simp: create_site_def Let_def split: if_splits sum.splits option.splits prod.splits)
  from gen have "repo_site_id_by_code (hub_repo h) code = None" "used \<le> 1"
    using site_code_base_used [of e "csq_site_code request" "csq_name request" "csq_domain request"]
    by (auto simp: generate_unique_site_code_def dest: free_site_code_free split: prod.splits)
  with assms(3) [of used] show ?thesis unfolding h'
    by (intro site_inv_save [OF assms(1)]) (simp_all add: repo_site_def repo_site_id_by_code_def)
qed (use assms(1) in simp)

lemma site_inv_update:
  assumes "site_inv s" "repo_site s i = Some old" "st_id site = st_id old" "st_site_code site = st_site_code old"
    and "st_bindings site = st_bindings old \<or> bindings_ok (st_bindings site) \<and>
      (\<forall>b \<in> set (st_bindings site). repo_node s (sb_node_id b) \<noteq> None)"
  shows "site_inv (repo_save_site site s)"
proof (rule site_inv_save [OF assms(1)])
  have "st_id old = i" by (rule site_inv_id [OF assms(1,2)])
  with assms(2-4) show "(hm_get (sites s) (st_id site) = None \<and> hm_get (site_ids_by_code s) (st_site_code site) = None) \<or>
      (\<exists>old. hm_get (sites s) (st_id site) = Some old \<and> st_site_code old = st_site_code site)"
    by (simp add: repo_site_def)
  show "st_bindings site = [] \<or> bindings_ok (st_bindings site)"
    using assms(1,2,5) unfolding site_inv_def by metis
  show "repo_node s (sb_node_id b) \<noteq> None" if "b \<in> set (st_bindings site)" for b
    using assms(1,2,5) that by (auto simp: site_inv_def)
qed

lemma update_site_inv: "site_inv (hub_repo h) \<Longrightarrow> site_inv (hub_repo (snd (update_site i request h)))"
  by (auto simp: update_site_def try_ok_def Let_def ok_or_def split: sum.splits option.splits intro: site_inv_update)

lemma bind_site_nodes_inv: "site_inv (hub_repo h) \<Longrightarrow> site_inv (hub_repo (snd (bind_site_nodes e i items h)))"
  by (auto simp: bind_site_nodes_def try_ok_def ok_or_def normalize_site_bindings_Inr bindings_ok_sort find_None_iff_all
      split: sum.splits option.splits intro!: site_inv_update)

lemma changes_site_inv:
  "site_inv (hub_repo h) \<Longrightarrow> changes_only {ReleaseP} h h' \<Longrightarrow> site_inv (hub_repo h')"
  by (erule site_inv_kept) (auto dest: repo_node_kept)

lemma update_site_status_site_inv:
  assumes "site_inv (hub_repo h)"
  shows "site_inv (hub_repo (snd (update_site_status e i enabled h)))"
proof (cases "repo_site (hub_repo h) i")
  case (Some site)
  let ?site = "site\<lparr>st_status := (if enabled then (if st_bindings site = [] then Draft else Published) else Disabled),
     st_version := st_version site + 1\<rparr>"
  let ?h = "with_repo (repo_save_site ?site) h"
  have "site_inv (hub_repo ?h)" by (simp add: site_inv_update [OF assms Some])
  moreover have "changes_only {ReleaseP} ?h (snd (update_site_status e i enabled h))"
    by (auto simp: update_site_status_def Some Let_def intro!: changes_and_then save_release_changes)
  ultimately show ?thesis by (rule changes_site_inv)
qed (use assms in \<open>simp add: update_site_status_def\<close>)

lemma site_inv_delete: "site_inv s \<Longrightarrow> site_inv (repo_delete_site i s)"
  unfolding site_inv_def
  by (intro conjI site_tab.delete_fwd site_tab.delete_bwd)
    (auto simp: repo_delete_site_def repo_site_def repo_node_def split: option.splits if_splits)

lemma dns_inv_delete_site:
  assumes "dns_inv s"
  shows "dns_inv (repo_delete_site i s)"
proof (cases "hm_get (sites s) i")
  case (Some site)
  let ?s = "repo_delete_site i s"
  have same: "dns_zones ?s = dns_zones s" "dns_providers ?s = dns_providers s"
    "dns_provider_ids_by_name ?s = dns_provider_ids_by_name s"
    by (simp_all add: Some repo_delete_site_def)
  have "provider_inv ?s = provider_inv s" "zone_inv ?s = zone_inv s"
    by (simp_all only: provider_inv_def zone_inv_def same)
  moreover have "order_zone_inv ?s"
    using assms by (auto simp: dns_inv_def order_zone_inv_def repo_delete_site_def Some)
  ultimately show ?thesis using assms by (simp add: dns_inv_def)
qed (use assms in \<open>simp add: repo_delete_site_def\<close>)

subsection \<open>Releases\<close>

text \<open>
  What creating a release does to the releases, whether it succeeds or not: the invariant is
  kept, at most one serial number is drawn, and only the release with the new identifier is added.
\<close>

definition adds_release :: "uuid \<Rightarrow> hub \<Rightarrow> hub \<Rightarrow> bool" where
  "adds_release i h h' \<longleftrightarrow> release_inv h' \<and>
     hub_release_counter h' \<in> {hub_release_counter h, hub_release_counter h + 1} \<and>
     (\<forall>j. j \<noteq> i \<longrightarrow> repo_release (hub_repo h') j = repo_release (hub_repo h) j)"

lemma adds_release_refl: "release_inv h \<Longrightarrow> adds_release i h h"
  by (simp add: adds_release_def)

lemma adds_release_drawn: "release_inv h \<Longrightarrow> hub_release_counter h \<noteq> - 1 \<Longrightarrow> adds_release i h (drawn h)"
  using release_inv_drawn by (simp add: adds_release_def)

lemma save_site_release_adds:
  assumes "release_inv h" "hub_release_counter h \<noteq> - 1" "repo_release (hub_repo h) (env_uuid e 0) = None"
  shows "adds_release (env_uuid e 0) h (snd (save_site_release e site ty reason h))"
proof (cases "save_site_release e site ty reason h")
  case (Pair r h')
  show ?thesis
  proof (cases r)
    case (Inl err)
    with Pair show ?thesis
      using adds_release_refl [OF assms(1)] adds_release_drawn [OF assms(1,2)]
      by (auto simp: save_site_release_def next_serial_def Let_def outcome_iffs save_compiled_release_eq)
  next
    case (Inr v)
    from save_site_release_inv [OF assms Pair [unfolded Inr]] Pair [unfolded Inr] show ?thesis
      by (elim save_site_release_Inr)
        (auto simp: Pair adds_release_def repo_release_def release_tab.tab_save dest!: compile_site_bundle_Inr)
  qed
qed

lemma save_site_cleanup_release_adds:
  assumes "release_inv h" "hub_release_counter h \<noteq> - 1" "repo_release (hub_repo h) (env_uuid e 0) = None"
  shows "adds_release (env_uuid e 0) h (snd (save_site_cleanup_release e site ns reason h))"
proof (cases "save_site_cleanup_release e site ns reason h")
  case (Pair r h')
  show ?thesis
  proof (cases r)
    case (Inl err)
    with Pair show ?thesis
      using adds_release_drawn [OF assms(1,2)]
      by (auto simp: save_site_cleanup_release_def next_serial_def Let_def outcome_iffs save_compiled_release_eq)
  next
    case (Inr v)
    from save_site_cleanup_release_inv [OF assms Pair [unfolded Inr]] Pair [unfolded Inr] show ?thesis
      by (elim save_site_cleanup_release_Inr)
        (auto simp: Pair adds_release_def repo_release_def release_tab.tab_save dest!: compile_site_cleanup_bundle_Inr)
  qed
qed

lemma release_unless_snd: "snd (release_unless none saved h) = (if none then h else snd saved)"
  by (cases saved; cases "fst saved") (auto simp: release_unless_def and_then_def)

lemma and_then_snd: "Q (snd r) \<Longrightarrow> (\<And>x. Q (snd (k x (snd r)))) \<Longrightarrow> Q (snd (and_then r k))"
  by (cases r; cases "fst r") (auto simp: and_then_def)

lemma finish_release_release_inv: "release_inv (snd (finish_release site x y h)) = release_inv h"
proof -
  have "release_inv (with_repo (repo_save_site s) h) = release_inv h" for s
    using release_inv_cong [of h "with_repo (repo_save_site s) h"] release_inv_cong [of "with_repo (repo_save_site s) h" h]
    by auto
  then show ?thesis by (auto simp: finish_release_def Let_def split: option.splits)
qed

lemma create_release_release_inv:
  assumes "release_inv h" "hub_release_counter h \<notin> {- 1, - 2}" "env_uuid e 0 \<noteq> env_uuid e 1"
    and "repo_release (hub_repo h) (env_uuid e 0) = None" "repo_release (hub_repo h) (env_uuid e 1) = None"
  shows "release_inv (snd (create_release e request h))"
proof (cases "repo_site (hub_repo h) (crq_scope_id request)")
  case None
  then show ?thesis using assms(1) by (simp add: create_release_def)
next
  case (Some site)
  let ?T = "map sb_node_id (st_bindings site)"
  let ?D = "detached_node_ids_for_site (hub_repo h) (st_id site) ?T"
  let ?A = "release_unless (?T = []) (save_site_release e site (crq_release_type request) (crq_reason request) h) h"
  let ?e = "if ?T = [] then e else env_after 3 1 e"
  let ?B = "\<lambda>h1. release_unless (?D = []) (save_site_cleanup_release ?e site ?D (crq_reason request) h1) h1"
  have A: "adds_release (env_uuid e 0) h (snd ?A)"
    using save_site_release_adds [OF assms(1) _ assms(4)] adds_release_refl [OF assms(1)] assms(2)
    by (auto simp: release_unless_snd)
  have eq: "snd ?A = h" if "?T = []" using that by (simp add: release_unless_snd)
  have fresh: "repo_release (hub_repo (snd ?A)) (env_uuid ?e 0) = None"
  proof (cases "?T = []")
    case True
    with eq [OF True] assms(4) show ?thesis by simp
  next
    case False
    with A assms(3,5) show ?thesis by (auto simp: adds_release_def)
  qed
  have "hub_release_counter (snd ?A) \<noteq> - 1"
    using A assms(2) by (auto simp: adds_release_def add_eq_0_iff eq_diff_eq [symmetric] dest: sym [of "- 1"])
  then have B: "release_inv (snd (?B (snd ?A)))"
    using save_site_cleanup_release_adds [of "snd ?A" ?e] fresh A by (auto simp: release_unless_snd adds_release_def)
  have "release_inv (snd (and_then ?A (\<lambda>x h1. and_then (?B h1) (\<lambda>y h2. finish_release site x y h2))))"
    by (intro and_then_snd [where Q = release_inv]) (use A B finish_release_release_inv in \<open>simp_all add: adds_release_def\<close>)
  then show ?thesis using assms(1) by (auto simp: create_release_def Some Let_def)
qed

lemma create_release_site_inv:
  assumes "site_inv (hub_repo h)"
  shows "site_inv (hub_repo (snd (create_release e request h)))"
proof (cases "repo_site (hub_repo h) (crq_scope_id request)")
  case None
  then show ?thesis using assms by (simp add: create_release_def)
next
  case (Some site)
  let ?T = "map sb_node_id (st_bindings site)"
  let ?D = "detached_node_ids_for_site (hub_repo h) (st_id site) ?T"
  let ?A = "release_unless (?T = []) (save_site_release e site (crq_release_type request) (crq_reason request) h) h"
  let ?B = "\<lambda>h1. release_unless (?D = []) (save_site_cleanup_release (if ?T = [] then e else env_after 3 1 e) site ?D
      (crq_reason request) h1) h1"
  have A: "changes_only {ReleaseP} h (snd ?A)" by (rule release_unless_changes [OF save_release_changes(1)])
  have B: "changes_only {ReleaseP} h (snd (?B (snd ?A)))"
    by (rule changes_only_trans [OF A release_unless_changes [OF save_release_changes(2)]])
  have finished: "site_inv (hub_repo (snd (finish_release site x y h2)))" if "changes_only {ReleaseP} h h2" for x y h2
  proof -
    have "site_inv (hub_repo h2)" by (rule changes_site_inv [OF assms that])
    moreover have "repo_site (hub_repo h2) (crq_scope_id request) = Some site"
      using changes_part(2) [OF that] Some by (simp add: repo_site_def)
    ultimately show ?thesis
      by (auto simp: finish_release_def Let_def split: option.splits intro!: site_inv_update)
  qed
  have "site_inv (hub_repo (snd (and_then ?A (\<lambda>x h1. and_then (?B h1) (\<lambda>y h2. finish_release site x y h2)))))"
    by (intro and_then_snd [where Q = "\<lambda>h. site_inv (hub_repo h)"] changes_site_inv [OF assms A]
        changes_site_inv [OF assms B] finished [OF B])
  then show ?thesis using assms by (auto simp: create_release_def Some Let_def)
qed

lemma delete_site_invs:
  assumes "site_inv (hub_repo h)" "release_inv h" "dns_inv (hub_repo h)" "hub_release_counter h \<noteq> - 1"
    and "repo_release (hub_repo h) (env_uuid e 0) = None"
  shows "site_inv (hub_repo (snd (delete_site e i h)))" "release_inv (snd (delete_site e i h))"
    "dns_inv (hub_repo (snd (delete_site e i h)))"
proof -
  have *: "site_inv (hub_repo (snd (delete_site e i h))) \<and> release_inv (snd (delete_site e i h)) \<and>
      dns_inv (hub_repo (snd (delete_site e i h)))"
  proof (cases "repo_site (hub_repo h) i")
    case (Some site)
    let ?C = "save_site_cleanup_release e site (map sb_node_id (st_bindings site)) ''delete site'' h"
    let ?h1 = "if st_bindings site = [] then h else snd ?C"
    have ch: "changes_only {ReleaseP} h ?h1" by (simp add: save_release_changes(2))
    have inv: "site_inv (hub_repo ?h1)" "release_inv ?h1" "dns_inv (hub_repo ?h1)"
      using changes_site_inv [OF assms(1) ch] assms(2,3) save_site_cleanup_release_adds [OF assms(2,4,5)]
        changes_part(4) [OF ch] dns_inv_cong [of "hub_repo ?h1" "hub_repo h"]
      by (auto simp: adds_release_def dns_part_def)
    have del: "release_inv (with_repo (repo_delete_site i) h2)" if "release_inv h2" for h2
      using that by (rule release_inv_cong) (simp_all add: repo_delete_site_def split: option.splits)
    have "snd (delete_site e i h) = ?h1 \<or> snd (delete_site e i h) = with_repo (repo_delete_site i) ?h1"
      by (cases ?C; cases "fst ?C") (auto simp: delete_site_def Some and_then_def)
    with inv show ?thesis by (auto simp: site_inv_delete dns_inv_delete_site del)
  qed (use assms in \<open>simp add: delete_site_def\<close>)
  then show "site_inv (hub_repo (snd (delete_site e i h)))" "release_inv (snd (delete_site e i h))"
    "dns_inv (hub_repo (snd (delete_site e i h)))" by blast+
qed

subsection \<open>Switching, deleting a node, acknowledging\<close>

lemma switch_site_primary_snd:
  obtains (unchanged) "snd (switch_site_primary e i request h) = h"
  | (released) site t req where "repo_site (hub_repo h) i = Some site" "st_bindings site \<noteq> []"
      "switch_target_node (hub_repo h) site (map_option sb_node_id (primary_site_binding site)) (spq_target_node_id request) = Inr t"
      "snd (switch_site_primary e i request h) = snd (create_release e req (with_repo (repo_save_site
         (site\<lparr>st_bindings := switched_bindings t (map_option sb_node_id (primary_site_binding site))
            (unwrap_or True (spq_keep_previous_as_standby request)) (st_bindings site),
          st_status := Draft, st_version := st_version site + 1\<rparr>)) h))"
proof (cases "repo_site (hub_repo h) i")
  case None
  then show thesis using unchanged by (simp add: switch_site_primary_def)
next
  case (Some site)
  let ?prev = "map_option sb_node_id (primary_site_binding site)"
  let ?target = "switch_target_node (hub_repo h) site ?prev (spq_target_node_id request)"
  have h1: "(case x of None \<Rightarrow> h1 | Some n \<Rightarrow>
      with_repo (\<lambda>s. snd (repo_update_active_failover_policy_targets i t n s)) h1) = h1" for x t h1
    by (auto simp: repo_update_active_failover_policy_targets_def with_repo_def split: option.splits)
  have snd_release: "snd (and_then (create_release e req h1) (\<lambda>x h. (Inr (f x), h))) = snd (create_release e req h1)"
    for req h1 and f :: "create_release_response \<Rightarrow> switch_site_primary_response"
    by (cases "create_release e req h1"; cases "fst (create_release e req h1)") auto
  show thesis
  proof (cases ?target)
    case (Inl err)
    then show thesis using unchanged Some by (simp add: switch_site_primary_def Let_def)
  next
    case (Inr t)
    show thesis
    proof (cases "st_bindings site = [] \<or> ?prev = Some t")
      case True
      then show thesis using unchanged Some Inr by (auto simp: switch_site_primary_def Let_def)
    next
      case False
      with Some Inr show thesis
        by (intro released [of site t]) (auto simp: switch_site_primary_def Let_def h1 snd_release)
    qed
  qed
qed

lemma switch_target_node_exists:
  assumes "site_inv s" "repo_site s i = Some site" "switch_target_node s site prev requested = Inr t"
  shows "repo_node s t \<noteq> None"
proof (cases requested)
  case None
  with assms(3) obtain b where "b \<in> set (st_bindings site)" "sb_node_id b = t"
    by (auto simp: switch_target_node_def ok_or_Inr_iff or_else_def split: option.splits dest!: find_Some_in)
  with assms(1,2) show ?thesis by (auto simp: site_inv_def)
qed (use assms(3) in \<open>auto simp: switch_target_node_def split: if_splits\<close>)

lemma switch_site_primary_invs:
  assumes "site_inv (hub_repo h)" "release_inv h" "hub_release_counter h \<notin> {- 1, - 2}" "env_uuid e 0 \<noteq> env_uuid e 1"
    and "repo_release (hub_repo h) (env_uuid e 0) = None" "repo_release (hub_repo h) (env_uuid e 1) = None"
  shows "site_inv (hub_repo (snd (switch_site_primary e i request h)))" "release_inv (snd (switch_site_primary e i request h))"
    "changes_only {SiteP, ReleaseP} h (snd (switch_site_primary e i request h))"
proof -
  have *: "site_inv (hub_repo (snd (switch_site_primary e i request h))) \<and> release_inv (snd (switch_site_primary e i request h)) \<and>
      changes_only {SiteP, ReleaseP} h (snd (switch_site_primary e i request h))"
  proof (cases rule: switch_site_primary_snd [of e i request h])
    case unchanged
    with assms show ?thesis by simp
  next
    case (released site t req)
    let ?bs = "switched_bindings t (map_option sb_node_id (primary_site_binding site))
      (unwrap_or True (spq_keep_previous_as_standby request)) (st_bindings site)"
    let ?site = "site\<lparr>st_bindings := ?bs, st_status := Draft, st_version := st_version site + 1\<rparr>"
    let ?h = "with_repo (repo_save_site ?site) h"
    have ok: "bindings_ok ?bs"
      by (rule switched_bindings_ok(1) [OF site_inv_bindings [OF assms(1) released(1,2)]])
    have bound: "\<forall>b \<in> set (st_bindings site). repo_node (hub_repo h) (sb_node_id b) \<noteq> None"
      using assms(1) released(1) by (auto simp: site_inv_def)
    have "repo_node (hub_repo h) n \<noteq> None" if "n \<in> sb_node_id ` set ?bs" for n
      using that bound switch_target_node_exists [OF assms(1) released(1,3)] primary_site_binding_Some [OF released(2)]
      unfolding switched_bindings_nodes by (auto split: option.splits if_splits)
    then have "site_inv (hub_repo ?h)"
      unfolding with_repo_sel by (intro site_inv_update [OF assms(1) released(1)]) (use ok in auto)
    moreover have "release_inv ?h" by (rule release_inv_cong [OF assms(2)]) simp_all
    then have "release_inv (snd (create_release e req ?h))"
      by (rule create_release_release_inv) (use assms in simp_all)
    moreover have "changes_only {SiteP, ReleaseP} h (snd (create_release e req ?h))"
      by (rule changes_two [OF repo_site_changes create_release_changes]) auto
    ultimately show ?thesis unfolding released(4) using create_release_site_inv by blast
  qed
  then show "site_inv (hub_repo (snd (switch_site_primary e i request h)))" "release_inv (snd (switch_site_primary e i request h))"
    "changes_only {SiteP, ReleaseP} h (snd (switch_site_primary e i request h))" by blast+
qed

lemma hm_map_values_idle: "(\<And>v. v \<in> set (hm_values m) \<Longrightarrow> f v = v) \<Longrightarrow> hm_map_values f m = m"
  by (induction m) (auto simp: hm_map_values_def hm_values_def)

lemma delete_node_site_inv:
  assumes "site_inv (hub_repo h)" "delete_node n h = (r, h')"
  shows "site_inv (hub_repo h')"
proof (cases "h' = h")
  case False
  with assms(2) have h': "hub_repo h' = repo_delete_node n (hub_repo h)"
    and guard: "dg_bound_site_codes (repo_node_delete_guard (hub_repo h) n) = []"
    by (auto simp: delete_node_def Let_def try_ok_def split: sum.splits if_splits)
  have unbound: "sb_node_id b \<noteq> n" if "site \<in> set (hm_values (sites (hub_repo h)))" "b \<in> set (st_bindings site)" for site b
    using guard that by (auto simp: repo_node_delete_guard_def filter_empty_conv list_ex_iff)
  have "hm_map_values (detach_site n) (sites (hub_repo h)) = sites (hub_repo h)"
    by (rule hm_map_values_idle) (auto simp: detach_site_def unbound intro!: filter_True site_record.equality)
  then have sites: "sites (hub_repo h') = sites (hub_repo h)" "site_ids_by_code (hub_repo h') = site_ids_by_code (hub_repo h)"
    by (auto simp: h' repo_delete_node_def split: option.splits)
  have nodes: "repo_node (hub_repo h') m = (if m = n then None else repo_node (hub_repo h) m)" for m
    unfolding h' repo_node_def by (rule node_tab.tab_del)
  have "repo_node (hub_repo h') (sb_node_id b) \<noteq> None"
    if "repo_site (hub_repo h) i = Some site" "b \<in> set (st_bindings site)" for i site b
    using that assms(1) unbound [of site b] by (auto simp: nodes site_inv_def repo_site_def dest: hm_get_in_values)
  with assms(1) sites show ?thesis by (auto simp: site_inv_def repo_site_def)
qed (use assms(1) in simp)

lemma delete_node_release_inv: "release_inv h \<Longrightarrow> release_inv (snd (delete_node n h))"
proof -
  assume "release_inv h"
  then have "release_inv (h\<lparr>hub_tokens := st\<rparr>)" for st by (rule release_inv_cong) simp_all
  with \<open>release_inv h\<close> show ?thesis
    by (auto simp: delete_node_def Let_def try_ok_def split: sum.splits intro: release_inv_delete_node)
qed

lemma ack_release_invs:
  assumes "node_inv (hub_repo h)" "release_inv h"
  shows "node_inv (hub_repo (snd (ack_release e i request h)))" "release_inv (snd (ack_release e i request h))"
    "repo_node (hub_repo h) n \<noteq> None \<longrightarrow> repo_node (hub_repo (snd (ack_release e i request h))) n \<noteq> None"
proof -
  have *: "node_inv (hub_repo (snd (ack_release e i request h))) \<and> release_inv (snd (ack_release e i request h)) \<and>
      (repo_node (hub_repo h) n \<noteq> None \<longrightarrow> repo_node (hub_repo (snd (ack_release e i request h))) n \<noteq> None)"
  proof (cases "\<exists>r. repo_release (hub_repo h) i = Some r \<and> raq_node_id request \<in> set (rl_target_node_ids r)")
    case True
    then obtain r where r: "repo_release (hub_repo h) i = Some r" "raq_node_id request \<in> set (rl_target_node_ids r)" by blast
    let ?h1 = "with_repo (repo_update_release_ack i (raq_node_id request) \<lparr>ak_apply_status = raq_apply_status request,
       ak_current_version = Some (raq_current_version request), ak_message = raq_message request,
       ak_acked_at = Some (env_now e 0)\<rparr>) h"
    have rel: "release_inv ?h1" by (rule release_inv_update_ack [OF assms(2) r])
    have same: "nodes (hub_repo ?h1) = nodes (hub_repo h)" "node_ids_by_code (hub_repo ?h1) = node_ids_by_code (hub_repo h)"
      by (simp_all add: repo_update_release_ack_def)
    then have inv: "node_inv (hub_repo ?h1)" using assms(1) by (simp add: node_inv_def)
    show ?thesis
    proof (cases "repo_node (hub_repo h) (raq_node_id request)")
      case None
      with r rel inv same show ?thesis by (simp add: ack_release_def Let_def repo_node_def)
    next
      case (Some node)
      let ?node = "node\<lparr>nd_runtime := (nd_runtime node)\<lparr>nr_active_config_version := Some (raq_current_version request),
         nr_last_seen_at := Some (env_now e 1)\<rparr>\<rparr>"
      have id: "node_ident node = raq_node_id request"
        using assms(1) Some by (auto simp: node_inv_def repo_node_def dest: index_fwdD)
      have "snd (ack_release e i request h) = with_repo (repo_save_node ?node) ?h1"
        using r Some same by (simp add: ack_release_def Let_def repo_node_def)
      moreover have "node_inv (repo_save_node ?node (hub_repo ?h1))"
        by (rule node_inv_save_same [OF inv, where old = node]) (use Some id in \<open>simp_all add: repo_node_def repo_update_release_ack_def\<close>)
      ultimately show ?thesis
        using release_inv_save_node [OF rel] same by (simp add: repo_node_def repo_save_node_def)
    qed
  next
    case False
    with assms show ?thesis
      by (cases "repo_release (hub_repo h) i") (auto simp: ack_release_def)
  qed
  then show "node_inv (hub_repo (snd (ack_release e i request h)))" "release_inv (snd (ack_release e i request h))"
    "repo_node (hub_repo h) n \<noteq> None \<longrightarrow> repo_node (hub_repo (snd (ack_release e i request h))) n \<noteq> None"
    by blast+
qed

subsection \<open>The remaining operations\<close>

lemma change_admin_password_admin_inv:
  assumes "admin_inv (hub_repo h)"
  shows "admin_inv (hub_repo (snd (change_admin_password e token request h)))"
proof -
  let ?h = "snd (authorize_admin_session e token h)"
  have inv: "admin_inv (hub_repo ?h)" by (rule authorize_admin_session_inv [OF assms])
  have save: "admin_inv (repo_delete_admin_sessions_for_user i keep (repo_save_admin_user (user\<lparr>au_password_hash := pw\<rparr>) (hub_repo ?h)))"
    if user: "repo_admin_user_by_username (hub_repo ?h) name = Some user" for i keep user pw name
  proof -
    note u = user_by_username_Some [OF inv user]
    have "admin_inv (repo_save_admin_user (user\<lparr>au_password_hash := pw\<rparr>) (hub_repo ?h))"
    proof (rule admin_inv_save_user [OF inv])
      show "normalize_admin_username (au_username (user\<lparr>au_password_hash := pw\<rparr>)) = Inr (au_username (user\<lparr>au_password_hash := pw\<rparr>))"
        using inv u(1) by (auto simp: admin_inv_def)
    qed (use user u in auto)
    then show ?thesis
      by (simp add: repo_delete_admin_sessions_for_user_def admin_inv_sessions admin_inv_def)
  qed
  show ?thesis
    unfolding change_admin_password_def
    by (rule and_then_snd [where Q = "\<lambda>h. admin_inv (hub_repo h)", OF inv])
      (auto simp: try_ok_def ok_or_def Let_def inv save split: sum.splits option.splits)
qed

lemma admin_sessions_kept [simp]:
  "admin_inv s \<Longrightarrow> admin_inv (repo_delete_admin_session token s)"
  by (simp add: repo_delete_admin_session_def admin_inv_sessions admin_inv_def)

lemma refresh_node_token_token_inv:
  "token_inv (hub_tokens h) \<Longrightarrow> tokens_fresh e (hub_tokens h) \<Longrightarrow>
   token_inv (hub_tokens (snd (refresh_node_token e request h)))"
  by (auto simp: refresh_node_token_def try_ok_def issue_node_tokens_eq tokens_fresh_def mem.inv_issue split: sum.splits)

lemma register_node_nodes:
  assumes "node_inv (hub_repo h)" "register_node e request h = (r, h')" "repo_node (hub_repo h) n \<noteq> None"
  shows "repo_node (hub_repo h') n \<noteq> None"
proof (cases r)
  case (Inr resp)
  from assms(2) [unfolded Inr] show ?thesis
    by (rule register_node_Inr) (use assms(3) in \<open>auto simp: repo_node_def repo_save_node_def\<close>)
qed (use assms in \<open>auto simp: register_node_def outcome_iffs issue_node_tokens_eq split: if_splits\<close>)

lemma update_site_status_release_inv:
  assumes "release_inv h" "hub_release_counter h \<noteq> - 1" "repo_release (hub_repo h) (env_uuid e 0) = None"
  shows "release_inv (snd (update_site_status e i enabled h))"
proof (cases "repo_site (hub_repo h) i")
  case (Some site)
  let ?site = "site\<lparr>st_status := (if enabled then (if st_bindings site = [] then Draft else Published) else Disabled),
     st_version := st_version site + 1\<rparr>"
  let ?h = "with_repo (repo_save_site ?site) h"
  have inv: "release_inv ?h" by (rule release_inv_cong [OF assms(1)]) simp_all
  have "release_inv (snd (save_site_release e ?site ty reason ?h))" for ty reason
    using save_site_release_adds [OF inv] assms(2,3) by (simp add: adds_release_def)
  then have "release_inv (snd (and_then (save_site_release e ?site ty reason ?h) (\<lambda>_ h. (Inr x, h))))"
    for ty reason and x :: update_site_status_response
    by (intro and_then_snd [where Q = release_inv]) auto
  with inv show ?thesis by (simp add: update_site_status_def Some Let_def)
qed (use assms in \<open>simp add: update_site_status_def\<close>)

lemma sync_dns_zones_dns_inv:
  assumes "dns_inv (hub_repo h)"
    and "\<And>resp. fst (sync_dns_zones e get request h) = Inr resp \<Longrightarrow>
      fresh_ids e 0 (length (szr_zone_ids resp)) (dns_zones (hub_repo h))"
  shows "dns_inv (hub_repo (snd (sync_dns_zones e get request h)))"
proof (cases "sync_dns_zones e get request h")
  case (Pair r h')
  show ?thesis
  proof (cases r)
    case (Inr resp)
    with Pair assms(2) sync_dns_zones_effect(1) [OF assms(1)] show ?thesis by simp
  next
    case (Inl err)
    with Pair assms(1) show ?thesis
      by (auto simp: sync_dns_zones_def outcome_iffs split: if_splits sum.splits prod.splits) (metis sum.exhaust)
  qed
qed

lemma renew_site_certificate_dns_inv:
  assumes "dns_inv (hub_repo h)"
  shows "dns_inv (hub_repo (snd (renew_site_certificate e i h)))"
proof (cases "renew_site_certificate e i h")
  case (Pair r h')
  show ?thesis
  proof (cases r)
    case (Inr resp)
    from Pair [unfolded Inr] obtain site certificate_id cn zone response where
      zone: "matching_zone cn h = Some zone"
      and issue: "issue_certificate_order e (Some (st_id (site :: site_record))) certificate_id cn [cn] (dz_zone_id zone)
         (dz_zone_name zone) ''letsencrypt-production'' ''renew'' h = (Inr response, h')"
      by (rule renew_site_certificate_Inr) blast
    have "zone \<in> set (hm_values (dns_zones (hub_repo h)))"
      using max_by_key_in [OF zone [unfolded matching_zone_def]] by (simp add: repo_list_dns_zones_def)
    with assms have "hm_get (dns_zones (hub_repo h)) (dz_zone_id zone) \<noteq> None"
      by (auto simp: dns_inv_def zone_inv_def hm_in_values)
    with issue assms show ?thesis unfolding Pair snd_conv by (elim issue_certificate_order_effect) blast
  next
    case (Inl err)
    have "\<exists>resp. fst (issue_certificate_order e' a b c d f g k l h) = Inr resp" for e' a b c d f g k l
      by (simp add: issue_certificate_order_def split_beta Let_def)
    with Pair Inl assms show ?thesis
      by (auto simp: renew_site_certificate_def outcome_iffs Let_def split: if_splits option.splits)
        (metis fst_conv sum.distinct(1))+
  qed
qed

subsection \<open>Steps\<close>

text \<open>
  The identifiers a call draws are new: the first eight differ and are no key of the tables they
  are used for (an operation draws at most five, the synchronisation of zones as many as it
  stores, which its rule asks for); the tokens it would issue are not in use, and the 64-bit
  release counter has not reached its end.
\<close>

definition fresh_call :: "runtime \<Rightarrow> hub \<Rightarrow> bool" where
  "fresh_call e h \<longleftrightarrow> inj_on (env_uuid e) {..<8} \<and>
     (\<forall>i < 8. repo_node (hub_repo h) (env_uuid e i) = None \<and> repo_site (hub_repo h) (env_uuid e i) = None \<and>
        repo_release (hub_repo h) (env_uuid e i) = None \<and> hm_get (admin_users (hub_repo h)) (env_uuid e i) = None) \<and>
     tokens_fresh e (hub_tokens h) \<and> hub_release_counter h \<notin> {- 1, - 2}"

lemma fresh_callD:
  assumes "fresh_call e h"
  shows "env_uuid e 0 \<noteq> env_uuid e 1" "repo_node (hub_repo h) (env_uuid e 0) = None"
    "i \<le> 1 \<Longrightarrow> repo_site (hub_repo h) (env_uuid e i) = None"
    "repo_release (hub_repo h) (env_uuid e 0) = None" "repo_release (hub_repo h) (env_uuid e 1) = None"
    "hm_get (admin_users (hub_repo h)) (env_uuid e 0) = None" "tokens_fresh e (hub_tokens h)"
    "hub_release_counter h \<notin> {- 1, - 2}" "hub_release_counter h \<noteq> - 1"
proof -
  from assms have "inj_on (env_uuid e) {..<8}" by (simp add: fresh_call_def)
  from inj_onD [OF this, of 0 1] show "env_uuid e 0 \<noteq> env_uuid e 1" by auto
qed (use assms in \<open>auto simp: fresh_call_def\<close>)

inductive hub_step :: "hub \<Rightarrow> hub \<Rightarrow> bool" where
  step_create_node: "fresh_call e h \<Longrightarrow> hub_step h (snd (create_node e cnq h))"
| step_register_node: "fresh_call e h \<Longrightarrow> hub_step h (snd (register_node e nrq h))"
| step_refresh_node_token: "fresh_call e h \<Longrightarrow> hub_step h (snd (refresh_node_token e nfq h))"
| step_delete_node: "hub_step h (snd (delete_node n h))"
| step_node_heartbeat: "hub_step h (snd (node_heartbeat e nhq h))"
| step_create_site: "fresh_call e h \<Longrightarrow> create_site e csq h = Some (r, h') \<Longrightarrow> hub_step h h'"
| step_update_site: "hub_step h (snd (update_site i usq h))"
| step_update_site_status: "fresh_call e h \<Longrightarrow> hub_step h (snd (update_site_status e i enabled h))"
| step_delete_site: "fresh_call e h \<Longrightarrow> hub_step h (snd (delete_site e i h))"
| step_bind_site_nodes: "hub_step h (snd (bind_site_nodes e i items h))"
| step_switch_site_primary: "fresh_call e h \<Longrightarrow> hub_step h (snd (switch_site_primary e i spq h))"
| step_create_release: "fresh_call e h \<Longrightarrow> hub_step h (snd (create_release e crq h))"
| step_ack_release: "hub_step h (snd (ack_release e i raq h))"
| step_create_dns_provider: "hub_step h (snd (create_dns_provider e dpq h))"
| step_update_dns_provider: "hub_step h (snd (update_dns_provider e i dpq h))"
| step_delete_dns_provider: "hub_step h (snd (delete_dns_provider i h))"
| step_sync_dns_zones: "(\<And>resp. fst (sync_dns_zones e get szq h) = Inr resp \<Longrightarrow>
      fresh_ids e 0 (length (szr_zone_ids resp)) (dns_zones (hub_repo h))) \<Longrightarrow>
    hub_step h (snd (sync_dns_zones e get szq h))"
| step_update_dns_zone_status: "hub_step h (snd (update_dns_zone_status i enabled h))"
| step_delete_dns_zone: "hub_step h (snd (delete_dns_zone i h))"
| step_create_certificate_order: "hub_step h (snd (create_certificate_order e coq h))"
| step_retry_certificate_order: "hub_step h (snd (retry_certificate_order i h))"
| step_reset_certificate_order: "hub_step h (snd (reset_certificate_order i h))"
| step_renew_site_certificate: "hub_step h (snd (renew_site_certificate e i h))"
| step_ensure_admin_user: "fresh_call e h \<Longrightarrow> hub_step h (snd (ensure_admin_user e username display_name pw h))"
| step_login_admin: "hub_step h (snd (login_admin e alq h))"
| step_authorize_admin_session: "hub_step h (snd (authorize_admin_session e token h))"
| step_current_admin: "hub_step h (snd (current_admin e token h))"
| step_change_admin_password: "hub_step h (snd (change_admin_password e token cpq h))"
| step_logout_admin: "hub_step h (snd (logout_admin e token h))"
| step_create_operation_template: "hub_step h (snd (create_operation_template e otq h))"
| step_update_operation_template: "hub_step h (snd (update_operation_template e i otq h))"
| step_delete_operation_template: "hub_step h (snd (delete_operation_template i h))"
| step_create_node_operation: "hub_step h (snd (create_node_operation e n noq requested_by h))"
| step_claim_next_node_operation: "hub_step h (snd (claim_next_node_operation e n h))"
| step_report_node_operation_result: "hub_step h (snd (report_node_operation_result e i orq h))"

inductive hub_reachable :: "hub \<Rightarrow> bool" where
  reachable_new: "hub_reachable (new_memory_with_cert_auto_renew_before_days d)"
| reachable_step: "hub_reachable h \<Longrightarrow> hub_step h h' \<Longrightarrow> hub_reachable h'"

text \<open>The preservation lemmas of the components, by the state an operation leaves.\<close>

lemmas dns_steps =
  create_dns_provider_inv [OF _ prod.collapse [symmetric]] update_dns_provider_inv [OF _ prod.collapse [symmetric]]
  delete_dns_provider_inv [OF _ prod.collapse [symmetric]] update_dns_zone_status_inv [OF _ prod.collapse [symmetric]]
  delete_dns_zone_inv [OF _ prod.collapse [symmetric]] create_certificate_order_inv [OF _ prod.collapse [symmetric]]
  retry_certificate_order_inv [OF _ prod.collapse [symmetric]] reset_certificate_order_inv [OF _ prod.collapse [symmetric]]
  renew_site_certificate_dns_inv sync_dns_zones_dns_inv

lemmas ops_steps =
  create_operation_template_inv [OF _ prod.collapse [symmetric]] update_operation_template_inv [OF _ prod.collapse [symmetric]]
  delete_operation_template_inv [OF _ prod.collapse [symmetric]] create_node_operation_inv [OF _ prod.collapse [symmetric]]
  claim_next_node_operation_inv [OF _ prod.collapse [symmetric]] report_node_operation_result_inv [OF _ prod.collapse [symmetric]]

lemma current_admin_snd: "snd (current_admin e token h) = snd (authorize_admin_session e token h)"
  by (cases "authorize_admin_session e token h"; cases "fst (authorize_admin_session e token h)")
    (auto simp: current_admin_def)

lemma hub_inv_dns:
  "hub_inv h \<Longrightarrow> changes_only {DnsP} h h' \<Longrightarrow> dns_inv (hub_repo h') \<Longrightarrow> hub_inv h'"
  by (erule (1) hub_inv_change) auto

lemma hub_inv_ops:
  "hub_inv h \<Longrightarrow> changes_only {OpsP} h h' \<Longrightarrow> ops_inv (hub_repo h') \<Longrightarrow> hub_inv h'"
  by (erule (1) hub_inv_change) auto

lemma hub_inv_admin:
  "hub_inv h \<Longrightarrow> changes_only {AdminP} h h' \<Longrightarrow> admin_inv (hub_repo h') \<Longrightarrow> hub_inv h'"
  by (erule (1) hub_inv_change) auto

lemma hub_inv_site:
  "hub_inv h \<Longrightarrow> changes_only {SiteP, ReleaseP} h h' \<Longrightarrow> site_inv (hub_repo h') \<Longrightarrow> release_inv h' \<Longrightarrow> hub_inv h'"
  by (erule (1) hub_inv_change) auto

lemma hub_inv_only_site:
  "hub_inv h \<Longrightarrow> changes_only {SiteP} h h' \<Longrightarrow> site_inv (hub_repo h') \<Longrightarrow> hub_inv h'"
  by (erule (1) hub_inv_change) auto

lemma hub_invD:
  "hub_inv h \<Longrightarrow> node_inv (hub_repo h)" "hub_inv h \<Longrightarrow> site_inv (hub_repo h)" "hub_inv h \<Longrightarrow> release_inv h"
  "hub_inv h \<Longrightarrow> dns_inv (hub_repo h)" "hub_inv h \<Longrightarrow> admin_inv (hub_repo h)" "hub_inv h \<Longrightarrow> ops_inv (hub_repo h)"
  "hub_inv h \<Longrightarrow> token_inv (hub_tokens h)"
  by (simp_all add: hub_inv_def)

lemma node_steps:
  assumes "hub_inv h"
  shows "fresh_call e h \<Longrightarrow> hub_inv (snd (create_node e cnq h))"
    "fresh_call e h \<Longrightarrow> hub_inv (snd (register_node e nrq h))"
    "fresh_call e h \<Longrightarrow> hub_inv (snd (refresh_node_token e nfq h))"
    "hub_inv (snd (delete_node n h))" "hub_inv (snd (node_heartbeat e nhq h))" "hub_inv (snd (ack_release e i raq h))"
proof -
  note inv = hub_invD [OF assms]
  have nodes: "\<forall>n. repo_node (hub_repo h) n \<noteq> None \<longrightarrow> repo_node (hub_repo (snd (create_node e cnq h))) n \<noteq> None"
    "\<forall>n. repo_node (hub_repo h) n \<noteq> None \<longrightarrow> repo_node (hub_repo (snd (node_heartbeat e nhq h))) n \<noteq> None"
    by (simp_all add: create_node_def node_heartbeat_def Let_def repo_node_def repo_save_node_def repo_record_heartbeat_def)
  show "hub_inv (snd (create_node e cnq h))" if "fresh_call e h"
    using create_node_inv [OF inv(1) fresh_callD(2) [OF that] prod.collapse [symmetric]] nodes(1)
    by (intro hub_inv_change [OF assms node_ops_changes(1)]) simp_all
  show "hub_inv (snd (register_node e nrq h))" if "fresh_call e h"
    using register_node_inv [OF inv(1,7) fresh_callD(7) [OF that] prod.collapse [symmetric]]
      register_node_nodes [OF inv(1) prod.collapse [symmetric]]
    by (intro hub_inv_change [OF assms node_ops_changes(2)]) simp_all
  show "hub_inv (snd (refresh_node_token e nfq h))" if "fresh_call e h"
    using refresh_node_token_token_inv [OF inv(7) fresh_callD(7) [OF that]]
    by (intro hub_inv_change [OF assms node_ops_changes(3)]) simp_all
  show "hub_inv (snd (delete_node n h))"
    using delete_node_inv [OF inv(1,7) prod.collapse [symmetric]] delete_node_site_inv [OF inv(2) prod.collapse [symmetric]]
      delete_node_release_inv [OF inv(3)]
    by (intro hub_inv_change [OF assms node_ops_changes(4)]) simp_all
  show "hub_inv (snd (node_heartbeat e nhq h))"
    using nodes(2) inv(1) node_inv_heartbeat
    by (intro hub_inv_change [OF assms node_ops_changes(5)]) (auto simp: node_heartbeat_def)
  show "hub_inv (snd (ack_release e i raq h))"
    using ack_release_invs [OF inv(1,3)] by (intro hub_inv_change [OF assms release_ops_changes(1)]) simp_all
qed

lemma site_steps:
  assumes "hub_inv h"
  shows "fresh_call e h \<Longrightarrow> create_site e csq h = Some (r, h') \<Longrightarrow> hub_inv h'"
    "hub_inv (snd (update_site i usq h))" "hub_inv (snd (bind_site_nodes e i items h))"
    "fresh_call e h \<Longrightarrow> hub_inv (snd (update_site_status e i enabled h))"
    "fresh_call e h \<Longrightarrow> hub_inv (snd (delete_site e i h))"
    "fresh_call e h \<Longrightarrow> hub_inv (snd (switch_site_primary e i spq h))"
    "fresh_call e h \<Longrightarrow> hub_inv (snd (create_release e crq h))"
proof -
  note inv = hub_invD [OF assms]
  show "hub_inv h'" if "fresh_call e h" "create_site e csq h = Some (r, h')"
    by (rule hub_inv_only_site [OF assms create_site_changes [OF that(2)]
        create_site_inv [OF inv(2) that(2) fresh_callD(3) [OF that(1)]]])
  show "hub_inv (snd (update_site i usq h))" "hub_inv (snd (bind_site_nodes e i items h))"
    by (rule hub_inv_only_site [OF assms]; (rule site_ops_changes update_site_inv [OF inv(2)] bind_site_nodes_inv [OF inv(2)]))+
  show "hub_inv (snd (update_site_status e i enabled h))" if "fresh_call e h"
    by (rule hub_inv_site [OF assms release_ops_changes(2) update_site_status_site_inv [OF inv(2)]
        update_site_status_release_inv [OF inv(3) fresh_callD(9,4) [OF that]]])
  show "hub_inv (snd (delete_site e i h))" if "fresh_call e h"
    using delete_site_invs [OF inv(2-4) fresh_callD(9,4) [OF that]]
    by (intro hub_inv_change [OF assms release_ops_changes(3)]) simp_all
  show "hub_inv (snd (switch_site_primary e i spq h))" if "fresh_call e h"
    using switch_site_primary_invs [OF inv(2,3) fresh_callD(8,1,4,5) [OF that]] by (intro hub_inv_site [OF assms])
  show "hub_inv (snd (create_release e crq h))" if "fresh_call e h"
    by (rule hub_inv_site [OF assms create_release_changes create_release_site_inv [OF inv(2)]
        create_release_release_inv [OF inv(3) fresh_callD(8,1,4,5) [OF that]]])
qed

lemma admin_steps:
  assumes "hub_inv h"
  shows "fresh_call e h \<Longrightarrow> hub_inv (snd (ensure_admin_user e name disp pw h))" "hub_inv (snd (login_admin e alq h))"
    "hub_inv (snd (authorize_admin_session e token h))" "hub_inv (snd (current_admin e token h))"
    "hub_inv (snd (change_admin_password e token cpq h))" "hub_inv (snd (logout_admin e token h))"
proof -
  note inv = hub_invD [OF assms]
  show "hub_inv (snd (ensure_admin_user e name disp pw h))" if "fresh_call e h"
    by (rule hub_inv_admin [OF assms admin_ops_changes(1)
        ensure_admin_user_inv [OF inv(5) fresh_callD(6) [OF that] prod.collapse [symmetric]]])
  show "hub_inv (snd (login_admin e alq h))"
    by (rule hub_inv_admin [OF assms admin_ops_changes(2) login_admin_inv [OF inv(5) prod.collapse [symmetric]]])
  show auth: "hub_inv (snd (authorize_admin_session e token h))"
    by (rule hub_inv_admin [OF assms authorize_changes authorize_admin_session_inv [OF inv(5)]])
  show "hub_inv (snd (current_admin e token h))" unfolding current_admin_snd by (rule auth)
  show "hub_inv (snd (change_admin_password e token cpq h))"
    by (rule hub_inv_admin [OF assms admin_ops_changes(4) change_admin_password_admin_inv [OF inv(5)]])
  show "hub_inv (snd (logout_admin e token h))"
    by (rule hub_inv_admin [OF assms admin_ops_changes(5)]) (use inv(5) in \<open>simp add: logout_admin_def\<close>)
qed

lemma dns_hub_steps:
  assumes "hub_inv h"
  shows "hub_inv (snd (create_dns_provider e dpq h))" "hub_inv (snd (update_dns_provider e i dpq h))"
    "hub_inv (snd (delete_dns_provider i h))" "hub_inv (snd (update_dns_zone_status i enabled h))"
    "hub_inv (snd (delete_dns_zone i h))" "hub_inv (snd (create_certificate_order e coq h))"
    "hub_inv (snd (retry_certificate_order i h))" "hub_inv (snd (reset_certificate_order i h))"
    "hub_inv (snd (renew_site_certificate e i h))"
    "(\<And>resp. fst (sync_dns_zones e get szq h) = Inr resp \<Longrightarrow>
        fresh_ids e 0 (length (szr_zone_ids resp)) (dns_zones (hub_repo h))) \<Longrightarrow>
      hub_inv (snd (sync_dns_zones e get szq h))"
  by (rule hub_inv_dns [OF assms], rule op_changes, rule dns_steps, rule hub_invD(4) [OF assms])+ assumption

lemma ops_hub_steps:
  assumes "hub_inv h"
  shows "hub_inv (snd (create_operation_template e otq h))" "hub_inv (snd (update_operation_template e i otq h))"
    "hub_inv (snd (delete_operation_template i h))" "hub_inv (snd (create_node_operation e n noq by h))"
    "hub_inv (snd (claim_next_node_operation e n h))" "hub_inv (snd (report_node_operation_result e i orq h))"
  by (rule hub_inv_ops [OF assms], rule op_changes, rule ops_steps, rule hub_invD(6) [OF assms])+

lemma hub_step_inv: "hub_step h h' \<Longrightarrow> hub_inv h \<Longrightarrow> hub_inv h'"
  by (induction rule: hub_step.induct) (assumption | rule node_steps site_steps admin_steps dns_hub_steps ops_hub_steps)+

lemma hub_reachable_hub_inv: "hub_reachable h \<Longrightarrow> hub_inv h"
  by (induction rule: hub_reachable.induct) (simp add: hub_inv_new, rule hub_step_inv)

subsection \<open>What holds in every reachable hub\<close>

text \<open>
  C1: In every hub that operations can lead to, in whatever order they are called, a site is found
  under its identifier and its code, all the nodes it is bound to exist and are different, and a
  bound site has exactly one primary.
\<close>

theorem reachable_sites_bound:
  assumes "hub_reachable h" "repo_site (hub_repo h) i = Some site"
  shows "st_id site = i \<and> repo_site_id_by_code (hub_repo h) (st_site_code site) = Some i \<and>
    distinct (map sb_node_id (st_bindings site)) \<and>
    (\<forall>b \<in> set (st_bindings site). repo_node (hub_repo h) (sb_node_id b) \<noteq> None) \<and>
    (st_bindings site \<noteq> [] \<longrightarrow> (\<exists>!b. b \<in> set (st_bindings site) \<and> sb_binding_role b = ''primary''))"
proof -
  note inv = hub_invD(2) [OF hub_reachable_hub_inv [OF assms(1)]]
  have code: "repo_site_id_by_code (hub_repo h) (st_site_code site) = Some i"
    using inv assms(2) by (auto simp: site_inv_def repo_site_id_by_code_def repo_site_def dest: index_fwdD)
  have ok: "bindings_ok (st_bindings site)" if "st_bindings site \<noteq> []"
    by (rule site_inv_bindings [OF inv assms(2) that])
  have one: "\<exists>!b. b \<in> set (st_bindings site) \<and> sb_binding_role b = ''primary''" if "st_bindings site \<noteq> []"
  proof -
    from ok [OF that] obtain b where b: "primaries (st_bindings site) = [b]"
      by (auto simp: bindings_ok_def length_Suc_conv)
    have "b' \<in> set (st_bindings site) \<and> sb_binding_role b' = ''primary'' \<longleftrightarrow> b' \<in> set (primaries (st_bindings site))" for b'
      by auto
    then show ?thesis by (simp only: b) simp
  qed
  have nodes: "\<forall>b \<in> set (st_bindings site). repo_node (hub_repo h) (sb_node_id b) \<noteq> None"
    using inv assms(2) by (auto simp: site_inv_def)
  have "distinct (map sb_node_id (st_bindings site))"
    using ok by (cases "st_bindings site = []") (auto simp: bindings_ok_def)
  with code one nodes site_inv_id [OF inv assms(2)] show ?thesis by blast
qed

lemma offer_served_parts:
  assumes "hub_reachable h" "latest_release_for_node e n h = Inr lat"
  shows "\<exists>pkg. config_package_for_node e n (lrr_release_version lat) h = Inr pkg \<and>
      cfr_release_id pkg = lrr_release_id lat"
    "\<exists>ok. fst (ack_release e' (lrr_release_id lat) \<lparr>raq_node_id = n, raq_apply_status = status,
      raq_current_version = lrr_release_version lat, raq_message = msg\<rparr> h) = Inr ok \<and> rar_node_id ok = n"
proof -
  note inv = hub_invD(3) [OF hub_reachable_hub_inv [OF assms(1)]]
  from assms(2) obtain r where lat: "repo_latest_release_id_for_node (hub_repo h) n = Some (lrr_release_id lat)"
    "repo_release (hub_repo h) (lrr_release_id lat) = Some r" "lrr_release_version lat = rl_release_version r"
    by (auto simp: latest_release_for_node_def result_bind_eq_Inr outcome_iffs)
  with inv have target: "n \<in> set (rl_target_node_ids r)" unfolding release_inv_def by fastforce
  from inv lat(2) have "rl_release_id r = lrr_release_id lat"
    "repo_release_by_version (hub_repo h) (rl_release_version r) = Some r"
    by (auto simp: release_inv_def repo_release_def repo_release_by_version_def dest: index_fwdD)
  with lat target show "\<exists>pkg. config_package_for_node e n (lrr_release_version lat) h = Inr pkg \<and>
      cfr_release_id pkg = lrr_release_id lat"
    by (simp add: config_package_for_node_def)
  from lat target show "\<exists>ok. fst (ack_release e' (lrr_release_id lat) \<lparr>raq_node_id = n, raq_apply_status = status,
      raq_current_version = lrr_release_version lat, raq_message = msg\<rparr> h) = Inr ok \<and> rar_node_id ok = n"
    by (simp add: ack_release_def Let_def)
qed

text \<open>
  C9: In every reachable hub the release a node is offered can be downloaded by that node under the
  version it was offered with, and the hub accepts the node's acknowledgement of it.
\<close>

theorem reachable_offer_served:
  assumes "hub_reachable h" "latest_release_for_node e n h = Inr lat"
  shows "(\<exists>pkg. config_package_for_node e n (lrr_release_version lat) h = Inr pkg \<and>
      cfr_release_id pkg = lrr_release_id lat) \<and>
    (\<exists>ok. fst (ack_release e' (lrr_release_id lat) \<lparr>raq_node_id = n, raq_apply_status = status,
      raq_current_version = lrr_release_version lat, raq_message = msg\<rparr> h) = Inr ok \<and> rar_node_id ok = n)"
  by (intro conjI offer_served_parts [OF assms])

text \<open>
  C31: In every reachable hub, every certificate order belongs to a zone that exists, every zone to a
  provider that exists, each of the three is stored under its own identifier, and two different zones of one
  provider have different names.
\<close>

theorem reachable_dns_references:
  assumes "hub_reachable h"
  shows "(\<forall>i order. hm_get (certificate_orders (hub_repo h)) i = Some order \<longrightarrow>
      co_order_id order = i \<and> (\<exists>z. hm_get (dns_zones (hub_repo h)) (co_zone_id order) = Some z)) \<and>
    (\<forall>i z. hm_get (dns_zones (hub_repo h)) i = Some z \<longrightarrow>
      dz_zone_id z = i \<and> (\<exists>p. hm_get (dns_providers (hub_repo h)) (dz_provider_id z) = Some p)) \<and>
    (\<forall>i p. hm_get (dns_providers (hub_repo h)) i = Some p \<longrightarrow> dp_provider_id p = i) \<and>
    (\<forall>i z j z'. hm_get (dns_zones (hub_repo h)) i = Some z \<longrightarrow> hm_get (dns_zones (hub_repo h)) j = Some z' \<longrightarrow>
      i \<noteq> j \<longrightarrow> dz_provider_id z = dz_provider_id z' \<longrightarrow> dz_zone_name z \<noteq> dz_zone_name z')"
proof (intro conjI)
  note inv = hub_invD(4) [OF hub_reachable_hub_inv [OF assms], unfolded dns_inv_def]
  show "\<forall>i order. hm_get (certificate_orders (hub_repo h)) i = Some order \<longrightarrow>
      co_order_id order = i \<and> (\<exists>z. hm_get (dns_zones (hub_repo h)) (co_zone_id order) = Some z)"
    using inv unfolding order_zone_inv_def by blast
  show "\<forall>i z. hm_get (dns_zones (hub_repo h)) i = Some z \<longrightarrow>
      dz_zone_id z = i \<and> (\<exists>p. hm_get (dns_providers (hub_repo h)) (dz_provider_id z) = Some p)"
    using inv unfolding zone_inv_def by blast
  show "\<forall>i p. hm_get (dns_providers (hub_repo h)) i = Some p \<longrightarrow> dp_provider_id p = i"
    using inv unfolding provider_inv_def by (blast dest: index_fwdD)
  show "\<forall>i z j z'. hm_get (dns_zones (hub_repo h)) i = Some z \<longrightarrow> hm_get (dns_zones (hub_repo h)) j = Some z' \<longrightarrow>
      i \<noteq> j \<longrightarrow> dz_provider_id z = dz_provider_id z' \<longrightarrow> dz_zone_name z \<noteq> dz_zone_name z'"
    using inv unfolding zone_inv_def by blast
qed

text \<open>An example: a node and a site are created, the site is bound to the node and released.\<close>

lemma fresh_call_list [code]:
  "fresh_call e h \<longleftrightarrow> distinct (map (env_uuid e) [0..<8]) \<and>
     list_all (\<lambda>i. repo_node (hub_repo h) (env_uuid e i) = None \<and> repo_site (hub_repo h) (env_uuid e i) = None \<and>
        repo_release (hub_repo h) (env_uuid e i) = None \<and> hm_get (admin_users (hub_repo h)) (env_uuid e i) = None) [0..<8] \<and>
     tokens_fresh e (hub_tokens h) \<and> hub_release_counter h \<notin> {- 1, - 2}"
  by (auto simp: fresh_call_def distinct_map list_all_iff atLeast0LessThan simp del: upt_Suc)

definition sample_site_request :: create_site_request where
  "sample_site_request = \<lparr>csq_site_code = None, csq_name = ''Shop'', csq_domain = ''shop.example.com'',
     csq_listen_port = 80, csq_protocol = ''http'', csq_tls_enabled = False, csq_config = sample_config\<rparr>"

definition sample_with_site :: "create_site_response hub_out option" where
  "sample_with_site = create_site (sample_env 10 0) sample_site_request (snd sample_created)"

definition sample_system_bound :: "hub \<Rightarrow> create_site_bindings_response hub_out" where
  "sample_system_bound h = bind_site_nodes (sample_env 20 0) 10
     [\<lparr>sbi_node_id = 1, sbi_binding_role = ''primary'', sbi_priority = 100, sbi_node_code = None, sbi_node_name = None,
       sbi_node_status = None\<rparr>] h"

definition sample_system :: hub where
  "sample_system = snd (create_release (sample_env 30 0)
     \<lparr>crq_scope_type = ''site'', crq_scope_id = 10, crq_release_type = ''publish'', crq_reason = ''r''\<rparr>
     (snd (sample_system_bound (snd (the sample_with_site)))))"

lemma sample_system_reachable: "hub_reachable sample_system"
proof -
  have "hub_reachable (snd sample_created)"
    unfolding sample_created_def new_memory_def
    by (rule reachable_step [OF reachable_new step_create_node]) code_simp
  moreover have "fresh_call (sample_env 10 0) (snd sample_created)" by code_simp
  moreover have "case sample_with_site of None \<Rightarrow> False | Some _ \<Rightarrow> True" by code_simp
  then obtain r h where h: "sample_with_site = Some (r, h)" by (auto split: option.splits)
  ultimately have "hub_reachable h"
    by (metis reachable_step step_create_site sample_with_site_def)
  then have "hub_reachable (snd (sample_system_bound (snd (the sample_with_site))))"
    unfolding h option.sel snd_conv sample_system_bound_def by (rule reachable_step [OF _ step_bind_site_nodes])
  moreover have "fresh_call (sample_env 30 0) (snd (sample_system_bound (snd (the sample_with_site))))" by code_simp
  ultimately show ?thesis
    unfolding sample_system_def by (blast intro: reachable_step step_create_release)
qed

theorem reachable_sites_bound_witness:
  "\<exists>site. repo_site (hub_repo sample_system) 10 = Some site \<and> st_site_code site = ''shop'' \<and>
     map sb_node_id (st_bindings site) = [1] \<and> repo_node (hub_repo sample_system) 1 \<noteq> None \<and>
     (\<exists>!b. b \<in> set (st_bindings site) \<and> sb_binding_role b = ''primary'')"
proof -
  have "map_option (\<lambda>s. (st_site_code s, map sb_node_id (st_bindings s))) (repo_site (hub_repo sample_system) 10) =
      Some (''shop'', [1])" by code_simp
  then obtain site where site: "repo_site (hub_repo sample_system) 10 = Some site" "st_site_code site = ''shop''"
    "map sb_node_id (st_bindings site) = [1]" by auto
  with reachable_sites_bound [OF sample_system_reachable site(1)] show ?thesis by auto
qed

theorem reachable_offer_served_witness:
  "\<exists>lat pkg. latest_release_for_node (sample_env 0 0) 1 sample_system = Inr lat \<and>
     config_package_for_node (sample_env 0 0) 1 (lrr_release_version lat) sample_system = Inr pkg \<and>
     cfr_release_id pkg = 30"
proof -
  have "case latest_release_for_node (sample_env 0 0) 1 sample_system of Inl _ \<Rightarrow> False | Inr lat \<Rightarrow> lrr_release_id lat = 30"
    by code_simp
  then obtain lat where "latest_release_for_node (sample_env 0 0) 1 sample_system = Inr lat" "lrr_release_id lat = 30"
    by (auto split: sum.splits)
  with reachable_offer_served [OF sample_system_reachable this(1), THEN conjunct1] show ?thesis by auto
qed

definition sample_ordered :: hub where
  "sample_ordered = snd (create_certificate_order (sample_env 30 0) sample_order_request (snd sample_synced))"

lemma sample_ordered_reachable: "hub_reachable sample_ordered"
proof -
  have "hub_reachable sample_provider_hub"
    unfolding sample_provider_hub_def new_memory_def
    by (rule reachable_step [OF reachable_new step_create_dns_provider])
  then have "hub_reachable (snd sample_synced)"
  proof (rule reachable_step)
    show "hub_step sample_provider_hub (snd sample_synced)"
      unfolding sample_synced_def
      by (rule step_sync_dns_zones)
        (use sample_synced_eval(1,2) in \<open>simp add: sample_synced_def [symmetric] fresh_ids_two\<close>)
  qed
  then show ?thesis
    unfolding sample_ordered_def by (rule reachable_step [OF _ step_create_certificate_order])
qed

theorem reachable_dns_references_witness:
  "\<exists>z p. hm_get (dns_zones (hub_repo sample_ordered)) 5 = Some z \<and>
     hm_get (dns_providers (hub_repo sample_ordered)) (dz_provider_id z) = Some p"
proof -
  have "map_option co_zone_id (hm_get (certificate_orders (hub_repo sample_ordered)) 34) = Some 5" by code_simp
  then obtain order where "hm_get (certificate_orders (hub_repo sample_ordered)) 34 = Some order" "co_zone_id order = 5"
    by auto
  with reachable_dns_references [OF sample_ordered_reachable] show ?thesis by metis
qed

end
