(* ===== verification/Worker_Common.thy ===== *)
theory Worker_Common
  imports Config_Compiler
begin

text \<open>
  What the worker programs share: the settings read from the environment, the count of missed
  heartbeats, and the database. A statement takes the tables to a result and new tables, or fails
  and leaves them as they are; which statements fail is an argument of every model that uses the
  database. What is outside the database (the DNS provider) is a second part of the state, which a
  transaction that is rolled back does not restore.
\<close>

subsection \<open>Settings\<close>

text \<open>\<open>env name\<close> is \<open>std::env::var(name).ok()\<close>; \<open>parse_uint\<close> is \<open>str::parse\<close> of an unsigned type.\<close>

type_synonym process_env = "string \<Rightarrow> string option"

definition parse_uint :: "nat \<Rightarrow> string \<Rightarrow> nat option" where
  "parse_uint limit s =
     (let digits = (case s of c # rest \<Rightarrow> if c = CHR ''+'' then rest else s | [] \<Rightarrow> [])
      in if digits \<noteq> [] \<and> list_all ascii_digit digits \<and> string_to_nat digits < limit
         then Some (string_to_nat digits) else None)"

definition parse_env_u64 :: "process_env \<Rightarrow> string \<Rightarrow> u64 \<Rightarrow> u64" where
  "parse_env_u64 env name default_value =
     unwrap_or default_value (map_option of_nat (Option.bind (env name) (parse_uint (2 ^ 64))))"

definition parse_env_u32 :: "process_env \<Rightarrow> string \<Rightarrow> u32 \<Rightarrow> u32" where
  "parse_env_u32 env name default_value =
     unwrap_or default_value (map_option of_nat (Option.bind (env name) (parse_uint (2 ^ 32))))"

definition parse_env_bool :: "process_env \<Rightarrow> string \<Rightarrow> bool" where
  "parse_env_bool env name =
     unwrap_or False (map_option (\<lambda>value. value \<in> {''1'', ''true'', ''TRUE'', ''yes'', ''YES''}) (env name))"

text \<open>A number that was printed is read back.\<close>

lemma parse_uint_print: "n < limit \<Longrightarrow> parse_uint limit (nat_to_string n) = Some n"
proof -
  assume n: "n < limit"
  obtain c rest where s: "nat_to_string n = c # rest" by (meson nat_to_string_nonempty neq_Nil_conv)
  with nat_to_string_digits [of n] have "c \<noteq> CHR ''+''" by (auto simp: ascii_digit_def byte_def)
  with n s nat_to_string_digits [of n] show ?thesis
    using string_to_nat_inverse [of n] by (simp add: parse_uint_def)
qed

lemma parse_uint_bounded: "parse_uint limit s = Some n \<Longrightarrow> n < limit"
  by (auto simp: parse_uint_def Let_def split: if_splits)

definition to_ascii_uppercase :: "string \<Rightarrow> string" where
  "to_ascii_uppercase s = map (\<lambda>c. if ascii_lower c then char_of (byte c - 32) else c) s"

subsection \<open>Missed heartbeats\<close>

definition missed_heartbeats :: "datetime \<Rightarrow> datetime \<Rightarrow> u64 \<Rightarrow> u32" where
  "missed_heartbeats now last_seen_at expected_heartbeat_seconds =
     (let interval_seconds = max expected_heartbeat_seconds 1;
          elapsed_seconds = (of_int (max (num_seconds (now - last_seen_at)) 0) :: u64)
      in ucast (min (elapsed_seconds div interval_seconds) (2 ^ 32 - 1)))"

text \<open>
  The time between two instants of chrono is less than 2^63 milliseconds, so the number of whole
  seconds fits into 64 bits.
\<close>

lemma missed_heartbeats_floor:
  assumes "num_seconds (now - seen) < 2 ^ 63"
  shows "unat (missed_heartbeats now seen every) =
    min (nat (num_seconds (now - seen)) div max (unat every) 1) (2 ^ 32 - 1)"
proof -
  let ?n = "nat (num_seconds (now - seen))"
  have n: "?n < 2 ^ 64" using assms by simp
  have "(of_int (max (num_seconds (now - seen)) 0) :: u64) = of_nat ?n"
    by (simp add: max_def)
  then have elapsed: "unat (of_int (max (num_seconds (now - seen)) 0) :: u64) = ?n"
    using n by (simp add: unsigned_of_nat take_bit_nat_eq_self)
  have interval: "unat (max every 1) = max (unat every) 1"
    by (auto simp: max_def word_le_nat_alt unat_eq_0 not_le)
  have cap: "unat (2 ^ 32 - 1 :: u64) = 2 ^ 32 - 1" by simp
  let ?q = "of_int (max (num_seconds (now - seen)) 0) div max every 1 :: u64"
  have q: "unat ?q = ?n div max (unat every) 1"
    by (simp only: unat_div elapsed interval)
  have "unat (min ?q (2 ^ 32 - 1)) = min (?n div max (unat every) 1) (2 ^ 32 - 1)"
    using q cap by (auto simp: min_def word_le_nat_alt)
  then show ?thesis
    by (simp add: missed_heartbeats_def Let_def unsigned_ucast_eq take_bit_nat_eq_self)
qed

subsection \<open>The database\<close>

record ('t, 'x) world =
  w_db :: 't
  w_ext :: 'x
  w_clock :: nat

type_synonym failures = "nat \<Rightarrow> string option"

type_synonym ('a, 't, 'x) effect = "('t, 'x) world \<Rightarrow> (string + 'a) \<times> ('t, 'x) world"

text \<open>One statement: \<open>w_clock\<close> counts the statements that were sent.\<close>

definition sql :: "failures \<Rightarrow> ('t \<Rightarrow> 'a \<times> 't) \<Rightarrow> ('a, 't, 'x) effect" where
  "sql fails f w =
     (case fails (w_clock w) of
        Some error \<Rightarrow> (Inl error, w\<lparr>w_clock := Suc (w_clock w)\<rparr>)
      | None \<Rightarrow> (case f (w_db w) of (x, db) \<Rightarrow> (Inr x, w\<lparr>w_db := db, w_clock := Suc (w_clock w)\<rparr>)))"

definition sql_query :: "failures \<Rightarrow> ('t \<Rightarrow> 'a) \<Rightarrow> ('a, 't, 'x) effect" where
  "sql_query fails f = sql fails (\<lambda>db. (f db, db))"

definition sql_exec :: "failures \<Rightarrow> ('t \<Rightarrow> 't) \<Rightarrow> (unit, 't, 'x) effect" where
  "sql_exec fails f = sql fails (\<lambda>db. ((), f db))"

text \<open>The question mark.\<close>

definition eff_bind :: "('a, 't, 'x) effect \<Rightarrow> ('a \<Rightarrow> ('b, 't, 'x) effect) \<Rightarrow> ('b, 't, 'x) effect" where
  "eff_bind m k w = (case m w of (r, w') \<Rightarrow> (case r of Inl error \<Rightarrow> (Inl error, w') | Inr x \<Rightarrow> k x w'))"

lemma eff_bind_code [code_unfold]:
  "eff_bind m k = (\<lambda>w. case m w of (r, w') \<Rightarrow> (case r of Inl error \<Rightarrow> (Inl error, w') | Inr x \<Rightarrow> k x w'))"
  by (simp add: eff_bind_def fun_eq_iff)

definition eff_return :: "string + 'a \<Rightarrow> ('a, 't, 'x) effect" where
  "eff_return r w = (r, w)"

text \<open>A call to what is outside the database.\<close>

definition eff_ext :: "('x \<Rightarrow> (string + 'a) \<times> 'x) \<Rightarrow> ('a, 't, 'x) effect" where
  "eff_ext f w = (case f (w_ext w) of (r, x) \<Rightarrow> (r, w\<lparr>w_ext := x\<rparr>))"

text \<open>A transaction: an early return drops it, which rolls the tables back, and so does a failing commit.\<close>

definition transaction :: "failures \<Rightarrow> ('a, 't, 'x) effect \<Rightarrow> ('a, 't, 'x) effect" where
  "transaction fails body w =
     (case eff_bind (sql_exec fails (\<lambda>db. db)) (\<lambda>_. eff_bind body (\<lambda>x.
             eff_bind (sql_exec fails (\<lambda>db. db)) (\<lambda>_. eff_return (Inr x)))) w of
        (Inl error, w') \<Rightarrow> (Inl error, w'\<lparr>w_db := w_db w\<rparr>)
      | (Inr x, w') \<Rightarrow> (Inr x, w'))"

fun eff_each :: "('i \<Rightarrow> (unit, 't, 'x) effect) \<Rightarrow> 'i list \<Rightarrow> (unit, 't, 'x) effect" where
  "eff_each f [] = eff_return (Inr ())"
| "eff_each f (i # is) = eff_bind (f i) (\<lambda>_. eff_each f is)"

lemma sql_Inr: "sql fails f w = (Inr x, w') \<longleftrightarrow>
    fails (w_clock w) = None \<and> fst (f (w_db w)) = x \<and> w' = w\<lparr>w_db := snd (f (w_db w)), w_clock := Suc (w_clock w)\<rparr>"
  by (auto simp: sql_def split: option.splits prod.splits)

lemma sql_query_Inr: "sql_query fails f w = (Inr x, w') \<longleftrightarrow>
    fails (w_clock w) = None \<and> f (w_db w) = x \<and> w' = w\<lparr>w_clock := Suc (w_clock w)\<rparr>"
  by (auto simp: sql_query_def sql_Inr)

lemma sql_exec_Inr: "sql_exec fails f w = (Inr x, w') \<longleftrightarrow>
    fails (w_clock w) = None \<and> w' = w\<lparr>w_db := f (w_db w), w_clock := Suc (w_clock w)\<rparr>"
  by (auto simp: sql_exec_def sql_Inr)

lemma eff_bind_Inr: "eff_bind m k w = (Inr y, w') \<longleftrightarrow> (\<exists>x w1. m w = (Inr x, w1) \<and> k x w1 = (Inr y, w'))"
  by (auto simp: eff_bind_def split: prod.splits sum.splits)

lemma eff_bind_Inl: "eff_bind m k w = (Inl e, w') \<longleftrightarrow>
    m w = (Inl e, w') \<or> (\<exists>x w1. m w = (Inr x, w1) \<and> k x w1 = (Inl e, w'))"
  by (auto simp: eff_bind_def split: prod.splits sum.splits)

lemma eff_return_iff [simp]: "eff_return r w = (r', w') \<longleftrightarrow> r = r' \<and> w = w'"
  by (auto simp: eff_return_def)

text \<open>\<open>with_context\<close>: the message of the error is replaced.\<close>

definition eff_context :: "string \<Rightarrow> ('a, 't, 'x) effect \<Rightarrow> ('a, 't, 'x) effect" where
  "eff_context context m w = (case m w of (Inl error, w') \<Rightarrow> (Inl context, w') | (Inr x, w') \<Rightarrow> (Inr x, w'))"

lemma eff_context_Inr: "eff_context c m w = (Inr x, w') \<longleftrightarrow> m w = (Inr x, w')"
  by (auto simp: eff_context_def split: prod.splits sum.splits)

lemma eff_bind_return [simp]: "eff_bind (eff_return (Inr x)) k = k x"
  by (simp add: eff_bind_def eff_return_def fun_eq_iff)

lemmas effect_iffs = sql_query_Inr sql_exec_Inr eff_bind_Inr eff_context_Inr

lemma transaction_Inr:
  "transaction fails body w = (Inr x, w') \<longleftrightarrow>
     fails (w_clock w) = None \<and>
     (\<exists>w1. body (w\<lparr>w_clock := Suc (w_clock w)\<rparr>) = (Inr x, w1) \<and> fails (w_clock w1) = None \<and>
        w' = w1\<lparr>w_clock := Suc (w_clock w1)\<rparr>)"
proof -
  have "transaction fails body w = (Inr x, w') \<longleftrightarrow>
      eff_bind (sql_exec fails (\<lambda>db. db)) (\<lambda>_. eff_bind body (\<lambda>x.
        eff_bind (sql_exec fails (\<lambda>db. db)) (\<lambda>_. eff_return (Inr x)))) w = (Inr x, w')"
    by (auto simp: transaction_def split: prod.splits sum.splits)
  then show ?thesis by (auto simp: effect_iffs)
qed

lemma transaction_Inl_db: "transaction fails body w = (Inl e, w') \<Longrightarrow> w_db w' = w_db w"
  by (auto simp: transaction_def split: prod.splits sum.splits)

text \<open>An effect that only reads leaves the tables; a statement leaves what is outside the database.\<close>

lemma sql_ext: "sql fails f w = (r, w') \<Longrightarrow> w_ext w' = w_ext w"
  by (auto simp: sql_def split: option.splits prod.splits)

lemma sql_query_db: "sql_query fails f w = (r, w') \<Longrightarrow> w_db w' = w_db w \<and> w_ext w' = w_ext w"
  by (auto simp: sql_query_def sql_def split: option.splits prod.splits)

lemma sql_exec_db: "sql_exec fails f w = (r, w') \<Longrightarrow>
    w_ext w' = w_ext w \<and> (r = Inr () \<and> w_db w' = f (w_db w) \<or> (\<exists>e. r = Inl e) \<and> w_db w' = w_db w)"
  by (auto simp: sql_exec_def sql_def split: option.splits prod.splits)

lemma eff_each_exec_Inr:
  "eff_each (\<lambda>i. sql_exec fails (f i)) is w = (Inr x, w') \<Longrightarrow> w_db w' = fold f is (w_db w) \<and> w_ext w' = w_ext w"
  by (induction "is" arbitrary: w) (auto simp: effect_iffs)

subsection \<open>Effects that cannot fail\<close>

definition succeeds :: "('a, 't, 'x) effect \<Rightarrow> bool" where
  "succeeds m \<longleftrightarrow> (\<forall>w. \<exists>x w'. m w = (Inr x, w'))"

named_theorems succeeds_intros \<open>effects that cannot fail when the database does not\<close>

lemma succeeds_sql [succeeds_intros]: "succeeds (sql (\<lambda>_. None) f)"
  by (auto simp: succeeds_def sql_Inr)

lemma succeeds_query [succeeds_intros]: "succeeds (sql_query (\<lambda>_. None) f)"
  by (simp add: sql_query_def succeeds_sql)

lemma succeeds_exec [succeeds_intros]: "succeeds (sql_exec (\<lambda>_. None) f)"
  by (simp add: sql_exec_def succeeds_sql)

lemma succeeds_return [succeeds_intros]: "succeeds (eff_return (Inr x))"
  by (simp add: succeeds_def)

lemma succeeds_bind [succeeds_intros]:
  "succeeds m \<Longrightarrow> (\<And>x. succeeds (k x)) \<Longrightarrow> succeeds (eff_bind m k)"
  by (force simp: succeeds_def eff_bind_Inr)

lemma succeeds_context [succeeds_intros]: "succeeds m \<Longrightarrow> succeeds (eff_context c m)"
  by (simp add: succeeds_def eff_context_Inr)

lemma succeeds_each [succeeds_intros]: "(\<And>i. succeeds (f i)) \<Longrightarrow> succeeds (eff_each f is)"
  by (induction "is") (auto intro: succeeds_intros)

lemma succeeds_if [succeeds_intros]:
  "(c \<Longrightarrow> succeeds m) \<Longrightarrow> (\<not> c \<Longrightarrow> succeeds m') \<Longrightarrow> succeeds (if c then m else m')"
  by simp

lemma succeeds_transaction [succeeds_intros]: "succeeds m \<Longrightarrow> succeeds (transaction (\<lambda>_. None) m)"
  by (simp add: succeeds_def transaction_Inr)

lemma succeedsD: "succeeds m \<Longrightarrow> \<exists>x w'. m w = (Inr x, w')"
  by (simp add: succeeds_def)

end
