(* ===== verification/Hub_Http.thy ===== *)
theory Hub_Http
  imports Hub_System Hub_Settings
begin

text \<open>
  The HTTP layer of the hub (\<open>apps/hub-api/src/main.rs\<close>): the tokens taken from the request
  headers, one handler per route, the session cookie, and the table of routes.

  A request arrives decoded, as the arguments of its handler: matching paths and decoding paths,
  queries and JSON bodies is the work of axum. Of the headers the handlers look at two,
  \<open>Authorization\<close> and \<open>Cookie\<close>; a header that is present may still not be readable as text.
  A handler first authenticates and then calls the service; the clock readings of the
  authentication come before those of the service.
\<close>

named_theorems handler_defs \<open>the handlers of the routes\<close>

subsection \<open>Headers\<close>

record http_headers =
  hd_authorization :: "string option option"
  hd_cookie :: "string option option"

definition extract_bearer_token :: "http_headers \<Rightarrow> string api_result" where
  "extract_bearer_token headers =
     result_bind (ok_or (unauthorized ''missing Authorization header'') (hd_authorization headers)) (\<lambda>value.
     result_bind (ok_or (unauthorized ''invalid Authorization header'') value) (\<lambda>value.
       case strip_prefix ''Bearer '' value of
         None \<Rightarrow> Inl (unauthorized ''Authorization header must use Bearer token'')
       | Some token \<Rightarrow>
           if trim token = [] then Inl (unauthorized ''Bearer token must not be empty'') else Inr token))"

text \<open>\<open>str::split_once\<close> and \<open>Iterator::find_map\<close>.\<close>

definition split_once :: "char \<Rightarrow> string \<Rightarrow> (string \<times> string) option" where
  "split_once d s =
     (case dropWhile (\<lambda>c. c \<noteq> d) s of [] \<Rightarrow> None | _ # rest \<Rightarrow> Some (takeWhile (\<lambda>c. c \<noteq> d) s, rest))"

fun find_map :: "('a \<Rightarrow> 'b option) \<Rightarrow> 'a list \<Rightarrow> 'b option" where
  "find_map f [] = None"
| "find_map f (x # xs) = (case f x of Some y \<Rightarrow> Some y | None \<Rightarrow> find_map f xs)"

definition cookie_item :: "string \<Rightarrow> string \<Rightarrow> string option" where
  "cookie_item cookie_name item =
     Option.bind (split_once (CHR ''='') (trim item)) (\<lambda>(name, value).
       if name = cookie_name then Some value else None)"

definition extract_cookie_value :: "http_headers \<Rightarrow> string \<Rightarrow> string option" where
  "extract_cookie_value headers cookie_name =
     Option.bind (hd_cookie headers) (\<lambda>value. Option.bind value (\<lambda>raw.
       find_map (cookie_item cookie_name) (split_on (CHR '';'') raw)))"

definition ADMIN_SESSION_COOKIE :: string where
  "ADMIN_SESSION_COOKIE = ''pingorahub_admin_session''"

definition extract_admin_session_cookie :: "http_headers \<Rightarrow> string api_result" where
  "extract_admin_session_cookie headers =
     ok_or (unauthorized ''missing admin session'') (extract_cookie_value headers ADMIN_SESSION_COOKIE)"

subsection \<open>Authentication\<close>

definition require_admin_session :: "runtime \<Rightarrow> http_headers \<Rightarrow> hub \<Rightarrow> admin_me_response hub_out" where
  "require_admin_session e headers h =
     try_ok (extract_admin_session_cookie headers) h (\<lambda>session_token. current_admin e session_token h)"

text \<open>The opening of every handler a node calls.\<close>

definition require_node :: "runtime \<Rightarrow> http_headers \<Rightarrow> uuid \<Rightarrow> hub \<Rightarrow> unit api_result" where
  "require_node e headers node_id h =
     result_bind (extract_bearer_token headers) (\<lambda>access_token. authorize_node e node_id access_token h)"

subsection \<open>The session cookie\<close>

text \<open>\<open>mk_header\<close> is \<open>HeaderValue::from_str\<close>, which refuses text that is no header value.\<close>

definition build_session_cookie ::
  "(string \<Rightarrow> string + string) \<Rightarrow> string \<Rightarrow> int \<Rightarrow> string api_result" where
  "build_session_cookie mk_header value max_age_seconds =
     (case mk_header (ADMIN_SESSION_COOKIE @ ''='' @ value @ ''; Path=/; HttpOnly; SameSite=Lax; Max-Age='' @
         int_to_string max_age_seconds) of
        Inl error \<Rightarrow> Inl (internal error) | Inr header \<Rightarrow> Inr header)"

definition clear_session_cookie :: "(string \<Rightarrow> string + string) \<Rightarrow> string api_result" where
  "clear_session_cookie mk_header =
     (case mk_header ''pingorahub_admin_session=; Path=/; HttpOnly; SameSite=Lax; Max-Age=0'' of
        Inl error \<Rightarrow> Inl (internal error) | Inr header \<Rightarrow> Inr header)"

text \<open>
  The payload with the \<open>Set-Cookie\<close> header. The clock is read once more, after the four readings of
  the login.
\<close>

definition json_with_session_cookie ::
  "(string \<Rightarrow> string + string) \<Rightarrow> datetime \<Rightarrow> 'a \<Rightarrow> string \<Rightarrow> datetime \<Rightarrow> ('a \<times> string) api_result" where
  "json_with_session_cookie mk_header now payload session_token expires_at =
     (let max_age_seconds = max (num_seconds (expires_at - now)) 0
      in result_bind (build_session_cookie mk_header session_token max_age_seconds)
           (\<lambda>cookie. Inr (payload, cookie)))"

definition json_with_clear_session_cookie ::
  "(string \<Rightarrow> string + string) \<Rightarrow> 'a \<Rightarrow> ('a \<times> string) api_result" where
  "json_with_clear_session_cookie mk_header payload =
     result_bind (clear_session_cookie mk_header) (\<lambda>cookie. Inr (payload, cookie))"

subsection \<open>Handlers\<close>

datatype page = Console_Page | Login_Page | Redirect_To string

text \<open>The two pages that look at the session: the console and the form for logging in.\<close>

definition has_admin_session :: "runtime \<Rightarrow> http_headers \<Rightarrow> hub \<Rightarrow> bool \<times> hub" where
  "has_admin_session e headers h =
     (case extract_cookie_value headers ADMIN_SESSION_COOKIE of
        None \<Rightarrow> (False, h)
      | Some session_token \<Rightarrow>
          (case authorize_admin_session e session_token h of
             (Inl _, h) \<Rightarrow> (False, h) | (Inr _, h) \<Rightarrow> (True, h)))"

definition console_entry :: "runtime \<Rightarrow> http_headers \<Rightarrow> hub \<Rightarrow> page \<times> hub" where
  "console_entry e headers h =
     (case has_admin_session e headers h of (valid, h) \<Rightarrow>
        (if valid then Console_Page else Redirect_To ''/login'', h))"

definition login_page :: "runtime \<Rightarrow> http_headers \<Rightarrow> hub \<Rightarrow> page \<times> hub" where
  "login_page e headers h =
     (case has_admin_session e headers h of (valid, h) \<Rightarrow>
        (if valid then Redirect_To ''/'' else Login_Page, h))"

definition handle_admin_login ::
  "runtime \<Rightarrow> (string \<Rightarrow> string + string) \<Rightarrow> admin_login_request \<Rightarrow> hub \<Rightarrow> (admin_login_response \<times> string) hub_out" where
  "handle_admin_login e mk_header request h =
     and_then (login_admin e request h) (\<lambda>(response, session_token) h.
       (json_with_session_cookie mk_header (env_now e 4) response session_token
          (asi_expires_at (alr_session response)), h))"

definition handle_admin_me :: "runtime \<Rightarrow> http_headers \<Rightarrow> hub \<Rightarrow> admin_me_response hub_out" where
  "handle_admin_me e headers h =
     try_ok (extract_admin_session_cookie headers) h (\<lambda>session_token. current_admin e session_token h)"

definition handle_change_admin_password ::
  "runtime \<Rightarrow> http_headers \<Rightarrow> change_admin_password_request \<Rightarrow> hub \<Rightarrow> change_admin_password_response hub_out" where
  "handle_change_admin_password e headers request h =
     try_ok (extract_admin_session_cookie headers) h (\<lambda>session_token.
       change_admin_password e session_token request h)"

definition handle_admin_logout ::
  "runtime \<Rightarrow> (string \<Rightarrow> string + string) \<Rightarrow> http_headers \<Rightarrow> hub \<Rightarrow> (json \<times> string) hub_out" where
  "handle_admin_logout e mk_header headers h =
     and_then (case extract_cookie_value headers ADMIN_SESSION_COOKIE of
                 None \<Rightarrow> (Inr (), h) | Some session_token \<Rightarrow> logout_admin e session_token h) (\<lambda>_ h.
       (json_with_clear_session_cookie mk_header (jobj [(''logged_out'', JBool True)]), h))"

record admin_meta_payload =
  mp_service :: string
  mp_bind :: string
  mp_etcd_prefix :: string
  mp_components :: "string list"

definition handle_admin_meta ::
  "runtime \<Rightarrow> hub_config \<Rightarrow> http_headers \<Rightarrow> hub \<Rightarrow> admin_meta_payload hub_out" where
  "handle_admin_meta e config headers h =
     and_then (require_admin_session e headers h) (\<lambda>_ h.
       (Inr \<lparr>mp_service = ''hub-api'', mp_bind = hc_bind config, mp_etcd_prefix = ec_prefix (hc_etcd config),
             mp_components = [''node-management'', ''release-management'', ''dns-integration'',
               ''failover-orchestration'']\<rparr>, h))"

record health_payload =
  hp_service :: string
  hp_status :: string

definition healthz :: health_payload where
  "healthz = \<lparr>hp_service = ''hub-api'', hp_status = ''ok''\<rparr>"

definition handle_create_node ::
  "runtime \<Rightarrow> http_headers \<Rightarrow> create_node_request \<Rightarrow> hub \<Rightarrow> create_node_response hub_out" where
  "handle_create_node e headers request h =
     and_then (require_admin_session e headers h) (\<lambda>_ h. create_node (env_after 2 0 e) request h)"

definition handle_list_nodes ::
  "runtime \<Rightarrow> http_headers \<Rightarrow> hub \<Rightarrow> node_overview list hub_out" where
  "handle_list_nodes e headers h =
     and_then (require_admin_session e headers h) (\<lambda>_ h. (list_nodes h, h))"

definition handle_get_node_detail ::
  "runtime \<Rightarrow> http_headers \<Rightarrow> uuid \<Rightarrow> hub \<Rightarrow> node_detail hub_out" where
  "handle_get_node_detail e headers node_id h =
     and_then (require_admin_session e headers h) (\<lambda>_ h. (node_detail node_id h, h))"

definition handle_delete_node ::
  "runtime \<Rightarrow> http_headers \<Rightarrow> uuid \<Rightarrow> hub \<Rightarrow> delete_node_response hub_out" where
  "handle_delete_node e headers node_id h =
     and_then (require_admin_session e headers h) (\<lambda>_ h. delete_node node_id h)"

definition handle_create_node_operation ::
  "runtime \<Rightarrow> http_headers \<Rightarrow> uuid \<Rightarrow> create_node_operation_request \<Rightarrow> hub \<Rightarrow> node_operation_overview hub_out" where
  "handle_create_node_operation e headers node_id request h =
     and_then (require_admin_session e headers h) (\<lambda>admin h.
       create_node_operation (env_after 2 0 e) node_id request
         (''admin:'' @ asi_username (amr_session admin)) h)"

definition handle_list_node_operations ::
  "runtime \<Rightarrow> http_headers \<Rightarrow> uuid \<Rightarrow> hub \<Rightarrow> node_operation_overview list hub_out" where
  "handle_list_node_operations e headers node_id h =
     and_then (require_admin_session e headers h) (\<lambda>_ h. (list_node_operations node_id h, h))"

definition handle_create_operation_template ::
  "runtime \<Rightarrow> http_headers \<Rightarrow> create_operation_template_request \<Rightarrow> hub \<Rightarrow> operation_template_overview hub_out" where
  "handle_create_operation_template e headers request h =
     and_then (require_admin_session e headers h) (\<lambda>_ h. create_operation_template (env_after 2 0 e) request h)"

definition handle_update_operation_template ::
  "runtime \<Rightarrow> http_headers \<Rightarrow> uuid \<Rightarrow> create_operation_template_request \<Rightarrow> hub \<Rightarrow> operation_template_overview hub_out" where
  "handle_update_operation_template e headers template_id request h =
     and_then (require_admin_session e headers h) (\<lambda>_ h. update_operation_template (env_after 2 0 e) template_id request h)"

definition handle_delete_operation_template ::
  "runtime \<Rightarrow> http_headers \<Rightarrow> uuid \<Rightarrow> hub \<Rightarrow> delete_operation_template_response hub_out" where
  "handle_delete_operation_template e headers template_id h =
     and_then (require_admin_session e headers h) (\<lambda>_ h. delete_operation_template template_id h)"

definition handle_list_operation_templates ::
  "runtime \<Rightarrow> http_headers \<Rightarrow> hub \<Rightarrow> operation_template_overview list hub_out" where
  "handle_list_operation_templates e headers h =
     and_then (require_admin_session e headers h) (\<lambda>_ h. (list_operation_templates h, h))"

definition handle_register_node ::
  "runtime \<Rightarrow> node_register_request \<Rightarrow> hub \<Rightarrow> node_register_response hub_out" where
  "handle_register_node e request h = register_node e request h"

definition handle_refresh_node_auth ::
  "runtime \<Rightarrow> node_refresh_request \<Rightarrow> hub \<Rightarrow> node_refresh_response hub_out" where
  "handle_refresh_node_auth e request h = refresh_node_token e request h"

definition handle_node_heartbeat ::
  "runtime \<Rightarrow> http_headers \<Rightarrow> node_heartbeat_request \<Rightarrow> hub \<Rightarrow> node_heartbeat_response hub_out" where
  "handle_node_heartbeat e headers request h =
     try_ok (require_node e headers (nhq_node_id request) h) h (\<lambda>_.
       node_heartbeat (env_after 1 0 e) request h)"

definition handle_create_site ::
  "runtime \<Rightarrow> http_headers \<Rightarrow> create_site_request \<Rightarrow> hub \<Rightarrow> create_site_response hub_out option" where
  "handle_create_site e headers request h =
     (case require_admin_session e headers h of
        (Inl err, h) \<Rightarrow> Some (Inl err, h)
      | (Inr _, h) \<Rightarrow> create_site (env_after 2 0 e) request h)"

definition handle_list_sites ::
  "runtime \<Rightarrow> http_headers \<Rightarrow> hub \<Rightarrow> site_overview list hub_out" where
  "handle_list_sites e headers h =
     and_then (require_admin_session e headers h) (\<lambda>_ h. (list_sites h, h))"

definition handle_get_site ::
  "runtime \<Rightarrow> http_headers \<Rightarrow> uuid \<Rightarrow> hub \<Rightarrow> site_detail hub_out" where
  "handle_get_site e headers site_id h =
     and_then (require_admin_session e headers h) (\<lambda>_ h. (site_detail site_id h, h))"

definition handle_update_site ::
  "runtime \<Rightarrow> http_headers \<Rightarrow> uuid \<Rightarrow> update_site_request \<Rightarrow> hub \<Rightarrow> create_site_response hub_out" where
  "handle_update_site e headers site_id request h =
     and_then (require_admin_session e headers h) (\<lambda>_ h. update_site site_id request h)"

definition handle_delete_site ::
  "runtime \<Rightarrow> http_headers \<Rightarrow> uuid \<Rightarrow> hub \<Rightarrow> delete_site_response hub_out" where
  "handle_delete_site e headers site_id h =
     and_then (require_admin_session e headers h) (\<lambda>_ h. delete_site (env_after 2 0 e) site_id h)"

definition handle_enable_site ::
  "runtime \<Rightarrow> http_headers \<Rightarrow> uuid \<Rightarrow> hub \<Rightarrow> update_site_status_response hub_out" where
  "handle_enable_site e headers site_id h =
     and_then (require_admin_session e headers h) (\<lambda>_ h. update_site_status (env_after 2 0 e) site_id True h)"

definition handle_disable_site ::
  "runtime \<Rightarrow> http_headers \<Rightarrow> uuid \<Rightarrow> hub \<Rightarrow> update_site_status_response hub_out" where
  "handle_disable_site e headers site_id h =
     and_then (require_admin_session e headers h) (\<lambda>_ h. update_site_status (env_after 2 0 e) site_id False h)"

definition handle_bind_site_nodes ::
  "runtime \<Rightarrow> http_headers \<Rightarrow> uuid \<Rightarrow> site_binding_item list \<Rightarrow> hub \<Rightarrow> create_site_bindings_response hub_out" where
  "handle_bind_site_nodes e headers site_id bindings h =
     and_then (require_admin_session e headers h) (\<lambda>_ h. bind_site_nodes (env_after 2 0 e) site_id bindings h)"

definition handle_renew_site_certificate ::
  "runtime \<Rightarrow> http_headers \<Rightarrow> uuid \<Rightarrow> hub \<Rightarrow> renew_site_certificate_response hub_out" where
  "handle_renew_site_certificate e headers site_id h =
     and_then (require_admin_session e headers h) (\<lambda>_ h. renew_site_certificate (env_after 2 0 e) site_id h)"

definition handle_switch_site_primary ::
  "runtime \<Rightarrow> http_headers \<Rightarrow> uuid \<Rightarrow> switch_site_primary_request \<Rightarrow> hub \<Rightarrow> switch_site_primary_response hub_out" where
  "handle_switch_site_primary e headers site_id request h =
     and_then (require_admin_session e headers h) (\<lambda>_ h. switch_site_primary (env_after 2 0 e) site_id request h)"

definition handle_create_release ::
  "runtime \<Rightarrow> http_headers \<Rightarrow> create_release_request \<Rightarrow> hub \<Rightarrow> create_release_response hub_out" where
  "handle_create_release e headers request h =
     and_then (require_admin_session e headers h) (\<lambda>_ h. create_release (env_after 2 0 e) request h)"

definition handle_list_releases ::
  "runtime \<Rightarrow> http_headers \<Rightarrow> hub \<Rightarrow> release_overview list hub_out" where
  "handle_list_releases e headers h =
     and_then (require_admin_session e headers h) (\<lambda>_ h. (list_releases h, h))"

definition handle_create_dns_provider ::
  "runtime \<Rightarrow> http_headers \<Rightarrow> create_dns_provider_request \<Rightarrow> hub \<Rightarrow> create_dns_provider_response hub_out" where
  "handle_create_dns_provider e headers request h =
     and_then (require_admin_session e headers h) (\<lambda>_ h. create_dns_provider (env_after 2 0 e) request h)"

definition handle_update_dns_provider ::
  "runtime \<Rightarrow> http_headers \<Rightarrow> uuid \<Rightarrow> create_dns_provider_request \<Rightarrow> hub \<Rightarrow> create_dns_provider_response hub_out" where
  "handle_update_dns_provider e headers provider_id request h =
     and_then (require_admin_session e headers h) (\<lambda>_ h. update_dns_provider (env_after 2 0 e) provider_id request h)"

definition handle_delete_dns_provider ::
  "runtime \<Rightarrow> http_headers \<Rightarrow> uuid \<Rightarrow> hub \<Rightarrow> delete_dns_provider_response hub_out" where
  "handle_delete_dns_provider e headers provider_id h =
     and_then (require_admin_session e headers h) (\<lambda>_ h. delete_dns_provider provider_id h)"

definition handle_list_dns_providers ::
  "runtime \<Rightarrow> http_headers \<Rightarrow> hub \<Rightarrow> dns_provider_overview list hub_out" where
  "handle_list_dns_providers e headers h =
     and_then (require_admin_session e headers h) (\<lambda>_ h. (list_dns_providers h, h))"

definition handle_sync_dns_zones ::
  "runtime \<Rightarrow> (cloudflare_config \<Rightarrow> string option \<Rightarrow> provider_zone list http_reply) \<Rightarrow>
   http_headers \<Rightarrow> sync_dns_zones_request \<Rightarrow> hub \<Rightarrow> sync_dns_zones_response hub_out" where
  "handle_sync_dns_zones e cloudflare_zones headers request h =
     and_then (require_admin_session e headers h) (\<lambda>_ h. sync_dns_zones (env_after 2 0 e) cloudflare_zones request h)"

definition handle_list_dns_zones ::
  "runtime \<Rightarrow> http_headers \<Rightarrow> hub \<Rightarrow> dns_zone_overview list hub_out" where
  "handle_list_dns_zones e headers h =
     and_then (require_admin_session e headers h) (\<lambda>_ h. (list_dns_zones h, h))"

definition handle_enable_dns_zone ::
  "runtime \<Rightarrow> http_headers \<Rightarrow> uuid \<Rightarrow> hub \<Rightarrow> update_dns_zone_status_response hub_out" where
  "handle_enable_dns_zone e headers zone_id h =
     and_then (require_admin_session e headers h) (\<lambda>_ h. update_dns_zone_status zone_id True h)"

definition handle_disable_dns_zone ::
  "runtime \<Rightarrow> http_headers \<Rightarrow> uuid \<Rightarrow> hub \<Rightarrow> update_dns_zone_status_response hub_out" where
  "handle_disable_dns_zone e headers zone_id h =
     and_then (require_admin_session e headers h) (\<lambda>_ h. update_dns_zone_status zone_id False h)"

definition handle_delete_dns_zone ::
  "runtime \<Rightarrow> http_headers \<Rightarrow> uuid \<Rightarrow> hub \<Rightarrow> delete_dns_zone_response hub_out" where
  "handle_delete_dns_zone e headers zone_id h =
     and_then (require_admin_session e headers h) (\<lambda>_ h. delete_dns_zone zone_id h)"

definition handle_create_certificate_order ::
  "runtime \<Rightarrow> http_headers \<Rightarrow> create_certificate_order_request \<Rightarrow> hub \<Rightarrow> create_certificate_order_response hub_out" where
  "handle_create_certificate_order e headers request h =
     and_then (require_admin_session e headers h) (\<lambda>_ h. create_certificate_order (env_after 2 0 e) request h)"

definition handle_list_certificate_orders ::
  "runtime \<Rightarrow> http_headers \<Rightarrow> hub \<Rightarrow> certificate_order_overview list hub_out" where
  "handle_list_certificate_orders e headers h =
     and_then (require_admin_session e headers h) (\<lambda>_ h. (list_certificate_orders h, h))"

definition handle_retry_certificate_order ::
  "runtime \<Rightarrow> http_headers \<Rightarrow> uuid \<Rightarrow> hub \<Rightarrow> certificate_order_overview hub_out" where
  "handle_retry_certificate_order e headers order_id h =
     and_then (require_admin_session e headers h) (\<lambda>_ h. retry_certificate_order order_id h)"

definition handle_reset_certificate_order ::
  "runtime \<Rightarrow> http_headers \<Rightarrow> uuid \<Rightarrow> hub \<Rightarrow> certificate_order_overview hub_out" where
  "handle_reset_certificate_order e headers order_id h =
     and_then (require_admin_session e headers h) (\<lambda>_ h. reset_certificate_order order_id h)"

definition handle_latest_release ::
  "runtime \<Rightarrow> http_headers \<Rightarrow> uuid \<Rightarrow> hub \<Rightarrow> latest_release_response hub_out" where
  "handle_latest_release e headers node_id h =
     try_ok (require_node e headers node_id h) h (\<lambda>_. (latest_release_for_node e node_id h, h))"

definition handle_config_package ::
  "runtime \<Rightarrow> http_headers \<Rightarrow> string \<Rightarrow> uuid \<Rightarrow> hub \<Rightarrow> config_package_response hub_out" where
  "handle_config_package e headers version node_id h =
     try_ok (require_node e headers node_id h) h (\<lambda>_. (config_package_for_node e node_id version h, h))"

definition handle_ack_release ::
  "runtime \<Rightarrow> http_headers \<Rightarrow> uuid \<Rightarrow> release_ack_request \<Rightarrow> hub \<Rightarrow> release_ack_response hub_out" where
  "handle_ack_release e headers release_id request h =
     try_ok (require_node e headers (raq_node_id request) h) h (\<lambda>_.
       ack_release (env_after 1 0 e) release_id request h)"

definition handle_next_node_operation ::
  "runtime \<Rightarrow> http_headers \<Rightarrow> uuid \<Rightarrow> hub \<Rightarrow> pending_operation_response hub_out" where
  "handle_next_node_operation e headers node_id h =
     try_ok (require_node e headers node_id h) h (\<lambda>_.
       and_then (claim_next_node_operation (env_after 1 0 e) node_id h) (\<lambda>response h.
         (ok_or (not_found ''no pending operations'') response, h)))"

definition handle_report_node_operation_result ::
  "runtime \<Rightarrow> http_headers \<Rightarrow> uuid \<Rightarrow> operation_result_request \<Rightarrow> hub \<Rightarrow> operation_result_response hub_out" where
  "handle_report_node_operation_result e headers operation_id request h =
     try_ok (require_node e headers (orq_node_id request) h) h (\<lambda>_.
       report_node_operation_result (env_after 1 0 e) operation_id request h)"

lemmas handler_definitions [handler_defs] =
  handle_admin_login_def handle_admin_me_def handle_change_admin_password_def
  handle_admin_logout_def handle_admin_meta_def handle_create_node_def handle_list_nodes_def
  handle_get_node_detail_def handle_delete_node_def handle_create_node_operation_def
  handle_list_node_operations_def handle_create_operation_template_def
  handle_update_operation_template_def handle_delete_operation_template_def
  handle_list_operation_templates_def handle_register_node_def handle_refresh_node_auth_def
  handle_node_heartbeat_def handle_create_site_def handle_list_sites_def handle_get_site_def
  handle_update_site_def handle_delete_site_def handle_enable_site_def handle_disable_site_def
  handle_bind_site_nodes_def handle_renew_site_certificate_def handle_switch_site_primary_def
  handle_create_release_def handle_list_releases_def handle_create_dns_provider_def
  handle_update_dns_provider_def handle_delete_dns_provider_def handle_list_dns_providers_def
  handle_sync_dns_zones_def handle_list_dns_zones_def handle_enable_dns_zone_def
  handle_disable_dns_zone_def handle_delete_dns_zone_def handle_create_certificate_order_def
  handle_list_certificate_orders_def handle_retry_certificate_order_def
  handle_reset_certificate_order_def handle_latest_release_def handle_config_package_def
  handle_ack_release_def handle_next_node_operation_def handle_report_node_operation_result_def

subsection \<open>Routes\<close>

datatype http_method = HttpGet | HttpPost | HttpPut | HttpDelete

datatype api_call =
    AdminLogin admin_login_request
  | AdminMe
  | ChangeAdminPassword change_admin_password_request
  | AdminLogout
  | AdminMeta
  | Healthz
  | CreateNode create_node_request
  | ListNodes
  | GetNodeDetail uuid
  | DeleteNode uuid
  | CreateNodeOperation uuid create_node_operation_request
  | ListNodeOperations uuid
  | CreateOperationTemplate create_operation_template_request
  | UpdateOperationTemplate uuid create_operation_template_request
  | DeleteOperationTemplate uuid
  | ListOperationTemplates
  | RegisterNode node_register_request
  | RefreshNodeAuth node_refresh_request
  | NodeHeartbeat node_heartbeat_request
  | CreateSite create_site_request
  | ListSites
  | GetSite uuid
  | UpdateSite uuid update_site_request
  | DeleteSite uuid
  | EnableSite uuid
  | DisableSite uuid
  | BindSiteNodes uuid "site_binding_item list"
  | RenewSiteCertificate uuid
  | SwitchSitePrimary uuid switch_site_primary_request
  | CreateRelease create_release_request
  | ListReleases
  | CreateDnsProvider create_dns_provider_request
  | UpdateDnsProvider uuid create_dns_provider_request
  | DeleteDnsProvider uuid
  | ListDnsProviders
  | SyncDnsZones sync_dns_zones_request
  | ListDnsZones
  | EnableDnsZone uuid
  | DisableDnsZone uuid
  | DeleteDnsZone uuid
  | CreateCertificateOrder create_certificate_order_request
  | ListCertificateOrders
  | RetryCertificateOrder uuid
  | ResetCertificateOrder uuid
  | LatestRelease uuid
  | ConfigPackage string uuid
  | AckRelease uuid release_ack_request
  | NextNodeOperation uuid
  | ReportNodeOperationResult uuid operation_result_request

text \<open>The routes of \<open>build_router\<close> under \<open>/api\<close> and \<open>/healthz\<close>, each with the handler it is given.\<close>

fun api_route :: "api_call \<Rightarrow> http_method \<times> string" where
  "api_route (AdminLogin _) = (HttpPost, ''/api/admin/auth/login'')"
| "api_route AdminMe = (HttpGet, ''/api/admin/auth/me'')"
| "api_route (ChangeAdminPassword _) = (HttpPost, ''/api/admin/auth/change-password'')"
| "api_route AdminLogout = (HttpPost, ''/api/admin/auth/logout'')"
| "api_route AdminMeta = (HttpGet, ''/api/admin/meta'')"
| "api_route Healthz = (HttpGet, ''/healthz'')"
| "api_route (CreateNode _) = (HttpPost, ''/api/admin/nodes'')"
| "api_route ListNodes = (HttpGet, ''/api/admin/nodes'')"
| "api_route (GetNodeDetail _) = (HttpGet, ''/api/admin/nodes/{node_id}'')"
| "api_route (DeleteNode _) = (HttpDelete, ''/api/admin/nodes/{node_id}'')"
| "api_route (CreateNodeOperation _ _) = (HttpPost, ''/api/admin/nodes/{node_id}/operations'')"
| "api_route (ListNodeOperations _) = (HttpGet, ''/api/admin/nodes/{node_id}/operations'')"
| "api_route (CreateOperationTemplate _) = (HttpPost, ''/api/admin/operations/templates'')"
| "api_route (UpdateOperationTemplate _ _) = (HttpPut, ''/api/admin/operations/templates/{template_id}'')"
| "api_route (DeleteOperationTemplate _) = (HttpDelete, ''/api/admin/operations/templates/{template_id}'')"
| "api_route ListOperationTemplates = (HttpGet, ''/api/admin/operations/templates'')"
| "api_route (RegisterNode _) = (HttpPost, ''/api/node/register'')"
| "api_route (RefreshNodeAuth _) = (HttpPost, ''/api/node/auth/refresh'')"
| "api_route (NodeHeartbeat _) = (HttpPost, ''/api/node/heartbeat'')"
| "api_route (CreateSite _) = (HttpPost, ''/api/admin/sites'')"
| "api_route ListSites = (HttpGet, ''/api/admin/sites'')"
| "api_route (GetSite _) = (HttpGet, ''/api/admin/sites/{site_id}'')"
| "api_route (UpdateSite _ _) = (HttpPut, ''/api/admin/sites/{site_id}'')"
| "api_route (DeleteSite _) = (HttpDelete, ''/api/admin/sites/{site_id}'')"
| "api_route (EnableSite _) = (HttpPost, ''/api/admin/sites/{site_id}/enable'')"
| "api_route (DisableSite _) = (HttpPost, ''/api/admin/sites/{site_id}/disable'')"
| "api_route (BindSiteNodes _ _) = (HttpPost, ''/api/admin/sites/{site_id}/bindings'')"
| "api_route (RenewSiteCertificate _) = (HttpPost, ''/api/admin/sites/{site_id}/renew-certificate'')"
| "api_route (SwitchSitePrimary _ _) = (HttpPost, ''/api/admin/sites/{site_id}/switch-primary'')"
| "api_route (CreateRelease _) = (HttpPost, ''/api/admin/releases'')"
| "api_route ListReleases = (HttpGet, ''/api/admin/releases'')"
| "api_route (CreateDnsProvider _) = (HttpPost, ''/api/admin/dns/providers'')"
| "api_route (UpdateDnsProvider _ _) = (HttpPut, ''/api/admin/dns/providers/{provider_id}'')"
| "api_route (DeleteDnsProvider _) = (HttpDelete, ''/api/admin/dns/providers/{provider_id}'')"
| "api_route ListDnsProviders = (HttpGet, ''/api/admin/dns/providers'')"
| "api_route (SyncDnsZones _) = (HttpPost, ''/api/admin/dns/zones/sync'')"
| "api_route ListDnsZones = (HttpGet, ''/api/admin/dns/zones'')"
| "api_route (EnableDnsZone _) = (HttpPost, ''/api/admin/dns/zones/{zone_id}/enable'')"
| "api_route (DisableDnsZone _) = (HttpPost, ''/api/admin/dns/zones/{zone_id}/disable'')"
| "api_route (DeleteDnsZone _) = (HttpDelete, ''/api/admin/dns/zones/{zone_id}'')"
| "api_route (CreateCertificateOrder _) = (HttpPost, ''/api/admin/certificates/orders'')"
| "api_route ListCertificateOrders = (HttpGet, ''/api/admin/certificates/orders'')"
| "api_route (RetryCertificateOrder _) = (HttpPost, ''/api/admin/certificates/orders/{order_id}/retry'')"
| "api_route (ResetCertificateOrder _) = (HttpPost, ''/api/admin/certificates/orders/{order_id}/reset'')"
| "api_route (LatestRelease _) = (HttpGet, ''/api/node/config/releases/latest'')"
| "api_route (ConfigPackage _ _) = (HttpGet, ''/api/node/config/package/{version}'')"
| "api_route (AckRelease _ _) = (HttpPost, ''/api/node/releases/{release_id}/ack'')"
| "api_route (NextNodeOperation _) = (HttpGet, ''/api/node/operations/pending'')"
| "api_route (ReportNodeOperationResult _ _) = (HttpPost, ''/api/node/operations/{operation_id}/result'')"

datatype api_data =
    HealthShown health_payload
  | AdminMetaShown admin_meta_payload
  | AdminLoggedIn admin_login_response string
  | AdminShown admin_me_response
  | PasswordChanged change_admin_password_response
  | AdminLoggedOut json string
  | NodeCreated create_node_response
  | NodesListed "node_overview list"
  | NodeShown node_detail
  | NodeDeleted delete_node_response
  | NodeOperationCreated node_operation_overview
  | NodeOperationsListed "node_operation_overview list"
  | TemplateSaved operation_template_overview
  | TemplateDeleted delete_operation_template_response
  | TemplatesListed "operation_template_overview list"
  | NodeRegistered node_register_response
  | NodeRefreshed node_refresh_response
  | HeartbeatTaken node_heartbeat_response
  | SiteSaved create_site_response
  | SitesListed "site_overview list"
  | SiteShown site_detail
  | SiteDeleted delete_site_response
  | SiteStatusChanged update_site_status_response
  | SiteBound create_site_bindings_response
  | CertificateRenewed renew_site_certificate_response
  | PrimarySwitched switch_site_primary_response
  | ReleaseCreated create_release_response
  | ReleasesListed "release_overview list"
  | ProviderSaved create_dns_provider_response
  | ProviderDeleted delete_dns_provider_response
  | ProvidersListed "dns_provider_overview list"
  | ZonesSynced sync_dns_zones_response
  | ZonesListed "dns_zone_overview list"
  | ZoneStatusChanged update_dns_zone_status_response
  | ZoneDeleted delete_dns_zone_response
  | OrderCreated create_certificate_order_response
  | OrdersListed "certificate_order_overview list"
  | OrderShown certificate_order_overview
  | LatestReleaseShown latest_release_response
  | PackageShown config_package_response
  | ReleaseAcked release_ack_response
  | OperationClaimed pending_operation_response
  | ResultReported operation_result_response

subsection \<open>Responses\<close>

record 'a api_response =
  ar_request_id :: uuid
  ar_data :: 'a
  ar_meta :: json

definition api_response_ok :: "uuid \<Rightarrow> 'a \<Rightarrow> 'a api_response" where
  "api_response_ok request_id data = \<lparr>ar_request_id = request_id, ar_data = data, ar_meta = JObject []\<rparr>"

record api_error_body =
  eb_code :: string
  eb_message :: string
  eb_details :: json

record error_envelope =
  ee_request_id :: uuid
  ee_error :: api_error_body

definition app_error_into_response :: "uuid \<Rightarrow> app_error \<Rightarrow> nat \<times> error_envelope" where
  "app_error_into_response request_id err =
     (err_status err,
      \<lparr>ee_request_id = request_id,
       ee_error = \<lparr>eb_code = err_code err, eb_message = err_message err, eb_details = JObject []\<rparr>\<rparr>)"

datatype http_answer = Success_Answer "api_data api_response" | Error_Answer nat error_envelope

fun answer_status :: "http_answer \<Rightarrow> nat" where
  "answer_status (Success_Answer _) = 200"
| "answer_status (Error_Answer status _) = status"

definition answer :: "uuid \<Rightarrow> ('a \<Rightarrow> api_data) \<Rightarrow> 'a hub_out \<Rightarrow> http_answer \<times> hub" where
  "answer request_id wrap out =
     (case fst out of
        Inl err \<Rightarrow> (case app_error_into_response request_id err of (status, body) \<Rightarrow> Error_Answer status body)
      | Inr x \<Rightarrow> Success_Answer (api_response_ok request_id (wrap x)), snd out)"

text \<open>One request. None: the handler does not return.\<close>

fun serve ::
  "runtime \<Rightarrow> hub_config \<Rightarrow> (cloudflare_config \<Rightarrow> string option \<Rightarrow> provider_zone list http_reply) \<Rightarrow>
   (string \<Rightarrow> string + string) \<Rightarrow> uuid \<Rightarrow> http_headers \<Rightarrow> api_call \<Rightarrow> hub \<Rightarrow> (http_answer \<times> hub) option" where
  "serve e config cloudflare_zones mk_header request_id headers Healthz h =
     Some (answer request_id HealthShown (Inr healthz, h))"
| "serve e config cloudflare_zones mk_header request_id headers (AdminLogin request) h =
     Some (answer request_id (\<lambda>(response, cookie). AdminLoggedIn response cookie) (handle_admin_login e mk_header request h))"
| "serve e config cloudflare_zones mk_header request_id headers AdminMe h =
     Some (answer request_id AdminShown (handle_admin_me e headers h))"
| "serve e config cloudflare_zones mk_header request_id headers (ChangeAdminPassword request) h =
     Some (answer request_id PasswordChanged (handle_change_admin_password e headers request h))"
| "serve e config cloudflare_zones mk_header request_id headers AdminLogout h =
     Some (answer request_id (\<lambda>(payload, cookie). AdminLoggedOut payload cookie) (handle_admin_logout e mk_header headers h))"
| "serve e config cloudflare_zones mk_header request_id headers AdminMeta h =
     Some (answer request_id AdminMetaShown (handle_admin_meta e config headers h))"
| "serve e config cloudflare_zones mk_header request_id headers (CreateNode request) h =
     Some (answer request_id NodeCreated (handle_create_node e headers request h))"
| "serve e config cloudflare_zones mk_header request_id headers ListNodes h =
     Some (answer request_id NodesListed (handle_list_nodes e headers h))"
| "serve e config cloudflare_zones mk_header request_id headers (GetNodeDetail node_id) h =
     Some (answer request_id NodeShown (handle_get_node_detail e headers node_id h))"
| "serve e config cloudflare_zones mk_header request_id headers (DeleteNode node_id) h =
     Some (answer request_id NodeDeleted (handle_delete_node e headers node_id h))"
| "serve e config cloudflare_zones mk_header request_id headers (CreateNodeOperation node_id request) h =
     Some (answer request_id NodeOperationCreated (handle_create_node_operation e headers node_id request h))"
| "serve e config cloudflare_zones mk_header request_id headers (ListNodeOperations node_id) h =
     Some (answer request_id NodeOperationsListed (handle_list_node_operations e headers node_id h))"
| "serve e config cloudflare_zones mk_header request_id headers (CreateOperationTemplate request) h =
     Some (answer request_id TemplateSaved (handle_create_operation_template e headers request h))"
| "serve e config cloudflare_zones mk_header request_id headers (UpdateOperationTemplate template_id request) h =
     Some (answer request_id TemplateSaved (handle_update_operation_template e headers template_id request h))"
| "serve e config cloudflare_zones mk_header request_id headers (DeleteOperationTemplate template_id) h =
     Some (answer request_id TemplateDeleted (handle_delete_operation_template e headers template_id h))"
| "serve e config cloudflare_zones mk_header request_id headers ListOperationTemplates h =
     Some (answer request_id TemplatesListed (handle_list_operation_templates e headers h))"
| "serve e config cloudflare_zones mk_header request_id headers (RegisterNode request) h =
     Some (answer request_id NodeRegistered (handle_register_node e request h))"
| "serve e config cloudflare_zones mk_header request_id headers (RefreshNodeAuth request) h =
     Some (answer request_id NodeRefreshed (handle_refresh_node_auth e request h))"
| "serve e config cloudflare_zones mk_header request_id headers (NodeHeartbeat request) h =
     Some (answer request_id HeartbeatTaken (handle_node_heartbeat e headers request h))"
| "serve e config cloudflare_zones mk_header request_id headers (CreateSite request) h =
     map_option (answer request_id SiteSaved) (handle_create_site e headers request h)"
| "serve e config cloudflare_zones mk_header request_id headers ListSites h =
     Some (answer request_id SitesListed (handle_list_sites e headers h))"
| "serve e config cloudflare_zones mk_header request_id headers (GetSite site_id) h =
     Some (answer request_id SiteShown (handle_get_site e headers site_id h))"
| "serve e config cloudflare_zones mk_header request_id headers (UpdateSite site_id request) h =
     Some (answer request_id SiteSaved (handle_update_site e headers site_id request h))"
| "serve e config cloudflare_zones mk_header request_id headers (DeleteSite site_id) h =
     Some (answer request_id SiteDeleted (handle_delete_site e headers site_id h))"
| "serve e config cloudflare_zones mk_header request_id headers (EnableSite site_id) h =
     Some (answer request_id SiteStatusChanged (handle_enable_site e headers site_id h))"
| "serve e config cloudflare_zones mk_header request_id headers (DisableSite site_id) h =
     Some (answer request_id SiteStatusChanged (handle_disable_site e headers site_id h))"
| "serve e config cloudflare_zones mk_header request_id headers (BindSiteNodes site_id bindings) h =
     Some (answer request_id SiteBound (handle_bind_site_nodes e headers site_id bindings h))"
| "serve e config cloudflare_zones mk_header request_id headers (RenewSiteCertificate site_id) h =
     Some (answer request_id CertificateRenewed (handle_renew_site_certificate e headers site_id h))"
| "serve e config cloudflare_zones mk_header request_id headers (SwitchSitePrimary site_id request) h =
     Some (answer request_id PrimarySwitched (handle_switch_site_primary e headers site_id request h))"
| "serve e config cloudflare_zones mk_header request_id headers (CreateRelease request) h =
     Some (answer request_id ReleaseCreated (handle_create_release e headers request h))"
| "serve e config cloudflare_zones mk_header request_id headers ListReleases h =
     Some (answer request_id ReleasesListed (handle_list_releases e headers h))"
| "serve e config cloudflare_zones mk_header request_id headers (CreateDnsProvider request) h =
     Some (answer request_id ProviderSaved (handle_create_dns_provider e headers request h))"
| "serve e config cloudflare_zones mk_header request_id headers (UpdateDnsProvider provider_id request) h =
     Some (answer request_id ProviderSaved (handle_update_dns_provider e headers provider_id request h))"
| "serve e config cloudflare_zones mk_header request_id headers (DeleteDnsProvider provider_id) h =
     Some (answer request_id ProviderDeleted (handle_delete_dns_provider e headers provider_id h))"
| "serve e config cloudflare_zones mk_header request_id headers ListDnsProviders h =
     Some (answer request_id ProvidersListed (handle_list_dns_providers e headers h))"
| "serve e config cloudflare_zones mk_header request_id headers (SyncDnsZones request) h =
     Some (answer request_id ZonesSynced (handle_sync_dns_zones e cloudflare_zones headers request h))"
| "serve e config cloudflare_zones mk_header request_id headers ListDnsZones h =
     Some (answer request_id ZonesListed (handle_list_dns_zones e headers h))"
| "serve e config cloudflare_zones mk_header request_id headers (EnableDnsZone zone_id) h =
     Some (answer request_id ZoneStatusChanged (handle_enable_dns_zone e headers zone_id h))"
| "serve e config cloudflare_zones mk_header request_id headers (DisableDnsZone zone_id) h =
     Some (answer request_id ZoneStatusChanged (handle_disable_dns_zone e headers zone_id h))"
| "serve e config cloudflare_zones mk_header request_id headers (DeleteDnsZone zone_id) h =
     Some (answer request_id ZoneDeleted (handle_delete_dns_zone e headers zone_id h))"
| "serve e config cloudflare_zones mk_header request_id headers (CreateCertificateOrder request) h =
     Some (answer request_id OrderCreated (handle_create_certificate_order e headers request h))"
| "serve e config cloudflare_zones mk_header request_id headers ListCertificateOrders h =
     Some (answer request_id OrdersListed (handle_list_certificate_orders e headers h))"
| "serve e config cloudflare_zones mk_header request_id headers (RetryCertificateOrder order_id) h =
     Some (answer request_id OrderShown (handle_retry_certificate_order e headers order_id h))"
| "serve e config cloudflare_zones mk_header request_id headers (ResetCertificateOrder order_id) h =
     Some (answer request_id OrderShown (handle_reset_certificate_order e headers order_id h))"
| "serve e config cloudflare_zones mk_header request_id headers (LatestRelease node_id) h =
     Some (answer request_id LatestReleaseShown (handle_latest_release e headers node_id h))"
| "serve e config cloudflare_zones mk_header request_id headers (ConfigPackage version node_id) h =
     Some (answer request_id PackageShown (handle_config_package e headers version node_id h))"
| "serve e config cloudflare_zones mk_header request_id headers (AckRelease release_id request) h =
     Some (answer request_id ReleaseAcked (handle_ack_release e headers release_id request h))"
| "serve e config cloudflare_zones mk_header request_id headers (NextNodeOperation node_id) h =
     Some (answer request_id OperationClaimed (handle_next_node_operation e headers node_id h))"
| "serve e config cloudflare_zones mk_header request_id headers (ReportNodeOperationResult operation_id request) h =
     Some (answer request_id ResultReported (handle_report_node_operation_result e headers operation_id request h))"

subsection \<open>No route without authentication\<close>

text \<open>A session that is refused leaves the hub as it is, and the refusal is a 401.\<close>

lemma authorize_admin_session_Inl:
  "authorize_admin_session e token h = (Inl err, h') \<Longrightarrow> h' = h \<and> err_status err = 401"
  by (auto simp: authorize_admin_session_def validate_admin_session_def outcome_iffs Let_def split: if_splits)

lemma require_admin_session_Inl:
  "require_admin_session e headers h = (Inl err, h') \<Longrightarrow> h' = h \<and> err_status err = 401"
  by (auto simp: require_admin_session_def extract_admin_session_cookie_def current_admin_def outcome_iffs
      dest!: authorize_admin_session_Inl)

lemma change_admin_password_refused:
  "current_admin e token h = (Inl err, h') \<Longrightarrow> change_admin_password e token request h = (Inl err, h')"
  by (auto simp: current_admin_def change_admin_password_def and_then_Inl_iff)

text \<open>
  C10: every route under \<open>/api/admin/\<close> but the two for logging in and out asks for a live session: a
  request without one is answered with 401 and leaves the hub as it is.
\<close>

theorem admin_routes_guarded:
  assumes "starts_with ''/api/admin/'' (snd (api_route call))"
    and "snd (api_route call) \<notin> {''/api/admin/auth/login'', ''/api/admin/auth/logout''}"
    and "fst (require_admin_session e headers h) = Inl err"
  shows "serve e config cloudflare_zones mk_header request_id headers call h =
    Some (Error_Answer 401 (snd (app_error_into_response request_id err)), h)"
proof -
  have req: "require_admin_session e headers h = (Inl err, h)" "err_status err = 401"
    using assms(3) require_admin_session_Inl [of e headers h err "snd (require_admin_session e headers h)"]
    by (metis prod.collapse)+
  have me: "handle_admin_me e headers h = (Inl err, h)"
    using req(1) by (simp add: handle_admin_me_def require_admin_session_def)
  have pw: "handle_change_admin_password e headers request h = (Inl err, h)" for request
    using req(1) change_admin_password_refused
    by (auto simp: handle_change_admin_password_def require_admin_session_def outcome_iffs)
  have ans: "answer request_id wrap (Inl err, h) =
      (Error_Answer 401 (snd (app_error_into_response request_id err)), h)" for wrap :: "'a \<Rightarrow> api_data"
    by (simp add: answer_def app_error_into_response_def req(2))
  show ?thesis
    using assms(1,2)
    by (cases call) (simp_all add: me pw ans handler_definitions(5-) req(1) starts_with_def)
qed

text \<open>The node a request of a node is about.\<close>

fun call_node :: "api_call \<Rightarrow> uuid option" where
  "call_node (NodeHeartbeat request) = Some (nhq_node_id request)"
| "call_node (LatestRelease node_id) = Some node_id"
| "call_node (ConfigPackage version node_id) = Some node_id"
| "call_node (AckRelease release_id request) = Some (raq_node_id request)"
| "call_node (NextNodeOperation node_id) = Some node_id"
| "call_node (ReportNodeOperationResult operation_id request) = Some (orq_node_id request)"
| "call_node _ = None"

lemma strip_prefix_Some: "strip_prefix p s = Some t \<longleftrightarrow> s = p @ t"
  by (auto simp: strip_prefix_def prefix_def)

lemma extract_bearer_token_Inr:
  "extract_bearer_token headers = Inr token \<longleftrightarrow>
     hd_authorization headers = Some (Some (''Bearer '' @ token)) \<and> trim token \<noteq> []"
proof (cases "hd_authorization headers")
  case auth: (Some raw)
  then show ?thesis
  proof (cases raw)
    case v: (Some v)
    then show ?thesis
      using auth strip_prefix_Some [of "''Bearer ''" v token]
      by (cases "strip_prefix ''Bearer '' v") (auto simp: extract_bearer_token_def simp del: append_Cons)
  qed (simp add: extract_bearer_token_def)
qed (simp add: extract_bearer_token_def)

lemma authorize_node_Inr:
  "authorize_node e node_id token h = Inr () \<longleftrightarrow>
     (\<exists>lease. access_lease (hub_tokens h) token = Some lease \<and> tl_node_id lease = node_id \<and>
        env_now e 0 \<le> tl_expires_at lease \<and> repo_node (hub_repo h) node_id \<noteq> None)"
  by (cases "access_lease (hub_tokens h) token") (auto simp: authorize_node_def not_less)

lemma require_node_Inr:
  "require_node e headers node_id h = Inr () \<longleftrightarrow>
     (\<exists>token lease. hd_authorization headers = Some (Some (''Bearer '' @ token)) \<and> trim token \<noteq> [] \<and>
        access_lease (hub_tokens h) token = Some lease \<and> tl_node_id lease = node_id \<and>
        env_now e 0 \<le> tl_expires_at lease \<and> repo_node (hub_repo h) node_id \<noteq> None)"
  by (auto simp: require_node_def result_bind_eq_Inr extract_bearer_token_Inr authorize_node_Inr simp del: append_Cons)

lemma require_node_Inl: "require_node e headers node_id h = Inl err \<Longrightarrow> err_status err \<in> {401, 404}"
  by (auto simp: require_node_def extract_bearer_token_def authorize_node_def ok_or_def result_bind_def
      split: if_splits option.splits sum.splits)

text \<open>
  C11: every route under \<open>/api/node/\<close> but the two that hand out tokens is about one node, and asks for
  the unexpired access token of that very node: any other request is answered with 401, or 404 when
  the node is gone, and leaves the hub as it is.
\<close>

theorem node_routes_guarded:
  assumes "starts_with ''/api/node/'' (snd (api_route call))"
    and "snd (api_route call) \<notin> {''/api/node/register'', ''/api/node/auth/refresh''}"
    and "\<nexists>token lease. hd_authorization headers = Some (Some (''Bearer '' @ token)) \<and> trim token \<noteq> [] \<and>
        access_lease (hub_tokens h) token = Some lease \<and> Some (tl_node_id lease) = call_node call \<and>
        env_now e 0 \<le> tl_expires_at lease \<and> repo_node (hub_repo h) (tl_node_id lease) \<noteq> None"
  shows "call_node call \<noteq> None \<and> (\<exists>status body. status \<in> {401, 404} \<and>
    serve e config cloudflare_zones mk_header request_id headers call h = Some (Error_Answer status body, h))"
proof -
  obtain n where n: "call_node call = Some n"
    using assms(1,2) by (cases call) (simp_all add: starts_with_def)
  with assms(3) have "require_node e headers n h \<noteq> Inr ()" by (auto simp: require_node_Inr)
  then obtain err where err: "require_node e headers n h = Inl err" by (cases "require_node e headers n h") auto
  have ans: "answer request_id wrap (Inl err, h) =
      (Error_Answer (err_status err) (snd (app_error_into_response request_id err)), h)" for wrap :: "'a \<Rightarrow> api_data"
    by (simp add: answer_def app_error_into_response_def)
  show ?thesis
    using n require_node_Inl [OF err]
    by (cases call) (auto simp: handler_definitions err ans)
qed

subsection \<open>The handlers stay within the reachable hubs\<close>

lemma fresh_call_touched:
  assumes "fresh_call e h"
  shows "fresh_call (env_after 2 0 e) (with_repo (repo_touch_admin_session hash now) h)"
proof -
  have "inj_on (\<lambda>i. env_uuid e (0 + i)) A \<longleftrightarrow> inj_on (env_uuid e) A" for A by simp
  then show ?thesis
    using assms
    by (simp add: fresh_call_def env_after_def tokens_fresh_def repo_touch_admin_session_def repo_node_def
        repo_site_def repo_release_def)
qed

lemma require_admin_session_Inr:
  assumes "require_admin_session e headers h = (Inr admin, h')"
  obtains token where "extract_cookie_value headers ADMIN_SESSION_COOKIE = Some token"
    "h' = with_repo (repo_touch_admin_session (hash_session_token e token) (env_now e 1)) h"
    "snd (current_admin e token h) = h'"
proof -
  from assms obtain token where t: "extract_cookie_value headers ADMIN_SESSION_COOKIE = Some token"
    "current_admin e token h = (Inr admin, h')"
    by (auto simp: require_admin_session_def extract_admin_session_cookie_def outcome_iffs)
  from t(2) have "h' = with_repo (repo_touch_admin_session (hash_session_token e token) (env_now e 1)) h"
    by (auto simp: current_admin_def and_then_Inr_iff elim!: authorize_admin_session_Inr)
  moreover have "snd (current_admin e token h) = h'" by (simp only: t(2) snd_conv)
  ultimately show thesis by (rule that [OF t(1)])
qed

text \<open>What follows a check of the session starts in a reachable hub, with identifiers that are still new.\<close>

lemma after_admin_session:
  assumes "hub_reachable h" "fresh_call e h"
    and "\<And>admin h'. hub_reachable h' \<Longrightarrow> fresh_call (env_after 2 0 e) h' \<Longrightarrow>
      require_admin_session e headers h = (Inr admin, h') \<Longrightarrow> hub_reachable (snd (k admin h'))"
  shows "hub_reachable (snd (and_then (require_admin_session e headers h) k))"
proof (cases "require_admin_session e headers h")
  case (Pair r h')
  show ?thesis
  proof (cases r)
    case (Inl err)
    with Pair assms(1) show ?thesis by (auto dest: require_admin_session_Inl)
  next
    case (Inr admin)
    with Pair have req: "require_admin_session e headers h = (Inr admin, h')" by simp
    then obtain token where t: "h' = with_repo (repo_touch_admin_session (hash_session_token e token) (env_now e 1)) h"
      "snd (current_admin e token h) = h'"
      by (rule require_admin_session_Inr)
    have "hub_reachable h'"
      using reachable_step [OF assms(1) step_current_admin [of h e token]] by (simp only: t(2))
    moreover have "fresh_call (env_after 2 0 e) h'"
      unfolding t(1) by (rule fresh_call_touched [OF assms(2)])
    ultimately have "hub_reachable h'" "fresh_call (env_after 2 0 e) h'" by simp_all
    with assms(3) req show ?thesis by simp
  qed
qed

lemma after_node_check:
  assumes "hub_reachable h" "\<And>x. r = Inr x \<Longrightarrow> hub_reachable (snd (k x))"
  shows "hub_reachable (snd (try_ok r h k))"
  using assms by (cases r) simp_all

lemma answer_state: "answer request_id wrap out = (ans, h') \<Longrightarrow> h' = snd out"
  by (simp add: answer_def)

lemma and_then_pure: "snd (and_then out (\<lambda>x h. (f x h, h))) = snd out"
  by (cases out; cases "fst out") auto

text \<open>
  The identifiers drawn by a request are new: those of the service call, and for a synchronisation as
  many as there are zones.
\<close>

definition fresh_request ::
  "runtime \<Rightarrow> (cloudflare_config \<Rightarrow> string option \<Rightarrow> provider_zone list http_reply) \<Rightarrow> http_headers \<Rightarrow> api_call \<Rightarrow>
   hub \<Rightarrow> bool" where
  "fresh_request e cloudflare_zones headers call h \<longleftrightarrow> fresh_call e h \<and>
     (case call of
        SyncDnsZones request \<Rightarrow>
          (case require_admin_session e headers h of (admin, h') \<Rightarrow>
             (case fst (sync_dns_zones (env_after 2 0 e) cloudflare_zones request h') of
                Inl _ \<Rightarrow> True
              | Inr resp \<Rightarrow> fresh_ids (env_after 2 0 e) 0 (length (szr_zone_ids resp)) (dns_zones (hub_repo h'))))
      | _ \<Rightarrow> True)"

lemmas reachable_intros = hub_step.intros(1-5,7-) [THEN [2] reachable_step]

lemma handle_create_site_reachable:
  assumes "hub_reachable h" "fresh_call e h" "handle_create_site e headers request h = Some (r, h')"
  shows "hub_reachable h'"
proof -
  have "hub_reachable (snd (and_then (require_admin_session e headers h) (\<lambda>_ h'.
      case create_site (env_after 2 0 e) request h' of Some out \<Rightarrow> out | None \<Rightarrow> (Inl undefined, h'))))"
    by (rule after_admin_session [OF assms(1,2)])
      (auto split: option.split intro: step_create_site [THEN [2] reachable_step])
  with assms(3) show ?thesis
    by (auto simp: handle_create_site_def and_then_def split: prod.splits sum.splits)
qed

text \<open>
  A request, whatever its route and headers, leads from a reachable hub to a reachable hub, so that
  everything shown of reachable hubs holds between any two requests.
\<close>

theorem serve_reachable:
  assumes "hub_reachable h" "fresh_request e cloudflare_zones headers call h"
    and "serve e config cloudflare_zones mk_header request_id headers call h = Some (ans, h')"
  shows "hub_reachable h'"
proof -
  note fresh = assms(2) [unfolded fresh_request_def, THEN conjunct1]
  note admin = after_admin_session [OF assms(1) fresh]
  have me: "hub_reachable (snd (try_ok r h (\<lambda>token. current_admin e token h)))" for r
    using assms(1) by (intro after_node_check reachable_intros)
  show ?thesis
  proof (cases call)
    case (CreateSite request)
    with assms(3) obtain r where "handle_create_site e headers request h = Some (r, h')"
      by (auto dest: answer_state)
    then show ?thesis by (rule handle_create_site_reachable [OF assms(1) fresh])
  next
    case (SyncDnsZones request)
    have "hub_reachable (snd (sync_dns_zones (env_after 2 0 e) cloudflare_zones request h1))"
      if "hub_reachable h1" "require_admin_session e headers h = (Inr admin, h1)" for admin h1
      using assms(2) SyncDnsZones that
      by (intro step_sync_dns_zones [THEN [2] reachable_step]) (auto simp: fresh_request_def)
    then show ?thesis
      using assms(3) SyncDnsZones by (auto dest!: answer_state simp: handle_sync_dns_zones_def intro!: admin)
  next
    case (AdminLogin request)
    then show ?thesis
      using assms(1,3) by (auto dest!: answer_state simp: handle_admin_login_def and_then_pure case_prod_beta'
          intro!: reachable_intros)
  next
    case AdminLogout
    then show ?thesis
      using assms(1,3) by (auto dest!: answer_state simp: handle_admin_logout_def and_then_pure
          intro!: reachable_intros split: option.splits)
  next
    case (NextNodeOperation node_id)
    then show ?thesis
      using assms(1,3) by (auto dest!: answer_state simp: handle_next_node_operation_def and_then_pure
          intro!: after_node_check reachable_intros)
  qed (use assms(1,3) fresh in \<open>auto dest!: answer_state simp: handler_definitions
      intro!: admin after_node_check reachable_intros\<close>)
qed

subsection \<open>The session cookie, set and read back\<close>

text \<open>A cookie a browser sends: printing characters, no semicolon, no equals sign in the name.\<close>

definition cookie_pair :: "string \<times> string \<Rightarrow> bool" where
  "cookie_pair = (\<lambda>(name, value). list_all graphic_ascii (name @ value) \<and>
     CHR '';'' \<notin> set (name @ value) \<and> CHR ''='' \<notin> set name)"

definition cookie_text :: "string \<times> string \<Rightarrow> string" where
  "cookie_text = (\<lambda>(name, value). name @ ''='' @ value)"

lemma split_on_no_sep: "d \<notin> set w \<Longrightarrow> split_on d w = [w]"
  by (induction w) auto

lemma split_on_append: "d \<notin> set w \<Longrightarrow> split_on d (w @ d # s) = w # split_on d s"
  by (induction w) auto

lemma split_on_join:
  assumes "\<forall>w \<in> set (w # ws). CHR '';'' \<notin> set w"
  shows "split_on (CHR '';'') (join ''; '' (w # ws)) = w # map ((#) (CHR '' '')) ws"
proof -
  have "split_on (CHR '';'') (v @ concat (map ((@) ''; '') ws)) = v # map ((#) (CHR '' '')) ws"
    if "CHR '';'' \<notin> set v" for v
    using that assms by (induction ws arbitrary: v) (simp_all add: split_on_no_sep split_on_append)
  then show ?thesis using assms by (simp add: join_def)
qed

lemma trim_space_graphic:
  assumes "list_all graphic_ascii s"
  shows "trim (CHR '' '' # s) = s"
proof -
  have "leading_whitespace (CHR '' '' # s) = Some [CHR 0x20]"
    by (simp add: leading_whitespace_def whitespace_encodings_code)
  then have "trim_start (CHR '' '' # s) = trim_start s" by (simp add: trim_start.simps [of "CHR '' '' # s"])
  then show ?thesis using trim_graphic [OF assms] by (simp add: trim_def)
qed

lemma split_once_append: "d \<notin> set a \<Longrightarrow> split_once d (a @ d # b) = Some (a, b)"
  by (induction a) (auto simp: split_once_def split: list.splits)

lemma cookie_item_text:
  assumes "cookie_pair (name, v)"
  shows "cookie_item cookie_name (cookie_text (name, v)) = (if name = cookie_name then Some v else None)"
    and "cookie_item cookie_name (CHR '' '' # cookie_text (name, v)) = (if name = cookie_name then Some v else None)"
proof -
  have "list_all graphic_ascii (cookie_text (name, v))" "CHR ''='' \<notin> set name"
    using assms by (simp_all add: cookie_pair_def cookie_text_def)
  then show "cookie_item cookie_name (cookie_text (name, v)) = (if name = cookie_name then Some v else None)"
    and "cookie_item cookie_name (CHR '' '' # cookie_text (name, v)) = (if name = cookie_name then Some v else None)"
    using split_once_append [of "CHR ''=''" name v]
    by (simp_all add: cookie_item_def trim_space_graphic trim_graphic) (auto simp: cookie_text_def)
qed

text \<open>The cookies of a header are read back: the first one with the name counts.\<close>

lemma extract_cookie_value_sent:
  assumes "\<forall>p \<in> set pairs. cookie_pair p"
    and "hd_cookie headers = Some (Some (join ''; '' (map cookie_text pairs)))"
  shows "extract_cookie_value headers name = map_of pairs name"
proof (cases pairs)
  case Nil
  then show ?thesis
    using assms(2)
    by (simp add: extract_cookie_value_def join_def cookie_item_def split_once_def trim_fixed [of "[]"] trim_graphic)
next
  case (Cons p ps)
  have items: "find_map (cookie_item name) (map ((#) (CHR '' '')) (map cookie_text ps)) = map_of ps name"
    using assms(1) unfolding Cons
    by (induction ps) (auto simp: cookie_item_text(2))
  have "CHR '';'' \<notin> set (cookie_text p)" if "p \<in> set pairs" for p
    using that assms(1) by (auto simp: cookie_pair_def cookie_text_def split: prod.splits)
  then have "split_on (CHR '';'') (join ''; '' (map cookie_text pairs)) =
      cookie_text p # map ((#) (CHR '' '')) (map cookie_text ps)"
    unfolding Cons list.map(2) by (intro split_on_join) (auto simp: Cons)
  then show ?thesis
    using assms items by (cases p) (auto simp: extract_cookie_value_def Cons cookie_item_text(1))
qed

lemma login_session_stored:
  assumes "admin_inv (hub_repo h)" "login_admin e request h = (Inr (resp, token), h')"
  shows "token = generate_admin_session_token e" "asi_expires_at (alr_session resp) = env_now e 0 + hours 8"
    and "env_sha256_hex e' = env_sha256_hex e \<Longrightarrow> env_now e' 0 \<le> env_now e 0 + hours 8 \<Longrightarrow>
      fst (authorize_admin_session e' token h') = Inr (alr_session resp)"
proof -
  from assms(2) obtain username user session where l:
    "repo_admin_user_by_username (hub_repo h) username = Some user" "au_status user = ''active''"
    "token = generate_admin_session_token e"
    "session = \<lparr>as_session_id = env_uuid e 2, as_user_id = au_user_id user,
       as_session_token_hash = hash_session_token e token, as_expires_at = env_now e 0 + hours 8,
       as_created_at = env_now e 1, as_last_seen_at = env_now e 2\<rparr>"
    "h' = with_repo (repo_touch_admin_user_login (au_user_id user) (env_now e 3))
            (with_repo (repo_save_admin_session session) h)"
    "alr_session resp = \<lparr>asi_user_id = au_user_id user, asi_username = au_username user,
       asi_display_name = au_display_name user, asi_expires_at = env_now e 0 + hours 8\<rparr>"
    by (rule login_admin_Inr)
  show "token = generate_admin_session_token e" "asi_expires_at (alr_session resp) = env_now e 0 + hours 8"
    using l by simp_all
  let ?user = "user\<lparr>au_last_login_at := Some (env_now e 3)\<rparr>"
  assume e': "env_sha256_hex e' = env_sha256_hex e" "env_now e' 0 \<le> env_now e 0 + hours 8"
  have "hm_get (admin_users (hub_repo h)) (au_user_id user) = Some user"
    using user_by_username_Some(1) [OF assms(1) l(1)] .
  then have "hm_get (admin_users (hub_repo h')) (as_user_id session) = Some ?user"
    by (simp add: l(4,5) repo_touch_admin_user_login_def repo_save_admin_session_def)
  moreover have "hm_get (admin_sessions (hub_repo h')) (hash_session_token e' token) = Some session"
    using e'(1) by (simp add: l(4,5) repo_touch_admin_user_login_def repo_save_admin_session_def hash_session_token_def)
  moreover have "trim token \<noteq> []" by (simp add: l(3) admin_token_not_blank)
  ultimately show "fst (authorize_admin_session e' token h') = Inr (alr_session resp)"
    using authorize_admin_session_ok [of token h' e' session ?user] e'(2) l(2,4,6) by simp
qed

text \<open>
  C33: the cookie set by a login opens the administration. When a browser sends its value back, after
  any other cookies, the hub reads the token from the header and finds the session for eight hours;
  the age given to the browser ends no later than the session. The hypotheses on what the packages do:
  a formatted UUID consists of printing characters other than semicolons, and
  \<open>HeaderValue::from_str\<close> keeps the text; the login takes less than eight hours.
\<close>

theorem login_cookie_opens_session:
  fixes e e' :: runtime
  assumes "admin_inv (hub_repo h)" "handle_admin_login e mk_header request h = (Inr (resp, cookie), h')"
    and "\<And>u. list_all (\<lambda>c. graphic_ascii c \<and> c \<noteq> CHR '';'') (env_simple_uuid e u)"
    and "\<And>s t. mk_header s = Inr t \<Longrightarrow> t = s"
    and "env_now e 4 \<le> env_now e 0 + hours 8"
  shows "\<exists>age. cookie = ''pingorahub_admin_session='' @ generate_admin_session_token e @
      ''; Path=/; HttpOnly; SameSite=Lax; Max-Age='' @ int_to_string age \<and>
    env_now e 4 + seconds age \<le> env_now e 0 + hours 8 \<and>
    (env_sha256_hex e' = env_sha256_hex e \<and> env_now e' 0 \<le> env_now e 0 + hours 8 \<and>
     list_all cookie_pair others \<and> ''pingorahub_admin_session'' \<notin> fst ` set others \<and>
     hd_cookie headers = Some (Some (join ''; '' (map cookie_text
       (others @ [(''pingorahub_admin_session'', generate_admin_session_token e)])))) \<longrightarrow>
     fst (require_admin_session e' headers h') = Inr \<lparr>amr_session = alr_session resp\<rparr>)"
proof -
  from assms(2) obtain token where login: "login_admin e request h = (Inr (resp, token), h')"
    and cookie: "json_with_session_cookie mk_header (env_now e 4) resp token (asi_expires_at (alr_session resp)) = Inr (resp, cookie)"
    by (auto simp: handle_admin_login_def and_then_Inr_iff json_with_session_cookie_def result_bind_eq_Inr)
  note stored = login_session_stored [OF assms(1) login]
  let ?age = "max (num_seconds (env_now e 0 + hours 8 - env_now e 4)) 0"
  have written: "cookie = ''pingorahub_admin_session='' @ token @
      ''; Path=/; HttpOnly; SameSite=Lax; Max-Age='' @ int_to_string ?age"
    using cookie assms(4) stored(2)
    by (fastforce simp: json_with_session_cookie_def build_session_cookie_def result_bind_eq_Inr Let_def
        ADMIN_SESSION_COOKIE_def split: sum.splits)
  have pair: "cookie_pair (''pingorahub_admin_session'', token)"
    using assms(3) [of "env_uuid e 0"] assms(3) [of "env_uuid e 1"]
    by (auto simp: stored(1) cookie_pair_def generate_admin_session_token_def list_all_iff)
  have "fst (require_admin_session e' headers h') = Inr \<lparr>amr_session = alr_session resp\<rparr>"
    if e': "env_sha256_hex e' = env_sha256_hex e" "env_now e' 0 \<le> env_now e 0 + hours 8"
      and others: "list_all cookie_pair others" "''pingorahub_admin_session'' \<notin> fst ` set others"
      and hd: "hd_cookie headers = Some (Some (join ''; '' (map cookie_text (others @ [(''pingorahub_admin_session'', token)]))))"
  proof -
    have "extract_cookie_value headers ADMIN_SESSION_COOKIE =
        map_of (others @ [(''pingorahub_admin_session'', token)]) ''pingorahub_admin_session''"
      unfolding ADMIN_SESSION_COOKIE_def
      using others(1) pair hd by (intro extract_cookie_value_sent) (auto simp: list_all_iff)
    also have "\<dots> = Some token" using others(2) by (simp add: map_add_def map_of_eq_None_iff [THEN iffD2])
    finally have "require_admin_session e' headers h' = current_admin e' token h'"
      by (simp add: require_admin_session_def extract_admin_session_cookie_def)
    moreover obtain h2 where "authorize_admin_session e' token h' = (Inr (alr_session resp), h2)"
      using stored(3) [OF e'] by (metis prod.collapse)
    ultimately show ?thesis by (simp add: current_admin_def)
  qed
  moreover have "env_now e 4 + seconds ?age \<le> env_now e 0 + hours 8"
    using assms(5) by (auto simp: num_seconds_nonneg seconds_def max_def pos_imp_zdiv_nonneg_iff)
  ultimately show ?thesis using written unfolding stored(1) by blast
qed

subsection \<open>Examples\<close>

definition no_headers :: http_headers where
  "no_headers = \<lparr>hd_authorization = None, hd_cookie = None\<rparr>"

theorem admin_routes_guarded_witness:
  "serve (sample_env 20 0) default_hub_config (\<lambda>_ _. Reply 200 ''200 OK'' (Some [])) Inr 7 no_headers (DeleteNode 1)
     (snd sample_created) =
   Some (Error_Answer 401 \<lparr>ee_request_id = 7, ee_error = \<lparr>eb_code = ''unauthorized'',
     eb_message = ''missing admin session'', eb_details = JObject []\<rparr>\<rparr>, snd sample_created)"
  by (subst admin_routes_guarded [where err = "unauthorized ''missing admin session''"])
    (simp_all add: starts_with_def require_admin_session_def extract_admin_session_cookie_def extract_cookie_value_def
      no_headers_def app_error_into_response_def unauthorized_def)

text \<open>The token of one node does not open the routes of another.\<close>

theorem node_routes_guarded_witness:
  "access_lease (hub_tokens (snd sample_registered)) ''node-at-10'' \<noteq> None \<and>
   (\<exists>status body. serve (sample_env 20 0) default_hub_config (\<lambda>_ _. Reply 200 ''200 OK'' (Some [])) Inr 7
      (no_headers\<lparr>hd_authorization := Some (Some ''Bearer node-at-10'')\<rparr>) (LatestRelease 2) (snd sample_registered) =
      Some (Error_Answer status body, snd sample_registered))"
proof -
  have lease: "map_option tl_node_id (access_lease (hub_tokens (snd sample_registered)) ''node-at-10'') = Some 1"
    by code_simp
  have "\<nexists>token lease. hd_authorization (no_headers\<lparr>hd_authorization := Some (Some ''Bearer node-at-10'')\<rparr>) =
        Some (Some (''Bearer '' @ token)) \<and> trim token \<noteq> [] \<and>
      access_lease (hub_tokens (snd sample_registered)) token = Some lease \<and>
      Some (tl_node_id lease) = call_node (LatestRelease 2) \<and>
      env_now (sample_env 20 0) 0 \<le> tl_expires_at lease \<and>
      repo_node (hub_repo (snd sample_registered)) (tl_node_id lease) \<noteq> None"
    using lease by auto
  from node_routes_guarded [OF _ _ this, of default_hub_config "\<lambda>_ _. Reply 200 ''200 OK'' (Some [])" Inr 7] lease
  show ?thesis by (auto simp: starts_with_def)
qed

theorem serve_reachable_witness:
  "\<exists>ans h'. serve (sample_env 10 0) default_hub_config (\<lambda>_ _. Reply 200 ''200 OK'' (Some [])) Inr 7 no_headers
      (RegisterNode sample_register_request) (snd sample_created) = Some (ans, h') \<and> answer_status ans = 200 \<and>
      hub_reachable h'"
proof -
  have r: "hub_reachable (snd sample_created)"
    unfolding sample_created_def new_memory_def
    by (rule reachable_step [OF reachable_new step_create_node]) code_simp
  have "fresh_call (sample_env 10 0) (snd sample_created)" by code_simp
  then have f: "fresh_request (sample_env 10 0) (\<lambda>_ _. Reply 200 ''200 OK'' (Some [])) no_headers
      (RegisterNode sample_register_request) (snd sample_created)"
    by (simp add: fresh_request_def)
  let ?out = "answer 7 NodeRegistered (handle_register_node (sample_env 10 0) sample_register_request (snd sample_created))"
  have "serve (sample_env 10 0) default_hub_config (\<lambda>_ _. Reply 200 ''200 OK'' (Some [])) Inr 7 no_headers
      (RegisterNode sample_register_request) (snd sample_created) = Some (fst ?out, snd ?out)"
    by simp
  moreover have "answer_status (fst ?out) = 200" by code_simp
  ultimately show ?thesis using serve_reachable [OF r f] by blast
qed

lemma sample_disp_cookie: "list_all (\<lambda>c. graphic_ascii c \<and> c \<noteq> CHR '';'') (env_simple_uuid (sample_env base start) u)"
proof -
  have "graphic_ascii c \<and> c \<noteq> CHR '';''" if "ascii_digit c" for c
    using that label_char_graphic [of c] by (auto simp: ascii_digit_def ascii_alphanumeric_def byte_def)
  then show ?thesis
    using nat_to_string_digits [of "unat u"] by (auto simp: sample_env_def sample_disp_def list_all_iff)
qed

theorem login_cookie_opens_session_witness:
  "fst (require_admin_session (sample_env 20 (hours 1))
      (no_headers\<lparr>hd_cookie := Some (Some ''theme=dark; pingorahub_admin_session=adm_1011'')\<rparr>)
      (snd (handle_admin_login (sample_env 10 0) Inr \<lparr>alq_username = ''admin'', alq_password = ''secret1''\<rparr> sample_admin_hub))) =
   Inr \<lparr>amr_session = \<lparr>asi_user_id = 1, asi_username = ''admin'', asi_display_name = ''Administrator'',
     asi_expires_at = hours 8\<rparr>\<rparr>"
proof -
  let ?resp = "\<lparr>alr_session = \<lparr>asi_user_id = 1, asi_username = ''admin'', asi_display_name = ''Administrator'',
     asi_expires_at = hours 8\<rparr>\<rparr>"
  let ?out = "handle_admin_login (sample_env 10 0) Inr \<lparr>alq_username = ''admin'', alq_password = ''secret1''\<rparr> sample_admin_hub"
  have "login_admin (sample_env 10 0) \<lparr>alq_username = ''admin'', alq_password = ''secret1''\<rparr> sample_admin_hub =
      (Inr (?resp, ''adm_1011''), snd sample_login)"
    using fst_eq_pair [OF sample_login_eval] by (simp only: sample_login_def)
  then obtain cookie where out: "?out = (Inr (?resp, cookie), snd sample_login)"
    by (simp add: handle_admin_login_def json_with_session_cookie_def build_session_cookie_def Let_def)
  let ?hd = "no_headers\<lparr>hd_cookie := Some (Some ''theme=dark; pingorahub_admin_session=adm_1011'')\<rparr>"
  have token: "generate_admin_session_token (sample_env 10 0) = ''adm_1011''" by code_simp
  have "hd_cookie ?hd = Some (Some (join ''; '' (map cookie_text ([(''theme'', ''dark'')] @
      [(''pingorahub_admin_session'', generate_admin_session_token (sample_env 10 0))]))))"
    unfolding token by (simp add: join_def cookie_text_def)
  moreover have t: "env_now (sample_env 10 0) 4 \<le> env_now (sample_env 10 0) 0 + hours 8"
    "env_now (sample_env 20 (hours 1)) 0 \<le> env_now (sample_env 10 0) 0 + hours 8"
    "env_sha256_hex (sample_env 20 (hours 1)) = env_sha256_hex (sample_env 10 0)"
    by (simp_all add: sample_env_def hours_def seconds_def)
  moreover have "list_all cookie_pair [(''theme'', ''dark'')]" "''pingorahub_admin_session'' \<notin> fst ` set [(''theme'', ''dark'')]"
    by (simp_all add: cookie_pair_def)
  moreover have "t = s" if "Inr s = (Inr t :: string + string)" for s t using that by simp
  ultimately have "fst (require_admin_session (sample_env 20 (hours 1)) ?hd (snd ?out)) = Inr \<lparr>amr_session = alr_session ?resp\<rparr>"
    using login_cookie_opens_session [OF sample_admin_inv out sample_disp_cookie _ t(1), of "sample_env 20 (hours 1)"
        "[(''theme'', ''dark'')]" ?hd]
    unfolding out snd_conv by blast
  then show ?thesis by (simp only: admin_login_response.simps)
qed

end
