(* ===== verification/Agent_Base.thy ===== *)
theory Agent_Base
  imports Protocol Worker_Common
begin

text \<open>
  The node agent (\<open>apps/node-agent/src/main.rs\<close>), first part: its settings, its data, what it takes
  from its surroundings, and the actions the rest is composed of.

  An action changes the agent and returns a value or an error. The agent is what the program
  keeps in memory (the registration, the local state, the session), its files, and everything
  outside: the hub, the processes it starts, the clock. Errors are those of anyhow: the list of the
  messages, the outermost context first.
\<close>

subsection \<open>Settings\<close>

text \<open>\<open>PathBuf::join\<close> on Unix.\<close>

definition path_join :: "string \<Rightarrow> string \<Rightarrow> string" where
  "path_join base name =
     (if starts_with ''/'' name then name
      else if base = [] \<or> last base = CHR ''/'' then base @ name
      else base @ ''/'' @ name)"

text \<open>
  \<open>Path::parent\<close>, on the reversed path: separators and current-directory components at the end are
  skipped before and after the last component is taken off.
\<close>

fun drop_separators :: "string \<Rightarrow> string" where
  "drop_separators (c # s) =
     (if c = CHR ''/'' then drop_separators s
      else if c = CHR ''.'' \<and> take 1 s = ''/'' then drop_separators s
      else c # s)"
| "drop_separators [] = []"

definition path_parent :: "string \<Rightarrow> string option" where
  "path_parent path =
     (let body = drop_separators (rev path); rest = dropWhile (\<lambda>c. c \<noteq> CHR ''/'') body; up = drop_separators rest
      in if body = [] then None else if rest = [] then Some []
         else if up = [] then Some ''/'' else Some (rev up))"

record agent_config =
  ac_hub_base_url :: string
  ac_registration_path :: string
  ac_state_path :: string
  ac_data_dir :: string
  ac_pingora_version :: string
  ac_agent_version :: string
  ac_heartbeat_interval_seconds :: u64
  ac_apply_command :: "string option"
  ac_allow_noop_apply :: bool
  ac_apply_timeout_seconds :: u64
  ac_healthcheck_url :: "string option"
  ac_healthcheck_expected_status :: "u16 option"
  ac_healthcheck_timeout_seconds :: u64
  ac_healthcheck_retries :: u32
  ac_healthcheck_interval_seconds :: u64

definition optional_env :: "process_env \<Rightarrow> string \<Rightarrow> string option" where
  "optional_env env name = opt_filter (\<lambda>v. v \<noteq> []) (map_option trim (env name))"

text \<open>\<open>package_version\<close> is the version of the crate, known when it is compiled.\<close>

definition agent_config_from_env :: "string \<Rightarrow> process_env \<Rightarrow> agent_config" where
  "agent_config_from_env package_version env =
     (let data_dir = unwrap_or ''/var/lib/pingorahub/node-agent'' (env ''PINGORAHUB_NODE_AGENT_DATA_DIR'');
          state_path = unwrap_or (path_join data_dir ''state.json'') (env ''PINGORAHUB_NODE_AGENT_STATE_PATH'')
      in \<lparr>ac_hub_base_url = trim_end_matches (CHR ''/'')
            (unwrap_or ''http://127.0.0.1:3000'' (env ''PINGORAHUB_HUB_BASE_URL'')),
          ac_registration_path = unwrap_or ''/etc/pingorahub/manual-node-registration.json''
            (env ''PINGORAHUB_NODE_REGISTRATION_PATH''),
          ac_state_path = state_path, ac_data_dir = data_dir,
          ac_pingora_version = unwrap_or ''manual-pending'' (env ''PINGORAHUB_NODE_AGENT_PINGORA_VERSION''),
          ac_agent_version = unwrap_or package_version (env ''PINGORAHUB_NODE_AGENT_VERSION''),
          ac_heartbeat_interval_seconds = parse_env_u64 env ''PINGORAHUB_NODE_AGENT_MIN_HEARTBEAT_SECONDS'' 15,
          ac_apply_command = optional_env env ''PINGORAHUB_NODE_APPLY_COMMAND'',
          ac_allow_noop_apply = parse_env_bool env ''PINGORAHUB_NODE_ALLOW_NOOP_APPLY'',
          ac_apply_timeout_seconds = parse_env_u64 env ''PINGORAHUB_NODE_APPLY_TIMEOUT_SECONDS'' 30,
          ac_healthcheck_url = optional_env env ''PINGORAHUB_NODE_APPLY_HEALTHCHECK_URL'',
          ac_healthcheck_expected_status = map_option of_nat
            (Option.bind (env ''PINGORAHUB_NODE_APPLY_HEALTHCHECK_EXPECT_STATUS'') (parse_uint (2 ^ 16))),
          ac_healthcheck_timeout_seconds = parse_env_u64 env ''PINGORAHUB_NODE_APPLY_HEALTHCHECK_TIMEOUT_SECONDS'' 10,
          ac_healthcheck_retries = parse_env_u32 env ''PINGORAHUB_NODE_APPLY_HEALTHCHECK_RETRIES'' 3,
          ac_healthcheck_interval_seconds = parse_env_u64 env ''PINGORAHUB_NODE_APPLY_HEALTHCHECK_INTERVAL_SECONDS'' 2\<rparr>)"

definition releases_dir :: "agent_config \<Rightarrow> string" where
  "releases_dir config = path_join (ac_data_dir config) ''releases''"

definition current_release_version_path :: "agent_config \<Rightarrow> string" where
  "current_release_version_path config = path_join (ac_data_dir config) ''current-release-version''"

definition current_manifest_path :: "agent_config \<Rightarrow> string" where
  "current_manifest_path config = path_join (ac_data_dir config) ''current-manifest.json''"

definition current_rendered_config_path :: "agent_config \<Rightarrow> string" where
  "current_rendered_config_path config = path_join (ac_data_dir config) ''current-rendered-config.json''"

definition current_certificates_path :: "agent_config \<Rightarrow> string" where
  "current_certificates_path config = path_join (ac_data_dir config) ''current-certificates.json''"

lemmas agent_paths = releases_dir_def current_release_version_path_def current_manifest_path_def
  current_rendered_config_path_def current_certificates_path_def

subsection \<open>Data\<close>

record registration_metadata =
  rg_node_id :: uuid
  rg_node_code :: string
  rg_hostname :: string
  rg_private_ip :: string
  rg_refresh_token :: string
  rg_expires_at :: string
  rg_registration_mode :: string

record local_agent_state =
  la_current_release_id :: "uuid option"
  la_current_release_version :: "string option"
  la_current_config_hash :: "string option"
  la_site_count :: u32
  la_last_acknowledged_release_id :: "uuid option"
  la_last_heartbeat_at :: "datetime option"

definition default_agent_state :: local_agent_state where
  "default_agent_state =
     \<lparr>la_current_release_id = None, la_current_release_version = None, la_current_config_hash = None,
      la_site_count = 0, la_last_acknowledged_release_id = None, la_last_heartbeat_at = None\<rparr>"

record agent_session =
  se_access_token :: string
  se_expires_at :: datetime

record release_artifacts =
  ra_release_dir :: string
  ra_package_path :: string
  ra_manifest_path :: string
  ra_rendered_config_path :: string
  ra_certificates_path :: string

datatype sync_action = NoRelease | Idle | Applied string | Acked string

subsection \<open>Errors\<close>

type_synonym anyhow = "string list"

text \<open>\<open>error.to_string()\<close> is the outermost message, \<open>{error:#}\<close> all of them.\<close>

definition error_text :: "anyhow \<Rightarrow> string" where
  "error_text error = (case error of [] \<Rightarrow> [] | m # _ \<Rightarrow> m)"

definition error_chain :: "anyhow \<Rightarrow> string" where
  "error_chain error = join '': '' error"

definition is_not_found :: "anyhow \<Rightarrow> bool" where
  "is_not_found error = str_contains ''http 404:'' (error_text error)"

definition is_auth_error :: "anyhow \<Rightarrow> bool" where
  "is_auth_error error = str_contains ''http 401:'' (error_text error)"

definition classify_operation_error :: "anyhow \<Rightarrow> string" where
  "classify_operation_error error =
     (if str_contains ''timed out'' (error_text error) then ''timeout'' else ''failed'')"

subsection \<open>Messages\<close>

text \<open>\<open>str::split_whitespace\<close>; the accumulator is the word read so far.\<close>

function split_words :: "string \<Rightarrow> string \<Rightarrow> string list" where
  "split_words word s =
     (case leading_whitespace s of
        Some e \<Rightarrow> (if word = [] then [] else [word]) @ split_words [] (drop (length e) s)
      | None \<Rightarrow> (case s of [] \<Rightarrow> if word = [] then [] else [word] | c # s' \<Rightarrow> split_words (word @ [c]) s'))"
  by pat_completeness auto
termination
  by (relation "measure (\<lambda>(word, s). length s)")
    (auto dest!: leading_whitespace_length intro: diff_less_length)

declare split_words.simps [simp del]

definition split_whitespace :: "string \<Rightarrow> string list" where
  "split_whitespace s = split_words [] s"

definition truncate_message :: "string \<Rightarrow> string" where
  "truncate_message raw =
     (let normalized = join '' '' (split_whitespace raw)
      in if chars_count normalized \<le> 400 then normalized else chars_take 400 normalized @ ''...'')"

definition reported_current_version :: "local_agent_state \<Rightarrow> string \<Rightarrow> string" where
  "reported_current_version state fallback = unwrap_or fallback (la_current_release_version state)"

subsection \<open>The surroundings\<close>

text \<open>
  The outcome of an HTTP request: no response, a response whose body cannot be read, or a status,
  the body and what serde makes of the body.
\<close>

datatype 'a http_outcome =
    Send_Failed anyhow
  | Body_Failed anyhow
  | Http_Response nat string "string + 'a"

text \<open>A shell command: the time-out, a failing start, or an exit code (none after a signal) and the two outputs.\<close>

datatype shell_outcome =
    Timed_Out string
  | Start_Failed string
  | Exited "int option" string string

text \<open>
  \<open>'x\<close> is the state of everything outside, \<open>'f\<close> the contents of files. The requests take the URL, the
  body and the bearer token. Writing and reading JSON is done by serde: \<open>ow_\<close> writes, \<open>or_\<close> reads.
  \<open>os_faults i\<close> tells whether the \<open>i\<close>-th access to the file system fails, and what is in the file then.
\<close>

record ('x, 'f) surroundings =
  os_post_refresh :: "string \<Rightarrow> node_refresh_request \<Rightarrow> string option \<Rightarrow> 'x \<Rightarrow> node_refresh_response http_outcome \<times> 'x"
  os_post_heartbeat :: "string \<Rightarrow> node_heartbeat_request \<Rightarrow> string option \<Rightarrow> 'x \<Rightarrow> node_heartbeat_response http_outcome \<times> 'x"
  os_get_latest :: "string \<Rightarrow> string option \<Rightarrow> 'x \<Rightarrow> latest_release_response http_outcome \<times> 'x"
  os_get_package :: "string \<Rightarrow> string option \<Rightarrow> 'x \<Rightarrow> config_package_response http_outcome \<times> 'x"
  os_post_ack :: "string \<Rightarrow> release_ack_request \<Rightarrow> string option \<Rightarrow> 'x \<Rightarrow> release_ack_response http_outcome \<times> 'x"
  os_get_pending :: "string \<Rightarrow> string option \<Rightarrow> 'x \<Rightarrow> pending_operation_response http_outcome \<times> 'x"
  os_post_result :: "string \<Rightarrow> operation_result_request \<Rightarrow> string option \<Rightarrow> 'x \<Rightarrow> operation_result_response http_outcome \<times> 'x"
  os_probe :: "string \<Rightarrow> u64 \<Rightarrow> 'x \<Rightarrow> (string + nat) \<times> 'x"
  os_shell :: "string \<Rightarrow> (string \<times> string) list \<Rightarrow> u64 \<Rightarrow> 'x \<Rightarrow> shell_outcome \<times> 'x"
  os_now :: "'x \<Rightarrow> datetime \<times> 'x"
  os_faults :: "nat \<Rightarrow> (string \<times> 'f option) option"
  os_env :: process_env
  os_display_uuid :: "uuid \<Rightarrow> string"
  os_rfc3339 :: "datetime \<Rightarrow> string"
  ow_text :: "string \<Rightarrow> 'f"
  ow_registration :: "registration_metadata \<Rightarrow> string + 'f"
  ow_state :: "local_agent_state \<Rightarrow> string + 'f"
  ow_package :: "config_package_response \<Rightarrow> string + 'f"
  ow_value :: "json \<Rightarrow> string + 'f"
  or_registration :: "'f \<Rightarrow> string + registration_metadata"
  or_state :: "'f \<Rightarrow> string + local_agent_state"

record ('x, 'f) agent =
  ag_registration :: registration_metadata
  ag_state :: local_agent_state
  ag_session :: agent_session
  ag_files :: "string \<Rightarrow> 'f option"
  ag_accesses :: nat
  ag_out :: 'x

subsection \<open>Actions\<close>

type_synonym ('a, 'x, 'f) act = "('x, 'f) agent \<Rightarrow> (anyhow + 'a) \<times> ('x, 'f) agent"

definition act_return :: "anyhow + 'a \<Rightarrow> ('a, 'x, 'f) act" where
  "act_return r a = (r, a)"

definition act_bind :: "('a, 'x, 'f) act \<Rightarrow> ('a \<Rightarrow> ('b, 'x, 'f) act) \<Rightarrow> ('b, 'x, 'f) act" where
  "act_bind m k a = (case m a of (Inl error, a') \<Rightarrow> (Inl error, a') | (Inr x, a') \<Rightarrow> k x a')"

text \<open>\<open>with_context\<close>.\<close>

definition act_context :: "string \<Rightarrow> ('a, 'x, 'f) act \<Rightarrow> ('a, 'x, 'f) act" where
  "act_context c m a = (case m a of (Inl error, a') \<Rightarrow> (Inl (c # error), a') | (Inr x, a') \<Rightarrow> (Inr x, a'))"

text \<open>The result of an action as a value, for a \<open>match\<close> or a \<open>let _\<close>.\<close>

definition act_attempt :: "('a, 'x, 'f) act \<Rightarrow> (anyhow + 'a, 'x, 'f) act" where
  "act_attempt m a = (case m a of (r, a') \<Rightarrow> (Inr r, a'))"

definition act_get :: "(('x, 'f) agent \<Rightarrow> 'a) \<Rightarrow> ('a, 'x, 'f) act" where
  "act_get f a = (Inr (f a), a)"

definition act_modify :: "(('x, 'f) agent \<Rightarrow> ('x, 'f) agent) \<Rightarrow> (unit, 'x, 'f) act" where
  "act_modify f a = (Inr (), f a)"

definition act_outside :: "('x \<Rightarrow> 'a \<times> 'x) \<Rightarrow> ('a, 'x, 'f) act" where
  "act_outside f a = (case f (ag_out a) of (y, x) \<Rightarrow> (Inr y, a\<lparr>ag_out := x\<rparr>))"

definition fs_write :: "('x, 'f) surroundings \<Rightarrow> string \<Rightarrow> 'f \<Rightarrow> (unit, 'x, 'f) act" where
  "fs_write os path contents a =
     (case os_faults os (ag_accesses a) of
        Some (error, left) \<Rightarrow>
          (Inl [error], a\<lparr>ag_accesses := Suc (ag_accesses a), ag_files := (ag_files a)(path := left)\<rparr>)
      | None \<Rightarrow> (Inr (), a\<lparr>ag_accesses := Suc (ag_accesses a), ag_files := (ag_files a)(path := Some contents)\<rparr>))"

text \<open>Reading; the inner result says whether the file exists.\<close>

definition fs_read :: "('x, 'f) surroundings \<Rightarrow> string \<Rightarrow> ('f option, 'x, 'f) act" where
  "fs_read os path a =
     (case os_faults os (ag_accesses a) of
        Some (error, _) \<Rightarrow> (Inl [error], a\<lparr>ag_accesses := Suc (ag_accesses a)\<rparr>)
      | None \<Rightarrow> (Inr (ag_files a path), a\<lparr>ag_accesses := Suc (ag_accesses a)\<rparr>))"

text \<open>Directories are not modelled; making one can fail. An empty path is no directory to make.\<close>

definition fs_create_dir_all :: "('x, 'f) surroundings \<Rightarrow> string \<Rightarrow> (unit, 'x, 'f) act" where
  "fs_create_dir_all os path a =
     (if path = [] then (Inr (), a)
      else (case os_faults os (ag_accesses a) of
              Some (error, _) \<Rightarrow> (Inl [error], a\<lparr>ag_accesses := Suc (ag_accesses a)\<rparr>)
            | None \<Rightarrow> (Inr (), a\<lparr>ag_accesses := Suc (ag_accesses a)\<rparr>)))"

subsection \<open>Requests to the hub\<close>

definition is_success :: "nat \<Rightarrow> bool" where
  "is_success status \<longleftrightarrow> 200 \<le> status \<and> status < 300"

definition is_redirection :: "nat \<Rightarrow> bool" where
  "is_redirection status \<longleftrightarrow> 300 \<le> status \<and> status < 400"

fun parse_response :: "string \<Rightarrow> 'a http_outcome \<Rightarrow> anyhow + 'a" where
  "parse_response failed (Send_Failed error) = Inl (failed # error)"
| "parse_response failed (Body_Failed error) = Inl (''failed to read response body'' # error)"
| "parse_response failed (Http_Response status body decoded) =
     (if \<not> is_success status then Inl [''http '' @ nat_to_string status @ '': '' @ body]
      else (case decoded of
              Inl error \<Rightarrow> Inl [''failed to decode api response envelope'', error]
            | Inr x \<Rightarrow> Inr x))"

definition get_json ::
  "(string \<Rightarrow> string option \<Rightarrow> 'x \<Rightarrow> 'a http_outcome \<times> 'x) \<Rightarrow> string \<Rightarrow> string option \<Rightarrow> ('a, 'x, 'f) act" where
  "get_json send url bearer_token =
     act_bind (act_outside (send url bearer_token)) (\<lambda>outcome.
       act_return (parse_response (''failed GET '' @ url) outcome))"

definition post_json ::
  "(string \<Rightarrow> 'b \<Rightarrow> string option \<Rightarrow> 'x \<Rightarrow> 'a http_outcome \<times> 'x) \<Rightarrow> string \<Rightarrow> 'b \<Rightarrow> string option \<Rightarrow> ('a, 'x, 'f) act" where
  "post_json send url body bearer_token =
     act_bind (act_outside (send url body bearer_token)) (\<lambda>outcome.
       act_return (parse_response (''failed POST '' @ url) outcome))"

end
