(* ===== verification/Node_Agent.thy ===== *)
theory Node_Agent
  imports Agent_Base
begin

text \<open>
  The node agent, second part: the files of a release, applying it, the conversation with the hub, and
  one round of the main loop. Then what a round does: a release is activated only after it was applied,
  a failing one leaves the node with the release it runs, and which errors end the program.
\<close>

subsection \<open>Files\<close>

definition write_json ::
  "('x, 'f) surroundings \<Rightarrow> string \<Rightarrow> string + 'f \<Rightarrow> string \<Rightarrow> string \<Rightarrow> (unit, 'x, 'f) act" where
  "write_json os path body serialize_context write_context =
     act_bind (act_return (case body of Inl error \<Rightarrow> Inl [serialize_context, error] | Inr text \<Rightarrow> Inr text)) (\<lambda>text.
       act_context write_context (fs_write os path text))"

definition persist_registration :: "('x, 'f) surroundings \<Rightarrow> agent_config \<Rightarrow> (unit, 'x, 'f) act" where
  "persist_registration os config =
     act_bind (act_get ag_registration) (\<lambda>registration.
       write_json os (ac_registration_path config) (ow_registration os registration)
         ''failed to serialize registration metadata''
         (''failed to write registration metadata to '' @ ac_registration_path config))"

definition persist_state :: "('x, 'f) surroundings \<Rightarrow> agent_config \<Rightarrow> (unit, 'x, 'f) act" where
  "persist_state os config =
     act_bind (act_get ag_state) (\<lambda>state.
       write_json os (ac_state_path config) (ow_state os state) ''failed to serialize node-agent state''
         (''failed to write node-agent state to '' @ ac_state_path config))"

definition load_registration :: "('x, 'f) surroundings \<Rightarrow> string \<Rightarrow> (registration_metadata, 'x, 'f) act" where
  "load_registration os path =
     act_bind (act_context (''failed to read registration metadata from '' @ path)
         (act_bind (fs_read os path) (\<lambda>raw.
            act_return (ok_or [''No such file or directory (os error 2)''] raw)))) (\<lambda>raw.
       act_return (case or_registration os raw of
         Inl error \<Rightarrow> Inl [''failed to parse registration metadata json'', error] | Inr r \<Rightarrow> Inr r))"

definition load_state :: "('x, 'f) surroundings \<Rightarrow> string \<Rightarrow> (local_agent_state, 'x, 'f) act" where
  "load_state os path =
     act_bind (act_context (''failed to read node-agent state from '' @ path) (fs_read os path)) (\<lambda>raw.
       act_return (case raw of
         None \<Rightarrow> Inr default_agent_state
       | Some raw \<Rightarrow> (case or_state os raw of
           Inl error \<Rightarrow> Inl [''failed to parse node-agent state json'', error] | Inr s \<Rightarrow> Inr s)))"

definition release_artifacts_of :: "agent_config \<Rightarrow> string \<Rightarrow> release_artifacts" where
  "release_artifacts_of config version =
     (let release_dir = path_join (releases_dir config) version
      in \<lparr>ra_release_dir = release_dir, ra_package_path = path_join release_dir ''package.json'',
          ra_manifest_path = path_join release_dir ''manifest.json'',
          ra_rendered_config_path = path_join release_dir ''rendered-config.json'',
          ra_certificates_path = path_join release_dir ''certificates.json''\<rparr>)"

definition persist_release_artifacts ::
  "('x, 'f) surroundings \<Rightarrow> agent_config \<Rightarrow> config_package_response \<Rightarrow> (release_artifacts, 'x, 'f) act" where
  "persist_release_artifacts os config package =
     (let version = cfr_release_version package; artifacts = release_artifacts_of config version
      in act_bind (act_context (''failed to create '' @ ra_release_dir artifacts)
             (fs_create_dir_all os (ra_release_dir artifacts))) (\<lambda>_.
         act_bind (write_json os (ra_package_path artifacts) (ow_package os package)
             ''failed to serialize package json'' (''failed to write package.json for '' @ version)) (\<lambda>_.
         act_bind (write_json os (ra_manifest_path artifacts) (ow_value os (cfr_manifest package))
             ''failed to serialize manifest json'' (''failed to write manifest.json for '' @ version)) (\<lambda>_.
         act_bind (write_json os (ra_rendered_config_path artifacts) (ow_value os (cfr_rendered_config package))
             ''failed to serialize rendered config json''
             (''failed to write rendered-config.json for '' @ version)) (\<lambda>_.
         act_bind (write_json os (ra_certificates_path artifacts) (ow_value os (cfr_certificates package))
             ''failed to serialize certificates json'' (''failed to write certificates.json for '' @ version)) (\<lambda>_.
           act_return (Inr artifacts)))))))"

definition copy_staged :: "('x, 'f) surroundings \<Rightarrow> string \<Rightarrow> string \<Rightarrow> string \<Rightarrow> (unit, 'x, 'f) act" where
  "copy_staged os what source target =
     act_bind (act_context (''failed to read staged '' @ what @ '' '' @ source)
         (act_bind (fs_read os source) (\<lambda>raw.
            act_return (ok_or [''No such file or directory (os error 2)''] raw)))) (\<lambda>contents.
       act_context (''failed to write '' @ target) (fs_write os target contents))"

definition activate_release_artifacts ::
  "('x, 'f) surroundings \<Rightarrow> agent_config \<Rightarrow> config_package_response \<Rightarrow> release_artifacts \<Rightarrow> (unit, 'x, 'f) act" where
  "activate_release_artifacts os config package artifacts =
     act_bind (act_context (''failed to write '' @ current_release_version_path config)
         (fs_write os (current_release_version_path config) (ow_text os (cfr_release_version package)))) (\<lambda>_.
     act_bind (copy_staged os ''manifest'' (ra_manifest_path artifacts) (current_manifest_path config)) (\<lambda>_.
     act_bind (copy_staged os ''rendered config'' (ra_rendered_config_path artifacts)
         (current_rendered_config_path config)) (\<lambda>_.
       copy_staged os ''certificates'' (ra_certificates_path artifacts) (current_certificates_path config))))"

subsection \<open>Applying a release\<close>

definition ensure_apply_mode :: "agent_config \<Rightarrow> anyhow + unit" where
  "ensure_apply_mode config =
     (if ac_apply_command config = None \<and> \<not> ac_allow_noop_apply config
      then Inl [''PINGORAHUB_NODE_APPLY_COMMAND is required unless PINGORAHUB_NODE_ALLOW_NOOP_APPLY=true'']
      else Inr ())"

definition node_variables :: "('x, 'f) surroundings \<Rightarrow> registration_metadata \<Rightarrow> (string \<times> string) list" where
  "node_variables os registration =
     [(''PINGORAHUB_NODE_ID'', os_display_uuid os (rg_node_id registration)),
      (''PINGORAHUB_NODE_CODE'', rg_node_code registration),
      (''PINGORAHUB_NODE_HOSTNAME'', rg_hostname registration),
      (''PINGORAHUB_NODE_PRIVATE_IP'', rg_private_ip registration)]"

definition dash_if_empty :: "string \<Rightarrow> string" where
  "dash_if_empty s = (if s = [] then ''-'' else s)"

text \<open>What the two callers of a shell command make of its outcome: the standard output, or an error.\<close>

fun command_output :: "string \<Rightarrow> string \<Rightarrow> string \<Rightarrow> shell_outcome \<Rightarrow> anyhow + string" where
  "command_output timed_out failed_start exited (Timed_Out error) = Inl [timed_out, error]"
| "command_output timed_out failed_start exited (Start_Failed error) = Inl [failed_start, error]"
| "command_output timed_out failed_start exited (Exited code out err) =
     (let stdout = truncate_message out; stderr = truncate_message err
      in if code = Some 0 then Inr stdout
         else Inl [exited @ '' exited with '' @ unwrap_or ''signal'' (map_option int_to_string code) @ ''; stdout='' @
           dash_if_empty stdout @ ''; stderr='' @ dash_if_empty stderr])"

definition run_apply_command ::
  "('x, 'f) surroundings \<Rightarrow> agent_config \<Rightarrow> config_package_response \<Rightarrow> release_artifacts \<Rightarrow> string option \<Rightarrow> string \<Rightarrow>
   (string, 'x, 'f) act" where
  "run_apply_command os config package artifacts previous_version command =
     (let trimmed_command = trim command
      in if trimmed_command = [] then act_return (Inr ''apply command is empty; skipped external apply step'')
         else
           act_bind (act_get ag_registration) (\<lambda>registration.
           act_bind (act_outside (os_shell os trimmed_command
               (node_variables os registration @
                [(''PINGORAHUB_DATA_DIR'', ac_data_dir config),
                 (''PINGORAHUB_RELEASE_ID'', os_display_uuid os (cfr_release_id package)),
                 (''PINGORAHUB_RELEASE_VERSION'', cfr_release_version package),
                 (''PINGORAHUB_RELEASE_DIR'', ra_release_dir artifacts),
                 (''PINGORAHUB_RELEASE_PACKAGE_PATH'', ra_package_path artifacts),
                 (''PINGORAHUB_RELEASE_MANIFEST_PATH'', ra_manifest_path artifacts),
                 (''PINGORAHUB_RELEASE_RENDERED_CONFIG_PATH'', ra_rendered_config_path artifacts),
                 (''PINGORAHUB_RELEASE_CERTIFICATES_PATH'', ra_certificates_path artifacts)] @
                (case previous_version of
                   None \<Rightarrow> [] | Some version \<Rightarrow> [(''PINGORAHUB_PREVIOUS_RELEASE_VERSION'', version)]))
               (ac_apply_timeout_seconds config))) (\<lambda>outcome.
           act_bind (act_return (command_output
               (''apply command timed out after '' @ nat_to_string (unat (ac_apply_timeout_seconds config)) @ ''s'')
               ''failed to execute apply command'' ''apply command'' outcome)) (\<lambda>stdout.
             act_return (Inr (if stdout = [] then ''apply command completed''
               else ''apply command completed: '' @ stdout))))))"

definition healthcheck_status_matches :: "nat \<Rightarrow> u16 option \<Rightarrow> bool" where
  "healthcheck_status_matches status expected_status =
     (case expected_status of
        Some expected \<Rightarrow> status = unat expected
      | None \<Rightarrow> is_success status \<or> is_redirection status)"

text \<open>The attempts of a health check, from number \<open>attempt\<close> on; the waits in between are not modelled.\<close>

fun health_attempts ::
  "('x, 'f) surroundings \<Rightarrow> agent_config \<Rightarrow> string \<Rightarrow> nat \<Rightarrow> nat \<Rightarrow> string \<Rightarrow> (string + string, 'x, 'f) act" where
  "health_attempts os config url attempt 0 last_error = act_return (Inr (Inl last_error))"
| "health_attempts os config url attempt (Suc left) last_error =
     act_bind (act_outside (os_probe os url (ac_healthcheck_timeout_seconds config))) (\<lambda>response.
       case response of
         Inr status \<Rightarrow>
           (if healthcheck_status_matches status (ac_healthcheck_expected_status config)
            then act_return (Inr (Inr (''health check passed on attempt '' @ nat_to_string attempt @ '' with status '' @
              nat_to_string status)))
            else health_attempts os config url (Suc attempt) left
              (''unexpected status '' @ nat_to_string status @ '' on attempt '' @ nat_to_string attempt))
       | Inl error \<Rightarrow>
           health_attempts os config url (Suc attempt) left
             (''health check attempt '' @ nat_to_string attempt @ '' failed: '' @ error))"

definition run_healthcheck :: "('x, 'f) surroundings \<Rightarrow> agent_config \<Rightarrow> (string, 'x, 'f) act" where
  "run_healthcheck os config =
     act_bind (act_return (ok_or [''health check url is not configured''] (ac_healthcheck_url config))) (\<lambda>url.
       let attempts = unat (max (ac_healthcheck_retries config) 1)
       in act_bind (health_attempts os config url 1 attempts []) (\<lambda>result.
            act_return (case result of
              Inr message \<Rightarrow> Inr message
            | Inl last_error \<Rightarrow> Inl [''health check '' @ url @ '' failed after '' @ nat_to_string attempts @
                '' attempt(s): '' @ last_error])))"

definition apply_release_package ::
  "('x, 'f) surroundings \<Rightarrow> agent_config \<Rightarrow> config_package_response \<Rightarrow> release_artifacts \<Rightarrow> (string, 'x, 'f) act" where
  "apply_release_package os config package artifacts =
     act_bind (act_return (ensure_apply_mode config)) (\<lambda>_.
     act_bind (act_get (\<lambda>a. la_current_release_version (ag_state a))) (\<lambda>previous_version.
     act_bind (case ac_apply_command config of
         Some command \<Rightarrow> run_apply_command os config package artifacts previous_version command
       | None \<Rightarrow> act_return (Inr ''no apply command configured; noop apply explicitly allowed'')) (\<lambda>command_message.
     act_bind (if ac_healthcheck_url config \<noteq> None then run_healthcheck os config
         else act_return (Inr ''no health check configured'')) (\<lambda>health_message.
       act_return (Inr (join ''; '' [''artifacts staged at '' @ ra_release_dir artifacts, command_message,
         health_message]))))))"

subsection \<open>The conversation with the hub\<close>

definition should_refresh :: "datetime \<Rightarrow> agent_session \<Rightarrow> bool" where
  "should_refresh now session \<longleftrightarrow> se_expires_at session \<le> now + seconds (5 * 60)"

definition refresh_session :: "('x, 'f) surroundings \<Rightarrow> agent_config \<Rightarrow> (unit, 'x, 'f) act" where
  "refresh_session os config =
     act_bind (act_get ag_registration) (\<lambda>registration.
     act_bind (post_json (os_post_refresh os) (ac_hub_base_url config @ ''/api/node/auth/refresh'')
         \<lparr>nfq_node_id = rg_node_id registration, nfq_refresh_token = rg_refresh_token registration\<rparr> None) (\<lambda>response.
     act_bind (act_modify (\<lambda>a. a\<lparr>ag_registration := (ag_registration a)\<lparr>rg_refresh_token := nfr_refresh_token response,
         rg_expires_at := os_rfc3339 os (nfr_expires_at response)\<rparr>\<rparr>)) (\<lambda>_.
     act_bind (persist_registration os config) (\<lambda>_.
       act_modify (\<lambda>a. a\<lparr>ag_session := \<lparr>se_access_token = nfr_access_token response,
         se_expires_at = nfr_expires_at response\<rparr>\<rparr>)))))"

definition bearer :: "('x, 'f) agent \<Rightarrow> string option" where
  "bearer a = Some (se_access_token (ag_session a))"

definition agent_heartbeat :: "('x, 'f) surroundings \<Rightarrow> agent_config \<Rightarrow> (node_heartbeat_response, 'x, 'f) act" where
  "agent_heartbeat os config =
     act_bind (act_get (\<lambda>a. a)) (\<lambda>a.
       post_json (os_post_heartbeat os) (ac_hub_base_url config @ ''/api/node/heartbeat'')
         \<lparr>nhq_node_id = rg_node_id (ag_registration a), nhq_pingora_version = ac_pingora_version config,
          nhq_agent_version = ac_agent_version config,
          nhq_active_config_version = la_current_release_version (ag_state a),
          nhq_site_count = la_site_count (ag_state a), nhq_cpu_usage = 0, nhq_mem_usage = 0, nhq_disk_usage = 0,
          nhq_health_score = 100\<rparr> (bearer a))"

definition report_release_status ::
  "('x, 'f) surroundings \<Rightarrow> agent_config \<Rightarrow> uuid \<Rightarrow> string \<Rightarrow> string \<Rightarrow> string option \<Rightarrow> (release_ack_response, 'x, 'f) act" where
  "report_release_status os config release_id apply_status current_version message =
     act_bind (act_get (\<lambda>a. a)) (\<lambda>a.
       post_json (os_post_ack os)
         (ac_hub_base_url config @ ''/api/node/releases/'' @ os_display_uuid os release_id @ ''/ack'')
         \<lparr>raq_node_id = rg_node_id (ag_registration a), raq_apply_status = apply_status,
          raq_current_version = current_version, raq_message = message\<rparr> (bearer a))"

definition acknowledge_release ::
  "('x, 'f) surroundings \<Rightarrow> agent_config \<Rightarrow> config_package_response \<Rightarrow> string option \<Rightarrow> (unit, 'x, 'f) act" where
  "acknowledge_release os config package message =
     act_bind (report_release_status os config (cfr_release_id package) ''success'' (cfr_release_version package) message)
       (\<lambda>_. act_return (Inr ()))"

definition latest_release_url :: "('x, 'f) surroundings \<Rightarrow> agent_config \<Rightarrow> uuid \<Rightarrow> string" where
  "latest_release_url os config node_id =
     ac_hub_base_url config @ ''/api/node/config/releases/latest?node_id='' @ os_display_uuid os node_id"

definition package_site_count :: "config_package_response \<Rightarrow> u32" where
  "package_site_count package =
     unwrap_or 0 (map_option (\<lambda>sites. of_nat (length sites))
       (Option.bind (json_get (cfr_manifest package) ''sites'') as_array))"

definition activated_state :: "latest_release_response \<Rightarrow> config_package_response \<Rightarrow> local_agent_state \<Rightarrow> local_agent_state" where
  "activated_state latest package s =
     s\<lparr>la_current_release_id := Some (cfr_release_id package),
       la_current_release_version := Some (cfr_release_version package),
       la_current_config_hash := Some (lrr_config_hash latest), la_site_count := package_site_count package\<rparr>"

text \<open>
  The release differs from the running one: it is downloaded and staged, applied, and then made current and
  acknowledged, or reported as failed.
\<close>

definition stage_release ::
  "('x, 'f) surroundings \<Rightarrow> agent_config \<Rightarrow> latest_release_response \<Rightarrow>
   (string \<times> config_package_response \<times> release_artifacts, 'x, 'f) act" where
  "stage_release os config latest =
     act_bind (act_get (\<lambda>a. reported_current_version (ag_state a) (lrr_release_version latest))) (\<lambda>previous_version.
     act_bind (report_release_status os config (lrr_release_id latest) ''downloading'' previous_version
         (Some (''node-agent downloading '' @ lrr_release_version latest))) (\<lambda>_.
     act_bind (act_get bearer) (\<lambda>token.
     act_bind (get_json (os_get_package os) (ac_hub_base_url config @ lrr_download_url latest) token) (\<lambda>package.
     act_bind (persist_release_artifacts os config package) (\<lambda>artifacts.
     act_bind (report_release_status os config (lrr_release_id latest) ''applying'' previous_version
         (Some (''release artifacts staged at '' @ ra_release_dir artifacts @ ''; starting apply pipeline''))) (\<lambda>_.
       act_return (Inr (previous_version, package, artifacts))))))))"

definition reject_release ::
  "('x, 'f) surroundings \<Rightarrow> agent_config \<Rightarrow> latest_release_response \<Rightarrow> string \<Rightarrow> config_package_response \<Rightarrow> anyhow \<Rightarrow>
   (sync_action, 'x, 'f) act" where
  "reject_release os config latest previous_version package error =
     act_bind (act_attempt (report_release_status os config (lrr_release_id latest) ''failed'' previous_version
         (Some (truncate_message (''release '' @ cfr_release_version package @ '' apply failed: '' @
           error_chain error))))) (\<lambda>_.
       act_return (Inl error))"

definition complete_release ::
  "('x, 'f) surroundings \<Rightarrow> agent_config \<Rightarrow> latest_release_response \<Rightarrow> config_package_response \<Rightarrow> release_artifacts \<Rightarrow>
   string \<Rightarrow> (sync_action, 'x, 'f) act" where
  "complete_release os config latest package artifacts apply_message =
     act_bind (activate_release_artifacts os config package artifacts) (\<lambda>_.
     act_bind (act_modify (\<lambda>a. a\<lparr>ag_state := activated_state latest package (ag_state a)\<rparr>)) (\<lambda>_.
     act_bind (acknowledge_release os config package (Some apply_message)) (\<lambda>_.
     act_bind (act_modify (\<lambda>a. a\<lparr>ag_state := (ag_state a)\<lparr>la_last_acknowledged_release_id :=
         Some (cfr_release_id package)\<rparr>\<rparr>)) (\<lambda>_.
     act_bind (persist_state os config) (\<lambda>_.
       act_return (Inr (Applied (cfr_release_version package))))))))"

definition install_release ::
  "('x, 'f) surroundings \<Rightarrow> agent_config \<Rightarrow> latest_release_response \<Rightarrow> (sync_action, 'x, 'f) act" where
  "install_release os config latest =
     act_bind (stage_release os config latest) (\<lambda>(previous_version, package, artifacts).
     act_bind (act_attempt (apply_release_package os config package artifacts)) (\<lambda>applied.
       case applied of
         Inl error \<Rightarrow> reject_release os config latest previous_version package error
       | Inr apply_message \<Rightarrow> complete_release os config latest package artifacts apply_message))"

text \<open>The release is running but the hub has not heard of it.\<close>

definition confirm_release ::
  "('x, 'f) surroundings \<Rightarrow> agent_config \<Rightarrow> latest_release_response \<Rightarrow> (sync_action, 'x, 'f) act" where
  "confirm_release os config latest =
     act_bind (act_get (\<lambda>a. ag_state a)) (\<lambda>state.
     act_bind (act_return (ok_or [''missing current release version for ack''] (la_current_release_version state)))
       (\<lambda>current_version.
     act_bind (report_release_status os config (lrr_release_id latest) ''success'' current_version
         (Some ''node-agent confirmed active release state'')) (\<lambda>_.
     act_bind (act_modify (\<lambda>a. a\<lparr>ag_state := (ag_state a)\<lparr>la_last_acknowledged_release_id :=
         Some (lrr_release_id latest)\<rparr>\<rparr>)) (\<lambda>_.
     act_bind (persist_state os config) (\<lambda>_.
       act_return (Inr (Acked current_version)))))))"

definition sync_latest_release :: "('x, 'f) surroundings \<Rightarrow> agent_config \<Rightarrow> (sync_action, 'x, 'f) act" where
  "sync_latest_release os config =
     act_bind (act_get (\<lambda>a. a)) (\<lambda>a.
     act_bind (act_attempt (get_json (os_get_latest os)
         (latest_release_url os config (rg_node_id (ag_registration a))) (bearer a))) (\<lambda>response.
       case response of
         Inl error \<Rightarrow> if is_not_found error then act_return (Inr NoRelease) else act_return (Inl error)
       | Inr latest \<Rightarrow>
           act_bind (act_get ag_state) (\<lambda>state.
             if la_current_release_version state \<noteq> Some (lrr_release_version latest)
             then install_release os config latest
             else if la_last_acknowledged_release_id state \<noteq> Some (lrr_release_id latest)
             then confirm_release os config latest
             else act_return (Inr Idle))))"

subsection \<open>Operations\<close>

definition current_process_user :: "process_env \<Rightarrow> string" where
  "current_process_user env = unwrap_or ''unknown'' (or_else (env ''USER'') (env ''LOGNAME''))"

definition run_node_operation ::
  "('x, 'f) surroundings \<Rightarrow> pending_operation_response \<Rightarrow> (string, 'x, 'f) act" where
  "run_node_operation os operation =
     (let current_user = current_process_user (os_env os)
      in if trim (por_run_as_user operation) \<noteq> [] \<and> por_run_as_user operation \<noteq> current_user
         then act_return (Inl [''operation '' @ por_template_name operation @ '' requires run_as_user='' @
           por_run_as_user operation @ '', current user='' @ current_user])
         else
           act_bind (act_get ag_registration) (\<lambda>registration.
           act_bind (act_outside (os_shell os (trim (por_rendered_command operation))
               (node_variables os registration @
                [(''PINGORAHUB_OPERATION_ID'', os_display_uuid os (por_operation_id operation)),
                 (''PINGORAHUB_OPERATION_TEMPLATE_ID'', os_display_uuid os (por_template_id operation)),
                 (''PINGORAHUB_OPERATION_TEMPLATE_NAME'', por_template_name operation),
                 (''PINGORAHUB_OPERATION_TYPE'', por_operation_type operation)])
               (max (por_timeout_seconds operation) 1))) (\<lambda>outcome.
           act_bind (act_return (command_output
               (''operation '' @ por_template_name operation @ '' timed out after '' @
                  nat_to_string (unat (por_timeout_seconds operation)) @ ''s'')
               ''failed to execute node operation command'' ''node operation'' outcome)) (\<lambda>stdout.
             act_return (Inr (if stdout = [] then ''operation '' @ por_template_name operation @ '' completed''
               else stdout))))))"

definition next_operation :: "('x, 'f) surroundings \<Rightarrow> agent_config \<Rightarrow> (pending_operation_response, 'x, 'f) act" where
  "next_operation os config =
     act_bind (act_get (\<lambda>a. a)) (\<lambda>a.
       get_json (os_get_pending os) (ac_hub_base_url config @ ''/api/node/operations/pending?node_id='' @
         os_display_uuid os (rg_node_id (ag_registration a))) (bearer a))"

definition operation_report :: "anyhow + string \<Rightarrow> string \<times> int \<times> string \<times> string" where
  "operation_report result =
     (case result of
        Inr stdout \<Rightarrow> (''success'', 0, stdout, [])
      | Inl error \<Rightarrow> (classify_operation_error error, 1, [], truncate_message (error_chain error)))"

definition execute_operation ::
  "('x, 'f) surroundings \<Rightarrow> agent_config \<Rightarrow> pending_operation_response \<Rightarrow> (operation_result_response, 'x, 'f) act" where
  "execute_operation os config operation =
     act_bind (act_attempt (run_node_operation os operation)) (\<lambda>result.
       case operation_report result of (exec_status, exit_code, stdout, stderr) \<Rightarrow>
         act_bind (act_outside (os_now os)) (\<lambda>now.
         act_bind (act_get (\<lambda>a. a)) (\<lambda>a.
           post_json (os_post_result os) (ac_hub_base_url config @ ''/api/node/operations/'' @
             os_display_uuid os (por_operation_id operation) @ ''/result'')
             \<lparr>orq_node_id = rg_node_id (ag_registration a), orq_exec_status = exec_status, orq_exit_code = exit_code,
              orq_stdout = stdout, orq_stderr = stderr, orq_finished_at = now\<rparr> (bearer a))))"

text \<open>The loop over the pending operations ends when the hub has none, with an error, or never (None).\<close>

partial_function (option) pending_operations ::
  "('x, 'f) surroundings \<Rightarrow> agent_config \<Rightarrow> u32 \<Rightarrow> ('x, 'f) agent \<Rightarrow> ((anyhow + u32) \<times> ('x, 'f) agent) option" where
  "pending_operations os config executed a =
     (case next_operation os config a of (r, a1) \<Rightarrow>
        (case r of
           Inl error \<Rightarrow> Some (if is_not_found error then Inr executed else Inl error, a1)
         | Inr operation \<Rightarrow>
             (case execute_operation os config operation a1 of (r2, a2) \<Rightarrow>
                (case r2 of
                   Inl error \<Rightarrow> Some (Inl error, a2)
                 | Inr _ \<Rightarrow> pending_operations os config (executed + 1) a2))))"

declare pending_operations.simps [code]

definition sync_pending_operations ::
  "('x, 'f) surroundings \<Rightarrow> agent_config \<Rightarrow> ('x, 'f) agent \<Rightarrow> ((anyhow + u32) \<times> ('x, 'f) agent) option" where
  "sync_pending_operations os config = pending_operations os config 0"

subsection \<open>The main loop\<close>

text \<open>The start: directories are made, the registration and the state are read, the first session is opened.\<close>

definition ensure_dirs :: "('x, 'f) surroundings \<Rightarrow> agent_config \<Rightarrow> (unit, 'x, 'f) act" where
  "ensure_dirs os config =
     act_bind (act_context (''failed to create '' @ ac_data_dir config) (fs_create_dir_all os (ac_data_dir config))) (\<lambda>_.
     act_bind (case path_parent (ac_state_path config) of
         None \<Rightarrow> act_return (Inr ())
       | Some parent \<Rightarrow> act_context (''failed to create '' @ parent) (fs_create_dir_all os parent)) (\<lambda>_.
       act_context (''failed to create '' @ releases_dir config) (fs_create_dir_all os (releases_dir config))))"

definition agent_start ::
  "('x, 'f) surroundings \<Rightarrow> agent_config \<Rightarrow> (unit, 'x, 'f) act" where
  "agent_start os config =
     act_bind (ensure_dirs os config) (\<lambda>_.
     act_bind (load_registration os (ac_registration_path config)) (\<lambda>registration.
     act_bind (act_modify (\<lambda>a. a\<lparr>ag_registration := registration\<rparr>)) (\<lambda>_.
     act_bind (load_state os (ac_state_path config)) (\<lambda>state.
     act_bind (act_modify (\<lambda>a. a\<lparr>ag_state := state\<rparr>)) (\<lambda>_.
       refresh_session os config)))))"

text \<open>A round up to the heartbeat, which is tried again after a 401.\<close>

definition heartbeat_phase :: "('x, 'f) surroundings \<Rightarrow> agent_config \<Rightarrow> (node_heartbeat_response, 'x, 'f) act" where
  "heartbeat_phase os config =
     act_bind (act_outside (os_now os)) (\<lambda>now.
     act_bind (act_get ag_session) (\<lambda>session.
     act_bind (if should_refresh now session then refresh_session os config else act_return (Inr ())) (\<lambda>_.
     act_bind (act_attempt (agent_heartbeat os config)) (\<lambda>response.
     act_bind (case response of
         Inr response \<Rightarrow> act_return (Inr response)
       | Inl error \<Rightarrow>
           if is_auth_error error
           then act_bind (refresh_session os config) (\<lambda>_. agent_heartbeat os config)
           else act_return (Inl error)) (\<lambda>response.
     act_bind (act_outside (os_now os)) (\<lambda>now.
     act_bind (act_modify (\<lambda>a. a\<lparr>ag_state := (ag_state a)\<lparr>la_last_heartbeat_at := Some now\<rparr>\<rparr>)) (\<lambda>_.
     act_bind (persist_state os config) (\<lambda>_.
       act_return (Inr response)))))))))"

definition release_phase :: "('x, 'f) surroundings \<Rightarrow> agent_config \<Rightarrow> (unit, 'x, 'f) act" where
  "release_phase os config =
     act_bind (act_attempt (sync_latest_release os config)) (\<lambda>result.
       case result of
         Inr _ \<Rightarrow> act_return (Inr ())
       | Inl error \<Rightarrow>
           if is_auth_error error
           then act_bind (refresh_session os config) (\<lambda>_.
                  act_bind (sync_latest_release os config) (\<lambda>_. act_return (Inr ())))
           else act_return (Inr ()))"

definition operation_phase ::
  "('x, 'f) surroundings \<Rightarrow> agent_config \<Rightarrow> ('x, 'f) agent \<Rightarrow> ((anyhow + unit) \<times> ('x, 'f) agent) option" where
  "operation_phase os config a =
     (case sync_pending_operations os config a of
        None \<Rightarrow> None
      | Some (Inr _, a1) \<Rightarrow> Some (Inr (), a1)
      | Some (Inl error, a1) \<Rightarrow>
          if is_auth_error error
          then (case refresh_session os config a1 of
                  (Inl error, a2) \<Rightarrow> Some (Inl error, a2)
                | (Inr _, a2) \<Rightarrow>
                    map_option (\<lambda>(r, a3). (case r of Inl error \<Rightarrow> Inl error | Inr _ \<Rightarrow> Inr (), a3))
                      (sync_pending_operations os config a2))
          else Some (Inr (), a1))"

text \<open>One round: its result is the wait before the next one, or the error that ends the program.\<close>

definition agent_round ::
  "('x, 'f) surroundings \<Rightarrow> agent_config \<Rightarrow> ('x, 'f) agent \<Rightarrow> ((anyhow + u64) \<times> ('x, 'f) agent) option" where
  "agent_round os config a =
     (case act_bind (heartbeat_phase os config) (\<lambda>response.
             act_bind (release_phase os config) (\<lambda>_. act_return (Inr response))) a of
        (Inl error, a1) \<Rightarrow> Some (Inl error, a1)
      | (Inr response, a1) \<Rightarrow>
          map_option (\<lambda>(r, a2).
            (case r of
               Inl error \<Rightarrow> Inl error
             | Inr _ \<Rightarrow> Inr (max (nhr_next_heartbeat_after_seconds response) (ac_heartbeat_interval_seconds config)), a2))
            (operation_phase os config a1))"

subsection \<open>What actions leave unchanged\<close>

definition act_keeps :: "(('x, 'f) agent \<Rightarrow> 'v) \<Rightarrow> ('a, 'x, 'f) act \<Rightarrow> bool" where
  "act_keeps v m \<longleftrightarrow> (\<forall>a. v (snd (m a)) = v a)"

named_theorems keeps_intros \<open>what an action leaves unchanged\<close>

lemma act_keepsD: "act_keeps v m \<Longrightarrow> m a = (r, a') \<Longrightarrow> v a' = v a"
  unfolding act_keeps_def by (metis snd_conv)

lemma act_keepsI: "(\<And>a r a'. m a = (r, a') \<Longrightarrow> v a' = v a) \<Longrightarrow> act_keeps v m"
  unfolding act_keeps_def by (metis prod.collapse)

lemma keeps_return [keeps_intros]: "act_keeps v (act_return r)"
  by (simp add: act_keeps_def act_return_def)

lemma keeps_bind [keeps_intros]:
  assumes "act_keeps v m" "\<And>x. act_keeps v (k x)"
  shows "act_keeps v (act_bind m k)"
proof (rule act_keepsI)
  fix a r a'
  assume "act_bind m k a = (r, a')"
  then show "v a' = v a"
    using act_keepsD [OF assms(1), of a] act_keepsD [OF assms(2)]
    by (cases "m a"; cases "fst (m a)") (auto simp: act_bind_def)
qed

lemma keeps_context [keeps_intros]: "act_keeps v m \<Longrightarrow> act_keeps v (act_context c m)"
  by (auto simp: act_keeps_def act_context_def split: prod.splits sum.splits) (metis snd_conv)+

lemma keeps_attempt [keeps_intros]: "act_keeps v m \<Longrightarrow> act_keeps v (act_attempt m)"
  by (auto simp: act_keeps_def act_attempt_def split: prod.splits) (metis snd_conv)

lemma keeps_get [keeps_intros]: "act_keeps v (act_get f)"
  by (simp add: act_keeps_def act_get_def)

lemma keeps_modify: "(\<And>a. v (f a) = v a) \<Longrightarrow> act_keeps v (act_modify f)"
  by (simp add: act_keeps_def act_modify_def)

lemma keeps_outside: "(\<And>a x. v (a\<lparr>ag_out := x\<rparr>) = v a) \<Longrightarrow> act_keeps v (act_outside f)"
  by (simp add: act_keeps_def act_outside_def split: prod.split)

lemma keeps_if [keeps_intros]: "act_keeps v m \<Longrightarrow> act_keeps v m' \<Longrightarrow> act_keeps v (if c then m else m')"
  by simp

lemma keeps_option [keeps_intros]:
  "act_keeps v m \<Longrightarrow> (\<And>y. act_keeps v (f y)) \<Longrightarrow> act_keeps v (case x of None \<Rightarrow> m | Some y \<Rightarrow> f y)"
  by (simp split: option.split)

lemma keeps_sum [keeps_intros]:
  "(\<And>y. act_keeps v (f y)) \<Longrightarrow> (\<And>y. act_keeps v (g y)) \<Longrightarrow> act_keeps v (case x of Inl y \<Rightarrow> f y | Inr y \<Rightarrow> g y)"
  by (simp split: sum.split)

text \<open>
  The memory of the agent is only touched where the code assigns to it, a file only where it is
  written.
\<close>

definition memory :: "('x, 'f) agent \<Rightarrow> registration_metadata \<times> local_agent_state \<times> agent_session" where
  "memory a = (ag_registration a, ag_state a, ag_session a)"

definition file_at :: "string \<Rightarrow> ('x, 'f) agent \<Rightarrow> 'f option" where
  "file_at p a = ag_files a p"

lemma keeps_fs [keeps_intros]:
  "act_keeps memory (fs_write os path contents)" "act_keeps memory (fs_read os path)"
  "act_keeps memory (fs_create_dir_all os path)" "act_keeps (file_at p) (fs_read os path)"
  "act_keeps (file_at p) (fs_create_dir_all os path)"
  by (auto simp: act_keeps_def fs_write_def fs_read_def fs_create_dir_all_def memory_def file_at_def
      split: option.split prod.split)

lemma keeps_fs_write: "p \<noteq> path \<Longrightarrow> act_keeps (file_at p) (fs_write os path contents)"
  by (auto simp: act_keeps_def fs_write_def file_at_def split: option.split prod.split)

lemma keeps_outside_agent [keeps_intros]:
  "act_keeps memory (act_outside f)" "act_keeps (file_at p) (act_outside f)"
  by (simp_all add: keeps_outside memory_def file_at_def)

lemma keeps_json [keeps_intros]:
  "act_keeps memory (get_json send url token)" "act_keeps memory (post_json send' url body token)"
  "act_keeps (file_at p) (get_json send url token)" "act_keeps (file_at p) (post_json send' url body token)"
  unfolding get_json_def post_json_def by (intro keeps_intros)+

lemma keeps_write_json [keeps_intros]:
  "act_keeps memory (write_json os path body c c')"
  "p \<noteq> path \<Longrightarrow> act_keeps (file_at p) (write_json os path body c c')"
  unfolding write_json_def by (intro keeps_intros keeps_fs_write; assumption)+

lemma keeps_report [keeps_intros]:
  "act_keeps memory (report_release_status os config i st ver msg)"
  "act_keeps (file_at p) (report_release_status os config i st ver msg)"
  unfolding report_release_status_def by (intro keeps_intros)+

lemma keeps_copy [keeps_intros]:
  "act_keeps memory (copy_staged os what source target)"
  "p \<noteq> target \<Longrightarrow> act_keeps (file_at p) (copy_staged os what source target)"
  unfolding copy_staged_def by (intro keeps_intros keeps_fs_write; assumption)+

lemma keeps_health [keeps_intros]:
  "act_keeps memory (health_attempts os config url n k err)"
  "act_keeps (file_at p) (health_attempts os config url n k err)"
  by (induction k arbitrary: n err) (auto intro!: keeps_intros)

lemma keeps_apply [keeps_intros]:
  "act_keeps memory (apply_release_package os config package artifacts)"
  "act_keeps (file_at p) (apply_release_package os config package artifacts)"
  unfolding apply_release_package_def run_apply_command_def run_healthcheck_def Let_def
  by (intro keeps_intros)+

lemma keeps_persist_artifacts [keeps_intros]:
  "act_keeps memory (persist_release_artifacts os config package)"
  unfolding persist_release_artifacts_def Let_def by (intro keeps_intros)

lemma keeps_activate [keeps_intros]:
  "act_keeps memory (activate_release_artifacts os config package artifacts)"
  unfolding activate_release_artifacts_def by (intro keeps_intros)

subsection \<open>Successful actions\<close>

lemma act_return_iff [simp]: "act_return r a = (r', a') \<longleftrightarrow> r = r' \<and> a = a'"
  by (auto simp: act_return_def)

lemma act_bind_Inr: "act_bind m k a = (Inr y, a') \<longleftrightarrow> (\<exists>x a1. m a = (Inr x, a1) \<and> k x a1 = (Inr y, a'))"
  by (auto simp: act_bind_def split: prod.splits sum.splits)

lemma act_bind_Inl: "act_bind m k a = (Inl e, a') \<longleftrightarrow>
    m a = (Inl e, a') \<or> (\<exists>x a1. m a = (Inr x, a1) \<and> k x a1 = (Inl e, a'))"
  by (auto simp: act_bind_def split: prod.splits sum.splits)

lemma act_context_Inr: "act_context c m a = (Inr x, a') \<longleftrightarrow> m a = (Inr x, a')"
  by (auto simp: act_context_def split: prod.splits sum.splits)

lemma act_attempt_iff: "act_attempt m a = (r, a') \<longleftrightarrow> (\<exists>x. r = Inr x \<and> m a = (x, a'))"
  by (auto simp: act_attempt_def split: prod.splits)

lemma act_get_iff [simp]: "act_get f a = (r, a') \<longleftrightarrow> r = Inr (f a) \<and> a' = a"
  by (auto simp: act_get_def)

lemma act_modify_iff [simp]: "act_modify f a = (r, a') \<longleftrightarrow> r = Inr () \<and> a' = f a"
  by (auto simp: act_modify_def)

lemma fs_write_Inr: "fs_write os path f a = (Inr u, a') \<Longrightarrow> file_at path a' = Some f"
  by (auto simp: fs_write_def file_at_def split: option.splits prod.splits)

lemma fs_read_Inr: "fs_read os path a = (Inr r, a') \<Longrightarrow> file_at path a = r"
  by (auto simp: fs_read_def file_at_def split: option.splits prod.splits)

lemmas act_iffs = act_bind_Inr act_context_Inr act_attempt_iff

lemma write_json_Inr:
  "write_json os path body c c' a = (Inr u, a') \<Longrightarrow> \<exists>f. body = Inr f \<and> file_at path a' = Some f"
  by (auto simp: write_json_def act_iffs split: sum.splits dest: fs_write_Inr)

lemma copy_staged_Inr:
  "copy_staged os what source target a = (Inr u, a') \<Longrightarrow> source \<noteq> target \<Longrightarrow>
     file_at target a' = file_at source a \<and> file_at source a \<noteq> None"
  by (auto simp: copy_staged_def act_iffs ok_or_def split: option.splits dest!: fs_write_Inr fs_read_Inr)

subsection \<open>Paths\<close>

lemma suffix_differ: "suffix x s \<Longrightarrow> suffix y t \<Longrightarrow> \<not> suffix x y \<Longrightarrow> \<not> suffix y x \<Longrightarrow> s \<noteq> t"
  by (metis suffix_same_cases)

text \<open>Paths are different when they end in names none of which ends in another.\<close>

lemma distinct_by_suffix:
  "list_all2 suffix names paths \<Longrightarrow> sorted_wrt (\<lambda>x y. \<not> suffix x y \<and> \<not> suffix y x) names \<Longrightarrow> distinct paths"
proof (induction rule: list_all2_induct)
  case (Cons name names path paths)
  have "path \<notin> set paths"
  proof
    assume "path \<in> set paths"
    then obtain n where "n \<in> set names" "suffix n path"
      using Cons.hyps(2) by (metis in_set_conv_nth list_all2_conv_all_nth)
    with Cons.hyps(1) Cons.prems show False by (auto dest: suffix_differ)
  qed
  with Cons show ?case by simp
qed simp

lemma path_join_suffix: "\<not> starts_with ''/'' name \<Longrightarrow> suffix name (path_join base name)"
  by (auto simp: path_join_def suffix_def)

lemma path_join_slash:
  "\<not> starts_with ''/'' name \<Longrightarrow> base \<noteq> [] \<Longrightarrow> suffix (CHR ''/'' # name) (path_join base name)"
  by (auto simp: path_join_def suffix_def) (metis append_butlast_last_id append_eq_Cons_conv append_Cons self_append_conv2 append.assoc)

lemma path_join_nonempty: "name \<noteq> [] \<or> base \<noteq> [] \<Longrightarrow> path_join base name \<noteq> []"
  by (auto simp: path_join_def starts_with_def)

definition staged_paths :: "release_artifacts \<Rightarrow> string list" where
  "staged_paths artifacts = [ra_package_path artifacts, ra_manifest_path artifacts, ra_rendered_config_path artifacts,
     ra_certificates_path artifacts]"

definition current_paths :: "agent_config \<Rightarrow> string list" where
  "current_paths config = [current_release_version_path config, current_manifest_path config,
     current_rendered_config_path config, current_certificates_path config]"

lemma paths_distinct: "distinct (current_paths config @ staged_paths (release_artifacts_of config version))"
proof -
  have dir: "path_join (releases_dir config) version \<noteq> []"
    by (simp add: releases_dir_def path_join_nonempty)
  note rel = path_join_slash [OF _ dir]
  let ?a = "release_artifacts_of config version"
  have staged: "suffix ''/package.json'' (ra_package_path ?a)" "suffix ''/manifest.json'' (ra_manifest_path ?a)"
    "suffix ''/rendered-config.json'' (ra_rendered_config_path ?a)" "suffix ''/certificates.json'' (ra_certificates_path ?a)"
    by (simp_all add: release_artifacts_of_def Let_def rel starts_with_def)
  have current: "suffix ''current-release-version'' (current_release_version_path config)"
    "suffix ''current-manifest.json'' (current_manifest_path config)"
    "suffix ''current-rendered-config.json'' (current_rendered_config_path config)"
    "suffix ''current-certificates.json'' (current_certificates_path config)"
    by (simp_all add: agent_paths path_join_suffix starts_with_def)
  let ?names = "[''current-release-version'', ''current-manifest.json'', ''current-rendered-config.json'',
    ''current-certificates.json'', ''/package.json'', ''/manifest.json'', ''/rendered-config.json'', ''/certificates.json'']"
  have "list_all2 suffix ?names (current_paths config @ staged_paths ?a)"
    by (simp add: current_paths_def staged_paths_def staged current)
  moreover have "sorted_wrt (\<lambda>x y. \<not> suffix x y \<and> \<not> suffix y x) ?names" by (simp add: suffix_def)
  ultimately show ?thesis by (rule distinct_by_suffix)
qed

subsection \<open>Installing a release\<close>

lemma persist_release_artifacts_Inr:
  assumes "persist_release_artifacts os config package a = (Inr artifacts, a')"
  shows "artifacts = release_artifacts_of config (cfr_release_version package)"
    and "\<exists>f. ow_value os (cfr_manifest package) = Inr f \<and> file_at (ra_manifest_path artifacts) a' = Some f"
    and "\<exists>f. ow_value os (cfr_rendered_config package) = Inr f \<and> file_at (ra_rendered_config_path artifacts) a' = Some f"
    and "\<exists>f. ow_value os (cfr_certificates package) = Inr f \<and> file_at (ra_certificates_path artifacts) a' = Some f"
proof -
  let ?r = "release_artifacts_of config (cfr_release_version package)"
  from assms obtain a2 a3 a4 c1 d1 c2 d2 c3 d3 where steps:
    "write_json os (ra_manifest_path ?r) (ow_value os (cfr_manifest package)) c1 d1 a2 = (Inr (), a3)"
    "write_json os (ra_rendered_config_path ?r) (ow_value os (cfr_rendered_config package)) c2 d2 a3 = (Inr (), a4)"
    "write_json os (ra_certificates_path ?r) (ow_value os (cfr_certificates package)) c3 d3 a4 = (Inr (), a')"
    and artifacts: "artifacts = ?r"
    by (fastforce simp: persist_release_artifacts_def Let_def act_iffs)
  show "artifacts = ?r" by (fact artifacts)
  from paths_distinct [of config "cfr_release_version package"]
  have d: "ra_manifest_path ?r \<noteq> ra_rendered_config_path ?r" "ra_manifest_path ?r \<noteq> ra_certificates_path ?r"
    "ra_rendered_config_path ?r \<noteq> ra_certificates_path ?r"
    by (auto simp: staged_paths_def)
  have keep: "p \<noteq> ra_rendered_config_path ?r \<Longrightarrow> file_at p a4 = file_at p a3"
    "p \<noteq> ra_certificates_path ?r \<Longrightarrow> file_at p a' = file_at p a4" for p
    using act_keepsD [OF keeps_write_json(2) steps(2)] act_keepsD [OF keeps_write_json(2) steps(3)] by blast+
  show "\<exists>f. ow_value os (cfr_manifest package) = Inr f \<and> file_at (ra_manifest_path artifacts) a' = Some f"
    using write_json_Inr [OF steps(1)] d by (simp add: artifacts keep)
  show "\<exists>f. ow_value os (cfr_rendered_config package) = Inr f \<and> file_at (ra_rendered_config_path artifacts) a' = Some f"
    using write_json_Inr [OF steps(2)] d by (simp add: artifacts keep)
  show "\<exists>f. ow_value os (cfr_certificates package) = Inr f \<and> file_at (ra_certificates_path artifacts) a' = Some f"
    using write_json_Inr [OF steps(3)] by (simp add: artifacts)
qed

lemma activate_release_artifacts_Inr:
  assumes "activate_release_artifacts os config package artifacts a = (Inr u, a')"
    and "distinct (current_paths config @ staged_paths artifacts)"
  shows "file_at (current_release_version_path config) a' = Some (ow_text os (cfr_release_version package))"
    and "file_at (current_manifest_path config) a' = file_at (ra_manifest_path artifacts) a"
    and "file_at (current_rendered_config_path config) a' = file_at (ra_rendered_config_path artifacts) a"
    and "file_at (current_certificates_path config) a' = file_at (ra_certificates_path artifacts) a"
proof -
  from assms(1) obtain a1 a2 a3 where steps:
    "fs_write os (current_release_version_path config) (ow_text os (cfr_release_version package)) a = (Inr (), a1)"
    "copy_staged os ''manifest'' (ra_manifest_path artifacts) (current_manifest_path config) a1 = (Inr (), a2)"
    "copy_staged os ''rendered config'' (ra_rendered_config_path artifacts) (current_rendered_config_path config) a2 = (Inr (), a3)"
    "copy_staged os ''certificates'' (ra_certificates_path artifacts) (current_certificates_path config) a3 = (Inr (), a')"
    by (auto simp: activate_release_artifacts_def act_iffs)
  have keep: "p \<noteq> current_release_version_path config \<Longrightarrow> file_at p a1 = file_at p a"
    "p \<noteq> current_manifest_path config \<Longrightarrow> file_at p a2 = file_at p a1"
    "p \<noteq> current_rendered_config_path config \<Longrightarrow> file_at p a3 = file_at p a2"
    "p \<noteq> current_certificates_path config \<Longrightarrow> file_at p a' = file_at p a3" for p
    using act_keepsD [OF keeps_fs_write steps(1)] act_keepsD [OF keeps_copy(2) steps(2)]
      act_keepsD [OF keeps_copy(2) steps(3)] act_keepsD [OF keeps_copy(2) steps(4)] by blast+
  note d = assms(2) [unfolded current_paths_def staged_paths_def, simplified]
  show "file_at (current_release_version_path config) a' = Some (ow_text os (cfr_release_version package))"
    using d by (simp add: keep fs_write_Inr [OF steps(1)])
  show "file_at (current_manifest_path config) a' = file_at (ra_manifest_path artifacts) a"
    using d copy_staged_Inr [OF steps(2)] by (auto simp: keep)
  show "file_at (current_rendered_config_path config) a' = file_at (ra_rendered_config_path artifacts) a"
    using d copy_staged_Inr [OF steps(3)] by (auto simp: keep)
  show "file_at (current_certificates_path config) a' = file_at (ra_certificates_path artifacts) a"
    using d copy_staged_Inr [OF steps(4)] by (auto simp: keep)
qed

lemma get_json_Inr:
  "get_json send url token a = (Inr x, a') \<Longrightarrow>
     parse_response (''failed GET '' @ url) (fst (send url token (ag_out a))) = Inr x"
  by (auto simp: get_json_def act_iffs act_outside_def split: prod.splits)

lemma keeps_acknowledge [keeps_intros]:
  "act_keeps memory (acknowledge_release os config package msg)"
  "act_keeps (file_at p) (acknowledge_release os config package msg)"
  unfolding acknowledge_release_def by (intro keeps_intros)+

text \<open>
  The steps of a successful installation: the package the hub sent is staged, applied, made current and
  acknowledged.
\<close>

lemma install_release_steps:
  assumes "install_release os config latest a = (Inr action, a')"
  obtains package artifacts b1 b2 b3 b4 b5 b6 b7 x1 x2 st ver msg st' ver' msg' message where
    "report_release_status os config (lrr_release_id latest) st ver msg a = (Inr x1, b1)"
    "get_json (os_get_package os) (ac_hub_base_url config @ lrr_download_url latest) (bearer b1) b1 = (Inr package, b2)"
    "persist_release_artifacts os config package b2 = (Inr artifacts, b3)"
    "report_release_status os config (lrr_release_id latest) st' ver' msg' b3 = (Inr x2, b4)"
    "apply_release_package os config package artifacts b4 = (Inr message, b5)"
    "activate_release_artifacts os config package artifacts b5 = (Inr (), b6)"
    "acknowledge_release os config package (Some message)
       (b6\<lparr>ag_state := activated_state latest package (ag_state b6)\<rparr>) = (Inr (), b7)"
    "persist_state os config (b7\<lparr>ag_state := (ag_state b7)
       \<lparr>la_last_acknowledged_release_id := Some (cfr_release_id package)\<rparr>\<rparr>) = (Inr (), a')"
    "action = Applied (cfr_release_version package)"
proof -
  from assms obtain pv package artifacts b4 applied b5 where stage:
    "stage_release os config latest a = (Inr (pv, package, artifacts), b4)"
    "apply_release_package os config package artifacts b4 = (applied, b5)"
    and rest: "(case applied of
         Inl error \<Rightarrow> reject_release os config latest pv package error
       | Inr apply_message \<Rightarrow> complete_release os config latest package artifacts apply_message) b5 = (Inr action, a')"
    by (auto simp: install_release_def act_iffs)
  from stage(1) obtain x1 b1 b2 b3 x2 where steps:
    "report_release_status os config (lrr_release_id latest) ''downloading''
       (reported_current_version (ag_state a) (lrr_release_version latest))
       (Some (''node-agent downloading '' @ lrr_release_version latest)) a = (Inr x1, b1)"
    "get_json (os_get_package os) (ac_hub_base_url config @ lrr_download_url latest) (bearer b1) b1 = (Inr package, b2)"
    "persist_release_artifacts os config package b2 = (Inr artifacts, b3)"
    "report_release_status os config (lrr_release_id latest) ''applying''
       (reported_current_version (ag_state a) (lrr_release_version latest))
       (Some (''release artifacts staged at '' @ ra_release_dir artifacts @ ''; starting apply pipeline'')) b3 = (Inr x2, b4)"
    unfolding stage_release_def act_bind_Inr act_get_iff act_return_iff by blast
  show thesis
  proof (cases applied)
    case (Inl error)
    with rest show ?thesis by (auto simp: reject_release_def act_iffs)
  next
    case (Inr message)
    with rest obtain b6 b7 where
      "activate_release_artifacts os config package artifacts b5 = (Inr (), b6)"
      "acknowledge_release os config package (Some message)
         (b6\<lparr>ag_state := activated_state latest package (ag_state b6)\<rparr>) = (Inr (), b7)"
      "persist_state os config (b7\<lparr>ag_state := (ag_state b7)
         \<lparr>la_last_acknowledged_release_id := Some (cfr_release_id package)\<rparr>\<rparr>) = (Inr (), a')"
      "action = Applied (cfr_release_version package)"
      by (auto simp: complete_release_def act_iffs)
    with steps stage(2) Inr show ?thesis by (intro that [of _ _ _ _ _ package b2 artifacts]) simp_all
  qed
qed

lemma persist_state_Inr:
  "persist_state os config a = (Inr u, a') \<Longrightarrow>
     memory a' = memory a \<and> (\<exists>f. ow_state os (ag_state a) = Inr f \<and> file_at (ac_state_path config) a' = Some f)"
  by (auto simp: persist_state_def act_iffs dest: write_json_Inr act_keepsD [OF keeps_write_json(1)])

lemma keeps_persist_state [keeps_intros]:
  "act_keeps memory (persist_state os config)"
  "p \<noteq> ac_state_path config \<Longrightarrow> act_keeps (file_at p) (persist_state os config)"
  unfolding persist_state_def by (intro keeps_intros; assumption)+

lemma sync_latest_release_cases:
  assumes "sync_latest_release os config a = (r, a')"
  obtains error where "r = Inr NoRelease \<or> r = Inl error" "memory a' = memory a" "\<And>p. file_at p a' = file_at p a"
  | latest a1 where "parse_response (''failed GET '' @ latest_release_url os config (rg_node_id (ag_registration a)))
        (fst (os_get_latest os (latest_release_url os config (rg_node_id (ag_registration a))) (bearer a) (ag_out a))) = Inr latest"
      "memory a1 = memory a" "\<And>p. file_at p a1 = file_at p a"
      "if la_current_release_version (ag_state a) \<noteq> Some (lrr_release_version latest)
       then install_release os config latest a1 = (r, a')
       else if la_last_acknowledged_release_id (ag_state a) \<noteq> Some (lrr_release_id latest)
       then confirm_release os config latest a1 = (r, a')
       else r = Inr Idle \<and> a' = a1"
proof -
  let ?url = "latest_release_url os config (rg_node_id (ag_registration a))"
  obtain x a1 where get: "get_json (os_get_latest os) ?url (bearer a) a = (x, a1)" by (metis surj_pair)
  have keep: "memory a1 = memory a" "\<And>p. file_at p a1 = file_at p a"
    using act_keepsD [OF keeps_json(1) get] act_keepsD [OF keeps_json(3) get] by blast+
  have sync: "sync_latest_release os config a = (case x of
      Inl error \<Rightarrow> if is_not_found error then act_return (Inr NoRelease) else act_return (Inl error)
    | Inr latest \<Rightarrow> act_bind (act_get ag_state) (\<lambda>state.
        if la_current_release_version state \<noteq> Some (lrr_release_version latest)
        then install_release os config latest
        else if la_last_acknowledged_release_id state \<noteq> Some (lrr_release_id latest)
        then confirm_release os config latest
        else act_return (Inr Idle))) a1"
    by (simp add: sync_latest_release_def act_bind_def act_get_def act_attempt_def get)
  show thesis
  proof (cases x)
    case (Inl error)
    with sync assms keep show ?thesis by (intro that(1) [of error]) (auto simp: act_return_def split: if_splits)
  next
    case (Inr latest)
    have "ag_state a1 = ag_state a" using keep(1) by (simp add: memory_def)
    with Inr sync assms keep get_json_Inr [OF get [unfolded Inr]] show ?thesis
      by (intro that(2) [of latest a1]) (auto simp: act_bind_def act_get_def act_return_def split: if_splits)
  qed
qed

text \<open>
  C6: when the agent reports that it applied a release, the release is what the hub offered and sent, the
  apply pipeline ran on its staged files and succeeded, the files of the current release hold its
  version, manifest, configuration and certificates, and the local state, in memory and on disk,
  names it as current and acknowledged.
\<close>

theorem sync_installs_release:
  assumes "sync_latest_release os config a = (Inr (Applied version), a')"
    and "ac_state_path config \<notin> set (current_paths config)"
  shows "\<exists>latest package b b' message m r c s x.
    parse_response (''failed GET '' @ latest_release_url os config (rg_node_id (ag_registration a)))
      (fst (os_get_latest os (latest_release_url os config (rg_node_id (ag_registration a))) (bearer a) (ag_out a))) = Inr latest \<and>
    parse_response (''failed GET '' @ ac_hub_base_url config @ lrr_download_url latest)
      (fst (os_get_package os (ac_hub_base_url config @ lrr_download_url latest) (bearer a) x)) = Inr package \<and>
    version = cfr_release_version package \<and>
    apply_release_package os config package (release_artifacts_of config version) b = (Inr message, b') \<and>
    ow_value os (cfr_manifest package) = Inr m \<and> ow_value os (cfr_rendered_config package) = Inr r \<and>
    ow_value os (cfr_certificates package) = Inr c \<and>
    map (\<lambda>p. file_at p a') (current_paths config) = [Some (ow_text os version), Some m, Some r, Some c] \<and>
    ag_state a' = (activated_state latest package (ag_state a))
      \<lparr>la_last_acknowledged_release_id := Some (cfr_release_id package)\<rparr> \<and>
    ow_state os (ag_state a') = Inr s \<and> file_at (ac_state_path config) a' = Some s"
  using assms(1)
proof (cases rule: sync_latest_release_cases)
  case (2 latest a1)
  then have "install_release os config latest a1 = (Inr (Applied version), a')"
    by (auto simp: confirm_release_def act_iffs split: if_splits)
  then obtain package artifacts b1 b2 b3 b4 b5 b6 b7 x1 x2 st ver msg st' ver' msg' message where steps:
    "report_release_status os config (lrr_release_id latest) st ver msg a1 = (Inr x1, b1)"
    "get_json (os_get_package os) (ac_hub_base_url config @ lrr_download_url latest) (bearer b1) b1 = (Inr package, b2)"
    "persist_release_artifacts os config package b2 = (Inr artifacts, b3)"
    "report_release_status os config (lrr_release_id latest) st' ver' msg' b3 = (Inr x2, b4)"
    "apply_release_package os config package artifacts b4 = (Inr message, b5)"
    "activate_release_artifacts os config package artifacts b5 = (Inr (), b6)"
    "acknowledge_release os config package (Some message)
       (b6\<lparr>ag_state := activated_state latest package (ag_state b6)\<rparr>) = (Inr (), b7)"
    "persist_state os config (b7\<lparr>ag_state := (ag_state b7)
       \<lparr>la_last_acknowledged_release_id := Some (cfr_release_id package)\<rparr>\<rparr>) = (Inr (), a')"
    "Applied version = Applied (cfr_release_version package)"
    by (rule install_release_steps)
  note staged = persist_release_artifacts_Inr [OF steps(3)]
  note current = activate_release_artifacts_Inr [OF steps(6), unfolded staged(1), OF paths_distinct]
  have files: "file_at p b5 = file_at p b3" for p
    using act_keepsD [OF keeps_report(2) steps(4)] act_keepsD [OF keeps_apply(2) steps(5)] by simp
  have mem: "memory b1 = memory a" "memory b6 = memory a"
    using 2(2) act_keepsD [OF keeps_report(1) steps(1)] act_keepsD [OF keeps_json(1) steps(2)]
      act_keepsD [OF keeps_persist_artifacts steps(3)] act_keepsD [OF keeps_report(1) steps(4)]
      act_keepsD [OF keeps_apply(1) steps(5)] act_keepsD [OF keeps_activate steps(6)] by simp_all
  have b7: "ag_state b7 = activated_state latest package (ag_state a)" "file_at p b7 = file_at p b6" for p
    using act_keepsD [OF keeps_acknowledge(1) steps(7)] act_keepsD [OF keeps_acknowledge(2) steps(7)] mem(2)
    by (simp_all add: memory_def file_at_def)
  have final: "file_at p a' = file_at p b6" if "p \<in> set (current_paths config)" for p
    using act_keepsD [OF keeps_persist_state(2) steps(8), of p] that assms(2) b7(2) by (auto simp: file_at_def)
  have "map (\<lambda>p. file_at p a') (current_paths config) =
      [Some (ow_text os version), file_at (ra_manifest_path artifacts) b3, file_at (ra_rendered_config_path artifacts) b3,
       file_at (ra_certificates_path artifacts) b3]"
    using steps(9) current by (simp add: current_paths_def final [unfolded current_paths_def] staged(1) files)
  moreover have "bearer b1 = bearer a" using mem(1) by (simp add: memory_def bearer_def)
  ultimately show ?thesis
    using 2(1) get_json_Inr [OF steps(2)] steps(5,9) staged persist_state_Inr [OF steps(8)] b7(1)
    by (auto simp: memory_def)
qed (auto)

subsection \<open>A release that cannot be applied\<close>

text \<open>The apply pipeline never succeeds.\<close>

definition pipeline_fails :: "('x, 'f) surroundings \<Rightarrow> agent_config \<Rightarrow> bool" where
  "pipeline_fails os config \<longleftrightarrow>
     (\<forall>package artifacts a message a'. apply_release_package os config package artifacts a \<noteq> (Inr message, a'))"

lemma command_output_Inr: "command_output t f e outcome = Inr s \<Longrightarrow> \<exists>out err. outcome = Exited (Some 0) out err"
  by (cases outcome) (auto simp: Let_def split: if_splits)

lemma health_attempts_Inr:
  "health_attempts os config url n k err a = (Inr (Inr message), a') \<Longrightarrow>
     \<exists>x status. fst (os_probe os url (ac_healthcheck_timeout_seconds config) x) = Inr status \<and>
       healthcheck_status_matches status (ac_healthcheck_expected_status config)"
proof (induction k arbitrary: n err a)
  case (Suc k)
  obtain response x' where probe:
    "os_probe os url (ac_healthcheck_timeout_seconds config) (ag_out a) = (response, x')" by (metis surj_pair)
  show ?case
  proof (cases response)
    case (Inl error)
    with Suc probe show ?thesis by (auto simp: act_iffs act_outside_def)
  next
    case (Inr status)
    show ?thesis
    proof (cases "healthcheck_status_matches status (ac_healthcheck_expected_status config)")
      case True
      with Inr probe show ?thesis by (metis fst_conv)
    next
      case False
      with Inr Suc probe show ?thesis by (auto simp: act_iffs act_outside_def)
    qed
  qed
qed simp

text \<open>
  It fails when neither a command nor an apply without one is configured, when the command never ends with
  code 0, and when no probe of the health check gets the expected status.
\<close>

lemma pipeline_failsI:
  "ac_apply_command config = None \<Longrightarrow> \<not> ac_allow_noop_apply config \<Longrightarrow> pipeline_fails os config"
  "ac_apply_command config = Some command \<Longrightarrow> trim command \<noteq> [] \<Longrightarrow>
     (\<And>cmd vars t x out err. fst (os_shell os cmd vars t x) \<noteq> Exited (Some 0) out err) \<Longrightarrow> pipeline_fails os config"
  "ac_healthcheck_url config = Some url \<Longrightarrow>
     (\<And>x status. fst (os_probe os url (ac_healthcheck_timeout_seconds config) x) = Inr status \<Longrightarrow>
        \<not> healthcheck_status_matches status (ac_healthcheck_expected_status config)) \<Longrightarrow> pipeline_fails os config"
proof -
  assume "ac_apply_command config = None" "\<not> ac_allow_noop_apply config"
  then show "pipeline_fails os config"
    by (simp add: pipeline_fails_def apply_release_package_def ensure_apply_mode_def act_iffs)
next
  assume "ac_apply_command config = Some command" "trim command \<noteq> []"
    "\<And>cmd vars t x out err. fst (os_shell os cmd vars t x) \<noteq> Exited (Some 0) out err"
  then show "pipeline_fails os config"
    by (auto simp: pipeline_fails_def apply_release_package_def run_apply_command_def Let_def act_iffs act_outside_def
        split: prod.splits dest!: command_output_Inr) (metis fst_conv)+
next
  assume url: "ac_healthcheck_url config = Some url"
    and probe: "\<And>x status. fst (os_probe os url (ac_healthcheck_timeout_seconds config) x) = Inr status \<Longrightarrow>
        \<not> healthcheck_status_matches status (ac_healthcheck_expected_status config)"
  have "run_healthcheck os config a \<noteq> (Inr message, a')" for a message a'
  proof
    assume "run_healthcheck os config a = (Inr message, a')"
    then obtain r a1 where r: "health_attempts os config url 1 (unat (max (ac_healthcheck_retries config) 1)) [] a = (Inr r, a1)"
      "(case r of Inr m \<Rightarrow> Inr m | Inl e \<Rightarrow> Inl [''health check '' @ url @ '' failed after '' @
          nat_to_string (unat (max (ac_healthcheck_retries config) 1)) @ '' attempt(s): '' @ e]) = Inr message"
      by (simp only: run_healthcheck_def Let_def act_bind_Inr act_return_iff url ok_or_simps sum.inject) blast
    from r(2) have "r = Inr message" by (cases r) auto
    with r(1) show False using health_attempts_Inr probe by blast
  qed
  then show "pipeline_fails os config"
    using url by (auto simp: pipeline_fails_def apply_release_package_def act_iffs)
qed

text \<open>What the running release consists of: its name in the state and the files of the current release.\<close>

definition running_release :: "agent_config \<Rightarrow> ('x, 'f) agent \<Rightarrow> _" where
  "running_release config a =
     (la_current_release_id (ag_state a), la_current_release_version (ag_state a), la_current_config_hash (ag_state a),
      la_site_count (ag_state a), map (\<lambda>p. file_at p a) (current_paths config))"

lemma running_release_frame:
  "memory a' = memory a \<Longrightarrow> (\<And>p. p \<in> set (current_paths config) \<Longrightarrow> file_at p a' = file_at p a) \<Longrightarrow>
     running_release config a' = running_release config a"
  by (simp add: running_release_def memory_def current_paths_def)

lemma keeps_running_by:
  "act_keeps memory m \<Longrightarrow> (\<And>p. p \<in> set (current_paths config) \<Longrightarrow> act_keeps (file_at p) m) \<Longrightarrow>
     act_keeps (running_release config) m"
  by (rule act_keepsI, rule running_release_frame) (auto dest: act_keepsD)

lemma keeps_running_basic [keeps_intros]:
  "act_keeps (running_release config) (act_outside f)" "act_keeps (running_release config) (fs_read os path)"
  "act_keeps (running_release config) (get_json send url token)"
  "act_keeps (running_release config) (post_json send' url body token)"
  "act_keeps (running_release config) (report_release_status os config' i st ver msg)"
  "act_keeps (running_release config) (apply_release_package os config' package artifacts)"
  by (rule keeps_running_by; rule keeps_intros)+

lemma keeps_running_json [keeps_intros]:
  "path \<notin> set (current_paths config) \<Longrightarrow> act_keeps (running_release config) (write_json os path body c c')"
  by (rule keeps_running_by) (auto intro: keeps_intros)

lemma keeps_running_artifacts [keeps_intros]:
  "act_keeps (running_release config) (persist_release_artifacts os config package)"
proof (rule keeps_running_by)
  fix p
  assume "p \<in> set (current_paths config)"
  then have "p \<notin> set (staged_paths (release_artifacts_of config (cfr_release_version package)))"
    using paths_distinct [of config "cfr_release_version package"] by auto
  then show "act_keeps (file_at p) (persist_release_artifacts os config package)"
    unfolding persist_release_artifacts_def Let_def staged_paths_def by (intro keeps_intros) auto
qed (rule keeps_intros)

lemma keeps_failing:
  assumes "\<And>a x a'. m a \<noteq> (Inr x, a')" "act_keeps v m" "\<And>e. act_keeps v (k (Inl e))"
  shows "act_keeps v (act_bind (act_attempt m) k)"
proof (rule act_keepsI)
  fix a r a'
  assume bind: "act_bind (act_attempt m) k a = (r, a')"
  obtain e a1 where "m a = (Inl e, a1)" using assms(1) [of a] by (cases "m a"; cases "fst (m a)") auto
  with bind have "k (Inl e) a1 = (r, a')" "v a1 = v a"
    using act_keepsD [OF assms(2)] by (auto simp: act_bind_def act_attempt_def)
  then show "v a' = v a" using act_keepsD [OF assms(3)] by auto
qed

lemma keeps_running_install:
  assumes "pipeline_fails os config"
  shows "act_keeps (running_release config) (install_release os config latest)"
proof -
  have stage: "act_keeps (running_release config) (stage_release os config latest)"
    and reject: "act_keeps (running_release config) (reject_release os config latest pv package error)" for pv package error
    unfolding stage_release_def reject_release_def by (intro keeps_intros)+
  have "act_keeps (running_release config)
      (act_bind (act_attempt (apply_release_package os config package artifacts)) (\<lambda>applied. case applied of
         Inl error \<Rightarrow> reject_release os config latest pv package error
       | Inr message \<Rightarrow> complete_release os config latest package artifacts message))" for pv package artifacts
    using assms by (intro keeps_failing) (auto simp: pipeline_fails_def reject intro: keeps_intros)
  then show ?thesis unfolding install_release_def by (intro keeps_bind stage) (simp split: prod.split)
qed

lemma keeps_running_modify [keeps_intros]:
  "act_keeps (running_release config) (act_modify (\<lambda>a. a\<lparr>ag_registration := f a\<rparr>))"
  "act_keeps (running_release config) (act_modify (\<lambda>a. a\<lparr>ag_session := g a\<rparr>))"
  "act_keeps (running_release config) (act_modify (\<lambda>a. a\<lparr>ag_state := (ag_state a)\<lparr>la_last_acknowledged_release_id := i\<rparr>\<rparr>))"
  "act_keeps (running_release config) (act_modify (\<lambda>a. a\<lparr>ag_state := (ag_state a)\<lparr>la_last_heartbeat_at := t\<rparr>\<rparr>))"
  by (rule keeps_modify; simp add: running_release_def current_paths_def file_at_def)+

definition separate_paths :: "agent_config \<Rightarrow> bool" where
  "separate_paths config \<longleftrightarrow> ac_state_path config \<notin> set (current_paths config) \<and>
     ac_registration_path config \<notin> set (current_paths config)"

lemma keeps_running_phases:
  assumes "pipeline_fails os config" "separate_paths config"
  shows "act_keeps (running_release config) (sync_latest_release os config)"
    and "act_keeps (running_release config) (refresh_session os config)"
    and "act_keeps (running_release config) (heartbeat_phase os config)"
    and "act_keeps (running_release config) (release_phase os config)"
proof -
  have sep: "ac_state_path config \<notin> set (current_paths config)" "ac_registration_path config \<notin> set (current_paths config)"
    using assms(2) by (simp_all add: separate_paths_def)
  show sync: "act_keeps (running_release config) (sync_latest_release os config)"
    unfolding sync_latest_release_def confirm_release_def persist_state_def
    by (intro keeps_intros keeps_running_install assms sep)
  show refresh: "act_keeps (running_release config) (refresh_session os config)"
    unfolding refresh_session_def persist_registration_def by (intro keeps_intros sep)
  show "act_keeps (running_release config) (heartbeat_phase os config)"
    unfolding heartbeat_phase_def agent_heartbeat_def persist_state_def by (intro keeps_intros refresh sep)
  show "act_keeps (running_release config) (release_phase os config)"
    unfolding release_phase_def by (intro keeps_intros sync refresh)
qed

lemma keeps_running_operation [keeps_intros]:
  "act_keeps (running_release config) (next_operation os config')"
  "act_keeps (running_release config) (execute_operation os config' operation)"
  unfolding next_operation_def execute_operation_def run_node_operation_def Let_def
  by (auto intro!: keeps_intros split: prod.split)

lemma pending_operations_running:
  "pending_operations os config executed a = Some y \<Longrightarrow> running_release config (snd y) = running_release config a"
proof (induction rule: pending_operations.raw_induct [rotated, consumes 1, case_names step])
  case (step f os config executed a y)
  obtain r a1 where n: "next_operation os config a = (r, a1)" by (metis surj_pair)
  note next_keep = act_keepsD [OF keeps_running_operation(1) n]
  show ?case
  proof (cases r)
    case (Inl error)
    with n step(2) next_keep show ?thesis by auto
  next
    case (Inr operation)
    obtain r2 a2 where x: "execute_operation os config operation a1 = (r2, a2)" by (metis surj_pair)
    note act_keepsD [OF keeps_running_operation(2) x]
    with n x Inr step next_keep show ?thesis by (cases r2) auto
  qed
qed

lemma sync_pending_running:
  "sync_pending_operations os config a = Some (r, a') \<Longrightarrow> running_release config a' = running_release config a"
  using pending_operations_running by (fastforce simp: sync_pending_operations_def)

text \<open>
  C5: a node on which releases cannot be applied (the apply command fails or runs out of time, or the
  health check does not pass) keeps the release it runs: a round of the agent, however it ends, leaves
  the name of the running release and all its files as they were.
\<close>

theorem failed_apply_keeps_release:
  assumes "pipeline_fails os config" "separate_paths config"
    and "agent_round os config a = Some (r, a')"
  shows "running_release config a' = running_release config a"
proof -
  note keep = keeps_running_phases [OF assms(1,2)]
  obtain r1 a1 where first: "act_bind (heartbeat_phase os config) (\<lambda>response.
      act_bind (release_phase os config) (\<lambda>_. act_return (Inr response))) a = (r1, a1)" by (metis surj_pair)
  have "act_keeps (running_release config) (act_bind (heartbeat_phase os config) (\<lambda>response.
      act_bind (release_phase os config) (\<lambda>_. act_return (Inr response))))"
    by (intro keeps_intros keep)
  then have a1: "running_release config a1 = running_release config a" using first by (rule act_keepsD)
  have phase: "running_release config a3 = running_release config a2"
    if "operation_phase os config a2 = Some (r3, a3)" for a2 r3 a3
    using that act_keepsD [OF keep(2)]
    by (auto simp: operation_phase_def split: option.splits sum.splits if_splits prod.splits
        dest!: sync_pending_running) (metis obj_sumE sync_pending_running)
  show ?thesis
    using assms(3) first a1 phase
    by (auto simp: agent_round_def split: sum.splits) (metis obj_sumE old.unit.exhaust)
qed

subsection \<open>The loop over the operations ends\<close>

text \<open>A hub that hands out finitely many operations: \<open>left x\<close> counts those it may still hand out.\<close>

definition hands_out :: "('x, 'f) surroundings \<Rightarrow> ('x \<Rightarrow> nat) \<Rightarrow> bool" where
  "hands_out os left \<longleftrightarrow>
     (\<forall>url token x operation x'. parse_response (''failed GET '' @ url) (fst (os_get_pending os url token x)) = Inr operation \<longrightarrow>
        snd (os_get_pending os url token x) = x' \<longrightarrow> left x' < left x) \<and>
     (\<forall>cmd vars t x. left (snd (os_shell os cmd vars t x)) \<le> left x) \<and>
     (\<forall>x. left (snd (os_now os x)) \<le> left x) \<and>
     (\<forall>url request token x. left (snd (os_post_result os url request token x)) \<le> left x)"

definition act_shrinks :: "('x \<Rightarrow> nat) \<Rightarrow> ('a, 'x, 'f) act \<Rightarrow> bool" where
  "act_shrinks left m \<longleftrightarrow> (\<forall>a. left (ag_out (snd (m a))) \<le> left (ag_out a))"

lemma shrinks_bind: "act_shrinks left m \<Longrightarrow> (\<And>x. act_shrinks left (k x)) \<Longrightarrow> act_shrinks left (act_bind m k)"
  unfolding act_shrinks_def act_bind_def
  by (auto split: prod.split sum.split) (metis le_trans snd_conv)+

lemma shrinks_simple:
  "act_shrinks left (act_return r)" "act_shrinks left (act_get f)"
  "act_shrinks left m \<Longrightarrow> act_shrinks left (act_attempt m)"
  "(\<And>x. left (snd (g x)) \<le> left x) \<Longrightarrow> act_shrinks left (act_outside g)"
  by (auto simp: act_shrinks_def act_return_def act_get_def act_attempt_def act_outside_def split: prod.split)
    (metis snd_conv)+

lemma execute_operation_shrinks:
  assumes "hands_out os left"
  shows "act_shrinks left (execute_operation os config operation)"
proof -
  have "act_shrinks left (run_node_operation os operation)"
    using assms by (auto simp: run_node_operation_def Let_def hands_out_def intro!: shrinks_bind shrinks_simple)
  then show ?thesis
    using assms
    by (auto simp: execute_operation_def post_json_def hands_out_def intro!: shrinks_bind shrinks_simple split: prod.split)
qed

text \<open>
  C27: against a hub that hands out finitely many operations the loop over the pending operations ends,
  with the number of executed operations or an error.
\<close>

theorem sync_pending_operations_ends:
  assumes "hands_out os left"
  shows "\<exists>r a'. sync_pending_operations os config a = Some (r, a')"
proof -
  have "\<exists>y. pending_operations os config executed a = Some y" for executed
  proof (induction "left (ag_out a)" arbitrary: executed a rule: less_induct)
    case less
    obtain r a1 where n: "next_operation os config a = (r, a1)" by (metis surj_pair)
    show ?case
    proof (cases r)
      case (Inl error)
      with n show ?thesis by (subst pending_operations.simps) simp
    next
      case (Inr operation)
      have "left (ag_out a1) < left (ag_out a)"
        using n Inr assms
        by (auto simp: next_operation_def get_json_def act_bind_def act_get_def act_outside_def act_return_def hands_out_def
            split: prod.splits) (metis fst_conv snd_conv)
      moreover obtain r2 a2 where x: "execute_operation os config operation a1 = (r2, a2)" by (metis surj_pair)
      moreover have "left (ag_out a2) \<le> left (ag_out a1)"
        using execute_operation_shrinks [OF assms, of config operation] x by (metis act_shrinks_def snd_conv)
      ultimately show ?thesis
        using n Inr less [of a2 "executed + 1"]
        by (subst pending_operations.simps) (auto split: sum.split)
    qed
  qed
  then show ?thesis by (metis sync_pending_operations_def surj_pair)
qed

subsection \<open>Examples\<close>

text \<open>
  A machine on which everything works; outside is the number of operations the hub may still hand
  out.
\<close>

definition sample_latest :: latest_release_response where
  "sample_latest = \<lparr>lrr_release_id = 30, lrr_release_version = ''v1'', lrr_config_hash = ''abc'', lrr_download_url = ''/p''\<rparr>"

definition sample_package :: config_package_response where
  "sample_package = \<lparr>cfr_release_id = 30, cfr_release_version = ''v1'',
     cfr_manifest = JObject [(''sites'', JArray [JNull])], cfr_rendered_config = JNull, cfr_certificates = JArray [],
     cfr_signature = ''s''\<rparr>"

definition sample_pending :: pending_operation_response where
  "sample_pending = \<lparr>por_operation_id = 40, por_node_id = 1, por_template_id = 41, por_template_name = ''reload'', por_operation_type = ''x'',
     por_rendered_command = ''true'', por_timeout_seconds = 5, por_run_as_user = [], por_created_at = 0\<rparr>"

definition sample_machine :: "(nat, string) surroundings" where
  "sample_machine =
     \<lparr>os_post_refresh = (\<lambda>url request token x. (Send_Failed [], x)),
      os_post_heartbeat = (\<lambda>url request token x. (Http_Response 200 [] (Inr \<lparr>nhr_server_time = 0, nhr_next_heartbeat_after_seconds = 15\<rparr>), x)),
      os_get_latest = (\<lambda>url token x. (Http_Response 200 [] (Inr sample_latest), x)),
      os_get_package = (\<lambda>url token x. (Http_Response 200 [] (Inr sample_package), x)),
      os_post_ack = (\<lambda>url request token x. (Http_Response 200 [] (Inr \<lparr>rar_release_id = 30, rar_node_id = 1,
        rar_apply_status = raq_apply_status request\<rparr>), x)),
      os_get_pending = (\<lambda>url token x. if x = 0 then (Http_Response 404 [] (Inl []), x)
        else (Http_Response 200 [] (Inr sample_pending), x - 1)),
      os_post_result = (\<lambda>url request token x. (Http_Response 200 [] (Inr \<lparr>orr_operation_id = 40, orr_node_id = 1, orr_exec_status = ''success''\<rparr>), x)),
      os_probe = (\<lambda>url limit x. (Inr 503, x)), os_shell = (\<lambda>command variables limit x. (Exited (Some 0) [] [], x)),
      os_now = (\<lambda>x. (0, x)), os_faults = (\<lambda>i. None), os_env = (\<lambda>name. None), os_display_uuid = (\<lambda>u. nat_to_string (unat u)),
      os_rfc3339 = (\<lambda>t. ''t''), ow_text = (\<lambda>s. s), ow_registration = (\<lambda>r. Inr ''registration''),
      ow_state = (\<lambda>s. Inr ''state''), ow_package = (\<lambda>p. Inr ''package''), ow_value = (\<lambda>v. Inr ''value''),
      or_registration = (\<lambda>f. Inl []), or_state = (\<lambda>f. Inl [])\<rparr>"

definition sample_agent_config :: agent_config where
  "sample_agent_config = (agent_config_from_env ''0.1'' (\<lambda>name. None))\<lparr>ac_allow_noop_apply := True\<rparr>"

definition sample_agent :: "'x \<Rightarrow> ('x, string) agent" where
  "sample_agent x =
     \<lparr>ag_registration = \<lparr>rg_node_id = 1, rg_node_code = ''edge-1'', rg_hostname = ''h'', rg_private_ip = [],
        rg_refresh_token = ''node-rt-51'', rg_expires_at = [], rg_registration_mode = ''manual''\<rparr>,
      ag_state = default_agent_state, ag_session = \<lparr>se_access_token = ''node-at-50'', se_expires_at = hours 24\<rparr>,
      ag_files = (\<lambda>path. None), ag_accesses = 0, ag_out = x\<rparr>"

lemma sample_paths_separate: "separate_paths sample_agent_config"
  by code_simp

theorem sync_installs_release_witness:
  "map (\<lambda>p. file_at p (snd (sync_latest_release sample_machine sample_agent_config (sample_agent 0))))
     (current_paths sample_agent_config) = [Some ''v1'', Some ''value'', Some ''value'', Some ''value'']"
proof -
  have "case fst (sync_latest_release sample_machine sample_agent_config (sample_agent 0)) of
      Inr (Applied v) \<Rightarrow> v = ''v1'' | _ \<Rightarrow> False" by code_simp
  then obtain a' where run: "sync_latest_release sample_machine sample_agent_config (sample_agent 0) = (Inr (Applied ''v1''), a')"
    by (auto split: sum.splits sync_action.splits) (metis prod.collapse)
  have "ac_state_path sample_agent_config \<notin> set (current_paths sample_agent_config)"
    using sample_paths_separate by (simp add: separate_paths_def)
  from sync_installs_release [OF run this] show ?thesis unfolding run by (auto simp: sample_machine_def)
qed

theorem failed_apply_keeps_release_witness:
  "\<exists>r a'. agent_round sample_machine (sample_agent_config\<lparr>ac_healthcheck_url := Some ''http://h/''\<rparr>) (sample_agent 0) =
     Some (r, a') \<and> running_release sample_agent_config a' = running_release sample_agent_config (sample_agent (0 :: nat))"
proof -
  let ?config = "sample_agent_config\<lparr>ac_healthcheck_url := Some ''http://h/''\<rparr>"
  have "pipeline_fails sample_machine ?config"
    by (rule pipeline_failsI(3) [of _ "''http://h/''"])
      (auto simp: sample_machine_def sample_agent_config_def agent_config_from_env_def Let_def healthcheck_status_matches_def
        is_success_def is_redirection_def)
  moreover have "separate_paths ?config" by code_simp
  moreover have "case agent_round sample_machine ?config (sample_agent 0) of None \<Rightarrow> False | Some _ \<Rightarrow> True" by code_simp
  then obtain r a' where "agent_round sample_machine ?config (sample_agent 0) = Some (r, a')"
    by (auto split: option.splits)
  ultimately show ?thesis using failed_apply_keeps_release [of sample_machine ?config "sample_agent 0" r a']
    by (auto simp: running_release_def current_paths_def agent_paths)
qed

theorem sync_pending_operations_ends_witness:
  "\<exists>r a'. sync_pending_operations sample_machine sample_agent_config (sample_agent 3) = Some (r, a')"
proof -
  have "hands_out sample_machine (\<lambda>x. x)"
    by (auto simp: hands_out_def sample_machine_def is_success_def split: if_splits)
  then show ?thesis by (rule sync_pending_operations_ends)
qed

end
