(* ===== verification/Agent_Hub.thy ===== *)
theory Agent_Hub
  imports Hub_Http Node_Agent
begin

text \<open>
  The node agent connected to the hub: the requests of the agent are answered by the handlers of the hub.
  What the agent prints into a URL, the hub reads back; what is outside the agent is the hub and the
  number of requests it has answered, which selects the surroundings of the next one.

  Shown of the pair: a release the hub offers to a node is installed by the next synchronisation and
  acknowledged, and the one after that has nothing to do; a release that cannot be applied is
  reported as failed and the node keeps what it runs; the loop over the operations ends.
\<close>

subsection \<open>The link\<close>

record hub_link =
  hl_base :: string
  hl_env :: "nat \<Rightarrow> runtime"
  hl_request_id :: "nat \<Rightarrow> uuid"
  hl_parse_uuid :: "string \<Rightarrow> uuid option"
  hl_error_body :: "error_envelope \<Rightarrow> string"

type_synonym hub_side = "hub \<times> nat"

text \<open>\<open>bearer_auth\<close> of reqwest.\<close>

definition node_headers :: "string option \<Rightarrow> http_headers" where
  "node_headers token = \<lparr>hd_authorization = map_option (\<lambda>t. Some (''Bearer '' @ t)) token, hd_cookie = None\<rparr>"

definition link_call :: "hub_link \<Rightarrow> (runtime \<Rightarrow> hub \<Rightarrow> 'a hub_out) \<Rightarrow> hub_side \<Rightarrow> 'a http_outcome \<times> hub_side" where
  "link_call link handler = (\<lambda>(h, i).
     case handler (hl_env link i) h of
       (Inr x, h') \<Rightarrow> (Http_Response 200 [] (Inr x), (h', Suc i))
     | (Inl err, h') \<Rightarrow>
         (case app_error_into_response (hl_request_id link i) err of (status, envelope) \<Rightarrow>
            Http_Response status (hl_error_body link envelope) (Inl []), (h', Suc i)))"

text \<open>A URL no route matches.\<close>

definition link_no_route :: "hub_side \<Rightarrow> 'a http_outcome \<times> hub_side" where
  "link_no_route = (\<lambda>(h, i). (Http_Response 404 [] (Inl []), (h, Suc i)))"

definition link_route :: "'k option \<Rightarrow> ('k \<Rightarrow> hub_side \<Rightarrow> 'a http_outcome \<times> hub_side) \<Rightarrow> hub_side \<Rightarrow> 'a http_outcome \<times> hub_side" where
  "link_route key f = (case key of None \<Rightarrow> link_no_route | Some k \<Rightarrow> f k)"

definition query_node :: "hub_link \<Rightarrow> string \<Rightarrow> string \<Rightarrow> uuid option" where
  "query_node link path url =
     Option.bind (strip_prefix (hl_base link @ path @ ''?node_id='') url) (hl_parse_uuid link)"

text \<open>An identifier between two parts of a path.\<close>

definition path_uuid :: "hub_link \<Rightarrow> string \<Rightarrow> string \<Rightarrow> string \<Rightarrow> uuid option" where
  "path_uuid link before after url =
     Option.bind (strip_prefix (hl_base link @ before) url) (\<lambda>rest.
     Option.bind (split_once (CHR ''/'') rest) (\<lambda>(i, tail).
       if tail = after then hl_parse_uuid link i else None))"

definition package_key :: "hub_link \<Rightarrow> string \<Rightarrow> (string \<times> uuid) option" where
  "package_key link url =
     Option.bind (strip_prefix (hl_base link @ ''/api/node/config/package/'') url) (\<lambda>rest.
     Option.bind (split_once (CHR ''?'') rest) (\<lambda>(version, query).
     Option.bind (strip_prefix ''node_id='' query) (\<lambda>node.
     Option.bind (hl_parse_uuid link node) (\<lambda>n. Some (version, n)))))"

definition exact_url :: "hub_link \<Rightarrow> string \<Rightarrow> string \<Rightarrow> unit option" where
  "exact_url link path url = (if url = hl_base link @ path then Some () else None)"

definition linked :: "hub_link \<Rightarrow> (hub_side, 'f) surroundings \<Rightarrow> (hub_side, 'f) surroundings" where
  "linked link os = os\<lparr>
     os_post_refresh := (\<lambda>url request token. link_route (exact_url link ''/api/node/auth/refresh'' url)
       (\<lambda>_. link_call link (\<lambda>e. handle_refresh_node_auth e request))),
     os_post_heartbeat := (\<lambda>url request token. link_route (exact_url link ''/api/node/heartbeat'' url)
       (\<lambda>_. link_call link (\<lambda>e. handle_node_heartbeat e (node_headers token) request))),
     os_get_latest := (\<lambda>url token. link_route (query_node link ''/api/node/config/releases/latest'' url)
       (\<lambda>n. link_call link (\<lambda>e. handle_latest_release e (node_headers token) n))),
     os_get_package := (\<lambda>url token. link_route (package_key link url)
       (\<lambda>(version, n). link_call link (\<lambda>e. handle_config_package e (node_headers token) version n))),
     os_post_ack := (\<lambda>url request token. link_route (path_uuid link ''/api/node/releases/'' ''ack'' url)
       (\<lambda>i. link_call link (\<lambda>e. handle_ack_release e (node_headers token) i request))),
     os_get_pending := (\<lambda>url token. link_route (query_node link ''/api/node/operations/pending'' url)
       (\<lambda>n. link_call link (\<lambda>e. handle_next_node_operation e (node_headers token) n))),
     os_post_result := (\<lambda>url request token. link_route (path_uuid link ''/api/node/operations/'' ''result'' url)
       (\<lambda>i. link_call link (\<lambda>e. handle_report_node_operation_result e (node_headers token) i request)))\<rparr>"

text \<open>
  What the link relies on: both sides use the same base URL and write UUIDs in the same way, which is read
  back and contains no slash.
\<close>

definition link_ok :: "hub_link \<Rightarrow> (hub_side, 'f) surroundings \<Rightarrow> agent_config \<Rightarrow> bool" where
  "link_ok link os config \<longleftrightarrow>
     hl_base link = ac_hub_base_url config \<and>
     (\<forall>j. env_display_uuid (hl_env link j) = os_display_uuid os) \<and>
     (\<forall>u. hl_parse_uuid link (os_display_uuid os u) = Some u \<and> CHR ''/'' \<notin> set (os_display_uuid os u))"

lemma linked_sel [simp]:
  "os_display_uuid (linked link os) = os_display_uuid os" "os_faults (linked link os) = os_faults os"
  "ow_value (linked link os) = ow_value os" "ow_state (linked link os) = ow_state os"
  "ow_package (linked link os) = ow_package os" "ow_text (linked link os) = ow_text os"
  "os_shell (linked link os) = os_shell os" "os_probe (linked link os) = os_probe os" "os_now (linked link os) = os_now os"
  by (simp_all add: linked_def)

lemma strip_prefix_append [simp]: "strip_prefix p (p @ s) = Some s"
  by (simp add: strip_prefix_def)

subsection \<open>The token of the node\<close>

text \<open>The access token is leased to the node and does not expire within the next \<open>k\<close> requests.\<close>

definition token_good :: "hub_link \<Rightarrow> string \<Rightarrow> uuid \<Rightarrow> nat \<Rightarrow> nat \<Rightarrow> hub \<Rightarrow> bool" where
  "token_good link token n i k h \<longleftrightarrow> trim token \<noteq> [] \<and> repo_node (hub_repo h) n \<noteq> None \<and>
     (\<exists>lease. access_lease (hub_tokens h) token = Some lease \<and> tl_node_id lease = n \<and>
        (\<forall>j \<in> {i..i + k}. env_now (hl_env link j) 0 \<le> tl_expires_at lease))"

lemma token_good_require:
  "token_good link token n i k h \<Longrightarrow> require_node (hl_env link i) (node_headers (Some token)) n h = Inr ()"
  by (auto simp: token_good_def require_node_Inr node_headers_def)

lemma token_good_next:
  assumes "token_good link token n i (Suc k) h" "hub_tokens h' = hub_tokens h" "repo_node (hub_repo h') n \<noteq> None"
  shows "token_good link token n (Suc i) k h'"
  using assms by (fastforce simp: token_good_def)

subsection \<open>The release the hub offers\<close>

definition offer_of :: "(uuid \<Rightarrow> string) \<Rightarrow> uuid \<Rightarrow> release_record \<Rightarrow> latest_release_response" where
  "offer_of disp n r = \<lparr>lrr_release_id = rl_release_id r, lrr_release_version = rl_release_version r,
     lrr_config_hash = rm_config_hash (cb_manifest (rl_bundle r)),
     lrr_download_url = ''/api/node/config/package/'' @ rl_release_version r @ ''?node_id='' @ disp n\<rparr>"

lemma served_latest: "served h n r \<Longrightarrow> latest_release_for_node e n h = Inr (offer_of (env_display_uuid e) n r)"
  by (simp add: served_def latest_release_for_node_def offer_of_def)

lemma served_download:
  "served h n r \<Longrightarrow> \<exists>pkg. config_package_for_node e n (rl_release_version r) h = Inr pkg \<and>
     cfr_release_id pkg = rl_release_id r \<and> cfr_release_version pkg = rl_release_version r"
  by (auto simp: served_def config_package_for_node_def repo_release_by_version_def repo_release_def)

lemma reachable_served:
  assumes "hub_reachable h" "latest_release_for_node e n h = Inr lat"
  obtains r where "served h n r" "lat = offer_of (env_display_uuid e) n r"
proof -
  note inv = hub_invD(3) [OF hub_reachable_hub_inv [OF assms(1)]]
  from assms(2) obtain r where r: "repo_latest_release_id_for_node (hub_repo h) n = Some (lrr_release_id lat)"
    "repo_release (hub_repo h) (lrr_release_id lat) = Some r"
    "lat = \<lparr>lrr_release_id = lrr_release_id lat, lrr_release_version = rl_release_version r,
      lrr_config_hash = rm_config_hash (cb_manifest (rl_bundle r)),
      lrr_download_url = ''/api/node/config/package/'' @ rl_release_version r @ ''?node_id='' @ env_display_uuid e n\<rparr>"
    by (auto simp: latest_release_for_node_def result_bind_eq_Inr outcome_iffs)
  moreover from inv r(1,2) have "n \<in> set (rl_target_node_ids r)" unfolding release_inv_def by fastforce
  moreover from inv r(2) have "rl_release_id r = lrr_release_id lat"
    "hm_get (release_ids_by_version (hub_repo h)) (rl_release_version r) = Some (lrr_release_id lat)"
    by (auto simp: release_inv_def repo_release_def dest: index_fwdD)
  ultimately show thesis by (intro that [of r]) (simp_all add: served_def offer_of_def)
qed

text \<open>An acknowledgement by the node: accepted, recorded, and the offer stays.\<close>

lemma ack_served:
  assumes "hub_reachable h" "served h n r" "repo_node (hub_repo h) n \<noteq> None" "raq_node_id request = n"
  obtains resp h' ack node where "ack_release e (rl_release_id r) request h = (Inr resp, h')"
    "served h' n (record_ack n ack r)" "hub_tokens h' = hub_tokens h" "hub_reachable h'"
    "repo_node (hub_repo h') n = Some node" "nr_active_config_version (nd_runtime node) = Some (raq_current_version request)"
    "ak_apply_status ack = raq_apply_status request" "ak_current_version ack = Some (raq_current_version request)"
    "ak_message ack = raq_message request"
proof -
  obtain node where node: "repo_node (hub_repo h) n = Some node" using assms(3) by auto
  have id: "ni_id (nd_identity node) = n"
    using hub_invD(1) [OF hub_reachable_hub_inv [OF assms(1)]] node
    by (auto simp: node_inv_def repo_node_def dest!: index_fwdD [where ident = node_ident])
  let ?ack = "\<lparr>ak_apply_status = raq_apply_status request, ak_current_version = Some (raq_current_version request),
    ak_message = raq_message request, ak_acked_at = Some (env_now e 0)\<rparr>"
  let ?node = "node\<lparr>nd_runtime := (nd_runtime node)\<lparr>nr_active_config_version := Some (raq_current_version request),
    nr_last_seen_at := Some (env_now e 1)\<rparr>\<rparr>"
  let ?h = "with_repo (repo_save_node ?node) (with_repo (repo_update_release_ack (rl_release_id r) n ?ack) h)"
  have ack: "ack_release e (rl_release_id r) request h = (Inr \<lparr>rar_release_id = rl_release_id r, rar_node_id = n,
      rar_apply_status = raq_apply_status request\<rparr>, ?h)"
    using assms(2,4) node
    by (simp add: ack_release_def Let_def served_def repo_update_release_ack_def repo_node_def)
  moreover have "served ?h n (record_ack n ?ack r)"
    using assms(2)
    by (simp add: served_def record_ack_def Let_def repo_update_release_ack_def repo_save_node_def repo_release_def
        repo_latest_release_id_for_node_def)
  moreover have "hub_reachable ?h"
    using reachable_step [OF assms(1) step_ack_release [of h e "rl_release_id r" request]] by (simp add: ack)
  moreover have "repo_node (hub_repo ?h) n = Some ?node" by (simp add: repo_node_def repo_save_node_def id)
  ultimately show thesis by (intro that [of _ ?h ?ack ?node]) simp_all
qed

subsection \<open>The requests of the agent\<close>


lemma link_call_Inr:
  "handler (hl_env link i) h = (Inr x, h') \<Longrightarrow> link_call link handler (h, i) = (Http_Response 200 [] (Inr x), (h', Suc i))"
  by (simp add: link_call_def)

lemma get_latest_served:
  assumes "link_ok link os config" "token_good link (se_access_token (ag_session a)) n i k h" "served h n r"
    and "ag_out a = (h, i)" "rg_node_id (ag_registration a) = n"
  shows "get_json (os_get_latest (linked link os)) (latest_release_url (linked link os) config n) (bearer a) a =
    (Inr (offer_of (os_display_uuid os) n r), a\<lparr>ag_out := (h, Suc i)\<rparr>)"
proof -
  have "query_node link ''/api/node/config/releases/latest'' (latest_release_url (linked link os) config n) = Some n"
    using assms(1) by (simp add: query_node_def latest_release_url_def link_ok_def strip_prefix_def)
  moreover have "handle_latest_release (hl_env link i) (node_headers (bearer a)) n h =
      (Inr (offer_of (os_display_uuid os) n r), h)"
    using assms(1) token_good_require [OF assms(2)] served_latest [OF assms(3)]
    by (simp add: handle_latest_release_def bearer_def link_ok_def)
  ultimately show ?thesis
    using assms(4)
    by (simp add: get_json_def act_bind_def act_outside_def act_return_def linked_def link_route_def link_call_Inr is_success_def)
qed

lemma get_package_served:
  assumes "link_ok link os config" "token_good link (se_access_token (ag_session a)) n i k h" "served h n r"
    and "ag_out a = (h, i)" "CHR ''?'' \<notin> set (rl_release_version r)"
  obtains pkg where "get_json (os_get_package (linked link os))
      (ac_hub_base_url config @ lrr_download_url (offer_of (os_display_uuid os) n r)) (bearer a) a =
    (Inr pkg, a\<lparr>ag_out := (h, Suc i)\<rparr>)" "cfr_release_id pkg = rl_release_id r"
    "cfr_release_version pkg = rl_release_version r"
    "config_package_for_node (hl_env link i) n (rl_release_version r) h = Inr pkg"
proof -
  let ?url = "ac_hub_base_url config @ lrr_download_url (offer_of (os_display_uuid os) n r)"
  have base: "hl_base link = ac_hub_base_url config" "hl_parse_uuid link (os_display_uuid os n) = Some n"
    using assms(1) by (simp_all add: link_ok_def)
  have url: "?url = (hl_base link @ ''/api/node/config/package/'') @ rl_release_version r @ CHR ''?'' # ''node_id='' @ os_display_uuid os n"
    by (simp add: base(1) offer_of_def)
  have key: "package_key link ?url = Some (rl_release_version r, n)"
    unfolding package_key_def url strip_prefix_append bind.simps split_once_append [OF assms(5)]
    by (simp add: strip_prefix_append [of "''node_id=''", simplified] base(2))
  obtain pkg where pkg: "config_package_for_node (hl_env link i) n (rl_release_version r) h = Inr pkg"
    "cfr_release_id pkg = rl_release_id r" "cfr_release_version pkg = rl_release_version r"
    using served_download [OF assms(3)] by blast
  then have "handle_config_package (hl_env link i) (node_headers (bearer a)) (rl_release_version r) n h = (Inr pkg, h)"
    using token_good_require [OF assms(2)] by (simp add: handle_config_package_def bearer_def)
  with key assms(4) have "get_json (os_get_package (linked link os)) ?url (bearer a) a = (Inr pkg, a\<lparr>ag_out := (h, Suc i)\<rparr>)"
    by (simp add: get_json_def act_bind_def act_outside_def act_return_def linked_def link_route_def link_call_Inr is_success_def)
  with pkg show thesis by (intro that)
qed

lemma report_served:
  assumes "link_ok link os config" "token_good link (se_access_token (ag_session a)) n i (Suc k) h" "served h n r"
    and "ag_out a = (h, i)" "rg_node_id (ag_registration a) = n" "hub_reachable h"
  obtains resp h' ack node where
    "report_release_status (linked link os) config (rl_release_id r) status version message a =
      (Inr resp, a\<lparr>ag_out := (h', Suc i)\<rparr>)"
    "served h' n (record_ack n ack r)" "hub_reachable h'"
    "token_good link (se_access_token (ag_session a)) n (Suc i) k h'"
    "repo_node (hub_repo h') n = Some node" "nr_active_config_version (nd_runtime node) = Some version"
    "ak_apply_status ack = status" "ak_current_version ack = Some version" "ak_message ack = message"
proof -
  let ?request = "\<lparr>raq_node_id = n, raq_apply_status = status, raq_current_version = version, raq_message = message\<rparr>"
  let ?url = "ac_hub_base_url config @ ''/api/node/releases/'' @ os_display_uuid os (rl_release_id r) @ ''/ack''"
  have link: "hl_base link = ac_hub_base_url config" "CHR ''/'' \<notin> set (os_display_uuid os (rl_release_id r))"
    "hl_parse_uuid link (os_display_uuid os (rl_release_id r)) = Some (rl_release_id r)"
    using assms(1) by (simp_all add: link_ok_def)
  have url: "?url = (hl_base link @ ''/api/node/releases/'') @ os_display_uuid os (rl_release_id r) @ CHR ''/'' # ''ack''"
    by (simp add: link(1))
  have path: "path_uuid link ''/api/node/releases/'' ''ack'' ?url = Some (rl_release_id r)"
    unfolding path_uuid_def url strip_prefix_append bind.simps split_once_append [OF link(2)] by (simp add: link(3))
  have node: "repo_node (hub_repo h) n \<noteq> None" using assms(2) by (simp add: token_good_def)
  obtain resp h' ack node where ack:
    "ack_release (env_after 1 0 (hl_env link i)) (rl_release_id r) ?request h = (Inr resp, h')"
    "served h' n (record_ack n ack r)" "hub_tokens h' = hub_tokens h" "hub_reachable h'"
    "repo_node (hub_repo h') n = Some node" "nr_active_config_version (nd_runtime node) = Some version"
    "ak_apply_status ack = status" "ak_current_version ack = Some version" "ak_message ack = message"
    using ack_served [OF assms(6,3) node, of ?request] by (metis release_ack_request.select_convs)
  have "handle_ack_release (hl_env link i) (node_headers (bearer a)) (rl_release_id r) ?request h = (Inr resp, h')"
    using ack(1) token_good_require [OF assms(2)] by (simp add: handle_ack_release_def bearer_def)
  with path assms(4,5) have "report_release_status (linked link os) config (rl_release_id r) status version message a =
      (Inr resp, a\<lparr>ag_out := (h', Suc i)\<rparr>)"
    by (simp add: report_release_status_def post_json_def act_bind_def act_get_def act_outside_def act_return_def
        link_route_def link_call_Inr is_success_def) (simp add: linked_def link_route_def link_call_Inr is_success_def)
  moreover have "token_good link (se_access_token (ag_session a)) n (Suc i) k h'"
    using token_good_next [OF assms(2) ack(3)] ack(5) by simp
  ultimately show thesis using ack by (intro that)
qed

subsection \<open>Files that can be written\<close>

definition files_work :: "('x, 'f) surroundings \<Rightarrow> bool" where
  "files_work os \<longleftrightarrow> (\<forall>k. os_faults os k = None) \<and> (\<forall>v. \<exists>f. ow_value os v = Inr f) \<and>
     (\<forall>s. \<exists>f. ow_state os s = Inr f) \<and> (\<forall>p. \<exists>f. ow_package os p = Inr f)"

lemma files_work_linked [simp]: "files_work (linked link os) = files_work os"
  by (simp add: files_work_def)

lemma keeps_out_files [keeps_intros]:
  "act_keeps ag_out (fs_write os path f)" "act_keeps ag_out (fs_read os path)" "act_keeps ag_out (fs_create_dir_all os path)"
  by (auto simp: act_keeps_def fs_write_def fs_read_def fs_create_dir_all_def split: option.split prod.split)

lemma keeps_out_composed [keeps_intros]:
  "act_keeps ag_out (write_json os path body c c')" "act_keeps ag_out (copy_staged os what source target)"
  "act_keeps ag_out (persist_state os config)"
  unfolding write_json_def copy_staged_def persist_state_def by (intro keeps_intros)+

lemma write_json_works:
  "files_work os \<Longrightarrow> body = Inr f \<Longrightarrow> \<exists>a'. write_json os path body c c' a = (Inr (), a')"
  by (simp add: write_json_def act_iffs fs_write_def files_work_def)

lemma copy_staged_works:
  "files_work os \<Longrightarrow> file_at source a \<noteq> None \<Longrightarrow> \<exists>a'. copy_staged os what source target a = (Inr (), a')"
  by (auto simp: copy_staged_def act_iffs fs_read_def fs_write_def files_work_def file_at_def)

lemma persist_state_works:
  assumes "files_work os"
  shows "\<exists>a'. persist_state os config a = (Inr (), a')"
proof -
  obtain f where "ow_state os (ag_state a) = Inr f" using assms unfolding files_work_def by meson
  from write_json_works [OF assms this] show ?thesis by (simp add: persist_state_def act_iffs del: append_Cons)
qed

lemma act_bindI: "m a = (Inr x, a1) \<Longrightarrow> k x a1 = (r, a') \<Longrightarrow> act_bind m k a = (r, a')"
  by (simp add: act_bind_def)

lemma act_get_eq: "act_get f a = (Inr (f a), a)"
  by (simp add: act_get_def)

lemma act_modify_eq: "act_modify f a = (Inr (), f a)"
  by (simp add: act_modify_def)

lemma act_return_eq: "act_return r a = (r, a)"
  by (simp add: act_return_def)

lemma persist_release_artifacts_works:
  assumes "files_work os"
  obtains artifacts a' where "persist_release_artifacts os config package a = (Inr artifacts, a')"
    "ag_out a' = ag_out a" "memory a' = memory a"
proof -
  let ?r = "release_artifacts_of config (cfr_release_version package)"
  obtain f1 f2 f3 f4 where f: "ow_package os package = Inr f1" "ow_value os (cfr_manifest package) = Inr f2"
    "ow_value os (cfr_rendered_config package) = Inr f3" "ow_value os (cfr_certificates package) = Inr f4"
    using assms unfolding files_work_def by meson
  note works = write_json_works [OF assms]
  have "\<exists>a'. persist_release_artifacts os config package a = (Inr ?r, a')"
  proof -
    obtain a1 where a1: "fs_create_dir_all os (ra_release_dir ?r) a = (Inr (), a1)"
      using assms by (cases "ra_release_dir ?r = []") (simp_all add: fs_create_dir_all_def files_work_def)
    obtain a2 where a2: "write_json os (ra_package_path ?r) (ow_package os package) ''failed to serialize package json''
        (''failed to write package.json for '' @ cfr_release_version package) a1 = (Inr (), a2)" using works [OF f(1)] by blast
    obtain a3 where a3: "write_json os (ra_manifest_path ?r) (ow_value os (cfr_manifest package))
        ''failed to serialize manifest json'' (''failed to write manifest.json for '' @ cfr_release_version package) a2 = (Inr (), a3)"
      using works [OF f(2)] by blast
    obtain a4 where a4: "write_json os (ra_rendered_config_path ?r) (ow_value os (cfr_rendered_config package))
        ''failed to serialize rendered config json''
        (''failed to write rendered-config.json for '' @ cfr_release_version package) a3 = (Inr (), a4)"
      using works [OF f(3)] by blast
    obtain a5 where a5: "write_json os (ra_certificates_path ?r) (ow_value os (cfr_certificates package))
        ''failed to serialize certificates json''
        (''failed to write certificates.json for '' @ cfr_release_version package) a4 = (Inr (), a5)"
      using works [OF f(4)] by blast
    show ?thesis
      unfolding persist_release_artifacts_def Let_def act_bind_Inr act_context_Inr act_return_iff
      using a1 a2 a3 a4 a5 by blast
  qed
  then obtain a' where a': "persist_release_artifacts os config package a = (Inr ?r, a')" by blast
  have "act_keeps ag_out (persist_release_artifacts os config package)"
    unfolding persist_release_artifacts_def Let_def by (intro keeps_intros)
  from that [OF a' act_keepsD [OF this a'] act_keepsD [OF keeps_persist_artifacts a']] show thesis .
qed

lemma activate_release_artifacts_works:
  assumes "files_work os" "artifacts = release_artifacts_of config (cfr_release_version package)"
    and "file_at (ra_manifest_path artifacts) a \<noteq> None" "file_at (ra_rendered_config_path artifacts) a \<noteq> None"
    "file_at (ra_certificates_path artifacts) a \<noteq> None"
  obtains a' where "activate_release_artifacts os config package artifacts a = (Inr (), a')"
    "ag_out a' = ag_out a" "memory a' = memory a"
proof -
  note d = paths_distinct [of config "cfr_release_version package", folded assms(2), unfolded current_paths_def staged_paths_def,
      simplified]
  obtain a1 where a1: "fs_write os (current_release_version_path config) (ow_text os (cfr_release_version package)) a = (Inr (), a1)"
    using assms(1) by (simp add: fs_write_def files_work_def)
  have k1: "p \<noteq> current_release_version_path config \<Longrightarrow> file_at p a1 = file_at p a" for p
    using act_keepsD [OF keeps_fs_write a1] by blast
  obtain a2 where a2: "copy_staged os ''manifest'' (ra_manifest_path artifacts) (current_manifest_path config) a1 = (Inr (), a2)"
    using copy_staged_works [OF assms(1)] assms(3) k1 d by metis
  have k2: "p \<noteq> current_manifest_path config \<Longrightarrow> file_at p a2 = file_at p a1" for p
    using act_keepsD [OF keeps_copy(2) a2] by blast
  obtain a3 where a3: "copy_staged os ''rendered config'' (ra_rendered_config_path artifacts) (current_rendered_config_path config) a2 = (Inr (), a3)"
    using copy_staged_works [OF assms(1)] assms(4) k1 k2 d by metis
  have k3: "p \<noteq> current_rendered_config_path config \<Longrightarrow> file_at p a3 = file_at p a2" for p
    using act_keepsD [OF keeps_copy(2) a3] by blast
  obtain a4 where a4: "copy_staged os ''certificates'' (ra_certificates_path artifacts) (current_certificates_path config) a3 = (Inr (), a4)"
    using copy_staged_works [OF assms(1)] assms(5) k1 k2 k3 d by metis
  have all: "activate_release_artifacts os config package artifacts a = (Inr (), a4)"
    unfolding activate_release_artifacts_def act_bind_Inr act_context_Inr using a1 a2 a3 a4 by blast
  have "act_keeps ag_out (activate_release_artifacts os config package artifacts)"
    unfolding activate_release_artifacts_def by (intro keeps_intros)
  from that [OF all act_keepsD [OF this all] act_keepsD [OF keeps_activate all]] show thesis .
qed

subsection \<open>From the offer to the acknowledgement\<close>

lemma offer_of_record_ack [simp]:
  "offer_of disp n (record_ack m ack r) = offer_of disp n r" "rl_release_id (record_ack m ack r) = rl_release_id r"
  "rl_release_version (record_ack m ack r) = rl_release_version r"
  by (simp_all add: offer_of_def record_ack_def Let_def)

lemma hm_get_record_ack: "hm_get (rl_ack_status (record_ack m ack r)) m = Some ack"
  by (simp add: record_ack_def Let_def)

text \<open>What a run of the agent against the hub starts from.\<close>

definition ready :: "hub_link \<Rightarrow> (hub_side, 'f) surroundings \<Rightarrow> agent_config \<Rightarrow> nat \<Rightarrow> (hub_side, 'f) agent \<Rightarrow> bool" where
  "ready link os config k a \<longleftrightarrow> link_ok link os config \<and> files_work os \<and> hub_reachable (fst (ag_out a)) \<and>
     token_good link (se_access_token (ag_session a)) (rg_node_id (ag_registration a)) (snd (ag_out a)) k (fst (ag_out a))"

lemma memory_eqD:
  assumes "memory b = memory a"
  shows "ag_session b = ag_session a" "ag_registration b = ag_registration a" "ag_state b = ag_state a"
  using assms by (simp_all add: memory_def)

lemma stage_served:
  assumes "link_ok link os config" "files_work os" "hub_reachable h" "ag_out a = (h, i)"
    and "rg_node_id (ag_registration a) = n"
    and "token_good link (se_access_token (ag_session a)) n i (Suc (Suc (Suc k))) h"
    and "served h n r" "CHR ''?'' \<notin> set (rl_release_version r)"
  obtains package artifacts b h' r' where
    "stage_release (linked link os) config (offer_of (os_display_uuid os) n r) a =
      (Inr (reported_current_version (ag_state a) (rl_release_version r), package, artifacts), b)"
    "memory b = memory a" "ag_out b = (h', i + 3)" "hub_reachable h'" "served h' n r'"
    "offer_of (os_display_uuid os) n r' = offer_of (os_display_uuid os) n r"
    "token_good link (se_access_token (ag_session a)) n (i + 3) k h'"
    "cfr_release_id package = rl_release_id r" "cfr_release_version package = rl_release_version r"
    "artifacts = release_artifacts_of config (rl_release_version r)"
    "file_at (ra_manifest_path artifacts) b \<noteq> None" "file_at (ra_rendered_config_path artifacts) b \<noteq> None"
    "file_at (ra_certificates_path artifacts) b \<noteq> None"
proof -
  let ?L = "linked link os" and ?pv = "reported_current_version (ag_state a) (rl_release_version r)"
  let ?offer = "offer_of (os_display_uuid os) n r"
  have offer: "lrr_release_id ?offer = rl_release_id r" "lrr_release_version ?offer = rl_release_version r"
    by (simp_all add: offer_of_def)
  obtain x1 h1 ack1 where s1: "report_release_status ?L config (rl_release_id r) ''downloading'' ?pv
      (Some (''node-agent downloading '' @ rl_release_version r)) a = (Inr x1, a\<lparr>ag_out := (h1, Suc i)\<rparr>)"
    "served h1 n (record_ack n ack1 r)" "hub_reachable h1"
    "token_good link (se_access_token (ag_session a)) n (Suc i) (Suc (Suc k)) h1"
    by (rule report_served [OF assms(1,6,7,4,5,3)])
  let ?a1 = "a\<lparr>ag_out := (h1, Suc i)\<rparr>"
  have p: "token_good link (se_access_token (ag_session ?a1)) n (Suc i) (Suc (Suc k)) h1" "ag_out ?a1 = (h1, Suc i)"
    "CHR ''?'' \<notin> set (rl_release_version (record_ack n ack1 r))"
    using s1(4) assms(8) by simp_all
  obtain package where s2: "get_json (os_get_package ?L) (ac_hub_base_url config @ lrr_download_url ?offer) (bearer ?a1) ?a1 =
      (Inr package, ?a1\<lparr>ag_out := (h1, Suc (Suc i))\<rparr>)"
    "cfr_release_id package = rl_release_id r" "cfr_release_version package = rl_release_version r"
    by (rule get_package_served [OF assms(1) p(1) s1(2) p(2,3), unfolded offer_of_record_ack])
  let ?a2 = "?a1\<lparr>ag_out := (h1, Suc (Suc i))\<rparr>"
  have "files_work ?L" using assms(2) by simp
  then obtain artifacts a3 where s3: "persist_release_artifacts ?L config package ?a2 = (Inr artifacts, a3)"
    "ag_out a3 = ag_out ?a2" "memory a3 = memory ?a2"
    by (rule persist_release_artifacts_works)
  have out3: "ag_out a3 = (h1, Suc (Suc i))" using s3(2) by simp
  note m3 = memory_eqD [OF s3(3), simplified]
  have t1: "token_good link (se_access_token (ag_session a3)) n (Suc (Suc i)) (Suc k) h1"
    using token_good_next [OF s1(4) refl] s1(4) by (simp add: m3 token_good_def)
  obtain x4 h4 ack4 where s4: "report_release_status ?L config (rl_release_id r) ''applying'' ?pv
      (Some (''release artifacts staged at '' @ ra_release_dir artifacts @ ''; starting apply pipeline'')) a3 =
      (Inr x4, a3\<lparr>ag_out := (h4, Suc (Suc (Suc i)))\<rparr>)"
    "served h4 n (record_ack n ack4 (record_ack n ack1 r))" "hub_reachable h4"
    "token_good link (se_access_token (ag_session a3)) n (Suc (Suc (Suc i))) k h4"
    by (rule report_served [OF assms(1) t1 s1(2) out3 _ s1(3), unfolded offer_of_record_ack]) (simp add: m3 assms(5))
  let ?b = "a3\<lparr>ag_out := (h4, Suc (Suc (Suc i)))\<rparr>"
  note staged = persist_release_artifacts_Inr [OF s3(1)]
  have "stage_release ?L config ?offer a = (Inr (?pv, package, artifacts), ?b)"
    unfolding stage_release_def offer
    by (rule act_bindI, rule act_get_eq, rule act_bindI, rule s1(1), rule act_bindI, rule act_get_eq, rule act_bindI,
        rule s2(1), rule act_bindI, rule s3(1), rule act_bindI, rule s4(1), rule act_return_eq)
  moreover have "memory ?b = memory a" using s3(3) by (simp add: memory_def)
  moreover have "file_at p ?b = file_at p a3" for p by (simp add: file_at_def)
  ultimately show thesis
    using s2 s4(2-4) staged by (intro that [of package artifacts ?b h4 "record_ack n ack4 (record_ack n ack1 r)"])
      (auto simp: m3 numeral_3_eq_3)
qed

subsection \<open>The apply pipeline\<close>

text \<open>The command and the health check do not talk to the hub.\<close>

definition local_commands :: "('x, 'f) surroundings \<Rightarrow> bool" where
  "local_commands os \<longleftrightarrow> (\<forall>command variables limit x. snd (os_shell os command variables limit x) = x) \<and>
     (\<forall>url limit x. snd (os_probe os url limit x) = x)"

definition pipeline_passes :: "('x, 'f) surroundings \<Rightarrow> agent_config \<Rightarrow> bool" where
  "pipeline_passes os config \<longleftrightarrow>
     (\<forall>package artifacts a. \<exists>message a'. apply_release_package os config package artifacts a = (Inr message, a'))"

lemma local_commands_linked [simp]: "local_commands (linked link os) = local_commands os"
  by (simp add: local_commands_def)

lemma keeps_out_outside: "(\<And>x. snd (f x) = x) \<Longrightarrow> act_keeps ag_out (act_outside f)"
  by (auto simp: act_keeps_def act_outside_def split: prod.split) (metis snd_conv)

lemma keeps_out_apply:
  assumes "local_commands os"
  shows "act_keeps ag_out (apply_release_package os config package artifacts)"
proof -
  have shell: "act_keeps ag_out (act_outside (os_shell os command variables limit))"
    and probe: "act_keeps ag_out (act_outside (os_probe os url limit))" for command variables limit url
    using assms by (auto simp: local_commands_def intro: keeps_out_outside)
  have "act_keeps ag_out (health_attempts os config url n k err)" for url n k err
    by (induction k arbitrary: n err) (auto intro!: keeps_intros probe)
  then show ?thesis
    unfolding apply_release_package_def run_apply_command_def run_healthcheck_def Let_def
    by (intro keeps_intros shell)
qed

lemma install_after_stage:
  assumes "stage_release os config latest a = (Inr (pv, package, artifacts), b)"
    and "apply_release_package os config package artifacts b = (applied, c)"
  shows "install_release os config latest a = (case applied of
      Inl error \<Rightarrow> reject_release os config latest pv package error
    | Inr message \<Rightarrow> complete_release os config latest package artifacts message) c"
  using assms by (simp add: install_release_def act_bind_def act_attempt_def)

lemma sync_offered:
  assumes "get_json (os_get_latest os) (latest_release_url os config n) (bearer a) a = (Inr latest, b)"
    and "ag_state b = ag_state a" "rg_node_id (ag_registration a) = n"
  shows "sync_latest_release os config a =
    (if la_current_release_version (ag_state a) \<noteq> Some (lrr_release_version latest) then install_release os config latest b
     else if la_last_acknowledged_release_id (ag_state a) \<noteq> Some (lrr_release_id latest) then confirm_release os config latest b
     else (Inr Idle, b))"
  using assms by (simp add: sync_latest_release_def act_bind_def act_get_def act_attempt_def act_return_def)

text \<open>Up to the apply pipeline the run is the same, whether it passes or not.\<close>

lemma staged_run:
  assumes "link_ok link os config" "files_work os" "local_commands os" "hub_reachable h" "ag_out a = (h, i)"
    and "token_good link (se_access_token (ag_session a)) (rg_node_id (ag_registration a)) i (k + 4) h"
    and "latest_release_for_node (hl_env link i) (rg_node_id (ag_registration a)) h = Inr latest"
    and "CHR ''?'' \<notin> set (lrr_release_version latest)"
    and "la_current_release_version (ag_state a) \<noteq> Some (lrr_release_version latest)"
  obtains package artifacts applied b c h' r where
    "apply_release_package (linked link os) config package artifacts b = (applied, c)"
    "sync_latest_release (linked link os) config a = (case applied of
       Inl error \<Rightarrow> reject_release (linked link os) config latest
         (reported_current_version (ag_state a) (lrr_release_version latest)) package error
     | Inr message \<Rightarrow> complete_release (linked link os) config latest package artifacts message) c"
    "memory c = memory a" "ag_out c = (h', i + 4)" "hub_reachable h'" "served h' (rg_node_id (ag_registration a)) r"
    "offer_of (os_display_uuid os) (rg_node_id (ag_registration a)) r = latest"
    "token_good link (se_access_token (ag_session a)) (rg_node_id (ag_registration a)) (i + 4) k h'"
    "cfr_release_id package = lrr_release_id latest" "cfr_release_version package = lrr_release_version latest"
    "artifacts = release_artifacts_of config (cfr_release_version package)"
    "file_at (ra_manifest_path artifacts) c \<noteq> None" "file_at (ra_rendered_config_path artifacts) c \<noteq> None"
    "file_at (ra_certificates_path artifacts) c \<noteq> None"
proof -
  let ?n = "rg_node_id (ag_registration a)" and ?L = "linked link os"
  obtain r where r: "served h ?n r" "latest = offer_of (env_display_uuid (hl_env link i)) ?n r"
    by (rule reachable_served [OF assms(4,7)])
  have latest: "latest = offer_of (os_display_uuid os) ?n r" using assms(1) r(2) by (simp add: link_ok_def)
  have version: "rl_release_version r = lrr_release_version latest" "rl_release_id r = lrr_release_id latest"
    by (simp_all add: latest offer_of_def)
  note get = get_latest_served [OF assms(1,6) r(1) assms(5) refl, folded latest]
  let ?a1 = "a\<lparr>ag_out := (h, Suc i)\<rparr>"
  have sync: "sync_latest_release ?L config a = install_release ?L config latest ?a1"
    using sync_offered [OF get] assms(9) by simp
  have t1: "token_good link (se_access_token (ag_session ?a1)) ?n (Suc i) (Suc (Suc (Suc k))) h"
    using assms(6) token_good_next [of link _ ?n i "Suc (Suc (Suc k))" h h] by (simp add: token_good_def numeral_eq_Suc)
  have q: "ag_out ?a1 = (h, Suc i)" "rg_node_id (ag_registration ?a1) = ?n" "CHR ''?'' \<notin> set (rl_release_version r)"
    using assms(8) by (simp_all add: version)
  obtain package artifacts b h' r' where st:
    "stage_release ?L config (offer_of (os_display_uuid os) ?n r) ?a1 =
      (Inr (reported_current_version (ag_state ?a1) (rl_release_version r), package, artifacts), b)"
    "memory b = memory ?a1" "ag_out b = (h', Suc i + 3)" "hub_reachable h'" "served h' ?n r'"
    "offer_of (os_display_uuid os) ?n r' = offer_of (os_display_uuid os) ?n r"
    "token_good link (se_access_token (ag_session ?a1)) ?n (Suc i + 3) k h'"
    "cfr_release_id package = rl_release_id r" "cfr_release_version package = rl_release_version r"
    "artifacts = release_artifacts_of config (rl_release_version r)"
    "file_at (ra_manifest_path artifacts) b \<noteq> None" "file_at (ra_rendered_config_path artifacts) b \<noteq> None"
    "file_at (ra_certificates_path artifacts) b \<noteq> None"
    by (rule stage_served [OF assms(1,2,4) q(1,2) t1 r(1) q(3)])
  obtain applied c where ap: "apply_release_package ?L config package artifacts b = (applied, c)" by (metis surj_pair)
  have out: "ag_out c = ag_out b" "memory c = memory b" "\<And>p. file_at p c = file_at p b"
    using act_keepsD [OF keeps_out_apply ap] act_keepsD [OF keeps_apply(1) ap] act_keepsD [OF keeps_apply(2) ap] assms(3)
    by simp_all
  have st': "stage_release ?L config latest ?a1 =
      (Inr (reported_current_version (ag_state a) (lrr_release_version latest), package, artifacts), b)"
    using st(1) by (simp add: latest [symmetric] version)
  note run = sync [unfolded install_after_stage [OF st' ap]]
  have mem: "memory b = memory a" using st(2) by (simp add: memory_def)
  have num: "Suc i + 3 = i + 4" by simp
  show thesis
    by (rule that [OF ap run]) (use st(3-13) [unfolded num] in \<open>simp_all add: out mem latest [symmetric] version\<close>)
qed

subsection \<open>An offered release reaches the node\<close>

lemma complete_served:
  assumes "link_ok link os config" "files_work os" "hub_reachable h" "ag_out a = (h, i)"
    and "rg_node_id (ag_registration a) = n"
    and "token_good link (se_access_token (ag_session a)) n i (Suc k) h"
    and "served h n r" "latest = offer_of (os_display_uuid os) n r"
    and "cfr_release_id package = lrr_release_id latest" "cfr_release_version package = lrr_release_version latest"
    and "artifacts = release_artifacts_of config (cfr_release_version package)"
    and "file_at (ra_manifest_path artifacts) a \<noteq> None" "file_at (ra_rendered_config_path artifacts) a \<noteq> None"
    "file_at (ra_certificates_path artifacts) a \<noteq> None"
  obtains a' h' ack node where
    "complete_release (linked link os) config latest package artifacts message a =
      (Inr (Applied (lrr_release_version latest)), a')"
    "ag_out a' = (h', Suc i)" "ag_registration a' = ag_registration a" "ag_session a' = ag_session a"
    "ag_state a' = (activated_state latest package (ag_state a))
      \<lparr>la_last_acknowledged_release_id := Some (lrr_release_id latest)\<rparr>"
    "served h' n (record_ack n ack r)" "hub_reachable h'" "token_good link (se_access_token (ag_session a)) n (Suc i) k h'"
    "repo_node (hub_repo h') n = Some node" "nr_active_config_version (nd_runtime node) = Some (lrr_release_version latest)"
    "ak_apply_status ack = ''success''" "ak_current_version ack = Some (lrr_release_version latest)"
proof -
  let ?L = "linked link os"
  have id: "cfr_release_id package = rl_release_id r" "cfr_release_version package = rl_release_version r"
    using assms(8-10) by (simp_all add: offer_of_def)
  have "files_work ?L" using assms(2) by simp
  then obtain a1 where s1: "activate_release_artifacts ?L config package artifacts a = (Inr (), a1)"
    "ag_out a1 = ag_out a" "memory a1 = memory a"
    by (rule activate_release_artifacts_works [OF _ assms(11-14)])
  let ?a2 = "a1\<lparr>ag_state := activated_state latest package (ag_state a1)\<rparr>"
  have p: "token_good link (se_access_token (ag_session ?a2)) n i (Suc k) h" "ag_out ?a2 = (h, i)"
    "rg_node_id (ag_registration ?a2) = n"
    using assms(4-6) s1(2) memory_eqD [OF s1(3)] by simp_all
  obtain x h' ack node where s2: "report_release_status ?L config (rl_release_id r) ''success'' (cfr_release_version package)
      (Some message) ?a2 = (Inr x, ?a2\<lparr>ag_out := (h', Suc i)\<rparr>)"
    "served h' n (record_ack n ack r)" "hub_reachable h'"
    "token_good link (se_access_token (ag_session ?a2)) n (Suc i) k h'"
    "repo_node (hub_repo h') n = Some node" "nr_active_config_version (nd_runtime node) = Some (cfr_release_version package)"
    "ak_apply_status ack = ''success''" "ak_current_version ack = Some (cfr_release_version package)"
    by (rule report_served [OF assms(1) p(1) assms(7) p(2,3) assms(3)])
  have ack: "acknowledge_release ?L config package (Some message) ?a2 = (Inr (), ?a2\<lparr>ag_out := (h', Suc i)\<rparr>)"
    unfolding acknowledge_release_def id(1) by (rule act_bindI, rule s2(1), rule act_return_eq)
  let ?a4 = "(?a2\<lparr>ag_out := (h', Suc i)\<rparr>)\<lparr>ag_state := (ag_state (?a2\<lparr>ag_out := (h', Suc i)\<rparr>))
    \<lparr>la_last_acknowledged_release_id := Some (cfr_release_id package)\<rparr>\<rparr>"
  obtain a' where s3: "persist_state ?L config ?a4 = (Inr (), a')"
    using persist_state_works [of ?L config ?a4] assms(2) by (metis files_work_linked)
  have keep: "ag_out a' = ag_out ?a4" "memory a' = memory ?a4"
    using act_keepsD [OF keeps_out_composed(3) s3] act_keepsD [OF keeps_persist_state(1) s3] by blast+
  have "complete_release ?L config latest package artifacts message a =
      (Inr (Applied (cfr_release_version package)), a')"
    unfolding complete_release_def
    by (rule act_bindI, rule s1(1), rule act_bindI, rule act_modify_eq, rule act_bindI, rule ack, rule act_bindI,
        rule act_modify_eq, rule act_bindI, rule s3, rule act_return_eq)
  moreover have "ag_state a' = (activated_state latest package (ag_state a))
      \<lparr>la_last_acknowledged_release_id := Some (lrr_release_id latest)\<rparr>" "ag_registration a' = ag_registration a"
    "ag_session a' = ag_session a"
    using memory_eqD [OF keep(2)] memory_eqD [OF s1(3)] assms(9) by simp_all
  ultimately show thesis
    using s2(2-8) keep(1) memory_eqD [OF s1(3)] assms(10) by (intro that [of a' h' ack node]) simp_all
qed

text \<open>
  C4: a release the hub offers to a node reaches it: in any state the hub can get into, with a node that
  holds a valid token, does not run the release and whose apply pipeline passes, one synchronisation
  installs the offered release; the hub then records the success and the version of the node, and
  the next synchronisation finds nothing to do.
\<close>

theorem offered_release_installed:
  assumes "link_ok link os config" "files_work os" "local_commands os" "hub_reachable h" "ag_out a = (h, i)"
    and "token_good link (se_access_token (ag_session a)) (rg_node_id (ag_registration a)) i 6 h"
    and "latest_release_for_node (hl_env link i) (rg_node_id (ag_registration a)) h = Inr latest"
    and "CHR ''?'' \<notin> set (lrr_release_version latest)"
    and "la_current_release_version (ag_state a) \<noteq> Some (lrr_release_version latest)"
    and "pipeline_passes (linked link os) config"
  shows "\<exists>a' h' release ack node.
    sync_latest_release (linked link os) config a = (Inr (Applied (lrr_release_version latest)), a') \<and>
    ag_out a' = (h', i + 5) \<and> hub_reachable h' \<and>
    repo_release (hub_repo h') (lrr_release_id latest) = Some release \<and>
    hm_get (rl_ack_status release) (rg_node_id (ag_registration a)) = Some ack \<and>
    ak_apply_status ack = ''success'' \<and> ak_current_version ack = Some (lrr_release_version latest) \<and>
    repo_node (hub_repo h') (rg_node_id (ag_registration a)) = Some node \<and>
    nr_active_config_version (nd_runtime node) = Some (lrr_release_version latest) \<and>
    sync_latest_release (linked link os) config a' = (Inr Idle, a'\<lparr>ag_out := (h', i + 6)\<rparr>)"
proof -
  let ?n = "rg_node_id (ag_registration a)" and ?L = "linked link os"
  have t: "token_good link (se_access_token (ag_session a)) ?n i (2 + 4) h" using assms(6) by simp
  obtain package artifacts applied b c h1 r where run:
    "apply_release_package ?L config package artifacts b = (applied, c)"
    "sync_latest_release ?L config a = (case applied of
       Inl error \<Rightarrow> reject_release ?L config latest
         (reported_current_version (ag_state a) (lrr_release_version latest)) package error
     | Inr message \<Rightarrow> complete_release ?L config latest package artifacts message) c"
    "memory c = memory a" "ag_out c = (h1, i + 4)" "hub_reachable h1" "served h1 ?n r"
    "offer_of (os_display_uuid os) ?n r = latest" "token_good link (se_access_token (ag_session a)) ?n (i + 4) 2 h1"
    "cfr_release_id package = lrr_release_id latest" "cfr_release_version package = lrr_release_version latest"
    "artifacts = release_artifacts_of config (cfr_release_version package)"
    "file_at (ra_manifest_path artifacts) c \<noteq> None" "file_at (ra_rendered_config_path artifacts) c \<noteq> None"
    "file_at (ra_certificates_path artifacts) c \<noteq> None"
    by (rule staged_run [OF assms(1-5) t assms(7-9)])
  obtain message where message: "applied = Inr message" using assms(10) run(1) by (metis pipeline_passes_def prod.inject)
  note mem = memory_eqD [OF run(3)]
  have t4: "token_good link (se_access_token (ag_session c)) ?n (i + 4) (Suc 1) h1"
    using run(8) by (simp add: mem numeral_2_eq_2)
  have n: "rg_node_id (ag_registration c) = ?n" by (simp add: mem)
  obtain a' h' ack node where fin: "complete_release ?L config latest package artifacts message c =
      (Inr (Applied (lrr_release_version latest)), a')"
    "ag_out a' = (h', Suc (i + 4))" "ag_registration a' = ag_registration c" "ag_session a' = ag_session c"
    "ag_state a' = (activated_state latest package (ag_state c))
      \<lparr>la_last_acknowledged_release_id := Some (lrr_release_id latest)\<rparr>"
    "served h' ?n (record_ack ?n ack r)" "hub_reachable h'" "token_good link (se_access_token (ag_session c)) ?n (Suc (i + 4)) 1 h'"
    "repo_node (hub_repo h') ?n = Some node" "nr_active_config_version (nd_runtime node) = Some (lrr_release_version latest)"
    "ak_apply_status ack = ''success''" "ak_current_version ack = Some (lrr_release_version latest)"
    by (rule complete_served [OF assms(1,2) run(5,4) n t4 run(6) run(7) [symmetric] run(9-14)])
  have t5: "token_good link (se_access_token (ag_session a')) ?n (Suc (i + 4)) 1 h'" and n': "rg_node_id (ag_registration a') = ?n"
    using fin(8) by (simp_all add: fin(3,4) mem)
  note again = get_latest_served [OF assms(1) t5 fin(6,2) n', unfolded offer_of_record_ack run(7)]
  have "sync_latest_release ?L config a' = (Inr Idle, a'\<lparr>ag_out := (h', Suc (Suc (i + 4)))\<rparr>)"
    using sync_offered [OF again _ n'] run(10) by (simp add: fin(5) activated_state_def)
  moreover have "sync_latest_release ?L config a = (Inr (Applied (lrr_release_version latest)), a')"
    using run(2) fin(1) by (simp add: message)
  moreover have "repo_release (hub_repo h') (lrr_release_id latest) = Some (record_ack ?n ack r)"
    using fin(6) run(7) by (auto simp: served_def offer_of_def)
  ultimately show ?thesis
    using fin(2,7,9-12) by (auto simp: hm_get_record_ack eval_nat_numeral)
qed

text \<open>
  C26: A release that cannot be applied is reported: in any state the hub can get into, with a node that
  holds a valid token and does not run the offered release, a synchronisation on a node whose apply
  pipeline fails ends with the error of the pipeline and leaves the state of the agent, and the hub records the failure and
  its reason for the node. The version the hub then has for the node is the one the node kept running; for a
  node that runs no release yet it is the version that failed, which the node does not run.
\<close>

theorem unapplicable_release_reported:
  assumes "link_ok link os config" "files_work os" "local_commands os" "hub_reachable h" "ag_out a = (h, i)"
    and "token_good link (se_access_token (ag_session a)) (rg_node_id (ag_registration a)) i 6 h"
    and "latest_release_for_node (hl_env link i) (rg_node_id (ag_registration a)) h = Inr latest"
    and "CHR ''?'' \<notin> set (lrr_release_version latest)"
    and "la_current_release_version (ag_state a) \<noteq> Some (lrr_release_version latest)"
    and "pipeline_fails (linked link os) config"
  shows "\<exists>error a' h' release ack node version.
    version = (case la_current_release_version (ag_state a) of Some running \<Rightarrow> running | None \<Rightarrow> lrr_release_version latest) \<and>
    sync_latest_release (linked link os) config a = (Inl error, a') \<and>
    ag_out a' = (h', i + 5) \<and> hub_reachable h' \<and> ag_state a' = ag_state a \<and>
    repo_release (hub_repo h') (lrr_release_id latest) = Some release \<and>
    hm_get (rl_ack_status release) (rg_node_id (ag_registration a)) = Some ack \<and>
    ak_apply_status ack = ''failed'' \<and>
    ak_current_version ack = Some version \<and>
    ak_message ack = Some (truncate_message (''release '' @ lrr_release_version latest @ '' apply failed: '' @ error_chain error)) \<and>
    repo_node (hub_repo h') (rg_node_id (ag_registration a)) = Some node \<and>
    nr_active_config_version (nd_runtime node) = Some version"
proof -
  let ?n = "rg_node_id (ag_registration a)" and ?L = "linked link os"
  let ?pv = "reported_current_version (ag_state a) (lrr_release_version latest)"
  have t: "token_good link (se_access_token (ag_session a)) ?n i (2 + 4) h" using assms(6) by simp
  obtain package artifacts applied b c h1 r where run:
    "apply_release_package ?L config package artifacts b = (applied, c)"
    "sync_latest_release ?L config a = (case applied of
       Inl error \<Rightarrow> reject_release ?L config latest ?pv package error
     | Inr message \<Rightarrow> complete_release ?L config latest package artifacts message) c"
    "memory c = memory a" "ag_out c = (h1, i + 4)" "hub_reachable h1" "served h1 ?n r"
    "offer_of (os_display_uuid os) ?n r = latest" "token_good link (se_access_token (ag_session a)) ?n (i + 4) 2 h1"
    "cfr_release_version package = lrr_release_version latest"
    by (rule staged_run [OF assms(1-5) t assms(7-9)])
  obtain error where error: "applied = Inl error"
    using assms(10) run(1) unfolding pipeline_fails_def by (metis sumE)
  note mem = memory_eqD [OF run(3)]
  have t4: "token_good link (se_access_token (ag_session c)) ?n (i + 4) (Suc 1) h1"
    using run(8) by (simp add: mem numeral_2_eq_2)
  have n: "rg_node_id (ag_registration c) = ?n" by (simp add: mem)
  have id: "rl_release_id r = lrr_release_id latest" using run(7) by (auto simp: offer_of_def)
  let ?m = "Some (truncate_message (''release '' @ cfr_release_version package @ '' apply failed: '' @ error_chain error))"
  obtain x h' ack node where s: "report_release_status ?L config (rl_release_id r) ''failed'' ?pv ?m c =
      (Inr x, c\<lparr>ag_out := (h', Suc (i + 4))\<rparr>)"
    "served h' ?n (record_ack ?n ack r)" "hub_reachable h'"
    "token_good link (se_access_token (ag_session c)) ?n (Suc (i + 4)) 1 h'"
    "repo_node (hub_repo h') ?n = Some node" "nr_active_config_version (nd_runtime node) = Some ?pv"
    "ak_apply_status ack = ''failed''" "ak_current_version ack = Some ?pv" "ak_message ack = ?m"
    by (rule report_served [OF assms(1) t4 run(6,4) n run(5)])
  have "sync_latest_release ?L config a = (Inl error, c\<lparr>ag_out := (h', Suc (i + 4))\<rparr>)"
    using s(1) by (simp add: run(2) error reject_release_def act_bind_def act_attempt_def id act_return_def)
  moreover have "repo_release (hub_repo h') (lrr_release_id latest) = Some (record_ack ?n ack r)"
    using s(2) id by (simp add: served_def)
  moreover have "?pv = (case la_current_release_version (ag_state a) of Some running \<Rightarrow> running | None \<Rightarrow> lrr_release_version latest)"
    by (simp add: reported_current_version_def split: option.split)
  ultimately show ?thesis
    using s(3,5-9) by (auto simp: hm_get_record_ack mem run(9) eval_nat_numeral)
qed

subsection \<open>Examples\<close>

definition sample_registered_system :: hub where
  "sample_registered_system = snd (register_node (sample_env 50 0) sample_register_request sample_system)"

definition sample_link :: hub_link where
  "sample_link = \<lparr>hl_base = ac_hub_base_url sample_agent_config, hl_env = (\<lambda>i. sample_env 100 0), hl_request_id = (\<lambda>i. 0),
     hl_parse_uuid = (\<lambda>s. Some (of_nat (string_to_nat s))), hl_error_body = (\<lambda>e. [])\<rparr>"

text \<open>The machine of the examples of the agent; the hub is put in its place by \<^const>\<open>linked\<close>.\<close>

definition sample_host :: "(hub_side, string) surroundings" where
  "sample_host =
     \<lparr>os_post_refresh = (\<lambda>url request token x. (Send_Failed [], x)), os_post_heartbeat = (\<lambda>url request token x. (Send_Failed [], x)),
      os_get_latest = (\<lambda>url token x. (Send_Failed [], x)), os_get_package = (\<lambda>url token x. (Send_Failed [], x)),
      os_post_ack = (\<lambda>url request token x. (Send_Failed [], x)), os_get_pending = (\<lambda>url token x. (Send_Failed [], x)),
      os_post_result = (\<lambda>url request token x. (Send_Failed [], x)),
      os_probe = (\<lambda>url limit x. (Inr 503, x)), os_shell = (\<lambda>command variables limit x. (Exited (Some 0) [] [], x)),
      os_now = (\<lambda>x. (0, x)), os_faults = (\<lambda>i. None), os_env = (\<lambda>name. None), os_display_uuid = sample_disp,
      os_rfc3339 = (\<lambda>t. ''t''), ow_text = (\<lambda>s. s), ow_registration = (\<lambda>r. Inr ''registration''),
      ow_state = (\<lambda>s. Inr ''state''), ow_package = (\<lambda>p. Inr ''package''), ow_value = (\<lambda>v. Inr ''value''),
      or_registration = (\<lambda>f. Inl []), or_state = (\<lambda>f. Inl [])\<rparr>"

lemma sample_link_ok: "link_ok sample_link sample_host (sample_agent_config\<lparr>ac_healthcheck_url := u\<rparr>)"
proof -
  have "CHR ''/'' \<notin> set (nat_to_string k)" for k
    using nat_to_string_digits [of k] by (auto simp: list_all_iff ascii_digit_def byte_def)
  then show ?thesis
    by (simp add: link_ok_def sample_link_def sample_env_def sample_host_def sample_disp_def)
qed

lemma sample_host_works: "files_work sample_host" "local_commands sample_host"
  by (simp_all add: files_work_def local_commands_def sample_host_def)

lemma sample_registered_reachable: "hub_reachable sample_registered_system"
proof -
  have "fresh_call (sample_env 50 0) sample_system" by code_simp
  then show ?thesis
    unfolding sample_registered_system_def by (rule reachable_step [OF sample_system_reachable step_register_node])
qed

lemma sample_token_good: "token_good sample_link ''node-at-50'' 1 0 6 sample_registered_system"
proof -
  have "case access_lease (hub_tokens sample_registered_system) ''node-at-50'' of
      None \<Rightarrow> False | Some lease \<Rightarrow> tl_node_id lease = 1 \<and> 0 \<le> tl_expires_at lease" by code_simp
  moreover have "trim ''node-at-50'' \<noteq> []" by code_simp
  moreover have "case repo_node (hub_repo sample_registered_system) 1 of None \<Rightarrow> False | Some _ \<Rightarrow> True" by code_simp
  ultimately show ?thesis
    by (auto simp: token_good_def sample_link_def sample_env_def seconds_def split: option.splits)
qed

lemma sample_offer:
  obtains latest where "latest_release_for_node (hl_env sample_link 0) 1 sample_registered_system = Inr latest"
    "lrr_release_id latest = 30" "CHR ''?'' \<notin> set (lrr_release_version latest)"
proof -
  have "case latest_release_for_node (sample_env 100 0) 1 sample_registered_system of Inl _ \<Rightarrow> False
    | Inr latest \<Rightarrow> lrr_release_id latest = 30 \<and> CHR ''?'' \<notin> set (lrr_release_version latest)" by code_simp
  with that show thesis by (auto simp: sample_link_def split: sum.splits)
qed

lemma sample_agent_sel [simp]:
  "rg_node_id (ag_registration (sample_agent x)) = 1" "se_access_token (ag_session (sample_agent x)) = ''node-at-50''"
  "ag_state (sample_agent x) = default_agent_state" "ag_out (sample_agent x) = x"
  by (simp_all add: sample_agent_def)

theorem offered_release_installed_witness:
  "\<exists>a' version. sync_latest_release (linked sample_link sample_host) (sample_agent_config\<lparr>ac_healthcheck_url := None\<rparr>)
     (sample_agent (sample_registered_system, 0)) = (Inr (Applied version), a')"
proof -
  let ?config = "sample_agent_config\<lparr>ac_healthcheck_url := None\<rparr>"
  have pass: "pipeline_passes (linked sample_link sample_host) ?config"
    by (auto simp: pipeline_passes_def apply_release_package_def ensure_apply_mode_def act_iffs
        sample_agent_config_def agent_config_from_env_def Let_def optional_env_def)
  obtain latest where latest: "latest_release_for_node (hl_env sample_link 0) 1 sample_registered_system = Inr latest"
    "CHR ''?'' \<notin> set (lrr_release_version latest)" by (rule sample_offer)
  from offered_release_installed [OF sample_link_ok sample_host_works sample_registered_reachable _ _ _ latest(2) _ pass,
      of "sample_agent (sample_registered_system, 0)"] latest(1) sample_token_good
  show ?thesis by (auto simp: default_agent_state_def)
qed

theorem unapplicable_release_reported_witness:
  "\<exists>latest error a' node. latest_release_for_node (hl_env sample_link 0) 1 sample_registered_system = Inr latest \<and>
     sync_latest_release (linked sample_link sample_host)
       (sample_agent_config\<lparr>ac_healthcheck_url := Some ''http://h/''\<rparr>) (sample_agent (sample_registered_system, 0)) = (Inl error, a') \<and>
     repo_node (hub_repo (fst (ag_out a'))) 1 = Some node \<and> la_current_release_version (ag_state a') = None \<and>
     nr_active_config_version (nd_runtime node) = Some (lrr_release_version latest)"
proof -
  let ?config = "sample_agent_config\<lparr>ac_healthcheck_url := Some ''http://h/''\<rparr>"
  have fail: "pipeline_fails (linked sample_link sample_host) ?config"
    by (rule pipeline_failsI(3) [of _ "''http://h/''"])
      (auto simp: sample_host_def sample_agent_config_def agent_config_from_env_def Let_def healthcheck_status_matches_def
        is_success_def is_redirection_def)
  obtain latest where latest: "latest_release_for_node (hl_env sample_link 0) 1 sample_registered_system = Inr latest"
    "CHR ''?'' \<notin> set (lrr_release_version latest)" by (rule sample_offer)
  from unapplicable_release_reported [OF sample_link_ok sample_host_works sample_registered_reachable _ _ _ latest(2) _ fail,
      of "sample_agent (sample_registered_system, 0)"] latest(1) sample_token_good
  show ?thesis by (auto simp: default_agent_state_def)
qed

end
