(* ===== verification/Redis_Tokens.thy ===== *)
theory Redis_Tokens
  imports Token_Store
begin

text \<open>
  Node tokens in Redis (\<open>RedisTokenStore\<close> in \<open>apps/hub-api/src/token_store.rs\<close>). The server is outside: its
  commands are the fields of \<open>redis\<close>, acting on a state \<open>'r\<close>, and each may fail. What the store relies on is
  \<open>redis_laws\<close>, the documented meaning of \<open>GET\<close>, \<open>SETEX\<close> and \<open>DEL\<close> on the keys the server holds; keys do
  not expire while one operation runs. The store is shown to refine the one in memory.
\<close>

subsection \<open>The store\<close>

datatype store_error = StoreSqlx string | StoreSerde string | StoreRedis string

record 'r redis =
  rd_connect :: "'r \<Rightarrow> (string + unit) \<times> 'r"
  rd_get :: "string \<Rightarrow> 'r \<Rightarrow> (string + string option) \<times> 'r"
  rd_set_ex :: "string \<Rightarrow> string \<Rightarrow> u64 \<Rightarrow> 'r \<Rightarrow> (string + unit) \<times> 'r"
  rd_del :: "string \<Rightarrow> 'r \<Rightarrow> (string + nat) \<times> 'r"

text \<open>The key prefix, and the texts of the libraries: a UUID, and a lease as JSON and back.\<close>

record redis_store =
  rt_key_prefix :: string
  rt_display_uuid :: "uuid \<Rightarrow> string"
  rt_lease_text :: "token_lease \<Rightarrow> string"
  rt_parse_lease :: "string \<Rightarrow> string + token_lease"

definition access_key :: "redis_store \<Rightarrow> string \<Rightarrow> string" where
  "access_key st token = rt_key_prefix st @ '':node:access:'' @ token"

definition refresh_key :: "redis_store \<Rightarrow> string \<Rightarrow> string" where
  "refresh_key st token = rt_key_prefix st @ '':node:refresh:'' @ token"

definition current_access_key :: "redis_store \<Rightarrow> uuid \<Rightarrow> string" where
  "current_access_key st node_id = rt_key_prefix st @ '':node:current_access:'' @ rt_display_uuid st node_id"

definition current_refresh_key :: "redis_store \<Rightarrow> uuid \<Rightarrow> string" where
  "current_refresh_key st node_id = rt_key_prefix st @ '':node:current_refresh:'' @ rt_display_uuid st node_id"

type_synonym ('a, 'r) redis_act = "'r \<Rightarrow> (store_error + 'a) \<times> 'r"

definition redis_bind :: "('a, 'r) redis_act \<Rightarrow> ('a \<Rightarrow> ('b, 'r) redis_act) \<Rightarrow> ('b, 'r) redis_act" where
  "redis_bind m f r = (case m r of (Inl error, r) \<Rightarrow> (Inl error, r) | (Inr x, r) \<Rightarrow> f x r)"

definition redis_return :: "store_error + 'a \<Rightarrow> ('a, 'r) redis_act" where
  "redis_return x r = (x, r)"

text \<open>\<open>map_err(|error| StoreError::Redis(error.to_string()))\<close>.\<close>

definition redis_call :: "('r \<Rightarrow> (string + 'a) \<times> 'r) \<Rightarrow> ('a, 'r) redis_act" where
  "redis_call command r = (case command r of (Inl error, r) \<Rightarrow> (Inl (StoreRedis error), r) | (Inr x, r) \<Rightarrow> (Inr x, r))"

definition del_if_some :: "'r redis \<Rightarrow> (string \<Rightarrow> string) \<Rightarrow> string option \<Rightarrow> (unit, 'r) redis_act" where
  "del_if_some api key token =
     (case token of
        None \<Rightarrow> redis_return (Inr ())
      | Some token \<Rightarrow> redis_bind (redis_call (rd_del api (key token))) (\<lambda>_. redis_return (Inr ())))"

definition redis_issue_tokens ::
  "'r redis \<Rightarrow> redis_store \<Rightarrow> uuid \<Rightarrow> uuid \<Rightarrow> datetime \<Rightarrow> uuid \<Rightarrow> duration \<Rightarrow> (issued_tokens, 'r) redis_act" where
  "redis_issue_tokens api st new1 new2 now node_id ttl =
     redis_bind (redis_call (rd_connect api)) (\<lambda>_.
     redis_bind (redis_call (rd_get api (current_access_key st node_id))) (\<lambda>previous_access.
     redis_bind (redis_call (rd_get api (current_refresh_key st node_id))) (\<lambda>previous_refresh.
     redis_bind (del_if_some api (access_key st) previous_access) (\<lambda>_.
     redis_bind (del_if_some api (refresh_key st) previous_refresh) (\<lambda>_.
       let access_token = access_token_text (rt_display_uuid st) new1;
           refresh_token = refresh_token_text (rt_display_uuid st) new2;
           expires_at = now + ttl;
           ttl_seconds = of_int (max (num_seconds ttl) 1);
           serialized = rt_lease_text st \<lparr>tl_node_id = node_id, tl_expires_at = expires_at\<rparr>
       in redis_bind (redis_call (rd_set_ex api (access_key st access_token) serialized ttl_seconds)) (\<lambda>_.
          redis_bind (redis_call (rd_set_ex api (refresh_key st refresh_token) serialized ttl_seconds)) (\<lambda>_.
          redis_bind (redis_call (rd_set_ex api (current_access_key st node_id) access_token ttl_seconds)) (\<lambda>_.
          redis_bind (redis_call (rd_set_ex api (current_refresh_key st node_id) refresh_token ttl_seconds)) (\<lambda>_.
            redis_return (Inr \<lparr>it_access_token = access_token, it_refresh_token = refresh_token,
              it_expires_at = expires_at\<rparr>))))))))))"

definition redis_lease :: "'r redis \<Rightarrow> redis_store \<Rightarrow> string \<Rightarrow> (token_lease option, 'r) redis_act" where
  "redis_lease api st key =
     redis_bind (redis_call (rd_connect api)) (\<lambda>_.
     redis_bind (redis_call (rd_get api key)) (\<lambda>raw.
       redis_return (case raw of
           None \<Rightarrow> Inr None
         | Some text \<Rightarrow> (case rt_parse_lease st text of Inl error \<Rightarrow> Inl (StoreSerde error) | Inr lease \<Rightarrow> Inr (Some lease)))))"

definition redis_access_lease :: "'r redis \<Rightarrow> redis_store \<Rightarrow> string \<Rightarrow> (token_lease option, 'r) redis_act" where
  "redis_access_lease api st access_token = redis_lease api st (access_key st access_token)"

definition redis_refresh_lease :: "'r redis \<Rightarrow> redis_store \<Rightarrow> string \<Rightarrow> (token_lease option, 'r) redis_act" where
  "redis_refresh_lease api st refresh_token = redis_lease api st (refresh_key st refresh_token)"

definition redis_revoke_tokens :: "'r redis \<Rightarrow> redis_store \<Rightarrow> uuid \<Rightarrow> (unit, 'r) redis_act" where
  "redis_revoke_tokens api st node_id =
     redis_bind (redis_call (rd_connect api)) (\<lambda>_.
     redis_bind (redis_call (rd_get api (current_access_key st node_id))) (\<lambda>current_access.
     redis_bind (redis_call (rd_get api (current_refresh_key st node_id))) (\<lambda>current_refresh.
     redis_bind (redis_call (rd_del api (current_access_key st node_id))) (\<lambda>_.
     redis_bind (redis_call (rd_del api (current_refresh_key st node_id))) (\<lambda>_.
     redis_bind (del_if_some api (access_key st) current_access) (\<lambda>_.
     redis_bind (del_if_some api (refresh_key st) current_refresh) (\<lambda>_.
       redis_return (Inr ()))))))))"

subsection \<open>What the store relies on\<close>

text \<open>
  \<open>view r k\<close> is what the server holds at \<open>k\<close>. A command that reports an error may have been executed or not.
\<close>

definition redis_laws :: "'r redis \<Rightarrow> ('r \<Rightarrow> string \<Rightarrow> string option) \<Rightarrow> bool" where
  "redis_laws api view \<longleftrightarrow>
     (\<forall>r x r'. rd_connect api r = (x, r') \<longrightarrow> view r' = view r) \<and>
     (\<forall>k r x r'. rd_get api k r = (x, r') \<longrightarrow> view r' = view r \<and> (\<forall>v. x = Inr v \<longrightarrow> v = view r k)) \<and>
     (\<forall>k v n r x r'. rd_set_ex api k v n r = (x, r') \<longrightarrow>
        view r' = (view r)(k \<mapsto> v) \<or> ((\<exists>error. x = Inl error) \<and> view r' = view r)) \<and>
     (\<forall>k r x r'. rd_del api k r = (x, r') \<longrightarrow>
        view r' = (view r)(k := None) \<or> ((\<exists>error. x = Inl error) \<and> view r' = view r))"

definition store_laws :: "redis_store \<Rightarrow> bool" where
  "store_laws st \<longleftrightarrow> inj (rt_display_uuid st) \<and> (\<forall>l. rt_parse_lease st (rt_lease_text st l) = Inr l)"

text \<open>The keys of the server that belong to a store in memory.\<close>

definition redis_repr :: "redis_store \<Rightarrow> (string \<Rightarrow> string option) \<Rightarrow> memory_token_state \<Rightarrow> bool" where
  "redis_repr st v m \<longleftrightarrow>
     (\<forall>t. v (access_key st t) = map_option (rt_lease_text st) (access_lease m t)) \<and>
     (\<forall>t. v (refresh_key st t) = map_option (rt_lease_text st) (refresh_lease m t)) \<and>
     (\<forall>n. v (current_access_key st n) = hm_get (mt_current_access_by_node m) n) \<and>
     (\<forall>n. v (current_refresh_key st n) = hm_get (mt_current_refresh_by_node m) n)"

lemmas redis_key_defs = access_key_def refresh_key_def current_access_key_def current_refresh_key_def

lemma redis_keys_distinct [simp]:
  "access_key st t \<noteq> refresh_key st u" "refresh_key st u \<noteq> access_key st t"
  "access_key st t \<noteq> current_access_key st n" "current_access_key st n \<noteq> access_key st t"
  "access_key st t \<noteq> current_refresh_key st n" "current_refresh_key st n \<noteq> access_key st t"
  "refresh_key st t \<noteq> current_access_key st n" "current_access_key st n \<noteq> refresh_key st t"
  "refresh_key st t \<noteq> current_refresh_key st n" "current_refresh_key st n \<noteq> refresh_key st t"
  "current_access_key st n \<noteq> current_refresh_key st k" "current_refresh_key st k \<noteq> current_access_key st n"
  by (simp_all add: redis_key_defs)

lemma redis_keys_inject [simp]:
  "access_key st t = access_key st u \<longleftrightarrow> t = u" "refresh_key st t = refresh_key st u \<longleftrightarrow> t = u"
  by (simp_all add: redis_key_defs)

lemma current_keys_inject:
  assumes "store_laws st"
  shows "current_access_key st n = current_access_key st k \<longleftrightarrow> n = k"
    and "current_refresh_key st n = current_refresh_key st k \<longleftrightarrow> n = k"
  using assms by (auto simp: redis_key_defs store_laws_def dest: injD)

subsection \<open>The operations as updates of the keys\<close>

named_theorems redis_steps \<open>what a successful action does to the keys\<close>

lemma redis_bind_Inr:
  "redis_bind m f r = (Inr y, r') \<longleftrightarrow> (\<exists>x r1. m r = (Inr x, r1) \<and> f x r1 = (Inr y, r'))"
  by (auto simp: redis_bind_def split: prod.splits sum.splits)

lemma redis_call_Inr: "redis_call command r = (Inr x, r') \<longleftrightarrow> command r = (Inr x, r')"
  by (auto simp: redis_call_def split: prod.splits sum.splits)

definition without :: "(string \<Rightarrow> string) \<Rightarrow> string option \<Rightarrow> (string \<Rightarrow> string option) \<Rightarrow> string \<Rightarrow> string option" where
  "without key token v = (case token of None \<Rightarrow> v | Some token \<Rightarrow> v(key token := None))"

lemma redis_steps_laws [redis_steps]:
  assumes "redis_laws api view"
  shows "rd_connect api r = (Inr x, r') \<Longrightarrow> view r' = view r"
    and "rd_get api k r = (Inr w, r') \<Longrightarrow> view r' = view r \<and> w = view r k"
    and "rd_set_ex api k v n r = (Inr x, r') \<Longrightarrow> view r' = (view r)(k \<mapsto> v)"
    and "rd_del api k r = (Inr d, r') \<Longrightarrow> view r' = (view r)(k := None)"
  using assms unfolding redis_laws_def by (metis Inl_Inr_False)+

lemma del_if_some_view [redis_steps]:
  assumes "redis_laws api view" "del_if_some api key token r = (Inr x, r')"
  shows "view r' = without key token (view r)"
  using assms(2) redis_steps_laws(4) [OF assms(1)]
  by (auto simp: del_if_some_def without_def redis_return_def redis_bind_Inr redis_call_Inr split: option.splits)

lemma redis_issue_view:
  assumes laws: "redis_laws api view" and issue: "redis_issue_tokens api st new1 new2 now n ttl r = (Inr issued, r')"
  shows "issued = fst (issue_tokens (rt_display_uuid st) new1 new2 now n ttl m) \<and>
    view r' = ((without (refresh_key st) (view r (current_refresh_key st n))
        (without (access_key st) (view r (current_access_key st n)) (view r)))
      (access_key st (it_access_token issued) \<mapsto> rt_lease_text st \<lparr>tl_node_id = n, tl_expires_at = now + ttl\<rparr>,
       refresh_key st (it_refresh_token issued) \<mapsto> rt_lease_text st \<lparr>tl_node_id = n, tl_expires_at = now + ttl\<rparr>,
       current_access_key st n \<mapsto> it_access_token issued, current_refresh_key st n \<mapsto> it_refresh_token issued))"
  using issue redis_steps_laws [OF laws] del_if_some_view [OF laws]
  by (auto simp: redis_issue_tokens_def issue_tokens_def Let_def redis_bind_Inr redis_call_Inr redis_return_def) metis

lemma redis_revoke_view:
  assumes laws: "redis_laws api view" and revoke: "redis_revoke_tokens api st n r = (Inr x, r')"
  shows "view r' = without (refresh_key st) (view r (current_refresh_key st n))
      (without (access_key st) (view r (current_access_key st n))
        ((view r)(current_access_key st n := None, current_refresh_key st n := None)))"
  using revoke redis_steps_laws [OF laws] del_if_some_view [OF laws]
  by (auto simp: redis_revoke_tokens_def redis_bind_Inr redis_call_Inr redis_return_def) metis

lemma without_other [simp]: "(\<And>t. k \<noteq> key t) \<Longrightarrow> without key token v k = v k"
  by (simp add: without_def split: option.split)

lemma without_key:
  assumes "\<And>t u. key t = key u \<longleftrightarrow> t = u"
  shows "without key token v (key t) = (if token = Some t then None else v (key t))"
  using assms by (auto simp: without_def split: option.split)

lemma hm_get_forget: "hm_get (forget n leases current) t = (if hm_get current n = Some t then None else hm_get leases t)"
  by (auto simp: forget_def split: option.splits)

lemma hm_get_forget_current: "hm_get (forget_current n current) k = (if k = n then None else hm_get current k)"
  by (auto simp: forget_current_def split: option.splits)

lemmas redis_repr_simps = access_lease_def refresh_lease_def revoke_tokens_fields store_tokens_fields
  hm_get_forget hm_get_forget_current without_key

lemma redis_revoke_repr:
  assumes st: "store_laws st" and repr: "redis_repr st (view r) m"
    and laws: "redis_laws api view" and revoke: "redis_revoke_tokens api st n r = (Inr x, r')"
  shows "redis_repr st (view r') (revoke_tokens n m)"
  using repr current_keys_inject [OF st]
  by (simp add: redis_revoke_view [OF laws revoke] redis_repr_def redis_repr_simps)

lemma redis_issue_repr:
  assumes st: "store_laws st" and repr: "redis_repr st (view r) m"
    and laws: "redis_laws api view" and issue: "redis_issue_tokens api st new1 new2 now n ttl r = (Inr issued, r')"
  shows "issued = fst (issue_tokens (rt_display_uuid st) new1 new2 now n ttl m)"
    and "redis_repr st (view r') (snd (issue_tokens (rt_display_uuid st) new1 new2 now n ttl m))"
proof -
  note view = redis_issue_view [OF laws issue, of m]
  from view show issued: "issued = fst (issue_tokens (rt_display_uuid st) new1 new2 now n ttl m)" by blast
  show "redis_repr st (view r') (snd (issue_tokens (rt_display_uuid st) new1 new2 now n ttl m))"
    using repr current_keys_inject [OF st]
    by (simp add: view [THEN conjunct2] issued issue_tokens_def Let_def redis_repr_def redis_repr_simps)
qed

lemma redis_lease_repr:
  assumes st: "store_laws st" and laws: "redis_laws api view"
    and key: "view r key = map_option (rt_lease_text st) lease" and found: "redis_lease api st key r = (Inr l, r')"
  shows "l = lease \<and> view r' = view r"
proof -
  from found obtain x r1 raw where steps: "rd_connect api r = (Inr x, r1)" "rd_get api key r1 = (Inr raw, r')"
      "(case raw of None \<Rightarrow> Inr None
        | Some text \<Rightarrow> (case rt_parse_lease st text of Inl error \<Rightarrow> Inl (StoreSerde error) | Inr lease \<Rightarrow> Inr (Some lease))) = Inr l"
    unfolding redis_lease_def redis_bind_Inr redis_call_Inr redis_return_def by blast
  with redis_steps_laws(1) [OF laws steps(1)] redis_steps_laws(2) [OF laws steps(2)] key st show ?thesis
    by (cases lease) (simp_all add: store_laws_def)
qed

subsection \<open>Sample server\<close>

text \<open>Keys without expiry; commands that store may be refused, as a server that is out of memory does.\<close>

definition sample_redis :: "bool \<Rightarrow> (string \<times> string) list redis" where
  "sample_redis full =
     \<lparr>rd_connect = (\<lambda>r. (Inr (), r)), rd_get = (\<lambda>k r. (Inr (map_of r k), r)),
      rd_set_ex = (\<lambda>k v n r. if full then (Inl ''OOM'', r) else (Inr (), AList.update k v r)),
      rd_del = (\<lambda>k r. (Inr (if map_of r k = None then 0 else 1), AList.delete k r))\<rparr>"

definition sample_redis_store :: redis_store where
  "sample_redis_store =
     \<lparr>rt_key_prefix = ''hub'', rt_display_uuid = sample_disp,
      rt_lease_text = (\<lambda>l. nat_to_string (unat (tl_node_id l)) @ (if tl_expires_at l < 0 then ''-'' else '' '') @
        nat_to_string (nat \<bar>tl_expires_at l\<bar>)),
      rt_parse_lease = (\<lambda>t. case dropWhile ascii_digit t of
          [] \<Rightarrow> Inl ''no lease''
        | c # digits \<Rightarrow> Inr \<lparr>tl_node_id = of_nat (string_to_nat (takeWhile ascii_digit t)),
            tl_expires_at = (if c = CHR ''-'' then - int (string_to_nat digits) else int (string_to_nat digits))\<rparr>)\<rparr>"

definition sample_keys :: "(string \<times> string) list" where
  "sample_keys = snd (redis_issue_tokens (sample_redis False) sample_redis_store 1 2 0 7 5 [])"

definition sample_leases :: memory_token_state where
  "sample_leases = snd (issue_tokens sample_disp 1 2 0 7 5 empty_token_state)"

lemma sample_redis_laws: "redis_laws (sample_redis full) map_of"
  by (simp add: redis_laws_def sample_redis_def update_conv' delete_conv')

lemma sample_redis_store_laws: "store_laws sample_redis_store"
proof -
  have digits: "takeWhile ascii_digit (nat_to_string n @ c # s) = nat_to_string n"
    "dropWhile ascii_digit (nat_to_string n @ c # s) = c # s" if "\<not> ascii_digit c" for n c s
    using nat_to_string_digits [of n] that
    by (simp_all add: takeWhile_append2 dropWhile_append2 list_all_iff)
  have "\<not> ascii_digit (CHR ''-'')" "\<not> ascii_digit (CHR '' '')" by code_simp+
  then show ?thesis
    by (auto simp: store_laws_def sample_redis_store_def digits inj_def sample_disp_def intro: unsigned_word_eqI)
qed

lemma sample_keys_repr: "redis_repr sample_redis_store (map_of sample_keys) sample_leases"
proof -
  have "redis_repr sample_redis_store (map_of []) empty_token_state"
    by (simp add: redis_repr_def access_lease_def refresh_lease_def empty_token_state_def)
  moreover have "fst (redis_issue_tokens (sample_redis False) sample_redis_store 1 2 0 7 5 []) =
      Inr \<lparr>it_access_token = ''node-at-1'', it_refresh_token = ''node-rt-2'', it_expires_at = 5\<rparr>"
    by code_simp
  then have "redis_issue_tokens (sample_redis False) sample_redis_store 1 2 0 7 5 [] =
      (Inr \<lparr>it_access_token = ''node-at-1'', it_refresh_token = ''node-rt-2'', it_expires_at = 5\<rparr>, sample_keys)"
    unfolding sample_keys_def by (metis prod.collapse)
  moreover have "rt_display_uuid sample_redis_store = sample_disp" by (simp add: sample_redis_store_def)
  ultimately show ?thesis
    using redis_issue_repr(2) [OF sample_redis_store_laws _ sample_redis_laws] unfolding sample_leases_def by metis
qed

subsection \<open>Properties\<close>

text \<open>
  C15: The Redis store refines the one in memory. Whenever an operation succeeds on keys that represent a store
  in memory, its result is the one the store in memory gives and the keys represent the store it leaves: issuing
  tokens, revoking them, and looking an access or a refresh token up.
\<close>

theorem redis_store_refines:
  assumes st: "store_laws st" and laws: "redis_laws api view" and repr: "redis_repr st (view r) m"
  shows "(redis_issue_tokens api st new1 new2 now n ttl r = (Inr issued, r1) \<longrightarrow>
      issued = fst (issue_tokens (rt_display_uuid st) new1 new2 now n ttl m) \<and>
      redis_repr st (view r1) (snd (issue_tokens (rt_display_uuid st) new1 new2 now n ttl m))) \<and>
    (redis_revoke_tokens api st n r = (Inr (), r2) \<longrightarrow> redis_repr st (view r2) (revoke_tokens n m)) \<and>
    (redis_access_lease api st t r = (Inr l, r3) \<longrightarrow> l = access_lease m t \<and> redis_repr st (view r3) m) \<and>
    (redis_refresh_lease api st t r = (Inr l, r3) \<longrightarrow> l = refresh_lease m t \<and> redis_repr st (view r3) m)"
proof -
  have keys: "view r (access_key st t) = map_option (rt_lease_text st) (access_lease m t)"
    "view r (refresh_key st t) = map_option (rt_lease_text st) (refresh_lease m t)"
    using repr by (simp_all add: redis_repr_def)
  have "l = access_lease m t \<and> redis_repr st (view r3) m" if "redis_access_lease api st t r = (Inr l, r3)"
    using redis_lease_repr [OF st laws keys(1) that [unfolded redis_access_lease_def]] repr by simp
  moreover have "l = refresh_lease m t \<and> redis_repr st (view r3) m" if "redis_refresh_lease api st t r = (Inr l, r3)"
    using redis_lease_repr [OF st laws keys(2) that [unfolded redis_refresh_lease_def]] repr by simp
  ultimately show ?thesis
    using redis_issue_repr [OF st repr laws] redis_revoke_repr [OF st repr laws] by blast
qed

theorem redis_store_refines_witness:
  "fst (redis_access_lease (sample_redis False) sample_redis_store ''node-at-1'' sample_keys) =
     Inr (Some \<lparr>tl_node_id = 7, tl_expires_at = 5\<rparr>) \<and>
   access_lease sample_leases ''node-at-1'' = Some \<lparr>tl_node_id = 7, tl_expires_at = 5\<rparr>"
proof -
  have "redis_access_lease (sample_redis False) sample_redis_store ''node-at-1'' sample_keys =
     (Inr (Some \<lparr>tl_node_id = 7, tl_expires_at = 5\<rparr>), sample_keys)"
    by code_simp
  with redis_store_refines [OF sample_redis_store_laws sample_redis_laws sample_keys_repr, of False _ _ _ _ _ _ _ _
      "''node-at-1''" "Some \<lparr>tl_node_id = 7, tl_expires_at = 5\<rparr>" sample_keys]
  show ?thesis by simp
qed

lemma del_if_some_runs:
  assumes "\<And>k r. \<exists>d r'. rd_del api k r = (Inr d, r')"
  shows "\<exists>r'. del_if_some api key token r = (Inr (), r')"
proof (cases token)
  case (Some old)
  obtain d r' where "rd_del api (key old) r = (Inr d, r')" using assms by blast
  with Some show ?thesis by (simp add: del_if_some_def redis_bind_def redis_call_def redis_return_def)
qed (simp add: del_if_some_def redis_return_def)

text \<open>
  C22: Rotating tokens in Redis is not atomic. When the server still reads and deletes but refuses to store, as it
  does when it is out of memory, issuing tokens fails and the tokens the node had are gone: neither its
  access nor its refresh token is found any more.
\<close>

theorem failed_issue_revokes:
  assumes laws: "redis_laws api view" and repr: "redis_repr st (view r) m"
    and connect: "\<And>r. \<exists>r'. rd_connect api r = (Inr (), r')"
    and get: "\<And>k r. \<exists>v r'. rd_get api k r = (Inr v, r')"
    and del: "\<And>k r. \<exists>d r'. rd_del api k r = (Inr d, r')"
    and full: "\<And>k v s r. rd_set_ex api k v s r = (Inl error, r)"
    and tokens: "hm_get (mt_current_access_by_node m) n = Some t" "hm_get (mt_current_refresh_by_node m) n = Some u"
  shows "\<exists>r'. redis_issue_tokens api st new1 new2 now n ttl r = (Inl (StoreRedis error), r') \<and>
    fst (redis_access_lease api st t r') = Inr None \<and> fst (redis_refresh_lease api st u r') = Inr None"
proof -
  note view = redis_steps_laws [OF laws]
  obtain r1 where 1: "rd_connect api r = (Inr (), r1)" using connect by blast
  obtain r2 where 2: "rd_get api (current_access_key st n) r1 = (Inr (Some t), r2)"
    using get view(1) [OF 1] view(2) [of "current_access_key st n" r1] tokens(1) repr unfolding redis_repr_def by metis
  obtain r3 where 3: "rd_get api (current_refresh_key st n) r2 = (Inr (Some u), r3)"
    using get view(1) [OF 1] view(2) [OF 2] view(2) [of "current_refresh_key st n" r2] tokens(2) repr
    unfolding redis_repr_def by metis
  obtain r4 where 4: "del_if_some api (access_key st) (Some t) r3 = (Inr (), r4)"
    using del_if_some_runs [OF del] by blast
  obtain r5 where 5: "del_if_some api (refresh_key st) (Some u) r4 = (Inr (), r5)"
    using del_if_some_runs [OF del] by blast
  have failed: "redis_issue_tokens api st new1 new2 now n ttl r = (Inl (StoreRedis error), r5)"
    unfolding redis_issue_tokens_def
    by (simp add: redis_bind_def redis_call_def 1 2 3 4 5 full Let_def)
  have none: "view r5 (access_key st t) = None" "view r5 (refresh_key st u) = None"
    by (simp_all add: del_if_some_view [OF laws 5] del_if_some_view [OF laws 4] without_def)
  have "fst (redis_lease api st key r5) = Inr None" if absent: "view r5 key = None" for key
  proof -
    obtain r6 where 6: "rd_connect api r5 = (Inr (), r6)" using connect by blast
    obtain v r7 where 7: "rd_get api key r6 = (Inr v, r7)" using get by blast
    with view(1) [OF 6] view(2) [OF 7] absent have "v = None" by simp
    with 6 7 show ?thesis by (simp add: redis_lease_def redis_bind_def redis_call_def redis_return_def)
  qed
  with failed none show ?thesis by (simp add: redis_access_lease_def redis_refresh_lease_def)
qed

theorem failed_issue_revokes_witness:
  "fst (redis_access_lease (sample_redis True) sample_redis_store ''node-at-1'' sample_keys) \<noteq> Inr None \<and>
   (\<exists>r'. redis_issue_tokens (sample_redis True) sample_redis_store 3 4 0 7 5 sample_keys = (Inl (StoreRedis ''OOM''), r') \<and>
      fst (redis_access_lease (sample_redis True) sample_redis_store ''node-at-1'' r') = Inr None \<and>
      fst (redis_refresh_lease (sample_redis True) sample_redis_store ''node-rt-2'' r') = Inr None)"
proof -
  have "fst (redis_access_lease (sample_redis True) sample_redis_store ''node-at-1'' sample_keys) \<noteq> Inr None" by code_simp
  moreover have "hm_get (mt_current_access_by_node sample_leases) 7 = Some ''node-at-1''"
    "hm_get (mt_current_refresh_by_node sample_leases) 7 = Some ''node-rt-2''" by code_simp+
  note failed_issue_revokes [OF sample_redis_laws sample_keys_repr _ _ _ _ this, of True "''OOM''" 3 4 0 5]
  ultimately show ?thesis by (simp add: sample_redis_def)
qed

end
