(* ===== verification/Ip_Text.thy ===== *)
theory Ip_Text
  imports Rust_Text
begin

text \<open>
  The texts that \<open>str::parse\<close> accepts as an \<open>Ipv4Addr\<close> and as an \<open>Ipv6Addr\<close>: the parser of
  the standard library, which reads a number greedily and, for version 6, groups of hexadecimal
  digits with one gap and an embedded address of version 4. Only acceptance is modelled; the
  callers drop the address.
\<close>

definition hex_digit :: "char \<Rightarrow> bool" where
  "hex_digit c \<longleftrightarrow> ascii_digit c \<or> byte c \<in> {65..70} \<or> byte c \<in> {97..102}"

text \<open>A number of at most \<open>max_digits\<close> digits; the rest of the text is returned.\<close>

definition read_octet :: "string \<Rightarrow> string option" where
  "read_octet s =
     (let digits = takeWhile ascii_digit s
      in if digits = [] \<or> 3 < length digits \<or> (hd digits = CHR ''0'' \<and> 1 < length digits) \<or>
           255 < string_to_nat digits
         then None else Some (dropWhile ascii_digit s))"

definition read_group :: "string \<Rightarrow> string option" where
  "read_group s =
     (let digits = takeWhile hex_digit s
      in if digits = [] \<or> 4 < length digits then None else Some (dropWhile hex_digit s))"

definition read_given_char :: "char \<Rightarrow> string \<Rightarrow> string option" where
  "read_given_char c s = (case s of [] \<Rightarrow> None | x # rest \<Rightarrow> if x = c then Some rest else None)"

definition read_separator :: "char \<Rightarrow> nat \<Rightarrow> (string \<Rightarrow> string option) \<Rightarrow> string \<Rightarrow> string option" where
  "read_separator sep index inner s = (if 0 < index then Option.bind (read_given_char sep s) inner else inner s)"

definition read_ipv4_addr :: "string \<Rightarrow> string option" where
  "read_ipv4_addr s =
     fold (\<lambda>i rest. Option.bind rest (read_separator (CHR ''.'') i read_octet)) [0, 1, 2, 3] (Some s)"

text \<open>The groups of one side of the gap: how many were read, and whether an address of version 4 ended them.\<close>

function read_groups :: "nat \<Rightarrow> nat \<Rightarrow> string \<Rightarrow> nat \<times> bool \<times> string" where
  "read_groups limit i s =
     (if limit \<le> i then (limit, False, s)
      else
        case (if i < limit - 1 then read_separator (CHR '':'') i read_ipv4_addr s else None) of
          Some rest \<Rightarrow> (i + 2, True, rest)
        | None \<Rightarrow>
            (case read_separator (CHR '':'') i read_group s of
               Some rest \<Rightarrow> read_groups limit (i + 1) rest
             | None \<Rightarrow> (i, False, s)))"
  by pat_completeness auto
termination by (relation "measure (\<lambda>(limit, i, s). limit - i)") auto

declare read_groups.simps [simp del]

definition read_ipv6_addr :: "string \<Rightarrow> string option" where
  "read_ipv6_addr s =
     (case read_groups 8 0 s of
        (head_size, head_ipv4, rest) \<Rightarrow>
          if head_size = 8 then Some rest
          else if head_ipv4 then None
          else
            Option.bind (read_given_char (CHR '':'') rest) (\<lambda>rest.
            Option.bind (read_given_char (CHR '':'') rest) (\<lambda>rest.
              case read_groups (8 - (head_size + 1)) 0 rest of (tail_size, _, rest) \<Rightarrow> Some rest)))"

definition is_ipv4 :: "string \<Rightarrow> bool" where
  "is_ipv4 s \<longleftrightarrow> length s \<le> 15 \<and> read_ipv4_addr s = Some []"

definition is_ipv6 :: "string \<Rightarrow> bool" where
  "is_ipv6 s \<longleftrightarrow> read_ipv6_addr s = Some []"

text \<open>Every address in dotted notation is accepted.\<close>

definition dotted :: "nat \<Rightarrow> nat \<Rightarrow> nat \<Rightarrow> nat \<Rightarrow> string" where
  "dotted a b c d = nat_to_string a @ ''.'' @ nat_to_string b @ ''.'' @ nat_to_string c @ ''.'' @ nat_to_string d"

lemma length_nat_to_string_octet: "n < 256 \<Longrightarrow> length (nat_to_string n) \<le> 3"
  by (simp add: nat_to_string.simps [of n] nat_to_string.simps [of "n div 10"] nat_to_string.simps [of "n div 10 div 10"])

lemma hd_nat_to_string: "1 < length (nat_to_string n) \<Longrightarrow> hd (nat_to_string n) \<noteq> CHR ''0''"
proof (induction n rule: nat_to_string.induct)
  case (1 n)
  show ?case
  proof (cases "n < 10")
    case True
    then show ?thesis using 1 by (simp add: nat_to_string.simps [of n])
  next
    case False
    let ?m = "n div 10"
    have n: "nat_to_string n = nat_to_string ?m @ [char_of (48 + n mod 10)]"
      using False by (simp add: nat_to_string.simps [of n])
    show ?thesis
    proof (cases "?m < 10")
      case True
      have "?m \<noteq> 0" using False by auto
      moreover have "byte (hd (nat_to_string ?m)) = 48 + ?m"
        using True by (simp add: nat_to_string.simps [of ?m])
      ultimately have "hd (nat_to_string ?m) \<noteq> CHR ''0''" using byte_0 by force
      then show ?thesis by (simp add: n hd_append)
    next
      case False
      then have "1 < length (nat_to_string ?m)" by (simp add: nat_to_string.simps [of ?m] Suc_lessI)
      with 1 \<open>\<not> n < 10\<close> show ?thesis by (simp add: n hd_append)
    qed
  qed
qed

lemma read_octet_print:
  assumes "n < 256" "rest = [] \<or> \<not> ascii_digit (hd rest)"
  shows "read_octet (nat_to_string n @ rest) = Some rest"
proof -
  have all: "\<forall>c \<in> set (nat_to_string n). ascii_digit c"
    using nat_to_string_digits [of n] by (simp add: list_all_iff)
  have take: "takeWhile ascii_digit (nat_to_string n @ rest) = nat_to_string n"
    using all assms(2) by (cases rest) (simp_all add: takeWhile_append)
  have drop: "dropWhile ascii_digit (nat_to_string n @ rest) = rest"
    using all assms(2) by (cases rest) (simp_all add: dropWhile_append)
  have "\<not> (hd (nat_to_string n) = CHR ''0'' \<and> 1 < length (nat_to_string n))" using hd_nat_to_string by blast
  with take drop length_nat_to_string_octet [OF assms(1)] assms(1) show ?thesis
    by (simp add: read_octet_def Let_def)
qed

lemma is_ipv4_dotted:
  assumes "a < 256" "b < 256" "c < 256" "d < 256"
  shows "is_ipv4 (dotted a b c d)"
proof -
  note len = length_nat_to_string_octet [OF assms(1)] length_nat_to_string_octet [OF assms(2)]
    length_nat_to_string_octet [OF assms(3)] length_nat_to_string_octet [OF assms(4)]
  have "read_octet (nat_to_string n @ CHR ''.'' # rest) = Some (CHR ''.'' # rest)" if "n < 256" for n rest
    using that by (intro read_octet_print) (simp_all add: ascii_digit_def byte_def)
  moreover have "read_octet (nat_to_string d) = Some []" using read_octet_print [OF assms(4), of "[]"] by simp
  ultimately show ?thesis
    using assms len by (simp add: is_ipv4_def dotted_def read_ipv4_addr_def read_separator_def read_given_char_def)
qed

end
