(* ===== verification/Failover_Plan.thy ===== *)
theory Failover_Plan
  imports Worker_Common Site_Config Dns_Provider Ip_Text
begin

text \<open>
  The decisions of the failover worker (\<open>apps/failover-worker\<close>) that need no database: when a
  policy fires, what the bindings of the site become, which node stands by next, which DNS record
  is changed and which operations follow. The functions of that file that parse a site's
  configuration are copies of those of the hub, modelled in \<open>Site_Config\<close>.
  \<open>parse_uuid\<close> stands for \<open>Uuid::parse_str\<close> of the uuid crate.
\<close>

subsection \<open>Snapshots\<close>

record policy_snapshot =
  ps_policy_id :: uuid
  ps_scope_type :: string
  ps_scope_id :: uuid
  ps_primary_node_id :: uuid
  ps_standby_node_id :: uuid
  ps_trigger_mode :: string
  ps_failure_threshold :: u32
  ps_precheck_policy :: json
  ps_primary_node_code :: string
  ps_standby_node_code :: string
  ps_primary_status :: string
  ps_standby_status :: string
  ps_standby_public_ip :: "string option"
  ps_primary_last_seen_at :: "datetime option"
  ps_primary_active_config_version :: "string option"
  ps_standby_active_config_version :: "string option"

record site_binding_snapshot =
  bs_node_id :: uuid
  bs_node_code :: string
  bs_node_status :: string
  bs_binding_role :: string
  bs_priority :: int

record site_snapshot =
  sn_site_id :: uuid
  sn_site_code :: string
  sn_name :: string
  sn_domain :: string
  sn_listen_port :: u16
  sn_protocol :: protocol
  sn_tls_enabled :: bool
  sn_status :: site_status
  sn_config :: json
  sn_bindings :: "site_binding_snapshot list"

record dns_zone_snapshot =
  zs_zone_id :: uuid
  zs_provider_id :: uuid
  zs_provider_type :: string
  zs_api_endpoint :: "string option"
  zs_credential_encrypted :: string
  zs_zone_name :: string
  zs_external_zone_id :: string
  zs_status :: string

record dns_failover_plan =
  dfp_zone :: dns_zone_snapshot
  dfp_change :: dns_record_change

subsection \<open>When a policy fires\<close>

definition policy_bool :: "json \<Rightarrow> string \<Rightarrow> bool \<Rightarrow> bool" where
  "policy_bool value key default_value = unwrap_or default_value (Option.bind (json_get value key) as_bool)"

definition prewarmed :: "policy_snapshot \<Rightarrow> bool" where
  "prewarmed policy \<longleftrightarrow> ps_standby_active_config_version policy \<noteq> None \<and>
     ps_standby_active_config_version policy = ps_primary_active_config_version policy"

definition evaluate_policy :: "policy_snapshot \<Rightarrow> datetime \<Rightarrow> u64 \<Rightarrow> string option" where
  "evaluate_policy policy now expected_heartbeat_seconds =
     (if ps_scope_type policy \<noteq> ''site'' then None
      else if ps_trigger_mode policy \<notin> {''semi_auto'', ''auto''} then None
      else if policy_bool (ps_precheck_policy policy) ''require_standby_online'' True \<and>
        ps_standby_status policy \<noteq> ''online'' then None
      else if policy_bool (ps_precheck_policy policy) ''require_config_prewarm'' False \<and> \<not> prewarmed policy then None
      else
        let primary_missed = unwrap_or (2 ^ 32 - 1)
              (map_option (\<lambda>last_seen_at. missed_heartbeats now last_seen_at expected_heartbeat_seconds)
                (ps_primary_last_seen_at policy));
            failure_threshold = max (ps_failure_threshold policy) 1
        in if ps_primary_status policy = ''offline'' \<or> failure_threshold \<le> primary_missed
           then Some (''primary node '' @ ps_primary_node_code policy @ '' degraded; status='' @
             ps_primary_status policy @ '' missed_heartbeats='' @ nat_to_string (unat primary_missed))
           else None)"

subsection \<open>The new bindings\<close>

text \<open>Addition of \<open>i32\<close>, which wraps around in a release build.\<close>

definition i32_add :: "int \<Rightarrow> int \<Rightarrow> int" where
  "i32_add a b = (a + b + 2147483648) mod 4294967296 - 2147483648"

definition current_primary_priority :: "site_binding_snapshot list \<Rightarrow> uuid \<Rightarrow> int" where
  "current_primary_priority existing primary_node_id =
     unwrap_or 10
       (or_else
         (map_option bs_priority
           (List.find (\<lambda>binding. bs_node_id binding = primary_node_id \<and> bs_binding_role binding = ''primary'') existing))
         (map_option bs_priority
           (min_by_key bs_priority (filter (\<lambda>binding. bs_binding_role binding = ''primary'') existing))))"

definition standby_previous_priority :: "site_binding_snapshot list \<Rightarrow> uuid \<Rightarrow> uuid \<Rightarrow> int" where
  "standby_previous_priority existing primary_node_id standby_node_id =
     unwrap_or (i32_add (current_primary_priority existing primary_node_id) 10)
       (map_option bs_priority (List.find (\<lambda>binding. bs_node_id binding = standby_node_id) existing))"

definition build_switched_bindings ::
  "(uuid \<Rightarrow> string) \<Rightarrow> site_binding_snapshot list \<Rightarrow> uuid \<Rightarrow> uuid \<Rightarrow> site_binding_snapshot list" where
  "build_switched_bindings display_uuid existing primary_node_id standby_node_id =
     (let primary_priority = current_primary_priority existing primary_node_id;
          standby_priority = standby_previous_priority existing primary_node_id standby_node_id;
          old_primary_new_priority = max standby_priority (i32_add primary_priority 10);
          switched = filter (\<lambda>binding. bs_node_id binding \<noteq> primary_node_id \<and> bs_node_id binding \<noteq> standby_node_id) existing;
          standby_node = unwrap_or
            \<lparr>bs_node_id = standby_node_id, bs_node_code = display_uuid standby_node_id, bs_node_status = ''online'',
             bs_binding_role = ''standby'', bs_priority = standby_priority\<rparr>
            (List.find (\<lambda>binding. bs_node_id binding = standby_node_id) existing);
          old_primary = unwrap_or
            \<lparr>bs_node_id = primary_node_id, bs_node_code = display_uuid primary_node_id, bs_node_status = ''offline'',
             bs_binding_role = ''primary'', bs_priority = primary_priority\<rparr>
            (List.find (\<lambda>binding. bs_node_id binding = primary_node_id) existing)
      in sort_key (\<lambda>binding. (bs_priority binding, bs_node_code binding))
           (switched @ [standby_node\<lparr>bs_binding_role := ''primary'', bs_priority := primary_priority\<rparr>,
              old_primary\<lparr>bs_binding_role := ''standby'', bs_priority := old_primary_new_priority\<rparr>]))"

definition standby_status_rank :: "string \<Rightarrow> nat" where
  "standby_status_rank status = (if to_ascii_lowercase status = ''online'' then 0 else 1)"

definition select_next_policy_standby :: "site_binding_snapshot list \<Rightarrow> uuid \<Rightarrow> uuid option" where
  "select_next_policy_standby bindings primary_node_id =
     map_option bs_node_id
       (min_by_key (\<lambda>binding. (standby_status_rank (bs_node_status binding), bs_priority binding, bs_node_code binding))
         (filter (\<lambda>binding. bs_node_id binding \<noteq> primary_node_id \<and> bs_binding_role binding = ''standby'') bindings))"

definition current_primary_node_id :: "site_binding_snapshot list \<Rightarrow> uuid option" where
  "current_primary_node_id bindings =
     map_option bs_node_id
       (min_by_key bs_priority (filter (\<lambda>binding. bs_binding_role binding = ''primary'') bindings))"

definition binding_to_json :: "(uuid \<Rightarrow> string) \<Rightarrow> site_binding_snapshot \<Rightarrow> json" where
  "binding_to_json display_uuid binding = jobj
     [(''node_id'', JString (display_uuid (bs_node_id binding))), (''node_code'', JString (bs_node_code binding)),
      (''node_status'', JString (bs_node_status binding)), (''binding_role'', JString (bs_binding_role binding)),
      (''priority'', jint (bs_priority binding))]"

subsection \<open>The DNS change\<close>

definition domain_belongs_to_zone :: "string \<Rightarrow> string \<Rightarrow> bool" where
  "domain_belongs_to_zone domain zone_name \<longleftrightarrow> domain = zone_name \<or> ends_with (''.'' @ zone_name) domain"

definition validate_dns_failover_target :: "string \<Rightarrow> string \<Rightarrow> string + unit" where
  "validate_dns_failover_target record_type value =
     (if record_type = ''A'' then
        (if is_ipv4 value then Inr () else Inl ''dns failover A record requires standby public IPv4'')
      else if record_type = ''AAAA'' then
        (if is_ipv6 value then Inr () else Inl ''dns failover AAAA record requires standby public IPv6'')
      else Inl ''dns failover record_type must be A or AAAA'')"

definition config_str :: "(string \<times> json) list \<Rightarrow> string \<Rightarrow> string option" where
  "config_str config key =
     opt_filter (\<lambda>value. value \<noteq> []) (map_option trim (Option.bind (map_of config key) as_str))"

definition select_dns_failover_zone ::
  "(string \<Rightarrow> uuid option) \<Rightarrow> (uuid \<Rightarrow> string) \<Rightarrow> string \<Rightarrow> (string \<times> json) list \<Rightarrow> dns_zone_snapshot list \<Rightarrow>
   string + dns_zone_snapshot" where
  "select_dns_failover_zone parse_uuid display_uuid site_domain config zones =
     (case Option.bind (Option.bind (map_of config ''zone_id'') as_str) parse_uuid of
        Some zone_id \<Rightarrow>
          ok_or (''dns failover zone_id '' @ display_uuid zone_id @ '' is not active or not found'')
            (List.find (\<lambda>zone. zs_zone_id zone = zone_id \<and> zs_status zone = ''active'') zones)
      | None \<Rightarrow>
          (case config_str config ''zone_name'' of
             Some zone_name \<Rightarrow>
               ok_or (''dns failover zone_name '' @ zone_name @ '' is not active or not found'')
                 (List.find (\<lambda>zone. zs_zone_name zone = zone_name \<and> zs_status zone = ''active'') zones)
           | None \<Rightarrow>
               ok_or (''no active dns zone matches site domain '' @ site_domain)
                 (max_by_key (\<lambda>zone. length (zs_zone_name zone))
                   (filter (\<lambda>zone. zs_status zone = ''active'' \<and>
                     domain_belongs_to_zone site_domain (zs_zone_name zone)) zones))))"

definition dns_failover_config :: "json \<Rightarrow> (string \<times> json) list option" where
  "dns_failover_config policy = Option.bind (json_get policy ''dns_failover'') as_object"

definition u32_try_from :: "u64 \<Rightarrow> u32 option" where
  "u32_try_from value = (if value < 2 ^ 32 then Some (ucast value) else None)"

definition build_dns_failover_plan ::
  "(string \<Rightarrow> uuid option) \<Rightarrow> (uuid \<Rightarrow> string) \<Rightarrow> site_snapshot \<Rightarrow> policy_snapshot \<Rightarrow> dns_zone_snapshot list \<Rightarrow>
   string + dns_failover_plan option" where
  "build_dns_failover_plan parse_uuid display_uuid site policy zones =
     (case dns_failover_config (ps_precheck_policy policy) of
        None \<Rightarrow> Inr None
      | Some config \<Rightarrow>
          if \<not> unwrap_or False (Option.bind (map_of config ''enabled'') as_bool) then Inr None
          else
            result_bind (ok_or (''dns failover is enabled but standby node '' @ ps_standby_node_code policy @
                '' has no public_ip'')
              (opt_filter (\<lambda>value. value \<noteq> []) (map_option trim (ps_standby_public_ip policy)))) (\<lambda>standby_ip.
            let record_type = to_ascii_uppercase (unwrap_or ''A'' (config_str config ''record_type''))
            in result_bind (validate_dns_failover_target record_type standby_ip) (\<lambda>_.
               result_bind (select_dns_failover_zone parse_uuid display_uuid (sn_domain site) config zones) (\<lambda>zone.
               let host = unwrap_or (sn_domain site) (config_str config ''host'');
                   ttl = min (max (unwrap_or 60 (Option.bind (Option.bind (map_of config ''ttl'') as_u64) u32_try_from)) 1) 86400
               in Inr (Some
                 \<lparr>dfp_zone = zone,
                  dfp_change = \<lparr>dc_zone_id = Some (zs_external_zone_id zone), dc_zone_name = zs_zone_name zone,
                    dc_record_type = record_type, dc_host = host, dc_value = standby_ip, dc_ttl = ttl\<rparr>\<rparr>)))))"

definition dns_failover_plan_to_json :: "(uuid \<Rightarrow> string) \<Rightarrow> dns_failover_plan \<Rightarrow> json" where
  "dns_failover_plan_to_json display_uuid plan = jobj
     [(''zone_id'', JString (display_uuid (zs_zone_id (dfp_zone plan)))),
      (''provider_id'', JString (display_uuid (zs_provider_id (dfp_zone plan)))),
      (''zone_name'', JString (dc_zone_name (dfp_change plan))), (''record_type'', JString (dc_record_type (dfp_change plan))),
      (''host'', JString (dc_host (dfp_change plan))), (''value'', JString (dc_value (dfp_change plan))),
      (''ttl'', jnat (ucast (dc_ttl (dfp_change plan))))]"

subsection \<open>Operations after the switch\<close>

record post_switch_operation_spec =
  po_node_id :: uuid
  po_template_id :: "uuid option"
  po_template_name :: "string option"
  po_input_params :: json

definition parse_post_switch_operation ::
  "(string \<Rightarrow> uuid option) \<Rightarrow> json \<Rightarrow> policy_snapshot \<Rightarrow> post_switch_operation_spec option" where
  "parse_post_switch_operation parse_uuid value policy =
     Option.bind (as_object value) (\<lambda>object.
       let template_id = Option.bind (Option.bind (map_of object ''template_id'') as_str) parse_uuid;
           template_name = config_str object ''template_name''
       in if template_id = None \<and> template_name = None then None
          else
            let target = unwrap_or ''standby'' (Option.bind (map_of object ''target'') as_str)
            in Some
              \<lparr>po_node_id = (if target \<in> {''standby'', ''target'', ''new_primary''} then ps_standby_node_id policy
                 else if target \<in> {''primary'', ''source'', ''old_primary''} then ps_primary_node_id policy
                 else ps_standby_node_id policy),
               po_template_id = template_id, po_template_name = template_name,
               po_input_params = (case map_of object ''input_params'' of
                  Some (JObject kvs) \<Rightarrow> JObject kvs | _ \<Rightarrow> JObject [])\<rparr>)"

subsection \<open>What the decisions guarantee\<close>

abbreviation primaries_of :: "site_binding_snapshot list \<Rightarrow> site_binding_snapshot list" where
  "primaries_of bs \<equiv> filter (\<lambda>b. bs_binding_role b = ''primary'') bs"

lemma ok_or_Inr: "ok_or err x = Inr y \<longleftrightarrow> x = Some y"
  by (cases x) auto

lemma clamp_ttl: "(1 :: u32) \<le> min (max t 1) 86400 \<and> min (max t 1) 86400 \<le> (86400 :: u32)"
  by (auto simp: min_def max_def dest: leI le_less_trans less_imp_le)

lemma if_None:
  "(if c then None else x) \<noteq> None \<longleftrightarrow> \<not> c \<and> x \<noteq> None" "(if c then Some y else None) \<noteq> None \<longleftrightarrow> c"
  by simp_all

lemma find_node_id: "List.find (\<lambda>b. bs_node_id b = n) bs = Some b \<Longrightarrow> bs_node_id b = n"
  by (auto dest: find_Some_in)

text \<open>The switched bindings as the unsorted list they are sorted from.\<close>

lemma build_switched_bindings_unsorted:
  obtains new old where
    "mset (build_switched_bindings disp existing p s) =
       mset (filter (\<lambda>b. bs_node_id b \<noteq> p \<and> bs_node_id b \<noteq> s) existing @ [new, old])"
    "bs_node_id new = s" "bs_binding_role new = ''primary''" "bs_priority new = current_primary_priority existing p"
    "bs_node_id old = p" "bs_binding_role old = ''standby''"
    "bs_priority old = max (standby_previous_priority existing p s) (i32_add (current_primary_priority existing p) 10)"
    "sorted (map (\<lambda>b. (bs_priority b, bs_node_code b)) (build_switched_bindings disp existing p s))"
proof -
  let ?new = "(unwrap_or
      \<lparr>bs_node_id = s, bs_node_code = disp s, bs_node_status = ''online'', bs_binding_role = ''standby'',
       bs_priority = standby_previous_priority existing p s\<rparr>
      (List.find (\<lambda>binding. bs_node_id binding = s) existing))
      \<lparr>bs_binding_role := ''primary'', bs_priority := current_primary_priority existing p\<rparr>"
  let ?old = "(unwrap_or
      \<lparr>bs_node_id = p, bs_node_code = disp p, bs_node_status = ''offline'', bs_binding_role = ''primary'',
       bs_priority = current_primary_priority existing p\<rparr>
      (List.find (\<lambda>binding. bs_node_id binding = p) existing))
      \<lparr>bs_binding_role := ''standby'',
       bs_priority := max (standby_previous_priority existing p s) (i32_add (current_primary_priority existing p) 10)\<rparr>"
  have id: "bs_node_id (unwrap_or d (List.find (\<lambda>b. bs_node_id b = n) existing)) = n" if "bs_node_id d = n" for n d
  proof (cases "List.find (\<lambda>b. bs_node_id b = n) existing")
    case (Some b)
    with find_node_id [OF Some] show ?thesis by (simp only: unwrap_or_simps)
  qed (simp add: that)
  have eq: "build_switched_bindings disp existing p s = sort_key (\<lambda>b. (bs_priority b, bs_node_code b))
      (filter (\<lambda>b. bs_node_id b \<noteq> p \<and> bs_node_id b \<noteq> s) existing @ [?new, ?old])"
    by (simp only: build_switched_bindings_def Let_def)
  show thesis
    by (rule that [of ?new ?old]; (unfold eq)?)
      (simp_all add: id)
qed

text \<open>
  C30: The bindings after a failover: the standby of the policy becomes primary, its primary a
  standby, every other binding is kept as it is, no node is bound twice, and the list is sorted by
  priority and code. The number of primaries is one more than the number of primaries among the
  other nodes, so it is one exactly when the policy names the current primary.
\<close>

theorem build_switched_bindings_spec:
  assumes "distinct (map bs_node_id existing)" "p \<noteq> s"
  shows "distinct (map bs_node_id (build_switched_bindings disp existing p s)) \<and>
    bs_node_id ` set (build_switched_bindings disp existing p s) = {p, s} \<union> bs_node_id ` set existing \<and>
    (\<forall>b \<in> set (build_switched_bindings disp existing p s).
       bs_binding_role b = (if bs_node_id b = s then ''primary'' else if bs_node_id b = p then ''standby'' else bs_binding_role b) \<and>
       (bs_node_id b \<notin> {p, s} \<longrightarrow> b \<in> set existing)) \<and>
    sorted (map (\<lambda>b. (bs_priority b, bs_node_code b)) (build_switched_bindings disp existing p s)) \<and>
    length (primaries_of (build_switched_bindings disp existing p s)) =
      1 + length (filter (\<lambda>b. bs_node_id b \<notin> {p, s}) (primaries_of existing))"
proof -
  let ?r = "build_switched_bindings disp existing p s"
  let ?rest = "filter (\<lambda>b. bs_node_id b \<noteq> p \<and> bs_node_id b \<noteq> s) existing"
  obtain new old where r: "mset ?r = mset (?rest @ [new, old])"
    and new: "bs_node_id new = s" "bs_binding_role new = ''primary''"
    and old: "bs_node_id old = p" "bs_binding_role old = ''standby''"
    and srt: "sorted (map (\<lambda>b. (bs_priority b, bs_node_code b)) ?r)"
    by (rule build_switched_bindings_unsorted [of disp existing p s]) blast
  have elems: "set ?r = set ?rest \<union> {new, old}" using mset_eq_setD [OF r] by auto
  have "mset (map bs_node_id ?r) = mset (map bs_node_id (?rest @ [new, old]))" using r by (simp only: mset_map)
  moreover have "distinct (map bs_node_id (?rest @ [new, old]))"
    using assms new(1) old(1) by (auto simp: distinct_map_filter)
  ultimately have dist: "distinct (map bs_node_id ?r)" using mset_eq_imp_distinct_iff by blast
  have "mset (primaries_of ?r) = mset (primaries_of (?rest @ [new, old]))" using r by (simp only: mset_filter)
  then have "length (primaries_of ?r) = length (primaries_of (?rest @ [new, old]))"
    by (rule mset_eq_length)
  then have "length (primaries_of ?r) = 1 + length (filter (\<lambda>b. bs_node_id b \<notin> {p, s}) (primaries_of existing))"
    using new old by (simp add: conj_ac)
  with dist srt elems new old assms(2) show ?thesis by auto
qed

lemma next_standby_exists:
  assumes "p \<noteq> s"
  shows "\<exists>b \<in> set (build_switched_bindings disp existing p s).
    select_next_policy_standby (build_switched_bindings disp existing p s) s = Some (bs_node_id b) \<and>
    bs_node_id b \<noteq> s \<and> bs_binding_role b = ''standby'' \<and>
    ((\<exists>b' \<in> set (build_switched_bindings disp existing p s). bs_node_id b' \<noteq> s \<and> bs_binding_role b' = ''standby'' \<and>
        to_ascii_lowercase (bs_node_status b') = ''online'') \<longrightarrow> to_ascii_lowercase (bs_node_status b) = ''online'')"
proof -
  let ?r = "build_switched_bindings disp existing p s"
  let ?key = "\<lambda>b. (standby_status_rank (bs_node_status b), bs_priority b, bs_node_code b)"
  let ?cands = "filter (\<lambda>b. bs_node_id b \<noteq> s \<and> bs_binding_role b = ''standby'') ?r"
  obtain new old where r: "mset ?r = mset (filter (\<lambda>b. bs_node_id b \<noteq> p \<and> bs_node_id b \<noteq> s) existing @ [new, old])"
    and old: "bs_node_id old = p" "bs_binding_role old = ''standby''"
    by (rule build_switched_bindings_unsorted [of disp existing p s]) blast
  have "old \<in> set ?r" using mset_eq_setD [OF r] by auto
  with old assms have "?cands \<noteq> []" by (auto simp: filter_empty_conv)
  then obtain b where b: "min_by_key ?key ?cands = Some b" by (cases "min_by_key ?key ?cands") auto
  have "standby_status_rank (bs_node_status b) \<le> standby_status_rank (bs_node_status b')" if "b' \<in> set ?cands" for b'
    using min_by_key_least [OF b that] by (auto simp: less_eq_prod_def)
  then have online: "to_ascii_lowercase (bs_node_status b) = ''online''"
    if "b' \<in> set ?cands" "to_ascii_lowercase (bs_node_status b') = ''online''" for b'
    using that by (fastforce simp: standby_status_rank_def split: if_splits)
  from min_by_key_in [OF b] b online show ?thesis
    unfolding select_next_policy_standby_def by (intro bexI [of _ b] conjI impI) (simp, simp, simp, force, simp)
qed

text \<open>
  After a failover the policy can always be advanced: the node chosen to stand by next is bound
  as a standby, is not the new primary, and is online if any standby of the site is.
\<close>

theorem policy_always_advances:
  assumes "p \<noteq> s"
  shows "\<exists>b \<in> set (build_switched_bindings disp existing p s).
    select_next_policy_standby (build_switched_bindings disp existing p s) s = Some (bs_node_id b) \<and>
    bs_node_id b \<noteq> s \<and> bs_binding_role b = ''standby'' \<and>
    ((\<exists>b' \<in> set (build_switched_bindings disp existing p s). bs_node_id b' \<noteq> s \<and> bs_binding_role b' = ''standby'' \<and>
        to_ascii_lowercase (bs_node_status b') = ''online'') \<longrightarrow> to_ascii_lowercase (bs_node_status b) = ''online'')"
  by (rule next_standby_exists [OF assms])

text \<open>
  A policy fires exactly when it is a site policy that triggers automatically, its prechecks
  pass, and its primary is offline, was never seen, or has been silent for at least the threshold
  number of heartbeat intervals (a threshold of zero counts as one).
\<close>

theorem evaluate_policy_fires:
  assumes "0 < every" "\<And>seen. ps_primary_last_seen_at policy = Some seen \<Longrightarrow> num_seconds (now - seen) < 2 ^ 63"
  shows "evaluate_policy policy now every \<noteq> None \<longleftrightarrow>
    ps_scope_type policy = ''site'' \<and> ps_trigger_mode policy \<in> {''semi_auto'', ''auto''} \<and>
    (policy_bool (ps_precheck_policy policy) ''require_standby_online'' True \<longrightarrow> ps_standby_status policy = ''online'') \<and>
    (policy_bool (ps_precheck_policy policy) ''require_config_prewarm'' False \<longrightarrow>
       (\<exists>v. ps_standby_active_config_version policy = Some v \<and> ps_primary_active_config_version policy = Some v)) \<and>
    (ps_primary_status policy = ''offline'' \<or>
     (case ps_primary_last_seen_at policy of
        None \<Rightarrow> True
      | Some seen \<Rightarrow> int (max (unat (ps_failure_threshold policy)) 1 * unat every) \<le> num_seconds (now - seen)))"
proof -
  have every: "0 < unat every" using assms(1) by (simp add: word_less_nat_alt)
  define t where "t = max (unat (ps_failure_threshold policy)) 1"
  have t: "unat (max (ps_failure_threshold policy) 1) = t" "t < 2 ^ 32"
    using unsigned_less [of "ps_failure_threshold policy", where ?'a = nat]
    by (auto simp: t_def max_def word_le_nat_alt unat_eq_0 not_le)
  have never: "max (ps_failure_threshold policy) 1 \<le> (2 ^ 32 - 1 :: u32)"
  proof -
    have "(2 ^ 32 - 1 :: u32) = - 1" by simp
    then show ?thesis by (simp only: word_order.extremum)
  qed
  have silent: "max (ps_failure_threshold policy) 1 \<le> missed_heartbeats now seen every \<longleftrightarrow>
      int (t * unat every) \<le> num_seconds (now - seen)"
    if "ps_primary_last_seen_at policy = Some seen" for seen
  proof -
    have "max (ps_failure_threshold policy) 1 \<le> missed_heartbeats now seen every \<longleftrightarrow>
        t \<le> min (nat (num_seconds (now - seen)) div unat every) (2 ^ 32 - 1)"
      using missed_heartbeats_floor [OF assms(2) [OF that], of every] every max_absorb1 [of 1 "unat every"]
      by (simp add: word_le_nat_alt t)
    also have "\<dots> \<longleftrightarrow> t * unat every \<le> nat (num_seconds (now - seen))"
      using t(2) every by (simp add: less_eq_div_iff_mult_less_eq)
    also have "\<dots> \<longleftrightarrow> int (t * unat every) \<le> num_seconds (now - seen)"
    proof -
      have "0 < t * unat every" using every by (simp add: t_def)
      moreover have "k \<le> nat z \<longleftrightarrow> int k \<le> z" if "0 < k" for k z using that by arith
      ultimately show ?thesis by blast
    qed
    finally show ?thesis .
  qed
  have "prewarmed policy \<longleftrightarrow>
      (\<exists>v. ps_standby_active_config_version policy = Some v \<and> ps_primary_active_config_version policy = Some v)"
    unfolding prewarmed_def by (cases "ps_standby_active_config_version policy") auto
  moreover have "max (ps_failure_threshold policy) 1 \<le> unwrap_or (2 ^ 32 - 1)
        (map_option (\<lambda>seen. missed_heartbeats now seen every) (ps_primary_last_seen_at policy)) \<longleftrightarrow>
      (case ps_primary_last_seen_at policy of None \<Rightarrow> True
       | Some seen \<Rightarrow> int (max (unat (ps_failure_threshold policy)) 1 * unat every) \<le> num_seconds (now - seen))"
    using never silent unfolding t_def by (cases "ps_primary_last_seen_at policy") simp_all
  ultimately show ?thesis
    unfolding evaluate_policy_def Let_def if_None by blast
qed

text \<open>
  A DNS change that is planned publishes the address of the standby: an address of the
  version the record type needs, a time to live between one second and one day, in an active zone
  of the list; without a configured zone it is the longest one the site's domain lies in.
\<close>

theorem build_dns_failover_plan_target:
  assumes "build_dns_failover_plan parse_uuid disp site policy zones = Inr (Some plan)"
  shows "Some (dc_value (dfp_change plan)) = map_option trim (ps_standby_public_ip policy) \<and>
    (dc_record_type (dfp_change plan) = ''A'' \<and> is_ipv4 (dc_value (dfp_change plan)) \<or>
     dc_record_type (dfp_change plan) = ''AAAA'' \<and> is_ipv6 (dc_value (dfp_change plan))) \<and>
    1 \<le> dc_ttl (dfp_change plan) \<and> dc_ttl (dfp_change plan) \<le> 86400 \<and>
    dfp_zone plan \<in> set zones \<and> zs_status (dfp_zone plan) = ''active'' \<and>
    dc_zone_id (dfp_change plan) = Some (zs_external_zone_id (dfp_zone plan)) \<and>
    dc_zone_name (dfp_change plan) = zs_zone_name (dfp_zone plan) \<and>
    (\<forall>config. dns_failover_config (ps_precheck_policy policy) = Some config \<longrightarrow>
       map_of config ''zone_id'' = None \<longrightarrow> map_of config ''zone_name'' = None \<longrightarrow>
       domain_belongs_to_zone (sn_domain site) (zs_zone_name (dfp_zone plan)) \<and>
       (\<forall>zone \<in> set zones. zs_status zone = ''active'' \<longrightarrow> domain_belongs_to_zone (sn_domain site) (zs_zone_name zone) \<longrightarrow>
          length (zs_zone_name zone) \<le> length (zs_zone_name (dfp_zone plan))))"
proof -
  from assms obtain config ip zone where c: "dns_failover_config (ps_precheck_policy policy) = Some config"
    and ip: "opt_filter (\<lambda>value. value \<noteq> []) (map_option trim (ps_standby_public_ip policy)) = Some ip"
    and val: "validate_dns_failover_target (dc_record_type (dfp_change plan)) ip = Inr ()"
    and zone: "select_dns_failover_zone parse_uuid disp (sn_domain site) config zones = Inr zone"
    and plan: "dfp_zone plan = zone" "dc_zone_id (dfp_change plan) = Some (zs_external_zone_id zone)"
      "dc_zone_name (dfp_change plan) = zs_zone_name zone" "dc_value (dfp_change plan) = ip"
    and ttl: "1 \<le> dc_ttl (dfp_change plan) \<and> dc_ttl (dfp_change plan) \<le> 86400"
    using clamp_ttl by (auto simp: build_dns_failover_plan_def Let_def result_bind_eq_Inr ok_or_Inr split: option.splits if_splits)
  have "zone \<in> set zones \<and> zs_status zone = ''active'' \<and>
      (map_of config ''zone_id'' = None \<longrightarrow> map_of config ''zone_name'' = None \<longrightarrow>
         domain_belongs_to_zone (sn_domain site) (zs_zone_name zone) \<and>
         (\<forall>z \<in> set zones. zs_status z = ''active'' \<longrightarrow> domain_belongs_to_zone (sn_domain site) (zs_zone_name z) \<longrightarrow>
            length (zs_zone_name z) \<le> length (zs_zone_name zone)))"
    using zone
    by (auto simp: select_dns_failover_zone_def config_str_def ok_or_Inr split: option.splits
        dest!: find_Some_in dest: max_by_key_in max_by_key_greatest)
  moreover have "dc_record_type (dfp_change plan) = ''A'' \<and> is_ipv4 ip \<or> dc_record_type (dfp_change plan) = ''AAAA'' \<and> is_ipv6 ip"
    using val by (auto simp: validate_dns_failover_target_def split: if_splits)
  moreover have "map_option trim (ps_standby_public_ip policy) = Some ip" using ip by (simp add: opt_filter_eq_Some)
  ultimately show ?thesis using c plan ttl by auto
qed

text \<open>Examples: a site bound to nodes 7 and 8, with a policy between them.\<close>

definition sample_binding :: "uuid \<Rightarrow> string \<Rightarrow> int \<Rightarrow> site_binding_snapshot" where
  "sample_binding n role prio =
     \<lparr>bs_node_id = n, bs_node_code = ''n'', bs_node_status = ''online'', bs_binding_role = role, bs_priority = prio\<rparr>"

definition sample_dns_policy :: json where
  "sample_dns_policy = jobj [(''dns_failover'', jobj [(''enabled'', JBool True), (''ttl'', jnat 0)])]"

definition sample_policy :: policy_snapshot where
  "sample_policy =
     \<lparr>ps_policy_id = 1, ps_scope_type = ''site'', ps_scope_id = 50, ps_primary_node_id = 7, ps_standby_node_id = 8,
      ps_trigger_mode = ''auto'', ps_failure_threshold = 3, ps_precheck_policy = sample_dns_policy,
      ps_primary_node_code = ''n7'', ps_standby_node_code = ''n8'', ps_primary_status = ''suspect'',
      ps_standby_status = ''online'', ps_standby_public_ip = Some ''192.0.2.8'', ps_primary_last_seen_at = Some 0,
      ps_primary_active_config_version = None, ps_standby_active_config_version = None\<rparr>"

definition sample_snapshot :: site_snapshot where
  "sample_snapshot =
     \<lparr>sn_site_id = 50, sn_site_code = ''shop'', sn_name = ''Shop'', sn_domain = ''shop.example.com'', sn_listen_port = 80,
      sn_protocol = Http, sn_tls_enabled = False, sn_status = Published, sn_config = JObject [],
      sn_bindings = [sample_binding 7 ''primary'' 100, sample_binding 8 ''standby'' 200]\<rparr>"

definition sample_zones :: "dns_zone_snapshot list" where
  "sample_zones =
     map (\<lambda>(i, name). \<lparr>zs_zone_id = i, zs_provider_id = 1, zs_provider_type = ''cloudflare'', zs_api_endpoint = None,
       zs_credential_encrypted = ''{}'', zs_zone_name = name, zs_external_zone_id = ''z-'' @ name, zs_status = ''active''\<rparr>)
     [(1, ''example.com''), (2, ''shop.example.com''), (3, ''other.org'')]"

definition no_uuid :: "string \<Rightarrow> uuid option" where
  "no_uuid s = None"

text \<open>A site whose bindings changed without its policy: the result has two primaries.\<close>

theorem build_switched_bindings_spec_witness:
  "length (primaries_of (build_switched_bindings (\<lambda>_. ''u'')
      [sample_binding 9 ''primary'' 50, sample_binding 7 ''standby'' 100, sample_binding 8 ''standby'' 200] 7 8)) = 2 \<and>
   length (primaries_of (build_switched_bindings (\<lambda>_. ''u'') (sn_bindings sample_snapshot) 7 8)) = 1"
proof -
  have stale: "distinct (map bs_node_id
      [sample_binding 9 ''primary'' 50, sample_binding 7 ''standby'' 100, sample_binding 8 ''standby'' 200])"
    and current: "distinct (map bs_node_id (sn_bindings sample_snapshot))"
    by (simp_all add: sample_binding_def sample_snapshot_def)
  show ?thesis
    using build_switched_bindings_spec [OF stale, of 7 8 "\<lambda>_. ''u''"] build_switched_bindings_spec [OF current, of 7 8 "\<lambda>_. ''u''"]
    by (simp add: sample_binding_def sample_snapshot_def)
qed

theorem policy_always_advances_witness:
  "select_next_policy_standby (build_switched_bindings (\<lambda>_. ''u'') (sn_bindings sample_snapshot) 7 8) 8 = Some 7"
proof -
  have "bs_node_id ` set (build_switched_bindings (\<lambda>_. ''u'') (sn_bindings sample_snapshot) 7 8) \<subseteq> {7, 8}"
    by code_simp
  with policy_always_advances [of 7 8 "\<lambda>_. ''u''" "sn_bindings sample_snapshot"] show ?thesis by auto
qed

theorem evaluate_policy_fires_witness:
  "evaluate_policy sample_policy (seconds 45) 15 \<noteq> None \<and> evaluate_policy sample_policy (seconds 44) 15 = None"
proof -
  have sec: "num_seconds (seconds 45 - 0) = 45" "num_seconds (seconds 44 - 0) = 44"
    by (simp_all add: seconds_def num_seconds_def)
  have pol: "policy_bool sample_dns_policy ''require_standby_online'' True"
    "\<not> policy_bool sample_dns_policy ''require_config_prewarm'' False"
    by (simp_all add: policy_bool_def sample_dns_policy_def)
  show ?thesis
    using evaluate_policy_fires [of 15 sample_policy "seconds 45"] evaluate_policy_fires [of 15 sample_policy "seconds 44"] sec pol
    by (simp add: sample_policy_def)
qed

theorem build_dns_failover_plan_target_witness:
  "\<exists>plan. build_dns_failover_plan no_uuid (\<lambda>_. ''u'') sample_snapshot sample_policy sample_zones = Inr (Some plan) \<and>
     dc_value (dfp_change plan) = ''192.0.2.8'' \<and> zs_zone_name (dfp_zone plan) = ''shop.example.com'' \<and>
     1 \<le> dc_ttl (dfp_change plan)"
proof -
  have "case build_dns_failover_plan no_uuid (\<lambda>_. ''u'') sample_snapshot sample_policy sample_zones of
      Inl _ \<Rightarrow> False | Inr None \<Rightarrow> False
    | Inr (Some plan) \<Rightarrow> dc_value (dfp_change plan) = ''192.0.2.8'' \<and> zs_zone_name (dfp_zone plan) = ''shop.example.com''"
    by code_simp
  then obtain plan where plan: "build_dns_failover_plan no_uuid (\<lambda>_. ''u'') sample_snapshot sample_policy sample_zones = Inr (Some plan)"
    "dc_value (dfp_change plan) = ''192.0.2.8''" "zs_zone_name (dfp_zone plan) = ''shop.example.com''"
    by (auto split: sum.splits option.splits)
  with build_dns_failover_plan_target [OF plan(1)] show ?thesis by blast
qed

end
