(* ===== verification/Failover_Worker.thy ===== *)
theory Failover_Worker
  imports Failover_Plan
begin

text \<open>
  The failover worker over its database (\<open>process_failover_policies\<close> and what it calls in
  \<open>apps/failover-worker\<close>): tables with the columns the statements use, every statement as one
  effect on them, the transaction of \<open>execute_site_failover\<close>, and the DNS provider outside of it.
  \<open>fails\<close> says which statements the database refuses. Tables the worker only reads are kept as
  the rows of the joins it reads them with.
\<close>

subsection \<open>Tables\<close>

record fo_node =
  fn_id :: uuid
  fn_node_code :: string
  fn_status :: string
  fn_public_ip :: "string option"
  fn_last_seen_at :: "datetime option"

record fo_heartbeat =
  fh_node_id :: uuid
  fh_active_config_version :: "string option"
  fh_reported_at :: datetime

record fo_policy =
  fp_id :: uuid
  fp_scope_type :: string
  fp_scope_id :: uuid
  fp_primary_node_id :: uuid
  fp_standby_node_id :: uuid
  fp_trigger_mode :: string
  fp_failure_threshold :: int
  fp_precheck_policy :: json
  fp_status :: string
  fp_created_at :: datetime

record fo_event =
  fe_id :: uuid
  fe_policy_id :: uuid
  fe_site_id :: uuid
  fe_source_node_id :: uuid
  fe_target_node_id :: uuid
  fe_trigger_reason :: string
  fe_event_status :: string
  fe_started_at :: datetime
  fe_finished_at :: "datetime option"

record fo_site =
  fs_id :: uuid
  fs_site_code :: string
  fs_name :: string
  fs_domain :: string
  fs_listen_port :: int
  fs_protocol :: string
  fs_tls_enabled :: bool
  fs_status :: string

record fo_site_config =
  fc_site_id :: uuid
  fc_version :: int
  fc_config_json :: json

record fo_binding =
  fb_site_id :: uuid
  fb_node_id :: uuid
  fb_status :: string
  fb_bind_mode :: string
  fb_binding_role :: string
  fb_priority :: int

record fo_site_certificate =
  fx_site_id :: uuid
  fx_is_default :: bool
  fx_created_at :: datetime
  fx_certificate :: certificate_ref

record fo_release =
  fr_id :: uuid
  fr_scope_id :: uuid
  fr_release_type :: string
  fr_release_version :: string
  fr_bundle :: compiled_config_bundle
  fr_manifest_hash :: string
  fr_reason :: string
  fr_status :: string
  fr_published_at :: datetime
  fr_created_by :: string
  fr_created_at :: datetime

record fo_release_status =
  ft_release_id :: uuid
  ft_node_id :: uuid
  ft_target_version :: string
  ft_apply_status :: string
  ft_apply_message :: string

record fo_dns_record =
  fd_id :: uuid
  fd_zone_id :: uuid
  fd_record_type :: string
  fd_host :: string
  fd_value :: string
  fd_ttl :: int
  fd_status :: string
  fd_updated_at :: datetime

record fo_dns_change_log =
  fl_id :: uuid
  fl_zone_id :: uuid
  fl_record_id :: uuid
  fl_before_data :: "json option"
  fl_after_data :: json
  fl_created_at :: datetime

record fo_audit_log =
  fa_resource_id :: string
  fa_before_data :: json
  fa_after_data :: json
  fa_created_at :: datetime

record loaded_operation_template =
  lt_id :: uuid
  lt_name :: string
  lt_approval_required :: bool

record fo_node_operation =
  fq_id :: uuid
  fq_node_id :: uuid
  fq_template_id :: uuid
  fq_event_id :: uuid
  fq_input_params :: json
  fq_exec_status :: string
  fq_requested_by :: string
  fq_approved_by :: string
  fq_created_at :: datetime

text \<open>\<open>db_zones\<close>: every zone joined with its provider, with the status of the provider.\<close>

record failover_db =
  db_nodes :: "fo_node list"
  db_heartbeats :: "fo_heartbeat list"
  db_policies :: "fo_policy list"
  db_events :: "fo_event list"
  db_sites :: "fo_site list"
  db_site_configs :: "fo_site_config list"
  db_bindings :: "fo_binding list"
  db_site_certificates :: "fo_site_certificate list"
  db_zones :: "(dns_zone_snapshot \<times> string) list"
  db_releases :: "fo_release list"
  db_release_status :: "fo_release_status list"
  db_dns_records :: "fo_dns_record list"
  db_dns_change_logs :: "fo_dns_change_log list"
  db_audit_logs :: "fo_audit_log list"
  db_templates :: "loaded_operation_template list"
  db_node_operations :: "fo_node_operation list"

text \<open>
  What a run needs from outside: the failures of the database, identifiers and the clock of the
  compiler, texts of the libraries, and the API of the DNS provider.
\<close>

record 's failover_env =
  fv_fails :: failures
  fv_uuid :: "nat \<Rightarrow> uuid"
  fv_compile_time :: datetime
  fv_display_uuid :: "uuid \<Rightarrow> string"
  fv_parse_uuid :: "string \<Rightarrow> uuid option"
  fv_format_timestamp :: "datetime \<Rightarrow> string"
  fv_unicode_lower :: "string \<Rightarrow> string"
  fv_json_parse :: "string \<Rightarrow> string + json"
  fv_api :: "'s cloudflare_api"

type_synonym ('a, 's) failover = "('a, failover_db, 's) effect"

subsection \<open>Queries\<close>

definition node_row :: "failover_db \<Rightarrow> uuid \<Rightarrow> fo_node option" where
  "node_row db i = List.find (\<lambda>n. fn_id n = i) (db_nodes db)"

definition latest_active_version :: "failover_db \<Rightarrow> uuid \<Rightarrow> string option" where
  "latest_active_version db i =
     Option.bind (max_by_key fh_reported_at (filter (\<lambda>hb. fh_node_id hb = i) (db_heartbeats db))) fh_active_config_version"

definition policy_snapshot_of :: "failover_db \<Rightarrow> fo_policy \<Rightarrow> policy_snapshot option" where
  "policy_snapshot_of db p =
     Option.bind (node_row db (fp_primary_node_id p)) (\<lambda>pn.
     Option.bind (node_row db (fp_standby_node_id p)) (\<lambda>sn.
       Some \<lparr>ps_policy_id = fp_id p, ps_scope_type = fp_scope_type p, ps_scope_id = fp_scope_id p,
         ps_primary_node_id = fp_primary_node_id p, ps_standby_node_id = fp_standby_node_id p,
         ps_trigger_mode = fp_trigger_mode p, ps_failure_threshold = of_int (max 0 (fp_failure_threshold p)),
         ps_precheck_policy = fp_precheck_policy p, ps_primary_node_code = fn_node_code pn,
         ps_standby_node_code = fn_node_code sn, ps_primary_status = fn_status pn, ps_standby_status = fn_status sn,
         ps_standby_public_ip = fn_public_ip sn, ps_primary_last_seen_at = fn_last_seen_at pn,
         ps_primary_active_config_version = latest_active_version db (fp_primary_node_id p),
         ps_standby_active_config_version = latest_active_version db (fp_standby_node_id p)\<rparr>))"

definition load_active_policies :: "'s failover_env \<Rightarrow> (policy_snapshot list, 's) failover" where
  "load_active_policies e =
     sql_query (fv_fails e) (\<lambda>db. List.map_filter (policy_snapshot_of db)
       (sort_key fp_created_at (filter (\<lambda>p. fp_status p = ''active'') (db_policies db))))"

definition has_open_failover_event :: "'s failover_env \<Rightarrow> uuid \<Rightarrow> (bool, 's) failover" where
  "has_open_failover_event e policy_id =
     sql_query (fv_fails e) (\<lambda>db. list_ex (\<lambda>ev. fe_policy_id ev = policy_id \<and> fe_finished_at ev = None \<and>
       fe_event_status ev \<in> {''detected'', ''prechecking'', ''switching''}) (db_events db))"

definition site_bindings_of :: "failover_db \<Rightarrow> uuid \<Rightarrow> site_binding_snapshot list" where
  "site_bindings_of db site_id =
     sort_key (\<lambda>b. (bs_priority b, bs_node_code b))
       (List.map_filter (\<lambda>b. map_option (\<lambda>n.
           \<lparr>bs_node_id = fb_node_id b, bs_node_code = fn_node_code n, bs_node_status = fn_status n,
            bs_binding_role = fb_binding_role b, bs_priority = fb_priority b\<rparr>) (node_row db (fb_node_id b)))
         (filter (\<lambda>b. fb_site_id b = site_id) (db_bindings db)))"

definition load_site_bindings :: "'s failover_env \<Rightarrow> uuid \<Rightarrow> (site_binding_snapshot list, 's) failover" where
  "load_site_bindings e site_id = sql_query (fv_fails e) (\<lambda>db. site_bindings_of db site_id)"

definition load_site_snapshot :: "'s failover_env \<Rightarrow> uuid \<Rightarrow> (site_snapshot, 's) failover" where
  "load_site_snapshot e site_id =
     eff_bind (sql_query (fv_fails e) (\<lambda>db. map_option (\<lambda>s.
         (s, map_option fc_config_json
           (max_by_key fc_version (filter (\<lambda>c. fc_site_id c = fs_id s) (db_site_configs db)))))
         (List.find (\<lambda>s. fs_id s = site_id) (db_sites db)))) (\<lambda>row.
     eff_bind (eff_return (ok_or (''site '' @ fv_display_uuid e site_id @ '' not found'') row)) (\<lambda>(s, config_json).
     eff_bind (load_site_bindings e site_id) (\<lambda>bindings.
       eff_return (Inr
         \<lparr>sn_site_id = fs_id s, sn_site_code = fs_site_code s, sn_name = fs_name s, sn_domain = fs_domain s,
          sn_listen_port = of_int (min (max (fs_listen_port s) 0) 65535), sn_protocol = decode_protocol (fs_protocol s),
          sn_tls_enabled = fs_tls_enabled s, sn_status = decode_site_status (fs_status s),
          sn_config = unwrap_or (JObject []) config_json, sn_bindings = bindings\<rparr>))))"

definition load_dns_zone_snapshots :: "'s failover_env \<Rightarrow> (dns_zone_snapshot list, 's) failover" where
  "load_dns_zone_snapshots e =
     sql_query (fv_fails e) (\<lambda>db. sort_key (\<lambda>z. (- int (chars_count (zs_zone_name z)), zs_zone_name z))
       (map fst (filter (\<lambda>(z, provider_status). zs_status z = ''active'' \<and> provider_status = ''active'') (db_zones db))))"

definition load_site_certificates :: "'s failover_env \<Rightarrow> uuid \<Rightarrow> (certificate_ref list, 's) failover" where
  "load_site_certificates e site_id =
     sql_query (fv_fails e) (\<lambda>db. map fx_certificate (sort_key (\<lambda>c. - fx_created_at c)
       (filter (\<lambda>c. fx_site_id c = site_id \<and> fx_is_default c) (db_site_certificates db))))"

definition load_operation_template ::
  "'s failover_env \<Rightarrow> uuid option \<Rightarrow> string option \<Rightarrow> (loaded_operation_template option, 's) failover" where
  "load_operation_template e template_id template_name =
     (case template_id of
        Some i \<Rightarrow> sql_query (fv_fails e) (\<lambda>db. List.find (\<lambda>t. lt_id t = i) (db_templates db))
      | None \<Rightarrow>
          (case template_name of
             Some name \<Rightarrow> sql_query (fv_fails e) (\<lambda>db. List.find (\<lambda>t. lt_name t = name) (db_templates db))
           | None \<Rightarrow> eff_return (Inr None)))"

subsection \<open>Events\<close>

definition create_failover_event :: "'s failover_env \<Rightarrow> policy_snapshot \<Rightarrow> datetime \<Rightarrow> string \<Rightarrow> (uuid, 's) failover" where
  "create_failover_event e policy now reason =
     (let event_id = fv_uuid e 0
      in eff_bind (sql_exec (fv_fails e) (\<lambda>db. db\<lparr>db_events := db_events db @
           [\<lparr>fe_id = event_id, fe_policy_id = ps_policy_id policy, fe_site_id = ps_scope_id policy,
             fe_source_node_id = ps_primary_node_id policy, fe_target_node_id = ps_standby_node_id policy,
             fe_trigger_reason = reason, fe_event_status = ''switching'', fe_started_at = now,
             fe_finished_at = None\<rparr>]\<rparr>)) (\<lambda>_. eff_return (Inr event_id)))"

definition finish_failover_event :: "'s failover_env \<Rightarrow> uuid \<Rightarrow> string \<Rightarrow> datetime \<Rightarrow> (unit, 's) failover" where
  "finish_failover_event e event_id status now =
     sql_exec (fv_fails e) (\<lambda>db. db\<lparr>db_events := map (\<lambda>ev. if fe_id ev = event_id
       then ev\<lparr>fe_event_status := status, fe_finished_at := Some now\<rparr> else ev) (db_events db)\<rparr>)"

subsection \<open>The switch\<close>

definition save_site_bindings :: "'s failover_env \<Rightarrow> uuid \<Rightarrow> site_binding_snapshot list \<Rightarrow> (unit, 's) failover" where
  "save_site_bindings e site_id bindings =
     eff_bind (sql_exec (fv_fails e) (\<lambda>db. db\<lparr>db_bindings := filter (\<lambda>b. fb_site_id b \<noteq> site_id) (db_bindings db)\<rparr>)) (\<lambda>_.
       eff_each (\<lambda>binding. sql_exec (fv_fails e) (\<lambda>db. db\<lparr>db_bindings := db_bindings db @
         [\<lparr>fb_site_id = site_id, fb_node_id = bs_node_id binding, fb_status = ''active'', fb_bind_mode = ''failover'',
           fb_binding_role = bs_binding_role binding, fb_priority = bs_priority binding\<rparr>]\<rparr>)) bindings)"

definition advance_failover_policy ::
  "'s failover_env \<Rightarrow> policy_snapshot \<Rightarrow> site_binding_snapshot list \<Rightarrow> (uuid option, 's) failover" where
  "advance_failover_policy e policy switched_bindings =
     (let next_primary_node_id = ps_standby_node_id policy
      in case select_next_policy_standby switched_bindings next_primary_node_id of
           None \<Rightarrow> eff_return (Inr None)
         | Some next_standby_node_id \<Rightarrow>
             eff_bind (sql_exec (fv_fails e) (\<lambda>db. db\<lparr>db_policies := map (\<lambda>p. if fp_id p = ps_policy_id policy
               then p\<lparr>fp_primary_node_id := next_primary_node_id, fp_standby_node_id := next_standby_node_id\<rparr> else p)
               (db_policies db)\<rparr>))
             (\<lambda>_. eff_return (Inr (Some next_standby_node_id))))"

subsection \<open>The DNS change\<close>

record dns_record_snapshot =
  rc_record_id :: uuid
  rc_value :: string
  rc_ttl :: int

definition load_dns_record_snapshot :: "'s failover_env \<Rightarrow> dns_failover_plan \<Rightarrow> (dns_record_snapshot option, 's) failover" where
  "load_dns_record_snapshot e plan =
     sql_query (fv_fails e) (\<lambda>db. map_option (\<lambda>r. \<lparr>rc_record_id = fd_id r, rc_value = fd_value r, rc_ttl = fd_ttl r\<rparr>)
       (max_by_key fd_updated_at (filter (\<lambda>r. fd_zone_id r = zs_zone_id (dfp_zone plan) \<and>
          fd_record_type r = dc_record_type (dfp_change plan) \<and> fd_host r = dc_host (dfp_change plan) \<and>
          fd_status r = ''active'') (db_dns_records db))))"

definition ttl_i32 :: "u32 \<Rightarrow> int" where
  "ttl_i32 ttl = unwrap_or 2147483647 (i32_try_from (uint ttl))"

definition upsert_dns_record_snapshot ::
  "'s failover_env \<Rightarrow> dns_failover_plan \<Rightarrow> dns_record_snapshot option \<Rightarrow> datetime \<Rightarrow> (uuid, 's) failover" where
  "upsert_dns_record_snapshot e plan existing now =
     (case existing of
        Some r \<Rightarrow>
          eff_bind (sql_exec (fv_fails e) (\<lambda>db. db\<lparr>db_dns_records := map (\<lambda>row. if fd_id row = rc_record_id r
            then row\<lparr>fd_value := dc_value (dfp_change plan), fd_ttl := ttl_i32 (dc_ttl (dfp_change plan)), fd_updated_at := now\<rparr>
            else row) (db_dns_records db)\<rparr>)) (\<lambda>_. eff_return (Inr (rc_record_id r)))
      | None \<Rightarrow>
          (let record_id = fv_uuid e 2
           in eff_bind (sql_exec (fv_fails e) (\<lambda>db. db\<lparr>db_dns_records := db_dns_records db @
             [\<lparr>fd_id = record_id, fd_zone_id = zs_zone_id (dfp_zone plan), fd_record_type = dc_record_type (dfp_change plan),
               fd_host = dc_host (dfp_change plan), fd_value = dc_value (dfp_change plan),
               fd_ttl = ttl_i32 (dc_ttl (dfp_change plan)), fd_status = ''active'', fd_updated_at = now\<rparr>]\<rparr>))
             (\<lambda>_. eff_return (Inr record_id))))"

definition insert_dns_change_log ::
  "'s failover_env \<Rightarrow> dns_failover_plan \<Rightarrow> dns_record_snapshot option \<Rightarrow> uuid \<Rightarrow> uuid \<Rightarrow> datetime \<Rightarrow> (unit, 's) failover" where
  "insert_dns_change_log e plan existing record_id event_id now =
     (let id_json = (\<lambda>i. JString (fv_display_uuid e i));
          before_data = map_option (\<lambda>r. jobj
            [(''record_id'', id_json (rc_record_id r)), (''zone_id'', id_json (zs_zone_id (dfp_zone plan))),
             (''record_type'', JString (dc_record_type (dfp_change plan))), (''host'', JString (dc_host (dfp_change plan))),
             (''value'', JString (rc_value r)), (''ttl'', jint (rc_ttl r))]) existing;
          after_data = jobj
            [(''record_id'', id_json record_id), (''zone_id'', id_json (zs_zone_id (dfp_zone plan))),
             (''provider_id'', id_json (zs_provider_id (dfp_zone plan))), (''failover_event_id'', id_json event_id),
             (''record_type'', JString (dc_record_type (dfp_change plan))), (''host'', JString (dc_host (dfp_change plan))),
             (''value'', JString (dc_value (dfp_change plan))), (''ttl'', jnat (ucast (dc_ttl (dfp_change plan))))]
      in sql_exec (fv_fails e) (\<lambda>db. db\<lparr>db_dns_change_logs := db_dns_change_logs db @
           [\<lparr>fl_id = fv_uuid e 3, fl_zone_id = zs_zone_id (dfp_zone plan), fl_record_id = record_id,
             fl_before_data = before_data, fl_after_data = after_data, fl_created_at = now\<rparr>]\<rparr>))"

definition provider_config_from_dns_zone :: "'s failover_env \<Rightarrow> dns_zone_snapshot \<Rightarrow> string + provider_config" where
  "provider_config_from_dns_zone e zone =
     (case fv_json_parse e (zs_credential_encrypted zone) of
        Inl error \<Rightarrow> Inl ''failed to decode dns provider credentials''
      | Inr credentials \<Rightarrow> Inr \<lparr>pf_provider_type = zs_provider_type zone, pf_api_endpoint = zs_api_endpoint zone,
          pf_credentials = credentials\<rparr>)"

text \<open>The methods of the trait object: the no-op provider accepts every change.\<close>

fun provider_update_record :: "'s cloudflare_api \<Rightarrow> dns_provider \<Rightarrow> dns_record_change \<Rightarrow> 's \<Rightarrow> (string + unit) \<times> 's" where
  "provider_update_record api (CloudflareDnsProvider cf) change s = update_record api cf change s"
| "provider_update_record api NoopDnsProvider change s = (Inr (), s)"

fun provider_create_record :: "'s cloudflare_api \<Rightarrow> dns_provider \<Rightarrow> dns_record_change \<Rightarrow> 's \<Rightarrow> (string + unit) \<times> 's" where
  "provider_create_record api (CloudflareDnsProvider cf) change s = create_record api cf change s"
| "provider_create_record api NoopDnsProvider change s = (Inr (), s)"

definition dns_change_text :: "dns_record_change \<Rightarrow> string" where
  "dns_change_text change = dc_record_type change @ '' '' @ dc_host change @ '' to '' @ dc_value change"

definition apply_dns_failover :: "'s failover_env \<Rightarrow> dns_failover_plan \<Rightarrow> uuid \<Rightarrow> datetime \<Rightarrow> (unit, 's) failover" where
  "apply_dns_failover e plan event_id now =
     eff_bind (load_dns_record_snapshot e plan) (\<lambda>existing.
     eff_bind (eff_return (provider_config_from_dns_zone e (dfp_zone plan))) (\<lambda>provider_config.
     eff_bind (eff_context (''failed to build dns provider '' @ zs_provider_type (dfp_zone plan))
       (eff_return (build_provider provider_config))) (\<lambda>provider.
     eff_bind (if existing \<noteq> None
       then eff_context (''failed to update dns record '' @ dns_change_text (dfp_change plan))
              (eff_ext (provider_update_record (fv_api e) provider (dfp_change plan)))
       else eff_context (''failed to create dns record '' @ dns_change_text (dfp_change plan))
              (eff_ext (provider_create_record (fv_api e) provider (dfp_change plan)))) (\<lambda>_.
     eff_bind (upsert_dns_record_snapshot e plan existing now) (\<lambda>record_id.
       insert_dns_change_log e plan existing record_id event_id now)))))"

subsection \<open>Operations after the switch\<close>

definition post_switch_operation ::
  "'s failover_env \<Rightarrow> uuid \<Rightarrow> datetime \<Rightarrow> nat \<Rightarrow> post_switch_operation_spec \<Rightarrow> loaded_operation_template \<Rightarrow> fo_node_operation" where
  "post_switch_operation e event_id now queued spec t =
     \<lparr>fq_id = fv_uuid e (4 + queued), fq_node_id = po_node_id spec, fq_template_id = lt_id t, fq_event_id = event_id,
      fq_input_params = po_input_params spec, fq_exec_status = ''approved'', fq_requested_by = ''system:failover-worker'',
      fq_approved_by = ''system:failover-worker'', fq_created_at = now\<rparr>"

fun enqueue_operations ::
  "'s failover_env \<Rightarrow> policy_snapshot \<Rightarrow> uuid \<Rightarrow> datetime \<Rightarrow> json list \<Rightarrow> nat \<Rightarrow> (nat, 's) failover" where
  "enqueue_operations e policy event_id now [] queued = eff_return (Inr queued)"
| "enqueue_operations e policy event_id now (item # items) queued =
     (case parse_post_switch_operation (fv_parse_uuid e) item policy of
        None \<Rightarrow> enqueue_operations e policy event_id now items queued
      | Some spec \<Rightarrow>
          eff_bind (load_operation_template e (po_template_id spec) (po_template_name spec)) (\<lambda>template.
            case template of
              None \<Rightarrow> enqueue_operations e policy event_id now items queued
            | Some t \<Rightarrow>
                if lt_approval_required t then enqueue_operations e policy event_id now items queued
                else eff_bind (sql_exec (fv_fails e) (\<lambda>db. db\<lparr>db_node_operations := db_node_operations db @
                    [post_switch_operation e event_id now queued spec t]\<rparr>))
                  (\<lambda>_. enqueue_operations e policy event_id now items (queued + 1))))"

definition enqueue_post_switch_operations ::
  "'s failover_env \<Rightarrow> policy_snapshot \<Rightarrow> uuid \<Rightarrow> datetime \<Rightarrow> (nat, 's) failover" where
  "enqueue_post_switch_operations e policy event_id now =
     (case Option.bind (json_get (ps_precheck_policy policy) ''post_switch_operations'') as_array of
        None \<Rightarrow> eff_return (Inr 0)
      | Some items \<Rightarrow> enqueue_operations e policy event_id now items 0)"

subsection \<open>One failover\<close>

definition failover_spec_of :: "'s failover_env \<Rightarrow> site_snapshot \<Rightarrow> site_spec" where
  "failover_spec_of e site =
     (let upstreams = parse_upstreams (sn_config site)
      in \<lparr>ss_id = sn_site_id site, ss_site_code = sn_site_code site, ss_name = sn_name site, ss_domain = sn_domain site,
          ss_listen_port = sn_listen_port site, ss_protocol = sn_protocol site, ss_tls_enabled = sn_tls_enabled site,
          ss_status = sn_status site, ss_upstreams = upstreams, ss_routes = parse_routes (sn_config site) upstreams,
          ss_cache_rules = parse_cache_rules (fv_unicode_lower e) (sn_config site)\<rparr>)"

definition failover_targets :: "uuid \<Rightarrow> site_binding_snapshot list \<Rightarrow> release_target list" where
  "failover_targets site_id release_nodes =
     map (\<lambda>binding. \<lparr>rt_node_id = bs_node_id binding, rt_site_ids = [site_id],
       rt_preheated = (bs_binding_role binding = ''standby'')\<rparr>) release_nodes"

definition insert_failover_release ::
  "'s failover_env \<Rightarrow> policy_snapshot \<Rightarrow> site_snapshot \<Rightarrow> compiled_config_bundle \<Rightarrow> string \<Rightarrow> datetime \<Rightarrow>
   site_binding_snapshot list \<Rightarrow> (unit, 's) failover" where
  "insert_failover_release e policy site bundle release_version now release_nodes =
     (let release_id = rm_release_id (cb_manifest bundle)
      in eff_bind (sql_exec (fv_fails e) (\<lambda>db. db\<lparr>db_releases := db_releases db @
           [\<lparr>fr_id = release_id, fr_scope_id = sn_site_id site, fr_release_type = ''failover'',
             fr_release_version = release_version, fr_bundle = bundle,
             fr_manifest_hash = rm_config_hash (cb_manifest bundle),
             fr_reason = ''automatic failover '' @ ps_primary_node_code policy @ '' -> '' @ ps_standby_node_code policy @
               '' for site '' @ sn_site_code site,
             fr_status = ''pending'', fr_published_at = now, fr_created_by = ''system:failover-worker'',
             fr_created_at = now\<rparr>]\<rparr>)) (\<lambda>_.
         eff_each (\<lambda>binding. sql_exec (fv_fails e) (\<lambda>db. db\<lparr>db_release_status := db_release_status db @
           [\<lparr>ft_release_id = release_id, ft_node_id = bs_node_id binding, ft_target_version = release_version,
             ft_apply_status = ''pending'', ft_apply_message = ''queued by failover-worker''\<rparr>]\<rparr>)) release_nodes))"

definition failover_audit_log ::
  "'s failover_env \<Rightarrow> policy_snapshot \<Rightarrow> site_snapshot \<Rightarrow> uuid \<Rightarrow> string \<Rightarrow> site_binding_snapshot list \<Rightarrow>
   dns_failover_plan option \<Rightarrow> uuid option \<Rightarrow> datetime \<Rightarrow> fo_audit_log" where
  "failover_audit_log e policy site release_id release_version switched plan next_policy_standby now =
     (let id_json = (\<lambda>i. JString (fv_display_uuid e i))
      in \<lparr>fa_resource_id = fv_display_uuid e (sn_site_id site),
          fa_before_data = jobj
            [(''primary_node_id'', id_json (ps_primary_node_id policy)), (''standby_node_id'', id_json (ps_standby_node_id policy)),
             (''bindings'', JArray (map (binding_to_json (fv_display_uuid e)) (sn_bindings site)))],
          fa_after_data = jobj
            [(''release_id'', id_json release_id), (''release_version'', JString release_version),
             (''bindings'', JArray (map (binding_to_json (fv_display_uuid e)) switched)),
             (''dns_failover'', jopt (dns_failover_plan_to_json (fv_display_uuid e)) plan),
             (''next_policy_primary_node_id'', id_json (ps_standby_node_id policy)),
             (''next_policy_standby_node_id'', jopt id_json next_policy_standby)],
          fa_created_at = now\<rparr>)"

definition execute_site_failover ::
  "'s failover_env \<Rightarrow> policy_snapshot \<Rightarrow> site_snapshot \<Rightarrow> uuid \<Rightarrow> datetime \<Rightarrow> (unit, 's) failover" where
  "execute_site_failover e policy site event_id now =
     transaction (fv_fails e)
       (eff_bind (load_dns_zone_snapshots e) (\<lambda>dns_zones.
        eff_bind (eff_return (build_dns_failover_plan (fv_parse_uuid e) (fv_display_uuid e) site policy dns_zones)) (\<lambda>plan.
        let switched = build_switched_bindings (fv_display_uuid e) (sn_bindings site) (ps_primary_node_id policy)
              (ps_standby_node_id policy)
        in eff_bind (save_site_bindings e (sn_site_id site) switched) (\<lambda>_.
           eff_bind (advance_failover_policy e policy switched) (\<lambda>next_policy_standby.
           eff_bind (load_site_certificates e (sn_site_id site)) (\<lambda>certificates.
           if switched = []
           then eff_return (Inl (''no eligible target nodes available for site '' @ sn_site_code site @
                  '' after failover switch''))
           else
             let release_version = build_release_version (fv_format_timestamp e) ''failover'' now (of_int (now div 1000000))
             in eff_bind (eff_return (compile_site_bundle (fv_display_uuid e) (fv_uuid e 1) (fv_compile_time e)
                    (failover_spec_of e site) certificates (failover_targets (sn_site_id site) switched) release_version)) (\<lambda>bundle.
                eff_bind (insert_failover_release e policy site bundle release_version now switched) (\<lambda>_.
                eff_bind (sql_exec (fv_fails e) (\<lambda>db. db\<lparr>db_sites := map (\<lambda>s. if fs_id s = sn_site_id site
                    then s\<lparr>fs_status := ''published''\<rparr> else s) (db_sites db)\<rparr>)) (\<lambda>_.
                eff_bind (case plan of None \<Rightarrow> eff_return (Inr ()) | Some p \<Rightarrow> apply_dns_failover e p event_id now) (\<lambda>_.
                eff_bind (sql_exec (fv_fails e) (\<lambda>db. db\<lparr>db_audit_logs := db_audit_logs db @
                    [failover_audit_log e policy site (rm_release_id (cb_manifest bundle)) release_version switched plan
                      next_policy_standby now]\<rparr>)) (\<lambda>_.
                eff_bind (enqueue_post_switch_operations e policy event_id now) (\<lambda>_.
                  eff_return (Inr ())))))))))))))"

definition trigger_policy_failover ::
  "'s failover_env \<Rightarrow> policy_snapshot \<Rightarrow> datetime \<Rightarrow> string \<Rightarrow> (bool, 's) failover" where
  "trigger_policy_failover e policy now reason =
     eff_bind (has_open_failover_event e (ps_policy_id policy)) (\<lambda>open_event.
       if open_event then eff_return (Inr False)
       else
         eff_bind (load_site_snapshot e (ps_scope_id policy)) (\<lambda>site.
           if current_primary_node_id (sn_bindings site) = Some (ps_standby_node_id policy) then eff_return (Inr False)
           else
             eff_bind (create_failover_event e policy now reason) (\<lambda>event_id w.
               case execute_site_failover e policy site event_id now w of
                 (Inr _, w) \<Rightarrow> eff_bind (finish_failover_event e event_id ''switched'' now) (\<lambda>_. eff_return (Inr True)) w
               | (Inl error, w) \<Rightarrow> eff_bind (finish_failover_event e event_id ''failed'' now) (\<lambda>_. eff_return (Inl error)) w)))"

subsection \<open>A round\<close>

record failover_run_summary =
  fz_scanned :: nat
  fz_eligible :: nat
  fz_switched :: nat
  fz_skipped :: nat
  fz_failed :: nat

text \<open>The loop over the policies; \<open>envs k\<close> supplies the identifiers of the \<open>k\<close>-th policy.\<close>

fun process_each ::
  "(nat \<Rightarrow> 's failover_env) \<Rightarrow> datetime \<Rightarrow> u64 \<Rightarrow> policy_snapshot list \<Rightarrow> failover_run_summary \<Rightarrow>
   (failover_db, 's) world \<Rightarrow> failover_run_summary \<times> (failover_db, 's) world" where
  "process_each envs now every [] summary w = (summary, w)"
| "process_each envs now every (policy # policies) summary w =
     (case evaluate_policy policy now every of
        None \<Rightarrow> process_each (\<lambda>k. envs (Suc k)) now every policies (summary\<lparr>fz_skipped := fz_skipped summary + 1\<rparr>) w
      | Some reason \<Rightarrow>
          let summary = summary\<lparr>fz_eligible := fz_eligible summary + 1\<rparr>
          in case trigger_policy_failover (envs 0) policy now reason w of
               (Inr True, w) \<Rightarrow> process_each (\<lambda>k. envs (Suc k)) now every policies (summary\<lparr>fz_switched := fz_switched summary + 1\<rparr>) w
             | (Inr False, w) \<Rightarrow> process_each (\<lambda>k. envs (Suc k)) now every policies (summary\<lparr>fz_skipped := fz_skipped summary + 1\<rparr>) w
             | (Inl error, w) \<Rightarrow> process_each (\<lambda>k. envs (Suc k)) now every policies (summary\<lparr>fz_failed := fz_failed summary + 1\<rparr>) w)"

definition process_failover_policies ::
  "(nat \<Rightarrow> 's failover_env) \<Rightarrow> datetime \<Rightarrow> u64 \<Rightarrow> (failover_run_summary, 's) failover" where
  "process_failover_policies envs now every =
     eff_bind (load_active_policies (envs 0)) (\<lambda>policies w.
       case process_each (\<lambda>k. envs (Suc k)) now every policies
              \<lparr>fz_scanned = length policies, fz_eligible = 0, fz_switched = 0, fz_skipped = 0, fz_failed = 0\<rparr> w of
         (summary, w) \<Rightarrow> (Inr summary, w))"

subsection \<open>What the statements of a switch leave\<close>

definition binding_row :: "uuid \<Rightarrow> site_binding_snapshot \<Rightarrow> fo_binding" where
  "binding_row site_id b =
     \<lparr>fb_site_id = site_id, fb_node_id = bs_node_id b, fb_status = ''active'', fb_bind_mode = ''failover'',
      fb_binding_role = bs_binding_role b, fb_priority = bs_priority b\<rparr>"

lemma fold_append_bindings:
  "fold (\<lambda>b db. db\<lparr>db_bindings := db_bindings db @ [f b]\<rparr>) bs db = db\<lparr>db_bindings := db_bindings db @ map f bs\<rparr>"
  by (induction bs arbitrary: db) simp_all

lemma fold_append_release_status:
  "fold (\<lambda>b db. db\<lparr>db_release_status := db_release_status db @ [f b]\<rparr>) bs db =
     db\<lparr>db_release_status := db_release_status db @ map f bs\<rparr>"
  by (induction bs arbitrary: db) simp_all

lemma save_site_bindings_Inr:
  assumes "save_site_bindings e site_id bs w = (Inr x, w')"
  shows "w_db w' = (w_db w)\<lparr>db_bindings := filter (\<lambda>b. fb_site_id b \<noteq> site_id) (db_bindings (w_db w)) @
    map (binding_row site_id) bs\<rparr> \<and> w_ext w' = w_ext w"
  using assms unfolding save_site_bindings_def binding_row_def [abs_def]
  by (auto simp: effect_iffs fold_append_bindings dest!: eff_each_exec_Inr)

definition advanced :: "policy_snapshot \<Rightarrow> uuid \<Rightarrow> fo_policy \<Rightarrow> fo_policy" where
  "advanced policy next p = (if fp_id p = ps_policy_id policy
     then p\<lparr>fp_primary_node_id := ps_standby_node_id policy, fp_standby_node_id := next\<rparr> else p)"

lemma advance_failover_policy_Inr:
  assumes "advance_failover_policy e policy bs w = (Inr n, w')"
    and "select_next_policy_standby bs (ps_standby_node_id policy) = Some next"
  shows "w_db w' = (w_db w)\<lparr>db_policies := map (advanced policy next) (db_policies (w_db w))\<rparr> \<and> n = Some next \<and> w_ext w' = w_ext w"
  using assms by (auto simp: advance_failover_policy_def effect_iffs advanced_def [abs_def])

definition pending_row :: "uuid \<Rightarrow> string \<Rightarrow> site_binding_snapshot \<Rightarrow> fo_release_status" where
  "pending_row release_id version b =
     \<lparr>ft_release_id = release_id, ft_node_id = bs_node_id b, ft_target_version = version, ft_apply_status = ''pending'',
      ft_apply_message = ''queued by failover-worker''\<rparr>"

lemma insert_failover_release_Inr:
  assumes "insert_failover_release e policy site bundle version now bs w = (Inr x, w')"
  obtains r where "w_db w' = (w_db w)\<lparr>db_releases := db_releases (w_db w) @ [r],
      db_release_status := db_release_status (w_db w) @ map (pending_row (fr_id r) version) bs\<rparr>"
    "w_ext w' = w_ext w" "fr_id r = rm_release_id (cb_manifest bundle)" "fr_bundle r = bundle" "fr_release_version r = version"
    "fr_scope_id r = sn_site_id site" "fr_status r = ''pending''" "fr_release_type r = ''failover''"
proof -
  define r where "r = \<lparr>fr_id = rm_release_id (cb_manifest bundle), fr_scope_id = sn_site_id site, fr_release_type = ''failover'',
    fr_release_version = version, fr_bundle = bundle, fr_manifest_hash = rm_config_hash (cb_manifest bundle),
    fr_reason = ''automatic failover '' @ ps_primary_node_code policy @ '' -> '' @ ps_standby_node_code policy @
      '' for site '' @ sn_site_code site,
    fr_status = ''pending'', fr_published_at = now, fr_created_by = ''system:failover-worker'', fr_created_at = now\<rparr>"
  have "w_db w' = (w_db w)\<lparr>db_releases := db_releases (w_db w) @ [r],
      db_release_status := db_release_status (w_db w) @ map (pending_row (fr_id r) version) bs\<rparr> \<and> w_ext w' = w_ext w"
    using assms unfolding insert_failover_release_def pending_row_def [abs_def] Let_def
    by (auto simp: effect_iffs fold_append_release_status r_def dest!: eff_each_exec_Inr)
  then show thesis by (intro that [of r]) (simp_all add: r_def)
qed

text \<open>The DNS change writes its two tables only, the queue of operations its own.\<close>

definition local_record :: "failover_db \<Rightarrow> dns_failover_plan \<Rightarrow> fo_dns_record option" where
  "local_record db plan = max_by_key fd_updated_at (filter (\<lambda>r. fd_zone_id r = zs_zone_id (dfp_zone plan) \<and>
     fd_record_type r = dc_record_type (dfp_change plan) \<and> fd_host r = dc_host (dfp_change plan) \<and>
     fd_status r = ''active'') (db_dns_records db))"

abbreviation snapshot_of :: "fo_dns_record \<Rightarrow> dns_record_snapshot" where
  "snapshot_of r \<equiv> \<lparr>rc_record_id = fd_id r, rc_value = fd_value r, rc_ttl = fd_ttl r\<rparr>"

text \<open>The record of a plan was written under an identifier, and no other row has changed.\<close>

definition dns_record_written :: "dns_failover_plan \<Rightarrow> uuid \<Rightarrow> fo_dns_record list \<Rightarrow> fo_dns_record list \<Rightarrow> bool" where
  "dns_record_written plan i old rs \<longleftrightarrow>
     (\<exists>r \<in> set rs. fd_id r = i \<and> fd_zone_id r = zs_zone_id (dfp_zone plan) \<and> fd_record_type r = dc_record_type (dfp_change plan) \<and>
        fd_host r = dc_host (dfp_change plan) \<and> fd_value r = dc_value (dfp_change plan) \<and> fd_status r = ''active'') \<and>
     filter (\<lambda>r. fd_id r \<noteq> i) rs = filter (\<lambda>r. fd_id r \<noteq> i) old"

lemma local_record_Some:
  assumes "local_record db plan = Some r"
  shows "r \<in> set (db_dns_records db) \<and> fd_zone_id r = zs_zone_id (dfp_zone plan) \<and>
    fd_record_type r = dc_record_type (dfp_change plan) \<and> fd_host r = dc_host (dfp_change plan) \<and> fd_status r = ''active''"
  using max_by_key_in [OF assms [unfolded local_record_def]] by auto

lemma filter_map_row: "(\<And>r. fd_id (f r) = fd_id r) \<Longrightarrow>
    filter (\<lambda>r. fd_id r \<noteq> i) (map (\<lambda>r. if fd_id r = i then f r else r) rs) = filter (\<lambda>r. fd_id r \<noteq> i) rs"
  by (induction rs) auto

lemma upsert_dns_record_Inr:
  assumes "upsert_dns_record_snapshot e plan (map_option snapshot_of (local_record (w_db w) plan)) now w = (Inr i, w')"
  shows "\<exists>rs. w_db w' = (w_db w)\<lparr>db_dns_records := rs\<rparr> \<and> w_ext w' = w_ext w \<and> dns_record_written plan i (db_dns_records (w_db w)) rs"
proof (cases "local_record (w_db w) plan")
  case None
  with assms show ?thesis
    by (auto simp: upsert_dns_record_snapshot_def effect_iffs Let_def dns_record_written_def)
next
  case (Some r)
  note row = local_record_Some [OF Some]
  let ?new = "\<lambda>row. row\<lparr>fd_value := dc_value (dfp_change plan), fd_ttl := ttl_i32 (dc_ttl (dfp_change plan)), fd_updated_at := now\<rparr>"
  let ?rs = "map (\<lambda>row. if fd_id row = fd_id r then ?new row else row) (db_dns_records (w_db w))"
  have "i = fd_id r" "w_db w' = (w_db w)\<lparr>db_dns_records := ?rs\<rparr>" "w_ext w' = w_ext w"
    using assms Some by (auto simp: upsert_dns_record_snapshot_def effect_iffs)
  moreover have "?new r \<in> set ?rs" using row by force
  moreover have "filter (\<lambda>x. fd_id x \<noteq> fd_id r) ?rs = filter (\<lambda>x. fd_id x \<noteq> fd_id r) (db_dns_records (w_db w))"
    by (rule filter_map_row) simp
  ultimately show ?thesis
    using row unfolding dns_record_written_def by (intro exI [of _ ?rs] conjI bexI [of _ "?new r"]) simp_all
qed

lemma eff_ext_Inr: "eff_ext f w = (Inr x, w') \<longleftrightarrow> (\<exists>s. f (w_ext w) = (Inr x, s) \<and> w' = w\<lparr>w_ext := s\<rparr>)"
  by (auto simp: eff_ext_def split: prod.splits)

lemma insert_dns_change_log_Inr:
  "insert_dns_change_log e plan existing i event_id now w = (Inr x, w') \<Longrightarrow>
   \<exists>log. w_db w' = (w_db w)\<lparr>db_dns_change_logs := db_dns_change_logs (w_db w) @ [log]\<rparr> \<and> w_ext w' = w_ext w \<and>
     fl_record_id log = i \<and> fl_zone_id log = zs_zone_id (dfp_zone plan)"
  by (auto simp: insert_dns_change_log_def effect_iffs Let_def)

lemma apply_dns_failover_Inr:
  assumes "apply_dns_failover e plan event_id now w = (Inr x, w')"
  obtains config provider i rs log where "provider_config_from_dns_zone e (dfp_zone plan) = Inr config"
    "build_provider config = Inr provider"
    "(if local_record (w_db w) plan \<noteq> None then provider_update_record (fv_api e) provider (dfp_change plan) (w_ext w)
      else provider_create_record (fv_api e) provider (dfp_change plan) (w_ext w)) = (Inr (), w_ext w')"
    "w_db w' = (w_db w)\<lparr>db_dns_records := rs, db_dns_change_logs := db_dns_change_logs (w_db w) @ [log]\<rparr>"
    "dns_record_written plan i (db_dns_records (w_db w)) rs" "fl_record_id log = i" "fl_zone_id log = zs_zone_id (dfp_zone plan)"
proof -
  let ?ex = "map_option snapshot_of (local_record (w_db w) plan)"
  from assms obtain config provider i s and w2 :: "(failover_db, 'a) world" where
    c: "provider_config_from_dns_zone e (dfp_zone plan) = Inr config" "build_provider config = Inr provider"
    and s: "(if local_record (w_db w) plan \<noteq> None then provider_update_record (fv_api e) provider (dfp_change plan) (w_ext w)
      else provider_create_record (fv_api e) provider (dfp_change plan) (w_ext w)) = (Inr (), s)"
    and up: "upsert_dns_record_snapshot e plan ?ex now (w\<lparr>w_clock := Suc (w_clock w), w_ext := s\<rparr>) = (Inr i, w2)"
    and log: "insert_dns_change_log e plan ?ex i event_id now w2 = (Inr x, w')"
    unfolding apply_dns_failover_def load_dns_record_snapshot_def local_record_def [symmetric]
    by (cases "local_record (w_db w) plan") (auto simp: effect_iffs eff_ext_Inr)
  note written = upsert_dns_record_Inr [where w = "w\<lparr>w_clock := Suc (w_clock w), w_ext := s\<rparr>", simplified, OF up]
  with insert_dns_change_log_Inr [OF log] obtain rs l where
    db: "w_db w' = (w_db w)\<lparr>db_dns_records := rs, db_dns_change_logs := db_dns_change_logs (w_db w) @ [l]\<rparr>"
    "dns_record_written plan i (db_dns_records (w_db w)) rs" "fl_record_id l = i" "fl_zone_id l = zs_zone_id (dfp_zone plan)"
    and ext: "w_ext w' = s" by auto
  show thesis by (rule that [OF c _ db]) (use s ext in simp)
qed

text \<open>What the switch of a policy leaves in the two DNS tables, for a site with the given domain.\<close>

definition dns_failover_enabled :: "policy_snapshot \<Rightarrow> bool" where
  "dns_failover_enabled policy \<longleftrightarrow> (\<exists>config. dns_failover_config (ps_precheck_policy policy) = Some config \<and>
     unwrap_or False (Option.bind (map_of config ''enabled'') as_bool))"

definition dns_switched ::
  "policy_snapshot \<Rightarrow> string \<Rightarrow> failover_db \<Rightarrow> fo_dns_record list \<Rightarrow> fo_dns_change_log list \<Rightarrow> bool" where
  "dns_switched policy domain db rs ls \<longleftrightarrow>
     (if dns_failover_enabled policy
      then \<exists>config zone r log. dns_failover_config (ps_precheck_policy policy) = Some config \<and>
        (zone, ''active'') \<in> set (db_zones db) \<and> zs_status zone = ''active'' \<and>
        r \<in> set rs \<and> fd_zone_id r = zs_zone_id zone \<and> fd_status r = ''active'' \<and>
        fd_host r = unwrap_or domain (config_str config ''host'') \<and>
        Some (fd_value r) = map_option trim (ps_standby_public_ip policy) \<and>
        (fd_record_type r = ''A'' \<and> is_ipv4 (fd_value r) \<or> fd_record_type r = ''AAAA'' \<and> is_ipv6 (fd_value r)) \<and>
        filter (\<lambda>x. fd_id x \<noteq> fd_id r) rs = filter (\<lambda>x. fd_id x \<noteq> fd_id r) (db_dns_records db) \<and>
        ls = db_dns_change_logs db @ [log] \<and> fl_record_id log = fd_id r \<and> fl_zone_id log = zs_zone_id zone
      else rs = db_dns_records db \<and> ls = db_dns_change_logs db)"

lemma dns_switched_cong:
  "dns_switched policy domain db rs ls \<Longrightarrow> db_zones db' = db_zones db \<Longrightarrow> db_dns_records db' = db_dns_records db \<Longrightarrow>
   db_dns_change_logs db' = db_dns_change_logs db \<Longrightarrow> dns_switched policy domain db' rs ls"
  by (simp only: dns_switched_def)

lemma build_dns_failover_plan_disabled:
  "\<not> dns_failover_enabled policy \<Longrightarrow> build_dns_failover_plan parse disp site policy zones = Inr None"
  by (auto simp: build_dns_failover_plan_def dns_failover_enabled_def split: option.splits)

lemma build_dns_failover_plan_enabled:
  assumes "build_dns_failover_plan parse disp site policy zones = Inr plan" "dns_failover_enabled policy"
  obtains p config where "plan = Some p" "dns_failover_config (ps_precheck_policy policy) = Some config"
    "dc_host (dfp_change p) = unwrap_or (sn_domain site) (config_str config ''host'')"
  using assms
  by (auto simp: build_dns_failover_plan_def dns_failover_enabled_def Let_def result_bind_eq_Inr split: option.splits if_splits)

lemma load_dns_zone_snapshots_Inr:
  assumes "load_dns_zone_snapshots e w = (Inr zones, w')"
  shows "w' = w\<lparr>w_clock := Suc (w_clock w)\<rparr> \<and>
    (\<forall>zone \<in> set zones. (zone, ''active'') \<in> set (db_zones (w_db w)) \<and> zs_status zone = ''active'')"
  using assms by (auto simp: load_dns_zone_snapshots_def effect_iffs)

lemma dns_switched_run:
  assumes plan: "build_dns_failover_plan parse disp site policy zones = Inr plan"
    and zones: "\<forall>zone \<in> set zones. (zone, ''active'') \<in> set (db_zones (w_db w)) \<and> zs_status zone = ''active''"
    and run: "(case plan of None \<Rightarrow> eff_return (Inr ()) | Some p \<Rightarrow> apply_dns_failover e p event_id now) w = (Inr (), w')"
  shows "\<exists>rs ls. w_db w' = (w_db w)\<lparr>db_dns_records := rs, db_dns_change_logs := ls\<rparr> \<and> dns_switched policy (sn_domain site) (w_db w) rs ls"
proof (cases "dns_failover_enabled policy")
  case False
  with plan have "plan = None" by (simp add: build_dns_failover_plan_disabled)
  with run False show ?thesis
    by (intro exI [of _ "db_dns_records (w_db w)"] exI [of _ "db_dns_change_logs (w_db w)"]) (simp add: dns_switched_def)
next
  case True
  obtain p config where p: "plan = Some p" "dns_failover_config (ps_precheck_policy policy) = Some config"
    "dc_host (dfp_change p) = unwrap_or (sn_domain site) (config_str config ''host'')"
    by (rule build_dns_failover_plan_enabled [OF plan True])
  note target = build_dns_failover_plan_target [OF plan [unfolded p(1)]]
  from run p(1) have "apply_dns_failover e p event_id now w = (Inr (), w')" by simp
  then obtain i rs log where w: "w_db w' = (w_db w)\<lparr>db_dns_records := rs, db_dns_change_logs := db_dns_change_logs (w_db w) @ [log]\<rparr>"
    "dns_record_written p i (db_dns_records (w_db w)) rs" "fl_record_id log = i" "fl_zone_id log = zs_zone_id (dfp_zone p)"
    by (rule apply_dns_failover_Inr)
  then obtain r where r: "r \<in> set rs" "fd_id r = i" "fd_zone_id r = zs_zone_id (dfp_zone p)"
    "fd_record_type r = dc_record_type (dfp_change p)" "fd_host r = dc_host (dfp_change p)"
    "fd_value r = dc_value (dfp_change p)" "fd_status r = ''active''"
    "filter (\<lambda>r. fd_id r \<noteq> i) rs = filter (\<lambda>r. fd_id r \<noteq> i) (db_dns_records (w_db w))"
    by (auto simp: dns_record_written_def)
  have "dns_switched policy (sn_domain site) (w_db w) rs (db_dns_change_logs (w_db w) @ [log])"
    unfolding dns_switched_def if_P [OF True]
    by (rule exI [of _ config], rule exI [of _ "dfp_zone p"], rule exI [of _ r], rule exI [of _ log])
      (use r w(3,4) target p zones in simp)
  with w(1) show ?thesis by blast
qed

lemma load_operation_template_db:
  "load_operation_template e i name w = (Inr t, w') \<Longrightarrow> w_db w' = w_db w \<and> w_ext w' = w_ext w"
  by (auto simp: load_operation_template_def effect_iffs split: option.splits)

lemma enqueue_operations_Inr:
  "enqueue_operations e policy event_id now items queued w = (Inr n, w') \<Longrightarrow>
   \<exists>ops. w_db w' = (w_db w)\<lparr>db_node_operations := db_node_operations (w_db w) @ ops\<rparr> \<and> w_ext w' = w_ext w \<and>
     (\<forall>op \<in> set ops. fq_exec_status op = ''approved'' \<and>
        fq_node_id op \<in> {ps_primary_node_id policy, ps_standby_node_id policy} \<and>
        (\<exists>t \<in> set (db_templates (w_db w)). lt_id t = fq_template_id op \<and> \<not> lt_approval_required t))"
proof (induction items arbitrary: queued w)
  case Nil
  then show ?case by (auto intro: exI [of _ "[]"])
next
  case (Cons item items)
  show ?case
  proof (cases "parse_post_switch_operation (fv_parse_uuid e) item policy")
    case None
    with Cons show ?thesis by simp
  next
    case (Some spec)
    then have node: "po_node_id spec \<in> {ps_primary_node_id policy, ps_standby_node_id policy}"
      by (auto simp: parse_post_switch_operation_def Let_def Option.bind_eq_Some_conv split: if_splits)
    from Some Cons.prems obtain t w1 where load: "load_operation_template e (po_template_id spec) (po_template_name spec) w = (Inr t, w1)"
      by (auto simp: eff_bind_Inr)
    note same = load_operation_template_db [OF load]
    show ?thesis
    proof (cases "t \<noteq> None \<and> \<not> lt_approval_required (the t)")
      case False
      with Some Cons.prems load have "enqueue_operations e policy event_id now items queued w1 = (Inr n, w')"
        by (cases t) (auto simp: eff_bind_Inr split: if_splits)
      from Cons.IH [OF this] same show ?thesis by simp
    next
      case True
      then obtain t' where t': "t = Some t'" "\<not> lt_approval_required t'" by auto
      define op where "op = post_switch_operation e event_id now queued spec t'"
      define w2 where "w2 = w1\<lparr>w_db := (w_db w1)\<lparr>db_node_operations := db_node_operations (w_db w1) @ [op]\<rparr>,
        w_clock := Suc (w_clock w1)\<rparr>"
      have w2: "w_db w2 = (w_db w1)\<lparr>db_node_operations := db_node_operations (w_db w1) @ [op]\<rparr>"
        "w_ext w2 = w_ext w1" "fq_exec_status op = ''approved''" "fq_node_id op = po_node_id spec" "fq_template_id op = lt_id t'"
        "enqueue_operations e policy event_id now items (queued + 1) w2 = (Inr n, w')"
        using Some Cons.prems load t' by (simp_all add: w2_def op_def post_switch_operation_def eff_bind_Inr sql_exec_Inr)
      have "t' \<in> set (db_templates (w_db w))"
        using load t'(1) by (auto simp: load_operation_template_def effect_iffs split: option.splits dest!: find_Some_in)
      from Cons.IH [OF w2(6)] obtain ops where ops:
        "w_db w' = (w_db w2)\<lparr>db_node_operations := db_node_operations (w_db w2) @ ops\<rparr>" "w_ext w' = w_ext w2"
        "\<forall>op \<in> set ops. fq_exec_status op = ''approved'' \<and>
          fq_node_id op \<in> {ps_primary_node_id policy, ps_standby_node_id policy} \<and>
          (\<exists>t \<in> set (db_templates (w_db w2)). lt_id t = fq_template_id op \<and> \<not> lt_approval_required t)" by blast
      show ?thesis
        by (rule exI [of _ "op # ops"]) (use ops w2 same node t' \<open>t' \<in> _\<close> in auto)
    qed
  qed
qed

abbreviation switched_of :: "'s failover_env \<Rightarrow> policy_snapshot \<Rightarrow> site_snapshot \<Rightarrow> site_binding_snapshot list" where
  "switched_of e policy site \<equiv>
     build_switched_bindings (fv_display_uuid e) (sn_bindings site) (ps_primary_node_id policy) (ps_standby_node_id policy)"

lemma enqueue_post_switch_operations_Inr:
  assumes "enqueue_post_switch_operations e policy event_id now w = (Inr n, w')"
  obtains ops where "w_db w' = (w_db w)\<lparr>db_node_operations := db_node_operations (w_db w) @ ops\<rparr>" "w_ext w' = w_ext w"
    "\<forall>op \<in> set ops. fq_exec_status op = ''approved'' \<and>
        fq_node_id op \<in> {ps_primary_node_id policy, ps_standby_node_id policy} \<and>
        (\<exists>t \<in> set (db_templates (w_db w)). lt_id t = fq_template_id op \<and> \<not> lt_approval_required t)"
proof (cases "Option.bind (json_get (ps_precheck_policy policy) ''post_switch_operations'') as_array")
  case None
  with assms show thesis by (intro that [of "[]"]) (auto simp: enqueue_post_switch_operations_def)
next
  case (Some items)
  with assms have "enqueue_operations e policy event_id now items 0 w = (Inr n, w')"
    by (simp add: enqueue_post_switch_operations_def)
  from enqueue_operations_Inr [OF this] show thesis using that by blast
qed

text \<open>Everything a successful transaction wrote.\<close>

lemma execute_site_failover_Inr:
  assumes "execute_site_failover e policy site event_id now w = (Inr x, w')"
    and "ps_primary_node_id policy \<noteq> ps_standby_node_id policy"
  obtains r "next" rs ls log ops where
    "w_db w' = (w_db w)\<lparr>
       db_bindings := filter (\<lambda>b. fb_site_id b \<noteq> sn_site_id site) (db_bindings (w_db w)) @
         map (binding_row (sn_site_id site)) (switched_of e policy site),
       db_policies := map (advanced policy next) (db_policies (w_db w)),
       db_releases := db_releases (w_db w) @ [r],
       db_release_status := db_release_status (w_db w) @
         map (pending_row (fr_id r) (fr_release_version r)) (switched_of e policy site),
       db_sites := map (\<lambda>s. if fs_id s = sn_site_id site then s\<lparr>fs_status := ''published''\<rparr> else s) (db_sites (w_db w)),
       db_dns_records := rs, db_dns_change_logs := ls, db_audit_logs := db_audit_logs (w_db w) @ [log],
       db_node_operations := db_node_operations (w_db w) @ ops\<rparr>"
    "select_next_policy_standby (switched_of e policy site) (ps_standby_node_id policy) = Some next"
    "fr_scope_id r = sn_site_id site" "rm_sites (cb_manifest (fr_bundle r)) = [failover_spec_of e site]"
    "rm_targets (cb_manifest (fr_bundle r)) = failover_targets (sn_site_id site) (switched_of e policy site)"
    "\<forall>op \<in> set ops. fq_exec_status op = ''approved'' \<and>
        fq_node_id op \<in> {ps_primary_node_id policy, ps_standby_node_id policy} \<and>
        (\<exists>t \<in> set (db_templates (w_db w)). lt_id t = fq_template_id op \<and> \<not> lt_approval_required t)"
    "dns_switched policy (sn_domain site) (w_db w) rs ls"
    "fa_resource_id log = fv_display_uuid e (sn_site_id site)" "fa_created_at log = now"
    "fr_status r = ''pending''" "fr_release_type r = ''failover''"
proof -
  let ?sw = "switched_of e policy site"
  from next_standby_exists [OF assms(2), of "fv_display_uuid e" "sn_bindings site"] obtain nx where
    nx: "select_next_policy_standby ?sw (ps_standby_node_id policy) = Some nx" by blast
  from assms(1) obtain zones plan certs "bundle" ver ns n w1 w2 w3 w4 w5 w6 where
    zones: "load_dns_zone_snapshots e (w\<lparr>w_clock := Suc (w_clock w)\<rparr>) = (Inr zones, w1)" and
    plan: "build_dns_failover_plan (fv_parse_uuid e) (fv_display_uuid e) site policy zones = Inr plan" and
    save: "save_site_bindings e (sn_site_id site) ?sw w1 = (Inr (), w2)" and
    w2: "advance_failover_policy e policy ?sw w2 = (Inr ns, w3)" and
    b: "compile_site_bundle (fv_display_uuid e) (fv_uuid e 1) (fv_compile_time e)
      (failover_spec_of e site) certs (failover_targets (sn_site_id site) ?sw) ver = Inr bundle" and
    w4: "insert_failover_release e policy site bundle ver now ?sw (w3\<lparr>w_clock := Suc (w_clock w3)\<rparr>) = (Inr (), w4)" and
    w5: "(case plan of None \<Rightarrow> eff_return (Inr ()) | Some p \<Rightarrow> apply_dns_failover e p event_id now)
      (w4\<lparr>w_db := (w_db w4)\<lparr>db_sites := map (\<lambda>s. if fs_id s = sn_site_id site then s\<lparr>fs_status := ''published''\<rparr> else s)
        (db_sites (w_db w4))\<rparr>, w_clock := Suc (w_clock w4)\<rparr>) = (Inr (), w5)" and
    w6: "enqueue_post_switch_operations e policy event_id now
      (w5\<lparr>w_db := (w_db w5)\<lparr>db_audit_logs := db_audit_logs (w_db w5) @ [failover_audit_log e policy site
         (rm_release_id (cb_manifest bundle)) ver ?sw plan ns now]\<rparr>, w_clock := Suc (w_clock w5)\<rparr>) = (Inr n, w6)"
      "w_db w' = w_db w6"
    unfolding execute_site_failover_def load_site_certificates_def Let_def
    by (auto simp: transaction_Inr effect_iffs split: if_splits)
  have w1: "w_db w1 = w_db w" using load_dns_zone_snapshots_Inr [OF zones] by simp
  obtain r where r: "w_db w4 = (w_db (w3\<lparr>w_clock := Suc (w_clock w3)\<rparr>))\<lparr>
      db_releases := db_releases (w_db (w3\<lparr>w_clock := Suc (w_clock w3)\<rparr>)) @ [r],
      db_release_status := db_release_status (w_db (w3\<lparr>w_clock := Suc (w_clock w3)\<rparr>)) @ map (pending_row (fr_id r) ver) ?sw\<rparr>"
    "fr_bundle r = bundle" "fr_release_version r = ver" "fr_scope_id r = sn_site_id site" "fr_status r = ''pending''"
    "fr_release_type r = ''failover''"
    by (rule insert_failover_release_Inr [OF w4])
  note w3 = save_site_bindings_Inr [OF save] advance_failover_policy_Inr [OF w2 nx]
  define u where "u = w4\<lparr>w_db := (w_db w4)\<lparr>db_sites := map (\<lambda>s. if fs_id s = sn_site_id site then s\<lparr>fs_status := ''published''\<rparr> else s)
    (db_sites (w_db w4))\<rparr>, w_clock := Suc (w_clock w4)\<rparr>"
  have "\<forall>zone \<in> set zones. (zone, ''active'') \<in> set (db_zones (w_db u)) \<and> zs_status zone = ''active''"
    using load_dns_zone_snapshots_Inr [OF zones] w1 w3 r(1) by (simp add: u_def)
  from dns_switched_run [OF plan this w5 [folded u_def]] obtain rs ls where
    dns: "w_db w5 = (w_db u)\<lparr>db_dns_records := rs, db_dns_change_logs := ls\<rparr>" "dns_switched policy (sn_domain site) (w_db u) rs ls"
    by blast
  define v where "v = w5\<lparr>w_db := (w_db w5)\<lparr>db_audit_logs := db_audit_logs (w_db w5) @ [failover_audit_log e policy site
    (rm_release_id (cb_manifest bundle)) ver ?sw plan ns now]\<rparr>, w_clock := Suc (w_clock w5)\<rparr>"
  obtain ops where ops: "w_db w6 = (w_db v)\<lparr>db_node_operations := db_node_operations (w_db v) @ ops\<rparr>"
    "\<forall>op \<in> set ops. fq_exec_status op = ''approved'' \<and>
        fq_node_id op \<in> {ps_primary_node_id policy, ps_standby_node_id policy} \<and>
        (\<exists>t \<in> set (db_templates (w_db v)). lt_id t = fq_template_id op \<and> \<not> lt_approval_required t)"
    by (rule enqueue_post_switch_operations_Inr [OF w6(1) [folded v_def]])
  show thesis
  proof (rule that)
    show "w_db w' = (w_db w)\<lparr>
       db_bindings := filter (\<lambda>b. fb_site_id b \<noteq> sn_site_id site) (db_bindings (w_db w)) @ map (binding_row (sn_site_id site)) ?sw,
       db_policies := map (advanced policy nx) (db_policies (w_db w)),
       db_releases := db_releases (w_db w) @ [r],
       db_release_status := db_release_status (w_db w) @ map (pending_row (fr_id r) (fr_release_version r)) ?sw,
       db_sites := map (\<lambda>s. if fs_id s = sn_site_id site then s\<lparr>fs_status := ''published''\<rparr> else s) (db_sites (w_db w)),
       db_dns_records := rs, db_dns_change_logs := ls,
       db_audit_logs := db_audit_logs (w_db w) @ [failover_audit_log e policy site
         (rm_release_id (cb_manifest bundle)) ver ?sw plan ns now],
       db_node_operations := db_node_operations (w_db w) @ ops\<rparr>"
      using w1 w3 r dns(1) ops(1) w6(2) by (simp add: v_def u_def)
    show "\<forall>op \<in> set ops. fq_exec_status op = ''approved'' \<and>
        fq_node_id op \<in> {ps_primary_node_id policy, ps_standby_node_id policy} \<and>
        (\<exists>t \<in> set (db_templates (w_db w)). lt_id t = fq_template_id op \<and> \<not> lt_approval_required t)"
      using ops(2) w1 w3 r(1) dns(1) by (simp add: v_def u_def)
    show "dns_switched policy (sn_domain site) (w_db w) rs ls"
      using dns(2) by (rule dns_switched_cong) (use w1 w3 r(1) in \<open>simp_all add: u_def\<close>)
  qed (use nx r compile_site_bundle_Inr [OF b] in \<open>simp_all add: failover_audit_log_def Let_def\<close>)
qed

text \<open>The transaction writes no event.\<close>

lemma execute_site_failover_events:
  "execute_site_failover e policy site event_id now w = (Inr x, w') \<Longrightarrow>
   ps_primary_node_id policy \<noteq> ps_standby_node_id policy \<Longrightarrow> db_events (w_db w') = db_events (w_db w)"
  by (erule (1) execute_site_failover_Inr) simp

subsection \<open>Guarantees of a failover\<close>

abbreviation open_event :: "uuid \<Rightarrow> fo_event \<Rightarrow> bool" where
  "open_event policy_id ev \<equiv> fe_policy_id ev = policy_id \<and> fe_finished_at ev = None \<and>
     fe_event_status ev \<in> {''detected'', ''prechecking'', ''switching''}"

definition switching_event :: "'s failover_env \<Rightarrow> policy_snapshot \<Rightarrow> datetime \<Rightarrow> string \<Rightarrow> fo_event" where
  "switching_event e policy now reason =
     \<lparr>fe_id = fv_uuid e 0, fe_policy_id = ps_policy_id policy, fe_site_id = ps_scope_id policy,
      fe_source_node_id = ps_primary_node_id policy, fe_target_node_id = ps_standby_node_id policy,
      fe_trigger_reason = reason, fe_event_status = ''switching'', fe_started_at = now, fe_finished_at = None\<rparr>"

lemma create_failover_event_Inr:
  "create_failover_event e policy now reason w = (Inr i, w') \<longleftrightarrow> fv_fails e (w_clock w) = None \<and> i = fv_uuid e 0 \<and>
     w' = w\<lparr>w_db := (w_db w)\<lparr>db_events := db_events (w_db w) @ [switching_event e policy now reason]\<rparr>,
       w_clock := Suc (w_clock w)\<rparr>"
  by (auto simp: create_failover_event_def Let_def effect_iffs switching_event_def)

lemma load_site_snapshot_Inr:
  assumes "load_site_snapshot e i w = (Inr site, w')"
  shows "sn_site_id site = i \<and> sn_bindings site = site_bindings_of (w_db w) i \<and> w_db w' = w_db w \<and> w_ext w' = w_ext w \<and>
    (\<exists>row. List.find (\<lambda>s. fs_id s = i) (db_sites (w_db w)) = Some row \<and> sn_domain site = fs_domain row)"
  using assms unfolding load_site_snapshot_def load_site_bindings_def
  by (auto simp: effect_iffs ok_or_Inr dest: find_Some_in)

lemma load_site_snapshot_db: "load_site_snapshot e i w = (r, w') \<Longrightarrow> w_db w' = w_db w"
  unfolding load_site_snapshot_def load_site_bindings_def eff_bind_def
  by (fastforce dest: sql_query_db split: prod.splits sum.splits simp: eff_return_def)

lemma finish_failover_event_Inr:
  "finish_failover_event e i status now w = (Inr x, w') \<Longrightarrow> w_ext w' = w_ext w \<and>
     w_db w' = (w_db w)\<lparr>db_events := map (\<lambda>ev. if fe_id ev = i
       then ev\<lparr>fe_event_status := status, fe_finished_at := Some now\<rparr> else ev) (db_events (w_db w))\<rparr>"
  by (auto simp: finish_failover_event_def effect_iffs)

text \<open>The ways a policy that fires can end, in terms of the state the transaction starts from.\<close>

lemma trigger_cases:
  assumes "trigger_policy_failover e policy now reason w = (r, w')"
  obtains (skipped) "r = Inr False" "w_db w' = w_db w"
  | (early) err where "r = Inl err" "w_db w' = w_db w"
  | (ran) site v v' where "sn_site_id site = ps_scope_id policy" "sn_bindings site = site_bindings_of (w_db w) (ps_scope_id policy)"
      "\<not> list_ex (open_event (ps_policy_id policy)) (db_events (w_db w))"
      "w_db v = (w_db w)\<lparr>db_events := db_events (w_db w) @ [switching_event e policy now reason]\<rparr>"
      "(\<exists>x. execute_site_failover e policy site (fv_uuid e 0) now v = (Inr x, v') \<and>
          eff_bind (finish_failover_event e (fv_uuid e 0) ''switched'' now) (\<lambda>_. eff_return (Inr True)) v' = (r, w')) \<or>
       (\<exists>err. execute_site_failover e policy site (fv_uuid e 0) now v = (Inl err, v') \<and>
          eff_bind (finish_failover_event e (fv_uuid e 0) ''failed'' now) (\<lambda>_. eff_return (Inl err)) v' = (r, w'))"
      "\<exists>row. List.find (\<lambda>s. fs_id s = ps_scope_id policy) (db_sites (w_db w)) = Some row \<and> sn_domain site = fs_domain row"
proof (cases "has_open_failover_event e (ps_policy_id policy) w")
  case (Pair ropen w1)
  have db1: "w_db w1 = w_db w" using Pair by (auto simp: has_open_failover_event_def dest: sql_query_db)
  show thesis
  proof (cases ropen)
    case (Inl err)
    with assms Pair db1 show thesis by (intro early [of err]) (auto simp: trigger_policy_failover_def eff_bind_def)
  next
    case (Inr isopen)
    have isopen: "isopen = list_ex (open_event (ps_policy_id policy)) (db_events (w_db w))"
      using Pair Inr by (auto simp: has_open_failover_event_def effect_iffs)
    show thesis
    proof (cases isopen)
      case True
      with assms Pair Inr db1 show thesis by (intro skipped) (auto simp: trigger_policy_failover_def eff_bind_def)
    next
      case False
      obtain rsite w2 where load: "load_site_snapshot e (ps_scope_id policy) w1 = (rsite, w2)" by (meson surj_pair)
      note db2 = load_site_snapshot_db [OF load]
      have run: "(case rsite of Inl err \<Rightarrow> (Inl err, w2) | Inr site \<Rightarrow>
          (if current_primary_node_id (sn_bindings site) = Some (ps_standby_node_id policy) then eff_return (Inr False)
           else eff_bind (create_failover_event e policy now reason) (\<lambda>event_id w.
               case execute_site_failover e policy site event_id now w of
                 (Inr _, w) \<Rightarrow> eff_bind (finish_failover_event e event_id ''switched'' now) (\<lambda>_. eff_return (Inr True)) w
               | (Inl error, w) \<Rightarrow> eff_bind (finish_failover_event e event_id ''failed'' now) (\<lambda>_. eff_return (Inl error)) w)) w2) =
          (r, w')"
        using assms Pair Inr False load by (simp add: trigger_policy_failover_def eff_bind_def)
      show thesis
      proof (cases rsite)
        case (Inl err)
        with run db1 db2 show thesis by (intro early [of err]) auto
      next
        case (Inr site)
        note site = load_site_snapshot_Inr [OF load [unfolded Inr]]
        show thesis
        proof (cases "current_primary_node_id (sn_bindings site) = Some (ps_standby_node_id policy)")
          case True
          with run Inr db1 db2 show thesis by (intro skipped) auto
        next
          case other: False
          obtain rev v where ev: "create_failover_event e policy now reason w2 = (rev, v)" by (meson surj_pair)
          show thesis
          proof (cases rev)
            case (Inl err)
            have "w_db v = w_db w2" using ev Inl
              by (auto simp: create_failover_event_def Let_def eff_bind_def eff_return_def split: prod.splits sum.splits dest: sql_exec_db)
            with run \<open>rsite = Inr site\<close> other ev Inl db1 db2 show thesis
              by (intro early [of err]) (auto simp: eff_bind_def)
          next
            case (Inr i)
            from ev Inr have v: "i = fv_uuid e 0" "w_db v = (w_db w2)\<lparr>db_events := db_events (w_db w2) @ [switching_event e policy now reason]\<rparr>"
              by (auto simp: create_failover_event_Inr)
            obtain rex v' where ex: "execute_site_failover e policy site i now v = (rex, v')" by (meson surj_pair)
            have fin: "(case rex of Inl err \<Rightarrow> eff_bind (finish_failover_event e i ''failed'' now) (\<lambda>_. eff_return (Inl err)) v'
                | Inr x \<Rightarrow> eff_bind (finish_failover_event e i ''switched'' now) (\<lambda>_. eff_return (Inr True)) v') = (r, w')"
              using run \<open>rsite = Inr site\<close> other ev Inr ex by (cases rex) (simp_all add: eff_bind_def)
            show thesis
              by (rule ran [of site v v'])
                (use site db1 db2 v isopen False ex fin in \<open>cases rex; auto\<close>)+
          qed
        qed
      qed
    qed
  qed
qed

lemma current_primary_unique:
  assumes "\<exists>b \<in> set bs. bs_binding_role b = ''primary''"
    and "\<And>b. b \<in> set bs \<Longrightarrow> bs_binding_role b = ''primary'' \<Longrightarrow> bs_node_id b = s"
  shows "current_primary_node_id bs = Some s"
proof -
  have "primaries_of bs \<noteq> []" using assms(1) by (auto simp: filter_empty_conv)
  then obtain b where b: "min_by_key bs_priority (primaries_of bs) = Some b"
    by (cases "min_by_key bs_priority (primaries_of bs)") auto
  from min_by_key_in [OF b] assms(2) b show ?thesis by (simp add: current_primary_node_id_def)
qed

text \<open>The site's bindings as they are read back after they were replaced.\<close>

lemma site_bindings_replaced:
  assumes "db_bindings db = filter (\<lambda>b. fb_site_id b \<noteq> i) old @ map (binding_row i) bs"
  shows "set (site_bindings_of db i) =
    {\<lparr>bs_node_id = bs_node_id b, bs_node_code = fn_node_code n, bs_node_status = fn_status n,
      bs_binding_role = bs_binding_role b, bs_priority = bs_priority b\<rparr> | b n. b \<in> set bs \<and> node_row db (bs_node_id b) = Some n}"
proof -
  have "filter (\<lambda>b. fb_site_id b = i) (db_bindings db) = map (binding_row i) bs"
    unfolding assms by (simp add: filter_map o_def binding_row_def filter_empty_conv)
  then show ?thesis by (auto simp: site_bindings_of_def set_map_filter binding_row_def)
qed

lemma switched_primary:
  assumes "distinct (map bs_node_id existing)" "p \<noteq> s" "\<forall>b \<in> set (primaries_of existing). bs_node_id b \<in> {p, s}"
  shows "\<exists>b \<in> set (build_switched_bindings disp existing p s). bs_node_id b = s \<and> bs_binding_role b = ''primary''"
    and "b \<in> set (build_switched_bindings disp existing p s) \<Longrightarrow> bs_binding_role b = ''primary'' \<Longrightarrow> bs_node_id b = s"
proof -
  obtain new old where r: "mset (build_switched_bindings disp existing p s) =
      mset (filter (\<lambda>b. bs_node_id b \<noteq> p \<and> bs_node_id b \<noteq> s) existing @ [new, old])"
    and new: "bs_node_id new = s" "bs_binding_role new = ''primary''"
    and old: "bs_node_id old = p" "bs_binding_role old = ''standby''"
    by (rule build_switched_bindings_unsorted [of disp existing p s]) blast
  note elems = mset_eq_setD [OF r]
  show "\<exists>b \<in> set (build_switched_bindings disp existing p s). bs_node_id b = s \<and> bs_binding_role b = ''primary''"
    using new unfolding elems by auto
  show "bs_node_id b = s" if "b \<in> set (build_switched_bindings disp existing p s)" "bs_binding_role b = ''primary''"
    using that new old assms(3) unfolding elems by auto
qed

text \<open>
  C3: When the worker reports a switch, the database holds all of it and nothing else. The site's
  bindings are the switched ones and those of other sites are kept; the policy points to the new
  primary and the next standby; one new release for the site is pending for every bound node; the site, and no
  other, is published; the event of the switch is closed; one entry for the site is added to the audit log; the operations
  queued are approved ones for the two nodes of the policy, from templates that need no approval. With DNS
  failover enabled, the record of the host in an active zone has the address of the standby, and one
  entry is added to the log of changes; otherwise the DNS tables are as before. When the policy named the
  site's primary, the site's primary is now the standby, so that the old policy would not fire again.
\<close>

theorem failover_switches:
  fixes e :: "'s failover_env"
  assumes "trigger_policy_failover e policy now reason w = (Inr True, w')"
    and "ps_primary_node_id policy \<noteq> ps_standby_node_id policy"
    and "fv_uuid e 0 \<notin> fe_id ` set (db_events (w_db w))"
  defines "bs \<equiv> site_bindings_of (w_db w) (ps_scope_id policy)"
  defines "sw \<equiv> build_switched_bindings (fv_display_uuid e) bs (ps_primary_node_id policy) (ps_standby_node_id policy)"
  shows "\<exists>row r next rs ls log ops ev.
    List.find (\<lambda>s. fs_id s = ps_scope_id policy) (db_sites (w_db w)) = Some row \<and>
    w_db w' = (w_db w)\<lparr>
      db_bindings := filter (\<lambda>b. fb_site_id b \<noteq> ps_scope_id policy) (db_bindings (w_db w)) @ map (binding_row (ps_scope_id policy)) sw,
      db_policies := map (advanced policy next) (db_policies (w_db w)),
      db_releases := db_releases (w_db w) @ [r],
      db_release_status := db_release_status (w_db w) @ map (pending_row (fr_id r) (fr_release_version r)) sw,
      db_sites := map (\<lambda>s. if fs_id s = ps_scope_id policy then s\<lparr>fs_status := ''published''\<rparr> else s) (db_sites (w_db w)),
      db_dns_records := rs, db_dns_change_logs := ls, db_audit_logs := db_audit_logs (w_db w) @ [log],
      db_node_operations := db_node_operations (w_db w) @ ops, db_events := db_events (w_db w) @ [ev]\<rparr> \<and>
    select_next_policy_standby sw (ps_standby_node_id policy) = Some next \<and>
    fr_scope_id r = ps_scope_id policy \<and> fr_release_type r = ''failover'' \<and> fr_status r = ''pending'' \<and>
    rm_targets (cb_manifest (fr_bundle r)) = failover_targets (ps_scope_id policy) sw \<and>
    fe_event_status ev = ''switched'' \<and> fe_finished_at ev = Some now \<and> fe_policy_id ev = ps_policy_id policy \<and>
    fe_site_id ev = ps_scope_id policy \<and> fe_source_node_id ev = ps_primary_node_id policy \<and>
    fe_target_node_id ev = ps_standby_node_id policy \<and>
    fa_resource_id log = fv_display_uuid e (ps_scope_id policy) \<and> fa_created_at log = now \<and>
    dns_switched policy (fs_domain row) (w_db w) rs ls \<and>
    (\<forall>op \<in> set ops. fq_exec_status op = ''approved'' \<and> fq_node_id op \<in> {ps_primary_node_id policy, ps_standby_node_id policy} \<and>
      (\<exists>t \<in> set (db_templates (w_db w)). lt_id t = fq_template_id op \<and> \<not> lt_approval_required t)) \<and>
    (distinct (map bs_node_id bs) \<longrightarrow> node_row (w_db w) (ps_standby_node_id policy) \<noteq> None \<longrightarrow>
     (\<forall>b \<in> set (primaries_of bs). bs_node_id b = ps_primary_node_id policy) \<longrightarrow>
     current_primary_node_id (site_bindings_of (w_db w') (ps_scope_id policy)) = Some (ps_standby_node_id policy))"
  using assms(1)
proof (cases rule: trigger_cases)
  case (ran site v v')
  let ?p = "ps_primary_node_id policy" and ?s = "ps_standby_node_id policy"
  from ran(5) have ex: "execute_site_failover e policy site (fv_uuid e 0) now v = (Inr (), v')"
    and fin: "finish_failover_event e (fv_uuid e 0) ''switched'' now v' = (Inr (), w')"
    by (auto simp: eff_bind_Inr eff_bind_Inl)
  have sw: "switched_of e policy site = sw" using ran(2) by (simp add: sw_def bs_def)
  obtain r nx rs ls log ops where db: "w_db v' = (w_db v)\<lparr>
       db_bindings := filter (\<lambda>b. fb_site_id b \<noteq> sn_site_id site) (db_bindings (w_db v)) @ map (binding_row (sn_site_id site)) sw,
       db_policies := map (advanced policy nx) (db_policies (w_db v)),
       db_releases := db_releases (w_db v) @ [r],
       db_release_status := db_release_status (w_db v) @ map (pending_row (fr_id r) (fr_release_version r)) sw,
       db_sites := map (\<lambda>s. if fs_id s = sn_site_id site then s\<lparr>fs_status := ''published''\<rparr> else s) (db_sites (w_db v)),
       db_dns_records := rs, db_dns_change_logs := ls, db_audit_logs := db_audit_logs (w_db v) @ [log],
       db_node_operations := db_node_operations (w_db v) @ ops\<rparr>"
    and r: "select_next_policy_standby sw ?s = Some nx"
      "rm_targets (cb_manifest (fr_bundle r)) = failover_targets (sn_site_id site) sw"
      "\<forall>op \<in> set ops. fq_exec_status op = ''approved'' \<and> fq_node_id op \<in> {?p, ?s} \<and>
        (\<exists>t \<in> set (db_templates (w_db v)). lt_id t = fq_template_id op \<and> \<not> lt_approval_required t)"
      "dns_switched policy (sn_domain site) (w_db v) rs ls" "fa_resource_id log = fv_display_uuid e (sn_site_id site)" "fa_created_at log = now"
      "fr_scope_id r = sn_site_id site" "fr_status r = ''pending''" "fr_release_type r = ''failover''"
    by (rule execute_site_failover_Inr [OF ex assms(2), unfolded sw])
  define ev where "ev = (switching_event e policy now reason)\<lparr>fe_event_status := ''switched'', fe_finished_at := Some now\<rparr>"
  have "map (\<lambda>ev. if fe_id ev = fv_uuid e 0 then ev\<lparr>fe_event_status := ''switched'', fe_finished_at := Some now\<rparr> else ev)
      (db_events (w_db w) @ [switching_event e policy now reason]) = db_events (w_db w) @ [ev]"
    using assms(3) by (auto simp: ev_def switching_event_def intro!: map_idI) (metis imageI)
  with finish_failover_event_Inr [OF fin] db ran(1,4) have w': "w_db w' = (w_db w)\<lparr>
      db_bindings := filter (\<lambda>b. fb_site_id b \<noteq> ps_scope_id policy) (db_bindings (w_db w)) @ map (binding_row (ps_scope_id policy)) sw,
      db_policies := map (advanced policy nx) (db_policies (w_db w)),
      db_releases := db_releases (w_db w) @ [r],
      db_release_status := db_release_status (w_db w) @ map (pending_row (fr_id r) (fr_release_version r)) sw,
      db_sites := map (\<lambda>s. if fs_id s = ps_scope_id policy then s\<lparr>fs_status := ''published''\<rparr> else s) (db_sites (w_db w)),
      db_dns_records := rs, db_dns_change_logs := ls, db_audit_logs := db_audit_logs (w_db w) @ [log],
      db_node_operations := db_node_operations (w_db w) @ ops, db_events := db_events (w_db w) @ [ev]\<rparr>"
    by simp
  have primary: "current_primary_node_id (site_bindings_of (w_db w') (ps_scope_id policy)) = Some ?s"
    if "distinct (map bs_node_id bs)" "node_row (w_db w) ?s \<noteq> None" "\<forall>b \<in> set (primaries_of bs). bs_node_id b = ?p"
  proof -
    have "\<forall>b \<in> set (primaries_of bs). bs_node_id b \<in> {?p, ?s}" using that(3) by auto
    note sp = switched_primary [OF that(1) assms(2) this, where disp = "fv_display_uuid e", folded sw_def]
    have set: "set (site_bindings_of (w_db w') (ps_scope_id policy)) =
      {\<lparr>bs_node_id = bs_node_id b, bs_node_code = fn_node_code n, bs_node_status = fn_status n,
        bs_binding_role = bs_binding_role b, bs_priority = bs_priority b\<rparr> | b n.
       b \<in> set sw \<and> node_row (w_db w') (bs_node_id b) = Some n}"
      by (rule site_bindings_replaced) (simp add: w')
    have "node_row (w_db w') ?s \<noteq> None" using that(2) by (simp add: w' node_row_def)
    with sp show ?thesis by (intro current_primary_unique) (force simp: set)+
  qed
  obtain row where row: "List.find (\<lambda>s. fs_id s = ps_scope_id policy) (db_sites (w_db w)) = Some row" "sn_domain site = fs_domain row"
    using ran(6) by blast
  have dns: "dns_switched policy (fs_domain row) (w_db w) rs ls"
    unfolding row(2) [symmetric] by (rule dns_switched_cong [OF r(4)]) (simp_all add: ran(4))
  have ev: "fe_event_status ev = ''switched''" "fe_finished_at ev = Some now" "fe_policy_id ev = ps_policy_id policy"
    "fe_site_id ev = ps_scope_id policy" "fe_source_node_id ev = ?p" "fe_target_node_id ev = ?s"
    by (simp_all add: ev_def switching_event_def)
  show ?thesis
    by (rule exI [of _ row], rule exI [of _ r], rule exI [of _ nx], rule exI [of _ rs], rule exI [of _ ls], rule exI [of _ log],
        rule exI [of _ ops], rule exI [of _ ev], intro conjI impI)
      (use row(1) w' r ran(1,4) ev dns primary in simp_all)
qed simp_all

lemma finish_failover_event_eq:
  "finish_failover_event e i status now w =
     (case fv_fails e (w_clock w) of
        Some error \<Rightarrow> (Inl error, w\<lparr>w_clock := Suc (w_clock w)\<rparr>)
      | None \<Rightarrow> (Inr (), w\<lparr>w_db := (w_db w)\<lparr>db_events := map (\<lambda>ev. if fe_id ev = i
          then ev\<lparr>fe_event_status := status, fe_finished_at := Some now\<rparr> else ev) (db_events (w_db w))\<rparr>,
          w_clock := Suc (w_clock w)\<rparr>))"
  by (simp add: finish_failover_event_def sql_exec_def sql_def split: option.split)

lemma finished_events:
  assumes "fv_uuid e 0 \<notin> fe_id ` set evs"
  shows "map (\<lambda>ev. if fe_id ev = fv_uuid e 0 then ev\<lparr>fe_event_status := status, fe_finished_at := Some now\<rparr> else ev)
      (evs @ [switching_event e policy t reason]) =
    evs @ [(switching_event e policy t reason)\<lparr>fe_event_status := status, fe_finished_at := Some now\<rparr>]"
  using assms by (auto simp: switching_event_def intro!: map_idI) (metis imageI)

lemma failed_trigger_ran:
  assumes v: "w_db v = (w_db w)\<lparr>db_events := db_events (w_db w) @ [switching_event e policy now reason]\<rparr>"
    and fresh: "fv_uuid e 0 \<notin> fe_id ` set (db_events (w_db w))"
    and run: "execute_site_failover e policy site (fv_uuid e 0) now v = (res, v')"
    and ended: "(case res of
        Inr x \<Rightarrow> eff_bind (finish_failover_event e (fv_uuid e 0) ''switched'' now) (\<lambda>_. eff_return (Inr True)) v'
      | Inl error \<Rightarrow> eff_bind (finish_failover_event e (fv_uuid e 0) ''failed'' now) (\<lambda>_. eff_return (Inl error)) v') = (Inl err, w')"
    and neq: "ps_primary_node_id policy \<noteq> ps_standby_node_id policy"
  shows "if fv_fails e (w_clock v') = None
    then (\<exists>error. res = Inl error) \<and> w_db w' = (w_db w)\<lparr>db_events := db_events (w_db w) @
      [(switching_event e policy now reason)\<lparr>fe_event_status := ''failed'', fe_finished_at := Some now\<rparr>]\<rparr>
    else w_db w' = w_db v' \<and> db_events (w_db w') = db_events (w_db w) @ [switching_event e policy now reason]"
    and "res = Inl error \<Longrightarrow> w_db v' = w_db v"
proof -
  show rolled: "w_db v' = w_db v" if "res = Inl error" for error
    using run that by (auto simp: execute_site_failover_def dest: transaction_Inl_db)
  have events: "db_events (w_db v') = db_events (w_db w) @ [switching_event e policy now reason]"
    using run rolled v execute_site_failover_events [OF _ neq, of e site "fv_uuid e 0" now v] by (cases res) auto
  show "if fv_fails e (w_clock v') = None
    then (\<exists>error. res = Inl error) \<and> w_db w' = (w_db w)\<lparr>db_events := db_events (w_db w) @
      [(switching_event e policy now reason)\<lparr>fe_event_status := ''failed'', fe_finished_at := Some now\<rparr>]\<rparr>
    else w_db w' = w_db v' \<and> db_events (w_db w') = db_events (w_db w) @ [switching_event e policy now reason]"
  proof (cases "fv_fails e (w_clock v')")
    case None
    with ended obtain error where "res = Inl error" by (cases res) (auto simp: finish_failover_event_eq eff_bind_def)
    with ended None rolled v finished_events [OF fresh] show ?thesis
      by (auto simp: finish_failover_event_eq eff_bind_def)
  next
    case (Some failure)
    with ended events show ?thesis by (cases res) (auto simp: finish_failover_event_eq eff_bind_def)
  qed
qed

lemma open_event_blocks:
  assumes "ev \<in> set (db_events (w_db u))" "open_event (ps_policy_id policy) ev"
    and "trigger_policy_failover e policy now reason u = (r, u')"
  shows "r \<noteq> Inr True \<and> w_db u' = w_db u"
  using assms(3) by (cases rule: trigger_cases) (use assms(1,2) in \<open>auto simp: list_ex_iff\<close>)

text \<open>
  C28: A failover whose last statement fails keeps its policy from ever switching again. When the worker reports an
  error, either the tables are as they were, or the event was written and the transaction run. Then, if the
  statement that finishes the event succeeds, the transaction was rolled back and the tables are as before but
  for the event, which is closed as failed. If that statement fails, the event is left open, after a
  switch that was committed as well as after one that was rolled back; in the second case nothing but
  the list of events has changed. And as long as a policy has an open event, no attempt to switch it, whatever the
  database does, reports a switch or changes the tables.
\<close>

theorem failed_finish_strands_policy:
  fixes e :: "'s failover_env"
  assumes "trigger_policy_failover e policy now reason w = (Inl err, w')"
    and "ps_primary_node_id policy \<noteq> ps_standby_node_id policy"
    and "fv_uuid e 0 \<notin> fe_id ` set (db_events (w_db w))"
  defines "ev \<equiv> switching_event e policy now reason"
  shows "(w_db w' = w_db w \<or>
      (\<exists>site v v' res. w_db v = (w_db w)\<lparr>db_events := db_events (w_db w) @ [ev]\<rparr> \<and>
        execute_site_failover e policy site (fv_uuid e 0) now v = (res, v') \<and>
        (if fv_fails e (w_clock v') = None
         then (\<exists>error. res = Inl error) \<and>
           w_db w' = (w_db w)\<lparr>db_events := db_events (w_db w) @ [ev\<lparr>fe_event_status := ''failed'', fe_finished_at := Some now\<rparr>]\<rparr>
         else w_db w' = w_db v' \<and> db_events (w_db w') = db_events (w_db w) @ [ev]) \<and>
        (\<forall>error. res = Inl error \<longrightarrow> w_db v' = w_db v))) \<and>
    open_event (ps_policy_id policy) ev \<and>
    (\<forall>p o' e' now' reason' u r u'. o' \<in> set (db_events (w_db u)) \<longrightarrow> open_event (ps_policy_id p) o' \<longrightarrow>
      trigger_policy_failover (e' :: 's failover_env) p now' reason' u = (r, u') \<longrightarrow> r \<noteq> Inr True \<and> w_db u' = w_db u)"
proof (intro conjI allI impI)
  show "w_db w' = w_db w \<or>
      (\<exists>site v v' res. w_db v = (w_db w)\<lparr>db_events := db_events (w_db w) @ [ev]\<rparr> \<and>
        execute_site_failover e policy site (fv_uuid e 0) now v = (res, v') \<and>
        (if fv_fails e (w_clock v') = None
         then (\<exists>error. res = Inl error) \<and>
           w_db w' = (w_db w)\<lparr>db_events := db_events (w_db w) @ [ev\<lparr>fe_event_status := ''failed'', fe_finished_at := Some now\<rparr>]\<rparr>
         else w_db w' = w_db v' \<and> db_events (w_db w') = db_events (w_db w) @ [ev]) \<and>
        (\<forall>error. res = Inl error \<longrightarrow> w_db v' = w_db v))"
    using assms(1)
  proof (cases rule: trigger_cases)
    case (ran site v v')
    then obtain res where run: "execute_site_failover e policy site (fv_uuid e 0) now v = (res, v')"
      "(case res of
        Inr x \<Rightarrow> eff_bind (finish_failover_event e (fv_uuid e 0) ''switched'' now) (\<lambda>_. eff_return (Inr True)) v'
      | Inl error \<Rightarrow> eff_bind (finish_failover_event e (fv_uuid e 0) ''failed'' now) (\<lambda>_. eff_return (Inl error)) v') = (Inl err, w')"
      by (elim disjE exE conjE) (auto intro: that)
    note parts = failed_trigger_ran [OF ran(4) assms(3) run assms(2)]
    show ?thesis
      unfolding ev_def
      by (intro disjI2 exI [of _ site] exI [of _ v] exI [of _ v'] exI [of _ res] conjI allI impI, rule ran(4), rule run(1),
          rule parts(1), erule parts(2))
  qed simp_all
qed (simp_all add: ev_def switching_event_def open_event_blocks)

lemma upsert_dns_record_ext: "upsert_dns_record_snapshot e plan existing now w = (r, w') \<Longrightarrow> w_ext w' = w_ext w"
  by (auto simp: upsert_dns_record_snapshot_def eff_bind_def eff_return_def sql_exec_def Let_def
      split: option.splits prod.splits sum.splits dest: sql_ext)

lemma insert_dns_change_log_ext: "insert_dns_change_log e plan existing i event_id now w = (r, w') \<Longrightarrow> w_ext w' = w_ext w"
  by (auto simp: insert_dns_change_log_def sql_exec_def Let_def dest: sql_ext)

text \<open>The only request of a DNS failover without a stored record is the one that creates a record.\<close>

lemma first_dns_failover_request:
  assumes "apply_dns_failover e plan event_id now w = (r, w')" "local_record (w_db w) plan = None"
    and "provider_config_from_dns_zone e (dfp_zone plan) = Inr config" "build_provider config = Inr (CloudflareDnsProvider cf)"
  shows "w_ext w' = w_ext w \<and> r \<noteq> Inr () \<or>
    (\<exists>q. create_record (fv_api e) cf (dfp_change plan) (w_ext w) = (q, w_ext w') \<and> (r = Inr () \<longrightarrow> q = Inr ()))"
proof (cases "fv_fails e (w_clock w)")
  case (Some error)
  with assms(1) show ?thesis
    by (auto simp: apply_dns_failover_def load_dns_record_snapshot_def sql_query_def sql_def eff_bind_def)
next
  case None
  let ?v = "w\<lparr>w_clock := Suc (w_clock w)\<rparr>"
  obtain q s where q: "create_record (fv_api e) cf (dfp_change plan) (w_ext w) = (q, s)" by (meson surj_pair)
  have load: "load_dns_record_snapshot e plan w = (Inr None, ?v)"
    using None assms(2) by (simp add: load_dns_record_snapshot_def sql_query_Inr local_record_def)
  show ?thesis
  proof (cases q)
    case (Inl error)
    with assms(1,3,4) q load show ?thesis
      by (auto simp: apply_dns_failover_def eff_bind_def eff_return_def eff_context_def eff_ext_def)
  next
    case (Inr x)
    with assms(1,3,4) q load obtain v2 where "(case upsert_dns_record_snapshot e plan None now (?v\<lparr>w_ext := s\<rparr>) of (y, v2) \<Rightarrow>
        (case y of Inl error \<Rightarrow> (Inl error, v2) | Inr i \<Rightarrow> insert_dns_change_log e plan None i event_id now v2)) = (r, w')"
      by (auto simp: apply_dns_failover_def eff_bind_def eff_return_def eff_context_def eff_ext_def)
    then have "w_ext w' = s"
      by (auto split: prod.splits sum.splits dest!: upsert_dns_record_ext insert_dns_change_log_ext)
    with q Inr show ?thesis by auto
  qed
qed

lemma create_record_adds:
  assumes "create_adds_record api cf recs" "dc_zone_id change = Some z" "create_record api cf change s = (q, s')"
  shows "recs s y i = Some r \<Longrightarrow> recs s' y i = Some r"
    and "q = Inr () \<Longrightarrow> \<exists>j. recs s z j = None \<and> recs s' z j =
      Some (dc_record_type change, normalize_record_name (dc_host change) (dc_zone_name change), dc_value change)"
proof -
  obtain reply where reply: "api_create api cf z (record_body change) s = (reply, s')"
    "q = result_bind (checked_reply ''failed to call cloudflare create dns record api'' ''create cloudflare dns record'' reply) (\<lambda>_. Inr ())"
    using assms(2,3) by (auto simp: create_record_def change_zone_id_def done_reply_def split: prod.splits)
  from assms(1) [unfolded create_adds_record_def, rule_format, OF reply(1)] consider
    (added) j where "recs s z j = None" "recs s' = (recs s)(z := (recs s z)(j \<mapsto>
      (dc_record_type change, normalize_record_name (dc_host change) (dc_zone_name change), dc_value change)))"
  | (same) "recs s' = recs s" "\<forall>status text content. reply = Reply status text content \<longrightarrow> \<not> (200 \<le> status \<and> status < 300)"
    by (auto simp: record_body_fields)
  note cases = this
  show "recs s y i = Some r \<Longrightarrow> recs s' y i = Some r" using cases by cases auto
  show "\<exists>j. recs s z j = None \<and> recs s' z j =
      Some (dc_record_type change, normalize_record_name (dc_host change) (dc_zone_name change), dc_value change)" if "q = Inr ()"
    using cases
  proof cases
    case added
    then show ?thesis by auto
  next
    case same
    with reply(2) that have False by (cases reply) (auto simp: ensure_success_def)
    then show ?thesis ..
  qed
qed

text \<open>
  C38: A DNS failover whose record the worker has not stored before does not switch the published
  address: whether the record exists is looked up in the worker's own table, so the only request is one that
  creates a record. Whatever its outcome, every record of the provider stays as it was, the one with
  the old address included; and when the worker reports success, there is a new record beside them. Of the provider
  is assumed that a request to create a record adds that record or, if it is not successful, changes nothing.
\<close>

theorem first_dns_failover_adds_record:
  assumes "apply_dns_failover e plan event_id now w = (r, w')" "local_record (w_db w) plan = None"
    and "provider_config_from_dns_zone e (dfp_zone plan) = Inr config" "build_provider config = Inr (CloudflareDnsProvider cf)"
    and "create_adds_record (fv_api e) cf recs" "dc_zone_id (dfp_change plan) = Some z"
  shows "(\<forall>y i old. recs (w_ext w) y i = Some old \<longrightarrow> recs (w_ext w') y i = Some old) \<and>
    (r = Inr () \<longrightarrow> (\<exists>j. recs (w_ext w) z j = None \<and> recs (w_ext w') z j = Some (dc_record_type (dfp_change plan),
       normalize_record_name (dc_host (dfp_change plan)) (dc_zone_name (dfp_change plan)), dc_value (dfp_change plan))))"
  using first_dns_failover_request [OF assms(1-4)] create_record_adds [OF assms(5,6)] by metis

subsection \<open>A switch that nothing stands in the way of\<close>

lemma succeeds_advance: "fv_fails e = (\<lambda>_. None) \<Longrightarrow> succeeds (advance_failover_policy e policy bs)"
  by (auto simp: advance_failover_policy_def Let_def intro!: succeeds_intros split: option.splits)

lemma succeeds_enqueue_operations:
  "fv_fails e = (\<lambda>_. None) \<Longrightarrow> succeeds (enqueue_operations e policy event_id now items queued)"
  by (induction items arbitrary: queued)
    (auto simp: load_operation_template_def intro!: succeeds_intros split: option.splits)

lemma succeeds_enqueue: "fv_fails e = (\<lambda>_. None) \<Longrightarrow> succeeds (enqueue_post_switch_operations e policy event_id now)"
  by (auto simp: enqueue_post_switch_operations_def intro!: succeeds_intros succeeds_enqueue_operations split: option.splits)

lemma compile_site_bundle_ok:
  "trim (ss_domain site) \<noteq> [] \<Longrightarrow> \<exists>b. compile_site_bundle disp i now site certs targets ver = Inr b"
  by (simp add: compile_site_bundle_def Let_def)

lemma succeeds_execute:
  assumes "fv_fails e = (\<lambda>_. None)" "\<not> dns_failover_enabled policy" "trim (sn_domain site) \<noteq> []"
    and "ps_primary_node_id policy \<noteq> ps_standby_node_id policy"
  shows "succeeds (execute_site_failover e policy site event_id now)"
proof -
  have "switched_of e policy site \<noteq> []" using next_standby_exists [OF assms(4)] by (metis empty_iff list.set(1))
  moreover have "\<exists>b. compile_site_bundle (fv_display_uuid e) (fv_uuid e 1) (fv_compile_time e) (failover_spec_of e site)
      certs targets ver = Inr b" for certs targets ver
    using assms(3) by (intro compile_site_bundle_ok) (simp add: failover_spec_of_def Let_def)
  then have "succeeds (eff_return (compile_site_bundle (fv_display_uuid e) (fv_uuid e 1) (fv_compile_time e) (failover_spec_of e site)
      certs targets ver))" for certs targets ver
    by (metis succeeds_return)
  ultimately show ?thesis
    unfolding execute_site_failover_def load_dns_zone_snapshots_def load_site_certificates_def save_site_bindings_def
      insert_failover_release_def Let_def build_dns_failover_plan_disabled [OF assms(2)] assms(1) eff_bind_return option.case
    by (intro succeeds_intros succeeds_advance [OF assms(1)] succeeds_enqueue [OF assms(1)])
      (auto intro!: succeeds_intros split: option.splits)
qed

lemma trigger_succeeds:
  assumes "fv_fails e = (\<lambda>_. None)" "\<not> dns_failover_enabled policy"
    and "ps_primary_node_id policy \<noteq> ps_standby_node_id policy"
    and "List.find (\<lambda>s. fs_id s = ps_scope_id policy) (db_sites (w_db w)) = Some row" "trim (fs_domain row) \<noteq> []"
    and "\<not> list_ex (open_event (ps_policy_id policy)) (db_events (w_db w))"
    and "current_primary_node_id (site_bindings_of (w_db w) (ps_scope_id policy)) \<noteq> Some (ps_standby_node_id policy)"
  shows "\<exists>w'. trigger_policy_failover e policy now reason w = (Inr True, w')"
proof -
  let ?w1 = "w\<lparr>w_clock := Suc (w_clock w)\<rparr>"
  have "\<exists>site w2. load_site_snapshot e (ps_scope_id policy) ?w1 = (Inr site, w2) \<and> sn_domain site = fs_domain row"
    unfolding load_site_snapshot_def load_site_bindings_def assms(1)
    by (simp add: effect_iffs assms(4) eff_bind_def sql_query_def sql_def eff_return_def)
  then obtain site w2 where load: "load_site_snapshot e (ps_scope_id policy) ?w1 = (Inr site, w2)" "sn_domain site = fs_domain row"
    by blast
  from succeeds_execute [OF assms(1,2) _ assms(3), of site] load(2) assms(5)
  have run: "succeeds (execute_site_failover e policy site event_id now)" for event_id by simp
  have "has_open_failover_event e (ps_policy_id policy) w = (Inr False, ?w1)"
    using assms(6) by (auto simp: has_open_failover_event_def sql_query_Inr assms(1))
  moreover obtain w3 where "create_failover_event e policy now reason w2 = (Inr (fv_uuid e 0), w3)"
    by (simp add: create_failover_event_Inr assms(1))
  moreover obtain x w4 where "execute_site_failover e policy site (fv_uuid e 0) now w3 = (Inr x, w4)"
    using succeedsD [OF run] by blast
  moreover have "\<exists>w5. finish_failover_event e (fv_uuid e 0) ''switched'' now w4 = (Inr (), w5)"
    by (simp add: finish_failover_event_def sql_exec_Inr assms(1))
  ultimately show ?thesis
    using load assms(7) load_site_snapshot_Inr [OF load(1)]
    by (auto simp: trigger_policy_failover_def eff_bind_Inr)
qed

text \<open>
  A policy that fires switches its site when the database answers: the site exists and has a
  domain, no failover of the policy is under way, the standby is not the primary already, and no
  DNS change is asked for.
\<close>

theorem failover_not_blocked:
  assumes "fv_fails e = (\<lambda>_. None)" "\<not> dns_failover_enabled policy"
    and "ps_primary_node_id policy \<noteq> ps_standby_node_id policy"
    and "List.find (\<lambda>s. fs_id s = ps_scope_id policy) (db_sites (w_db w)) = Some row" "trim (fs_domain row) \<noteq> []"
    and "\<not> list_ex (open_event (ps_policy_id policy)) (db_events (w_db w))"
    and "current_primary_node_id (site_bindings_of (w_db w) (ps_scope_id policy)) \<noteq> Some (ps_standby_node_id policy)"
  shows "\<exists>w'. trigger_policy_failover e policy now reason w = (Inr True, w')"
  by (rule trigger_succeeds [OF assms])

subsection \<open>An example\<close>

definition sample_failover_env :: "failures \<Rightarrow> record_table failover_env" where
  "sample_failover_env fails =
     \<lparr>fv_fails = fails, fv_uuid = (\<lambda>i. of_nat (100 + i)), fv_compile_time = 0, fv_display_uuid = (\<lambda>_. ''u''),
      fv_parse_uuid = (\<lambda>_. None), fv_format_timestamp = (\<lambda>_. ''20260101000000''), fv_unicode_lower = (\<lambda>s. s),
      fv_json_parse = (\<lambda>_. Inr (jobj [(''api_token'', JString ''t'')])), fv_api = strict_api\<rparr>"

definition sample_failover_db :: failover_db where
  "sample_failover_db =
     \<lparr>db_nodes = [\<lparr>fn_id = 7, fn_node_code = ''n7'', fn_status = ''offline'', fn_public_ip = Some ''192.0.2.7'', fn_last_seen_at = Some 0\<rparr>,
        \<lparr>fn_id = 8, fn_node_code = ''n8'', fn_status = ''online'', fn_public_ip = Some ''192.0.2.8'', fn_last_seen_at = Some 0\<rparr>],
      db_heartbeats = [],
      db_policies = [\<lparr>fp_id = 1, fp_scope_type = ''site'', fp_scope_id = 50, fp_primary_node_id = 7, fp_standby_node_id = 8,
        fp_trigger_mode = ''auto'', fp_failure_threshold = 3, fp_precheck_policy = sample_dns_policy, fp_status = ''active'',
        fp_created_at = 0\<rparr>],
      db_events = [],
      db_sites = [\<lparr>fs_id = 50, fs_site_code = ''shop'', fs_name = ''Shop'', fs_domain = ''shop.example.com'', fs_listen_port = 80,
        fs_protocol = ''http'', fs_tls_enabled = False, fs_status = ''published''\<rparr>],
      db_site_configs = [],
      db_bindings = [\<lparr>fb_site_id = 50, fb_node_id = 7, fb_status = ''active'', fb_bind_mode = ''manual'',
          fb_binding_role = ''primary'', fb_priority = 100\<rparr>,
        \<lparr>fb_site_id = 50, fb_node_id = 8, fb_status = ''active'', fb_bind_mode = ''manual'',
          fb_binding_role = ''standby'', fb_priority = 200\<rparr>],
      db_site_certificates = [], db_zones = map (\<lambda>z. (z, ''active'')) sample_zones, db_releases = [], db_release_status = [],
      db_dns_records = [], db_dns_change_logs = [], db_audit_logs = [], db_templates = [], db_node_operations = []\<rparr>"

definition sample_failover_world :: "(failover_db, record_table) world" where
  "sample_failover_world = \<lparr>w_db = sample_failover_db,
     w_ext = [((''z-shop.example.com'', ''r1''), (''A'', ''shop.example.com'', ''192.0.2.7''))], w_clock = 0\<rparr>"

definition plain_policy :: policy_snapshot where
  "plain_policy = sample_policy\<lparr>ps_precheck_policy := JObject []\<rparr>"

abbreviation sample_trigger :: "failures \<Rightarrow> (string + bool) \<times> (failover_db, record_table) world" where
  "sample_trigger fails \<equiv> trigger_policy_failover (sample_failover_env fails) plain_policy 1000000 ''down'' sample_failover_world"

lemma sample_failover_facts:
  "db_events (w_db sample_failover_world) = []" "db_releases (w_db sample_failover_world) = []"
  "node_row (w_db sample_failover_world) 8 \<noteq> None"
  "map (\<lambda>b. (bs_node_id b, bs_binding_role b)) (site_bindings_of (w_db sample_failover_world) 50) =
     [(7, ''primary''), (8, ''standby'')]"
  "current_primary_node_id (site_bindings_of (w_db sample_failover_world) 50) = Some 7"
  "case List.find (\<lambda>s. fs_id s = 50) (db_sites (w_db sample_failover_world)) of
     None \<Rightarrow> False | Some row \<Rightarrow> trim (fs_domain row) \<noteq> []"
  by code_simp+

lemma sample_failover_row:
  obtains row where "List.find (\<lambda>s. fs_id s = 50) (db_sites (w_db sample_failover_world)) = Some row" "trim (fs_domain row) \<noteq> []"
  using sample_failover_facts(6) by (auto split: option.splits)

lemma plain_policy_facts [simp]:
  "ps_primary_node_id plain_policy = 7" "ps_standby_node_id plain_policy = 8" "ps_scope_id plain_policy = 50"
  "\<not> dns_failover_enabled plain_policy" "fv_fails (sample_failover_env fails) = fails"
  by (simp_all add: plain_policy_def sample_policy_def dns_failover_enabled_def dns_failover_config_def sample_failover_env_def)

theorem failover_not_blocked_witness: "\<exists>w'. sample_trigger (\<lambda>_. None) = (Inr True, w')"
proof -
  obtain row where row: "List.find (\<lambda>s. fs_id s = 50) (db_sites (w_db sample_failover_world)) = Some row" "trim (fs_domain row) \<noteq> []"
    by (rule sample_failover_row)
  show ?thesis by (rule failover_not_blocked [OF _ _ _ _ row(2)]) (simp_all add: row(1) sample_failover_facts(1,5))
qed

theorem failover_switches_witness:
  "\<exists>w'. sample_trigger (\<lambda>_. None) = (Inr True, w') \<and>
     current_primary_node_id (site_bindings_of (w_db w') 50) = Some 8"
proof -
  obtain row where row: "List.find (\<lambda>s. fs_id s = 50) (db_sites (w_db sample_failover_world)) = Some row" "trim (fs_domain row) \<noteq> []"
    by (rule sample_failover_row)
  have "\<exists>w'. sample_trigger (\<lambda>_. None) = (Inr True, w')"
    by (rule trigger_succeeds [OF _ _ _ _ row(2)]) (simp_all add: row(1) sample_failover_facts(1,5))
  then obtain w' where run: "sample_trigger (\<lambda>_. None) = (Inr True, w')" by blast
  have neq: "ps_primary_node_id plain_policy \<noteq> ps_standby_node_id plain_policy" by simp
  have fresh: "fv_uuid (sample_failover_env (\<lambda>_. None)) 0 \<notin> fe_id ` set (db_events (w_db sample_failover_world))"
    by (simp only: sample_failover_facts(1) list.set image_empty empty_iff not_False_eq_True)
  note sw = failover_switches [OF run neq fresh, unfolded plain_policy_facts]
  have "distinct (map bs_node_id (site_bindings_of (w_db sample_failover_world) 50))"
    "\<forall>b \<in> set (primaries_of (site_bindings_of (w_db sample_failover_world) 50)). bs_node_id b = 7"
    by code_simp+
  then have "current_primary_node_id (site_bindings_of (w_db w') 50) = Some 8"
    using sw sample_failover_facts(3) by (elim exE conjE) (drule (1) mp, drule (1) mp, erule (1) mp)
  then show ?thesis using run by blast
qed

text \<open>The connection is lost before the transaction: the event stays open.\<close>

definition lost_connection :: failures where
  "lost_connection n = (if n < 4 then None else Some ''connection lost'')"

lemma transaction_not_begun:
  "fails (w_clock w) = Some err \<Longrightarrow> transaction fails body w = (Inl err, w\<lparr>w_clock := Suc (w_clock w)\<rparr>)"
  by (simp add: transaction_def eff_bind_def sql_exec_def sql_def)

theorem failed_finish_strands_policy_witness:
  "\<exists>w'. sample_trigger lost_connection = (Inl ''connection lost'', w') \<and>
     (\<forall>e r u'. trigger_policy_failover e plain_policy 0 ''down'' w' = (r, u') \<longrightarrow> r \<noteq> Inr True \<and> w_db u' = w_db w')"
proof -
  let ?e = "sample_failover_env lost_connection"
  let ?at = "\<lambda>n. sample_failover_world\<lparr>w_clock := n\<rparr>"
  have "has_open_failover_event ?e (ps_policy_id plain_policy) sample_failover_world = (Inr False, ?at 1)"
    by (simp add: has_open_failover_event_def sql_query_Inr lost_connection_def sample_failover_world_def sample_failover_db_def)
  moreover obtain row where row: "List.find (\<lambda>s. fs_id s = 50) (db_sites (w_db sample_failover_world)) = Some row"
    by (rule sample_failover_row)
  obtain site where "load_site_snapshot ?e 50 (?at 1) = (Inr site, ?at 3)" "sn_bindings site = site_bindings_of (w_db (?at 1)) 50"
    using row by (auto simp: load_site_snapshot_def load_site_bindings_def eff_bind_def sql_query_def sql_def lost_connection_def eff_return_def)
  moreover define ev where "ev = switching_event ?e plain_policy 1000000 ''down''"
  have "create_failover_event ?e plain_policy 1000000 ''down'' (?at 3) =
      (Inr (fv_uuid ?e 0), sample_failover_world\<lparr>w_db := (w_db sample_failover_world)\<lparr>db_events := [ev]\<rparr>, w_clock := 4\<rparr>)"
    using sample_failover_facts(1) by (simp add: create_failover_event_Inr lost_connection_def ev_def)
  moreover have ev: "open_event (ps_policy_id plain_policy) ev" by (simp add: ev_def switching_event_def)
  ultimately obtain w' where run: "sample_trigger lost_connection = (Inl ''connection lost'', w')"
    and w': "db_events (w_db w') = [ev]"
    using sample_failover_facts(5)
    by (auto simp: trigger_policy_failover_def eff_bind_def execute_site_failover_def transaction_not_begun lost_connection_def
        finish_failover_event_def sql_exec_def sql_def)
  have neq: "ps_primary_node_id plain_policy \<noteq> ps_standby_node_id plain_policy" by simp
  have fresh: "fv_uuid ?e 0 \<notin> fe_id ` set (db_events (w_db sample_failover_world))"
    by (simp only: sample_failover_facts(1) list.set image_empty empty_iff not_False_eq_True)
  note strands = failed_finish_strands_policy [OF run neq fresh, THEN conjunct2, THEN conjunct2, rule_format, of ev w' plain_policy]
  from strands w' ev run show ?thesis by auto
qed

definition sample_plan :: dns_failover_plan where
  "sample_plan = \<lparr>dfp_zone = sample_zones ! 1,
     dfp_change = \<lparr>dc_zone_id = Some ''z-shop.example.com'', dc_zone_name = ''shop.example.com'', dc_record_type = ''A'',
       dc_host = ''shop.example.com'', dc_value = ''192.0.2.8'', dc_ttl = 60\<rparr>\<rparr>"

theorem first_dns_failover_adds_record_witness:
  "\<exists>w'. apply_dns_failover (sample_failover_env (\<lambda>_. None)) sample_plan 3 0 sample_failover_world = (Inr (), w') \<and>
     table_records (w_ext w') ''z-shop.example.com'' ''r1'' = Some (''A'', ''shop.example.com'', ''192.0.2.7'') \<and>
     (\<exists>j. table_records (w_ext w') ''z-shop.example.com'' j = Some (''A'', ''shop.example.com'', ''192.0.2.8''))"
proof -
  let ?e = "sample_failover_env (\<lambda>_. None)"
  let ?cf = "\<lparr>cf_api_token = ''t'', cf_api_base = ''https://api.cloudflare.com/client/v4''\<rparr>"
  have "fst (apply_dns_failover ?e sample_plan 3 0 sample_failover_world) = Inr ()" by code_simp
  then obtain w' where run: "apply_dns_failover ?e sample_plan 3 0 sample_failover_world = (Inr (), w')" by (metis prod.collapse)
  have none: "local_record (w_db sample_failover_world) sample_plan = None"
    by (simp add: local_record_def sample_failover_world_def sample_failover_db_def)
  let ?config = "\<lparr>pf_provider_type = ''cloudflare'', pf_api_endpoint = None, pf_credentials = jobj [(''api_token'', JString ''t'')]\<rparr>"
  have config: "provider_config_from_dns_zone ?e (dfp_zone sample_plan) = Inr ?config"
    by (simp add: provider_config_from_dns_zone_def sample_failover_env_def sample_plan_def sample_zones_def)
  have cf: "build_provider ?config = Inr (CloudflareDnsProvider ?cf)" by code_simp
  have api: "create_adds_record (fv_api ?e) ?cf table_records" by (simp add: sample_failover_env_def strict_api_adds)
  have zone: "dc_zone_id (dfp_change sample_plan) = Some ''z-shop.example.com''" by (simp add: sample_plan_def)
  have name: "normalize_record_name (dc_host (dfp_change sample_plan)) (dc_zone_name (dfp_change sample_plan)) = ''shop.example.com''"
    by code_simp
  note adds = first_dns_failover_adds_record [OF run none config cf api zone, unfolded name]
  have "table_records (w_ext sample_failover_world) ''z-shop.example.com'' ''r1'' = Some (''A'', ''shop.example.com'', ''192.0.2.7'')"
    by code_simp
  with adds run show ?thesis by (auto simp: sample_plan_def)
qed

end
