(* ===== verification/Dns_Worker.thy ===== *)
theory Dns_Worker
  imports Dns_Provider Worker_Common
begin

text \<open>
  The DNS worker (\<open>apps/dns-worker\<close>): certificate orders on their way from the queue to an issued
  certificate, over the tables of the database, with the DNS provider and the ACME server outside.
  The trait \<open>AcmeClient\<close> is a record of its three methods; the mock client is defined here, the client of
  a real ACME server in its own theory. \<open>dv_fails\<close> says which statements the database refuses, also
  for a constraint. One worker runs at a time: locks of other workers are not modelled.
\<close>

subsection \<open>Data\<close>

definition ACTIVE_RENEWAL_ORDER_STATUSES :: "string list" where
  "ACTIVE_RENEWAL_ORDER_STATUSES =
     [''pending_dns_challenge'', ''dns_challenge_presenting'', ''dns_challenge_presented'', ''issuing'']"

definition is_active_renewal_order_status :: "string \<Rightarrow> bool" where
  "is_active_renewal_order_status status \<longleftrightarrow> status \<in> set ACTIVE_RENEWAL_ORDER_STATUSES"

text \<open>\<open>QueuedDnsChallengeOrder\<close> and \<open>QueuedCertificateIssuanceOrder\<close> have the same fields.\<close>

record queued_order =
  qo_order_id :: uuid
  qo_site_id :: "uuid option"
  qo_certificate_id :: uuid
  qo_order_type :: string
  qo_acme_provider :: string
  qo_provider_type :: string
  qo_api_endpoint :: "string option"
  qo_credentials :: string
  qo_zone_name :: string
  qo_external_zone_id :: string
  qo_challenge_payload :: json
  qo_common_name :: string
  qo_sans :: "string list"

record issued_certificate_material =
  im_issuer :: string
  im_not_before :: datetime
  im_not_after :: datetime
  im_cert_pem :: string
  im_key_pem_encrypted :: string
  im_chain_pem :: "string option"
  im_fingerprint_sha256 :: string

record persist_issued_certificate_request =
  pq_order_id :: uuid
  pq_site_id :: "uuid option"
  pq_certificate_id :: uuid
  pq_order_type :: string
  pq_warning_message :: "string option"
  pq_material :: issued_certificate_material

record certificate_challenge_payload =
  hp_zone_name :: "string option"
  hp_record_name :: "string option"
  hp_record_type :: "string option"
  hp_record_value :: "string option"
  hp_ttl :: "u32 option"

text \<open>The methods of the trait \<open>AcmeClient\<close>; what they talk to is part of \<open>'x\<close>.\<close>

record 'x acme_client =
  acme_prepare :: "queued_order \<Rightarrow> 'x \<Rightarrow> (string + json) \<times> 'x"
  acme_acknowledge :: "json \<Rightarrow> 'x \<Rightarrow> (string + unit) \<times> 'x"
  acme_finalize :: "queued_order \<Rightarrow> 'x \<Rightarrow> (string + issued_certificate_material) \<times> 'x"

subsection \<open>Names and payloads\<close>

definition worker_dns_domain :: "string \<Rightarrow> string" where
  "worker_dns_domain identifier = unwrap_or identifier (strip_prefix ''*.'' identifier)"

definition worker_record_name :: "string \<Rightarrow> string" where
  "worker_record_name identifier = ''_acme-challenge.'' @ worker_dns_domain identifier"

definition worker_matches_zone :: "string \<Rightarrow> string \<Rightarrow> bool" where
  "worker_matches_zone identifier zone_name =
     (let domain = to_ascii_lowercase (trim_end_matches (CHR ''.'') (worker_dns_domain identifier));
          zone_name = to_ascii_lowercase (trim_end_matches (CHR ''.'') (trim zone_name))
      in domain = zone_name \<or> ends_with (''.'' @ zone_name) domain)"

text \<open>\<open>seen\<close> is the key set of the hash map; it holds what was pushed.\<close>

fun unique_from :: "string list \<Rightarrow> string list \<Rightarrow> string list" where
  "unique_from identifiers [] = identifiers"
| "unique_from identifiers (value # values) =
     unique_from (if trim value \<noteq> [] \<and> value \<notin> set identifiers then identifiers @ [value] else identifiers) values"

definition unique_identifiers :: "string \<Rightarrow> string list \<Rightarrow> string list" where
  "unique_identifiers common_name sans = unique_from [] (common_name # sans)"

definition payload_str :: "json \<Rightarrow> string \<Rightarrow> string + string" where
  "payload_str payload key =
     ok_or (''challenge payload missing '' @ key)
       (opt_filter (\<lambda>value. trim value \<noteq> []) (Option.bind (json_get payload key) as_str))"

definition has_prepared_dns_payload :: "json \<Rightarrow> bool" where
  "has_prepared_dns_payload payload =
     list_all (\<lambda>key. Option.bind (json_get payload key) as_str \<noteq> None)
       [''record_name'', ''record_value'', ''challenge_url'', ''authorization_url'', ''order_url'', ''finalize_url'']"

text \<open>
  What serde derives for a struct: an object with the named fields, or an array with all of them in order;
  an optional field may be missing or null.
\<close>

fun struct_fields :: "string list \<Rightarrow> json \<Rightarrow> (string \<Rightarrow> json option) option" where
  "struct_fields names (JObject kvs) = Some (map_of kvs)"
| "struct_fields names (JArray vs) = (if length vs = length names then Some (map_of (zip names vs)) else None)"
| "struct_fields names v = None"

definition optional_field :: "(json \<Rightarrow> 'a option) \<Rightarrow> json option \<Rightarrow> 'a option option" where
  "optional_field decode v =
     (case v of None \<Rightarrow> Some None | Some JNull \<Rightarrow> Some None | Some x \<Rightarrow> map_option Some (decode x))"

definition as_u32 :: "json \<Rightarrow> u32 option" where
  "as_u32 v = Option.bind (as_u64 v) (\<lambda>n. if uint n < 4294967296 then Some (ucast n) else None)"

definition decode_challenge_payload :: "json \<Rightarrow> certificate_challenge_payload option" where
  "decode_challenge_payload v =
     Option.bind (struct_fields [''zone_name'', ''record_name'', ''record_type'', ''record_value'', ''ttl''] v) (\<lambda>field.
     Option.bind (optional_field as_str (field ''zone_name'')) (\<lambda>zone_name.
     Option.bind (optional_field as_str (field ''record_name'')) (\<lambda>record_name.
     Option.bind (optional_field as_str (field ''record_type'')) (\<lambda>record_type.
     Option.bind (optional_field as_str (field ''record_value'')) (\<lambda>record_value.
     Option.bind (optional_field as_u32 (field ''ttl'')) (\<lambda>ttl.
       Some \<lparr>hp_zone_name = zone_name, hp_record_name = record_name, hp_record_type = record_type,
         hp_record_value = record_value, hp_ttl = ttl\<rparr>))))))"

definition challenge_from_payload ::
  "(uuid \<Rightarrow> string) \<Rightarrow> uuid \<Rightarrow> string \<Rightarrow> string \<Rightarrow> json \<Rightarrow> string + acme_challenge" where
  "challenge_from_payload disp order_id zone_name external_zone_id payload =
     result_bind (ok_or (''invalid challenge payload for order '' @ disp order_id) (decode_challenge_payload payload)) (\<lambda>payload.
       let record_type = to_ascii_uppercase (unwrap_or ''TXT'' (hp_record_type payload))
       in if record_type \<noteq> ''TXT'' then Inl (''unsupported dns challenge record type: '' @ record_type)
          else
            result_bind (ok_or ''challenge payload record_name is required''
              (opt_filter (\<lambda>value. trim value \<noteq> []) (hp_record_name payload))) (\<lambda>fqdn.
            result_bind (ok_or ''challenge payload record_value is required''
              (opt_filter (\<lambda>value. trim value \<noteq> []) (hp_record_value payload))) (\<lambda>value.
              Inr \<lparr>ac_zone_id = Some external_zone_id, ac_zone_name = unwrap_or zone_name (hp_zone_name payload),
                ac_fqdn = fqdn, ac_value = value, ac_ttl = unwrap_or 60 (hp_ttl payload)\<rparr>)))"

definition provider_from_config ::
  "(string \<Rightarrow> string + json) \<Rightarrow> (uuid \<Rightarrow> string) \<Rightarrow> string \<Rightarrow> string option \<Rightarrow> string \<Rightarrow> uuid \<Rightarrow> string + dns_provider" where
  "provider_from_config parse disp provider_type api_endpoint credentials order_id =
     (case parse credentials of
        Inl error \<Rightarrow> Inl (''invalid dns provider credentials for order '' @ disp order_id)
      | Inr credentials \<Rightarrow> build_provider \<lparr>pf_provider_type = provider_type, pf_api_endpoint = api_endpoint,
          pf_credentials = credentials\<rparr>)"

text \<open>The methods of the provider; the no-op provider accepts every challenge.\<close>

fun provider_present :: "'x cloudflare_api \<Rightarrow> dns_provider \<Rightarrow> acme_challenge \<Rightarrow> 'x \<Rightarrow> (string + unit) \<times> 'x" where
  "provider_present api (CloudflareDnsProvider cf) challenge x = present_dns01_challenge api cf challenge x"
| "provider_present api NoopDnsProvider challenge x = (Inr (), x)"

fun provider_cleanup :: "'x cloudflare_api \<Rightarrow> dns_provider \<Rightarrow> acme_challenge \<Rightarrow> 'x \<Rightarrow> (string + unit) \<times> 'x" where
  "provider_cleanup api (CloudflareDnsProvider cf) challenge x = cleanup_dns01_challenge api cf challenge x"
| "provider_cleanup api NoopDnsProvider challenge x = (Inr (), x)"

subsection \<open>The mock client\<close>

text \<open>What the mock client takes from outside: identifiers, the clock, and texts of the libraries.\<close>

record 'x mock_env =
  me_uuid :: "'x \<Rightarrow> uuid \<times> 'x"
  me_now :: "'x \<Rightarrow> datetime \<times> 'x"
  me_display_uuid :: "uuid \<Rightarrow> string"
  me_rfc3339 :: "datetime \<Rightarrow> string"
  me_base64 :: "string \<Rightarrow> string"
  me_sha256_hex :: "string \<Rightarrow> string"

function chunk_lines :: "string \<Rightarrow> string" where
  "chunk_lines s = (if s = [] then [] else take 64 s @ [char_of (10 :: nat)] @ chunk_lines (drop 64 s))"
  by pat_completeness auto
termination
  by (relation "measure length") auto

declare chunk_lines.simps [simp del]

definition to_mock_pem_block :: "(string \<Rightarrow> string) \<Rightarrow> string \<Rightarrow> string \<Rightarrow> string" where
  "to_mock_pem_block base64 label payload =
     ''-----BEGIN '' @ label @ ''-----'' @ [char_of (10 :: nat)] @ chunk_lines (base64 payload) @
     ''-----END '' @ label @ ''-----'' @ [char_of (10 :: nat)]"

definition mock_prepare :: "'x mock_env \<Rightarrow> queued_order \<Rightarrow> 'x \<Rightarrow> (string + json) \<times> 'x" where
  "mock_prepare m order x =
     (if has_prepared_dns_payload (qo_challenge_payload order) then (Inr (qo_challenge_payload order), x)
      else (case me_uuid m x of (i, x) \<Rightarrow>
        (Inr (jobj
          [(''zone_name'', JString (qo_zone_name order)), (''identifier'', JString (qo_common_name order)),
           (''record_name'', JString (worker_record_name (qo_common_name order))), (''record_type'', JString ''TXT''),
           (''record_value'', JString (''token-'' @ me_display_uuid m i)), (''ttl'', jnat 60)]), x)))"

definition mock_finalize :: "'x mock_env \<Rightarrow> queued_order \<Rightarrow> 'x \<Rightarrow> (string + issued_certificate_material) \<times> 'x" where
  "mock_finalize m order x =
     (case me_now m x of (issued_at, x) \<Rightarrow>
        let nl = [char_of (10 :: nat)];
            sans = (if qo_sans order = [] then [qo_common_name order] else qo_sans order);
            issuer = ''PingoraHub Mock ACME ('' @ qo_acme_provider order @ '')'';
            certificate_payload = ''mock-certificate'' @ nl @ ''order_id='' @ me_display_uuid m (qo_order_id order) @ nl @
              ''site_id='' @ unwrap_or ''standalone'' (map_option (me_display_uuid m) (qo_site_id order)) @ nl @
              ''common_name='' @ qo_common_name order @ nl @ ''sans='' @ join '','' sans @ nl @ ''issuer='' @ issuer @ nl @
              ''issued_at='' @ me_rfc3339 m issued_at;
            private_key_payload = ''mock-private-key'' @ nl @ ''order_id='' @ me_display_uuid m (qo_order_id order) @ nl @
              ''issued_at='' @ me_rfc3339 m issued_at;
            chain_payload = ''mock-chain'' @ nl @ ''provider='' @ qo_acme_provider order @ nl @
              ''common_name='' @ qo_common_name order;
            cert_pem = to_mock_pem_block (me_base64 m) ''CERTIFICATE'' certificate_payload
        in (Inr \<lparr>im_issuer = issuer, im_not_before = issued_at - seconds (5 * 60), im_not_after = issued_at + days 90,
              im_cert_pem = cert_pem,
              im_key_pem_encrypted = to_mock_pem_block (me_base64 m) ''ENCRYPTED PRIVATE KEY'' private_key_payload,
              im_chain_pem = Some (to_mock_pem_block (me_base64 m) ''CERTIFICATE'' chain_payload),
              im_fingerprint_sha256 = me_sha256_hex m cert_pem\<rparr>, x))"

definition mock_acme_client :: "'x mock_env \<Rightarrow> 'x acme_client" where
  "mock_acme_client m =
     \<lparr>acme_prepare = mock_prepare m, acme_acknowledge = (\<lambda>challenge_payload x. (Inr (), x)),
      acme_finalize = mock_finalize m\<rparr>"

subsection \<open>Tables\<close>

record cert_order_row =
  wo_id :: uuid
  wo_site_id :: "uuid option"
  wo_certificate_id :: "uuid option"
  wo_zone_id :: "uuid option"
  wo_order_type :: string
  wo_acme_provider :: string
  wo_challenge_type :: string
  wo_challenge_payload :: json
  wo_order_status :: string
  wo_error_message :: "string option"
  wo_created_at :: datetime
  wo_updated_at :: datetime

record certificate_row =
  wc_id :: uuid
  wc_common_name :: string
  wc_sans :: json
  wc_issuer :: "string option"
  wc_not_before :: "datetime option"
  wc_not_after :: "datetime option"
  wc_fingerprint_sha256 :: string
  wc_status :: string
  wc_updated_at :: datetime

record certificate_version_row =
  wv_id :: uuid
  wv_certificate_id :: uuid
  wv_version :: int
  wv_cert_pem :: string
  wv_key_pem_encrypted :: string
  wv_chain_pem :: "string option"
  wv_kms_key_id :: "string option"
  wv_created_at :: datetime

record site_cert_binding_row =
  wb_id :: uuid
  wb_site_id :: uuid
  wb_certificate_id :: uuid
  wb_version :: int
  wb_is_default :: bool
  wb_created_at :: datetime

record dns_zone_row =
  wz_id :: uuid
  wz_provider_id :: uuid
  wz_zone_name :: string
  wz_external_zone_id :: string
  wz_status :: string

record dns_provider_row =
  wp_id :: uuid
  wp_provider_type :: string
  wp_api_endpoint :: "string option"
  wp_credential_encrypted :: string

record cert_db =
  cd_orders :: "cert_order_row list"
  cd_certificates :: "certificate_row list"
  cd_versions :: "certificate_version_row list"
  cd_bindings :: "site_cert_binding_row list"
  cd_zones :: "dns_zone_row list"
  cd_providers :: "dns_provider_row list"

text \<open>
  What a run needs from outside: identifiers and the time of the database, by the number of the
  statement that uses them, texts of the libraries, the API of the DNS provider and the ACME client.
\<close>

record 'x dns_env =
  dv_fails :: failures
  dv_uuid :: "nat \<Rightarrow> uuid"
  dv_token :: "nat \<Rightarrow> uuid"
  dv_now :: "nat \<Rightarrow> datetime"
  dv_display_uuid :: "uuid \<Rightarrow> string"
  dv_json_parse :: "string \<Rightarrow> string + json"
  dv_api :: "'x cloudflare_api"
  dv_acme :: "'x acme_client"

type_synonym ('a, 'x) dns = "('a, cert_db, 'x) effect"

text \<open>The number of the next statement.\<close>

definition eff_clock :: "(nat, 'x) dns" where
  "eff_clock w = (Inr (w_clock w), w)"

fun strings_of :: "json list \<Rightarrow> string list option" where
  "strings_of [] = Some []"
| "strings_of (v # vs) = Option.bind (as_str v) (\<lambda>s. Option.bind (strings_of vs) (\<lambda>ss. Some (s # ss)))"

definition decode_sans :: "json \<Rightarrow> string + string list" where
  "decode_sans v = ok_or ''failed to decode certificate sans json'' (Option.bind (as_array v) strings_of)"

subsection \<open>Renewals\<close>

definition active_renewal_for :: "uuid \<Rightarrow> cert_order_row \<Rightarrow> bool" where
  "active_renewal_for certificate_id order \<longleftrightarrow> wo_certificate_id order = Some certificate_id \<and> wo_order_type order = ''renew'' \<and>
     is_active_renewal_order_status (wo_order_status order)"

definition due_certificates :: "datetime \<Rightarrow> cert_db \<Rightarrow> certificate_row list" where
  "due_certificates threshold db =
     sort_key (\<lambda>c. the (wc_not_after c)) (filter (\<lambda>c. wc_status c = ''active'' \<and>
       (case wc_not_after c of None \<Rightarrow> False | Some not_after \<Rightarrow> not_after \<le> threshold) \<and>
       \<not> list_ex (active_renewal_for (wc_id c)) (cd_orders db)) (cd_certificates db))"

definition renewal_zone :: "dns_zone_row list \<Rightarrow> string \<Rightarrow> dns_zone_row option" where
  "renewal_zone zones common_name =
     max_by_key (\<lambda>zone. length (wz_zone_name zone)) (filter (\<lambda>zone. worker_matches_zone common_name (wz_zone_name zone)) zones)"

definition renewal_payload :: "(uuid \<Rightarrow> string) \<Rightarrow> uuid \<Rightarrow> string \<Rightarrow> string \<Rightarrow> string list \<Rightarrow> json" where
  "renewal_payload disp token zone_name common_name sans = jobj
     [(''zone_name'', JString zone_name), (''identifier'', JString common_name), (''sans'', JArray (map JString sans)),
      (''record_name'', JString (worker_record_name common_name)), (''record_type'', JString ''TXT''),
      (''record_value'', JString (''token-'' @ disp token)), (''ttl'', jnat 60), (''auto_renew'', JBool True)]"

text \<open>
  \<open>ON CONFLICT DO NOTHING\<close>: nothing is inserted when the identifier exists, or when the unique index of the
  migrations finds an active renewal of the certificate.
\<close>

definition insert_renewal_order :: "cert_order_row \<Rightarrow> cert_db \<Rightarrow> nat \<times> cert_db" where
  "insert_renewal_order order db =
     (if list_ex (\<lambda>o'. wo_id o' = wo_id order) (cd_orders db) \<or>
         list_ex (active_renewal_for (the (wo_certificate_id order))) (cd_orders db)
      then (0, db) else (1, db\<lparr>cd_orders := cd_orders db @ [order]\<rparr>))"

definition renewal_order :: "'x dns_env \<Rightarrow> string \<Rightarrow> nat \<Rightarrow> uuid \<Rightarrow> dns_zone_row \<Rightarrow> string \<Rightarrow> string list \<Rightarrow> cert_order_row" where
  "renewal_order e acme_provider t certificate_id zone common_name sans =
     \<lparr>wo_id = dv_uuid e t, wo_site_id = None, wo_certificate_id = Some certificate_id, wo_zone_id = Some (wz_id zone),
      wo_order_type = ''renew'', wo_acme_provider = acme_provider, wo_challenge_type = ''dns-01'',
      wo_challenge_payload = renewal_payload (dv_display_uuid e) (dv_token e t) (wz_zone_name zone) common_name sans,
      wo_order_status = ''pending_dns_challenge'', wo_error_message = None, wo_created_at = dv_now e t,
      wo_updated_at = dv_now e t\<rparr>"

fun enqueue_each :: "'x dns_env \<Rightarrow> string \<Rightarrow> dns_zone_row list \<Rightarrow> certificate_row list \<Rightarrow> nat \<Rightarrow> (nat, 'x) dns" where
  "enqueue_each e acme_provider zones [] created = eff_return (Inr created)"
| "enqueue_each e acme_provider zones (certificate # certificates) created =
     eff_bind (eff_return (decode_sans (wc_sans certificate))) (\<lambda>sans.
       case renewal_zone zones (wc_common_name certificate) of
         None \<Rightarrow> enqueue_each e acme_provider zones certificates created
       | Some zone \<Rightarrow>
           eff_bind eff_clock (\<lambda>t.
           eff_bind (sql (dv_fails e) (insert_renewal_order
               (renewal_order e acme_provider t (wc_id certificate) zone (wc_common_name certificate) sans))) (\<lambda>rows_affected.
             enqueue_each e acme_provider zones certificates (if rows_affected > 0 then created + 1 else created))))"

definition enqueue_due_renewal_orders ::
  "'x dns_env \<Rightarrow> datetime \<Rightarrow> duration \<Rightarrow> nat \<Rightarrow> string \<Rightarrow> (nat, 'x) dns" where
  "enqueue_due_renewal_orders e now renew_before limit acme_provider =
     eff_bind (sql_query (dv_fails e) (\<lambda>db. take limit (due_certificates (now + renew_before) db))) (\<lambda>certificates.
       if certificates = [] then eff_return (Inr 0)
       else
         eff_bind (sql_query (dv_fails e) (\<lambda>db. filter (\<lambda>zone. wz_status zone = ''active'') (cd_zones db))) (\<lambda>zones.
           enqueue_each e acme_provider zones certificates 0))"

subsection \<open>Claims\<close>

definition update_order :: "uuid \<Rightarrow> (cert_order_row \<Rightarrow> cert_order_row) \<Rightarrow> cert_db \<Rightarrow> cert_db" where
  "update_order order_id f db =
     db\<lparr>cd_orders := map (\<lambda>order. if wo_id order = order_id then f order else order) (cd_orders db)\<rparr>"

definition joined_order ::
  "cert_db \<Rightarrow> cert_order_row \<Rightarrow> (cert_order_row \<times> dns_zone_row \<times> dns_provider_row \<times> certificate_row) option" where
  "joined_order db order =
     Option.bind (Option.bind (wo_zone_id order) (\<lambda>i. List.find (\<lambda>z. wz_id z = i) (cd_zones db))) (\<lambda>zone.
     Option.bind (List.find (\<lambda>p. wp_id p = wz_provider_id zone) (cd_providers db)) (\<lambda>provider.
     Option.bind (Option.bind (wo_certificate_id order) (\<lambda>i. List.find (\<lambda>c. wc_id c = i) (cd_certificates db))) (\<lambda>certificate.
       Some (order, zone, provider, certificate))))"

definition claimable_orders ::
  "string \<Rightarrow> nat \<Rightarrow> cert_db \<Rightarrow> (cert_order_row \<times> dns_zone_row \<times> dns_provider_row \<times> certificate_row) list" where
  "claimable_orders status limit db =
     take limit (List.map_filter (joined_order db) (sort_key wo_created_at
       (filter (\<lambda>order. wo_order_status order = status \<and> wo_challenge_type order = ''dns-01'') (cd_orders db))))"

definition queued_order_of ::
  "cert_order_row \<Rightarrow> dns_zone_row \<Rightarrow> dns_provider_row \<Rightarrow> certificate_row \<Rightarrow> string list \<Rightarrow> queued_order" where
  "queued_order_of order zone provider certificate sans =
     \<lparr>qo_order_id = wo_id order, qo_site_id = wo_site_id order, qo_certificate_id = wc_id certificate,
      qo_order_type = wo_order_type order, qo_acme_provider = wo_acme_provider order,
      qo_provider_type = wp_provider_type provider, qo_api_endpoint = wp_api_endpoint provider,
      qo_credentials = wp_credential_encrypted provider, qo_zone_name = wz_zone_name zone,
      qo_external_zone_id = wz_external_zone_id zone, qo_challenge_payload = wo_challenge_payload order,
      qo_common_name = wc_common_name certificate, qo_sans = sans\<rparr>"

fun claim_each ::
  "'x dns_env \<Rightarrow> string \<Rightarrow> datetime \<Rightarrow> (cert_order_row \<times> dns_zone_row \<times> dns_provider_row \<times> certificate_row) list \<Rightarrow>
   queued_order list \<Rightarrow> (queued_order list, 'x) dns" where
  "claim_each e status now [] jobs = eff_return (Inr jobs)"
| "claim_each e status now ((order, zone, provider, certificate) # rows) jobs =
     eff_bind (sql_exec (dv_fails e) (update_order (wo_id order)
       (\<lambda>o'. o'\<lparr>wo_order_status := status, wo_error_message := None, wo_updated_at := now\<rparr>))) (\<lambda>_.
     eff_bind (eff_return (decode_sans (wc_sans certificate))) (\<lambda>sans.
       claim_each e status now rows (jobs @ [queued_order_of order zone provider certificate sans])))"

text \<open>The time of a transaction is the time of its start.\<close>

definition claim_orders :: "'x dns_env \<Rightarrow> string \<Rightarrow> string \<Rightarrow> nat \<Rightarrow> (queued_order list, 'x) dns" where
  "claim_orders e from_status to_status limit =
     eff_bind eff_clock (\<lambda>t.
       transaction (dv_fails e)
         (eff_bind (sql_query (dv_fails e) (claimable_orders from_status limit)) (\<lambda>rows.
            claim_each e to_status (dv_now e t) rows [])))"

definition claim_pending_dns_orders :: "'x dns_env \<Rightarrow> nat \<Rightarrow> (queued_order list, 'x) dns" where
  "claim_pending_dns_orders e limit = claim_orders e ''pending_dns_challenge'' ''dns_challenge_presenting'' limit"

definition claim_ready_issuance_orders :: "'x dns_env \<Rightarrow> nat \<Rightarrow> (queued_order list, 'x) dns" where
  "claim_ready_issuance_orders e limit = claim_orders e ''dns_challenge_presented'' ''issuing'' limit"

subsection \<open>Updates\<close>

definition update_order_challenge_payload :: "'x dns_env \<Rightarrow> uuid \<Rightarrow> json \<Rightarrow> (unit, 'x) dns" where
  "update_order_challenge_payload e order_id payload =
     eff_bind eff_clock (\<lambda>t. sql_exec (dv_fails e) (update_order order_id
       (\<lambda>o'. o'\<lparr>wo_challenge_payload := payload, wo_updated_at := dv_now e t\<rparr>)))"

definition update_order_status :: "'x dns_env \<Rightarrow> uuid \<Rightarrow> string \<Rightarrow> string option \<Rightarrow> (unit, 'x) dns" where
  "update_order_status e order_id status error_message =
     eff_bind eff_clock (\<lambda>t. sql_exec (dv_fails e) (update_order order_id
       (\<lambda>o'. o'\<lparr>wo_order_status := status, wo_error_message := error_message, wo_updated_at := dv_now e t\<rparr>)))"

text \<open>\<open>COALESCE(MAX(version), 0) + 1\<close> of a 32-bit column.\<close>

definition next_version :: "uuid \<Rightarrow> cert_db \<Rightarrow> int" where
  "next_version certificate_id db =
     unwrap_or 0 (max_by_key (\<lambda>v. v) (map wv_version (filter (\<lambda>v. wv_certificate_id v = certificate_id) (cd_versions db)))) + 1"

definition bind_issued_version :: "'x dns_env \<Rightarrow> datetime \<Rightarrow> uuid \<Rightarrow> int \<Rightarrow> uuid \<Rightarrow> (unit, 'x) dns" where
  "bind_issued_version e now certificate_id version site_id =
     eff_bind (sql_exec (dv_fails e) (\<lambda>db. db\<lparr>cd_bindings := map (\<lambda>b. if wb_site_id b = site_id
       then b\<lparr>wb_is_default := False\<rparr> else b) (cd_bindings db)\<rparr>)) (\<lambda>_.
     eff_bind eff_clock (\<lambda>t.
       sql_exec (dv_fails e) (\<lambda>db. db\<lparr>cd_bindings := cd_bindings db @
         [\<lparr>wb_id = dv_uuid e t, wb_site_id = site_id, wb_certificate_id = certificate_id, wb_version = version,
           wb_is_default = True, wb_created_at = now\<rparr>]\<rparr>)))"

definition issued_target_sites :: "'x dns_env \<Rightarrow> persist_issued_certificate_request \<Rightarrow> (uuid list, 'x) dns" where
  "issued_target_sites e request =
     (case pq_site_id request of
        Some site_id \<Rightarrow> eff_return (Inr [site_id])
      | None \<Rightarrow>
          if pq_order_type request = ''renew''
          then sql_query (dv_fails e) (\<lambda>db. remdups (map wb_site_id (filter (\<lambda>b.
            wb_certificate_id b = pq_certificate_id request \<and> wb_is_default b) (cd_bindings db))))
          else eff_return (Inr []))"

definition issued_certificate_row :: "persist_issued_certificate_request \<Rightarrow> datetime \<Rightarrow> certificate_row \<Rightarrow> certificate_row" where
  "issued_certificate_row request now c =
     c\<lparr>wc_issuer := Some (im_issuer (pq_material request)), wc_not_before := Some (im_not_before (pq_material request)),
       wc_not_after := Some (im_not_after (pq_material request)),
       wc_fingerprint_sha256 := im_fingerprint_sha256 (pq_material request), wc_status := ''active'', wc_updated_at := now\<rparr>"

definition issued_version_row :: "persist_issued_certificate_request \<Rightarrow> uuid \<Rightarrow> int \<Rightarrow> datetime \<Rightarrow> certificate_version_row" where
  "issued_version_row request i version now =
     \<lparr>wv_id = i, wv_certificate_id = pq_certificate_id request, wv_version = version,
      wv_cert_pem = im_cert_pem (pq_material request), wv_key_pem_encrypted = im_key_pem_encrypted (pq_material request),
      wv_chain_pem = im_chain_pem (pq_material request), wv_kms_key_id = None, wv_created_at = now\<rparr>"

definition persist_issued_certificate :: "'x dns_env \<Rightarrow> persist_issued_certificate_request \<Rightarrow> (unit, 'x) dns" where
  "persist_issued_certificate e request =
     eff_bind eff_clock (\<lambda>t0. let now = dv_now e t0 in
       transaction (dv_fails e)
         (eff_bind (sql_query (dv_fails e) (next_version (pq_certificate_id request))) (\<lambda>version.
          eff_bind (eff_return (if version \<le> 2147483647 then Inr () else Inl ''integer out of range'')) (\<lambda>_.
          eff_bind (sql_exec (dv_fails e) (\<lambda>db. db\<lparr>cd_certificates := map (\<lambda>c. if wc_id c = pq_certificate_id request
              then issued_certificate_row request now c else c) (cd_certificates db)\<rparr>)) (\<lambda>_.
          eff_bind eff_clock (\<lambda>t.
          eff_bind (sql_exec (dv_fails e) (\<lambda>db. db\<lparr>cd_versions := cd_versions db @
              [issued_version_row request (dv_uuid e t) version now]\<rparr>)) (\<lambda>_.
          eff_bind (issued_target_sites e request) (\<lambda>target_site_ids.
          eff_bind (eff_each (bind_issued_version e now (pq_certificate_id request) version) target_site_ids) (\<lambda>_.
            sql_exec (dv_fails e) (update_order (pq_order_id request)
              (\<lambda>o'. o'\<lparr>wo_order_status := ''issued'', wo_error_message := pq_warning_message request,
                 wo_updated_at := now\<rparr>)))))))))))"

subsection \<open>The rounds\<close>

definition process_dns_challenge :: "'x dns_env \<Rightarrow> queued_order \<Rightarrow> (json, 'x) dns" where
  "process_dns_challenge e job =
     eff_bind (eff_ext (acme_prepare (dv_acme e) job)) (\<lambda>prepared.
     eff_bind (eff_return (provider_from_config (dv_json_parse e) (dv_display_uuid e) (qo_provider_type job)
       (qo_api_endpoint job) (qo_credentials job) (qo_order_id job))) (\<lambda>provider.
     eff_bind (eff_return (challenge_from_payload (dv_display_uuid e) (qo_order_id job) (qo_zone_name job)
       (qo_external_zone_id job) prepared)) (\<lambda>challenge.
     eff_bind (eff_ext (provider_present (dv_api e) provider challenge)) (\<lambda>_.
     eff_bind (eff_ext (acme_acknowledge (dv_acme e) prepared)) (\<lambda>_.
       eff_return (Inr prepared))))))"

definition finalize_certificate_order :: "'x dns_env \<Rightarrow> queued_order \<Rightarrow> (persist_issued_certificate_request, 'x) dns" where
  "finalize_certificate_order e job =
     eff_bind (eff_return (provider_from_config (dv_json_parse e) (dv_display_uuid e) (qo_provider_type job)
       (qo_api_endpoint job) (qo_credentials job) (qo_order_id job))) (\<lambda>provider.
     eff_bind (eff_return (challenge_from_payload (dv_display_uuid e) (qo_order_id job) (qo_zone_name job)
       (qo_external_zone_id job) (qo_challenge_payload job))) (\<lambda>challenge.
     eff_bind (eff_ext (acme_finalize (dv_acme e) job)) (\<lambda>material.
     eff_bind (eff_ext (\<lambda>x. case provider_cleanup (dv_api e) provider challenge x of
         (Inr _, x) \<Rightarrow> (Inr None, x)
       | (Inl error, x) \<Rightarrow> (Inr (Some (''certificate issued but dns challenge cleanup failed: '' @ error)), x))) (\<lambda>warning_message.
       eff_return (Inr \<lparr>pq_order_id = qo_order_id job, pq_site_id = qo_site_id job,
         pq_certificate_id = qo_certificate_id job, pq_order_type = qo_order_type job,
         pq_warning_message = warning_message, pq_material = material\<rparr>)))))"

definition present_job :: "'x dns_env \<Rightarrow> queued_order \<Rightarrow> (unit, 'x) dns" where
  "present_job e job w =
     (case process_dns_challenge e job w of
        (Inr prepared, w) \<Rightarrow>
          eff_bind (update_order_challenge_payload e (qo_order_id job) prepared) (\<lambda>_.
            update_order_status e (qo_order_id job) ''dns_challenge_presented'' None) w
      | (Inl error, w) \<Rightarrow> update_order_status e (qo_order_id job) ''dns_challenge_failed'' (Some error) w)"

definition issue_job :: "'x dns_env \<Rightarrow> queued_order \<Rightarrow> (unit, 'x) dns" where
  "issue_job e job w =
     (case finalize_certificate_order e job w of
        (Inr result, w) \<Rightarrow> persist_issued_certificate e result w
      | (Inl error, w) \<Rightarrow> update_order_status e (qo_order_id job) ''issue_failed'' (Some error) w)"

definition process_pending_certificate_orders :: "'x dns_env \<Rightarrow> nat \<Rightarrow> (nat, 'x) dns" where
  "process_pending_certificate_orders e limit =
     eff_bind (claim_pending_dns_orders e limit) (\<lambda>jobs.
     eff_bind (eff_each (present_job e) jobs) (\<lambda>_. eff_return (Inr (length jobs))))"

definition process_presented_certificate_orders :: "'x dns_env \<Rightarrow> nat \<Rightarrow> (nat, 'x) dns" where
  "process_presented_certificate_orders e limit =
     eff_bind (claim_ready_issuance_orders e limit) (\<lambda>jobs.
     eff_bind (eff_each (issue_job e) jobs) (\<lambda>_. eff_return (Inr (length jobs))))"

text \<open>The settings of the worker and one round of its loop.\<close>

record dns_worker_settings =
  dw_max_connections :: u32
  dw_acme_mode :: string
  dw_batch_size :: u64
  dw_interval_seconds :: u64
  dw_renew_before_days :: int
  dw_renew_acme_provider :: string
  dw_run_once :: bool

definition parse_int64 :: "string \<Rightarrow> int option" where
  "parse_int64 s =
     (case s of
        c # digits \<Rightarrow>
          if c = CHR ''-''
          then (if digits \<noteq> [] \<and> list_all ascii_digit digits \<and> string_to_nat digits \<le> 2 ^ 63
                then Some (- int (string_to_nat digits)) else None)
          else map_option int (parse_uint (2 ^ 63) s)
      | [] \<Rightarrow> None)"

definition dns_worker_settings_from_env :: "process_env \<Rightarrow> dns_worker_settings" where
  "dns_worker_settings_from_env env =
     (let acme_mode = unwrap_or ''mock'' (env ''PINGORAHUB_ACME_MODE'')
      in \<lparr>dw_max_connections = parse_env_u32 env ''PINGORAHUB_POSTGRES_MAX_CONNECTIONS'' 5, dw_acme_mode = acme_mode,
          dw_batch_size = parse_env_u64 env ''PINGORAHUB_DNS_WORKER_BATCH_SIZE'' 10,
          dw_interval_seconds = parse_env_u64 env ''PINGORAHUB_DNS_WORKER_INTERVAL_SECONDS'' 15,
          dw_renew_before_days = unwrap_or 30 (Option.bind (env ''PINGORAHUB_CERT_AUTO_RENEW_BEFORE_DAYS'') parse_int64),
          dw_renew_acme_provider = unwrap_or acme_mode (env ''PINGORAHUB_CERT_AUTO_RENEW_ACME_PROVIDER''),
          dw_run_once = parse_env_bool env ''PINGORAHUB_DNS_WORKER_ONCE''\<rparr>)"

definition dns_round :: "'x dns_env \<Rightarrow> dns_worker_settings \<Rightarrow> datetime \<Rightarrow> (nat \<times> nat \<times> nat, 'x) dns" where
  "dns_round e settings now =
     (let batch_size = unat (dw_batch_size settings)
      in eff_bind (enqueue_due_renewal_orders e now (days (max (dw_renew_before_days settings) 1)) batch_size
             (dw_renew_acme_provider settings)) (\<lambda>renewal_orders.
         eff_bind (process_pending_certificate_orders e batch_size) (\<lambda>dns_presented.
         eff_bind (process_presented_certificate_orders e batch_size) (\<lambda>issued.
           eff_return (Inr (renewal_orders, dns_presented, issued))))))"

end
