(* ===== verification/Certificate_Lifecycle.thy ===== *)
theory Certificate_Lifecycle
  imports Dns_Worker
begin

text \<open>
  What the rounds of the DNS worker do to the certificate orders. Every phase is shown to be a step that
  keeps the orders in place and moves only those it claimed, and only to the states of the phase; from
  this follow that a certificate never has two active renewals, that claimed orders are settled, the oldest first, and
  that an order a failing statement left half-way is not taken up by any later round. The renewals a round
  queues are compared with a specification of which certificates are due and what their orders hold.
\<close>

subsection \<open>Steps of the orders\<close>

text \<open>Orders with identifiers in \<open>S\<close> move to a state of \<open>T\<close> or stay as they are, all others do not change.\<close>

definition moves :: "uuid set \<Rightarrow> string set \<Rightarrow> (cert_order_row \<Rightarrow> cert_order_row) \<Rightarrow> bool" where
  "moves S T g \<longleftrightarrow>
     (\<forall>x. wo_id (g x) = wo_id x \<and> wo_certificate_id (g x) = wo_certificate_id x \<and> wo_order_type (g x) = wo_order_type x \<and>
        (wo_id x \<notin> S \<longrightarrow> g x = x) \<and> (wo_order_status (g x) = wo_order_status x \<or> wo_order_status (g x) \<in> T))"

definition orders_step :: "uuid set \<Rightarrow> string set \<Rightarrow> cert_order_row list \<Rightarrow> cert_order_row list \<Rightarrow> bool" where
  "orders_step S T os os' \<longleftrightarrow> (\<exists>g. os' = map g os \<and> moves S T g)"

lemma moves_comp: "moves S T g \<Longrightarrow> moves S' T h \<Longrightarrow> moves (S \<union> S') T (h \<circ> g)"
  unfolding moves_def by (auto, metis+)

lemma orders_step_refl [simp]: "orders_step S T os os"
  unfolding orders_step_def moves_def by (rule exI [of _ "\<lambda>x. x"]) simp

lemma orders_step_trans: "orders_step S T os os1 \<Longrightarrow> orders_step S' T os1 os' \<Longrightarrow> orders_step (S \<union> S') T os os'"
  unfolding orders_step_def by (metis map_map moves_comp)

lemma orders_step_again: "orders_step S T os os1 \<Longrightarrow> orders_step S T os1 os' \<Longrightarrow> orders_step S T os os'"
  using orders_step_trans [of S T os os1 S os'] by simp

lemma moves_other: "moves S T g \<Longrightarrow> wo_id x \<notin> S \<Longrightarrow> g x = x"
  by (simp add: moves_def)

lemma orders_step_mono: "orders_step S T os os' \<Longrightarrow> S \<subseteq> S' \<Longrightarrow> T \<subseteq> T' \<Longrightarrow> orders_step S' T' os os'"
  unfolding orders_step_def moves_def by blast

lemma orders_step_update:
  assumes "\<And>x. wo_id (f x) = wo_id x \<and> wo_certificate_id (f x) = wo_certificate_id x \<and> wo_order_type (f x) = wo_order_type x \<and>
    (wo_order_status (f x) = wo_order_status x \<or> wo_order_status (f x) \<in> T)"
  shows "orders_step {i} T (cd_orders db) (cd_orders (update_order i f db))"
  unfolding orders_step_def update_order_def moves_def
  by (rule exI [of _ "\<lambda>x. if wo_id x = i then f x else x"]) (use assms in simp)

lemma update_order_sel [simp]:
  "cd_certificates (update_order i f db) = cd_certificates db" "cd_versions (update_order i f db) = cd_versions db"
  "cd_bindings (update_order i f db) = cd_bindings db" "cd_zones (update_order i f db) = cd_zones db"
  "cd_providers (update_order i f db) = cd_providers db"
  by (simp_all add: update_order_def)

lemma eff_clock_iff [simp]: "eff_clock w = (r, w') \<longleftrightarrow> r = Inr (w_clock w) \<and> w' = w"
  by (auto simp: eff_clock_def)

lemma bind_clock [simp]: "eff_bind eff_clock k w = k (w_clock w) w"
  by (simp add: eff_bind_def eff_clock_def)

text \<open>Calls to what is outside leave the tables.\<close>

lemma eff_ext_db: "eff_ext f w = (r, w') \<Longrightarrow> w_db w' = w_db w"
  by (auto simp: eff_ext_def split: prod.splits)

definition keeps_db :: "('a, 'x) dns \<Rightarrow> bool" where
  "keeps_db m \<longleftrightarrow> (\<forall>w. w_db (snd (m w)) = w_db w)"

lemma keeps_db_bind: "keeps_db m \<Longrightarrow> (\<And>x. keeps_db (k x)) \<Longrightarrow> keeps_db (eff_bind m k)"
  by (auto simp: keeps_db_def eff_bind_def split: prod.split sum.split) (metis snd_conv)+

lemma keeps_db_simple: "keeps_db (eff_ext f)" "keeps_db (eff_return r)"
  by (auto simp: keeps_db_def eff_return_def eff_ext_def split: prod.split)

lemma keeps_db_challenge: "keeps_db (process_dns_challenge e job)" "keeps_db (finalize_certificate_order e job)"
  unfolding process_dns_challenge_def finalize_certificate_order_def
  by (intro keeps_db_bind keeps_db_simple)+

lemma keeps_dbD: "keeps_db m \<Longrightarrow> m w = (r, w') \<Longrightarrow> w_db w' = w_db w"
  by (metis keeps_db_def snd_conv)

subsection \<open>Presenting\<close>

abbreviation "presented_states \<equiv> {''dns_challenge_presented'', ''dns_challenge_failed''}"

lemma update_order_status_cases:
  assumes "update_order_status e i status msg w = (r, w')"
  shows "w_ext w' = w_ext w \<and> (r = Inr () \<and> w_db w' = update_order i (\<lambda>o'. o'\<lparr>wo_order_status := status, wo_error_message := msg,
      wo_updated_at := dv_now e (w_clock w)\<rparr>) (w_db w) \<or> (\<exists>error. r = Inl error) \<and> w_db w' = w_db w)"
  using sql_exec_db [of "dv_fails e" _ w r w'] assms by (auto simp: update_order_status_def)

lemma update_payload_cases:
  assumes "update_order_challenge_payload e i payload w = (r, w')"
  shows "w_ext w' = w_ext w \<and> (r = Inr () \<and> w_db w' = update_order i (\<lambda>o'. o'\<lparr>wo_challenge_payload := payload,
      wo_updated_at := dv_now e (w_clock w)\<rparr>) (w_db w) \<or> (\<exists>error. r = Inl error) \<and> w_db w' = w_db w)"
  using sql_exec_db [of "dv_fails e" _ w r w'] assms by (auto simp: update_order_challenge_payload_def)

text \<open>The tables other than the orders.\<close>

definition other_tables :: "cert_db \<Rightarrow> certificate_row list \<times> certificate_version_row list \<times> site_cert_binding_row list \<times>
    dns_zone_row list \<times> dns_provider_row list" where
  "other_tables db = (cd_certificates db, cd_versions db, cd_bindings db, cd_zones db, cd_providers db)"

lemma other_tables_update [simp]: "other_tables (update_order i f db) = other_tables db"
  by (simp add: other_tables_def)

lemma present_job_step:
  assumes "present_job e job w = (r, w')"
  shows "orders_step {qo_order_id job} presented_states (cd_orders (w_db w)) (cd_orders (w_db w'))"
    and "other_tables (w_db w') = other_tables (w_db w)"
    and "r = Inr u \<Longrightarrow> x \<in> set (cd_orders (w_db w')) \<Longrightarrow> wo_id x = qo_order_id job \<Longrightarrow> wo_order_status x \<in> presented_states"
proof -
  let ?i = "qo_order_id job"
  obtain p w1 where p: "process_dns_challenge e job w = (p, w1)" by (metis surj_pair)
  note db = keeps_dbD [OF keeps_db_challenge(1) p]
  have "orders_step {?i} presented_states (cd_orders (w_db w)) (cd_orders (w_db w')) \<and>
      other_tables (w_db w') = other_tables (w_db w) \<and>
      (r = Inr u \<longrightarrow> x \<in> set (cd_orders (w_db w')) \<longrightarrow> wo_id x = ?i \<longrightarrow> wo_order_status x \<in> presented_states)"
  proof (cases p)
    case (Inl error)
    with assms p have u: "update_order_status e ?i ''dns_challenge_failed'' (Some error) w1 = (r, w')"
      by (simp add: present_job_def)
    from update_order_status_cases [OF u] show ?thesis
      by (auto simp: db intro!: orders_step_update) (auto simp: update_order_def)
  next
    case (Inr prepared)
    with assms p have u: "eff_bind (update_order_challenge_payload e ?i prepared) (\<lambda>_.
        update_order_status e ?i ''dns_challenge_presented'' None) w1 = (r, w')"
      by (simp add: present_job_def)
    obtain q w2 where q: "update_order_challenge_payload e ?i prepared w1 = (q, w2)" by (metis surj_pair)
    from update_payload_cases [OF q] have s1: "orders_step {?i} presented_states (cd_orders (w_db w)) (cd_orders (w_db w2))"
      "other_tables (w_db w2) = other_tables (w_db w)"
      by (auto simp: db intro!: orders_step_update)
    show ?thesis
    proof (cases q)
      case (Inl error)
      with u q s1 show ?thesis by (auto simp: eff_bind_def)
    next
      case (Inr y)
      with u q have u2: "update_order_status e ?i ''dns_challenge_presented'' None w2 = (r, w')"
        by (simp add: eff_bind_def)
      from update_order_status_cases [OF u2]
      have "orders_step {?i} presented_states (cd_orders (w_db w2)) (cd_orders (w_db w'))"
        "other_tables (w_db w') = other_tables (w_db w2)"
        "r = Inr u \<longrightarrow> x \<in> set (cd_orders (w_db w')) \<longrightarrow> wo_id x = ?i \<longrightarrow> wo_order_status x \<in> presented_states"
        by (auto intro!: orders_step_update) (auto simp: update_order_def)
      with orders_step_again [OF s1(1)] s1(2) show ?thesis by simp
    qed
  qed
  then show "orders_step {?i} presented_states (cd_orders (w_db w)) (cd_orders (w_db w'))"
    "other_tables (w_db w') = other_tables (w_db w)"
    "r = Inr u \<Longrightarrow> x \<in> set (cd_orders (w_db w')) \<Longrightarrow> wo_id x = ?i \<Longrightarrow> wo_order_status x \<in> presented_states"
    by blast+
qed

subsection \<open>Issuing\<close>

abbreviation "issued_states \<equiv> {''issued'', ''issue_failed''}"

definition issued_targets :: "persist_issued_certificate_request \<Rightarrow> cert_db \<Rightarrow> uuid list" where
  "issued_targets request db =
     (case pq_site_id request of
        Some site_id \<Rightarrow> [site_id]
      | None \<Rightarrow> if pq_order_type request = ''renew'' then remdups (map wb_site_id (filter (\<lambda>b.
          wb_certificate_id b = pq_certificate_id request \<and> wb_is_default b) (cd_bindings db))) else [])"

lemma issued_target_sites_Inr:
  "issued_target_sites e request w = (Inr sites, w') \<Longrightarrow> sites = issued_targets request (w_db w) \<and> w_db w' = w_db w \<and> w_ext w' = w_ext w"
  by (auto simp: issued_target_sites_def issued_targets_def effect_iffs split: option.splits if_splits)

text \<open>After a version was bound to sites, each of them has this version as its only default.\<close>

definition bound_to :: "uuid \<Rightarrow> int \<Rightarrow> uuid set \<Rightarrow> site_cert_binding_row list \<Rightarrow> site_cert_binding_row list \<Rightarrow> bool" where
  "bound_to cert version sites bs bs' \<longleftrightarrow>
     (\<forall>site. if site \<in> sites
        then (\<exists>b. filter (\<lambda>b. wb_site_id b = site \<and> wb_is_default b) bs' = [b] \<and> wb_certificate_id b = cert \<and> wb_version b = version)
        else filter (\<lambda>b. wb_site_id b = site) bs' = filter (\<lambda>b. wb_site_id b = site) bs)"

lemma filter_default: "filter (\<lambda>b. wb_site_id b = site \<and> wb_is_default b) bs = filter wb_is_default (filter (\<lambda>b. wb_site_id b = site) bs)"
  by (simp add: conj_commute)

lemma bound_to_trans:
  assumes "bound_to cert version S bs bs1" "bound_to cert version S' bs1 bs'"
  shows "bound_to cert version (S \<union> S') bs bs'"
  using assms unfolding bound_to_def filter_default by (metis UnCI UnE)

lemma bind_issued_version_Inr:
  assumes "bind_issued_version e now cert version site w = (Inr u, w')"
  shows "\<exists>bs. w_db w' = (w_db w)\<lparr>cd_bindings := bs\<rparr> \<and> w_ext w' = w_ext w \<and> bound_to cert version {site} (cd_bindings (w_db w)) bs"
proof -
  have off: "filter (\<lambda>b. wb_site_id b = s) (map (\<lambda>b. if wb_site_id b = site then b\<lparr>wb_is_default := False\<rparr> else b) bs) =
      filter (\<lambda>b. wb_site_id b = s) bs" if "s \<noteq> site" for s bs
    using that by (induction bs) auto
  have none: "filter (\<lambda>b. wb_site_id b = site \<and> wb_is_default b)
      (map (\<lambda>b. if wb_site_id b = site then b\<lparr>wb_is_default := False\<rparr> else b) bs) = []" for bs
    by (induction bs) auto
  show ?thesis
    using assms by (auto simp: bind_issued_version_def effect_iffs bound_to_def off none)
qed

lemma bind_each_Inr:
  "eff_each (bind_issued_version e now cert version) sites w = (Inr u, w') \<Longrightarrow>
   \<exists>bs. w_db w' = (w_db w)\<lparr>cd_bindings := bs\<rparr> \<and> w_ext w' = w_ext w \<and> bound_to cert version (set sites) (cd_bindings (w_db w)) bs"
proof (induction sites arbitrary: w)
  case Nil
  then show ?case by (auto intro!: exI [of _ "cd_bindings (w_db w)"] simp: bound_to_def)
next
  case (Cons site sites)
  then obtain w1 where w1: "bind_issued_version e now cert version site w = (Inr (), w1)"
    "eff_each (bind_issued_version e now cert version) sites w1 = (Inr u, w')" by (auto simp: eff_bind_Inr)
  from bind_issued_version_Inr [OF w1(1)] obtain bs1 where b1: "w_db w1 = (w_db w)\<lparr>cd_bindings := bs1\<rparr>" "w_ext w1 = w_ext w"
    "bound_to cert version {site} (cd_bindings (w_db w)) bs1" by blast
  from Cons.IH [OF w1(2)] obtain bs where b: "w_db w' = (w_db w1)\<lparr>cd_bindings := bs\<rparr>" "w_ext w' = w_ext w1"
    "bound_to cert version (set sites) (cd_bindings (w_db w1)) bs" by blast
  have "bound_to cert version ({site} \<union> set sites) (cd_bindings (w_db w)) bs"
    using bound_to_trans [OF b1(3)] b(3) b1(1) by simp
  then show ?case using b b1 by auto
qed

lemma next_version_greater:
  assumes "v \<in> set (cd_versions db)" "wv_certificate_id v = cert"
  shows "wv_version v < next_version cert db"
proof -
  let ?vs = "map wv_version (filter (\<lambda>v. wv_certificate_id v = cert) (cd_versions db))"
  have "wv_version v \<in> set ?vs" using assms by auto
  moreover from this have "?vs \<noteq> []" by force
  then obtain m where "max_by_key (\<lambda>v. v) ?vs = Some m" by (meson max_by_key_None not_None_eq)
  ultimately show ?thesis using max_by_key_greatest [of "\<lambda>v. v" ?vs m] by (fastforce simp: next_version_def)
qed

lemma persist_issued_certificate_Inr:
  assumes "persist_issued_certificate e request w = (Inr u, w')"
  obtains now bs i version where "w_db w' = update_order (pq_order_id request)
      (\<lambda>o'. o'\<lparr>wo_order_status := ''issued'', wo_error_message := pq_warning_message request, wo_updated_at := now\<rparr>)
      ((w_db w)\<lparr>cd_certificates := map (\<lambda>c. if wc_id c = pq_certificate_id request then issued_certificate_row request now c else c)
          (cd_certificates (w_db w)),
        cd_versions := cd_versions (w_db w) @ [issued_version_row request i version now], cd_bindings := bs\<rparr>)"
    "w_ext w' = w_ext w"
    "bound_to (pq_certificate_id request) version (set (issued_targets request (w_db w))) (cd_bindings (w_db w)) bs"
    "version = next_version (pq_certificate_id request) (w_db w)" "version \<le> 2147483647"
proof -
  let ?now = "dv_now e (w_clock w)" and ?v = "next_version (pq_certificate_id request) (w_db w)"
  let ?i = "dv_uuid e (Suc (Suc (Suc (w_clock w))))"
  let ?w1 = "w\<lparr>w_db := (w_db w)\<lparr>cd_certificates := map (\<lambda>c. if wc_id c = pq_certificate_id request
      then issued_certificate_row request ?now c else c) (cd_certificates (w_db w)),
      cd_versions := cd_versions (w_db w) @ [issued_version_row request ?i ?v ?now]\<rparr>,
      w_clock := Suc (Suc (Suc (Suc (w_clock w))))\<rparr>"
  from assms obtain sites w2 w3 where steps: "?v \<le> 2147483647"
    and sites: "issued_target_sites e request ?w1 = (Inr sites, w2)"
    and binds: "eff_each (bind_issued_version e ?now (pq_certificate_id request) ?v) sites w2 = (Inr (), w3)"
    and last: "w_db w' = update_order (pq_order_id request) (\<lambda>o'. o'\<lparr>wo_order_status := ''issued'',
        wo_error_message := pq_warning_message request, wo_updated_at := ?now\<rparr>) (w_db w3)" "w_ext w' = w_ext w3"
    by (auto simp: persist_issued_certificate_def Let_def transaction_Inr effect_iffs split: if_splits)
  from issued_target_sites_Inr [OF sites] bind_each_Inr [OF binds] obtain bs where
    bs: "w_db w3 = (w_db ?w1)\<lparr>cd_bindings := bs\<rparr>" "w_ext w3 = w_ext w"
    "bound_to (pq_certificate_id request) ?v (set (issued_targets request (w_db ?w1))) (cd_bindings (w_db w)) bs" by auto
  have "issued_targets request (w_db ?w1) = issued_targets request (w_db w)" by (simp add: issued_targets_def split: option.split)
  with bs steps last show thesis by (intro that [of ?now bs ?i ?v]) simp_all
qed

text \<open>
  C7: storing an issued certificate is all or nothing. When it fails no table has changed. When it
  succeeds, the new version is larger than every version of the certificate, the certificate carries the
  data of the issued one, exactly the target sites (the site of the order, or for a renewal the sites
  that use the certificate by default) have the new version as their only default and the bindings of
  all other sites are as before, and the order is issued.
\<close>

theorem persist_issued_certificate_spec:
  assumes "persist_issued_certificate e request w = (r, w')"
  shows "case r of
      Inl error \<Rightarrow> w_db w' = w_db w
    | Inr _ \<Rightarrow> \<exists>version i now.
        (\<forall>v \<in> set (cd_versions (w_db w)). wv_certificate_id v = pq_certificate_id request \<longrightarrow> wv_version v < version) \<and>
        cd_versions (w_db w') = cd_versions (w_db w) @ [issued_version_row request i version now] \<and>
        cd_certificates (w_db w') = map (\<lambda>c. if wc_id c = pq_certificate_id request
          then issued_certificate_row request now c else c) (cd_certificates (w_db w)) \<and>
        (\<forall>site \<in> set (issued_targets request (w_db w)).
          \<exists>b. filter (\<lambda>b. wb_site_id b = site \<and> wb_is_default b) (cd_bindings (w_db w')) = [b] \<and>
            wb_certificate_id b = pq_certificate_id request \<and> wb_version b = version) \<and>
        (\<forall>site. site \<notin> set (issued_targets request (w_db w)) \<longrightarrow>
          filter (\<lambda>b. wb_site_id b = site) (cd_bindings (w_db w')) = filter (\<lambda>b. wb_site_id b = site) (cd_bindings (w_db w))) \<and>
        cd_orders (w_db w') = map (\<lambda>x. if wo_id x = pq_order_id request
          then x\<lparr>wo_order_status := ''issued'', wo_error_message := pq_warning_message request, wo_updated_at := now\<rparr> else x)
          (cd_orders (w_db w))"
proof (cases r)
  case (Inl error)
  with assms transaction_Inl_db show ?thesis by (fastforce simp: persist_issued_certificate_def Let_def)
next
  case (Inr u)
  with assms have "persist_issued_certificate e request w = (Inr u, w')" by simp
  then obtain now bs i version where db: "w_db w' = update_order (pq_order_id request)
      (\<lambda>o'. o'\<lparr>wo_order_status := ''issued'', wo_error_message := pq_warning_message request, wo_updated_at := now\<rparr>)
      ((w_db w)\<lparr>cd_certificates := map (\<lambda>c. if wc_id c = pq_certificate_id request then issued_certificate_row request now c else c)
          (cd_certificates (w_db w)),
        cd_versions := cd_versions (w_db w) @ [issued_version_row request i version now], cd_bindings := bs\<rparr>)"
    and bound: "bound_to (pq_certificate_id request) version (set (issued_targets request (w_db w))) (cd_bindings (w_db w)) bs"
    and version: "version = next_version (pq_certificate_id request) (w_db w)"
    by (rule persist_issued_certificate_Inr)
  have fields: "cd_versions (w_db w') = cd_versions (w_db w) @ [issued_version_row request i version now]"
    "cd_certificates (w_db w') = map (\<lambda>c. if wc_id c = pq_certificate_id request
          then issued_certificate_row request now c else c) (cd_certificates (w_db w))"
    "cd_bindings (w_db w') = bs"
    "cd_orders (w_db w') = map (\<lambda>x. if wo_id x = pq_order_id request
          then x\<lparr>wo_order_status := ''issued'', wo_error_message := pq_warning_message request, wo_updated_at := now\<rparr> else x)
          (cd_orders (w_db w))"
    by (simp_all add: db update_order_def)
  have larger: "wv_version v < version" if "v \<in> set (cd_versions (w_db w))" "wv_certificate_id v = pq_certificate_id request" for v
    using next_version_greater [OF that] version by simp
  have sites: "\<exists>b. filter (\<lambda>b. wb_site_id b = site \<and> wb_is_default b) bs = [b] \<and>
      wb_certificate_id b = pq_certificate_id request \<and> wb_version b = version"
    if "site \<in> set (issued_targets request (w_db w))" for site
    using spec [OF bound [unfolded bound_to_def], of site] that by simp
  have others: "filter (\<lambda>b. wb_site_id b = site) bs = filter (\<lambda>b. wb_site_id b = site) (cd_bindings (w_db w))"
    if "site \<notin> set (issued_targets request (w_db w))" for site
    using spec [OF bound [unfolded bound_to_def], of site] that by simp
  show ?thesis
    unfolding Inr sum.case fields
    by (rule exI [of _ version], rule exI [of _ i], rule exI [of _ now], intro conjI ballI allI impI refl)
      (erule (1) larger, erule sites, erule others)
qed

lemma persist_step:
  assumes "persist_issued_certificate e request w = (r, w')"
  shows "orders_step {pq_order_id request} issued_states (cd_orders (w_db w)) (cd_orders (w_db w'))"
    and "cd_zones (w_db w') = cd_zones (w_db w)" "cd_providers (w_db w') = cd_providers (w_db w)"
    and "r = Inr u \<Longrightarrow> x \<in> set (cd_orders (w_db w')) \<Longrightarrow> wo_id x = pq_order_id request \<Longrightarrow> wo_order_status x \<in> issued_states"
proof -
  have "orders_step {pq_order_id request} issued_states (cd_orders (w_db w)) (cd_orders (w_db w')) \<and>
      cd_zones (w_db w') = cd_zones (w_db w) \<and> cd_providers (w_db w') = cd_providers (w_db w) \<and>
      (r = Inr u \<longrightarrow> x \<in> set (cd_orders (w_db w')) \<longrightarrow> wo_id x = pq_order_id request \<longrightarrow> wo_order_status x \<in> issued_states)"
  proof (cases r)
    case (Inl error)
    with assms transaction_Inl_db have "w_db w' = w_db w" by (fastforce simp: persist_issued_certificate_def Let_def)
    with Inl show ?thesis by simp
  next
    case (Inr v)
    with assms have "persist_issued_certificate e request w = (Inr v, w')" by simp
    then obtain now bs i version where "w_db w' = update_order (pq_order_id request)
      (\<lambda>o'. o'\<lparr>wo_order_status := ''issued'', wo_error_message := pq_warning_message request, wo_updated_at := now\<rparr>)
      ((w_db w)\<lparr>cd_certificates := map (\<lambda>c. if wc_id c = pq_certificate_id request then issued_certificate_row request now c else c)
          (cd_certificates (w_db w)),
        cd_versions := cd_versions (w_db w) @ [issued_version_row request i version now], cd_bindings := bs\<rparr>)"
      by (rule persist_issued_certificate_Inr)
    moreover have "orders_step {pq_order_id request} issued_states (cd_orders (w_db w)) (cd_orders (update_order (pq_order_id request)
      (\<lambda>o'. o'\<lparr>wo_order_status := ''issued'', wo_error_message := pq_warning_message request, wo_updated_at := now\<rparr>)
      ((w_db w)\<lparr>cd_certificates := cs, cd_versions := vs, cd_bindings := bs\<rparr>)))" for now cs vs bs
      using orders_step_update [of "\<lambda>o'. o'\<lparr>wo_order_status := ''issued'', wo_error_message := pq_warning_message request,
        wo_updated_at := now\<rparr>" issued_states "pq_order_id request" "(w_db w)\<lparr>cd_certificates := cs, cd_versions := vs, cd_bindings := bs\<rparr>"]
      by simp
    ultimately show ?thesis by (auto simp: update_order_def)
  qed
  then show "orders_step {pq_order_id request} issued_states (cd_orders (w_db w)) (cd_orders (w_db w'))"
    "cd_zones (w_db w') = cd_zones (w_db w)" "cd_providers (w_db w') = cd_providers (w_db w)"
    "r = Inr u \<Longrightarrow> x \<in> set (cd_orders (w_db w')) \<Longrightarrow> wo_id x = pq_order_id request \<Longrightarrow> wo_order_status x \<in> issued_states"
    by blast+
qed

lemma finalize_order_id: "finalize_certificate_order e job w = (Inr result, w1) \<Longrightarrow> pq_order_id result = qo_order_id job"
  by (auto simp: finalize_certificate_order_def effect_iffs)

lemma issue_job_step:
  assumes "issue_job e job w = (r, w')"
  shows "orders_step {qo_order_id job} issued_states (cd_orders (w_db w)) (cd_orders (w_db w'))"
    and "r = Inr u \<Longrightarrow> x \<in> set (cd_orders (w_db w')) \<Longrightarrow> wo_id x = qo_order_id job \<Longrightarrow> wo_order_status x \<in> issued_states"
proof -
  obtain p w1 where p: "finalize_certificate_order e job w = (p, w1)" by (metis surj_pair)
  note db = keeps_dbD [OF keeps_db_challenge(2) p]
  have "orders_step {qo_order_id job} issued_states (cd_orders (w_db w)) (cd_orders (w_db w')) \<and>
      (r = Inr u \<longrightarrow> x \<in> set (cd_orders (w_db w')) \<longrightarrow> wo_id x = qo_order_id job \<longrightarrow> wo_order_status x \<in> issued_states)"
  proof (cases p)
    case (Inl error)
    with assms p have u: "update_order_status e (qo_order_id job) ''issue_failed'' (Some error) w1 = (r, w')"
      by (simp add: issue_job_def)
    from update_order_status_cases [OF u] show ?thesis
      by (auto simp: db intro!: orders_step_update) (auto simp: update_order_def)
  next
    case (Inr result)
    with assms p have u: "persist_issued_certificate e result w1 = (r, w')" by (simp add: issue_job_def)
    from p Inr have id: "pq_order_id result = qo_order_id job" using finalize_order_id by blast
    show ?thesis using persist_step(1,4) [OF u] by (auto simp: id db)
  qed
  then show "orders_step {qo_order_id job} issued_states (cd_orders (w_db w)) (cd_orders (w_db w'))"
    "r = Inr u \<Longrightarrow> x \<in> set (cd_orders (w_db w')) \<Longrightarrow> wo_id x = qo_order_id job \<Longrightarrow> wo_order_status x \<in> issued_states"
    by blast+
qed

subsection \<open>Claims\<close>

definition claimed_as :: "string \<Rightarrow> datetime \<Rightarrow> cert_order_row \<Rightarrow> cert_order_row" where
  "claimed_as status now x = x\<lparr>wo_order_status := status, wo_error_message := None, wo_updated_at := now\<rparr>"

definition claim_ids :: "string \<Rightarrow> nat \<Rightarrow> cert_db \<Rightarrow> uuid list" where
  "claim_ids status limit db = map (\<lambda>row. wo_id (fst row)) (claimable_orders status limit db)"

lemma claim_each_Inr:
  "claim_each e status now rows jobs w = (Inr jobs', w') \<Longrightarrow>
   cd_orders (w_db w') = map (\<lambda>x. if wo_id x \<in> (\<lambda>row. wo_id (fst row)) ` set rows then claimed_as status now x else x) (cd_orders (w_db w)) \<and>
   other_tables (w_db w') = other_tables (w_db w) \<and> map qo_order_id jobs' = map qo_order_id jobs @ map (\<lambda>row. wo_id (fst row)) rows"
proof (induction rows arbitrary: jobs w)
  case (Cons row rows)
  obtain x zone provider certificate where row: "row = (x, zone, provider, certificate)" by (metis surj_pair)
  from Cons.prems obtain sans w1 where s:
    "sql_exec (dv_fails e) (update_order (wo_id x) (claimed_as status now)) w = (Inr (), w1)"
    "claim_each e status now rows (jobs @ [queued_order_of x zone provider certificate sans]) w1 = (Inr jobs', w')"
    by (auto simp: row eff_bind_Inr claimed_as_def [abs_def])
  have db: "w_db w1 = update_order (wo_id x) (claimed_as status now) (w_db w)" using s(1) by (simp add: sql_exec_Inr)
  have again: "claimed_as status now (claimed_as status now y) = claimed_as status now y" "wo_id (claimed_as status now y) = wo_id y" for y
    by (simp_all add: claimed_as_def)
  from Cons.IH [OF s(2)] show ?case
    by (auto simp: db row queued_order_of_def again update_order_def other_tables_def)
qed simp

lemma claim_orders_Inl: "claim_orders e status status' limit w = (Inl error, w') \<Longrightarrow> w_db w' = w_db w"
  by (auto simp: claim_orders_def dest: transaction_Inl_db)

lemma claim_orders_Inr:
  assumes "claim_orders e status status' limit w = (Inr jobs, w')"
  shows "orders_step (set (claim_ids status limit (w_db w))) {status'} (cd_orders (w_db w)) (cd_orders (w_db w'))"
    and "other_tables (w_db w') = other_tables (w_db w)" "map qo_order_id jobs = claim_ids status limit (w_db w)"
proof -
  from assms obtain w1 where w1: "claim_each e status' (dv_now e (w_clock w)) (claimable_orders status limit (w_db w)) []
      (w\<lparr>w_clock := Suc (Suc (w_clock w))\<rparr>) = (Inr jobs, w1)" "w_db w' = w_db w1"
    by (auto simp: claim_orders_def transaction_Inr effect_iffs)
  note claimed = claim_each_Inr [OF w1(1)]
  then show "other_tables (w_db w') = other_tables (w_db w)" "map qo_order_id jobs = claim_ids status limit (w_db w)"
    by (simp_all add: w1(2) claim_ids_def)
  show "orders_step (set (claim_ids status limit (w_db w))) {status'} (cd_orders (w_db w)) (cd_orders (w_db w'))"
    unfolding orders_step_def moves_def
    by (rule exI [of _ "\<lambda>x. if wo_id x \<in> set (claim_ids status limit (w_db w)) then claimed_as status' (dv_now e (w_clock w)) x else x"])
      (use claimed in \<open>simp add: w1(2) claim_ids_def claimed_as_def\<close>)
qed

text \<open>What is claimed is in the state that is asked for.\<close>

lemma claimable_in:
  "row \<in> set (claimable_orders status limit db) \<Longrightarrow> fst row \<in> set (cd_orders db) \<and> wo_order_status (fst row) = status"
  by (auto simp: claimable_orders_def joined_order_def map_filter_def Option.bind_eq_Some_conv dest!: in_set_takeD)

lemma claim_orders_claims:
  assumes "claim_orders e status status' limit w = (Inr jobs, w')" "i \<in> set (claim_ids status limit (w_db w))"
  shows "\<exists>x \<in> set (cd_orders (w_db w')). wo_id x = i \<and> wo_order_status x = status'"
proof -
  from assms(1) obtain w1 where w1: "claim_each e status' (dv_now e (w_clock w)) (claimable_orders status limit (w_db w)) []
      (w\<lparr>w_clock := Suc (Suc (w_clock w))\<rparr>) = (Inr jobs, w1)" "w_db w' = w_db w1"
    by (auto simp: claim_orders_def transaction_Inr effect_iffs)
  from assms(2) obtain row where row: "row \<in> set (claimable_orders status limit (w_db w))" "i = wo_id (fst row)"
    by (auto simp: claim_ids_def)
  from claimable_in [OF row(1)] claim_each_Inr [OF w1(1)] row
  have "claimed_as status' (dv_now e (w_clock w)) (fst row) \<in> set (cd_orders (w_db w1))" by force
  with row(2) w1(2) show ?thesis
    by (intro bexI [of _ "claimed_as status' (dv_now e (w_clock w)) (fst row)"]) (simp_all add: claimed_as_def)
qed


lemma claim_ids_status:
  assumes "distinct (map wo_id (cd_orders db))" "x \<in> set (cd_orders db)" "wo_id x \<in> set (claim_ids status limit db)"
  shows "wo_order_status x = status"
proof -
  from assms(3) obtain row where "row \<in> set (claimable_orders status limit db)" "wo_id x = wo_id (fst row)"
    by (auto simp: claim_ids_def)
  with claimable_in [OF this(1)] assms(1,2) show ?thesis by (metis distinct_map inj_onD)
qed

lemma claim_ids_length: "length (claim_ids status limit db) \<le> limit"
  by (simp add: claim_ids_def claimable_orders_def)

text \<open>
  Which orders can be claimed, and in which order: those whose zone, its provider and whose certificate exist,
  the oldest first.
\<close>

definition order_ready :: "string \<Rightarrow> cert_db \<Rightarrow> cert_order_row \<Rightarrow> bool" where
  "order_ready status db x \<longleftrightarrow> wo_order_status x = status \<and> wo_challenge_type x = ''dns-01'' \<and>
     (\<exists>zone \<in> set (cd_zones db). wo_zone_id x = Some (wz_id zone) \<and> wz_provider_id zone \<in> wp_id ` set (cd_providers db)) \<and>
     (\<exists>certificate \<in> set (cd_certificates db). wo_certificate_id x = Some (wc_id certificate))"

lemma joined_order_ready:
  assumes "distinct (map wz_id (cd_zones db))"
  shows "joined_order db x \<noteq> None \<and> wo_order_status x = status \<and> wo_challenge_type x = ''dns-01'' \<longleftrightarrow> order_ready status db x"
proof -
  have find: "List.find (\<lambda>z. wz_id z = wz_id zone) (cd_zones db) = Some zone" if "zone \<in> set (cd_zones db)" for zone
    using that assms by (intro find_unique) (auto simp: distinct_map inj_on_def)
  have some: "(\<exists>y. List.find (\<lambda>y. f y = i) ys = Some y) \<longleftrightarrow> i \<in> f ` set ys" for f :: "'b \<Rightarrow> uuid" and i ys
    using find_None_iff [of "\<lambda>y. f y = i" ys] by (cases "List.find (\<lambda>y. f y = i) ys") auto
  show ?thesis
  proof
    assume "joined_order db x \<noteq> None \<and> wo_order_status x = status \<and> wo_challenge_type x = ''dns-01''"
    moreover then obtain zone p c where "zone \<in> set (cd_zones db)" "wo_zone_id x = Some (wz_id zone)" "p \<in> set (cd_providers db)"
      "wz_provider_id zone = wp_id p" "c \<in> set (cd_certificates db)" "wo_certificate_id x = Some (wc_id c)"
      by (auto simp: joined_order_def Option.bind_eq_Some_conv dest!: find_Some_in)
    ultimately show "order_ready status db x" unfolding order_ready_def by blast
  next
    assume ready: "order_ready status db x"
    then obtain zone certificate where z: "zone \<in> set (cd_zones db)" "wo_zone_id x = Some (wz_id zone)"
      "wz_provider_id zone \<in> wp_id ` set (cd_providers db)" "certificate \<in> set (cd_certificates db)"
      "wo_certificate_id x = Some (wc_id certificate)" by (auto simp: order_ready_def)
    then have "wc_id certificate \<in> wc_id ` set (cd_certificates db)" by simp
    with z some [of wp_id "wz_provider_id zone" "cd_providers db"] some [of wc_id "wc_id certificate" "cd_certificates db"]
      find [OF z(1)] obtain p c where "joined_order db x = Some (x, zone, p, c)"
      by (auto simp: joined_order_def)
    with ready show "joined_order db x \<noteq> None \<and> wo_order_status x = status \<and> wo_challenge_type x = ''dns-01''"
      by (simp add: order_ready_def)
  qed
qed

lemma map_filter_fst:
  assumes "\<And>x y. f x = Some y \<Longrightarrow> fst y = x"
  shows "map fst (List.map_filter f xs) = filter (\<lambda>x. f x \<noteq> None) xs"
  using assms by (induction xs) (auto simp: List.map_filter_simps split: option.splits)

lemma distinct_map_filter_sort: "distinct (map f xs) \<Longrightarrow> distinct (map f (take k (sort_key h (filter P xs))))"
proof -
  assume "distinct (map f xs)"
  then have "distinct (map f (sort_key h (filter P xs)))" by (auto simp: distinct_map inj_on_def)
  then show ?thesis by (metis distinct_take take_map)
qed

lemma claim_ids_oldest:
  assumes "distinct (map wz_id (cd_zones db))"
  shows "claim_ids status limit db = map wo_id (take limit (sort_key wo_created_at (filter (order_ready status db) (cd_orders db))))"
proof -
  let ?p = "\<lambda>x. wo_order_status x = status \<and> wo_challenge_type x = ''dns-01''"
  have "map fst (List.map_filter (joined_order db) (sort_key wo_created_at (filter ?p (cd_orders db)))) =
      filter (\<lambda>x. joined_order db x \<noteq> None) (sort_key wo_created_at (filter ?p (cd_orders db)))"
    by (rule map_filter_fst) (auto simp: joined_order_def Option.bind_eq_Some_conv)
  also have "\<dots> = sort_key wo_created_at (filter (\<lambda>x. joined_order db x \<noteq> None \<and> ?p x) (cd_orders db))"
    by (simp add: filter_sort conj_ac)
  also have "\<dots> = sort_key wo_created_at (filter (order_ready status db) (cd_orders db))"
    by (simp only: joined_order_ready [OF assms])
  finally show ?thesis
    by (simp add: claim_ids_def claimable_orders_def map_map [symmetric, of wo_id fst, unfolded comp_def] take_map [symmetric])
qed

lemma take_sort_key_le:
  assumes "x \<in> set (take k (sort_key f xs))" "y \<in> set xs" "y \<notin> set (take k (sort_key f xs))"
  shows "f x \<le> f y"
proof -
  let ?ys = "sort_key f xs"
  have "y \<in> set (drop k ?ys)" using assms(2,3) by (metis UnE append_take_drop_id set_append set_sort)
  moreover have "sorted (map f (take k ?ys @ drop k ?ys))" by simp
  ultimately show ?thesis using assms(1) unfolding map_append sorted_append by auto
qed

text \<open>Work that fails leaves the order in the state it was claimed in.\<close>

lemma present_job_fails:
  assumes "present_job e job w = (Inl error, w')" "x \<in> set (cd_orders (w_db w))" "wo_id x = qo_order_id job"
  shows "\<exists>y \<in> set (cd_orders (w_db w')). wo_id y = wo_id x \<and> wo_order_status y = wo_order_status x"
proof -
  obtain p w1 where p: "process_dns_challenge e job w = (p, w1)" by (metis surj_pair)
  note db = keeps_dbD [OF keeps_db_challenge(1) p]
  show ?thesis
  proof (cases p)
    case (Inl err)
    with assms(1) p have "update_order_status e (qo_order_id job) ''dns_challenge_failed'' (Some err) w1 = (Inl error, w')"
      by (simp add: present_job_def)
    from update_order_status_cases [OF this] db assms(2) show ?thesis by auto
  next
    case (Inr prepared)
    with assms(1) p have u: "eff_bind (update_order_challenge_payload e (qo_order_id job) prepared) (\<lambda>_.
        update_order_status e (qo_order_id job) ''dns_challenge_presented'' None) w1 = (Inl error, w')"
      by (simp add: present_job_def)
    obtain q w2 where q: "update_order_challenge_payload e (qo_order_id job) prepared w1 = (q, w2)" by (metis surj_pair)
    have kept: "\<exists>y \<in> set (cd_orders (w_db w2)). wo_id y = wo_id x \<and> wo_order_status y = wo_order_status x"
    proof (cases q)
      case (Inl err)
      with update_payload_cases [OF q] db assms(2) show ?thesis by auto
    next
      case (Inr v)
      let ?y = "x\<lparr>wo_challenge_payload := prepared, wo_updated_at := dv_now e (w_clock w1)\<rparr>"
      have "?y \<in> set (cd_orders (w_db w2))"
        using update_payload_cases [OF q] Inr db assms(2,3) by (auto simp: update_order_def)
      then show ?thesis by (intro bexI [of _ ?y]) simp_all
    qed
    show ?thesis
    proof (cases q)
      case (Inl err)
      with u q kept show ?thesis by (auto simp: eff_bind_def)
    next
      case (Inr v)
      with u q have "update_order_status e (qo_order_id job) ''dns_challenge_presented'' None w2 = (Inl error, w')"
        by (simp add: eff_bind_def)
      from update_order_status_cases [OF this] kept show ?thesis by auto
    qed
  qed
qed

lemma issue_job_fails:
  assumes "issue_job e job w = (Inl error, w')" "x \<in> set (cd_orders (w_db w))" "wo_id x = qo_order_id job"
  shows "\<exists>y \<in> set (cd_orders (w_db w')). wo_id y = wo_id x \<and> wo_order_status y = wo_order_status x"
proof -
  obtain p w1 where p: "finalize_certificate_order e job w = (p, w1)" by (metis surj_pair)
  note db = keeps_dbD [OF keeps_db_challenge(2) p]
  have "w_db w' = w_db w1"
  proof (cases p)
    case (Inl err)
    with assms(1) p have "update_order_status e (qo_order_id job) ''issue_failed'' (Some err) w1 = (Inl error, w')"
      by (simp add: issue_job_def)
    from update_order_status_cases [OF this] show ?thesis by auto
  next
    case (Inr result)
    with assms(1) p have "persist_issued_certificate e result w1 = (Inl error, w')" by (simp add: issue_job_def)
    then show ?thesis by (auto simp: persist_issued_certificate_def Let_def dest: transaction_Inl_db)
  qed
  with db assms(2) show ?thesis by auto
qed

text \<open>
  What a phase does that settles the oldest orders that are ready: as many as there are, up to the limit, none of them younger than a
  ready order that is left; all other orders stay as they are.
\<close>

definition settled_oldest :: "string \<Rightarrow> string set \<Rightarrow> nat \<Rightarrow> nat \<Rightarrow> cert_db \<Rightarrow> cert_db \<Rightarrow> bool" where
  "settled_oldest status final limit n db db' \<longleftrightarrow>
     (\<exists>S g. cd_orders db' = map g (cd_orders db) \<and>
       S \<subseteq> wo_id ` {x \<in> set (cd_orders db). order_ready status db x} \<and>
       card S = n \<and> n = min limit (length (filter (order_ready status db) (cd_orders db))) \<and>
       (\<forall>x \<in> set (cd_orders db). \<forall>y \<in> set (cd_orders db).
          wo_id x \<in> S \<longrightarrow> order_ready status db y \<longrightarrow> wo_id y \<notin> S \<longrightarrow> wo_created_at x \<le> wo_created_at y) \<and>
       (\<forall>x \<in> set (cd_orders db). wo_id (g x) = wo_id x \<and> wo_certificate_id (g x) = wo_certificate_id x \<and>
          wo_order_type (g x) = wo_order_type x \<and> (if wo_id x \<in> S then wo_order_status (g x) \<in> final else g x = x)))"

subsection \<open>A phase: claim and work off\<close>

text \<open>
  The contract the two phases of a round share: working on a claimed order touches no other and, if the
  database answers, leaves it in a final state of the phase.
\<close>

locale order_phase =
  fixes e :: "'x dns_env" and run :: "queued_order \<Rightarrow> (unit, 'x) dns" and from_status to_status :: string and final :: "string set"
  assumes run_step: "run job w = (r, w') \<Longrightarrow> orders_step {qo_order_id job} final (cd_orders (w_db w)) (cd_orders (w_db w'))"
    and run_settles: "run job w = (Inr (), w') \<Longrightarrow> x \<in> set (cd_orders (w_db w')) \<Longrightarrow> wo_id x = qo_order_id job \<Longrightarrow> wo_order_status x \<in> final"
    and run_fails: "run job w = (Inl error, w') \<Longrightarrow> x \<in> set (cd_orders (w_db w)) \<Longrightarrow> wo_id x = qo_order_id job \<Longrightarrow>
      \<exists>y \<in> set (cd_orders (w_db w')). wo_id y = wo_id x \<and> wo_order_status y = wo_order_status x"
begin

lemma each_step:
  "eff_each run jobs w = (r, w') \<Longrightarrow> orders_step (qo_order_id ` set jobs) final (cd_orders (w_db w)) (cd_orders (w_db w'))"
proof (induction jobs arbitrary: w)
  case (Cons job jobs)
  obtain r1 w1 where run: "run job w = (r1, w1)" by (metis surj_pair)
  note first = run_step [OF run]
  show ?case
  proof (cases r1)
    case (Inl error)
    with Cons.prems run have "w' = w1" by (simp add: eff_bind_def)
    with orders_step_mono [OF first, of "qo_order_id ` set (job # jobs)" final] show ?thesis by simp
  next
    case (Inr u)
    with Cons.prems run have "eff_each run jobs w1 = (r, w')" by (simp add: eff_bind_def)
    from orders_step_trans [OF first Cons.IH [OF this]] show ?thesis by simp
  qed
qed simp

lemma each_settles:
  "eff_each run jobs w = (Inr u, w') \<Longrightarrow> x \<in> set (cd_orders (w_db w')) \<Longrightarrow> wo_id x \<in> qo_order_id ` set jobs \<Longrightarrow> wo_order_status x \<in> final"
proof (induction jobs arbitrary: w)
  case (Cons job jobs)
  then obtain w1 where w1: "run job w = (Inr (), w1)" "eff_each run jobs w1 = (Inr u, w')" by (auto simp: eff_bind_Inr)
  from each_step [OF w1(2)] obtain g where g: "cd_orders (w_db w') = map g (cd_orders (w_db w1))" "moves (qo_order_id ` set jobs) final g"
    by (auto simp: orders_step_def)
  show ?case
  proof (cases "wo_id x = qo_order_id job")
    case True
    from Cons.prems(2) g obtain y where y: "y \<in> set (cd_orders (w_db w1))" "x = g y" by auto
    with g(2) True have "wo_id y = qo_order_id job" "wo_order_status x = wo_order_status y \<or> wo_order_status x \<in> final"
      by (auto simp: moves_def)
    with run_settles [OF w1(1) y(1)] show ?thesis by auto
  next
    case False
    with Cons w1 show ?thesis by auto
  qed
qed simp

text \<open>When the work on the claimed orders breaks off, the order it broke off at is still in the state of the claim.\<close>

lemma each_breaks_off:
  "eff_each run jobs w = (Inl error, w') \<Longrightarrow> distinct (map qo_order_id jobs) \<Longrightarrow>
   \<forall>job \<in> set jobs. \<exists>x \<in> set (cd_orders (w_db w)). wo_id x = qo_order_id job \<and> wo_order_status x = status \<Longrightarrow>
   \<exists>job \<in> set jobs. \<exists>x \<in> set (cd_orders (w_db w')). wo_id x = qo_order_id job \<and> wo_order_status x = status"
proof (induction jobs arbitrary: w)
  case (Cons job jobs)
  obtain r1 w1 where run: "run job w = (r1, w1)" by (metis surj_pair)
  from run_step [OF run] obtain g where g: "cd_orders (w_db w1) = map g (cd_orders (w_db w))" "moves {qo_order_id job} final g"
    by (auto simp: orders_step_def)
  show ?case
  proof (cases r1)
    case (Inl err)
    with Cons.prems(1) run have "w' = w1" by (simp add: eff_bind_def)
    from Cons.prems(3) obtain x where "x \<in> set (cd_orders (w_db w))" "wo_id x = qo_order_id job" "wo_order_status x = status" by auto
    with run_fails [OF run [unfolded Inl] this(1,2)] \<open>w' = w1\<close> show ?thesis by auto
  next
    case (Inr u)
    with Cons.prems(1) run have "eff_each run jobs w1 = (Inl error, w')" by (simp add: eff_bind_def)
    moreover have "\<exists>x \<in> set (cd_orders (w_db w1)). wo_id x = qo_order_id other \<and> wo_order_status x = status" if other: "other \<in> set jobs" for other
    proof -
      from other Cons.prems(3) obtain x where x: "x \<in> set (cd_orders (w_db w))" "wo_id x = qo_order_id other" "wo_order_status x = status"
        by auto
      from other Cons.prems(2) have "wo_id x \<noteq> qo_order_id job" by (auto simp: x(2) image_iff)
      with moves_other [OF g(2)] have "g x = x" by simp
      with x g(1) show ?thesis by force
    qed
    ultimately show ?thesis using Cons.IH [of w1] Cons.prems(2) by auto
  qed
qed simp

lemma phase_breaks_off:
  assumes "eff_bind (claim_orders e from_status to_status limit) (\<lambda>jobs. eff_bind (eff_each run jobs)
      (\<lambda>_. eff_return (Inr (length jobs)))) w = (Inl error, w')"
    and "distinct (map wo_id (cd_orders (w_db w)))" "distinct (map wz_id (cd_zones (w_db w)))"
  shows "w_db w' = w_db w \<or> (\<exists>x \<in> set (cd_orders (w_db w)). \<exists>y \<in> set (cd_orders (w_db w')). wo_id y = wo_id x \<and>
    wo_order_status x = from_status \<and> wo_order_status y = to_status)"
proof -
  obtain c w1 where c: "claim_orders e from_status to_status limit w = (c, w1)" by (metis surj_pair)
  show ?thesis
  proof (cases c)
    case (Inl err)
    with assms(1) c claim_orders_Inl show ?thesis by (fastforce simp: eff_bind_def)
  next
    case (Inr jobs)
    with c have claim: "claim_orders e from_status to_status limit w = (Inr jobs, w1)" by simp
    note ids = claim_orders_Inr(3) [OF claim]
    have each: "eff_each run jobs w1 = (Inl error, w')"
      using assms(1) claim by (auto simp: eff_bind_def eff_return_def split: prod.splits sum.splits)
    have distinct: "distinct (map qo_order_id jobs)"
      unfolding ids claim_ids_oldest [OF assms(3)] using assms(2) by (simp add: distinct_map_filter_sort)
    have "\<forall>job \<in> set jobs. \<exists>x \<in> set (cd_orders (w_db w1)). wo_id x = qo_order_id job \<and> wo_order_status x = to_status"
    proof
      fix job
      assume "job \<in> set jobs"
      then have "qo_order_id job \<in> set (claim_ids from_status limit (w_db w))" unfolding ids [symmetric] by simp
      then show "\<exists>x \<in> set (cd_orders (w_db w1)). wo_id x = qo_order_id job \<and> wo_order_status x = to_status"
        by (rule claim_orders_claims [OF claim])
    qed
    from each_breaks_off [OF each distinct this] obtain job y where y: "job \<in> set jobs" "y \<in> set (cd_orders (w_db w'))"
      "wo_id y = qo_order_id job" "wo_order_status y = to_status" by blast
    then have "wo_id y \<in> set (claim_ids from_status limit (w_db w))" unfolding ids [symmetric] by simp
    then obtain row where "row \<in> set (claimable_orders from_status limit (w_db w))" "wo_id y = wo_id (fst row)"
      by (auto simp: claim_ids_def)
    with claimable_in [OF this(1)] y(2,4) show ?thesis by blast
  qed
qed

lemma phase_step:
  assumes "eff_bind (claim_orders e from_status to_status limit) (\<lambda>jobs. eff_bind (eff_each run jobs)
      (\<lambda>_. eff_return (Inr (length jobs)))) w = (r, w')"
  shows "orders_step (set (claim_ids from_status limit (w_db w))) (insert to_status final) (cd_orders (w_db w)) (cd_orders (w_db w'))"
proof -
  obtain c w1 where c: "claim_orders e from_status to_status limit w = (c, w1)" by (metis surj_pair)
  show ?thesis
  proof (cases c)
    case (Inl error)
    with assms c claim_orders_Inl show ?thesis by (fastforce simp: eff_bind_def)
  next
    case (Inr jobs)
    with c have claim: "claim_orders e from_status to_status limit w = (Inr jobs, w1)" by simp
    note claimed = claim_orders_Inr [OF claim]
    obtain q w2 where q: "eff_each run jobs w1 = (q, w2)" by (metis surj_pair)
    have "w' = w2" using assms claim q by (auto simp: eff_bind_def eff_return_def split: sum.splits)
    moreover have ids: "qo_order_id ` set jobs = set (claim_ids from_status limit (w_db w))"
      using claimed(3) by (metis set_map)
    moreover have "orders_step (set (claim_ids from_status limit (w_db w))) (insert to_status final) (cd_orders (w_db w)) (cd_orders (w_db w1))"
      by (rule orders_step_mono [OF claimed(1)]) simp_all
    moreover have "orders_step (set (claim_ids from_status limit (w_db w))) (insert to_status final) (cd_orders (w_db w1)) (cd_orders (w_db w2))"
      by (rule orders_step_mono [OF each_step [OF q]]) (auto simp: ids)
    ultimately show ?thesis using orders_step_again by blast
  qed
qed

lemma phase_settles:
  assumes "eff_bind (claim_orders e from_status to_status limit) (\<lambda>jobs. eff_bind (eff_each run jobs)
      (\<lambda>_. eff_return (Inr (length jobs)))) w = (Inr n, w')"
  shows "n = length (claim_ids from_status limit (w_db w))"
    and "x \<in> set (cd_orders (w_db w')) \<Longrightarrow> wo_id x \<in> set (claim_ids from_status limit (w_db w)) \<Longrightarrow> wo_order_status x \<in> final"
proof -
  from assms obtain jobs w1 where claim: "claim_orders e from_status to_status limit w = (Inr jobs, w1)"
    and each: "eff_each run jobs w1 = (Inr (), w')" and n: "n = length jobs" by (auto simp: eff_bind_Inr)
  note ids = claim_orders_Inr(3) [OF claim]
  then show "n = length (claim_ids from_status limit (w_db w))" by (metis n length_map)
  show "wo_order_status x \<in> final" if "x \<in> set (cd_orders (w_db w'))" "wo_id x \<in> set (claim_ids from_status limit (w_db w))"
    using each_settles [OF each that(1)] that(2) ids by (metis set_map)
qed

lemma phase_settled_oldest:
  assumes "eff_bind (claim_orders e from_status to_status limit) (\<lambda>jobs. eff_bind (eff_each run jobs)
      (\<lambda>_. eff_return (Inr (length jobs)))) w = (Inr n, w')"
    and "distinct (map wo_id (cd_orders (w_db w)))" "distinct (map wz_id (cd_zones (w_db w)))"
  shows "settled_oldest from_status final limit n (w_db w) (w_db w')"
proof -
  let ?ready = "filter (order_ready from_status (w_db w)) (cd_orders (w_db w))"
  let ?taken = "take limit (sort_key wo_created_at ?ready)"
  note ids = claim_ids_oldest [OF assms(3), of from_status limit]
  have inj: "x = y" if "x \<in> set (cd_orders (w_db w))" "y \<in> set (cd_orders (w_db w))" "wo_id x = wo_id y" for x y
    using assms(2) that by (auto simp: distinct_map inj_on_def)
  have taken: "set ?taken \<subseteq> set ?ready" using set_take_subset [of limit "sort_key wo_created_at ?ready"] by simp
  have "distinct (map wo_id ?taken)" using assms(2) by (rule distinct_map_filter_sort)
  then have card: "card (set (claim_ids from_status limit (w_db w))) = length ?taken"
    unfolding ids by (simp only: distinct_card length_map)
  have oldest: "wo_created_at x \<le> wo_created_at y"
    if "x \<in> set (cd_orders (w_db w))" "y \<in> set ?ready" "wo_id x \<in> wo_id ` set ?taken" "wo_id y \<notin> wo_id ` set ?taken" for x y
  proof (rule take_sort_key_le [of _ limit _ ?ready])
    from that(3) obtain z where "z \<in> set ?taken" "wo_id x = wo_id z" by auto
    moreover from this(1) taken have "z \<in> set (cd_orders (w_db w))" by auto
    ultimately show "x \<in> set ?taken" using inj [OF that(1)] by simp
  qed (use that in auto)
  from phase_step [OF assms(1)] obtain g where g: "cd_orders (w_db w') = map g (cd_orders (w_db w))"
    "moves (set (claim_ids from_status limit (w_db w))) (insert to_status final) g" by (auto simp: orders_step_def)
  have final: "wo_order_status (g x) \<in> final"
    if "x \<in> set (cd_orders (w_db w))" "wo_id x \<in> set (claim_ids from_status limit (w_db w))" for x
    using phase_settles(2) [OF assms(1), of "g x"] that g by (auto simp: moves_def)
  show ?thesis
    unfolding settled_oldest_def
  proof (intro exI [of _ "set (claim_ids from_status limit (w_db w))"] exI [of _ g] conjI ballI impI)
    show "set (claim_ids from_status limit (w_db w)) \<subseteq> wo_id ` {x \<in> set (cd_orders (w_db w)). order_ready from_status (w_db w) x}"
      using taken unfolding ids by auto
    show "card (set (claim_ids from_status limit (w_db w))) = n" "n = min limit (length ?ready)"
      using phase_settles(1) [OF assms(1)] card by (simp_all add: ids min.commute)
  qed (use g final oldest in \<open>auto simp: ids moves_def\<close>)
qed

end

interpretation present_phase: order_phase e "present_job e" "''pending_dns_challenge''" "''dns_challenge_presenting''"
  "{''dns_challenge_presented'', ''dns_challenge_failed''}" for e
  by unfold_locales (erule present_job_step(1), erule (2) present_job_step(3) [OF _ refl], erule (2) present_job_fails)

interpretation issue_phase: order_phase e "issue_job e" "''dns_challenge_presented''" "''issuing''" "{''issued'', ''issue_failed''}" for e
  by unfold_locales (erule issue_job_step(1), erule (2) issue_job_step(2) [OF _ refl], erule (2) issue_job_fails)

subsection \<open>One active renewal per certificate\<close>

definition orders_ok :: "cert_db \<Rightarrow> bool" where
  "orders_ok db \<longleftrightarrow> distinct (map wo_id (cd_orders db)) \<and>
     (\<forall>c. length (filter (active_renewal_for c) (cd_orders db)) \<le> 1)"

lemma filter_map_length: "(\<And>x. x \<in> set xs \<Longrightarrow> P (g x) \<Longrightarrow> P x) \<Longrightarrow> length (filter P (map g xs)) \<le> length (filter P xs)"
  by (induction xs) (auto intro: le_SucI)

lemma orders_ok_step:
  assumes "orders_step S T (cd_orders db) (cd_orders db')" "orders_ok db"
    and "\<And>x. x \<in> set (cd_orders db) \<Longrightarrow> wo_id x \<in> S \<Longrightarrow> is_active_renewal_order_status (wo_order_status x)"
  shows "orders_ok db'"
proof -
  from assms(1) obtain g where g: "cd_orders db' = map g (cd_orders db)" "moves S T g" by (auto simp: orders_step_def)
  have "map wo_id (cd_orders db') = map wo_id (cd_orders db)" using g by (simp add: moves_def)
  moreover have "length (filter (active_renewal_for c) (cd_orders db')) \<le> length (filter (active_renewal_for c) (cd_orders db))" for c
    unfolding g(1)
  proof (rule filter_map_length)
    fix x
    assume x: "x \<in> set (cd_orders db)" "active_renewal_for c (g x)"
    then show "active_renewal_for c x"
      using g(2) assms(3) [OF x(1)] by (cases "wo_id x \<in> S") (auto simp: moves_def active_renewal_for_def)
  qed
  ultimately show ?thesis using assms(2) unfolding orders_ok_def by (metis le_trans)
qed

lemma orders_ok_insert: "orders_ok db \<Longrightarrow> orders_ok (snd (insert_renewal_order x db))"
  if "wo_certificate_id x = Some c"
proof -
  assume ok: "orders_ok db"
  show ?thesis
  proof (cases "fst (insert_renewal_order x db) = 0")
    case True
    then show ?thesis using ok by (auto simp: insert_renewal_order_def split: if_splits)
  next
    case False
    then have new: "wo_id x \<notin> set (map wo_id (cd_orders db))" "filter (active_renewal_for c) (cd_orders db) = []"
      "snd (insert_renewal_order x db) = db\<lparr>cd_orders := cd_orders db @ [x]\<rparr>"
      using that by (auto simp: insert_renewal_order_def list_ex_iff filter_empty_conv split: if_splits)
    moreover have "\<not> active_renewal_for d x" if "d \<noteq> c" for d
      using that \<open>wo_certificate_id x = Some c\<close> by (simp add: active_renewal_for_def)
    ultimately show ?thesis using ok unfolding orders_ok_def by fastforce
  qed
qed

text \<open>
  What queueing adds: renewals of certificates that are given and have no active one; the orders that exist
  stay as they are.
\<close>

definition queued_renewals :: "uuid set \<Rightarrow> cert_db \<Rightarrow> cert_db \<Rightarrow> bool" where
  "queued_renewals certs db db' \<longleftrightarrow>
     (\<exists>new. cd_orders db' = cd_orders db @ new \<and>
        (\<forall>n \<in> set new. wo_order_type n = ''renew'' \<and> wo_order_status n = ''pending_dns_challenge'' \<and>
           (\<exists>c \<in> certs. wo_certificate_id n = Some c \<and> \<not> list_ex (active_renewal_for c) (cd_orders db)))) \<and>
     other_tables db' = other_tables db \<and> (orders_ok db \<longrightarrow> orders_ok db')"

lemma queued_renewals_refl [simp]: "queued_renewals certs db db"
  by (simp add: queued_renewals_def)

lemma queued_renewals_trans:
  assumes "queued_renewals certs db db1" "queued_renewals certs' db1 db'" "certs \<subseteq> C" "certs' \<subseteq> C"
  shows "queued_renewals C db db'"
proof -
  from assms obtain new1 new2 where n: "cd_orders db1 = cd_orders db @ new1" "cd_orders db' = cd_orders db1 @ new2"
    "\<And>n. n \<in> set new1 \<Longrightarrow> wo_order_type n = ''renew'' \<and> wo_order_status n = ''pending_dns_challenge'' \<and>
      (\<exists>c \<in> certs. wo_certificate_id n = Some c \<and> \<not> list_ex (active_renewal_for c) (cd_orders db))"
    "\<And>n. n \<in> set new2 \<Longrightarrow> wo_order_type n = ''renew'' \<and> wo_order_status n = ''pending_dns_challenge'' \<and>
      (\<exists>c \<in> certs'. wo_certificate_id n = Some c \<and> \<not> list_ex (active_renewal_for c) (cd_orders db1))"
    unfolding queued_renewals_def by blast
  then have "\<forall>n \<in> set (new1 @ new2). wo_order_type n = ''renew'' \<and> wo_order_status n = ''pending_dns_challenge'' \<and>
      (\<exists>c \<in> C. wo_certificate_id n = Some c \<and> \<not> list_ex (active_renewal_for c) (cd_orders db))"
    using assms(3,4) by (auto; blast)
  then show ?thesis using assms(1,2) n(1,2) unfolding queued_renewals_def by auto
qed

lemma insert_renewal_queued:
  "queued_renewals {c} db (snd (insert_renewal_order (renewal_order e acme t c zone name sans) db))"
proof -
  have "wo_certificate_id (renewal_order e acme t c zone name sans) = Some c" by (simp add: renewal_order_def)
  from orders_ok_insert [OF this] show ?thesis
    by (auto simp: queued_renewals_def insert_renewal_order_def renewal_order_def other_tables_def)
qed

lemma enqueue_each_queued:
  "enqueue_each e acme zones certs created w = (r, w') \<Longrightarrow> queued_renewals (wc_id ` set certs) (w_db w) (w_db w')"
proof (induction certs arbitrary: created w)
  case (Cons c certs)
  show ?case
  proof (cases "decode_sans (wc_sans c)")
    case (Inl error)
    with Cons.prems show ?thesis by (auto simp: eff_bind_def eff_return_def)
  next
    case (Inr sans)
    show ?thesis
    proof (cases "renewal_zone zones (wc_common_name c)")
      case None
      with Cons Inr have "queued_renewals (wc_id ` set certs) (w_db w) (w_db w')" by simp
      then show ?thesis by (rule queued_renewals_trans [OF queued_renewals_refl [of "{}"]]) auto
    next
      case (Some zone)
      let ?x = "renewal_order e acme (w_clock w) (wc_id c) zone (wc_common_name c) sans"
      obtain n w1 where n: "sql (dv_fails e) (insert_renewal_order ?x) w = (n, w1)" by (metis surj_pair)
      have first: "queued_renewals {wc_id c} (w_db w) (w_db w1)"
        using n insert_renewal_queued [of "wc_id c" "w_db w" e acme "w_clock w" zone "wc_common_name c" sans]
        by (auto simp: sql_def split: option.splits prod.splits)
      show ?thesis
      proof (cases n)
        case (Inl error)
        with Cons.prems Inr Some n have "w' = w1" by (simp add: eff_bind_def eff_return_def eff_clock_def)
        then show ?thesis using queued_renewals_trans [OF first queued_renewals_refl [of "{}"]] by simp
      next
        case (Inr k)
        with Cons.prems \<open>decode_sans (wc_sans c) = Inr sans\<close> Some n have
          "enqueue_each e acme zones certs (if k > 0 then created + 1 else created) w1 = (r, w')"
          by (simp add: eff_bind_def eff_return_def eff_clock_def split: if_splits)
        from queued_renewals_trans [OF first Cons.IH [OF this]] show ?thesis by auto
      qed
    qed
  qed
qed simp

lemma enqueue_queued:
  assumes "enqueue_due_renewal_orders e now before limit acme w = (r, w')"
  shows "queued_renewals (wc_id ` set (take limit (due_certificates (now + before) (w_db w)))) (w_db w) (w_db w')"
proof -
  let ?due = "take limit (due_certificates (now + before) (w_db w))"
  consider "w_db w' = w_db w" | zones w1 where "enqueue_each e acme zones ?due 0 w1 = (r, w')" "w_db w1 = w_db w"
    using assms
    by (auto simp: enqueue_due_renewal_orders_def eff_bind_def sql_query_def sql_def eff_return_def split: option.splits if_splits)
  then show ?thesis
  proof cases
    case 2
    then show ?thesis using enqueue_each_queued by metis
  qed simp
qed

subsection \<open>Rounds\<close>

text \<open>Every phase of a round, however the round ends.\<close>

lemma dns_round_phases:
  assumes "dns_round e settings now w = (r, w')"
  obtains db1 db2 limit certs where "queued_renewals certs (w_db w) db1"
    "orders_step (set (claim_ids ''pending_dns_challenge'' limit db1))
       {''dns_challenge_presenting'', ''dns_challenge_presented'', ''dns_challenge_failed''} (cd_orders db1) (cd_orders db2)"
    "orders_step (set (claim_ids ''dns_challenge_presented'' limit db2))
       {''issuing'', ''issued'', ''issue_failed''} (cd_orders db2) (cd_orders (w_db w'))"
proof -
  let ?limit = "unat (dw_batch_size settings)"
  obtain r1 w1 where e: "enqueue_due_renewal_orders e now (days (max (dw_renew_before_days settings) 1)) ?limit
      (dw_renew_acme_provider settings) w = (r1, w1)" by (metis surj_pair)
  obtain r2 w2 where p: "process_pending_certificate_orders e ?limit w1 = (r2, w2)" by (metis surj_pair)
  obtain r3 w3 where i: "process_presented_certificate_orders e ?limit w2 = (r3, w3)" by (metis surj_pair)
  note q = enqueue_queued [OF e]
  note ps = present_phase.phase_step [OF p [unfolded process_pending_certificate_orders_def claim_pending_dns_orders_def]]
  note iss = issue_phase.phase_step [OF i [unfolded process_presented_certificate_orders_def claim_ready_issuance_orders_def]]
  have "w' = (case r1 of Inl _ \<Rightarrow> w1 | Inr _ \<Rightarrow> case r2 of Inl _ \<Rightarrow> w2 | Inr _ \<Rightarrow> w3)"
    using assms e p i by (auto simp: dns_round_def Let_def eff_bind_def eff_return_def split: sum.splits)
  then consider "w' = w1" | "w' = w2" | "w' = w3" by (cases r1; cases r2) auto
  then show thesis
  proof cases
    case 1
    show ?thesis by (rule that [OF q orders_step_refl]) (simp add: 1)
  next
    case 2
    show ?thesis by (rule that [OF q ps]) (simp add: 2)
  next
    case 3
    show ?thesis by (rule that [OF q ps iss [folded 3]])
  qed
qed

lemma queued_renewals_ok: "queued_renewals certs db db' \<Longrightarrow> orders_ok db \<Longrightarrow> orders_ok db'"
  by (simp add: queued_renewals_def)

lemma claimed_phase_ok:
  assumes "orders_step (set (claim_ids status limit db)) T (cd_orders db) (cd_orders db')" "orders_ok db"
    and "is_active_renewal_order_status status"
  shows "orders_ok db'"
  using orders_ok_step [OF assms(1,2)] claim_ids_status assms(2,3) unfolding orders_ok_def by metis

lemma dns_round_orders_ok:
  assumes "dns_round e settings now w = (r, w')" "orders_ok (w_db w)"
  shows "orders_ok (w_db w')"
proof -
  from assms(1) obtain db1 db2 limit certs where
    q: "queued_renewals certs (w_db w) db1"
    and p: "orders_step (set (claim_ids ''pending_dns_challenge'' limit db1))
       {''dns_challenge_presenting'', ''dns_challenge_presented'', ''dns_challenge_failed''} (cd_orders db1) (cd_orders db2)"
    and i: "orders_step (set (claim_ids ''dns_challenge_presented'' limit db2))
       {''issuing'', ''issued'', ''issue_failed''} (cd_orders db2) (cd_orders (w_db w'))"
    by (rule dns_round_phases)
  have active: "is_active_renewal_order_status ''pending_dns_challenge''" "is_active_renewal_order_status ''dns_challenge_presented''"
    by (simp_all add: is_active_renewal_order_status_def ACTIVE_RENEWAL_ORDER_STATUSES_def)
  from claimed_phase_ok [OF i claimed_phase_ok [OF p queued_renewals_ok [OF q assms(2)] active(1)] active(2)] show ?thesis .
qed

text \<open>A round leaves an order in the state of a claim alone, and queues no renewal beside it.\<close>

lemma stuck_order_kept:
  assumes "dns_round e settings now w = (r, w')" "orders_ok (w_db w)" "x \<in> set (cd_orders (w_db w))"
    and "wo_order_status x \<in> {''dns_challenge_presenting'', ''issuing''}"
  shows "x \<in> set (cd_orders (w_db w')) \<and>
    (\<forall>c. wo_certificate_id x = Some c \<and> wo_order_type x = ''renew'' \<longrightarrow>
       (\<forall>y \<in> set (cd_orders (w_db w')). wo_certificate_id y = Some c \<and> wo_order_type y = ''renew'' \<longrightarrow>
          (\<exists>z \<in> set (cd_orders (w_db w)). wo_id z = wo_id y \<and> wo_certificate_id z = Some c \<and> wo_order_type z = ''renew'')))"
proof -
  from assms(1) obtain db1 db2 limit certs where
    q: "queued_renewals certs (w_db w) db1"
    and p: "orders_step (set (claim_ids ''pending_dns_challenge'' limit db1))
       {''dns_challenge_presenting'', ''dns_challenge_presented'', ''dns_challenge_failed''} (cd_orders db1) (cd_orders db2)"
    and i: "orders_step (set (claim_ids ''dns_challenge_presented'' limit db2))
       {''issuing'', ''issued'', ''issue_failed''} (cd_orders db2) (cd_orders (w_db w'))"
    by (rule dns_round_phases)
  from q obtain new where new: "cd_orders db1 = cd_orders (w_db w) @ new"
    "\<And>n. n \<in> set new \<Longrightarrow> \<exists>c. wo_certificate_id n = Some c \<and> \<not> list_ex (active_renewal_for c) (cd_orders (w_db w))"
    unfolding queued_renewals_def by blast
  from p obtain g where g: "cd_orders db2 = map g (cd_orders db1)"
    "moves (set (claim_ids ''pending_dns_challenge'' limit db1))
       {''dns_challenge_presenting'', ''dns_challenge_presented'', ''dns_challenge_failed''} g" by (auto simp: orders_step_def)
  from i obtain h where h: "cd_orders (w_db w') = map h (cd_orders db2)"
    "moves (set (claim_ids ''dns_challenge_presented'' limit db2)) {''issuing'', ''issued'', ''issue_failed''} h"
    by (auto simp: orders_step_def)
  have d1: "distinct (map wo_id (cd_orders db1))" using queued_renewals_ok [OF q assms(2)] by (simp add: orders_ok_def)
  then have d2: "distinct (map wo_id (cd_orders db2))" using g by (simp add: moves_def comp_def)
  have x1: "x \<in> set (cd_orders db1)" using assms(3) new(1) by simp
  have "g x = x" by (rule moves_other [OF g(2)]) (use claim_ids_status [OF d1 x1, of "''pending_dns_challenge''" limit] assms(4) in force)
  then have x2: "x \<in> set (cd_orders db2)" using g(1) x1 by force
  have "h x = x" by (rule moves_other [OF h(2)]) (use claim_ids_status [OF d2 x2, of "''dns_challenge_presented''" limit] assms(4) in force)
  then have "x \<in> set (cd_orders (w_db w'))" using h(1) x2 by force
  moreover have "\<exists>z \<in> set (cd_orders (w_db w)). wo_id z = wo_id y \<and> wo_certificate_id z = Some c \<and> wo_order_type z = ''renew''"
    if c: "wo_certificate_id x = Some c" "wo_order_type x = ''renew''" and y: "y \<in> set (cd_orders (w_db w'))"
      "wo_certificate_id y = Some c" "wo_order_type y = ''renew''" for c y
  proof -
    from y(1) obtain z where z: "z \<in> set (cd_orders db1)" "y = h (g z)" using g(1) h(1) by auto
    with g(2) h(2) y(2,3) have same: "wo_id y = wo_id z" "wo_certificate_id z = Some c" "wo_order_type z = ''renew''"
      by (auto simp: moves_def)
    have "active_renewal_for c x"
      using c assms(4) by (auto simp: active_renewal_for_def is_active_renewal_order_status_def ACTIVE_RENEWAL_ORDER_STATUSES_def)
    with assms(3) have "list_ex (active_renewal_for c) (cd_orders (w_db w))" by (auto simp: list_ex_iff)
    with new z(1) same show ?thesis by fastforce
  qed
  ultimately show ?thesis by blast
qed

abbreviation dns_rounds :: "(cert_db, 'x) world \<Rightarrow> (cert_db, 'x) world \<Rightarrow> bool" where
  "dns_rounds \<equiv> (\<lambda>w w'. \<exists>e settings now r. dns_round e settings now w = (r, w'))\<^sup>*\<^sup>*"

lemma stuck_order_stays:
  assumes "dns_rounds w w'" "orders_ok (w_db w)" "x \<in> set (cd_orders (w_db w))"
    and "wo_order_status x \<in> {''dns_challenge_presenting'', ''issuing''}"
  shows "orders_ok (w_db w') \<and> x \<in> set (cd_orders (w_db w')) \<and>
    (\<forall>c. wo_certificate_id x = Some c \<and> wo_order_type x = ''renew'' \<longrightarrow>
       (\<forall>y \<in> set (cd_orders (w_db w')). wo_certificate_id y = Some c \<and> wo_order_type y = ''renew'' \<longrightarrow>
          (\<exists>z \<in> set (cd_orders (w_db w)). wo_id z = wo_id y \<and> wo_certificate_id z = Some c \<and> wo_order_type z = ''renew'')))"
  using assms(1)
proof (induction rule: rtranclp_induct)
  case base
  with assms show ?case by auto
next
  case (step v w')
  then obtain e settings now r where run: "dns_round e settings now v = (r, w')" by blast
  have v: "orders_ok (w_db v)" "x \<in> set (cd_orders (w_db v))" using step.IH by simp_all
  from stuck_order_kept [OF run v assms(4)] dns_round_orders_ok [OF run v(1)] step.IH show ?case by metis
qed

lemma failed_phase_ok:
  assumes "process_pending_certificate_orders e limit w = (r, w') \<or> process_presented_certificate_orders e limit w = (r, w')"
    and "orders_ok (w_db w)"
  shows "orders_ok (w_db w')"
proof -
  have active: "is_active_renewal_order_status ''pending_dns_challenge''" "is_active_renewal_order_status ''dns_challenge_presented''"
    by (simp_all add: is_active_renewal_order_status_def ACTIVE_RENEWAL_ORDER_STATUSES_def)
  from assms(1) show ?thesis
    using claimed_phase_ok [OF present_phase.phase_step assms(2) active(1)] claimed_phase_ok [OF issue_phase.phase_step assms(2) active(2)]
    by (auto simp: process_pending_certificate_orders_def claim_pending_dns_orders_def
        process_presented_certificate_orders_def claim_ready_issuance_orders_def)
qed

text \<open>
  C21: A failing statement leaves an order half-way, and no worker takes it up again. When a phase of a round ends
  with an error, either the claim failed and nothing has changed, or an order that was waiting for the phase
  is left in the state of the claim, \<open>dns_challenge_presenting\<close> or \<open>issuing\<close>. Any further rounds of
  the worker leave that order as it is, and if it is a renewal, they queue no other renewal of its certificate. (It takes an administrator,
  who resets the order in the hub, to have it processed.)
\<close>

theorem stranded_order_stays:
  assumes "process_pending_certificate_orders e limit w = (Inl error, w1) \<or> process_presented_certificate_orders e limit w = (Inl error, w1)"
    and "orders_ok (w_db w)" "distinct (map wz_id (cd_zones (w_db w)))"
  shows "w_db w1 = w_db w \<or>
    (\<exists>x \<in> set (cd_orders (w_db w)). \<exists>y \<in> set (cd_orders (w_db w1)). wo_id y = wo_id x \<and>
       (wo_order_status x = ''pending_dns_challenge'' \<and> wo_order_status y = ''dns_challenge_presenting'' \<or>
        wo_order_status x = ''dns_challenge_presented'' \<and> wo_order_status y = ''issuing'') \<and>
       (\<forall>w2. dns_rounds w1 w2 \<longrightarrow> y \<in> set (cd_orders (w_db w2)) \<and>
          (\<forall>c. wo_certificate_id y = Some c \<and> wo_order_type y = ''renew'' \<longrightarrow>
             (\<forall>z \<in> set (cd_orders (w_db w2)). wo_certificate_id z = Some c \<and> wo_order_type z = ''renew'' \<longrightarrow>
                wo_id z \<in> wo_id ` set (cd_orders (w_db w1))))))"
proof (rule disjCI)
  assume changed: "\<not> (\<exists>x \<in> set (cd_orders (w_db w)). \<exists>y \<in> set (cd_orders (w_db w1)). wo_id y = wo_id x \<and>
       (wo_order_status x = ''pending_dns_challenge'' \<and> wo_order_status y = ''dns_challenge_presenting'' \<or>
        wo_order_status x = ''dns_challenge_presented'' \<and> wo_order_status y = ''issuing'') \<and>
       (\<forall>w2. dns_rounds w1 w2 \<longrightarrow> y \<in> set (cd_orders (w_db w2)) \<and>
          (\<forall>c. wo_certificate_id y = Some c \<and> wo_order_type y = ''renew'' \<longrightarrow>
             (\<forall>z \<in> set (cd_orders (w_db w2)). wo_certificate_id z = Some c \<and> wo_order_type z = ''renew'' \<longrightarrow>
                wo_id z \<in> wo_id ` set (cd_orders (w_db w1))))))"
  have ids: "distinct (map wo_id (cd_orders (w_db w)))" using assms(2) by (simp add: orders_ok_def)
  have stays: "\<forall>w2. dns_rounds w1 w2 \<longrightarrow> y \<in> set (cd_orders (w_db w2)) \<and>
      (\<forall>c. wo_certificate_id y = Some c \<and> wo_order_type y = ''renew'' \<longrightarrow>
         (\<forall>z \<in> set (cd_orders (w_db w2)). wo_certificate_id z = Some c \<and> wo_order_type z = ''renew'' \<longrightarrow>
            wo_id z \<in> wo_id ` set (cd_orders (w_db w1))))"
    if "y \<in> set (cd_orders (w_db w1))" "wo_order_status y \<in> {''dns_challenge_presenting'', ''issuing''}" for y
  proof (intro allI impI)
    fix w2 assume later: "dns_rounds w1 w2"
    note kept = stuck_order_stays [OF later failed_phase_ok [OF assms(1,2)] that]
    have "wo_id z \<in> wo_id ` set (cd_orders (w_db w1))"
      if "wo_certificate_id y = Some c \<and> wo_order_type y = ''renew''" "z \<in> set (cd_orders (w_db w2))"
        "wo_certificate_id z = Some c \<and> wo_order_type z = ''renew''" for c z
    proof -
      from kept that obtain z' where "z' \<in> set (cd_orders (w_db w1))" "wo_id z' = wo_id z" by blast
      then show ?thesis by (metis imageI)
    qed
    with kept show "y \<in> set (cd_orders (w_db w2)) \<and>
      (\<forall>c. wo_certificate_id y = Some c \<and> wo_order_type y = ''renew'' \<longrightarrow>
         (\<forall>z \<in> set (cd_orders (w_db w2)). wo_certificate_id z = Some c \<and> wo_order_type z = ''renew'' \<longrightarrow>
            wo_id z \<in> wo_id ` set (cd_orders (w_db w1))))" by simp
  qed
  have left: "w_db w1 = w_db w \<or> (\<exists>x \<in> set (cd_orders (w_db w)). \<exists>y \<in> set (cd_orders (w_db w1)). wo_id y = wo_id x \<and>
      (wo_order_status x = ''pending_dns_challenge'' \<and> wo_order_status y = ''dns_challenge_presenting'' \<or>
       wo_order_status x = ''dns_challenge_presented'' \<and> wo_order_status y = ''issuing''))"
    using assms(1) present_phase.phase_breaks_off [OF _ ids assms(3)] issue_phase.phase_breaks_off [OF _ ids assms(3)]
    unfolding process_pending_certificate_orders_def claim_pending_dns_orders_def
      process_presented_certificate_orders_def claim_ready_issuance_orders_def by blast
  show "w_db w1 = w_db w"
  proof (rule ccontr)
    assume "w_db w1 \<noteq> w_db w"
    with left obtain x y where xy: "x \<in> set (cd_orders (w_db w))" "y \<in> set (cd_orders (w_db w1))" "wo_id y = wo_id x"
      "wo_order_status x = ''pending_dns_challenge'' \<and> wo_order_status y = ''dns_challenge_presenting'' \<or>
       wo_order_status x = ''dns_challenge_presented'' \<and> wo_order_status y = ''issuing''" by blast
    have "wo_order_status y \<in> {''dns_challenge_presenting'', ''issuing''}" using xy(4) by auto
    from stays [OF xy(2) this] changed xy show False by blast
  qed
qed

lemma present_each_tables:
  "eff_each (present_job e) jobs w = (r, w') \<Longrightarrow> other_tables (w_db w') = other_tables (w_db w)"
proof (induction jobs arbitrary: w)
  case (Cons job jobs)
  obtain r1 w1 where run: "present_job e job w = (r1, w1)" by (metis surj_pair)
  from present_job_step(2) [OF run] Cons run show ?case by (cases r1) (auto simp: eff_bind_def)
qed simp

lemma presented_tables:
  assumes "process_pending_certificate_orders e limit w = (Inr n, w')"
  shows "other_tables (w_db w') = other_tables (w_db w)"
proof -
  from assms obtain jobs w1 where claim: "claim_orders e ''pending_dns_challenge'' ''dns_challenge_presenting'' limit w = (Inr jobs, w1)"
    and each: "eff_each (present_job e) jobs w1 = (Inr (), w')"
    by (auto simp: process_pending_certificate_orders_def claim_pending_dns_orders_def eff_bind_Inr)
  from claim_orders_Inr(2) [OF claim] present_each_tables [OF each] show ?thesis by simp
qed

text \<open>
  C24: Claimed orders are settled, the oldest first. An order is ready for a phase when it is in the state the phase takes up, its challenge is
  \<open>dns-01\<close>, and its zone, the provider of the zone and its certificate exist. When the two phases of a round succeed, the first
  has worked on the oldest orders that wait for their challenge and are ready, as many as there are up to the limit, and
  each of them is presented or has failed; the second on the oldest presented orders that are ready,
  and each of them is issued or has failed. All other orders stay as they are. The tables have unique identifiers.
\<close>

theorem claimed_orders_settled:
  assumes "process_pending_certificate_orders e limit w = (Inr n, w1)"
    and "process_presented_certificate_orders e limit w1 = (Inr m, w')"
    and "distinct (map wo_id (cd_orders (w_db w)))" "distinct (map wz_id (cd_zones (w_db w)))"
  shows "settled_oldest ''pending_dns_challenge'' {''dns_challenge_presented'', ''dns_challenge_failed''} limit n (w_db w) (w_db w1) \<and>
    settled_oldest ''dns_challenge_presented'' {''issued'', ''issue_failed''} limit m (w_db w1) (w_db w')"
proof
  note p = assms(1) [unfolded process_pending_certificate_orders_def claim_pending_dns_orders_def]
  note i = assms(2) [unfolded process_presented_certificate_orders_def claim_ready_issuance_orders_def]
  show "settled_oldest ''pending_dns_challenge'' {''dns_challenge_presented'', ''dns_challenge_failed''} limit n (w_db w) (w_db w1)"
    by (rule present_phase.phase_settled_oldest [OF p assms(3,4)])
  have "map wo_id (cd_orders (w_db w1)) = map wo_id (cd_orders (w_db w))"
    using present_phase.phase_step [OF p] by (auto simp: orders_step_def moves_def)
  moreover have "cd_zones (w_db w1) = cd_zones (w_db w)" using presented_tables [OF assms(1)] by (simp add: other_tables_def)
  ultimately show "settled_oldest ''dns_challenge_presented'' {''issued'', ''issue_failed''} limit m (w_db w1) (w_db w')"
    using issue_phase.phase_settled_oldest [OF i] assms(3,4) by simp
qed

subsection \<open>Due certificates\<close>

text \<open>
  The specification of a round of renewals. A certificate is due when it is active, expires by the
  threshold and has no order that renews it in one of the four states of an order in progress. A name lies in a zone
  when, without a wildcard and a final dot and in lower case, it is the name of the zone or ends with it after a dot.
\<close>

definition renewal_due :: "datetime \<Rightarrow> cert_db \<Rightarrow> certificate_row \<Rightarrow> bool" where
  "renewal_due threshold db c \<longleftrightarrow> wc_status c = ''active'' \<and> (\<exists>t. wc_not_after c = Some t \<and> t \<le> threshold) \<and>
     (\<forall>x \<in> set (cd_orders db). wo_certificate_id x = Some (wc_id c) \<and> wo_order_type x = ''renew'' \<longrightarrow>
        wo_order_status x \<notin> {''pending_dns_challenge'', ''dns_challenge_presenting'', ''dns_challenge_presented'', ''issuing''})"

definition lies_in_zone :: "string \<Rightarrow> dns_zone_row \<Rightarrow> bool" where
  "lies_in_zone name zone \<longleftrightarrow>
     (\<exists>prefix. prefix \<in> {[]} \<union> range (\<lambda>p. p @ ''.'') \<and>
        to_ascii_lowercase (trim_end_matches (CHR ''.'') (unwrap_or name (strip_prefix ''*.'' name))) =
        prefix @ to_ascii_lowercase (trim_end_matches (CHR ''.'') (trim (wz_zone_name zone))))"

abbreviation active_zones_for :: "cert_db \<Rightarrow> string \<Rightarrow> dns_zone_row set" where
  "active_zones_for db name \<equiv> {zone \<in> set (cd_zones db). wz_status zone = ''active'' \<and> lies_in_zone name zone}"

text \<open>The order that renews a certificate: everything the phases of a round and the client of the authority read of it.\<close>

definition renews :: "string \<Rightarrow> cert_db \<Rightarrow> certificate_row \<Rightarrow> cert_order_row \<Rightarrow> bool" where
  "renews acme_provider db c x \<longleftrightarrow>
     wo_certificate_id x = Some (wc_id c) \<and> wo_order_type x = ''renew'' \<and> wo_order_status x = ''pending_dns_challenge'' \<and>
     wo_challenge_type x = ''dns-01'' \<and> wo_acme_provider x = acme_provider \<and> wo_site_id x = None \<and> wo_error_message x = None \<and>
     (\<exists>zone \<in> active_zones_for db (wc_common_name c). wo_zone_id x = Some (wz_id zone) \<and>
        (\<forall>other \<in> active_zones_for db (wc_common_name c). length (wz_zone_name other) \<le> length (wz_zone_name zone)) \<and>
        json_get (wo_challenge_payload x) ''zone_name'' = Some (JString (wz_zone_name zone))) \<and>
     json_get (wo_challenge_payload x) ''identifier'' = Some (JString (wc_common_name c)) \<and>
     json_get (wo_challenge_payload x) ''record_type'' = Some (JString ''TXT'') \<and>
     json_get (wo_challenge_payload x) ''record_name'' =
       Some (JString (''_acme-challenge.'' @ unwrap_or (wc_common_name c) (strip_prefix ''*.'' (wc_common_name c))))"

lemma worker_matches_zone_iff: "worker_matches_zone name (wz_zone_name zone) \<longleftrightarrow> lies_in_zone name zone"
  by (auto simp: worker_matches_zone_def lies_in_zone_def worker_dns_domain_def Let_def ends_with_def suffix_def)

lemma renewal_due_iff:
  "renewal_due threshold db c \<longleftrightarrow> wc_status c = ''active'' \<and>
     (case wc_not_after c of None \<Rightarrow> False | Some not_after \<Rightarrow> not_after \<le> threshold) \<and>
     \<not> list_ex (active_renewal_for (wc_id c)) (cd_orders db)"
  by (auto simp: renewal_due_def list_ex_iff active_renewal_for_def is_active_renewal_order_status_def
      ACTIVE_RENEWAL_ORDER_STATUSES_def split: option.splits)

lemma due_certificates_sorted:
  "due_certificates threshold db = sort_key (\<lambda>c. the (wc_not_after c)) (filter (renewal_due threshold db) (cd_certificates db))"
  unfolding due_certificates_def renewal_due_iff ..

lemma renewal_zone_Some:
  assumes "renewal_zone (filter (\<lambda>z. wz_status z = ''active'') (cd_zones db)) name = Some zone"
  shows "zone \<in> active_zones_for db name" and "other \<in> active_zones_for db name \<Longrightarrow> length (wz_zone_name other) \<le> length (wz_zone_name zone)"
  using max_by_key_in [OF assms [unfolded renewal_zone_def]] max_by_key_greatest [OF assms [unfolded renewal_zone_def], of other]
  by (auto simp: worker_matches_zone_iff)

lemma renewal_zone_exists:
  "renewal_zone (filter (\<lambda>z. wz_status z = ''active'') (cd_zones db)) name \<noteq> None \<longleftrightarrow> active_zones_for db name \<noteq> {}"
  by (auto simp: renewal_zone_def filter_empty_conv worker_matches_zone_iff)

text \<open>One order per certificate with a zone.\<close>

definition queued_for :: "'x dns_env \<Rightarrow> string \<Rightarrow> dns_zone_row list \<Rightarrow> certificate_row \<Rightarrow> cert_order_row \<Rightarrow> bool" where
  "queued_for e acme zones c x \<longleftrightarrow>
     (\<exists>t zone sans. renewal_zone zones (wc_common_name c) = Some zone \<and> x = renewal_order e acme t (wc_id c) zone (wc_common_name c) sans)"

lemma queued_for_renews:
  assumes "queued_for e acme (filter (\<lambda>z. wz_status z = ''active'') (cd_zones db)) c x"
  shows "renews acme db c x"
proof -
  from assms obtain t zone sans where zone: "renewal_zone (filter (\<lambda>z. wz_status z = ''active'') (cd_zones db)) (wc_common_name c) = Some zone"
    and x: "x = renewal_order e acme t (wc_id c) zone (wc_common_name c) sans" by (auto simp: queued_for_def)
  from renewal_zone_Some [OF zone] have "\<exists>zone \<in> active_zones_for db (wc_common_name c). wo_zone_id x = Some (wz_id zone) \<and>
        (\<forall>other \<in> active_zones_for db (wc_common_name c). length (wz_zone_name other) \<le> length (wz_zone_name zone)) \<and>
        json_get (wo_challenge_payload x) ''zone_name'' = Some (JString (wz_zone_name zone))"
    by (intro bexI [of _ zone]) (auto simp: x renewal_order_def renewal_payload_def jobj_def)
  then show ?thesis
    unfolding renews_def by (simp add: x renewal_order_def renewal_payload_def jobj_def worker_record_name_def worker_dns_domain_def)
qed

lemma list_all2_rightD: "list_all2 P xs ys \<Longrightarrow> y \<in> set ys \<Longrightarrow> \<exists>x \<in> set xs. P x y"
  by (induction rule: list_all2_induct) auto

lemma renews_ready:
  assumes "renews acme db c x" "c \<in> set (cd_certificates db)"
    and "\<forall>zone \<in> set (cd_zones db). wz_provider_id zone \<in> wp_id ` set (cd_providers db)"
    and "other_tables db' = other_tables db"
  shows "order_ready ''pending_dns_challenge'' db' x"
  using assms by (auto simp: renews_def order_ready_def other_tables_def)

lemma enqueue_each_Inr:
  assumes "enqueue_each e acme zones certs created w = (Inr n, w')"
    and "inj_on (dv_uuid e) {w_clock w..<w_clock w + length certs}"
    and "\<And>t. t \<in> {w_clock w..<w_clock w + length certs} \<Longrightarrow> dv_uuid e t \<notin> wo_id ` set (cd_orders (w_db w))"
    and "distinct (map wc_id certs)" "\<And>c. c \<in> set certs \<Longrightarrow> \<not> list_ex (active_renewal_for (wc_id c)) (cd_orders (w_db w))"
  shows "\<exists>new. cd_orders (w_db w') = cd_orders (w_db w) @ new \<and> n = created + length new \<and>
    list_all2 (queued_for e acme zones) (filter (\<lambda>c. renewal_zone zones (wc_common_name c) \<noteq> None) certs) new"
  using assms
proof (induction certs arbitrary: created w)
  case (Cons c certs)
  from Cons.prems(1) obtain sans where sans: "decode_sans (wc_sans c) = Inr sans" by (auto simp: eff_bind_Inr)
  show ?case
  proof (cases "renewal_zone zones (wc_common_name c)")
    case None
    with Cons.prems sans Cons.IH [of created w] show ?thesis by (simp add: inj_on_subset [OF Cons.prems(2)])
  next
    case (Some zone)
    let ?x = "renewal_order e acme (w_clock w) (wc_id c) zone (wc_common_name c) sans"
    let ?w1 = "w\<lparr>w_db := (w_db w)\<lparr>cd_orders := cd_orders (w_db w) @ [?x]\<rparr>, w_clock := Suc (w_clock w)\<rparr>"
    have x: "wo_id ?x = dv_uuid e (w_clock w)" "wo_certificate_id ?x = Some (wc_id c)" by (simp_all add: renewal_order_def)
    have fresh: "\<not> list_ex (\<lambda>o'. wo_id o' = wo_id ?x) (cd_orders (w_db w))"
      using Cons.prems(3) [of "w_clock w"] by (force simp: x list_ex_iff)
    have "\<not> list_ex (active_renewal_for (wc_id c)) (cd_orders (w_db w))" using Cons.prems(5) by simp
    with fresh have ins: "insert_renewal_order ?x (w_db w) = (1, (w_db w)\<lparr>cd_orders := cd_orders (w_db w) @ [?x]\<rparr>)"
      by (simp add: insert_renewal_order_def x)
    from Cons.prems(1) sans Some ins have rest: "enqueue_each e acme zones certs (created + 1) ?w1 = (Inr n, w')"
      by (auto simp: eff_bind_Inr sql_Inr)
    have "dv_uuid e t \<notin> wo_id ` set (cd_orders (w_db ?w1))" if "t \<in> {w_clock ?w1..<w_clock ?w1 + length certs}" for t
      using that Cons.prems(3) [of t] inj_onD [OF Cons.prems(2), of t "w_clock w"] by (auto simp: x)
    moreover have "inj_on (dv_uuid e) {w_clock ?w1..<w_clock ?w1 + length certs}"
      by (rule inj_on_subset [OF Cons.prems(2)]) auto
    moreover have "\<not> list_ex (active_renewal_for (wc_id d)) (cd_orders (w_db ?w1))" if "d \<in> set certs" for d
    proof -
      have "wc_id d \<noteq> wc_id c" using that Cons.prems(4) by (simp add: image_iff) metis
      then have "\<not> active_renewal_for (wc_id d) ?x" by (simp add: active_renewal_for_def x)
      with Cons.prems(5) [of d] that show ?thesis by simp
    qed
    ultimately obtain new where new: "cd_orders (w_db w') = cd_orders (w_db ?w1) @ new" "n = created + 1 + length new"
      "list_all2 (queued_for e acme zones) (filter (\<lambda>c. renewal_zone zones (wc_common_name c) \<noteq> None) certs) new"
      using Cons.IH [OF rest] Cons.prems(4) by auto
    have "queued_for e acme zones c ?x" unfolding queued_for_def using Some by blast
    with new Some show ?thesis by (intro exI [of _ "?x # new"]) simp
  qed
qed simp

lemma due_taken:
  fixes db :: cert_db and threshold :: datetime and limit :: nat
  defines "due \<equiv> filter (renewal_due threshold db) (cd_certificates db)"
    and "taken \<equiv> take limit (due_certificates threshold db)"
  assumes "distinct (map wc_id (cd_certificates db))"
  shows "distinct (map wc_id taken)" "set taken \<subseteq> set due" "length taken = min limit (length due)"
    "sorted (map (\<lambda>c. the (wc_not_after c)) taken)"
    "c \<in> set taken \<Longrightarrow> d \<in> set due \<Longrightarrow> d \<notin> set taken \<Longrightarrow> the (wc_not_after c) \<le> the (wc_not_after d)"
proof -
  show "distinct (map wc_id taken)" unfolding taken_def due_certificates_sorted by (rule distinct_map_filter_sort [OF assms(3)])
  show "set taken \<subseteq> set due" unfolding taken_def due_certificates_sorted due_def by (metis set_sort set_take_subset)
  show "length taken = min limit (length due)" unfolding taken_def due_certificates_sorted due_def by simp
  show "sorted (map (\<lambda>c. the (wc_not_after c)) taken)"
    unfolding taken_def due_certificates_sorted take_map [symmetric] by (rule sorted_wrt_take) simp
  show "the (wc_not_after c) \<le> the (wc_not_after d)" if "c \<in> set taken" "d \<in> set due" "d \<notin> set taken"
    using take_sort_key_le that unfolding taken_def due_certificates_sorted due_def by metis
qed

lemma enqueue_renews:
  assumes "enqueue_due_renewal_orders e now before limit acme w = (Inr n, w')"
    and "inj_on (dv_uuid e) {w_clock w..<w_clock w + limit + 2}"
    and "\<forall>t \<in> {w_clock w..<w_clock w + limit + 2}. dv_uuid e t \<notin> wo_id ` set (cd_orders (w_db w))"
    and "distinct (map wc_id (cd_certificates (w_db w)))"
  shows "\<exists>new. cd_orders (w_db w') = cd_orders (w_db w) @ new \<and> n = length new \<and>
    list_all2 (renews acme (w_db w)) (filter (\<lambda>c. active_zones_for (w_db w) (wc_common_name c) \<noteq> {})
      (take limit (due_certificates (now + before) (w_db w)))) new"
proof (cases "take limit (due_certificates (now + before) (w_db w)) = []")
  case True
  with assms(1) have "n = 0" "w_db w' = w_db w"
    by (auto simp: enqueue_due_renewal_orders_def eff_bind_Inr sql_query_Inr split: if_splits)
  then show ?thesis unfolding True by simp
next
  case False
  let ?w1 = "w\<lparr>w_clock := Suc (Suc (w_clock w))\<rparr>"
  from False assms(1) have each: "enqueue_each e acme (filter (\<lambda>z. wz_status z = ''active'') (cd_zones (w_db w)))
      (take limit (due_certificates (now + before) (w_db w))) 0 ?w1 = (Inr n, w')"
    by (auto simp: enqueue_due_renewal_orders_def eff_bind_Inr sql_query_Inr)
  have sub: "{w_clock ?w1..<w_clock ?w1 + length (take limit (due_certificates (now + before) (w_db w)))} \<subseteq>
      {w_clock w..<w_clock w + limit + 2}" by auto
  note inj = inj_on_subset [OF assms(2) sub]
  have fresh: "dv_uuid e t \<notin> wo_id ` set (cd_orders (w_db ?w1))"
    if "t \<in> {w_clock ?w1..<w_clock ?w1 + length (take limit (due_certificates (now + before) (w_db w)))}" for t
    using bspec [OF assms(3) subsetD [OF sub that]] by simp
  have due: "\<not> list_ex (active_renewal_for (wc_id c)) (cd_orders (w_db ?w1))"
    if "c \<in> set (take limit (due_certificates (now + before) (w_db w)))" for c
    using in_set_takeD [OF that] by (simp add: due_certificates_def)
  from enqueue_each_Inr [OF each inj fresh due_taken(1) [OF assms(4)] due] obtain new where
    "cd_orders (w_db w') = cd_orders (w_db w) @ new" "n = length new"
    "list_all2 (queued_for e acme (filter (\<lambda>z. wz_status z = ''active'') (cd_zones (w_db w))))
       (filter (\<lambda>c. active_zones_for (w_db w) (wc_common_name c) \<noteq> {}) (take limit (due_certificates (now + before) (w_db w)))) new"
    unfolding renewal_zone_exists by auto
  moreover from this(3) have "list_all2 (renews acme (w_db w))
      (filter (\<lambda>c. active_zones_for (w_db w) (wc_common_name c) \<noteq> {}) (take limit (due_certificates (now + before) (w_db w)))) new"
    by (rule list_all2_mono) (rule queued_for_renews)
  ultimately show ?thesis by blast
qed

text \<open>
  C25: which renewals a round queues. Of the active certificates that expire within the renewal period and have no
  renewal in progress, the worker takes the ones that expire first, up to its limit, and queues one renewal
  for each whose name lies in an active zone, in this order; the result is their number and no other table
  changes. The order renews that certificate, waits for the \<open>dns-01\<close> challenge of its name at the configured
  authority, and lies in the active zone with the longest name of those that fit; when the providers of all
  zones exist, it is ready for the phase that presents challenges. A due certificate behind the limit is
  not queued, also when those in front of it have no zone.
\<close>

theorem due_certificates_queued:
  assumes "enqueue_due_renewal_orders e now before limit acme w = (Inr n, w')"
    and "inj_on (dv_uuid e) {w_clock w..<w_clock w + limit + 2}"
    and "\<forall>t \<in> {w_clock w..<w_clock w + limit + 2}. dv_uuid e t \<notin> wo_id ` set (cd_orders (w_db w))"
    and "distinct (map wc_id (cd_certificates (w_db w)))"
  shows "\<exists>taken new. distinct (map wc_id taken) \<and>
    set taken \<subseteq> {c \<in> set (cd_certificates (w_db w)). renewal_due (now + before) (w_db w) c} \<and>
    length taken = min limit (length (filter (renewal_due (now + before) (w_db w)) (cd_certificates (w_db w)))) \<and>
    sorted (map (\<lambda>c. the (wc_not_after c)) taken) \<and>
    (\<forall>c \<in> set taken. \<forall>d \<in> set (cd_certificates (w_db w)).
       renewal_due (now + before) (w_db w) d \<and> d \<notin> set taken \<longrightarrow> the (wc_not_after c) \<le> the (wc_not_after d)) \<and>
    cd_orders (w_db w') = cd_orders (w_db w) @ new \<and> n = length new \<and>
    list_all2 (renews acme (w_db w)) (filter (\<lambda>c. active_zones_for (w_db w) (wc_common_name c) \<noteq> {}) taken) new \<and>
    other_tables (w_db w') = other_tables (w_db w) \<and>
    ((\<forall>zone \<in> set (cd_zones (w_db w)). wz_provider_id zone \<in> wp_id ` set (cd_providers (w_db w))) \<longrightarrow>
       (\<forall>x \<in> set new. order_ready ''pending_dns_challenge'' (w_db w') x))"
proof -
  let ?taken = "take limit (due_certificates (now + before) (w_db w))"
  from enqueue_renews [OF assms] obtain new where new: "cd_orders (w_db w') = cd_orders (w_db w) @ new" "n = length new"
    "list_all2 (renews acme (w_db w)) (filter (\<lambda>c. active_zones_for (w_db w) (wc_common_name c) \<noteq> {}) ?taken) new" by blast
  have tables: "other_tables (w_db w') = other_tables (w_db w)" using enqueue_queued [OF assms(1)] by (simp add: queued_renewals_def)
  note taken = due_taken [OF assms(4), where limit = limit and threshold = "now + before"]
  have "order_ready ''pending_dns_challenge'' (w_db w') x"
    if providers: "\<forall>zone \<in> set (cd_zones (w_db w)). wz_provider_id zone \<in> wp_id ` set (cd_providers (w_db w))" and x: "x \<in> set new" for x
  proof -
    obtain c where c: "c \<in> set ?taken" "renews acme (w_db w) c x"
      using list_all2_rightD [OF new(3) x] by auto
    from c(1) taken(2) have "c \<in> set (cd_certificates (w_db w))" by auto
    from renews_ready [OF c(2) this providers tables] show ?thesis .
  qed
  moreover have "set ?taken \<subseteq> {c \<in> set (cd_certificates (w_db w)). renewal_due (now + before) (w_db w) c}" using taken(2) by simp
  moreover have "\<forall>c \<in> set ?taken. \<forall>d \<in> set (cd_certificates (w_db w)).
       renewal_due (now + before) (w_db w) d \<and> d \<notin> set ?taken \<longrightarrow> the (wc_not_after c) \<le> the (wc_not_after d)"
    using taken(5) by simp
  ultimately show ?thesis using new tables taken(1,3,4) by blast
qed

subsection \<open>Examples\<close>

definition sample_mock :: "record_table mock_env" where
  "sample_mock = \<lparr>me_uuid = (\<lambda>x. (7, x)), me_now = (\<lambda>x. (0, x)), me_display_uuid = (\<lambda>i. ''u''), me_rfc3339 = (\<lambda>t. ''t''),
     me_base64 = (\<lambda>s. ''b''), me_sha256_hex = (\<lambda>s. ''h'')\<rparr>"

definition sample_dns_env :: "record_table dns_env" where
  "sample_dns_env = \<lparr>dv_fails = (\<lambda>k. None), dv_uuid = (\<lambda>k. of_nat (100 + k)), dv_token = (\<lambda>k. 9), dv_now = (\<lambda>k. 0),
     dv_display_uuid = (\<lambda>i. ''u''), dv_json_parse = (\<lambda>s. Inr JNull), dv_api = table_api, dv_acme = mock_acme_client sample_mock\<rparr>"

definition sample_certificate :: certificate_row where
  "sample_certificate = \<lparr>wc_id = 20, wc_common_name = ''shop.example.com'', wc_sans = JArray [], wc_issuer = None,
     wc_not_before = None, wc_not_after = Some 5, wc_fingerprint_sha256 = ''f'', wc_status = ''active'', wc_updated_at = 0\<rparr>"

definition sample_cert_order :: "string \<Rightarrow> cert_order_row" where
  "sample_cert_order status = \<lparr>wo_id = 1, wo_site_id = None, wo_certificate_id = Some 20, wo_zone_id = Some 30,
     wo_order_type = ''renew'', wo_acme_provider = ''mock'', wo_challenge_type = ''dns-01'', wo_challenge_payload = JNull,
     wo_order_status = status, wo_error_message = None, wo_created_at = 0, wo_updated_at = 0\<rparr>"

definition sample_cert_world :: "cert_order_row list \<Rightarrow> (cert_db, record_table) world" where
  "sample_cert_world orders =
     \<lparr>w_db = \<lparr>cd_orders = orders, cd_certificates = [sample_certificate], cd_versions = [],
        cd_bindings = [\<lparr>wb_id = 40, wb_site_id = 50, wb_certificate_id = 20, wb_version = 0, wb_is_default = True, wb_created_at = 0\<rparr>],
        cd_zones = [\<lparr>wz_id = 30, wz_provider_id = 31, wz_zone_name = ''example.com'', wz_external_zone_id = ''z'', wz_status = ''active''\<rparr>],
        cd_providers = [\<lparr>wp_id = 31, wp_provider_type = ''noop'', wp_api_endpoint = None, wp_credential_encrypted = []\<rparr>]\<rparr>,
      w_ext = [], w_clock = 0\<rparr>"

definition sample_persist_request :: persist_issued_certificate_request where
  "sample_persist_request = \<lparr>pq_order_id = 1, pq_site_id = None, pq_certificate_id = 20, pq_order_type = ''renew'',
     pq_warning_message = None, pq_material = \<lparr>im_issuer = ''i'', im_not_before = 0, im_not_after = 9, im_cert_pem = ''c'',
       im_key_pem_encrypted = ''k'', im_chain_pem = None, im_fingerprint_sha256 = ''g''\<rparr>\<rparr>"

theorem persist_issued_certificate_spec_witness:
  "\<exists>w' b. persist_issued_certificate sample_dns_env sample_persist_request (sample_cert_world [sample_cert_order ''issuing'']) = (Inr (), w') \<and>
     filter (\<lambda>b. wb_site_id b = 50 \<and> wb_is_default b) (cd_bindings (w_db w')) = [b] \<and> wb_certificate_id b = 20"
proof -
  let ?w = "sample_cert_world [sample_cert_order ''issuing'']"
  have "case fst (persist_issued_certificate sample_dns_env sample_persist_request ?w) of Inl _ \<Rightarrow> False | Inr _ \<Rightarrow> True" by code_simp
  then obtain w' where run: "persist_issued_certificate sample_dns_env sample_persist_request ?w = (Inr (), w')"
    by (cases "persist_issued_certificate sample_dns_env sample_persist_request ?w") (auto split: sum.splits)
  have "issued_targets sample_persist_request (w_db ?w) = [50]" by code_simp
  with persist_issued_certificate_spec [OF run] run show ?thesis by (auto simp: sample_persist_request_def)
qed

text \<open>The connection is lost after the claim: the order stays claimed through the next round.\<close>

definition lost_after_claim :: "record_table dns_env" where
  "lost_after_claim = sample_dns_env\<lparr>dv_fails := \<lambda>k. if k < 4 then None else Some ''connection lost''\<rparr>"

theorem stranded_order_stays_witness:
  "\<exists>w1 y. process_pending_certificate_orders lost_after_claim 10 (sample_cert_world [sample_cert_order ''pending_dns_challenge'']) =
       (Inl ''connection lost'', w1) \<and>
     wo_order_status y = ''dns_challenge_presenting'' \<and>
     y \<in> set (cd_orders (w_db (snd (dns_round sample_dns_env (dns_worker_settings_from_env (\<lambda>name. None)) 0 w1))))"
proof -
  let ?w = "sample_cert_world [sample_cert_order ''pending_dns_challenge'']"
  let ?run = "process_pending_certificate_orders lost_after_claim 10 ?w"
  have "fst ?run = Inl ''connection lost'' \<and> map wo_order_status (cd_orders (w_db (snd ?run))) = [''dns_challenge_presenting'']" by code_simp
  then obtain w1 where run: "?run = (Inl ''connection lost'', w1)"
    and now: "map wo_order_status (cd_orders (w_db w1)) = [''dns_challenge_presenting'']" by (metis prod.collapse)
  have orders: "cd_orders (w_db ?w) = [sample_cert_order ''pending_dns_challenge'']" by (simp add: sample_cert_world_def)
  have "wo_order_status (sample_cert_order ''pending_dns_challenge'') = ''pending_dns_challenge''" by (simp add: sample_cert_order_def)
  with orders now have "w_db w1 \<noteq> w_db ?w" by auto
  moreover have "orders_ok (w_db ?w)" by (simp add: orders_ok_def sample_cert_world_def)
  moreover have "distinct (map wz_id (cd_zones (w_db ?w)))" by (simp add: sample_cert_world_def)
  moreover have "dns_rounds w1 (snd (dns_round sample_dns_env (dns_worker_settings_from_env (\<lambda>name. None)) 0 w1))"
    by (rule r_into_rtranclp) (metis prod.collapse)
  ultimately obtain y where "y \<in> set (cd_orders (w_db w1))"
    "y \<in> set (cd_orders (w_db (snd (dns_round sample_dns_env (dns_worker_settings_from_env (\<lambda>name. None)) 0 w1))))"
    using stranded_order_stays [OF disjI1 [OF run]] by blast
  moreover from this(1) now have "wo_order_status y = ''dns_challenge_presenting''" by (auto simp: map_eq_Cons_conv)
  ultimately show ?thesis using run by blast
qed

theorem claimed_orders_settled_witness:
  "\<exists>n w1 m w'. process_pending_certificate_orders sample_dns_env 10 (sample_cert_world [sample_cert_order ''pending_dns_challenge'']) = (Inr n, w1) \<and>
     process_presented_certificate_orders sample_dns_env 10 w1 = (Inr m, w') \<and> n = 1 \<and>
     (\<exists>g. cd_orders (w_db w1) = [g (sample_cert_order ''pending_dns_challenge'')])"
proof -
  let ?w = "sample_cert_world [sample_cert_order ''pending_dns_challenge'']"
  have "case process_pending_certificate_orders sample_dns_env 10 ?w of
      (Inl _, w1) \<Rightarrow> False | (Inr n, w1) \<Rightarrow> n = 1 \<and> (case fst (process_presented_certificate_orders sample_dns_env 10 w1) of
        Inl _ \<Rightarrow> False | Inr _ \<Rightarrow> True)" by code_simp
  then obtain w1 m where run: "process_pending_certificate_orders sample_dns_env 10 ?w = (Inr 1, w1)"
    "fst (process_presented_certificate_orders sample_dns_env 10 w1) = Inr m"
    by (auto split: prod.splits sum.splits)
  moreover from this(2) obtain w' where run': "process_presented_certificate_orders sample_dns_env 10 w1 = (Inr m, w')"
    by (metis prod.collapse)
  moreover have w: "cd_orders (w_db ?w) = [sample_cert_order ''pending_dns_challenge'']" "distinct (map wz_id (cd_zones (w_db ?w)))"
    by (simp_all add: sample_cert_world_def)
  moreover have "distinct (map wo_id (cd_orders (w_db ?w)))" by (simp add: w(1))
  from claimed_orders_settled [OF run(1) run' this w(2)] obtain g where "cd_orders (w_db w1) = map g (cd_orders (w_db ?w))"
    unfolding settled_oldest_def by blast
  ultimately show ?thesis by auto
qed

theorem due_certificates_queued_witness:
  "\<exists>n w' x. enqueue_due_renewal_orders sample_dns_env 0 (days 30) 10 ''mock'' (sample_cert_world []) = (Inr n, w') \<and>
     cd_orders (w_db w') = [x] \<and> renews ''mock'' (w_db (sample_cert_world [])) sample_certificate x \<and>
     order_ready ''pending_dns_challenge'' (w_db w') x"
proof -
  let ?w = "sample_cert_world []"
  have "case fst (enqueue_due_renewal_orders sample_dns_env 0 (days 30) 10 ''mock'' ?w) of
      Inl _ \<Rightarrow> False | Inr n \<Rightarrow> n = 1" by code_simp
  then obtain w' where run: "enqueue_due_renewal_orders sample_dns_env 0 (days 30) 10 ''mock'' ?w = (Inr 1, w')"
    by (cases "enqueue_due_renewal_orders sample_dns_env 0 (days 30) 10 ''mock'' ?w") (auto split: sum.splits)
  have "inj_on (dv_uuid sample_dns_env) {0..<12}"
    by (auto simp: inj_on_def sample_dns_env_def word_of_nat_eq_iff take_bit_nat_eq_self)
  then have inj: "inj_on (dv_uuid sample_dns_env) {w_clock ?w..<w_clock ?w + 10 + 2}" by (simp add: sample_cert_world_def)
  have w: "cd_orders (w_db ?w) = []" "cd_certificates (w_db ?w) = [sample_certificate]"
    "\<forall>zone \<in> set (cd_zones (w_db ?w)). wz_provider_id zone \<in> wp_id ` set (cd_providers (w_db ?w))"
    by (simp_all add: sample_cert_world_def)
  have ids: "distinct (map wc_id (cd_certificates (w_db ?w)))" by (simp add: w)
  have fresh: "\<forall>t \<in> {w_clock ?w..<w_clock ?w + 10 + 2}. dv_uuid sample_dns_env t \<notin> wo_id ` set (cd_orders (w_db ?w))" by (simp add: w)
  from due_certificates_queued [OF run inj fresh ids] obtain taken new where
    q: "set taken \<subseteq> {c \<in> set (cd_certificates (w_db ?w)). renewal_due (0 + days 30) (w_db ?w) c}"
      "cd_orders (w_db w') = cd_orders (w_db ?w) @ new" "1 = length new"
      "list_all2 (renews ''mock'' (w_db ?w)) (filter (\<lambda>c. active_zones_for (w_db ?w) (wc_common_name c) \<noteq> {}) taken) new"
      "(\<forall>zone \<in> set (cd_zones (w_db ?w)). wz_provider_id zone \<in> wp_id ` set (cd_providers (w_db ?w))) \<longrightarrow>
         (\<forall>x \<in> set new. order_ready ''pending_dns_challenge'' (w_db w') x)" by blast
  have t: "set taken \<subseteq> {sample_certificate}" "cd_orders (w_db w') = new" "length new = 1"
      "list_all2 (renews ''mock'' (w_db ?w)) (filter (\<lambda>c. active_zones_for (w_db ?w) (wc_common_name c) \<noteq> {}) taken) new"
      "\<forall>x \<in> set new. order_ready ''pending_dns_challenge'' (w_db w') x"
    using q w by auto
  from t(3) obtain x where x: "new = [x]" by (auto simp: length_Suc_conv)
  with t(4) obtain c where "filter (\<lambda>c. active_zones_for (w_db ?w) (wc_common_name c) \<noteq> {}) taken = [c]" "renews ''mock'' (w_db ?w) c x"
    by (auto simp: list_all2_Cons2)
  moreover from this(1) have "c \<in> set taken" by (auto simp: filter_eq_Cons_iff)
  ultimately show ?thesis using run t x by auto
qed

end
