(* ===== verification/Acme_Client.thy ===== *)
theory Acme_Client
  imports Dns_Worker
begin

text \<open>
  The client of a real ACME server (\<open>LetsEncryptAcmeClient\<close> in \<open>apps/dns-worker/src/lib.rs\<close>): its
  settings, the caches of the directory and of the account, signed requests, the two loops that poll the
  server, and the three methods of the trait.

  HTTP, JSON text, base64, SHA-256 and OpenSSL are fields of \<open>acme_env\<close>; the server, the network and the
  random numbers are the state \<open>'s\<close>, private keys the type \<open>'k\<close>. The clock of \<open>Instant::now\<close> is part of
  the state, in milliseconds: an exchange with the server, its body included, takes the time it reports, and
  a timer may fire late. That an instant can overflow is not modelled. An error is the text of its outermost
  context, which is what the worker stores.
\<close>

subsection \<open>Data\<close>

record acme_config =
  xc_directory_url :: string
  xc_contact_email :: "string option"
  xc_account_key_pem :: string
  xc_account_key_passphrase :: "string option"
  xc_cert_key_passphrase :: string
  xc_dns_propagation_wait_seconds :: u64
  xc_poll_interval_seconds :: u64
  xc_poll_timeout_seconds :: u64

record acme_directory =
  ad_new_nonce :: string
  ad_new_account :: string
  ad_new_order :: string

record acme_order =
  ao_status :: string
  ao_authorizations :: "string list"
  ao_finalize :: string
  ao_certificate :: "string option"
  ao_error :: "string option option"

record acme_authorization_challenge =
  ah_kind :: string
  ah_url :: string
  ah_token :: "string option"
  ah_error :: "string option option"

record acme_authorization =
  az_status :: string
  az_identifier :: string
  az_challenges :: "acme_authorization_challenge list"

datatype jws_identity = Jwk | Kid string

record generated_certificate_request =
  gr_csr_der :: string
  gr_key_pem_encrypted :: string

text \<open>
  A request; a response, with its two headers (a header that is present may not be text), its body as
  text and as JSON; an entry of an X.509 name and a certificate, as far as the client reads them. Encoding
  a certificate as PEM may fail, and so may reading the result as UTF-8.
\<close>

datatype acme_request = AcmeGet string | AcmeHead string | AcmePost string json

record acme_response =
  rs_status :: nat
  rs_location :: "string option option"
  rs_replay_nonce :: "string option option"
  rs_text :: "string option"
  rs_json :: "json option"

record x509_entry =
  xn_is_common_name :: bool
  xn_short_name :: "string option"
  xn_value :: "string option"

record x509_certificate =
  xl_issuer :: "x509_entry list"
  xl_not_before :: string
  xl_not_after :: string
  xl_pem :: "string option option"
  xl_digest :: "string option"

datatype jws_failure = SignerCreation | SignerInput | SignerOutput | SignatureDer

record 's acme_state =
  as_directory :: "acme_directory option"
  as_account_url :: "string option"
  as_time :: nat
  as_server :: 's

record ('s, 'k) acme_env =
  xe_send :: "acme_request \<Rightarrow> 's \<Rightarrow> (string + acme_response) \<times> nat \<times> 's"
  xe_late :: "nat \<Rightarrow> nat"
  xe_key_from_pem :: "string \<Rightarrow> 'k option"
  xe_key_from_pem_passphrase :: "string \<Rightarrow> string \<Rightarrow> 'k option"
  xe_key_is_ec :: "'k \<Rightarrow> bool"
  xe_key_is_p256 :: "'k \<Rightarrow> bool"
  xe_key_point :: "'k \<Rightarrow> (string \<times> string) option"
  xe_sign :: "'k \<Rightarrow> string \<Rightarrow> 's \<Rightarrow> (jws_failure + string \<times> string) \<times> 's"
  xe_csr :: "string \<Rightarrow> string list \<Rightarrow> string \<Rightarrow> 's \<Rightarrow> (string + generated_certificate_request) \<times> 's"
  xe_stack_from_pem :: "string \<Rightarrow> x509_certificate list option"
  xe_parse_openssl_time :: "string \<Rightarrow> datetime option"
  xe_base64url :: "string \<Rightarrow> string"
  xe_sha256 :: "string \<Rightarrow> string"
  xe_json_text :: "json \<Rightarrow> string"
  xe_status_text :: "nat \<Rightarrow> string"

subsection \<open>Settings\<close>

definition real_acme_config_from_env :: "process_env \<Rightarrow> (string \<Rightarrow> string option) \<Rightarrow> string \<Rightarrow> string + acme_config" where
  "real_acme_config_from_env env read_file default_directory_url =
     result_bind (case env ''PINGORAHUB_ACME_ACCOUNT_KEY_PEM_PATH'' of
         Some path \<Rightarrow> ok_or (''failed to read acme account key from '' @ path) (read_file path)
       | None \<Rightarrow> ok_or (''real acme mode requires PINGORAHUB_ACME_ACCOUNT_KEY_PEM_PATH or '' @
             ''PINGORAHUB_ACME_ACCOUNT_KEY_PEM'')
           (env ''PINGORAHUB_ACME_ACCOUNT_KEY_PEM'')) (\<lambda>account_key_pem.
       Inr \<lparr>xc_directory_url = unwrap_or default_directory_url (env ''PINGORAHUB_ACME_DIRECTORY_URL''),
         xc_contact_email = opt_filter (\<lambda>value. trim value \<noteq> []) (env ''PINGORAHUB_ACME_CONTACT_EMAIL''),
         xc_account_key_pem = account_key_pem,
         xc_account_key_passphrase = opt_filter (\<lambda>value. value \<noteq> []) (env ''PINGORAHUB_ACME_ACCOUNT_KEY_PASSPHRASE''),
         xc_cert_key_passphrase = unwrap_or ''pingorahub-dev-only'' (env ''PINGORAHUB_ACME_CERT_KEY_PASSPHRASE''),
         xc_dns_propagation_wait_seconds = parse_env_u64 env ''PINGORAHUB_ACME_DNS_PROPAGATION_WAIT_SECONDS'' 15,
         xc_poll_interval_seconds = parse_env_u64 env ''PINGORAHUB_ACME_POLL_INTERVAL_SECONDS'' 5,
         xc_poll_timeout_seconds = parse_env_u64 env ''PINGORAHUB_ACME_POLL_TIMEOUT_SECONDS'' 180\<rparr>)"

subsection \<open>Decoding\<close>

text \<open>A struct read from the text of a body: a field it knows must not be given twice.\<close>

fun body_fields :: "string list \<Rightarrow> json \<Rightarrow> (string \<Rightarrow> json option) option" where
  "body_fields names (JObject kvs) =
     (if distinct (filter (\<lambda>k. k \<in> set names) (map fst kvs)) then struct_fields names (JObject kvs) else None)"
| "body_fields names v = struct_fields names v"

definition required_field :: "(json \<Rightarrow> 'a option) \<Rightarrow> json option \<Rightarrow> 'a option" where
  "required_field decode v = Option.bind v decode"

definition decode_directory :: "json \<Rightarrow> acme_directory option" where
  "decode_directory v =
     Option.bind (body_fields [''newNonce'', ''newAccount'', ''newOrder''] v) (\<lambda>field.
     Option.bind (required_field as_str (field ''newNonce'')) (\<lambda>new_nonce.
     Option.bind (required_field as_str (field ''newAccount'')) (\<lambda>new_account.
     Option.bind (required_field as_str (field ''newOrder'')) (\<lambda>new_order.
       Some \<lparr>ad_new_nonce = new_nonce, ad_new_account = new_account, ad_new_order = new_order\<rparr>))))"

text \<open>\<open>AcmeProblem\<close> is its only field, the optional detail; \<open>AcmeIdentifier\<close> is its value.\<close>

definition decode_problem :: "json \<Rightarrow> string option option" where
  "decode_problem v = Option.bind (body_fields [''detail''] v) (\<lambda>field. optional_field as_str (field ''detail''))"

definition decode_identifier :: "json \<Rightarrow> string option" where
  "decode_identifier v = Option.bind (body_fields [''value''] v) (\<lambda>field. required_field as_str (field ''value''))"

definition decode_order :: "json \<Rightarrow> acme_order option" where
  "decode_order v =
     Option.bind (body_fields [''status'', ''authorizations'', ''finalize'', ''certificate'', ''error''] v) (\<lambda>field.
     Option.bind (required_field as_str (field ''status'')) (\<lambda>status.
     Option.bind (required_field (\<lambda>v. Option.bind (as_array v) strings_of) (field ''authorizations'')) (\<lambda>authorizations.
     Option.bind (required_field as_str (field ''finalize'')) (\<lambda>finalize.
     Option.bind (optional_field as_str (field ''certificate'')) (\<lambda>certificate.
     Option.bind (optional_field decode_problem (field ''error'')) (\<lambda>error.
       Some \<lparr>ao_status = status, ao_authorizations = authorizations, ao_finalize = finalize,
         ao_certificate = certificate, ao_error = error\<rparr>))))))"

definition decode_authorization_challenge :: "json \<Rightarrow> acme_authorization_challenge option" where
  "decode_authorization_challenge v =
     Option.bind (body_fields [''type'', ''url'', ''token'', ''error''] v) (\<lambda>field.
     Option.bind (required_field as_str (field ''type'')) (\<lambda>kind.
     Option.bind (required_field as_str (field ''url'')) (\<lambda>url.
     Option.bind (optional_field as_str (field ''token'')) (\<lambda>token.
     Option.bind (optional_field decode_problem (field ''error'')) (\<lambda>error.
       Some \<lparr>ah_kind = kind, ah_url = url, ah_token = token, ah_error = error\<rparr>)))))"

fun decode_all :: "(json \<Rightarrow> 'a option) \<Rightarrow> json list \<Rightarrow> 'a list option" where
  "decode_all decode [] = Some []"
| "decode_all decode (v # vs) =
     Option.bind (decode v) (\<lambda>x. Option.bind (decode_all decode vs) (\<lambda>xs. Some (x # xs)))"

definition decode_authorization :: "json \<Rightarrow> acme_authorization option" where
  "decode_authorization v =
     Option.bind (body_fields [''status'', ''identifier'', ''challenges''] v) (\<lambda>field.
     Option.bind (required_field as_str (field ''status'')) (\<lambda>status.
     Option.bind (required_field decode_identifier (field ''identifier'')) (\<lambda>identifier.
     Option.bind (required_field (\<lambda>v. Option.bind (as_array v) (decode_all decode_authorization_challenge))
         (field ''challenges'')) (\<lambda>challenges.
       Some \<lparr>az_status = status, az_identifier = identifier, az_challenges = challenges\<rparr>))))"

subsection \<open>Actions\<close>

type_synonym ('a, 's) acme = "'s acme_state \<Rightarrow> (string + 'a) \<times> 's acme_state"

definition acme_bind :: "('a, 's) acme \<Rightarrow> ('a \<Rightarrow> ('b, 's) acme) \<Rightarrow> ('b, 's) acme" where
  "acme_bind m f s = (case m s of (Inl error, s) \<Rightarrow> (Inl error, s) | (Inr x, s) \<Rightarrow> f x s)"

definition acme_return :: "string + 'a \<Rightarrow> ('a, 's) acme" where
  "acme_return r s = (r, s)"

definition acme_context :: "string \<Rightarrow> ('a, 's) acme \<Rightarrow> ('a, 's) acme" where
  "acme_context message m s = (case m s of (Inl error, s) \<Rightarrow> (Inl message, s) | (Inr x, s) \<Rightarrow> (Inr x, s))"

definition acme_random :: "('s \<Rightarrow> (string + 'a) \<times> 's) \<Rightarrow> ('a, 's) acme" where
  "acme_random f s = (case f (as_server s) of (r, server) \<Rightarrow> (r, s\<lparr>as_server := server\<rparr>))"

definition acme_send :: "('s, 'k) acme_env \<Rightarrow> acme_request \<Rightarrow> (acme_response, 's) acme" where
  "acme_send e request s =
     (case xe_send e request (as_server s) of
        (r, elapsed, server) \<Rightarrow> (r, s\<lparr>as_time := as_time s + elapsed, as_server := server\<rparr>))"

text \<open>\<open>tokio::time::sleep\<close> of whole seconds.\<close>

definition acme_sleep :: "('s, 'k) acme_env \<Rightarrow> u64 \<Rightarrow> 's acme_state \<Rightarrow> 's acme_state" where
  "acme_sleep e n s = (let wake = as_time s + 1000 * unat n in s\<lparr>as_time := wake + xe_late e wake\<rparr>)"

subsection \<open>Responses\<close>

definition header_to_string :: "string option option \<Rightarrow> string \<Rightarrow> string + string" where
  "header_to_string value name =
     result_bind (ok_or (''missing '' @ name @ '' header'') value) (ok_or ''invalid header value'')"

definition location_header :: "acme_response \<Rightarrow> string + string" where
  "location_header response = header_to_string (rs_location response) ''Location''"

definition replay_nonce :: "acme_response \<Rightarrow> string + string" where
  "replay_nonce response = header_to_string (rs_replay_nonce response) ''Replay-Nonce''"

definition acme_success :: "acme_response \<Rightarrow> bool" where
  "acme_success response \<longleftrightarrow> 200 \<le> rs_status response \<and> rs_status response < 300"

definition acme_ensure_success :: "('s, 'k) acme_env \<Rightarrow> acme_response \<Rightarrow> string \<Rightarrow> string + acme_response" where
  "acme_ensure_success e response action =
     (if acme_success response then Inr response
      else Inl (action @ '' failed with status '' @ xe_status_text e (rs_status response) @ '': '' @
        unwrap_or [] (rs_text response)))"

definition parse_json_response ::
  "('s, 'k) acme_env \<Rightarrow> (json \<Rightarrow> 'a option) \<Rightarrow> acme_response \<Rightarrow> string \<Rightarrow> string + 'a" where
  "parse_json_response e decode response action =
     result_bind (acme_ensure_success e response action) (\<lambda>response.
       ok_or (''failed to decode '' @ action @ '' response json'') (Option.bind (rs_json response) decode))"

definition parse_text_response :: "('s, 'k) acme_env \<Rightarrow> acme_response \<Rightarrow> string \<Rightarrow> string + string" where
  "parse_text_response e response action =
     result_bind (acme_ensure_success e response action) (\<lambda>response.
       ok_or (''failed to decode '' @ action @ '' response text'') (rs_text response))"

subsection \<open>The account key\<close>

text \<open>
  OpenSSL writes a number without leading zeros. Its allocations do not fail, and a key that says it is an EC
  key can be read as one.
\<close>

definition pad_big_num :: "string \<Rightarrow> nat \<Rightarrow> string" where
  "pad_big_num digits width =
     (if length digits \<ge> width then digits else replicate (width - length digits) (char_of (0 :: nat)) @ digits)"

definition account_key :: "('s, 'k) acme_env \<Rightarrow> acme_config \<Rightarrow> string + 'k" where
  "account_key e c =
     (case xc_account_key_passphrase c of
        Some passphrase \<Rightarrow> ok_or ''failed to load encrypted acme account key''
          (xe_key_from_pem_passphrase e (xc_account_key_pem c) passphrase)
      | None \<Rightarrow> ok_or ''failed to load acme account key'' (xe_key_from_pem e (xc_account_key_pem c)))"

definition account_jwk :: "('s, 'k) acme_env \<Rightarrow> acme_config \<Rightarrow> string + json" where
  "account_jwk e c =
     result_bind (account_key e c) (\<lambda>key.
       if \<not> xe_key_is_ec e key then Inl ''acme account key must be an EC P-256 private key''
       else if \<not> xe_key_is_p256 e key then Inl ''acme account key must use the P-256 curve''
       else
         result_bind (ok_or ''failed to extract acme account public key coordinates'' (xe_key_point e key)) (\<lambda>(x, y).
           Inr (jobj [(''crv'', JString ''P-256''), (''kty'', JString ''EC''),
             (''x'', JString (xe_base64url e (pad_big_num x 32))),
             (''y'', JString (xe_base64url e (pad_big_num y 32)))])))"

definition jwk_thumbprint :: "('s, 'k) acme_env \<Rightarrow> acme_config \<Rightarrow> string + string" where
  "jwk_thumbprint e c =
     result_bind (account_jwk e c) (\<lambda>jwk. Inr (xe_base64url e (xe_sha256 e (xe_json_text e jwk))))"

fun jws_failure_message :: "jws_failure \<Rightarrow> string" where
  "jws_failure_message SignerCreation = ''failed to create acme signer''"
| "jws_failure_message SignerInput = ''failed to feed acme signer input''"
| "jws_failure_message SignerOutput = ''failed to sign acme request''"
| "jws_failure_message SignatureDer = ''failed to parse acme signature der''"

definition sign_compact_jws ::
  "('s, 'k) acme_env \<Rightarrow> acme_config \<Rightarrow> string \<Rightarrow> string \<Rightarrow> (string, 's) acme" where
  "sign_compact_jws e c protected_b64 payload_b64 =
     acme_bind (acme_return (account_key e c)) (\<lambda>key.
       acme_random (\<lambda>server. case xe_sign e key (protected_b64 @ ''.'' @ payload_b64) server of
           (Inl failure, server) \<Rightarrow> (Inl (jws_failure_message failure), server)
         | (Inr (r, s), server) \<Rightarrow> (Inr (xe_base64url e (pad_big_num r 32 @ pad_big_num s 32)), server)))"

subsection \<open>Requests\<close>

definition acme_directory_of :: "('s, 'k) acme_env \<Rightarrow> acme_config \<Rightarrow> (acme_directory, 's) acme" where
  "acme_directory_of e c s =
     (case as_directory s of
        Some directory \<Rightarrow> (Inr directory, s)
      | None \<Rightarrow>
          acme_bind (acme_context ''failed to fetch acme directory'' (acme_send e (AcmeGet (xc_directory_url c)))) (\<lambda>response.
          acme_bind (acme_return (parse_json_response e decode_directory response ''fetch acme directory'')) (\<lambda>directory.
            \<lambda>s. (Inr directory, s\<lparr>as_directory := Some directory\<rparr>))) s)"

definition new_nonce :: "('s, 'k) acme_env \<Rightarrow> acme_config \<Rightarrow> (string, 's) acme" where
  "new_nonce e c =
     acme_bind (acme_directory_of e c) (\<lambda>directory.
     acme_bind (acme_context ''failed to fetch acme replay nonce'' (acme_send e (AcmeHead (ad_new_nonce directory)))) (\<lambda>response.
       acme_return (replay_nonce response)))"

definition protected_header ::
  "('s, 'k) acme_env \<Rightarrow> acme_config \<Rightarrow> string \<Rightarrow> string \<Rightarrow> jws_identity \<Rightarrow> string + json" where
  "protected_header e c nonce url identity =
     (let common = [(''alg'', JString ''ES256''), (''nonce'', JString nonce), (''url'', JString url)]
      in case identity of
           Jwk \<Rightarrow> result_bind (account_jwk e c) (\<lambda>jwk. Inr (jobj (common @ [(''jwk'', jwk)])))
         | Kid kid \<Rightarrow> Inr (jobj (common @ [(''kid'', JString kid)])))"

definition signed_post ::
  "('s, 'k) acme_env \<Rightarrow> acme_config \<Rightarrow> string \<Rightarrow> json option \<Rightarrow> jws_identity \<Rightarrow> (acme_response, 's) acme" where
  "signed_post e c url payload identity =
     acme_bind (new_nonce e c) (\<lambda>nonce.
     acme_bind (acme_return (protected_header e c nonce url identity)) (\<lambda>protected.
       let protected_b64 = xe_base64url e (xe_json_text e protected);
           payload_b64 = (case payload of Some payload \<Rightarrow> xe_base64url e (xe_json_text e payload) | None \<Rightarrow> [])
       in acme_bind (sign_compact_jws e c protected_b64 payload_b64) (\<lambda>signature.
            acme_context (''failed to call acme endpoint '' @ url)
              (acme_send e (AcmePost url (jobj [(''protected'', JString protected_b64),
                (''payload'', JString payload_b64), (''signature'', JString signature)]))))))"

definition account_payload :: "acme_config \<Rightarrow> json" where
  "account_payload c =
     (case xc_contact_email c of
        Some contact_email \<Rightarrow> jobj [(''termsOfServiceAgreed'', JBool True),
          (''contact'', JArray [JString (''mailto:'' @ contact_email)])]
      | None \<Rightarrow> jobj [(''termsOfServiceAgreed'', JBool True)])"

definition account_url :: "('s, 'k) acme_env \<Rightarrow> acme_config \<Rightarrow> (string, 's) acme" where
  "account_url e c s =
     (case as_account_url s of
        Some url \<Rightarrow> (Inr url, s)
      | None \<Rightarrow>
          acme_bind (acme_directory_of e c) (\<lambda>directory.
          acme_bind (acme_context ''failed to create or fetch acme account''
              (signed_post e c (ad_new_account directory) (Some (account_payload c)) Jwk)) (\<lambda>response.
          acme_bind (acme_return (acme_ensure_success e response ''create acme account'')) (\<lambda>response.
          acme_bind (acme_context ''acme newAccount response missing Location header''
              (acme_return (location_header response))) (\<lambda>url.
            \<lambda>s. (Inr url, s\<lparr>as_account_url := Some url\<rparr>))))) s)"

definition post_as_get_json ::
  "('s, 'k) acme_env \<Rightarrow> acme_config \<Rightarrow> (json \<Rightarrow> 'a option) \<Rightarrow> string \<Rightarrow> ('a, 's) acme" where
  "post_as_get_json e c decode url =
     acme_bind (account_url e c) (\<lambda>account.
     acme_bind (acme_context (''failed acme POST-as-GET for '' @ url) (signed_post e c url None (Kid account))) (\<lambda>response.
       acme_return (parse_json_response e decode response ''acme POST-as-GET'')))"

definition post_as_get_text :: "('s, 'k) acme_env \<Rightarrow> acme_config \<Rightarrow> string \<Rightarrow> (string, 's) acme" where
  "post_as_get_text e c url =
     acme_bind (account_url e c) (\<lambda>account.
     acme_bind (acme_context (''failed acme POST-as-GET text for '' @ url) (signed_post e c url None (Kid account))) (\<lambda>response.
       acme_return (parse_text_response e response ''acme POST-as-GET text'')))"

subsection \<open>What every request keeps\<close>

text \<open>
  The clock does not run backwards, and a cache that is filled keeps its value. \<open>within n\<close> bounds the
  time an action takes.
\<close>

definition acme_le :: "'s acme_state \<Rightarrow> 's acme_state \<Rightarrow> bool" where
  "acme_le s s' \<longleftrightarrow> as_time s \<le> as_time s' \<and> (as_directory s = None \<or> as_directory s' = as_directory s) \<and>
     (as_account_url s = None \<or> as_account_url s' = as_account_url s)"

definition advances :: "('a, 's) acme \<Rightarrow> bool" where
  "advances m \<longleftrightarrow> (\<forall>s. acme_le s (snd (m s)))"

definition within :: "nat \<Rightarrow> ('a, 's) acme \<Rightarrow> bool" where
  "within n m \<longleftrightarrow> (\<forall>s. as_time (snd (m s)) \<le> as_time s + n)"

named_theorems advancing \<open>actions that advance\<close>

lemma acme_le_refl [simp]: "acme_le s s"
  by (simp add: acme_le_def)

lemma acme_le_trans: "acme_le s s' \<Longrightarrow> acme_le s' s'' \<Longrightarrow> acme_le s s''"
  by (auto simp: acme_le_def)

lemma advancesD: "advances m \<Longrightarrow> m s = (r, s') \<Longrightarrow> acme_le s s'"
  unfolding advances_def by (metis snd_conv)

lemma advances_bind [advancing]:
  assumes m: "advances m" and f: "\<And>x. advances (f x)"
  shows "advances (acme_bind m f)"
  unfolding advances_def
proof
  fix s
  obtain r s1 where ms: "m s = (r, s1)" by (cases "m s")
  have "acme_le s1 (snd (f x s1))" for x using f by (simp add: advances_def)
  with advancesD [OF m ms] show "acme_le s (snd (acme_bind m f s))"
    by (cases r) (auto simp: acme_bind_def ms intro: acme_le_trans)
qed

lemma advances_return [advancing]: "advances (acme_return r)"
  by (simp add: advances_def acme_return_def)

lemma advances_context [advancing]: "advances m \<Longrightarrow> advances (acme_context message m)"
  unfolding advances_def [of "acme_context message m"] acme_context_def
  by (auto dest: advancesD split: prod.splits sum.splits)

lemma advances_send [advancing]: "advances (acme_send e request)"
  by (auto simp: advances_def acme_send_def acme_le_def split: prod.splits)

lemma advances_random [advancing]: "advances (acme_random f)"
  by (auto simp: advances_def acme_random_def acme_le_def split: prod.splits)

lemma advances_sign [advancing]: "advances (sign_compact_jws e c protected_b64 payload_b64)"
  unfolding sign_compact_jws_def by (intro advancing)

text \<open>A value that is looked up in a cache, and fetched and stored when it is not there.\<close>

lemma advances_directory [advancing]: "advances (acme_directory_of e c)"
proof -
  have *: "advances (acme_bind (acme_context ''failed to fetch acme directory'' (acme_send e (AcmeGet (xc_directory_url c))))
      (\<lambda>response. acme_return (parse_json_response e decode_directory response ''fetch acme directory'')))"
    by (intro advancing)
  show ?thesis
    unfolding advances_def
  proof
    fix s
    show "acme_le s (snd (acme_directory_of e c s))"
      using * [unfolded advances_def, rule_format, of s]
      by (auto simp: acme_directory_of_def acme_bind_def acme_return_def acme_le_def split: option.splits prod.splits sum.splits)
  qed
qed

lemma advances_nonce [advancing]: "advances (new_nonce e c)"
  unfolding new_nonce_def by (intro advancing)

lemma advances_signed_post [advancing]: "advances (signed_post e c url payload identity)"
  unfolding signed_post_def Let_def by (intro advancing)

lemma advances_account_url [advancing]: "advances (account_url e c)"
proof -
  have *: "advances (acme_bind (acme_directory_of e c) (\<lambda>directory.
      acme_bind (acme_context ''failed to create or fetch acme account''
          (signed_post e c (ad_new_account directory) (Some (account_payload c)) Jwk)) (\<lambda>response.
      acme_bind (acme_return (acme_ensure_success e response ''create acme account'')) (\<lambda>response.
        acme_context ''acme newAccount response missing Location header'' (acme_return (location_header response))))))"
    by (intro advancing)
  show ?thesis
    unfolding advances_def
  proof
    fix s
    show "acme_le s (snd (account_url e c s))"
      using * [unfolded advances_def, rule_format, of s]
      by (auto simp: account_url_def acme_bind_def acme_le_def split: option.splits prod.splits sum.splits)
  qed
qed

lemma advances_post_as_get_json [advancing]: "advances (post_as_get_json e c decode url)"
  unfolding post_as_get_json_def by (intro advancing)

lemma advances_post_as_get_text [advancing]: "advances (post_as_get_text e c url)"
  unfolding post_as_get_text_def by (intro advancing)

lemma acme_sleep_later: "0 < n \<Longrightarrow> as_time s < as_time (acme_sleep e n s)"
  by (simp add: acme_sleep_def Let_def word_greater_zero_iff unat_gt_0 add.assoc)

subsection \<open>Polling\<close>

text \<open>
  Both loops of the client: the resource at \<open>url\<close> is fetched, \<open>verdict\<close> says what its state means (nothing
  while it is not settled), the deadline is looked at, and the loop sleeps. Since the clock does not run
  backwards and a sleep takes at least a second, the loop ends.
\<close>

function acme_poll ::
  "('s, 'k) acme_env \<Rightarrow> acme_config \<Rightarrow> nat \<Rightarrow> string \<Rightarrow> (json \<Rightarrow> 'a option) \<Rightarrow> string \<Rightarrow>
   ('a \<Rightarrow> ('b, 's) acme option) \<Rightarrow> ('b, 's) acme" where
  "acme_poll e c deadline message decode url verdict s =
     (case post_as_get_json e c decode url s of
        (Inl error, s) \<Rightarrow> (Inl error, s)
      | (Inr resource, s) \<Rightarrow>
          (case verdict resource of
             Some outcome \<Rightarrow> outcome s
           | None \<Rightarrow>
               if deadline \<le> as_time s then (Inl message, s)
               else acme_poll e c deadline message decode url verdict
                 (acme_sleep e (max (xc_poll_interval_seconds c) 1) s)))"
  by pat_completeness auto

lemma poll_step_later:
  assumes "post_as_get_json e c decode url s = (r, s1)"
  shows "as_time s < as_time (acme_sleep e (max n 1) s1)"
proof -
  have "0 < max n (1 :: u64)" by (simp add: less_max_iff_disj)
  then show ?thesis
    using advancesD [OF advances_post_as_get_json assms] acme_sleep_later [of "max n 1" s1 e]
    by (simp add: acme_le_def)
qed

termination acme_poll
proof (relation "measure (\<lambda>(e, c, deadline, message, decode, url, verdict, s). deadline - as_time s)", goal_cases)
  case 1
  show ?case by simp
next
  case (2 e c deadline message decode url verdict s fetched s1 resource)
  then have "post_as_get_json e c decode url s = (Inr resource, s1)" "as_time s1 < deadline" by simp_all
  with poll_step_later [OF this(1), of "xc_poll_interval_seconds c"]
    advancesD [OF advances_post_as_get_json this(1)]
  show ?case by (simp add: acme_le_def diff_less_mono2)
qed

declare acme_poll.simps [simp del]

definition problem_detail :: "string option \<Rightarrow> string" where
  "problem_detail detail = unwrap_or [] (map_option (\<lambda>value. '': '' @ value) detail)"

definition authorization_verdict :: "acme_authorization \<Rightarrow> (unit, 's) acme option" where
  "authorization_verdict authorization =
     (let status = az_status authorization
      in if status = ''valid'' then Some (acme_return (Inr ()))
         else if status = ''pending'' \<or> status = ''processing'' then None
         else if status = ''invalid'' then
           Some (acme_return (Inl (''acme authorization became invalid'' @ problem_detail
             (case List.map_filter (\<lambda>challenge. Option.bind (ah_error challenge) (\<lambda>detail. detail)) (az_challenges authorization) of
                [] \<Rightarrow> None | detail # _ \<Rightarrow> Some detail))))
         else Some (acme_return (Inl (''unexpected acme authorization status: '' @ status))))"

definition poll_deadline :: "acme_config \<Rightarrow> 's acme_state \<Rightarrow> nat" where
  "poll_deadline c s = as_time s + 1000 * unat (max (xc_poll_timeout_seconds c) 1)"

definition poll_authorization_valid :: "('s, 'k) acme_env \<Rightarrow> acme_config \<Rightarrow> string \<Rightarrow> (unit, 's) acme" where
  "poll_authorization_valid e c url s =
     acme_poll e c (poll_deadline c s) ''timed out waiting for acme authorization to become valid''
       decode_authorization url authorization_verdict s"

subsection \<open>Certificates\<close>

definition generate_certificate_csr ::
  "('s, 'k) acme_env \<Rightarrow> string \<Rightarrow> string list \<Rightarrow> string \<Rightarrow> (generated_certificate_request, 's) acme" where
  "generate_certificate_csr e common_name sans key_passphrase =
     acme_random (xe_csr e common_name (unique_identifiers common_name sans) key_passphrase)"

definition parse_asn1_time :: "('s, 'k) acme_env \<Rightarrow> string \<Rightarrow> string + datetime" where
  "parse_asn1_time e raw = ok_or (''failed to parse openssl time '' @ raw) (xe_parse_openssl_time e raw)"

definition format_x509_name :: "x509_entry list \<Rightarrow> string" where
  "format_x509_name entries =
     (case Option.bind (List.find xn_is_common_name entries) xn_value of
        Some common_name \<Rightarrow> common_name
      | None \<Rightarrow>
          let parts = List.map_filter (\<lambda>entry. Option.bind (xn_short_name entry) (\<lambda>short_name.
                map_option (\<lambda>v. short_name @ ''='' @ v) (xn_value entry))) entries
          in if parts = [] then ''unknown'' else join '', '' parts)"

definition lower_hex_digit :: "nat \<Rightarrow> char" where
  "lower_hex_digit n = char_of (if n < 10 then 48 + n else 87 + n)"

definition hex_byte :: "char \<Rightarrow> string" where
  "hex_byte b = [lower_hex_digit (byte b div 16), lower_hex_digit (byte b mod 16)]"

definition pem_text :: "string \<Rightarrow> x509_certificate \<Rightarrow> string + string" where
  "pem_text part cert =
     result_bind (ok_or (''failed to encode '' @ part @ '' cert pem'') (xl_pem cert))
       (ok_or (''failed to decode '' @ part @ '' cert pem''))"

fun chain_text :: "x509_certificate list \<Rightarrow> string + string" where
  "chain_text [] = Inr []"
| "chain_text (cert # certs) =
     result_bind (pem_text ''chain'' cert) (\<lambda>pem. result_bind (chain_text certs) (\<lambda>rest. Inr (pem @ rest)))"

definition issued_material_from_chain ::
  "('s, 'k) acme_env \<Rightarrow> string \<Rightarrow> string \<Rightarrow> string + issued_certificate_material" where
  "issued_material_from_chain e chain_pem key_pem_encrypted =
     result_bind (ok_or ''failed to parse downloaded certificate chain pem'' (xe_stack_from_pem e chain_pem)) (\<lambda>certs.
       case certs of
         [] \<Rightarrow> Inl ''empty certificate chain received from acme server''
       | leaf # others \<Rightarrow>
           result_bind (parse_asn1_time e (xl_not_before leaf)) (\<lambda>not_before.
           result_bind (parse_asn1_time e (xl_not_after leaf)) (\<lambda>not_after.
           result_bind (pem_text ''leaf'' leaf) (\<lambda>cert_pem.
           result_bind (if others = [] then Inr None else result_bind (chain_text others) (\<lambda>chain. Inr (Some chain))) (\<lambda>chain_pem.
           result_bind (ok_or ''failed to calculate certificate fingerprint'' (xl_digest leaf)) (\<lambda>digest.
             Inr \<lparr>im_issuer = format_x509_name (xl_issuer leaf), im_not_before = not_before, im_not_after = not_after,
               im_cert_pem = cert_pem, im_key_pem_encrypted = key_pem_encrypted, im_chain_pem = chain_pem,
               im_fingerprint_sha256 = concat (map hex_byte digest)\<rparr>))))))"

subsection \<open>The methods of the client\<close>

definition order_verdict ::
  "('s, 'k) acme_env \<Rightarrow> acme_config \<Rightarrow> string \<Rightarrow> acme_order \<Rightarrow> (issued_certificate_material, 's) acme option" where
  "order_verdict e c key_pem_encrypted order =
     (let status = ao_status order
      in if status = ''valid'' then
           Some (acme_bind (acme_return (ok_or ''acme order missing certificate url'' (ao_certificate order))) (\<lambda>certificate_url.
             acme_bind (post_as_get_text e c certificate_url) (\<lambda>chain_pem.
               acme_return (issued_material_from_chain e chain_pem key_pem_encrypted))))
         else if status = ''ready'' \<or> status = ''processing'' \<or> status = ''pending'' then None
         else if status = ''invalid'' then
           Some (acme_return (Inl (''acme order became invalid'' @ problem_detail (Option.bind (ao_error order) (\<lambda>detail. detail)))))
         else Some (acme_return (Inl (''unexpected acme order status: '' @ status))))"

definition finalize_and_download_certificate ::
  "('s, 'k) acme_env \<Rightarrow> acme_config \<Rightarrow> json \<Rightarrow> string \<Rightarrow> string list \<Rightarrow> (issued_certificate_material, 's) acme" where
  "finalize_and_download_certificate e c challenge_payload common_name sans =
     acme_bind (acme_return (payload_str challenge_payload ''finalize_url'')) (\<lambda>finalize_url.
     acme_bind (acme_return (payload_str challenge_payload ''order_url'')) (\<lambda>order_url.
     acme_bind (generate_certificate_csr e common_name sans (xc_cert_key_passphrase c)) (\<lambda>csr.
     acme_bind (account_url e c) (\<lambda>account.
     acme_bind (acme_context ''failed to finalize acme order''
         (signed_post e c finalize_url (Some (jobj [(''csr'', JString (xe_base64url e (gr_csr_der csr)))])) (Kid account))) (\<lambda>response.
     acme_bind (acme_return (acme_ensure_success e response ''finalize acme order'')) (\<lambda>_ s.
       acme_poll e c (poll_deadline c s) ''timed out waiting for acme order to become valid''
         decode_order order_url (order_verdict e c (gr_key_pem_encrypted csr)) s))))))"

definition identifiers_payload :: "string list \<Rightarrow> json" where
  "identifiers_payload identifiers =
     jobj [(''identifiers'', JArray (map (\<lambda>v. jobj [(''type'', JString ''dns''), (''value'', JString v)]) identifiers))]"

definition real_challenge_payload ::
  "string \<Rightarrow> string \<Rightarrow> string \<Rightarrow> string \<Rightarrow> string \<Rightarrow> string \<Rightarrow> string \<Rightarrow> string \<Rightarrow> json" where
  "real_challenge_payload zone_name identifier record_value order_url authorization_url challenge_url token finalize =
     jobj [(''zone_name'', JString zone_name), (''record_name'', JString (worker_record_name identifier)),
       (''record_type'', JString ''TXT''), (''record_value'', JString record_value), (''ttl'', jnat 60),
       (''identifier'', JString identifier), (''order_url'', JString order_url),
       (''authorization_url'', JString authorization_url), (''challenge_url'', JString challenge_url),
       (''challenge_token'', JString token), (''finalize_url'', JString finalize)]"

definition prepare_dns01_challenge :: "('s, 'k) acme_env \<Rightarrow> acme_config \<Rightarrow> queued_order \<Rightarrow> (json, 's) acme" where
  "prepare_dns01_challenge e c order =
     (let identifiers = unique_identifiers (qo_common_name order) (qo_sans order)
      in if has_prepared_dns_payload (qo_challenge_payload order) then acme_return (Inr (qo_challenge_payload order))
         else if length identifiers \<noteq> 1
         then acme_return (Inl ''real acme mode currently supports a single dns identifier per order'')
         else
           acme_bind (acme_directory_of e c) (\<lambda>directory.
           acme_bind (account_url e c) (\<lambda>account.
           acme_bind (acme_context ''failed to create acme order''
               (signed_post e c (ad_new_order directory) (Some (identifiers_payload identifiers)) (Kid account))) (\<lambda>order_response.
           acme_bind (acme_context ''acme newOrder response missing Location header''
               (acme_return (location_header order_response))) (\<lambda>order_url.
           acme_bind (acme_return (parse_json_response e decode_order order_response ''create acme order'')) (\<lambda>order_body.
           acme_bind (acme_return (ok_or ''acme order missing authorization url''
               (case ao_authorizations order_body of [] \<Rightarrow> None | url # _ \<Rightarrow> Some url))) (\<lambda>authorization_url.
           acme_bind (post_as_get_json e c decode_authorization authorization_url) (\<lambda>authorization.
           acme_bind (acme_return (ok_or ''acme authorization missing dns-01 challenge''
               (List.find (\<lambda>challenge. ah_kind challenge = ''dns-01'') (az_challenges authorization)))) (\<lambda>dns_challenge.
           acme_bind (acme_return (ok_or ''acme dns-01 challenge missing token'' (ah_token dns_challenge))) (\<lambda>token.
           acme_bind (acme_return (jwk_thumbprint e c)) (\<lambda>thumbprint.
             acme_return (Inr (real_challenge_payload (qo_zone_name order) (az_identifier authorization)
               (xe_base64url e (xe_sha256 e (token @ ''.'' @ thumbprint))) order_url authorization_url
               (ah_url dns_challenge) token (ao_finalize order_body))))))))))))))"

definition acknowledge_dns01_challenge :: "('s, 'k) acme_env \<Rightarrow> acme_config \<Rightarrow> json \<Rightarrow> (unit, 's) acme" where
  "acknowledge_dns01_challenge e c challenge_payload =
     acme_bind (acme_return (payload_str challenge_payload ''challenge_url'')) (\<lambda>challenge_url.
     acme_bind (\<lambda>s. (Inr (), if xc_dns_propagation_wait_seconds c > 0
         then acme_sleep e (xc_dns_propagation_wait_seconds c) s else s)) (\<lambda>_.
     acme_bind (account_url e c) (\<lambda>account.
     acme_bind (acme_context ''failed to acknowledge acme dns-01 challenge''
         (signed_post e c challenge_url (Some (jobj [])) (Kid account))) (\<lambda>response.
     acme_bind (acme_return (acme_ensure_success e response ''acknowledge acme dns-01 challenge'')) (\<lambda>_.
       acme_return (Inr ()))))))"

definition finalize_dns01_order :: "('s, 'k) acme_env \<Rightarrow> acme_config \<Rightarrow> queued_order \<Rightarrow> (issued_certificate_material, 's) acme" where
  "finalize_dns01_order e c order =
     acme_bind (acme_return (payload_str (qo_challenge_payload order) ''authorization_url'')) (\<lambda>authorization_url.
     acme_bind (poll_authorization_valid e c authorization_url) (\<lambda>_.
       finalize_and_download_certificate e c (qo_challenge_payload order) (qo_common_name order) (qo_sans order)))"

definition letsencrypt_acme_client :: "('s, 'k) acme_env \<Rightarrow> acme_config \<Rightarrow> 's acme_state acme_client" where
  "letsencrypt_acme_client e c =
     \<lparr>acme_prepare = prepare_dns01_challenge e c, acme_acknowledge = acknowledge_dns01_challenge e c,
      acme_finalize = finalize_dns01_order e c\<rparr>"

definition staging_directory :: string where
  "staging_directory = ''https://acme-staging-v02.api.letsencrypt.org/directory''"

definition build_acme_client ::
  "('s, 'k) acme_env \<Rightarrow> 's acme_state mock_env \<Rightarrow> process_env \<Rightarrow> (string \<Rightarrow> string option) \<Rightarrow> string \<Rightarrow>
   string + 's acme_state acme_client" where
  "build_acme_client e m env read_file mode =
     (let real = (\<lambda>url. result_bind (real_acme_config_from_env env read_file url) (\<lambda>c. Inr (letsencrypt_acme_client e c)))
      in if mode = ''mock'' then Inr (mock_acme_client m)
         else if mode = ''letsencrypt-staging'' then real staging_directory
         else if mode = ''letsencrypt-production'' then real ''https://acme-v02.api.letsencrypt.org/directory''
         else if mode = ''custom'' then real staging_directory
         else Inl (''unsupported acme mode: '' @ mode))"

subsection \<open>Caches\<close>

lemma advances_sleep [advancing]: "advances (\<lambda>s. (r, if b then acme_sleep e n s else s))"
  by (auto simp: advances_def acme_le_def acme_sleep_def Let_def)

lemma acme_poll_rule [case_names failed settled late again]:
  assumes failed: "\<And>s error s1. post_as_get_json e c decode url s = (Inl error, s1) \<Longrightarrow> P s (Inl error, s1)"
    and settled: "\<And>s x s1 outcome. post_as_get_json e c decode url s = (Inr x, s1) \<Longrightarrow> verdict x = Some outcome \<Longrightarrow> P s (outcome s1)"
    and late: "\<And>s x s1. post_as_get_json e c decode url s = (Inr x, s1) \<Longrightarrow> verdict x = None \<Longrightarrow> deadline \<le> as_time s1 \<Longrightarrow>
      P s (Inl message, s1)"
    and again: "\<And>s x s1 result. post_as_get_json e c decode url s = (Inr x, s1) \<Longrightarrow> verdict x = None \<Longrightarrow> as_time s1 < deadline \<Longrightarrow>
      P (acme_sleep e (max (xc_poll_interval_seconds c) 1) s1) result \<Longrightarrow> P s result"
  shows "P s (acme_poll e c deadline message decode url verdict s)"
proof (induction "deadline - as_time s" arbitrary: s rule: less_induct)
  case less
  obtain r s1 where fetch: "post_as_get_json e c decode url s = (r, s1)"
    by (cases "post_as_get_json e c decode url s")
  show ?case
  proof (cases "\<exists>x. r = Inr x \<and> verdict x = None \<and> as_time s1 < deadline")
    case True
    then obtain x where r: "r = Inr x" "verdict x = None" "as_time s1 < deadline" by blast
    let ?s2 = "acme_sleep e (max (xc_poll_interval_seconds c) 1) s1"
    have "deadline - as_time ?s2 < deadline - as_time s"
      using poll_step_later [OF fetch, of "xc_poll_interval_seconds c"] r(3) advancesD [OF advances_post_as_get_json fetch]
      by (simp add: acme_le_def diff_less_mono2)
    from less [OF this] have "P s (acme_poll e c deadline message decode url verdict ?s2)"
      by (rule again [OF fetch [unfolded r(1)] r(2,3)])
    with fetch r show ?thesis by (simp add: acme_poll.simps [of e c deadline message decode url verdict s])
  next
    case False
    with fetch failed settled late show ?thesis
      by (subst acme_poll.simps) (auto simp: not_less split: sum.splits option.splits)
  qed
qed

lemma advances_poll:
  assumes verdict: "\<And>resource outcome. verdict resource = Some outcome \<Longrightarrow> advances outcome"
  shows "advances (acme_poll e c deadline message decode url verdict)"
proof -
  note fetch = advancesD [OF advances_post_as_get_json]
  have "acme_le s (snd (acme_poll e c deadline message decode url verdict s))" for s
  proof (rule acme_poll_rule [where P = "\<lambda>s result. acme_le s (snd result)"])
    show "acme_le s (snd (outcome s1))"
      if "post_as_get_json e c decode url s = (Inr x, s1)" "verdict x = Some outcome" for s x s1 outcome
      using fetch [OF that(1)] verdict [OF that(2)] unfolding advances_def by (blast intro: acme_le_trans)
    show "acme_le s (snd result)"
      if "post_as_get_json e c decode url s = (Inr x, s1)"
        and "acme_le (acme_sleep e (max (xc_poll_interval_seconds c) 1) s1) (snd result)" for s x s1 result
    proof -
      have "acme_le s1 (acme_sleep e (max (xc_poll_interval_seconds c) 1) s1)"
        by (simp add: acme_le_def acme_sleep_def Let_def)
      with fetch [OF that(1)] that(2) show ?thesis by (blast intro: acme_le_trans)
    qed
  qed (auto dest: fetch)
  then show ?thesis by (simp add: advances_def)
qed

lemma advances_authorization [advancing]: "advances (poll_authorization_valid e c url)"
proof -
  have "advances (acme_poll e c deadline message decode_authorization url authorization_verdict)" for deadline message
    by (rule advances_poll)
      (auto simp: authorization_verdict_def Let_def split: if_splits intro: advancing)
  then show ?thesis by (simp add: advances_def poll_authorization_valid_def)
qed

lemma advances_order_verdict: "order_verdict e c key order = Some outcome \<Longrightarrow> advances outcome"
  by (auto simp: order_verdict_def Let_def split: if_splits intro!: advancing)

lemma advances_order_poll [advancing]:
  "advances (\<lambda>s. acme_poll e c (deadline s) message decode url (order_verdict e c key) s)"
proof -
  have "advances (acme_poll e c d message decode url (order_verdict e c key))" for d
    by (rule advances_poll) (rule advances_order_verdict)
  then show ?thesis by (simp add: advances_def)
qed

lemma advances_prepare [advancing]: "advances (prepare_dns01_challenge e c order)"
  unfolding prepare_dns01_challenge_def Let_def by (auto intro!: advancing)

lemma advances_acknowledge [advancing]: "advances (acknowledge_dns01_challenge e c payload)"
  unfolding acknowledge_dns01_challenge_def by (intro advancing)

lemma advances_finalize [advancing]: "advances (finalize_dns01_order e c order)"
  unfolding finalize_dns01_order_def finalize_and_download_certificate_def generate_certificate_csr_def
  by (intro advancing)

text \<open>The methods of the client as calls, made one after the other.\<close>

datatype acme_call = Prepare queued_order | Acknowledge json | Finalize queued_order

fun acme_call_state :: "('s, 'k) acme_env \<Rightarrow> acme_config \<Rightarrow> acme_call \<Rightarrow> 's acme_state \<Rightarrow> 's acme_state" where
  "acme_call_state e c (Prepare order) s = snd (acme_prepare (letsencrypt_acme_client e c) order s)"
| "acme_call_state e c (Acknowledge payload) s = snd (acme_acknowledge (letsencrypt_acme_client e c) payload s)"
| "acme_call_state e c (Finalize order) s = snd (acme_finalize (letsencrypt_acme_client e c) order s)"

lemma acme_call_le: "acme_le s (acme_call_state e c call s)"
  using advances_prepare [of e c] advances_acknowledge [of e c] advances_finalize [of e c]
  by (cases call) (simp_all add: letsencrypt_acme_client_def advances_def)

lemma acme_calls_le: "acme_le s (fold (acme_call_state e c) calls s)"
  by (induction calls arbitrary: s) (auto intro: acme_le_trans acme_call_le)

lemma account_url_cached:
  assumes "account_url e c s = (Inr url, s')"
  shows "as_account_url s' = Some url"
  using assms
  by (auto simp: account_url_def acme_bind_def split: option.splits prod.splits sum.splits)

subsection \<open>Time\<close>

definition exchanges_within :: "('s, 'k) acme_env \<Rightarrow> nat \<Rightarrow> bool" where
  "exchanges_within e n \<longleftrightarrow> (\<forall>request server. fst (snd (xe_send e request server)) \<le> n)"

lemma withinD: "within n m \<Longrightarrow> m s = (r, s') \<Longrightarrow> as_time s' \<le> as_time s + n"
  unfolding within_def by (metis snd_conv)

lemma within_mono: "within n m \<Longrightarrow> n \<le> k \<Longrightarrow> within k m"
  unfolding within_def by (meson add_left_mono order_trans)

lemma within_bind:
  assumes m: "within a m" and f: "\<And>x. within b (f x)"
  shows "within (a + b) (acme_bind m f)"
  unfolding within_def
proof
  fix s
  obtain r s1 where ms: "m s = (r, s1)" by (cases "m s")
  have "as_time (snd (f x s1)) \<le> as_time s1 + b" for x using f by (simp add: within_def)
  with withinD [OF m ms] show "as_time (snd (acme_bind m f s)) \<le> as_time s + (a + b)"
    by (cases r) (auto simp: acme_bind_def ms intro: order_trans add_mono simp flip: add.assoc)
qed

lemma within_return: "within 0 (acme_return r)"
  by (simp add: within_def acme_return_def)

lemma within_random: "within 0 (acme_random f)"
  by (simp add: within_def acme_random_def split: prod.split)

lemma within_context: "within n m \<Longrightarrow> within n (acme_context message m)"
  unfolding within_def [of n "acme_context message m"] acme_context_def
  by (auto dest: withinD split: prod.splits sum.splits)

lemma within_send: "exchanges_within e n \<Longrightarrow> within n (acme_send e request)"
  unfolding exchanges_within_def within_def acme_send_def by (simp add: case_prod_beta)

lemma within_store: "within 0 (\<lambda>s. (r, f s))" if "\<And>s. as_time (f s) = as_time s"
  using that by (simp add: within_def)

lemma within_directory:
  assumes "exchanges_within e n"
  shows "within n (acme_directory_of e c)"
proof -
  have "within (n + (0 + 0)) (acme_bind (acme_context ''failed to fetch acme directory'' (acme_send e (AcmeGet (xc_directory_url c)))) (\<lambda>response.
      acme_bind (acme_return (parse_json_response e decode_directory response ''fetch acme directory'')) (\<lambda>directory.
        \<lambda>s. (Inr directory, s\<lparr>as_directory := Some directory\<rparr>))))"
    by (intro within_bind within_context within_send assms within_return within_store) simp
  then show ?thesis by (auto simp: within_def acme_directory_of_def split: option.split)
qed

lemma within_nonce: "exchanges_within e n \<Longrightarrow> within (n + (n + 0)) (new_nonce e c)"
  unfolding new_nonce_def
  by (intro within_bind within_directory within_context within_send within_return)

lemma within_signed_post: "exchanges_within e n \<Longrightarrow> within (3 * n) (signed_post e c url payload identity)"
proof -
  assume n: "exchanges_within e n"
  have "within ((n + (n + 0)) + (0 + ((0 + 0) + n))) (signed_post e c url payload identity)"
    unfolding signed_post_def sign_compact_jws_def Let_def
    by (intro within_bind within_nonce within_context within_send within_return within_random n)
  then show ?thesis by (rule within_mono) simp
qed

lemma within_account_url:
  assumes n: "exchanges_within e n"
  shows "within (4 * n) (account_url e c)"
proof -
  have "within (n + (3 * n + (0 + (0 + 0)))) (acme_bind (acme_directory_of e c) (\<lambda>directory.
      acme_bind (acme_context ''failed to create or fetch acme account''
          (signed_post e c (ad_new_account directory) (Some (account_payload c)) Jwk)) (\<lambda>response.
      acme_bind (acme_return (acme_ensure_success e response ''create acme account'')) (\<lambda>response.
      acme_bind (acme_context ''acme newAccount response missing Location header''
          (acme_return (location_header response))) (\<lambda>url.
        \<lambda>s. (Inr url, s\<lparr>as_account_url := Some url\<rparr>))))))"
    by (intro within_bind within_directory within_context within_signed_post within_return within_store n) simp
  then show ?thesis by (auto simp: within_def account_url_def split: option.split)
qed

lemma within_post_as_get_json: "exchanges_within e n \<Longrightarrow> within (7 * n) (post_as_get_json e c decode url)"
proof -
  assume n: "exchanges_within e n"
  have "within (4 * n + (3 * n + 0)) (post_as_get_json e c decode url)"
    unfolding post_as_get_json_def
    by (intro within_bind within_account_url within_context within_signed_post within_return n)
  then show ?thesis by (rule within_mono) simp
qed

lemma within_post_as_get_text: "exchanges_within e n \<Longrightarrow> within (7 * n) (post_as_get_text e c url)"
proof -
  assume n: "exchanges_within e n"
  have "within (4 * n + (3 * n + 0)) (post_as_get_text e c url)"
    unfolding post_as_get_text_def
    by (intro within_bind within_account_url within_context within_signed_post within_return n)
  then show ?thesis by (rule within_mono) simp
qed

definition poll_budget :: "acme_config \<Rightarrow> nat" where
  "poll_budget c = 1000 * unat (max (xc_poll_timeout_seconds c) 1) + 1000 * unat (max (xc_poll_interval_seconds c) 1)"

lemma within_poll:
  assumes n: "exchanges_within e n" and late: "\<And>t. xe_late e t \<le> l"
    and verdict: "\<And>resource outcome. verdict resource = Some outcome \<Longrightarrow> within k outcome"
  shows "within (poll_budget c + l + 7 * n + k) (\<lambda>s. acme_poll e c (poll_deadline c s) message decode url verdict s)"
proof -
  let ?i = "1000 * unat (max (xc_poll_interval_seconds c) 1)"
  note fetch = withinD [OF within_post_as_get_json [OF n, of c decode url]]
  have "as_time (snd (acme_poll e c deadline message decode url verdict s)) \<le> max (as_time s) (deadline + ?i + l) + 7 * n + k"
    for deadline s
  proof (rule acme_poll_rule [where P = "\<lambda>s result. as_time (snd result) \<le> max (as_time s) (deadline + ?i + l) + 7 * n + k"],
      goal_cases)
    case (1 s error s1)
    from fetch [OF this] show ?case by simp
  next
    case (2 s x s1 outcome)
    from fetch [OF 2(1)] verdict [OF 2(2), unfolded within_def, rule_format, of s1] show ?case by simp
  next
    case (3 s x s1)
    from fetch [OF 3(1)] show ?case by simp
  next
    case (4 s x s1 result)
    have "as_time (acme_sleep e (max (xc_poll_interval_seconds c) 1) s1) \<le> deadline + ?i + l"
      using 4(3) late [of "as_time s1 + ?i"] by (simp add: acme_sleep_def Let_def)
    with 4(4) show ?case by simp
  qed
  note this [of "poll_deadline c s" s for s]
  then show ?thesis
    unfolding within_def by (simp add: poll_deadline_def poll_budget_def max_def add.assoc)
qed

subsection \<open>Sample server\<close>

text \<open>
  A server that answers every exchange after 200 milliseconds, with an order whose authorization stays
  pending; it may refuse new orders with a status of 429. The timers of this machine are 3 milliseconds late.
\<close>

definition sample_reply :: "nat \<Rightarrow> string option \<Rightarrow> json option \<Rightarrow> acme_response" where
  "sample_reply status location body =
     \<lparr>rs_status = status, rs_location = map_option Some location, rs_replay_nonce = Some (Some ''n1''),
      rs_text = Some ''busy'', rs_json = body\<rparr>"

definition sample_server :: "bool \<Rightarrow> acme_request \<Rightarrow> 's \<Rightarrow> (string + acme_response) \<times> nat \<times> 's" where
  "sample_server refuse request n =
     (Inr (case request of
         AcmeGet url \<Rightarrow> sample_reply 200 None (Some (JObject [(''newNonce'', JString ''nonce''),
           (''newAccount'', JString ''acct''), (''newOrder'', JString ''order'')]))
       | AcmeHead url \<Rightarrow> sample_reply 200 None None
       | AcmePost url body \<Rightarrow>
           if url = ''acct'' then sample_reply 201 (Some ''a/1'') None
           else if url = ''order'' then
             (if refuse then sample_reply 429 None None
              else sample_reply 201 (Some ''o/1'') (Some (JObject [(''status'', JString ''pending''),
                (''authorizations'', JArray [JString ''z/1'']), (''finalize'', JString ''f/1'')])))
           else sample_reply 200 None (Some (JObject [(''status'', JString ''pending''),
             (''identifier'', JObject [(''value'', JString ''a.io'')]),
             (''challenges'', JArray [JObject [(''type'', JString ''dns-01''), (''url'', JString ''c/1''), (''token'', JString ''t'')]])]))),
      200, n)"

definition sample_acme_env :: "bool \<Rightarrow> ('s, unit) acme_env" where
  "sample_acme_env refuse =
     \<lparr>xe_send = sample_server refuse, xe_late = (\<lambda>t. 3), xe_key_from_pem = (\<lambda>pem. Some ()),
      xe_key_from_pem_passphrase = (\<lambda>pem passphrase. None), xe_key_is_ec = (\<lambda>key. True), xe_key_is_p256 = (\<lambda>key. True),
      xe_key_point = (\<lambda>key. Some (''x'', ''y'')), xe_sign = (\<lambda>key input n. (Inr (''r'', ''s''), n)),
      xe_csr = (\<lambda>common_name names passphrase n. (Inr \<lparr>gr_csr_der = common_name, gr_key_pem_encrypted = ''key''\<rparr>, n)),
      xe_stack_from_pem = (\<lambda>pem. None), xe_parse_openssl_time = (\<lambda>t. None), xe_base64url = (\<lambda>t. CHR ''b'' # t),
      xe_sha256 = (\<lambda>t. t), xe_json_text = (\<lambda>v. ''{}''), xe_status_text = (\<lambda>status. ''429 Too Many Requests'')\<rparr>"

definition sample_acme_config :: acme_config where
  "sample_acme_config =
     \<lparr>xc_directory_url = ''dir'', xc_contact_email = None, xc_account_key_pem = ''pem'', xc_account_key_passphrase = None,
      xc_cert_key_passphrase = ''pw'', xc_dns_propagation_wait_seconds = 0, xc_poll_interval_seconds = 5,
      xc_poll_timeout_seconds = 20\<rparr>"

definition sample_acme_state :: "nat acme_state" where
  "sample_acme_state = \<lparr>as_directory = None, as_account_url = None, as_time = 0, as_server = 0\<rparr>"

definition sample_acme_order :: queued_order where
  "sample_acme_order =
     \<lparr>qo_order_id = 1, qo_site_id = None, qo_certificate_id = 2, qo_order_type = ''issue'', qo_acme_provider = ''custom'',
      qo_provider_type = ''noop'', qo_api_endpoint = None, qo_credentials = [], qo_zone_name = ''a.io'', qo_external_zone_id = ''z'',
      qo_challenge_payload = JObject [(''authorization_url'', JString ''z/1'')], qo_common_name = ''a.io'', qo_sans = [''a.io'']\<rparr>"

lemmas sample_acme_defs = sample_acme_env_def sample_acme_config_def sample_acme_state_def sample_acme_order_def

subsection \<open>Properties\<close>

text \<open>
  C17: Both polling loops of finalizing an order end, whatever the server answers. When every exchange with the server ends
  within \<open>n\<close> milliseconds and the timers of the machine are at most \<open>l\<close> milliseconds late, finalizing returns within
  twice the sum of polling timeout, polling interval and \<open>l\<close>, plus the time of 28 exchanges. (The bound on an
  exchange is a condition on the server and the network: the HTTP client has no timeout of its own, and
  a request that is never answered is not covered.)
\<close>

theorem finalize_in_time:
  assumes n: "exchanges_within e n" and late: "\<And>t. xe_late e t \<le> l"
  shows "as_time (snd (acme_finalize (letsencrypt_acme_client e c) order s)) \<le> as_time s + 2 * (poll_budget c + l) + 28 * n"
proof -
  have authorization: "within (poll_budget c + l + 7 * n + 0) (poll_authorization_valid e c url)" for url
    unfolding poll_authorization_valid_def [abs_def]
    by (rule within_poll [OF n late])
      (auto simp: authorization_verdict_def Let_def split: if_splits intro: within_return)
  have order: "within (7 * n) outcome" if "order_verdict e c key resource = Some outcome" for key resource outcome
    using that within_mono [OF within_return, of "7 * n"]
      within_bind [OF within_return within_bind [OF within_post_as_get_text [OF n] within_return]]
    by (auto simp: order_verdict_def Let_def split: if_splits)
  have "within (0 + ((poll_budget c + l + 7 * n + 0) +
      (0 + (0 + (0 + (4 * n + (3 * n + (0 + (poll_budget c + l + 7 * n + 7 * n))))))))) (finalize_dns01_order e c order)"
    unfolding finalize_dns01_order_def finalize_and_download_certificate_def generate_certificate_csr_def
    by (intro within_bind within_return authorization within_random within_account_url within_context within_signed_post
        within_poll n late order)
  then show ?thesis by (auto simp: within_def letsencrypt_acme_client_def dest!: spec [of _ s])
qed

theorem finalize_in_time_witness:
  "as_time (snd (acme_finalize (letsencrypt_acme_client (sample_acme_env False) sample_acme_config)
     sample_acme_order sample_acme_state)) \<le> 55606"
  using finalize_in_time [of "sample_acme_env False" 200 3 sample_acme_config sample_acme_order sample_acme_state]
  by (simp add: exchanges_within_def sample_acme_defs sample_server_def poll_budget_def)

text \<open>
  The account of the client is registered once: after \<open>account_url\<close> has succeeded, it answers the same
  from the cache, without a request, after any calls of the client.
\<close>

theorem account_registered_once:
  assumes "account_url e c s = (Inr url, s')"
  shows "account_url e c (fold (acme_call_state e c) calls s') = (Inr url, fold (acme_call_state e c) calls s')"
  using acme_calls_le [of s' e c calls] account_url_cached [OF assms] by (simp add: account_url_def acme_le_def)

theorem account_registered_once_witness:
  "account_url (sample_acme_env True) sample_acme_config sample_acme_state = (Inr ''a/1'',
     \<lparr>as_directory = Some \<lparr>ad_new_nonce = ''nonce'', ad_new_account = ''acct'', ad_new_order = ''order''\<rparr>,
      as_account_url = Some ''a/1'', as_time = 600, as_server = 0\<rparr>) \<and>
   fst (account_url (sample_acme_env True) sample_acme_config
     (fold (acme_call_state (sample_acme_env True) sample_acme_config) [Prepare sample_acme_order, Finalize sample_acme_order]
       (snd (account_url (sample_acme_env True) sample_acme_config sample_acme_state)))) = Inr ''a/1''"
proof -
  have "account_url (sample_acme_env True) sample_acme_config sample_acme_state = (Inr ''a/1'',
     \<lparr>as_directory = Some \<lparr>ad_new_nonce = ''nonce'', ad_new_account = ''acct'', ad_new_order = ''order''\<rparr>,
      as_account_url = Some ''a/1'', as_time = 600, as_server = 0\<rparr>)"
    by code_simp
  from account_registered_once [OF this, of "[Prepare sample_acme_order, Finalize sample_acme_order]"] this
  show ?thesis by simp
qed

lemma acme_bind_Inr:
  "acme_bind m f s = (Inr y, s') \<longleftrightarrow> (\<exists>x s1. m s = (Inr x, s1) \<and> f x s1 = (Inr y, s'))"
  by (auto simp: acme_bind_def split: prod.splits sum.splits)

text \<open>
  An order placed and its authorization fetched: a new order for one name is accepted with a body, and the
  authorization is the one at the first URL of the body.
\<close>

definition authorized ::
  "('s, 'k) acme_env \<Rightarrow> acme_config \<Rightarrow> string \<Rightarrow> 's acme_state \<Rightarrow> acme_response \<Rightarrow> acme_order \<Rightarrow> string \<Rightarrow>
   acme_authorization \<Rightarrow> 's acme_state \<Rightarrow> bool" where
  "authorized e c name s response body url authorization s' \<longleftrightarrow>
     (\<exists>directory s1 account s2 s3 more. acme_directory_of e c s = (Inr directory, s1) \<and> account_url e c s1 = (Inr account, s2) \<and>
        signed_post e c (ad_new_order directory) (Some (identifiers_payload [name])) (Kid account) s2 = (Inr response, s3) \<and>
        parse_json_response e decode_order response ''create acme order'' = Inr body \<and> ao_authorizations body = url # more \<and>
        post_as_get_json e c decode_authorization url s3 = (Inr authorization, s'))"

lemma set_unique_from: "set (unique_from xs vs) = set xs \<union> {v \<in> set vs. trim v \<noteq> []}"
  by (induction xs vs rule: unique_from.induct) auto

lemma acme_context_Inr: "acme_context message m s = (Inr x, s') \<longleftrightarrow> m s = (Inr x, s')"
  by (auto simp: acme_context_def split: prod.splits sum.splits)

lemma acme_return_Inr: "acme_return r s = (Inr x, s') \<longleftrightarrow> r = Inr x \<and> s' = s"
  by (auto simp: acme_return_def)

lemma ok_or_Inr_Some: "ok_or message x = Inr y \<longleftrightarrow> x = Some y"
  by (cases x) auto

lemma prepare_payload:
  assumes "prepare_dns01_challenge e c order s = (Inr payload, s')"
    and "\<not> has_prepared_dns_payload (qo_challenge_payload order)"
    and "{v \<in> insert (qo_common_name order) (set (qo_sans order)). trim v \<noteq> []} = {name}"
  obtains response body url authorization challenge token thumbprint order_url where
    "authorized e c name s response body url authorization s'" "location_header response = Inr order_url"
    "challenge \<in> set (az_challenges authorization)" "ah_kind challenge = ''dns-01''" "ah_token challenge = Some token"
    "jwk_thumbprint e c = Inr thumbprint"
    "payload = real_challenge_payload (qo_zone_name order) (az_identifier authorization)
       (xe_base64url e (xe_sha256 e (token @ ''.'' @ thumbprint))) order_url url (ah_url challenge) token (ao_finalize body)"
proof -
  let ?names = "unique_identifiers (qo_common_name order) (qo_sans order)"
  have single: "set ?names = {name}"
    unfolding unique_identifiers_def set_unique_from using assms(3) by simp
  have "length ?names = 1"
  proof (rule ccontr)
    assume "length ?names \<noteq> 1"
    with assms(1,2) show False by (simp add: prepare_dns01_challenge_def Let_def acme_return_def)
  qed
  then obtain v where v: "?names = [v]" by (metis One_nat_def length_0_conv length_Suc_conv)
  with single have names: "?names = [name]" by simp
  have first: "(case urls of [] \<Rightarrow> None | url # _ \<Rightarrow> Some url) = Some u \<longleftrightarrow> (\<exists>more. urls = u # more)" for urls and u :: string
    by (cases urls) auto
  from names assms(1,2) obtain directory s1 account s2 response s3 order_url body url more authorization challenge token thumbprint where run:
    "acme_directory_of e c s = (Inr directory, s1)" "account_url e c s1 = (Inr account, s2)"
    "signed_post e c (ad_new_order directory) (Some (identifiers_payload [name])) (Kid account) s2 = (Inr response, s3)"
    "location_header response = Inr order_url" "parse_json_response e decode_order response ''create acme order'' = Inr body"
    "ao_authorizations body = url # more" "post_as_get_json e c decode_authorization url s3 = (Inr authorization, s')"
    "List.find (\<lambda>challenge. ah_kind challenge = ''dns-01'') (az_challenges authorization) = Some challenge"
    "ah_token challenge = Some token" "jwk_thumbprint e c = Inr thumbprint"
    "payload = real_challenge_payload (qo_zone_name order) (az_identifier authorization)
       (xe_base64url e (xe_sha256 e (token @ ''.'' @ thumbprint))) order_url url (ah_url challenge) token (ao_finalize body)"
    by (auto simp: prepare_dns01_challenge_def Let_def acme_bind_Inr acme_return_Inr acme_context_Inr ok_or_Inr_Some first)
  have "authorized e c name s response body url authorization s'" unfolding authorized_def using run by blast
  moreover have "challenge \<in> set (az_challenges authorization)" "ah_kind challenge = ''dns-01''"
    using find_Some_in [OF run(8)] by simp_all
  ultimately show thesis using that run(4,9-11) by blast
qed

lemma real_challenge_payload_prepared:
  "has_prepared_dns_payload (real_challenge_payload zone_name identifier record_value order_url authorization_url
     challenge_url token finalize)"
  by (simp add: has_prepared_dns_payload_def real_challenge_payload_def)

lemma real_challenge_payload_challenge:
  assumes "trim record_value \<noteq> []"
  shows "challenge_from_payload disp order_id z ext (real_challenge_payload zone_name identifier record_value order_url
     authorization_url challenge_url token finalize) =
     Inr \<lparr>ac_zone_id = Some ext, ac_zone_name = zone_name, ac_fqdn = worker_record_name identifier,
       ac_value = record_value, ac_ttl = 60\<rparr>"
proof -
  have name: "trim (worker_record_name identifier) \<noteq> []"
    by (rule trim_nonempty [of "CHR ''_''"]) (simp_all add: worker_record_name_def)
  have kind: "to_ascii_uppercase ''TXT'' = ''TXT''" by code_simp
  show ?thesis
    using assms name kind
    by (simp add: challenge_from_payload_def decode_challenge_payload_def real_challenge_payload_def jobj_def
        map_of_sort_key_fst optional_field_def as_u32_def jnat_def Let_def)
qed

text \<open>
  C16: The challenge the client prepares is the one the authority asked for, and it can be presented. The client has ordered
  the name of the order and fetched the authorization of that order; the payload it returns is read by the worker as a TXT record
  in the zone of the order, at the ordered name without its wildcard below \<open>_acme-challenge\<close>, whose value is the
  digest of the token of a \<open>dns-01\<close> challenge of that authorization and the thumbprint of the account key. The
  payload also holds the URLs of the challenge, of the authorization, of the order and for its finalization,
  and once stored with the order it is used again without a request. An authorization names the ordered domain without the wildcard
  (RFC 8555, section 7.1.4), the name of the order has no second wildcard, and a digest is not blank.
\<close>

theorem prepared_challenge_presentable:
  assumes "acme_prepare (letsencrypt_acme_client e c) order s = (Inr payload, s')"
    and "\<not> has_prepared_dns_payload (qo_challenge_payload order)"
    and "{v \<in> insert (qo_common_name order) (set (qo_sans order)). trim v \<noteq> []} = {name}"
    and "domain = unwrap_or name (strip_prefix ''*.'' name)" "strip_prefix ''*.'' domain = None"
    and server: "\<And>response body url authorization. authorized e c name s response body url authorization s' \<Longrightarrow>
      az_identifier authorization = domain"
    and digest: "\<And>t. trim (xe_base64url e (xe_sha256 e t)) \<noteq> []"
  shows "(\<exists>response body url authorization challenge token thumbprint.
      authorized e c name s response body url authorization s' \<and>
      challenge \<in> set (az_challenges authorization) \<and> ah_kind challenge = ''dns-01'' \<and> ah_token challenge = Some token \<and>
      jwk_thumbprint e c = Inr thumbprint \<and>
      challenge_from_payload disp (qo_order_id order) (qo_zone_name order) (qo_external_zone_id order) payload =
        Inr \<lparr>ac_zone_id = Some (qo_external_zone_id order), ac_zone_name = qo_zone_name order,
          ac_fqdn = ''_acme-challenge.'' @ domain,
          ac_value = xe_base64url e (xe_sha256 e (token @ ''.'' @ thumbprint)), ac_ttl = 60\<rparr> \<and>
      json_get payload ''challenge_url'' = Some (JString (ah_url challenge)) \<and>
      json_get payload ''authorization_url'' = Some (JString url) \<and>
      json_get payload ''finalize_url'' = Some (JString (ao_finalize body)) \<and>
      (\<exists>order_url. rs_location response = Some (Some order_url) \<and> json_get payload ''order_url'' = Some (JString order_url))) \<and>
    acme_prepare (letsencrypt_acme_client e c) (order\<lparr>qo_challenge_payload := payload\<rparr>) t = (Inr payload, t)"
proof -
  have "prepare_dns01_challenge e c order s = (Inr payload, s')" using assms(1) by (simp add: letsencrypt_acme_client_def)
  from this assms(2,3) obtain response body url authorization challenge token thumbprint order_url where p:
    "authorized e c name s response body url authorization s'" "location_header response = Inr order_url"
    "challenge \<in> set (az_challenges authorization)" "ah_kind challenge = ''dns-01''" "ah_token challenge = Some token"
    "jwk_thumbprint e c = Inr thumbprint"
    "payload = real_challenge_payload (qo_zone_name order) (az_identifier authorization)
       (xe_base64url e (xe_sha256 e (token @ ''.'' @ thumbprint))) order_url url (ah_url challenge) token (ao_finalize body)"
    by (rule prepare_payload)
  have again: "prepare_dns01_challenge e c (order\<lparr>qo_challenge_payload := payload\<rparr>) t = (Inr payload, t)"
    unfolding p(7) by (simp add: prepare_dns01_challenge_def real_challenge_payload_prepared acme_return_def)
  have name: "worker_record_name (az_identifier authorization) = ''_acme-challenge.'' @ domain"
    unfolding server [OF p(1)] by (simp add: worker_record_name_def worker_dns_domain_def assms(5))
  have presented: "challenge_from_payload disp (qo_order_id order) (qo_zone_name order) (qo_external_zone_id order) payload =
        Inr \<lparr>ac_zone_id = Some (qo_external_zone_id order), ac_zone_name = qo_zone_name order,
          ac_fqdn = ''_acme-challenge.'' @ domain,
          ac_value = xe_base64url e (xe_sha256 e (token @ ''.'' @ thumbprint)), ac_ttl = 60\<rparr>"
    unfolding p(7) name [symmetric] by (rule real_challenge_payload_challenge) (rule digest)
  have urls: "json_get payload ''challenge_url'' = Some (JString (ah_url challenge))"
    "json_get payload ''authorization_url'' = Some (JString url)" "json_get payload ''finalize_url'' = Some (JString (ao_finalize body))"
    "json_get payload ''order_url'' = Some (JString order_url)" by (simp_all add: p(7) real_challenge_payload_def)
  have "rs_location response = Some (Some order_url)"
    using p(2) by (auto simp: location_header_def header_to_string_def result_bind_eq_Inr ok_or_Inr_Some)
  with p(1,3-6) presented urls show ?thesis
    unfolding letsencrypt_acme_client_def acme_client.select_convs
    by (intro conjI again exI [of _ response] exI [of _ body] exI [of _ url] exI [of _ authorization] exI [of _ challenge]
        exI [of _ token] exI [of _ thumbprint] exI [of _ order_url]) assumption+
qed

definition sample_payload :: json where
  "sample_payload = real_challenge_payload ''a.io'' ''a.io'' ''bt.b{}'' ''o/1'' ''z/1'' ''c/1'' ''t'' ''f/1''"

text \<open>An order for a wildcard name: the sample server authorizes the domain.\<close>

definition sample_wildcard_order :: queued_order where
  "sample_wildcard_order = sample_acme_order\<lparr>qo_common_name := ''*.a.io'', qo_sans := []\<rparr>"

lemma signed_post_sent:
  assumes "signed_post e c url payload identity s = (Inr response, s')"
  shows "\<exists>body server elapsed server'. xe_send e (AcmePost url body) server = (Inr response, elapsed, server')"
proof -
  from assms obtain body s1 where "acme_send e (AcmePost url body) s1 = (Inr response, s')"
    by (auto simp: signed_post_def acme_bind_Inr Let_def acme_context_Inr)
  then show ?thesis unfolding acme_send_def by (cases "xe_send e (AcmePost url body) (as_server s1)") auto
qed

lemma sample_server_authorizes:
  fixes s s' :: "'s acme_state"
  assumes "post_as_get_json (sample_acme_env refuse) c decode_authorization url s = (Inr authorization, s')"
  shows "az_identifier authorization = ''a.io''"
proof -
  from assms obtain account response s1 where
    post: "signed_post (sample_acme_env refuse) c url None (Kid account) s1 = (Inr response, s')"
    and json: "Option.bind (rs_json response) decode_authorization = Some authorization"
    by (auto simp: post_as_get_json_def acme_bind_Inr acme_context_Inr acme_return_def parse_json_response_def result_bind_eq_Inr
        ok_or_Inr_Some acme_ensure_success_def split: if_splits)
  from signed_post_sent [OF post] obtain body elapsed and server server' :: 's where
    "sample_server refuse (AcmePost url body) server = (Inr response, elapsed, server')" by (auto simp: sample_acme_env_def)
  with json show ?thesis
    by (auto simp: sample_server_def sample_reply_def decode_authorization_def decode_identifier_def required_field_def
        Option.bind_eq_Some_conv split: if_splits)
qed

theorem prepared_challenge_presentable_witness:
  "\<exists>s'. acme_prepare (letsencrypt_acme_client (sample_acme_env False) sample_acme_config) sample_wildcard_order sample_acme_state =
     (Inr sample_payload, s') \<and>
   (\<exists>ch. challenge_from_payload (\<lambda>i. ''u'') 1 ''a.io'' ''z'' sample_payload = Inr ch \<and> ac_fqdn ch = ''_acme-challenge.a.io'') \<and>
   acme_prepare (letsencrypt_acme_client (sample_acme_env False) sample_acme_config)
     (sample_wildcard_order\<lparr>qo_challenge_payload := sample_payload\<rparr>) sample_acme_state = (Inr sample_payload, sample_acme_state)"
proof -
  let ?client = "letsencrypt_acme_client (sample_acme_env False) sample_acme_config :: nat acme_state acme_client"
  have "fst (acme_prepare ?client sample_wildcard_order sample_acme_state) = Inr sample_payload" by code_simp
  then obtain s' where run: "acme_prepare ?client sample_wildcard_order sample_acme_state = (Inr sample_payload, s')"
    by (metis prod.collapse)
  have new: "\<not> has_prepared_dns_payload (qo_challenge_payload sample_wildcard_order)" by code_simp
  have "trim ''*.a.io'' \<noteq> []" by code_simp
  then have name: "{v \<in> insert (qo_common_name sample_wildcard_order) (set (qo_sans sample_wildcard_order)). trim v \<noteq> []} = {''*.a.io''}"
    by (auto simp: sample_wildcard_order_def)
  have domain: "''a.io'' = unwrap_or ''*.a.io'' (strip_prefix ''*.'' ''*.a.io'')" "strip_prefix ''*.'' ''a.io'' = None" by code_simp+
  have server: "az_identifier authorization = ''a.io''"
    if "authorized (sample_acme_env False) sample_acme_config ''*.a.io'' sample_acme_state response body url authorization s'"
    for response body url authorization
    using that sample_server_authorizes unfolding authorized_def by blast
  have digest: "trim (xe_base64url (sample_acme_env False) (xe_sha256 (sample_acme_env False) t)) \<noteq> []" for t
    by (rule trim_nonempty [of "CHR ''b''"]) (simp_all add: sample_acme_env_def)
  have order: "qo_order_id sample_wildcard_order = 1" "qo_zone_name sample_wildcard_order = ''a.io''" "qo_external_zone_id sample_wildcard_order = ''z''"
    by (simp_all add: sample_wildcard_order_def sample_acme_order_def)
  from prepared_challenge_presentable [OF run new name domain server digest, where disp = "\<lambda>i. ''u''" and t = sample_acme_state, unfolded order] run
  show ?thesis by fastforce
qed

text \<open>
  C23: When the server refuses a new order, the reason is lost: the client looks for the Location header
  before it looks at the status, so an error response, which has no such header, is reported as a
  missing header, without the status and the body of the response.
\<close>

theorem refused_order_hides_reason:
  assumes "\<not> has_prepared_dns_payload (qo_challenge_payload order)"
    and "unique_identifiers (qo_common_name order) (qo_sans order) = [identifier]"
    and "as_directory s = Some directory" and "as_account_url s = Some url"
    and "signed_post e c (ad_new_order directory) (Some (identifiers_payload [identifier])) (Kid url) s = (Inr response, s')"
    and "\<not> acme_success response" and "rs_location response = None"
  shows "acme_prepare (letsencrypt_acme_client e c) order s =
     (Inl ''acme newOrder response missing Location header'', s')"
  using assms
  by (simp add: letsencrypt_acme_client_def prepare_dns01_challenge_def acme_bind_def acme_directory_of_def account_url_def
      acme_context_def acme_return_def location_header_def header_to_string_def)

definition sample_known_state :: "nat acme_state" where
  "sample_known_state =
     \<lparr>as_directory = Some \<lparr>ad_new_nonce = ''nonce'', ad_new_account = ''acct'', ad_new_order = ''order''\<rparr>,
      as_account_url = Some ''a/1'', as_time = 600, as_server = 0\<rparr>"

theorem refused_order_hides_reason_witness:
  "fst (signed_post (sample_acme_env True) sample_acme_config ''order'' (Some (identifiers_payload [''a.io''])) (Kid ''a/1'')
     sample_known_state) = Inr (sample_reply 429 None None) \<and>
   fst (acme_prepare (letsencrypt_acme_client (sample_acme_env True) sample_acme_config) sample_acme_order sample_known_state) =
     Inl ''acme newOrder response missing Location header''"
proof -
  have fst: "fst (signed_post (sample_acme_env True) sample_acme_config ''order'' (Some (identifiers_payload [''a.io''])) (Kid ''a/1'')
     sample_known_state) = Inr (sample_reply 429 None None)"
    by code_simp
  have "\<not> has_prepared_dns_payload (qo_challenge_payload sample_acme_order)"
    "unique_identifiers (qo_common_name sample_acme_order) (qo_sans sample_acme_order) = [''a.io'']" by code_simp+
  note refused = refused_order_hides_reason [OF this, of sample_known_state
      "\<lparr>ad_new_nonce = ''nonce'', ad_new_account = ''acct'', ad_new_order = ''order''\<rparr>" "''a/1''"
      "sample_acme_env True" sample_acme_config "sample_reply 429 None None"]
  obtain s' where "signed_post (sample_acme_env True) sample_acme_config ''order'' (Some (identifiers_payload [''a.io'']))
      (Kid ''a/1'') sample_known_state = (Inr (sample_reply 429 None None), s')"
    using fst by (metis prod.collapse)
  with refused [of s'] fst show ?thesis
    by (simp add: sample_known_state_def acme_success_def sample_reply_def)
qed

end
