(* ===== verification/Pg_Store.thy ===== *)
theory Pg_Store
  imports Hub_Store Worker_Common
begin

text \<open>
  \<open>PostgresRepository\<close> (\<open>apps/hub-api/src/store.rs\<close>), the repository of the hub in a database: one
  definition per method, over the columns the hub reads, as lists of rows. The schema is that of
  \<open>migrations\<close>: deleting a row deletes or clears what refers to it, and a template that is in use cannot be
  deleted. A statement that violates another constraint is one of those that fail.

  \<open>pg_env\<close> has what is outside: which statements fail, how the database prints an address (\<open>inet\<close>) and the JSON
  of a release bundle. Texts are ordered by their characters, as in the collation \<open>C\<close>, and a JSON column gives
  back the value that was written.
\<close>

subsection \<open>Tables\<close>

record pg_node =
  qn_id :: uuid
  qn_node_code :: string
  qn_name :: string
  qn_region :: string
  qn_idc :: string
  qn_labels :: json
  qn_hostname :: "string option"
  qn_public_ip :: "string option"
  qn_private_ip :: "string option"
  qn_status :: string
  qn_pingora_version :: "string option"
  qn_agent_version :: "string option"
  qn_last_seen_at :: "datetime option"

record pg_heartbeat =
  qh_node_id :: uuid
  qh_active_config_version :: "string option"
  qh_site_count :: int
  qh_health_score :: int
  qh_reported_at :: datetime

record pg_site =
  qs_id :: uuid
  qs_site_code :: string
  qs_name :: string
  qs_domain :: string
  qs_listen_port :: int
  qs_protocol :: string
  qs_tls_enabled :: bool
  qs_status :: string

record pg_site_config =
  qc_site_id :: uuid
  qc_version :: int
  qc_config_json :: json

record pg_binding =
  qb_site_id :: uuid
  qb_node_id :: uuid
  qb_binding_role :: string
  qb_priority :: int

record pg_release =
  ql_id :: uuid
  ql_scope_type :: string
  ql_scope_id :: "uuid option"
  ql_release_type :: string
  ql_release_version :: string
  ql_manifest_json :: json
  ql_reason :: "string option"
  ql_status :: string
  ql_created_at :: datetime

record pg_release_status =
  qr_release_id :: uuid
  qr_node_id :: uuid
  qr_target_version :: string
  qr_ack :: node_ack_record

record pg_policy =
  qp_id :: uuid
  qp_scope_type :: string
  qp_scope_id :: uuid
  qp_primary_node_id :: uuid
  qp_standby_node_id :: uuid
  qp_status :: string

record pg_event =
  qf_id :: uuid
  qf_policy_id :: uuid
  qf_source_node_id :: uuid
  qf_target_node_id :: uuid

record pg_certificate =
  qt_id :: uuid
  qt_cert_code :: string
  qt_common_name :: string
  qt_sans :: json
  qt_fingerprint_sha256 :: string
  qt_status :: string
  qt_not_after :: "datetime option"
  qt_created_at :: datetime

record pg_certificate_version =
  qv_certificate_id :: uuid
  qv_version :: int
  qv_cert_pem :: string
  qv_key_pem_encrypted :: string
  qv_chain_pem :: "string option"

record pg_cert_binding =
  qx_site_id :: uuid
  qx_certificate_id :: uuid
  qx_version :: int
  qx_is_default :: bool
  qx_created_at :: datetime

record pg_order =
  qe_id :: uuid
  qe_site_id :: "uuid option"
  qe_certificate_id :: "uuid option"
  qe_zone_id :: "uuid option"
  qe_order_type :: string
  qe_acme_provider :: string
  qe_challenge_type :: string
  qe_challenge_payload :: json
  qe_order_status :: string
  qe_error_message :: "string option"
  qe_created_at :: datetime

text \<open>
  The tables of providers, zones, users, sessions, templates and operations have the columns of the records of the
  repository; credentials are the node and the digest of its bootstrap token.
\<close>

record pg_state =
  pt_nodes :: "pg_node list"
  pt_credentials :: "(uuid \<times> string option) list"
  pt_heartbeats :: "pg_heartbeat list"
  pt_sites :: "pg_site list"
  pt_site_configs :: "pg_site_config list"
  pt_bindings :: "pg_binding list"
  pt_releases :: "pg_release list"
  pt_release_status :: "pg_release_status list"
  pt_policies :: "pg_policy list"
  pt_events :: "pg_event list"
  pt_dns_providers :: "dns_provider_record list"
  pt_dns_zones :: "dns_zone_record list"
  pt_certificates :: "pg_certificate list"
  pt_certificate_versions :: "pg_certificate_version list"
  pt_cert_bindings :: "pg_cert_binding list"
  pt_certificate_orders :: "pg_order list"
  pt_admin_users :: "admin_user_record list"
  pt_admin_sessions :: "admin_session_record list"
  pt_templates :: "operation_template_record list"
  pt_operations :: "node_operation_record list"

record pg_env =
  pe_fails :: failures
  pe_inet_text :: "string \<Rightarrow> string option"
  pe_bundle_json :: "compiled_config_bundle \<Rightarrow> json"
  pe_bundle_of_json :: "json \<Rightarrow> compiled_config_bundle option"

type_synonym ('a, 'x) pg = "('a, pg_state, 'x) effect"

text \<open>\<open>INSERT ... ON CONFLICT (key) DO UPDATE\<close>, a row by its key, and a statement that may be refused.\<close>

definition upsert :: "('r \<Rightarrow> 'k) \<Rightarrow> ('r \<Rightarrow> 'r \<Rightarrow> 'r) \<Rightarrow> 'r \<Rightarrow> 'r list \<Rightarrow> 'r list" where
  "upsert key merge row rows =
     (if list_ex (\<lambda>r. key r = key row) rows
      then map (\<lambda>r. if key r = key row then merge r row else r) rows else rows @ [row])"

definition row_by :: "('r \<Rightarrow> 'k) \<Rightarrow> 'k \<Rightarrow> 'r list \<Rightarrow> 'r option" where
  "row_by key k rows = List.find (\<lambda>r. key r = k) rows"

definition update_rows :: "('r \<Rightarrow> bool) \<Rightarrow> ('r \<Rightarrow> 'r) \<Rightarrow> 'r list \<Rightarrow> 'r list" where
  "update_rows P f rows = map (\<lambda>r. if P r then f r else r) rows"

definition sql_check :: "failures \<Rightarrow> ('t \<Rightarrow> string + 't) \<Rightarrow> (unit, 't, 'x) effect" where
  "sql_check fails f w =
     (case fails (w_clock w) of
        Some error \<Rightarrow> (Inl error, w\<lparr>w_clock := Suc (w_clock w)\<rparr>)
      | None \<Rightarrow> (case f (w_db w) of
          Inl error \<Rightarrow> (Inl error, w\<lparr>w_clock := Suc (w_clock w)\<rparr>)
        | Inr db \<Rightarrow> (Inr (), w\<lparr>w_db := db, w_clock := Suc (w_clock w)\<rparr>)))"

subsection \<open>Administrators\<close>

definition pg_save_admin_user :: "pg_env \<Rightarrow> admin_user_record \<Rightarrow> (unit, 'x) pg" where
  "pg_save_admin_user e user = sql_exec (pe_fails e) (\<lambda>db. db\<lparr>pt_admin_users :=
     upsert au_username (\<lambda>old new. old\<lparr>au_display_name := au_display_name new, au_password_hash := au_password_hash new,
       au_status := au_status new, au_last_login_at := au_last_login_at new\<rparr>) user (pt_admin_users db)\<rparr>)"

definition pg_admin_user_by_username :: "pg_env \<Rightarrow> string \<Rightarrow> (admin_user_record option, 'x) pg" where
  "pg_admin_user_by_username e username = sql_query (pe_fails e) (\<lambda>db. row_by au_username username (pt_admin_users db))"

definition pg_touch_admin_user_login :: "pg_env \<Rightarrow> uuid \<Rightarrow> datetime \<Rightarrow> (unit, 'x) pg" where
  "pg_touch_admin_user_login e user_id last_login_at = sql_exec (pe_fails e) (\<lambda>db. db\<lparr>pt_admin_users :=
     update_rows (\<lambda>u. au_user_id u = user_id) (\<lambda>u. u\<lparr>au_last_login_at := Some last_login_at\<rparr>) (pt_admin_users db)\<rparr>)"

definition pg_save_admin_session :: "pg_env \<Rightarrow> admin_session_record \<Rightarrow> (unit, 'x) pg" where
  "pg_save_admin_session e session = sql_exec (pe_fails e) (\<lambda>db. db\<lparr>pt_admin_sessions :=
     upsert as_session_token_hash (\<lambda>old new. old\<lparr>as_user_id := as_user_id new, as_expires_at := as_expires_at new,
       as_last_seen_at := as_last_seen_at new\<rparr>) session (pt_admin_sessions db)\<rparr>)"

definition pg_admin_session_by_token_hash :: "pg_env \<Rightarrow> string \<Rightarrow> (admin_session_context option, 'x) pg" where
  "pg_admin_session_by_token_hash e session_token_hash = sql_query (pe_fails e) (\<lambda>db.
     Option.bind (row_by as_session_token_hash session_token_hash (pt_admin_sessions db)) (\<lambda>s.
     Option.bind (row_by au_user_id (as_user_id s) (pt_admin_users db)) (\<lambda>u.
       Some \<lparr>sc_user_id = as_user_id s, sc_username = au_username u, sc_display_name = au_display_name u,
         sc_status = au_status u, sc_expires_at = as_expires_at s\<rparr>)))"

definition pg_touch_admin_session :: "pg_env \<Rightarrow> string \<Rightarrow> datetime \<Rightarrow> (unit, 'x) pg" where
  "pg_touch_admin_session e session_token_hash last_seen_at = sql_exec (pe_fails e) (\<lambda>db. db\<lparr>pt_admin_sessions :=
     update_rows (\<lambda>s. as_session_token_hash s = session_token_hash) (\<lambda>s. s\<lparr>as_last_seen_at := last_seen_at\<rparr>)
       (pt_admin_sessions db)\<rparr>)"

definition pg_delete_admin_session :: "pg_env \<Rightarrow> string \<Rightarrow> (unit, 'x) pg" where
  "pg_delete_admin_session e session_token_hash = sql_exec (pe_fails e) (\<lambda>db. db\<lparr>pt_admin_sessions :=
     filter (\<lambda>s. as_session_token_hash s \<noteq> session_token_hash) (pt_admin_sessions db)\<rparr>)"

definition pg_delete_admin_sessions_for_user :: "pg_env \<Rightarrow> uuid \<Rightarrow> string option \<Rightarrow> (unit, 'x) pg" where
  "pg_delete_admin_sessions_for_user e user_id exclude_session_token_hash = sql_exec (pe_fails e) (\<lambda>db. db\<lparr>pt_admin_sessions :=
     (case exclude_session_token_hash of
        Some keep \<Rightarrow> filter (\<lambda>s. \<not> (as_user_id s = user_id \<and> as_session_token_hash s \<noteq> keep)) (pt_admin_sessions db)
      | None \<Rightarrow> filter (\<lambda>s. as_user_id s \<noteq> user_id) (pt_admin_sessions db))\<rparr>)"

subsection \<open>DNS providers and zones\<close>

definition pg_save_dns_provider :: "pg_env \<Rightarrow> dns_provider_record \<Rightarrow> (unit, 'x) pg" where
  "pg_save_dns_provider e provider = sql_exec (pe_fails e) (\<lambda>db. db\<lparr>pt_dns_providers :=
     upsert dp_provider_id (\<lambda>old new. new\<lparr>dp_created_at := dp_created_at old\<rparr>) provider (pt_dns_providers db)\<rparr>)"

definition clear_zones :: "(uuid \<Rightarrow> bool) \<Rightarrow> pg_order list \<Rightarrow> pg_order list" where
  "clear_zones gone orders =
     update_rows (\<lambda>o'. case qe_zone_id o' of None \<Rightarrow> False | Some z \<Rightarrow> gone z) (\<lambda>o'. o'\<lparr>qe_zone_id := None\<rparr>) orders"

definition pg_delete_dns_provider :: "pg_env \<Rightarrow> uuid \<Rightarrow> (unit, 'x) pg" where
  "pg_delete_dns_provider e provider_id = sql_exec (pe_fails e) (\<lambda>db.
     if list_ex (\<lambda>provider. dp_provider_id provider = provider_id) (pt_dns_providers db)
     then db\<lparr>pt_dns_providers := filter (\<lambda>provider. dp_provider_id provider \<noteq> provider_id) (pt_dns_providers db),
       pt_dns_zones := filter (\<lambda>zone. dz_provider_id zone \<noteq> provider_id) (pt_dns_zones db),
       pt_certificate_orders := clear_zones (\<lambda>z. list_ex (\<lambda>zone. dz_zone_id zone = z \<and> dz_provider_id zone = provider_id)
         (pt_dns_zones db)) (pt_certificate_orders db)\<rparr>
     else db)"

definition pg_dns_provider :: "pg_env \<Rightarrow> uuid \<Rightarrow> (dns_provider_record option, 'x) pg" where
  "pg_dns_provider e provider_id = sql_query (pe_fails e) (\<lambda>db. row_by dp_provider_id provider_id (pt_dns_providers db))"

definition pg_dns_provider_by_name :: "pg_env \<Rightarrow> string \<Rightarrow> (dns_provider_record option, 'x) pg" where
  "pg_dns_provider_by_name e name = sql_query (pe_fails e) (\<lambda>db. row_by dp_name name (pt_dns_providers db))"

definition pg_list_dns_providers :: "pg_env \<Rightarrow> (dns_provider_record list, 'x) pg" where
  "pg_list_dns_providers e = sql_query (pe_fails e) (\<lambda>db. sort_key (\<lambda>provider. - dp_created_at provider) (pt_dns_providers db))"

definition pg_save_dns_zone :: "pg_env \<Rightarrow> dns_zone_record \<Rightarrow> (unit, 'x) pg" where
  "pg_save_dns_zone e zone = sql_exec (pe_fails e) (\<lambda>db. db\<lparr>pt_dns_zones :=
     upsert (\<lambda>z. (dz_provider_id z, dz_zone_name z))
       (\<lambda>old new. old\<lparr>dz_external_zone_id := dz_external_zone_id new, dz_status := dz_status new\<rparr>) zone (pt_dns_zones db)\<rparr>)"

definition pg_dns_zone :: "pg_env \<Rightarrow> uuid \<Rightarrow> (dns_zone_record option, 'x) pg" where
  "pg_dns_zone e zone_id = sql_query (pe_fails e) (\<lambda>db. row_by dz_zone_id zone_id (pt_dns_zones db))"

definition pg_dns_zone_by_provider_name :: "pg_env \<Rightarrow> uuid \<Rightarrow> string \<Rightarrow> (dns_zone_record option, 'x) pg" where
  "pg_dns_zone_by_provider_name e provider_id zone_name = sql_query (pe_fails e) (\<lambda>db.
     row_by (\<lambda>z. (dz_provider_id z, dz_zone_name z)) (provider_id, zone_name) (pt_dns_zones db))"

definition pg_list_dns_zones :: "pg_env \<Rightarrow> (dns_zone_record list, 'x) pg" where
  "pg_list_dns_zones e = sql_query (pe_fails e) (\<lambda>db. sort_key (\<lambda>zone. - dz_created_at zone) (pt_dns_zones db))"

definition pg_delete_dns_zone :: "pg_env \<Rightarrow> uuid \<Rightarrow> (unit, 'x) pg" where
  "pg_delete_dns_zone e zone_id = sql_exec (pe_fails e) (\<lambda>db.
     db\<lparr>pt_dns_zones := filter (\<lambda>zone. dz_zone_id zone \<noteq> zone_id) (pt_dns_zones db),
       pt_certificate_orders := clear_zones (\<lambda>z. z = zone_id) (pt_certificate_orders db)\<rparr>)"

subsection \<open>Certificates\<close>

definition pg_save_certificate :: "pg_env \<Rightarrow> certificate_record \<Rightarrow> (unit, 'x) pg" where
  "pg_save_certificate e certificate = sql_exec (pe_fails e) (\<lambda>db. db\<lparr>pt_certificates :=
     upsert qt_id (\<lambda>old new. new\<lparr>qt_created_at := qt_created_at old\<rparr>)
       \<lparr>qt_id = ct_certificate_id certificate, qt_cert_code = ct_cert_code certificate,
        qt_common_name = ct_common_name certificate, qt_sans = JArray (map JString (ct_sans certificate)),
        qt_fingerprint_sha256 = ct_fingerprint_sha256 certificate, qt_status = ct_status certificate,
        qt_not_after = ct_expires_at certificate, qt_created_at = ct_created_at certificate\<rparr> (pt_certificates db)\<rparr>)"

fun json_strings :: "json list \<Rightarrow> string list option" where
  "json_strings [] = Some []"
| "json_strings (v # vs) = Option.bind (as_str v) (\<lambda>s. map_option ((#) s) (json_strings vs))"

definition pg_site_certificates :: "pg_env \<Rightarrow> uuid \<Rightarrow> (certificate_ref list, 'x) pg" where
  "pg_site_certificates e site_id = sql_query (pe_fails e) (\<lambda>db.
     concat (map (\<lambda>b. concat (map (\<lambda>c. map (\<lambda>v.
           \<lparr>ce_certificate_id = qt_id c, ce_version = qx_version b, ce_common_name = qt_common_name c,
            ce_sans = unwrap_or [] (Option.bind (as_array (qt_sans c)) json_strings), ce_expires_at = qt_not_after c,
            ce_cert_pem = qv_cert_pem v, ce_key_pem_encrypted = qv_key_pem_encrypted v, ce_chain_pem = qv_chain_pem v\<rparr>)
         (filter (\<lambda>v. qv_certificate_id v = qx_certificate_id b \<and> qv_version v = qx_version b) (pt_certificate_versions db)))
       (filter (\<lambda>c. qt_id c = qx_certificate_id b) (pt_certificates db))))
     (sort_key (\<lambda>b. - qx_created_at b) (filter (\<lambda>b. qx_site_id b = site_id \<and> qx_is_default b) (pt_cert_bindings db)))))"

definition pg_save_certificate_order :: "pg_env \<Rightarrow> certificate_order_record \<Rightarrow> (unit, 'x) pg" where
  "pg_save_certificate_order e order = sql_exec (pe_fails e) (\<lambda>db. db\<lparr>pt_certificate_orders :=
     upsert qe_id (\<lambda>old new. new\<lparr>qe_created_at := qe_created_at old\<rparr>)
       \<lparr>qe_id = co_order_id order, qe_site_id = co_site_id order, qe_certificate_id = co_certificate_id order,
        qe_zone_id = Some (co_zone_id order), qe_order_type = co_order_type order, qe_acme_provider = co_acme_provider order,
        qe_challenge_type = co_challenge_type order, qe_challenge_payload = co_challenge_payload order,
        qe_order_status = co_order_status order, qe_error_message = co_error_message order,
        qe_created_at = co_created_at order\<rparr> (pt_certificate_orders db)\<rparr>)"

text \<open>A row as a record; \<open>Row::get\<close> panics on a zone that was cleared, which ends the request.\<close>

definition order_of_row :: "pg_state \<Rightarrow> pg_order \<Rightarrow> string + certificate_order_record" where
  "order_of_row db row =
     result_bind (ok_or ''unexpected null; try decoding as an Option'' (qe_zone_id row)) (\<lambda>zone_id.
       Inr \<lparr>co_order_id = qe_id row, co_site_id = qe_site_id row, co_certificate_id = qe_certificate_id row,
         co_zone_id = zone_id, co_order_type = qe_order_type row, co_acme_provider = qe_acme_provider row,
         co_challenge_type = qe_challenge_type row, co_challenge_payload = qe_challenge_payload row,
         co_order_status = qe_order_status row, co_error_message = qe_error_message row,
         co_certificate_expires_at = Option.bind (qe_certificate_id row) (\<lambda>c.
           Option.bind (row_by qt_id c (pt_certificates db)) qt_not_after),
         co_created_at = qe_created_at row\<rparr>)"

fun results :: "('e + 'a) list \<Rightarrow> 'e + 'a list" where
  "results [] = Inr []"
| "results (r # rs) = result_bind r (\<lambda>x. result_bind (results rs) (\<lambda>xs. Inr (x # xs)))"

definition pg_certificate_order :: "pg_env \<Rightarrow> uuid \<Rightarrow> (certificate_order_record option, 'x) pg" where
  "pg_certificate_order e order_id =
     eff_bind (sql_query (pe_fails e) (\<lambda>db. map_option (order_of_row db) (row_by qe_id order_id (pt_certificate_orders db)))) (\<lambda>row.
       eff_return (case row of None \<Rightarrow> Inr None | Some r \<Rightarrow> result_bind r (\<lambda>order. Inr (Some order))))"

definition pg_list_certificate_orders :: "pg_env \<Rightarrow> (certificate_order_record list, 'x) pg" where
  "pg_list_certificate_orders e =
     eff_bind (sql_query (pe_fails e) (\<lambda>db.
       map (order_of_row db) (sort_key (\<lambda>o'. - qe_created_at o') (pt_certificate_orders db)))) (\<lambda>rows.
       eff_return (results rows))"

subsection \<open>Operation templates and node operations\<close>

definition i32_limit :: u32 where
  "i32_limit = 2147483647"

definition pg_save_operation_template :: "pg_env \<Rightarrow> operation_template_record \<Rightarrow> (unit, 'x) pg" where
  "pg_save_operation_template e template = sql_exec (pe_fails e) (\<lambda>db. db\<lparr>pt_templates :=
     upsert tp_template_id (\<lambda>old new. new\<lparr>tp_created_at := tp_created_at old\<rparr>)
       (template\<lparr>tp_timeout_seconds := min (tp_timeout_seconds template) i32_limit\<rparr>) (pt_templates db)\<rparr>)"

definition pg_operation_template :: "pg_env \<Rightarrow> uuid \<Rightarrow> (operation_template_record option, 'x) pg" where
  "pg_operation_template e template_id = sql_query (pe_fails e) (\<lambda>db. row_by tp_template_id template_id (pt_templates db))"

definition pg_operation_template_by_name :: "pg_env \<Rightarrow> string \<Rightarrow> (operation_template_record option, 'x) pg" where
  "pg_operation_template_by_name e name = sql_query (pe_fails e) (\<lambda>db. row_by tp_name name (pt_templates db))"

definition pg_list_operation_templates :: "pg_env \<Rightarrow> (operation_template_record list, 'x) pg" where
  "pg_list_operation_templates e = sql_query (pe_fails e) (\<lambda>db.
     sort_key (\<lambda>t. - tp_created_at t) (sort_key tp_name (pt_templates db)))"

definition pg_delete_operation_template :: "pg_env \<Rightarrow> uuid \<Rightarrow> (unit, 'x) pg" where
  "pg_delete_operation_template e template_id = sql_check (pe_fails e) (\<lambda>db.
     if list_ex (\<lambda>o'. op_template_id o' = template_id) (pt_operations db)
     then Inl ''update or delete on table operation_templates violates foreign key constraint''
     else Inr (db\<lparr>pt_templates := filter (\<lambda>t. tp_template_id t \<noteq> template_id) (pt_templates db)\<rparr>))"

definition pg_save_node_operation :: "pg_env \<Rightarrow> node_operation_record \<Rightarrow> (unit, 'x) pg" where
  "pg_save_node_operation e operation = sql_exec (pe_fails e) (\<lambda>db. db\<lparr>pt_operations :=
     upsert op_operation_id (\<lambda>old new. new\<lparr>op_node_id := op_node_id old, op_template_id := op_template_id old,
       op_event_id := op_event_id old, op_created_at := op_created_at old\<rparr>) operation (pt_operations db)\<rparr>)"

definition pg_node_operation :: "pg_env \<Rightarrow> uuid \<Rightarrow> (node_operation_record option, 'x) pg" where
  "pg_node_operation e operation_id = sql_query (pe_fails e) (\<lambda>db. row_by op_operation_id operation_id (pt_operations db))"

definition pg_list_node_operations :: "pg_env \<Rightarrow> uuid \<Rightarrow> (node_operation_record list, 'x) pg" where
  "pg_list_node_operations e node_id = sql_query (pe_fails e) (\<lambda>db.
     sort_key (\<lambda>o'. - op_created_at o') (filter (\<lambda>o'. op_node_id o' = node_id) (pt_operations db)))"

definition claimable_operation :: "uuid \<Rightarrow> pg_state \<Rightarrow> (node_operation_record \<times> operation_template_record) option" where
  "claimable_operation node_id db =
     (case List.map_filter (\<lambda>o'. map_option (Pair o') (row_by tp_template_id (op_template_id o') (pt_templates db)))
         (sort_key op_created_at (filter (\<lambda>o'. op_node_id o' = node_id \<and> op_exec_status o' = ''approved'') (pt_operations db))) of
        [] \<Rightarrow> None | claim # _ \<Rightarrow> Some claim)"

definition pg_claim_next_node_operation :: "pg_env \<Rightarrow> datetime \<Rightarrow> uuid \<Rightarrow> (claimed_node_operation option, 'x) pg" where
  "pg_claim_next_node_operation e started_at node_id = transaction (pe_fails e)
     (eff_bind (sql_query (pe_fails e) (claimable_operation node_id)) (\<lambda>row.
        case row of
          None \<Rightarrow> eff_return (Inr None)
        | Some (operation, template) \<Rightarrow>
            eff_bind (sql_exec (pe_fails e) (\<lambda>db. db\<lparr>pt_operations :=
              update_rows (\<lambda>o'. op_operation_id o' = op_operation_id operation)
                (\<lambda>o'. o'\<lparr>op_exec_status := ''running'', op_started_at := Some (unwrap_or started_at (op_started_at o'))\<rparr>)
                (pt_operations db)\<rparr>)) (\<lambda>_.
              eff_return (Inr (Some \<lparr>cl_operation = operation\<lparr>op_exec_status := ''running'', op_started_at := Some started_at\<rparr>,
                cl_template = template\<rparr>)))))"

definition pg_update_node_operation :: "pg_env \<Rightarrow> node_operation_record \<Rightarrow> (unit, 'x) pg" where
  "pg_update_node_operation e operation = sql_exec (pe_fails e) (\<lambda>db. db\<lparr>pt_operations :=
     update_rows (\<lambda>o'. op_operation_id o' = op_operation_id operation)
       (\<lambda>o'. o'\<lparr>op_exec_status := op_exec_status operation, op_approved_by := op_approved_by operation,
         op_exit_code := op_exit_code operation, op_stdout_log := op_stdout_log operation,
         op_stderr_log := op_stderr_log operation, op_started_at := op_started_at operation,
         op_finished_at := op_finished_at operation\<rparr>) (pt_operations db)\<rparr>)"

subsection \<open>Nodes\<close>

definition inet_column :: "pg_env \<Rightarrow> string option \<Rightarrow> string + string option" where
  "inet_column e ip =
     (case ip of
        None \<Rightarrow> Inr None
      | Some raw \<Rightarrow> result_bind (ok_or (''invalid input syntax for type inet: '' @ raw) (pe_inet_text e raw)) (\<lambda>t. Inr (Some t)))"

definition pg_node_row :: "pg_env \<Rightarrow> node_record \<Rightarrow> string + pg_node" where
  "pg_node_row e node =
     result_bind (inet_column e (nd_public_ip node)) (\<lambda>public_ip.
     result_bind (inet_column e (nd_private_ip node)) (\<lambda>private_ip.
       let i = nd_identity node
       in Inr \<lparr>qn_id = ni_id i, qn_node_code = ni_node_code i, qn_name = ni_name i, qn_region = ni_region i, qn_idc = ni_idc i,
         qn_labels = nd_labels node, qn_hostname = nd_hostname node, qn_public_ip = public_ip, qn_private_ip = private_ip,
         qn_status = node_status_name (ni_status i), qn_pingora_version = nd_pingora_version node,
         qn_agent_version = nd_agent_version node, qn_last_seen_at = nr_last_seen_at (nd_runtime node)\<rparr>))"

definition pg_save_node :: "pg_env \<Rightarrow> node_record \<Rightarrow> (unit, 'x) pg" where
  "pg_save_node e node = transaction (pe_fails e)
     (eff_bind (sql_check (pe_fails e) (\<lambda>db.
        result_bind (pg_node_row e node) (\<lambda>row. Inr (db\<lparr>pt_nodes := upsert qn_id (\<lambda>old new. new) row (pt_nodes db)\<rparr>)))) (\<lambda>_.
      sql_exec (pe_fails e) (\<lambda>db. db\<lparr>pt_credentials :=
        upsert fst (\<lambda>old new. new) (ni_id (nd_identity node), nd_bootstrap_token node) (pt_credentials db)\<rparr>)))"

definition node_of_row :: "pg_state \<Rightarrow> pg_node \<Rightarrow> node_record" where
  "node_of_row db row =
     (let latest = (case sort_key (\<lambda>h. - qh_reported_at h) (filter (\<lambda>h. qh_node_id h = qn_id row) (pt_heartbeats db)) of
            [] \<Rightarrow> None | h # _ \<Rightarrow> Some h)
      in \<lparr>nd_identity = \<lparr>ni_id = qn_id row, ni_node_code = qn_node_code row, ni_name = qn_name row, ni_region = qn_region row,
            ni_idc = qn_idc row, ni_status = decode_node_status (qn_status row)\<rparr>,
          nd_runtime = \<lparr>nr_active_config_version = Option.bind latest qh_active_config_version,
            nr_last_seen_at = qn_last_seen_at row,
            nr_site_count = of_int (max (unwrap_or 0 (map_option qh_site_count latest)) 0),
            nr_health_score = of_int (max 0 (min (unwrap_or 100 (map_option qh_health_score latest)) 100))\<rparr>,
          nd_labels = qn_labels row, nd_hostname = qn_hostname row, nd_public_ip = qn_public_ip row,
          nd_private_ip = qn_private_ip row,
          nd_bootstrap_token = Option.bind (row_by fst (qn_id row) (pt_credentials db)) snd,
          nd_pingora_version = qn_pingora_version row, nd_agent_version = qn_agent_version row\<rparr>)"

definition pg_node_by_id :: "pg_env \<Rightarrow> uuid \<Rightarrow> (node_record option, 'x) pg" where
  "pg_node_by_id e node_id = sql_query (pe_fails e) (\<lambda>db. map_option (node_of_row db) (row_by qn_id node_id (pt_nodes db)))"

definition pg_node_id_by_code :: "pg_env \<Rightarrow> string \<Rightarrow> (uuid option, 'x) pg" where
  "pg_node_id_by_code e node_code = sql_query (pe_fails e) (\<lambda>db. map_option qn_id (row_by qn_node_code node_code (pt_nodes db)))"

definition pg_list_nodes :: "pg_env \<Rightarrow> (node_record list, 'x) pg" where
  "pg_list_nodes e = sql_query (pe_fails e) (\<lambda>db. map (node_of_row db) (sort_key qn_node_code (pt_nodes db)))"

definition pg_node_delete_guard :: "pg_env \<Rightarrow> uuid \<Rightarrow> (node_delete_guard, 'x) pg" where
  "pg_node_delete_guard e node_id =
     eff_bind (sql_query (pe_fails e) (\<lambda>db. sort_dedup (concat (map (\<lambda>b.
         map qs_site_code (filter (\<lambda>s. qs_id s = qb_site_id b) (pt_sites db)))
       (filter (\<lambda>b. qb_node_id b = node_id) (pt_bindings db)))))) (\<lambda>site_rows.
     eff_bind (sql_query (pe_fails e) (\<lambda>db.
         length (filter (\<lambda>p. qp_primary_node_id p = node_id \<or> qp_standby_node_id p = node_id) (pt_policies db)))) (\<lambda>count.
       eff_return (Inr \<lparr>dg_bound_site_codes = site_rows, dg_failover_policy_count = count\<rparr>)))"

definition policy_of_node :: "uuid \<Rightarrow> pg_policy \<Rightarrow> bool" where
  "policy_of_node node_id p \<longleftrightarrow> qp_primary_node_id p = node_id \<or> qp_standby_node_id p = node_id"

definition event_of_node :: "uuid \<Rightarrow> pg_state \<Rightarrow> pg_event \<Rightarrow> bool" where
  "event_of_node node_id db v \<longleftrightarrow> qf_source_node_id v = node_id \<or> qf_target_node_id v = node_id \<or>
     list_ex (\<lambda>p. qp_id p = qf_policy_id v \<and> policy_of_node node_id p) (pt_policies db)"

definition pg_delete_node :: "pg_env \<Rightarrow> uuid \<Rightarrow> (unit, 'x) pg" where
  "pg_delete_node e node_id = sql_exec (pe_fails e) (\<lambda>db.
     if list_ex (\<lambda>n. qn_id n = node_id) (pt_nodes db)
     then db\<lparr>pt_nodes := filter (\<lambda>n. qn_id n \<noteq> node_id) (pt_nodes db),
       pt_credentials := filter (\<lambda>c. fst c \<noteq> node_id) (pt_credentials db),
       pt_heartbeats := filter (\<lambda>h. qh_node_id h \<noteq> node_id) (pt_heartbeats db),
       pt_bindings := filter (\<lambda>b. qb_node_id b \<noteq> node_id) (pt_bindings db),
       pt_release_status := filter (\<lambda>r. qr_node_id r \<noteq> node_id) (pt_release_status db),
       pt_policies := filter (\<lambda>p. \<not> policy_of_node node_id p) (pt_policies db),
       pt_events := filter (\<lambda>v. \<not> event_of_node node_id db v) (pt_events db),
       pt_operations := update_rows
         (\<lambda>o'. list_ex (\<lambda>v. op_event_id o' = Some (qf_id v) \<and> event_of_node node_id db v) (pt_events db))
         (\<lambda>o'. o'\<lparr>op_event_id := None\<rparr>) (filter (\<lambda>o'. op_node_id o' \<noteq> node_id) (pt_operations db))\<rparr>
     else db)"

definition pg_record_heartbeat :: "pg_env \<Rightarrow> heartbeat_record \<Rightarrow> (unit, 'x) pg" where
  "pg_record_heartbeat e heartbeat = transaction (pe_fails e)
     (eff_bind (sql_exec (pe_fails e) (\<lambda>db. db\<lparr>pt_heartbeats := pt_heartbeats db @
        [\<lparr>qh_node_id = hb_node_id heartbeat, qh_active_config_version = hb_active_config_version heartbeat,
          qh_site_count = min (uint (hb_site_count heartbeat)) 2147483647, qh_health_score = uint (hb_health_score heartbeat),
          qh_reported_at = hb_reported_at heartbeat\<rparr>]\<rparr>)) (\<lambda>_.
      sql_exec (pe_fails e) (\<lambda>db. db\<lparr>pt_nodes := update_rows (\<lambda>n. qn_id n = hb_node_id heartbeat)
        (\<lambda>n. n\<lparr>qn_status := (if qn_status n = ''maintenance'' then ''maintenance'' else ''online''),
          qn_pingora_version := Some (hb_pingora_version heartbeat), qn_agent_version := Some (hb_agent_version heartbeat),
          qn_last_seen_at := Some (hb_reported_at heartbeat)\<rparr>) (pt_nodes db)\<rparr>)))"

subsection \<open>Sites\<close>

definition pg_save_site :: "pg_env \<Rightarrow> site_record \<Rightarrow> (unit, 'x) pg" where
  "pg_save_site e site = transaction (pe_fails e)
     (eff_bind (sql_exec (pe_fails e) (\<lambda>db. db\<lparr>pt_sites := upsert qs_id (\<lambda>old new. new)
        \<lparr>qs_id = st_id site, qs_site_code = st_site_code site, qs_name = st_name site, qs_domain = st_domain site,
         qs_listen_port = uint (st_listen_port site), qs_protocol = protocol_name (st_protocol site),
         qs_tls_enabled = st_tls_enabled site, qs_status = site_status_name (st_status site)\<rparr> (pt_sites db)\<rparr>)) (\<lambda>_.
      eff_bind (sql_exec (pe_fails e) (\<lambda>db. db\<lparr>pt_site_configs := upsert (\<lambda>c. (qc_site_id c, qc_version c)) (\<lambda>old new. new)
        \<lparr>qc_site_id = st_id site, qc_version = min (uint (st_version site)) 2147483647, qc_config_json = st_config site\<rparr>
        (pt_site_configs db)\<rparr>)) (\<lambda>_.
      eff_bind (sql_exec (pe_fails e) (\<lambda>db. db\<lparr>pt_bindings := filter (\<lambda>b. qb_site_id b \<noteq> st_id site) (pt_bindings db)\<rparr>)) (\<lambda>_.
        eff_each (\<lambda>binding. sql_exec (pe_fails e) (\<lambda>db. db\<lparr>pt_bindings := pt_bindings db @
          [\<lparr>qb_site_id = st_id site, qb_node_id = sb_node_id binding, qb_binding_role = sb_binding_role binding,
            qb_priority = sb_priority binding\<rparr>]\<rparr>)) (st_bindings site)))))"

definition pg_load_site_bindings :: "pg_env \<Rightarrow> uuid \<Rightarrow> (site_binding_record list, 'x) pg" where
  "pg_load_site_bindings e site_id = sql_query (pe_fails e) (\<lambda>db.
     map (\<lambda>b. \<lparr>sb_node_id = qb_node_id b, sb_binding_role = qb_binding_role b, sb_priority = qb_priority b\<rparr>)
       (sort_key qb_priority (filter (\<lambda>b. qb_site_id b = site_id) (pt_bindings db))))"

definition joined_site :: "pg_state \<Rightarrow> pg_site \<Rightarrow> pg_site \<times> pg_site_config option" where
  "joined_site db s =
     (s, case sort_key (\<lambda>c. - qc_version c) (filter (\<lambda>c. qc_site_id c = qs_id s) (pt_site_configs db)) of
           [] \<Rightarrow> None | c # _ \<Rightarrow> Some c)"

definition site_of_row :: "pg_site \<times> pg_site_config option \<Rightarrow> site_binding_record list \<Rightarrow> site_record" where
  "site_of_row row bindings =
     (case row of (s, c) \<Rightarrow>
        \<lparr>st_id = qs_id s, st_site_code = qs_site_code s, st_name = qs_name s, st_domain = qs_domain s,
         st_listen_port = of_int (max 0 (min (qs_listen_port s) 65535)), st_protocol = decode_protocol (qs_protocol s),
         st_tls_enabled = qs_tls_enabled s, st_status = decode_site_status (qs_status s),
         st_version = of_int (max (unwrap_or 1 (map_option qc_version c)) 1),
         st_config = unwrap_or (JObject []) (map_option qc_config_json c), st_bindings = bindings\<rparr>)"

definition pg_site_by_id :: "pg_env \<Rightarrow> uuid \<Rightarrow> (site_record option, 'x) pg" where
  "pg_site_by_id e site_id =
     eff_bind (sql_query (pe_fails e) (\<lambda>db. map_option (joined_site db) (row_by qs_id site_id (pt_sites db)))) (\<lambda>row.
       case row of
         None \<Rightarrow> eff_return (Inr None)
       | Some row \<Rightarrow> eff_bind (pg_load_site_bindings e site_id) (\<lambda>bindings. eff_return (Inr (Some (site_of_row row bindings)))))"

definition pg_site_id_by_code :: "pg_env \<Rightarrow> string \<Rightarrow> (uuid option, 'x) pg" where
  "pg_site_id_by_code e site_code = sql_query (pe_fails e) (\<lambda>db. map_option qs_id (row_by qs_site_code site_code (pt_sites db)))"

fun eff_collect :: "('i \<Rightarrow> ('a, 't, 'x) effect) \<Rightarrow> 'i list \<Rightarrow> ('a list, 't, 'x) effect" where
  "eff_collect f [] = eff_return (Inr [])"
| "eff_collect f (i # is) = eff_bind (f i) (\<lambda>x. eff_bind (eff_collect f is) (\<lambda>xs. eff_return (Inr (x # xs))))"

definition pg_list_sites :: "pg_env \<Rightarrow> (site_record list, 'x) pg" where
  "pg_list_sites e =
     eff_bind (sql_query (pe_fails e) (\<lambda>db. map (joined_site db) (sort_key qs_site_code (pt_sites db)))) (\<lambda>rows.
       eff_collect (\<lambda>row. eff_bind (pg_load_site_bindings e (qs_id (fst row))) (\<lambda>bindings.
         eff_return (Inr (site_of_row row bindings)))) rows)"

definition pg_delete_site :: "pg_env \<Rightarrow> uuid \<Rightarrow> (unit, 'x) pg" where
  "pg_delete_site e site_id = sql_exec (pe_fails e) (\<lambda>db.
     db\<lparr>pt_sites := filter (\<lambda>s. qs_id s \<noteq> site_id) (pt_sites db),
       pt_site_configs := filter (\<lambda>c. qc_site_id c \<noteq> site_id) (pt_site_configs db),
       pt_bindings := filter (\<lambda>b. qb_site_id b \<noteq> site_id) (pt_bindings db),
       pt_cert_bindings := filter (\<lambda>b. qx_site_id b \<noteq> site_id) (pt_cert_bindings db),
       pt_certificate_orders := update_rows (\<lambda>o'. qe_site_id o' = Some site_id) (\<lambda>o'. o'\<lparr>qe_site_id := None\<rparr>)
         (pt_certificate_orders db)\<rparr>)"

definition active_policy :: "uuid \<Rightarrow> pg_policy \<Rightarrow> bool" where
  "active_policy site_id p \<longleftrightarrow> qp_scope_type p = ''site'' \<and> qp_scope_id p = site_id \<and> qp_status p = ''active''"

definition pg_update_active_failover_policy_targets :: "pg_env \<Rightarrow> uuid \<Rightarrow> uuid \<Rightarrow> uuid \<Rightarrow> (nat, 'x) pg" where
  "pg_update_active_failover_policy_targets e site_id primary_node_id standby_node_id = sql (pe_fails e) (\<lambda>db.
     (length (filter (active_policy site_id) (pt_policies db)),
      db\<lparr>pt_policies := update_rows (active_policy site_id)
        (\<lambda>p. p\<lparr>qp_primary_node_id := primary_node_id, qp_standby_node_id := standby_node_id\<rparr>) (pt_policies db)\<rparr>))"

subsection \<open>Releases\<close>

definition pg_pending_ack :: node_ack_record where
  "pg_pending_ack = \<lparr>ak_apply_status = ''pending'', ak_current_version = None, ak_message = None, ak_acked_at = None\<rparr>"

definition pg_save_release :: "pg_env \<Rightarrow> release_record \<Rightarrow> (unit, 'x) pg" where
  "pg_save_release e release = transaction (pe_fails e)
     (eff_bind (sql_exec (pe_fails e) (\<lambda>db. db\<lparr>pt_releases := upsert ql_id (\<lambda>old new. new\<lparr>ql_created_at := ql_created_at old\<rparr>)
        \<lparr>ql_id = rl_release_id release, ql_scope_type = rl_scope_type release, ql_scope_id = rl_scope_id release,
         ql_release_type = rl_release_type release, ql_release_version = rl_release_version release,
         ql_manifest_json = pe_bundle_json e (rl_bundle release), ql_reason = Some (rl_reason release),
         ql_status = rl_status release, ql_created_at = rl_created_at release\<rparr> (pt_releases db)\<rparr>)) (\<lambda>_.
      eff_each (\<lambda>node_id. sql_exec (pe_fails e) (\<lambda>db. db\<lparr>pt_release_status :=
        upsert (\<lambda>r. (qr_release_id r, qr_node_id r)) (\<lambda>old new. new)
          \<lparr>qr_release_id = rl_release_id release, qr_node_id = node_id, qr_target_version = rl_release_version release,
           qr_ack = unwrap_or pg_pending_ack (hm_get (rl_ack_status release) node_id)\<rparr> (pt_release_status db)\<rparr>))
        (rl_target_node_ids release)))"

definition load_release_acks :: "pg_env \<Rightarrow> uuid \<Rightarrow> ((uuid, node_ack_record) hashmap, 'x) pg" where
  "load_release_acks e release_id = sql_query (pe_fails e) (\<lambda>db.
     fold (\<lambda>r. hm_insert (qr_node_id r) (qr_ack r)) (filter (\<lambda>r. qr_release_id r = release_id) (pt_release_status db)) [])"

definition release_of_row :: "pg_env \<Rightarrow> pg_release \<Rightarrow> (release_record, 'x) pg" where
  "release_of_row e row =
     eff_bind (eff_return (ok_or ''serialization error'' (pe_bundle_of_json e (ql_manifest_json row)))) (\<lambda>bundle.
     eff_bind (load_release_acks e (ql_id row)) (\<lambda>ack_status.
       eff_return (Inr \<lparr>rl_release_id = ql_id row, rl_scope_type = ql_scope_type row, rl_scope_id = ql_scope_id row,
         rl_release_type = ql_release_type row, rl_release_version = ql_release_version row,
         rl_reason = unwrap_or [] (ql_reason row), rl_status = ql_status row, rl_bundle = bundle,
         rl_target_node_ids = map fst ack_status, rl_ack_status = ack_status, rl_created_at = ql_created_at row\<rparr>)))"

definition optional_release :: "pg_env \<Rightarrow> (pg_state \<Rightarrow> pg_release option) \<Rightarrow> (release_record option, 'x) pg" where
  "optional_release e select =
     eff_bind (sql_query (pe_fails e) select) (\<lambda>row.
       case row of
         None \<Rightarrow> eff_return (Inr None)
       | Some row \<Rightarrow> eff_bind (release_of_row e row) (\<lambda>release. eff_return (Inr (Some release))))"

definition pg_release_by_id :: "pg_env \<Rightarrow> uuid \<Rightarrow> (release_record option, 'x) pg" where
  "pg_release_by_id e release_id = optional_release e (\<lambda>db. row_by ql_id release_id (pt_releases db))"

definition pg_release_by_version :: "pg_env \<Rightarrow> string \<Rightarrow> (release_record option, 'x) pg" where
  "pg_release_by_version e version = optional_release e (\<lambda>db. row_by ql_release_version version (pt_releases db))"

definition pg_list_releases :: "pg_env \<Rightarrow> (release_record list, 'x) pg" where
  "pg_list_releases e =
     eff_bind (sql_query (pe_fails e) (\<lambda>db. sort_key (\<lambda>r. - ql_created_at r) (pt_releases db))) (eff_collect (release_of_row e))"

definition pg_latest_release_id_for_node :: "pg_env \<Rightarrow> uuid \<Rightarrow> (uuid option, 'x) pg" where
  "pg_latest_release_id_for_node e node_id = sql_query (pe_fails e) (\<lambda>db.
     case sort_key (\<lambda>cr. - ql_created_at cr) (List.map_filter (\<lambda>r. row_by ql_id (qr_release_id r) (pt_releases db))
         (filter (\<lambda>r. qr_node_id r = node_id) (pt_release_status db))) of
       [] \<Rightarrow> None | cr # _ \<Rightarrow> Some (ql_id cr))"

definition pg_update_release_ack :: "pg_env \<Rightarrow> uuid \<Rightarrow> uuid \<Rightarrow> node_ack_record \<Rightarrow> (unit, 'x) pg" where
  "pg_update_release_ack e release_id node_id ack =
     eff_bind (sql_exec (pe_fails e) (\<lambda>db. db\<lparr>pt_release_status := update_rows
        (\<lambda>r. qr_release_id r = release_id \<and> qr_node_id r = node_id) (\<lambda>r. r\<lparr>qr_ack := ack\<rparr>) (pt_release_status db)\<rparr>)) (\<lambda>_.
     eff_bind (load_release_acks e release_id) (\<lambda>acks.
       sql_exec (pe_fails e) (\<lambda>db. db\<lparr>pt_releases := update_rows (\<lambda>r. ql_id r = release_id)
         (\<lambda>r. r\<lparr>ql_status := aggregate_release_status acks\<rparr>) (pt_releases db)\<rparr>)))"

end
