(* ===== verification/Pg_Refines.thy ===== *)
theory Pg_Refines
  imports Pg_Store
begin

text \<open>
  What the repository in the database promises. A site that was saved is read back as it was; the sessions and
  users of the administrators behave as those of the repository in memory, method by method.
\<close>

subsection \<open>Rows by their key\<close>

named_theorems row_simps \<open>rows after a statement\<close>

lemma row_by_Nil [row_simps, simp]: "row_by key k [] = None"
  by (simp add: row_by_def)

lemma row_by_Cons [row_simps, simp]: "row_by key k (r # rs) = (if key r = k then Some r else row_by key k rs)"
  by (simp add: row_by_def)

lemma row_by_append: "row_by key k (rs @ ss) = (case row_by key k rs of None \<Rightarrow> row_by key k ss | Some r \<Rightarrow> Some r)"
  by (induction rs) simp_all

lemma row_by_None: "row_by key k rows = None \<longleftrightarrow> \<not> list_ex (\<lambda>r. key r = k) rows"
  by (induction rows) auto

lemma row_by_Some_key: "row_by key k rows = Some r \<Longrightarrow> key r = k \<and> r \<in> set rows"
  by (induction rows) (auto split: if_splits)

lemma row_by_update:
  assumes "\<And>r. P r \<Longrightarrow> key (f r) = key r"
  shows "row_by key k (update_rows P f rows) = map_option (\<lambda>r. if P r then f r else r) (row_by key k rows)"
  using assms by (induction rows) (auto simp: update_rows_def)

lemma row_by_upsert:
  assumes "\<And>old. key old = key row \<Longrightarrow> key (merge old row) = key row"
  shows "row_by key k (upsert key merge row rows) =
    (if k = key row then Some (case row_by key k rows of None \<Rightarrow> row | Some old \<Rightarrow> merge old row) else row_by key k rows)"
proof (cases "list_ex (\<lambda>r. key r = key row) rows")
  case True
  have "row_by key k (map (\<lambda>r. if key r = key row then merge r row else r) rows) =
      (if k = key row then map_option (\<lambda>old. merge old row) (row_by key k rows) else row_by key k rows)"
    using assms by (induction rows) auto
  with True show ?thesis by (auto simp: upsert_def row_by_None split: option.splits)
next
  case False
  then have "row_by key (key row) rows = None" by (simp add: row_by_None)
  with False show ?thesis by (auto simp: upsert_def row_by_append split: option.splits)
qed

lemma row_by_filter_key: "row_by key k (filter (\<lambda>r. key r \<noteq> d) rows) = (if k = d then None else row_by key k rows)"
  by (induction rows) auto

lemma row_by_filter:
  assumes "distinct (map key rows)"
  shows "row_by key k (filter P rows) = opt_filter P (row_by key k rows)"
  using assms
proof (induction rows)
  case (Cons r rows)
  have "row_by key (key r) (filter P rows) = None"
    using Cons.prems by (auto simp: row_by_None list_ex_iff intro: rev_image_eqI)
  with Cons show ?case by auto
qed simp

lemma map_key_upsert:
  assumes "\<And>old. key old = key row \<Longrightarrow> key (merge old row) = key row"
  shows "map key (upsert key merge row rows) = (if key row \<in> key ` set rows then map key rows else map key rows @ [key row])"
  using assms by (auto simp: upsert_def list_ex_iff intro: rev_image_eqI)

lemma filter_upsert_other:
  assumes "\<not> P row" "\<And>old. key old = key row \<Longrightarrow> \<not> P old \<and> \<not> P (merge old row)"
  shows "filter P (upsert key merge row rows) = filter P rows"
proof -
  have "filter P (map (\<lambda>r. if key r = key row then merge r row else r) rows) = filter P rows"
    using assms(2) by (induction rows) auto
  with assms(1) show ?thesis by (simp add: upsert_def)
qed

lemma map_key_update: "(\<And>r. P r \<Longrightarrow> key (f r) = key r) \<Longrightarrow> map key (update_rows P f rows) = map key rows"
  by (simp add: update_rows_def)

lemma distinct_map_filter_rows: "distinct (map key rows) \<Longrightarrow> distinct (map key (filter P rows))"
  by (rule distinct_map_filter)

subsection \<open>Sites\<close>

definition site_row :: "site_record \<Rightarrow> pg_site" where
  "site_row site =
     \<lparr>qs_id = st_id site, qs_site_code = st_site_code site, qs_name = st_name site, qs_domain = st_domain site,
      qs_listen_port = uint (st_listen_port site), qs_protocol = protocol_name (st_protocol site),
      qs_tls_enabled = st_tls_enabled site, qs_status = site_status_name (st_status site)\<rparr>"

definition config_row :: "site_record \<Rightarrow> pg_site_config" where
  "config_row site =
     \<lparr>qc_site_id = st_id site, qc_version = min (uint (st_version site)) 2147483647, qc_config_json = st_config site\<rparr>"

definition bind_row :: "uuid \<Rightarrow> site_binding_record \<Rightarrow> pg_binding" where
  "bind_row site_id b =
     \<lparr>qb_site_id = site_id, qb_node_id = sb_node_id b, qb_binding_role = sb_binding_role b, qb_priority = sb_priority b\<rparr>"

lemma fold_append_pg_bindings:
  "fold (\<lambda>b db. db\<lparr>pt_bindings := pt_bindings db @ [f b]\<rparr>) bs db = db\<lparr>pt_bindings := pt_bindings db @ map f bs\<rparr>"
  by (induction bs arbitrary: db) simp_all

lemma pg_save_site_db:
  assumes "pg_save_site e site w = (Inr (), w')"
  shows "w_db w' = (w_db w)\<lparr>pt_sites := upsert qs_id (\<lambda>old new. new) (site_row site) (pt_sites (w_db w)),
    pt_site_configs := upsert (\<lambda>c. (qc_site_id c, qc_version c)) (\<lambda>old new. new) (config_row site) (pt_site_configs (w_db w)),
    pt_bindings := filter (\<lambda>b. qb_site_id b \<noteq> st_id site) (pt_bindings (w_db w)) @ map (bind_row (st_id site)) (st_bindings site)\<rparr>"
  using assms
  by (auto simp: pg_save_site_def transaction_Inr effect_iffs fold_append_pg_bindings site_row_def config_row_def
      bind_row_def [abs_def] dest!: eff_each_exec_Inr)

lemma latest_config:
  assumes "\<forall>c \<in> set configs. qc_site_id c = st_id site \<longrightarrow> qc_version c \<le> qc_version (config_row site)"
  shows "\<exists>rest. sort_key (\<lambda>c. - qc_version c) (filter (\<lambda>c. qc_site_id c = st_id site)
    (upsert (\<lambda>c. (qc_site_id c, qc_version c)) (\<lambda>old new. new) (config_row site) configs)) = config_row site # rest"
proof -
  let ?key = "\<lambda>c. (qc_site_id c, qc_version c)"
  let ?rows = "upsert ?key (\<lambda>old new. new) (config_row site) configs"
  let ?mine = "filter (\<lambda>c. qc_site_id c = st_id site) ?rows"
  have id: "qc_site_id (config_row site) = st_id site" by (simp add: config_row_def)
  have saved: "config_row site \<in> set ?mine"
    using id by (auto simp: upsert_def list_ex_iff image_iff)
  have only: "c = config_row site" if "c \<in> set ?rows" "?key c = ?key (config_row site)" for c
    using that by (auto simp: upsert_def list_ex_iff split: if_splits)
  have le: "qc_version c \<le> qc_version (config_row site)" if "c \<in> set ?mine" for c
    using that assms by (auto simp: upsert_def split: if_splits)
  define sorted_rows where "sorted_rows = sort_key (\<lambda>c. - qc_version c) ?mine"
  have same: "set sorted_rows = set ?mine" by (simp add: sorted_rows_def)
  then obtain c rest where sorted: "sorted_rows = c # rest" using saved by (cases sorted_rows) auto
  then have c: "c \<in> set ?mine" using same by auto
  have "sorted (map (\<lambda>c. - qc_version c) (c # rest))"
    using sorted_sort_key [of "\<lambda>c. - qc_version c" ?mine] unfolding sorted_rows_def [symmetric] sorted .
  moreover have "config_row site \<in> set (c # rest)" using saved same sorted by simp
  ultimately have "qc_version (config_row site) \<le> qc_version c" by auto
  with le [OF c] have "qc_version c = qc_version (config_row site)" by simp
  with c id have "c = config_row site" by (intro only) auto
  with sorted show ?thesis unfolding sorted_rows_def by blast
qed

lemma saved_bindings:
  assumes "sorted (map sb_priority bs)"
  shows "map (\<lambda>b. \<lparr>sb_node_id = qb_node_id b, sb_binding_role = qb_binding_role b, sb_priority = qb_priority b\<rparr>)
    (sort_key qb_priority (filter (\<lambda>b. qb_site_id b = i) (filter (\<lambda>b. qb_site_id b \<noteq> i) rows @ map (bind_row i) bs))) = bs"
proof -
  have keep: "filter (\<lambda>b. qb_site_id b = i) (filter (\<lambda>b. qb_site_id b \<noteq> i) rows @ map (bind_row i) bs) = map (bind_row i) bs"
    by (simp add: bind_row_def comp_def)
  have "sorted (map qb_priority (map (bind_row i) bs))" using assms by (simp add: bind_row_def comp_def)
  then have "sort_key qb_priority (map (bind_row i) bs) = map (bind_row i) bs" by (rule sort_key_id_if_sorted)
  then show ?thesis unfolding keep by (auto simp: bind_row_def intro!: map_idI)
qed

lemma site_of_saved_rows:
  assumes "uint (st_version site) < 2147483648" "0 < uint (st_version site)"
  shows "site_of_row (site_row site, Some (config_row site)) (st_bindings site) = site"
proof -
  have "uint (st_listen_port site) < 65536" using uint_lt2p [of "st_listen_port site"] by simp
  with assms show ?thesis by (simp add: site_of_row_def site_row_def config_row_def)
qed

definition site_in :: "pg_state \<Rightarrow> uuid \<Rightarrow> site_record option" where
  "site_in db i = map_option (\<lambda>s. site_of_row (joined_site db s)
     (map (\<lambda>b. \<lparr>sb_node_id = qb_node_id b, sb_binding_role = qb_binding_role b, sb_priority = qb_priority b\<rparr>)
       (sort_key qb_priority (filter (\<lambda>b. qb_site_id b = i) (pt_bindings db))))) (row_by qs_id i (pt_sites db))"

lemma pg_site_by_id_in: "pg_site_by_id e i w = (Inr found, w') \<Longrightarrow> found = site_in (w_db w) i"
  by (auto simp: pg_site_by_id_def pg_load_site_bindings_def site_in_def effect_iffs split: option.splits)

lemma saved_site_in:
  assumes db: "w_db w1 = (w_db w)\<lparr>pt_sites := upsert qs_id (\<lambda>old new. new) (site_row site) (pt_sites (w_db w)),
    pt_site_configs := upsert (\<lambda>c. (qc_site_id c, qc_version c)) (\<lambda>old new. new) (config_row site) (pt_site_configs (w_db w)),
    pt_bindings := filter (\<lambda>b. qb_site_id b \<noteq> st_id site) (pt_bindings (w_db w)) @ map (bind_row (st_id site)) (st_bindings site)\<rparr>"
    and small: "uint (st_version site) < 2147483648" "0 < uint (st_version site)"
    and newest: "\<forall>c \<in> set (pt_site_configs (w_db w)). qc_site_id c = st_id site \<longrightarrow> qc_version c \<le> uint (st_version site)"
    and bindings: "sorted (map sb_priority (st_bindings site))"
  shows "site_in (w_db w1) (st_id site) = Some site"
proof -
  obtain rest where latest: "sort_key (\<lambda>c. - qc_version c) (filter (\<lambda>c. qc_site_id c = st_id site)
      (upsert (\<lambda>c. (qc_site_id c, qc_version c)) (\<lambda>old new. new) (config_row site) (pt_site_configs (w_db w)))) =
      config_row site # rest"
    using latest_config [of "pt_site_configs (w_db w)" site] newest small by (auto simp: config_row_def)
  have "row_by qs_id (st_id site) (pt_sites (w_db w1)) = Some (site_row site)"
    by (simp add: db row_by_upsert site_row_def split: option.split)
  moreover have "joined_site (w_db w1) (site_row site) = (site_row site, Some (config_row site))"
    using latest by (simp add: db joined_site_def site_row_def)
  moreover have "map (\<lambda>b. \<lparr>sb_node_id = qb_node_id b, sb_binding_role = qb_binding_role b, sb_priority = qb_priority b\<rparr>)
      (sort_key qb_priority (filter (\<lambda>b. qb_site_id b = st_id site) (pt_bindings (w_db w1)))) = st_bindings site"
    using saved_bindings [OF bindings, of "st_id site" "pt_bindings (w_db w)"] by (simp add: db)
  ultimately show ?thesis using site_of_saved_rows [OF small] by (simp add: site_in_def)
qed

lemma other_site_in:
  assumes db: "w_db w1 = (w_db w)\<lparr>pt_sites := upsert qs_id (\<lambda>old new. new) (site_row site) (pt_sites (w_db w)),
    pt_site_configs := upsert (\<lambda>c. (qc_site_id c, qc_version c)) (\<lambda>old new. new) (config_row site) (pt_site_configs (w_db w)),
    pt_bindings := filter (\<lambda>b. qb_site_id b \<noteq> st_id site) (pt_bindings (w_db w)) @ map (bind_row (st_id site)) (st_bindings site)\<rparr>"
    and i: "i \<noteq> st_id site"
  shows "site_in (w_db w1) i = site_in (w_db w) i"
proof -
  have rows: "row_by qs_id i (pt_sites (w_db w1)) = row_by qs_id i (pt_sites (w_db w))"
    using i by (simp add: db row_by_upsert site_row_def)
  have configs: "filter (\<lambda>c. qc_site_id c = i) (pt_site_configs (w_db w1)) = filter (\<lambda>c. qc_site_id c = i) (pt_site_configs (w_db w))"
    unfolding db using i by (simp add: config_row_def) (rule filter_upsert_other, auto)
  have binds: "filter (\<lambda>b. qb_site_id b = i) (pt_bindings (w_db w1)) = filter (\<lambda>b. qb_site_id b = i) (pt_bindings (w_db w))"
    using i by (simp add: db bind_row_def comp_def conj_commute cong: filter_cong) (auto intro: filter_cong)
  have "joined_site (w_db w1) s = joined_site (w_db w) s" if "row_by qs_id i (pt_sites (w_db w)) = Some s" for s
    using row_by_Some_key [OF that] configs by (simp add: joined_site_def)
  with rows binds show ?thesis
    by (cases "row_by qs_id i (pt_sites (w_db w))") (simp_all add: site_in_def)
qed

text \<open>
  C19: A site that was saved in the database is read back as it was. When saving a site succeeds, its version is
  positive, fits the column and is not below the versions saved for it before, and its bindings are in strictly ascending
  order of priority, then reading the site by its identifier, if the statements succeed, gives exactly the saved
  record; and every other site is read as before, if its bindings have different priorities. (The database does
  not fix the order of bindings with equal priorities.)
\<close>

theorem saved_site_read_back:
  assumes save: "pg_save_site e site w = (Inr (), w1)"
    and version: "0 < st_version site" "st_version site < 2147483648"
    and newest: "\<forall>c \<in> set (pt_site_configs (w_db w)). qc_site_id c = st_id site \<longrightarrow> qc_version c \<le> uint (st_version site)"
    and bindings: "sorted_wrt (<) (map sb_priority (st_bindings site))"
    and read: "pg_site_by_id e i w1 = (Inr found, w2)"
  shows "if i = st_id site then found = Some site
    else \<forall>w3 w4 before. w_db w3 = w_db w \<and> pg_site_by_id e' i w3 = (Inr before, w4) \<and>
      (\<forall>other. before = Some other \<longrightarrow> distinct (map sb_priority (st_bindings other))) \<longrightarrow> found = before"
proof -
  have small: "uint (st_version site) < 2147483648" "0 < uint (st_version site)"
    using version by (simp_all add: word_less_def)
  have "sorted (map sb_priority (st_bindings site))" using bindings by (simp add: strict_sorted_iff)
  then show ?thesis
    using pg_site_by_id_in [OF read] saved_site_in [OF pg_save_site_db [OF save] small newest]
      other_site_in [OF pg_save_site_db [OF save], of i]
    by (auto dest: pg_site_by_id_in)
qed

subsection \<open>Sessions of administrators\<close>

definition admin_repr :: "pg_state \<Rightarrow> memory_state \<Rightarrow> bool" where
  "admin_repr db m \<longleftrightarrow> hm_wf (admin_sessions m) \<and> distinct (map as_session_token_hash (pt_admin_sessions db)) \<and>
     (\<forall>h. row_by as_session_token_hash h (pt_admin_sessions db) = hm_get (admin_sessions m) h) \<and>
     (\<forall>i. row_by au_user_id i (pt_admin_users db) = hm_get (admin_users m) i) \<and>
     (\<forall>n. row_by au_username n (pt_admin_users db) = repo_admin_user_by_username m n)"

lemma user_by_username_sessions [simp]:
  "repo_admin_user_by_username (m\<lparr>admin_sessions := sessions\<rparr>) n = repo_admin_user_by_username m n"
  by (simp add: repo_admin_user_by_username_def split: option.split)

lemma admin_repr_sessions:
  assumes "admin_repr db m" "hm_wf sessions" "distinct (map as_session_token_hash rows)"
    and "\<And>h. row_by as_session_token_hash h rows = hm_get sessions h"
  shows "admin_repr (db\<lparr>pt_admin_sessions := rows\<rparr>) (m\<lparr>admin_sessions := sessions\<rparr>)"
  using assms by (simp add: admin_repr_def)

lemma hm_wf_modify_sessions: "hm_wf m \<Longrightarrow> hm_wf (hm_modify k f m)"
  by (simp add: hm_modify_def split: option.split)

lemma pg_save_session_repr:
  assumes "pg_save_admin_session e session w = (Inr (), w')" "admin_repr (w_db w) m"
    and "hm_get (admin_sessions m) (as_session_token_hash session) = None"
  shows "admin_repr (w_db w') (repo_save_admin_session session m)"
proof -
  have new: "row_by as_session_token_hash (as_session_token_hash session) (pt_admin_sessions (w_db w)) = None"
    using assms(2,3) by (simp add: admin_repr_def)
  then have fresh: "\<not> list_ex (\<lambda>s. as_session_token_hash s = as_session_token_hash session) (pt_admin_sessions (w_db w))"
    by (simp add: row_by_None)
  then have notin: "as_session_token_hash session \<notin> as_session_token_hash ` set (pt_admin_sessions (w_db w))"
    by (auto simp: list_ex_iff)
  from fresh have "w_db w' = (w_db w)\<lparr>pt_admin_sessions := pt_admin_sessions (w_db w) @ [session]\<rparr>"
    using assms(1) by (auto simp: pg_save_admin_session_def effect_iffs upsert_def)
  moreover have "admin_repr ((w_db w)\<lparr>pt_admin_sessions := pt_admin_sessions (w_db w) @ [session]\<rparr>)
      (m\<lparr>admin_sessions := hm_insert (as_session_token_hash session) session (admin_sessions m)\<rparr>)"
    using assms(2,3) notin
    by (intro admin_repr_sessions) (auto simp: admin_repr_def row_by_append split: option.splits)
  ultimately show ?thesis by (simp add: repo_save_admin_session_def)
qed

lemma pg_touch_session_repr:
  assumes "pg_touch_admin_session e h t w = (Inr (), w')" "admin_repr (w_db w) m"
  shows "admin_repr (w_db w') (repo_touch_admin_session h t m)"
proof -
  have "w_db w' = (w_db w)\<lparr>pt_admin_sessions := update_rows (\<lambda>s. as_session_token_hash s = h)
      (\<lambda>s. s\<lparr>as_last_seen_at := t\<rparr>) (pt_admin_sessions (w_db w))\<rparr>"
    using assms(1) by (auto simp: pg_touch_admin_session_def effect_iffs)
  moreover have "row_by as_session_token_hash k (update_rows (\<lambda>s. as_session_token_hash s = h)
      (\<lambda>s. s\<lparr>as_last_seen_at := t\<rparr>) (pt_admin_sessions (w_db w))) =
      hm_get (hm_modify h (\<lambda>session. session\<lparr>as_last_seen_at := t\<rparr>) (admin_sessions m)) k" for k
  proof (cases "hm_get (admin_sessions m) k")
    case (Some s)
    then have "row_by as_session_token_hash k (pt_admin_sessions (w_db w)) = Some s"
      using assms(2) by (simp add: admin_repr_def)
    with row_by_Some_key [OF this] Some show ?thesis by (auto simp: row_by_update)
  qed (use assms(2) in \<open>auto simp: row_by_update admin_repr_def\<close>)
  ultimately show ?thesis
    unfolding repo_touch_admin_session_def using assms(2)
    by (auto intro!: admin_repr_sessions hm_wf_modify_sessions simp: admin_repr_def map_key_update)
qed

lemma pg_delete_session_repr:
  assumes "pg_delete_admin_session e h w = (Inr (), w')" "admin_repr (w_db w) m"
  shows "admin_repr (w_db w') (repo_delete_admin_session h m)"
  unfolding repo_delete_admin_session_def
  using assms
  by (auto simp: pg_delete_admin_session_def effect_iffs intro!: admin_repr_sessions distinct_map_filter_rows)
    (auto simp: admin_repr_def row_by_filter_key)

lemma pg_delete_sessions_for_user_repr:
  assumes "pg_delete_admin_sessions_for_user e i keep w = (Inr (), w')" "admin_repr (w_db w) m"
  shows "admin_repr (w_db w') (repo_delete_admin_sessions_for_user i keep m)"
proof -
  let ?rows = "pt_admin_sessions (w_db w)"
  have "w_db w' = (w_db w)\<lparr>pt_admin_sessions :=
      filter (\<lambda>s. as_user_id s \<noteq> i \<or> Some (as_session_token_hash s) = keep) ?rows\<rparr>"
    using assms(1) by (auto simp: pg_delete_admin_sessions_for_user_def effect_iffs split: option.splits intro: filter_cong)
  moreover have "row_by as_session_token_hash h (filter (\<lambda>s. as_user_id s \<noteq> i \<or> Some (as_session_token_hash s) = keep) ?rows) =
      hm_get (hm_retain (\<lambda>h session. as_user_id session \<noteq> i \<or> Some h = keep) (admin_sessions m)) h" for h
    using assms(2) row_by_Some_key [of as_session_token_hash h ?rows]
    by (auto simp: admin_repr_def row_by_filter hm_get_retain opt_filter_def split: option.splits)
  ultimately show ?thesis
    unfolding repo_delete_admin_sessions_for_user_def using assms(2)
    by (auto intro!: admin_repr_sessions distinct_map_filter_rows simp: admin_repr_def)
qed

lemma pg_session_lookup:
  assumes "pg_admin_session_by_token_hash e h w = (Inr c, w')" "admin_repr (w_db w) m"
  shows "c = repo_admin_session_by_token_hash m h \<and> w_db w' = w_db w"
proof -
  have "c = Option.bind (hm_get (admin_sessions m) h) (\<lambda>s. Option.bind (hm_get (admin_users m) (as_user_id s)) (\<lambda>u.
      Some \<lparr>sc_user_id = as_user_id s, sc_username = au_username u, sc_display_name = au_display_name u,
        sc_status = au_status u, sc_expires_at = as_expires_at s\<rparr>))" "w_db w' = w_db w"
    using assms by (auto simp: pg_admin_session_by_token_hash_def effect_iffs admin_repr_def)
  moreover have "au_user_id u = i" if "hm_get (admin_users m) i = Some u" for i u
    using assms(2) that row_by_Some_key unfolding admin_repr_def by metis
  ultimately show ?thesis
    by (auto simp: repo_admin_session_by_token_hash_def split: option.splits)
qed

lemma pg_touch_login_repr:
  assumes "pg_touch_admin_user_login e i t w = (Inr (), w')" "admin_repr (w_db w) m"
  shows "admin_repr (w_db w') (repo_touch_admin_user_login i t m)"
proof -
  let ?touch = "\<lambda>u. u\<lparr>au_last_login_at := Some t\<rparr>"
  have db: "w_db w' = (w_db w)\<lparr>pt_admin_users := update_rows (\<lambda>u. au_user_id u = i) ?touch (pt_admin_users (w_db w))\<rparr>"
    using assms(1) by (auto simp: pg_touch_admin_user_login_def effect_iffs)
  have id: "au_user_id u = k" if "hm_get (admin_users m) k = Some u" for k u
    using assms(2) that row_by_Some_key unfolding admin_repr_def by metis
  have modified: "map_option (\<lambda>u. if au_user_id u = i then ?touch u else u) (hm_get (admin_users m) k) =
      hm_get (hm_modify i ?touch (admin_users m)) k" for k
    using id [of k] by (cases "hm_get (admin_users m) k") auto
  then have "map_option (\<lambda>u. if au_user_id u = i then ?touch u else u) (repo_admin_user_by_username m n) =
      repo_admin_user_by_username (repo_touch_admin_user_login i t m) n" for n
    by (cases "hm_get (admin_user_ids_by_username m) n")
      (simp_all add: repo_admin_user_by_username_def repo_touch_admin_user_login_def del: hm_get_modify)
  with modified show ?thesis
    using assms(2) by (simp add: admin_repr_def db row_by_update) (simp add: repo_touch_admin_user_login_def)
qed


subsection \<open>Samples\<close>

definition sample_pg_env :: pg_env where
  "sample_pg_env = \<lparr>pe_fails = (\<lambda>k. None), pe_inet_text = (\<lambda>ip. Some (ip @ ''/32'')), pe_bundle_json = (\<lambda>b. JNull),
     pe_bundle_of_json = (\<lambda>v. None)\<rparr>"

definition empty_pg :: pg_state where
  "empty_pg = \<lparr>pt_nodes = [], pt_credentials = [], pt_heartbeats = [], pt_sites = [], pt_site_configs = [], pt_bindings = [],
     pt_releases = [], pt_release_status = [], pt_policies = [], pt_events = [], pt_dns_providers = [], pt_dns_zones = [], pt_certificates = [],
     pt_certificate_versions = [], pt_cert_bindings = [], pt_certificate_orders = [], pt_admin_users = [],
     pt_admin_sessions = [], pt_templates = [], pt_operations = []\<rparr>"

definition sample_pg_site :: site_record where
  "sample_pg_site = \<lparr>st_id = 5, st_site_code = ''shop'', st_name = ''Shop'', st_domain = ''shop.io'', st_listen_port = 443,
     st_protocol = Https, st_tls_enabled = True, st_status = Published, st_version = 2, st_config = JObject [],
     st_bindings = [\<lparr>sb_node_id = 7, sb_binding_role = ''primary'', sb_priority = 100\<rparr>,
       \<lparr>sb_node_id = 8, sb_binding_role = ''standby'', sb_priority = 200\<rparr>]\<rparr>"

definition sample_pg_world :: "(pg_state, unit) world" where
  "sample_pg_world = \<lparr>w_db = empty_pg\<lparr>pt_site_configs := [\<lparr>qc_site_id = 5, qc_version = 1, qc_config_json = JNull\<rparr>],
     pt_bindings := [\<lparr>qb_site_id = 5, qb_node_id = 9, qb_binding_role = ''primary'', qb_priority = 100\<rparr>]\<rparr>, w_ext = (), w_clock = 0\<rparr>"

theorem saved_site_read_back_witness:
  "\<exists>w1 w2. pg_save_site sample_pg_env sample_pg_site sample_pg_world = (Inr (), w1) \<and>
     pg_site_by_id sample_pg_env 5 w1 = (Inr (Some sample_pg_site), w2)"
proof -
  let ?save = "pg_save_site sample_pg_env sample_pg_site sample_pg_world"
  have "fst ?save = Inr ()" by code_simp
  then obtain w1 where save: "?save = (Inr (), w1)" by (metis prod.collapse)
  have "case fst (pg_site_by_id sample_pg_env 5 (snd ?save)) of Inl _ \<Rightarrow> False | Inr _ \<Rightarrow> True" by code_simp
  with save obtain found w2 where read: "pg_site_by_id sample_pg_env 5 w1 = (Inr found, w2)"
    by (cases "pg_site_by_id sample_pg_env 5 w1") (auto split: sum.splits)
  have "found = Some sample_pg_site"
    using saved_site_read_back [OF save _ _ _ _ read]
    by (simp add: sample_pg_site_def sample_pg_world_def empty_pg_def)
  with save read show ?thesis by blast
qed

definition sample_pg_session :: admin_session_record where
  "sample_pg_session = \<lparr>as_session_id = 3, as_user_id = 4, as_session_token_hash = ''h'', as_expires_at = 9,
     as_created_at = 0, as_last_seen_at = 0\<rparr>"


text \<open>
  Where the two repositories differ: a template that was used cannot be deleted from the database, while the
  repository in memory deletes it together with its operations; and deleting a node from the database drops its
  acknowledgements and leaves the status of the releases as it was.
\<close>

lemma pg_used_template_stays:
  assumes "list_ex (\<lambda>o'. op_template_id o' = i) (pt_operations (w_db w))"
  shows "\<exists>error w'. pg_delete_operation_template e i w = (Inl error, w') \<and> w_db w' = w_db w"
  using assms by (auto simp: pg_delete_operation_template_def sql_check_def split: option.split)

lemma pg_delete_node_keeps_status:
  assumes "pg_delete_node e i w = (Inr (), w')" "list_ex (\<lambda>n. qn_id n = i) (pt_nodes (w_db w))"
  shows "pt_releases (w_db w') = pt_releases (w_db w) \<and>
    pt_release_status (w_db w') = filter (\<lambda>r. qr_node_id r \<noteq> i) (pt_release_status (w_db w))"
  using assms by (auto simp: pg_delete_node_def effect_iffs)

end
