(* ===== verification/Spec2Isabelle.thy ===== *)
theory Spec2Isabelle
  imports Agent_Hub Redis_Tokens Worker_Mains Pg_Refines
begin

text \<open>
  PingoraMesh: a hub that keeps nodes, sites, releases, certificates and DNS zones, the agent that runs on
  every node, and three workers that watch the hub's database. This development models the programs as
  HOL functions, with the paths below relative to \<open>src/\<close>, and proves what makes them correct.

  \<^bold>\<open>The parts of the program and how they interact.\<close>

  \<^item> The hub (\<open>apps/hub-api\<close>) serves administrators and nodes over HTTP. Its handlers (\<open>main.rs\<close>)
    authenticate a request and call one method of \<open>HubService\<close> (\<open>service.rs\<close>), which checks the request,
    reads and writes the repository (\<open>store.rs\<close>) and the store of node tokens (\<open>token_store.rs\<close>), and
    answers with a value or an \<open>AppError\<close> (\<open>error.rs\<close>).
  \<^item> A node registers with a one-time bootstrap token, sends heartbeats, downloads the newest release
    that names it, applies it and acknowledges it, and runs the operations queued for it. The agent is
    \<open>apps/node-agent\<close>; the release carries the configuration compiled by \<open>crates/config-compiler\<close>.
  \<^item> The status worker (\<open>apps/status-worker\<close>) turns silent nodes to offline; the failover worker
    (\<open>apps/failover-worker\<close>) moves a site to its standby node and changes its DNS record through
    \<open>crates/dns-provider\<close>; the DNS worker (\<open>apps/dns-worker\<close>) takes certificate orders, which the hub
    queues, through the DNS challenge to an issued certificate, and queues renewals.

  \<^bold>\<open>Which theory models what.\<close>

  \<^item> \<open>Prelude\<close>, \<open>Rust_Text\<close>, \<open>Json_Value\<close>, \<open>Ip_Text\<close>: what the sources use of the Rust library. A
    string is the list of its UTF-8 bytes; a \<open>HashMap\<close> is an association list, whose order is that of
    its iteration; \<open>serde_json::Value\<close> is a datatype; \<open>Ipv4Addr\<close> and \<open>Ipv6Addr\<close> are their parsers.
    UUIDs are 128-bit words, and unsigned fields are words of their width.
  \<^item> \<open>Api_Error\<close>: \<open>error.rs\<close>. \<open>Domain\<close>: \<open>crates/domain\<close> and \<open>crates/application\<close>. \<open>Protocol\<close>:
    \<open>crates/protocol\<close>, field by field. \<open>Config_Compiler\<close>: \<open>crates/config-compiler\<close>. \<open>Ops_Template\<close>:
    \<open>crates/ops-orchestrator\<close>. \<open>Dns_Provider\<close>: \<open>crates/dns-provider\<close>. \<open>Site_Config\<close>: the
    site configuration as \<open>store.rs\<close> and \<open>service.rs\<close> read and validate it.
  \<^item> \<open>Hub_Store\<close>: the records of \<open>store.rs\<close> and every method of \<open>MemoryRepository\<close> on one record of
    tables and indexes. \<open>Store_Laws\<close>: the locales \<open>indexed_store\<close> and \<open>indexed_store_delete\<close>, interpreted
    on the six tables that have an index. \<open>Token_Store\<close>: \<open>MemoryTokenStore\<close>, and the trait
    \<open>NodeTokenStore\<close> as the locale \<open>node_token_store\<close>, interpreted on it. \<open>Redis_Tokens\<close>:
    \<open>RedisTokenStore\<close> over a server whose commands are arguments. \<open>Pg_Store\<close>: every method of
    \<open>PostgresRepository\<close> as statements on tables, with the foreign keys of \<open>migrations\<close>; \<open>Pg_Refines\<close>: what
    it promises, compared with \<open>MemoryRepository\<close>.
  \<^item> \<open>Hub_State\<close>: \<open>HubService\<close> and its surroundings. \<open>Hub_Admin\<close>, \<open>Hub_Nodes\<close>, \<open>Hub_Sites\<close>,
    \<open>Hub_Releases\<close>, \<open>Hub_Dns\<close>, \<open>Hub_Certs\<close>, \<open>Hub_Ops\<close>: its methods, one definition each, named as in
    \<open>service.rs\<close>, with the effects and the error returns in the order of the code. \<open>Hub_System\<close>: all of
    them as the steps of one machine. \<open>Hub_Settings\<close>: \<open>crates/infrastructure\<close> and the start of the hub.
    \<open>Hub_Http\<close>: the handlers, headers and cookies and the route table of \<open>main.rs\<close>.
  \<^item> \<open>Agent_Base\<close> and \<open>Node_Agent\<close>: \<open>apps/node-agent/src/main.rs\<close> over a file system, commands
    and a hub that are arguments. \<open>Agent_Hub\<close>: the same agent with the handlers of \<open>Hub_Http\<close> as its hub.
  \<^item> \<open>Worker_Common\<close>: settings and database actions shared by the workers. \<open>Status_Worker\<close>,
    \<open>Failover_Plan\<close> (decisions) and \<open>Failover_Worker\<close> (statements and transaction), \<open>Dns_Worker\<close>
    (queue, claim, present, issue, store; the mock ACME client), \<open>Acme_Client\<close> (the client of a real ACME
    server, \<open>LetsEncryptAcmeClient\<close>) and \<open>Certificate_Lifecycle\<close> (what a round does to the orders, with
    the locale \<open>order_phase\<close> interpreted on both phases). \<open>Worker_Mains\<close>: the three \<open>main\<close> functions,
    with the locale \<open>worker_rounds\<close> for what the rounds of a loop keep.

  \<^bold>\<open>How state and effects are modelled.\<close> An operation of the hub takes the surroundings of the call
  (clock readings, fresh identifiers, hashes and text formats of third-party packages), the request and
  the state, and returns its result together with the state it leaves; a call that fails half-way leaves the
  writes made before. Errors are values of a sum type. A database statement either takes the
  tables to a result and new tables or fails and leaves them; which statements fail is an argument. A
  transaction that fails gives the tables back and keeps what happened outside of the database.
  The agent is a function on a machine: its files, the outcome of commands, and whatever answers its requests.

  \<^bold>\<open>What is shown.\<close>

  \<^item> Repository and hub: each indexed table agrees with its index; in every state reachable from an empty
    hub by any sequence of operations, and by any HTTP requests, the bindings of a site name nodes of the
    hub, orders name zones and zones their providers, the zones of a provider have different names, and an offer
    of a release can be served. Each operation has its
    effect on every branch: registration works once per bootstrap token, a refresh rotates both tokens,
    a change of password ends the other sessions, switching a primary makes the asked node or the first standby
    primary and renumbers the bindings, deleting a node removes it from all that refers to it, a release reaches exactly its attached nodes, an
    acknowledgement changes one node's outcome and the status that follows from it.
  \<^item> HTTP: every administrator route answers 401 without a session, every node route without the token of
    that very node, and neither changes the state; the cookie set by a login opens the session.
  \<^item> Site configuration and compiler: what validation accepts has every route resolved; normalised bindings
    agree with a reference definition; the search for a site code ends with a code that is free.
  \<^item> Workers: the status of a node after a round refines the missed-heartbeat specification; the failover
    policy fires exactly on its condition; a failover that commits switches the bindings of its site and of
    no other, and every table is as described after it; a DNS target is an address of the kind of the record; certificate orders move only along the states of
    the phase that claimed them, the oldest that are ready are settled first, and the certificates that expire first are
    queued for renewal, with the order the next phase needs; a certificate never has two active renewals, in any run of the DNS worker;
    a stored certificate is the only default one of its sites, and its version is above all earlier ones.
  \<^item> Database of the hub: a saved site whose bindings have different priorities is read back as it was, and such other
    sites are left as they were; the sessions
    of administrators refine those of the repository in memory. The two repositories differ in that a used
    template cannot be deleted from the database, and that deleting a node leaves the status of its releases.
  \<^item> Outside services: the token store in Redis refines the one in memory as long as its commands succeed; the
    ACME client registers its account once, prepares the \<open>dns-01\<close> challenge of the ordered name so that the worker
    can present it, uses a stored one again, and returns from its polling loops within a bound, whatever the
    server answers, if each exchange and each timer keeps a bound.
  \<^item> Agent: a release is activated only after it was applied; a failing one leaves the files and the version in
    place and is reported; a release the hub offers is installed and acknowledged by the next
    synchronisation and the one after it has nothing to do; the loop over the pending operations ends.
  \<^item> Error behaviour that is worth knowing is proved as it is: an operation whose command cannot be
    rendered, a failover whose event cannot be finished, and a certificate order whose result cannot be
    written are left in their intermediate state, in which no program takes them up again (a certificate order can be
    reset by an administrator); a node that fails to apply its first release reports that version as its current
    one; the first failover of a DNS name leaves the record with the old address; a node whose tokens cannot be
    stored in Redis has lost its old ones; the reason of a refused ACME order is lost.

  \<^bold>\<open>Loops.\<close> All definitions are total except two loops of unknown length, which are partial functions
  into \<open>option\<close>: \<open>free_site_code\<close> (the search for an unused code) and \<open>pending_operations\<close> (the agent asks
  until the hub has no operation left). Both come with a theorem that they return, for a finite set of
  codes and for a hub with a finite queue. Other loops recurse over their list or counter, or have a
  measure (\<open>trim_start\<close>, \<open>str_replace\<close>, \<open>split_words\<close>, \<open>chunk_lines\<close>, \<open>read_groups\<close>; for \<open>acme_poll\<close> the
  time that is left until the deadline). The loops of the \<open>main\<close> functions are given the clock readings of
  the rounds before the signal to stop. No fuel is used.

  \<^bold>\<open>Not modelled.\<close>

  \<^item> The SQL text itself, which a database outside of the sources runs: the statements are modelled on tables, as
    what they select and change, without the columns nobody reads. A statement that violates a constraint other
    than the use of a template is one of those that fail. The methods of \<open>HubService\<close> are modelled over
    \<open>MemoryRepository\<close>; \<open>HubService::from_config\<close> is not modelled where it connects to PostgreSQL and Redis.
  \<^item> Interleaving: a handler of the hub and a round of a worker run without others in between, so the
    row locks with \<open>SKIP LOCKED\<close> that keep two workers apart are not modelled. A commit that reports an
    error has not committed. Rows that tie under \<open>ORDER BY\<close> keep the order of the table.
  \<^item> Times are integers without the range checks of \<open>chrono\<close>. The priorities that \<open>renumber_bindings\<close> gives are
    integers without the bound of \<open>i32\<close>, which the number of bindings of a site does not reach.
  \<^item> Shell commands of the agent, both those that apply a release and those of the node operations, are outside: they
    have an outcome and an effect on the surroundings, and in the model they do not change the files of the agent, which in
    the program they could.
  \<^item> Every exchange of the ACME client takes a finite time. The client sets no timeout, so in the program a request that is
    never answered does not return.
  \<^item> Timers, signals and logs of the programs, and the endless loop around a round of the agent; HTTP, JSON,
    cryptography and TLS themselves (axum, reqwest, serde, openssl), whose results are arguments; the expiry of
    Redis keys while an operation runs; directories of the agent's file system.
  \<^item> The pages of the console (\<open>console.rs\<close>), which are text for a browser, and the release worker, which
    is a skeleton that only waits.
\<close>

end
